(* ===== verification/Prelude.thy ===== *)
theory Prelude
  imports Main
begin

section \<open>Shared vocabulary of the development\<close>

text \<open>
  This theory holds what every component of the payment back end uses: the computations of a
  request (a function that takes the database state of the session and returns either the
  exception the Python code raises or a value, together with the state the session holds then),
  the weakest precondition of such a computation and the invariants it keeps, and the tables of
  rows that stand for the SQL tables.

  A Python function that raises in the middle leaves the writes it has already made in the SQLAlchemy
  session, so the state is returned in both cases; \<open>atomically\<close> is the request boundary of
  \<^verbatim>\<open>core/database.py\<close>, which commits on a normal return and rolls back on an exception.
\<close>

named_theorems wp_simps \<open>equations that compute the weakest precondition of a computation\<close>
named_theorems keeps_intros \<open>rules that show that a computation keeps an invariant\<close>

subsection \<open>Computations with state and exceptions\<close>

type_synonym ('s, 'e, 'a) op = "'s \<Rightarrow> ('e + 'a) \<times> 's"

definition retE :: "'a \<Rightarrow> ('s, 'e, 'a) op" where
  "retE x = (\<lambda>s. (Inr x, s))"

definition raiseE :: "'e \<Rightarrow> ('s, 'e, 'a) op" where
  "raiseE e = (\<lambda>s. (Inl e, s))"

definition bindE :: "('s, 'e, 'a) op \<Rightarrow> ('a \<Rightarrow> ('s, 'e, 'b) op) \<Rightarrow> ('s, 'e, 'b) op" where
  "bindE m f = (\<lambda>s. case m s of (Inl e, t) \<Rightarrow> (Inl e, t) | (Inr x, t) \<Rightarrow> f x t)"

definition thenE :: "('s, 'e, 'a) op \<Rightarrow> ('s, 'e, 'b) op \<Rightarrow> ('s, 'e, 'b) op" where
  "thenE m n = bindE m (\<lambda>_. n)"

definition readE :: "('s \<Rightarrow> 'a) \<Rightarrow> ('s, 'e, 'a) op" where
  "readE f = (\<lambda>s. (Inr (f s), s))"

definition modE :: "('s \<Rightarrow> 's) \<Rightarrow> ('s, 'e, unit) op" where
  "modE f = (\<lambda>s. (Inr (), f s))"

text \<open>\<open>if not b: raise e\<close>, and \<open>x = lookup(); if x is None: raise e\<close>.\<close>

definition ensure :: "bool \<Rightarrow> 'e \<Rightarrow> ('s, 'e, unit) op" where
  "ensure b e = (if b then retE () else raiseE e)"

definition some_or :: "'e \<Rightarrow> 'a option \<Rightarrow> ('s, 'e, 'a) op" where
  "some_or e x = (case x of None \<Rightarrow> raiseE e | Some y \<Rightarrow> retE y)"

definition of_sum :: "'e + 'a \<Rightarrow> ('s, 'e, 'a) op" where
  "of_sum r = (case r of Inl e \<Rightarrow> raiseE e | Inr x \<Rightarrow> retE x)"

definition whenE :: "bool \<Rightarrow> ('s, 'e, unit) op \<Rightarrow> ('s, 'e, unit) op" where
  "whenE b m = (if b then m else retE ())"

fun forE :: "'a list \<Rightarrow> ('a \<Rightarrow> ('s, 'e, unit) op) \<Rightarrow> ('s, 'e, unit) op" where
  "forE [] f = retE ()"
| "forE (x # xs) f = thenE (f x) (forE xs f)"

text \<open>The session dependency: commit when the handler returns, roll back when it raises.\<close>

definition atomically :: "('s, 'e, 'a) op \<Rightarrow> ('s, 'e, 'a) op" where
  "atomically m = (\<lambda>s. case m s of (Inl e, _) \<Rightarrow> (Inl e, s) | (Inr x, t) \<Rightarrow> (Inr x, t))"

text \<open>\<open>try: m except e: h\<close>, where \<open>m\<close> is the body of a savepoint (\<^verbatim>\<open>session.begin_nested()\<close>).\<close>

definition catchE :: "('s, 'e, 'a) op \<Rightarrow> 'e \<Rightarrow> ('s, 'e, 'a) op \<Rightarrow> ('s, 'e, 'a) op" where
  "catchE m e h = (\<lambda>s. case m s of (Inl e', t) \<Rightarrow> if e' = e then h t else (Inl e', t) | (Inr x, t) \<Rightarrow> (Inr x, t))"

text \<open>
  A computation on a part of the state, with its exceptions injected into a larger type.
\<close>

definition on_part :: "('s \<Rightarrow> 'p) \<Rightarrow> ('p \<Rightarrow> 's \<Rightarrow> 's) \<Rightarrow> ('e \<Rightarrow> 'f) \<Rightarrow>
    ('p, 'e, 'a) op \<Rightarrow> ('s, 'f, 'a) op" where
  "on_part get put err m =
     (\<lambda>s. case m (get s) of (Inl e, p) \<Rightarrow> (Inl (err e), put p s) | (Inr x, p) \<Rightarrow> (Inr x, put p s))"

lemmas op_defs = retE_def raiseE_def bindE_def thenE_def readE_def modE_def ensure_def
  some_or_def of_sum_def whenE_def

subsection \<open>Successful runs, taken apart\<close>

lemma retE_Inr [simp]: "retE x s = (Inr y, t) \<longleftrightarrow> y = x \<and> t = s"
  by (auto simp: retE_def)

lemma raiseE_Inr [simp]: "raiseE e s = (Inr y, t) \<longleftrightarrow> False"
  by (simp add: raiseE_def)

lemma bindE_Inr [simp]:
  "bindE m f s = (Inr y, t) \<longleftrightarrow> (\<exists>x u. m s = (Inr x, u) \<and> f x u = (Inr y, t))"
  by (auto simp: bindE_def split: prod.splits sum.splits)

lemma thenE_Inr [simp]:
  "thenE m n s = (Inr y, t) \<longleftrightarrow> (\<exists>x u. m s = (Inr x, u) \<and> n u = (Inr y, t))"
  by (simp add: thenE_def)

lemma readE_Inr [simp]: "readE f s = (Inr y, t) \<longleftrightarrow> y = f s \<and> t = s"
  by (auto simp: readE_def)

lemma modE_Inr [simp]: "modE f s = (Inr y, t) \<longleftrightarrow> t = f s"
  by (auto simp: modE_def)

lemma ensure_Inr [simp]: "ensure b e s = (Inr y, t) \<longleftrightarrow> b \<and> t = s"
  by (auto simp: ensure_def)

lemma some_or_Inr [simp]: "some_or e x s = (Inr y, t) \<longleftrightarrow> x = Some y \<and> t = s"
  by (auto simp: some_or_def split: option.splits)

lemma of_sum_Inr [simp]: "of_sum r s = (Inr y, t) \<longleftrightarrow> r = Inr y \<and> t = s"
  by (auto simp: of_sum_def split: sum.splits)

lemma atomically_Inr [simp]: "atomically m s = (Inr y, t) \<longleftrightarrow> m s = (Inr y, t)"
  by (auto simp: atomically_def split: prod.splits sum.splits)

lemma catchE_Inr: "catchE m e h s = (Inr y, t) \<longleftrightarrow>
    m s = (Inr y, t) \<or> (\<exists>u. m s = (Inl e, u) \<and> h u = (Inr y, t))"
  by (auto simp: catchE_def split: prod.splits sum.splits)

lemma whenE_Inr [simp]: "whenE b m s = (Inr y, t) \<longleftrightarrow> (if b then m s = (Inr y, t) else t = s)"
  by (auto simp: whenE_def)

lemma on_part_Inr: "on_part get put err m s = (Inr y, t) \<longleftrightarrow> (\<exists>p. m (get s) = (Inr y, p) \<and> t = put p s)"
  by (auto simp: on_part_def split: prod.splits sum.splits)

text \<open>
  \<open>run_simps\<close> turns the run of a sequence of steps into the steps it took, reads and guards resolved.
\<close>

lemma ex_eq_conj: "(\<exists>x. x = a \<and> P x) \<longleftrightarrow> P a"
  by simp

lemma ex_const: "(\<exists>x. P) \<longleftrightarrow> P"
  by simp

lemma run_option:
  "(case x of None \<Rightarrow> m | Some y \<Rightarrow> f y) s = (Inr r, t) \<longleftrightarrow>
     (x = None \<and> m s = (Inr r, t)) \<or> (\<exists>y. x = Some y \<and> f y s = (Inr r, t))"
  by (cases x) auto

lemma run_if: "(if b then m else n) s = (Inr r, t) \<longleftrightarrow> (b \<and> m s = (Inr r, t)) \<or> (\<not> b \<and> n s = (Inr r, t))"
  by simp

lemmas run_simps = bindE_Inr thenE_Inr retE_Inr raiseE_Inr readE_Inr modE_Inr ensure_Inr some_or_Inr of_sum_Inr
  whenE_Inr atomically_Inr prod.inject conj_assoc ex_simps(1,2) ex_eq_conj ex_const

text \<open>Runs computed forwards, one step at a time.\<close>

lemma bindE_readE: "bindE (readE f) k s = k (f s) s"
  by (simp add: bindE_def readE_def)

lemma bindE_retE: "bindE (retE x) k s = k x s"
  by (simp add: bindE_def retE_def)

lemma bindE_some_or: "bindE (some_or e x) k s = (case x of None \<Rightarrow> (Inl e, s) | Some y \<Rightarrow> k y s)"
  by (simp add: bindE_def some_or_def retE_def raiseE_def split: option.splits)

lemma bindE_of_sum: "bindE (of_sum r) k s = (case r of Inl e \<Rightarrow> (Inl e, s) | Inr y \<Rightarrow> k y s)"
  by (simp add: bindE_def of_sum_def retE_def raiseE_def split: sum.splits)

lemma thenE_ensure: "thenE (ensure b e) m s = (if b then m s else (Inl e, s))"
  by (simp add: thenE_def bindE_def ensure_def retE_def raiseE_def)

lemma thenE_modE: "thenE (modE f) m s = m (f s)"
  by (simp add: thenE_def bindE_def modE_def)

lemma thenE_run: "m s = (Inr x, t) \<Longrightarrow> thenE m n s = n t"
  by (simp add: thenE_def bindE_def)

lemma bindE_run: "m s = (Inr x, t) \<Longrightarrow> bindE m f s = f x t"
  by (simp add: bindE_def)

lemmas step_simps = bindE_readE bindE_retE bindE_some_or bindE_of_sum thenE_ensure thenE_modE

text \<open>A request that raises leaves the committed state as it was.\<close>

lemma atomically_Inl: "atomically m s = (Inl e, t) \<Longrightarrow> t = s"
  by (auto simp: atomically_def split: prod.splits sum.splits)

subsection \<open>Weakest preconditions\<close>

definition wp :: "('s, 'e, 'a) op \<Rightarrow> ('a \<Rightarrow> 's \<Rightarrow> bool) \<Rightarrow> ('e \<Rightarrow> 's \<Rightarrow> bool) \<Rightarrow> 's \<Rightarrow> bool" where
  "wp m Q E s = (case m s of (Inl e, t) \<Rightarrow> E e t | (Inr x, t) \<Rightarrow> Q x t)"

lemma wp_retE [wp_simps]: "wp (retE x) Q E s = Q x s"
  by (simp add: wp_def retE_def)

lemma wp_raiseE [wp_simps]: "wp (raiseE e) Q E s = E e s"
  by (simp add: wp_def raiseE_def)

lemma wp_bindE [wp_simps]: "wp (bindE m f) Q E s = wp m (\<lambda>x. wp (f x) Q E) E s"
  by (simp add: wp_def bindE_def split: prod.splits sum.splits)

lemma wp_thenE [wp_simps]: "wp (thenE m n) Q E s = wp m (\<lambda>_. wp n Q E) E s"
  by (simp add: thenE_def wp_bindE)

lemma wp_readE [wp_simps]: "wp (readE f) Q E s = Q (f s) s"
  by (simp add: wp_def readE_def)

lemma wp_modE [wp_simps]: "wp (modE f) Q E s = Q () (f s)"
  by (simp add: wp_def modE_def)

lemma wp_ensure [wp_simps]: "wp (ensure b e) Q E s = (if b then Q () s else E e s)"
  by (simp add: ensure_def wp_retE wp_raiseE)

lemma wp_some_or [wp_simps]:
  "wp (some_or e x) Q E s = (case x of None \<Rightarrow> E e s | Some y \<Rightarrow> Q y s)"
  by (simp add: some_or_def wp_retE wp_raiseE split: option.splits)

lemma wp_of_sum [wp_simps]:
  "wp (of_sum r) Q E s = (case r of Inl e \<Rightarrow> E e s | Inr x \<Rightarrow> Q x s)"
  by (simp add: of_sum_def wp_retE wp_raiseE split: sum.splits)

lemma wp_whenE [wp_simps]: "wp (whenE b m) Q E s = (if b then wp m Q E s else Q () s)"
  by (simp add: whenE_def wp_retE)

lemma wp_if [wp_simps]: "wp (if b then m else n) Q E s = (if b then wp m Q E s else wp n Q E s)"
  by simp

lemma wp_atomically [wp_simps]: "wp (atomically m) Q E s = wp m Q (\<lambda>e _. E e s) s"
  by (simp add: wp_def atomically_def split: prod.splits sum.splits)

lemma wp_mono:
  assumes "wp m Q E s" "\<And>x t. Q x t \<Longrightarrow> Q' x t" "\<And>e t. E e t \<Longrightarrow> E' e t"
  shows "wp m Q' E' s"
  using assms by (auto simp: wp_def split: prod.splits sum.splits)

lemma wp_conj: "wp m (\<lambda>x t. Q x t \<and> Q' x t) (\<lambda>e t. E e t \<and> E' e t) s \<longleftrightarrow> wp m Q E s \<and> wp m Q' E' s"
  by (auto simp: wp_def split: prod.splits sum.splits)

lemma wp_Inr: "wp m Q E s \<Longrightarrow> m s = (Inr x, t) \<Longrightarrow> Q x t"
  by (simp add: wp_def)

lemma wp_Inl: "wp m Q E s \<Longrightarrow> m s = (Inl e, t) \<Longrightarrow> E e t"
  by (simp add: wp_def)

lemma wpI:
  assumes "\<And>x t. m s = (Inr x, t) \<Longrightarrow> Q x t" "\<And>e t. m s = (Inl e, t) \<Longrightarrow> E e t"
  shows "wp m Q E s"
  using assms by (auto simp: wp_def split: prod.splits sum.splits)

lemma wp_catchE [wp_simps]:
  "wp (catchE m e h) Q E s = wp m Q (\<lambda>e' t. if e' = e then wp h Q E t else E e' t) s"
  by (simp add: wp_def catchE_def split: prod.splits sum.splits)

subsection \<open>Invariants\<close>

text \<open>
  \<open>keeps I m\<close>: a run of \<open>m\<close> that returns keeps \<open>I\<close>. A run that raises is undone at the request
  boundary, so \<open>keeps I m\<close> is what makes \<open>I\<close> an invariant of the request \<open>atomically m\<close>.
\<close>

definition keeps :: "('s \<Rightarrow> bool) \<Rightarrow> ('s, 'e, 'a) op \<Rightarrow> bool" where
  "keeps I m \<longleftrightarrow> (\<forall>s x t. I s \<longrightarrow> m s = (Inr x, t) \<longrightarrow> I t)"

lemma keepsI: "(\<And>s x t. I s \<Longrightarrow> m s = (Inr x, t) \<Longrightarrow> I t) \<Longrightarrow> keeps I m"
  by (auto simp: keeps_def)

lemma keepsD: "keeps I m \<Longrightarrow> I s \<Longrightarrow> m s = (Inr x, t) \<Longrightarrow> I t"
  by (auto simp: keeps_def)

lemma keeps_retE [keeps_intros]: "keeps I (retE x)"
  by (simp add: keeps_def)

lemma keeps_raiseE [keeps_intros]: "keeps I (raiseE e)"
  by (simp add: keeps_def)

lemma keeps_readE [keeps_intros]: "keeps I (readE f)"
  by (simp add: keeps_def)

lemma keeps_modE: "(\<And>s. I s \<Longrightarrow> I (f s)) \<Longrightarrow> keeps I (modE f)"
  by (simp add: keeps_def)

lemma keeps_ensure [keeps_intros]: "keeps I (ensure b e)"
  by (simp add: keeps_def)

lemma keeps_some_or [keeps_intros]: "keeps I (some_or e x)"
  by (simp add: keeps_def)

lemma keeps_of_sum [keeps_intros]: "keeps I (of_sum r)"
  by (simp add: keeps_def)

lemma keeps_bindE [keeps_intros]:
  "keeps I m \<Longrightarrow> (\<And>x. keeps I (f x)) \<Longrightarrow> keeps I (bindE m f)"
  unfolding keeps_def bindE_Inr by blast

lemma keeps_thenE [keeps_intros]: "keeps I m \<Longrightarrow> keeps I n \<Longrightarrow> keeps I (thenE m n)"
  by (simp add: thenE_def keeps_bindE)

lemma keeps_whenE [keeps_intros]: "(b \<Longrightarrow> keeps I m) \<Longrightarrow> keeps I (whenE b m)"
  by (simp add: whenE_def keeps_retE)

lemma keeps_if [keeps_intros]:
  "(b \<Longrightarrow> keeps I m) \<Longrightarrow> (\<not> b \<Longrightarrow> keeps I n) \<Longrightarrow> keeps I (if b then m else n)"
  by simp

lemma keeps_option [keeps_intros]:
  "keeps I m \<Longrightarrow> (\<And>y. keeps I (f y)) \<Longrightarrow> keeps I (case x of None \<Rightarrow> m | Some y \<Rightarrow> f y)"
  by (simp split: option.splits)

lemma keeps_prod [keeps_intros]:
  "(\<And>a b. keeps I (f a b)) \<Longrightarrow> keeps I (case p of (a, b) \<Rightarrow> f a b)"
  by (simp split: prod.splits)

lemma keeps_let [keeps_intros]: "(\<And>x. keeps I (f x)) \<Longrightarrow> keeps I (let x = v in f x)"
  by simp

lemma keeps_forE [keeps_intros]:
  "(\<And>x. x \<in> set xs \<Longrightarrow> keeps I (f x)) \<Longrightarrow> keeps I (forE xs f)"
  by (induction xs) (simp_all add: keeps_intros)

lemma keeps_atomically [keeps_intros]: "keeps I m \<Longrightarrow> keeps I (atomically m)"
  by (simp add: keeps_def)

lemma keeps_request: "keeps I m \<Longrightarrow> I s \<Longrightarrow> I (snd (atomically m s))"
  by (cases "m s"; cases "fst (m s)") (auto simp: keeps_def atomically_def)

lemma keeps_catchE [keeps_intros]:
  "keeps I m \<Longrightarrow> keeps I h \<Longrightarrow> keeps I (catchE (atomically m) e h)"
proof (rule keepsI)
  fix s y t
  assume m: "keeps I m" and h: "keeps I h" and s: "I s" and run: "catchE (atomically m) e h s = (Inr y, t)"
  from run consider "m s = (Inr y, t)" | u where "atomically m s = (Inl e, u)" "h u = (Inr y, t)"
    unfolding catchE_Inr by auto
  then show "I t"
  proof cases
    case 1
    with m s show ?thesis by (rule keepsD)
  next
    case 2
    then have "u = s" by (blast dest: atomically_Inl)
    with 2 h s show ?thesis by (blast dest: keepsD)
  qed
qed

lemma keeps_on_part:
  "keeps J m \<Longrightarrow> (\<And>s. I s \<Longrightarrow> J (get s)) \<Longrightarrow> (\<And>s p. I s \<Longrightarrow> J p \<Longrightarrow> I (put p s)) \<Longrightarrow>
   keeps I (on_part get put err m)"
  unfolding keeps_def on_part_Inr by blast

text \<open>
  \<open>yields P m Q\<close>: a run of \<open>m\<close> from a state in \<open>P\<close> that returns ends in \<open>Q\<close>. It carries what a step
  establishes for the steps after it; \<open>keeps I\<close> is the case where nothing more than \<open>I\<close> is needed.
\<close>

definition yields :: "('s \<Rightarrow> bool) \<Rightarrow> ('s, 'e, 'a) op \<Rightarrow> ('a \<Rightarrow> 's \<Rightarrow> bool) \<Rightarrow> bool" where
  "yields P m Q \<longleftrightarrow> (\<forall>s x t. P s \<longrightarrow> m s = (Inr x, t) \<longrightarrow> Q x t)"

lemma yieldsI: "(\<And>s x t. P s \<Longrightarrow> m s = (Inr x, t) \<Longrightarrow> Q x t) \<Longrightarrow> yields P m Q"
  by (auto simp: yields_def)

lemma yieldsD: "yields P m Q \<Longrightarrow> P s \<Longrightarrow> m s = (Inr x, t) \<Longrightarrow> Q x t"
  by (auto simp: yields_def)

lemma keeps_yields: "keeps I m \<longleftrightarrow> yields I m (\<lambda>_. I)"
  by (simp add: keeps_def yields_def)

lemma yields_bindE: "yields P m Q \<Longrightarrow> (\<And>x. yields (Q x) (f x) R) \<Longrightarrow> yields P (bindE m f) R"
  unfolding yields_def bindE_Inr by blast

lemma yields_thenE: "yields P m (\<lambda>_. Q) \<Longrightarrow> yields Q n R \<Longrightarrow> yields P (thenE m n) R"
  unfolding thenE_def by (rule yields_bindE)

lemma yields_pre: "yields P m Q \<Longrightarrow> (\<And>s. P' s \<Longrightarrow> P s) \<Longrightarrow> yields P' m Q"
  by (auto simp: yields_def)

lemma yields_post: "yields P m Q \<Longrightarrow> (\<And>x s. Q x s \<Longrightarrow> Q' x s) \<Longrightarrow> yields P m Q'"
  by (auto simp: yields_def)

lemma yields_read: "(\<And>s. P s \<Longrightarrow> Q (f s) s) \<Longrightarrow> yields P (readE f) Q"
  by (simp add: yields_def)

lemma yields_ensure: "(\<And>s. b \<Longrightarrow> P s \<Longrightarrow> Q () s) \<Longrightarrow> yields P (ensure b e) Q"
  by (simp add: yields_def)

lemma yields_retE: "(\<And>s. P s \<Longrightarrow> Q x s) \<Longrightarrow> yields P (retE x) Q"
  by (simp add: yields_def)

lemma yields_raiseE: "yields P (raiseE e) Q"
  by (simp add: yields_def)

subsection \<open>Tables\<close>

text \<open>
  A table is the list of its rows in insertion order; \<open>lookup_row\<close> is
  \<^verbatim>\<open>session.get\<close> or a \<^verbatim>\<open>select ... where\<close> on a unique column, \<open>update_row\<close> an
  assignment to attributes of the row object that the session flushes.
\<close>

definition lookup_row :: "('r \<Rightarrow> 'k) \<Rightarrow> 'k \<Rightarrow> 'r list \<Rightarrow> 'r option" where
  "lookup_row key k rows = find (\<lambda>r. key r = k) rows"

definition update_row :: "('r \<Rightarrow> 'k) \<Rightarrow> 'k \<Rightarrow> ('r \<Rightarrow> 'r) \<Rightarrow> 'r list \<Rightarrow> 'r list" where
  "update_row key k f rows = map (\<lambda>r. if key r = k then f r else r) rows"

lemma lookup_row_simps [simp]:
  "lookup_row key k [] = None"
  "lookup_row key k (r # rows) = (if key r = k then Some r else lookup_row key k rows)"
  by (simp_all add: lookup_row_def)

lemma lookup_row_append:
  "lookup_row key k (xs @ ys) = (case lookup_row key k xs of None \<Rightarrow> lookup_row key k ys | Some r \<Rightarrow> Some r)"
  by (induction xs) auto

lemma lookup_row_SomeD: "lookup_row key k rows = Some r \<Longrightarrow> r \<in> set rows \<and> key r = k"
  by (induction rows) (auto split: if_splits)

lemma lookup_row_None_iff: "lookup_row key k rows = None \<longleftrightarrow> k \<notin> key ` set rows"
  by (induction rows) auto

lemma lookup_row_distinct:
  "distinct (map key rows) \<Longrightarrow> r \<in> set rows \<Longrightarrow> lookup_row key (key r) rows = Some r"
  by (induction rows) (auto simp: image_iff)

lemma update_row_keys [simp]:
  "(\<And>r. key (f r) = key r) \<Longrightarrow> map key (update_row key k f rows) = map key rows"
  by (simp add: update_row_def)

lemma map_update_row:
  "(\<And>r. g (f r) = g r) \<Longrightarrow> map g (update_row key k f rows) = map g rows"
  by (simp add: update_row_def)

lemma update_row_simps [simp]:
  "update_row key k f [] = []"
  "update_row key k f (r # rows) = (if key r = k then f r else r) # update_row key k f rows"
  by (simp_all add: update_row_def)

lemma length_update_row [simp]: "length (update_row key k f rows) = length rows"
  by (simp add: update_row_def)

lemma set_update_row:
  "set (update_row key k f rows) = (\<lambda>r. if key r = k then f r else r) ` set rows"
  by (simp add: update_row_def)

lemma image_update_row [simp]: "(\<And>r. h (f r) = h r) \<Longrightarrow> h ` set (update_row key k f rows) = h ` set rows"
  by (metis list.set_map map_update_row)

lemma distinct_map_same: "distinct (map key rows) \<Longrightarrow> x \<in> set rows \<Longrightarrow> y \<in> set rows \<Longrightarrow> key x = key y \<Longrightarrow> x = y"
  by (simp add: distinct_map inj_on_def)

lemma filter_key_empty: "k \<notin> key ` set rows \<Longrightarrow> filter (\<lambda>r. key r = k) rows = []"
  by (auto simp: filter_empty_conv)

lemma update_row_absent: "k \<notin> key ` set rows \<Longrightarrow> update_row key k f rows = rows"
  by (induction rows) auto

lemma lookup_update_row:
  assumes "\<And>r. key (f r) = key r"
  shows "lookup_row key j (update_row key k f rows) =
    (if j = k then map_option f (lookup_row key k rows) else lookup_row key j rows)"
  using assms by (induction rows) auto

lemma lookup_update_row_other:
  assumes "\<And>r. key (f r) = key r"
  shows "lookup_row key k (update_row key' j f rows) =
    map_option (\<lambda>r. if key' r = j then f r else r) (lookup_row key k rows)"
  using assms by (induction rows) auto

lemma update_row_other: "y \<in> set rows \<Longrightarrow> key y \<noteq> k \<Longrightarrow> y \<in> set (update_row key k f rows)"
  by (force simp: set_update_row)

lemma update_row_this: "y \<in> set rows \<Longrightarrow> key y = k \<Longrightarrow> f y \<in> set (update_row key k f rows)"
  by (force simp: set_update_row)

lemma sum_filter_update_row:
  fixes h :: "'r \<Rightarrow> int"
  assumes "distinct (map key rows)" "x \<in> set rows"
  shows "sum_list (map h (filter P (update_row key (key x) f rows))) =
    sum_list (map h (filter P rows)) - (if P x then h x else 0) + (if P (f x) then h (f x) else 0)"
  using assms
proof (induction rows)
  case Nil
  then show ?case by simp
next
  case (Cons r rows)
  show ?case
  proof (cases "r = x")
    case True
    with Cons.prems(1) show ?thesis by (simp add: update_row_absent)
  next
    case False
    with Cons.prems have "key r \<noteq> key x" "x \<in> set rows" by auto
    with Cons show ?thesis by simp
  qed
qed

lemma find_Some_prop: "find P xs = Some x \<Longrightarrow> x \<in> set xs \<and> P x"
  by (induction xs) (auto split: if_splits)

lemma find_None_prop: "find P xs = None \<longleftrightarrow> (\<forall>x \<in> set xs. \<not> P x)"
  by (induction xs) auto

subsection \<open>Identifiers\<close>

text \<open>
  A UUID is a natural number; \<open>uuid_generate_v4()\<close> of the database returns the next unused one.
  Its text form is only ever embedded in longer strings (idempotency keys, references), so the
  decimal digits stand for it: what matters is that two identifiers have two texts.
\<close>

type_synonym uuid = nat
type_synonym instant = int

definition digit_char :: "nat \<Rightarrow> char" where
  "digit_char d = ''0123456789'' ! d"

fun uuid_str :: "uuid \<Rightarrow> string" where
  "uuid_str n = (if n < 10 then [digit_char n] else uuid_str (n div 10) @ [digit_char (n mod 10)])"

declare uuid_str.simps [simp del]

lemma digit_char_inj: "d < 10 \<Longrightarrow> e < 10 \<Longrightarrow> digit_char d = digit_char e \<longleftrightarrow> d = e"
  unfolding digit_char_def by (subst nth_eq_iff_index_eq) auto

lemma uuid_str_nonempty [simp]: "uuid_str n \<noteq> []" "[] \<noteq> uuid_str n"
  by (subst uuid_str.simps, simp)+

lemma uuid_str_inj: "uuid_str m = uuid_str n \<Longrightarrow> m = n"
proof (induction m arbitrary: n rule: uuid_str.induct)
  case (1 m)
  note u = uuid_str.simps [of m] uuid_str.simps [of n]
  show ?case
  proof (cases "m < 10")
    case True
    with "1.prems" show ?thesis by (auto simp: u digit_char_inj split: if_splits)
  next
    case m: False
    show ?thesis
    proof (cases "n < 10")
      case True
      with m "1.prems" show ?thesis by (auto simp: u)
    next
      case False
      with m "1.prems" have "uuid_str (m div 10) = uuid_str (n div 10)" "m mod 10 = n mod 10"
        by (simp_all add: u digit_char_inj)
      with "1.IH" [OF m] have "m div 10 = n div 10" "m mod 10 = n mod 10" by simp_all
      then show ?thesis by (metis div_mult_mod_eq)
    qed
  qed
qed

subsection \<open>Traversals that may fail\<close>

fun map_or_fail :: "('a \<Rightarrow> 'e + 'b) \<Rightarrow> 'a list \<Rightarrow> 'e + 'b list" where
  "map_or_fail f [] = Inr []"
| "map_or_fail f (x # xs) = (case f x of Inl e \<Rightarrow> Inl e
     | Inr y \<Rightarrow> (case map_or_fail f xs of Inl e \<Rightarrow> Inl e | Inr ys \<Rightarrow> Inr (y # ys)))"

lemma map_or_fail_Inr: "map_or_fail f xs = Inr ys \<longleftrightarrow> list_all2 (\<lambda>x y. f x = Inr y) xs ys"
proof (induction xs arbitrary: ys)
  case Nil
  show ?case by auto
next
  case (Cons x xs)
  show ?case
    by (cases "f x"; cases "map_or_fail f xs"; cases ys) (auto simp: Cons.IH [symmetric])
qed

lemma map_sum_Inr: "map_sum f g r = Inr y \<longleftrightarrow> (\<exists>z. r = Inr z \<and> y = g z)"
  by (cases r) auto

subsection \<open>Lists of integers\<close>

lemma sum_list_map_uminus: "sum_list (map (\<lambda>x. - f x) xs) = - (sum_list (map f xs) :: int)"
  by (induction xs) simp_all

lemma sum_list_filter_append:
  "sum_list (map f (filter P (xs @ ys))) =
     sum_list (map f (filter P xs)) + (sum_list (map f (filter P ys)) :: int)"
  by simp

lemma sum_indicator: "distinct is \<Longrightarrow> sum_list (map (\<lambda>j. if i = j then x else (0 :: int)) is) = (if i \<in> set is then x else 0)"
  by (induction "is") auto

lemma sum_by_key:
  fixes f :: "'r \<Rightarrow> int"
  assumes "\<forall>e \<in> set es. key e \<in> set is" "distinct is"
  shows "sum_list (map f es) = sum_list (map (\<lambda>i. sum_list (map f (filter (\<lambda>e. key e = i) es))) is)"
  using assms
proof (induction es)
  case Nil
  show ?case by simp
next
  case (Cons e es)
  have "sum_list (map (\<lambda>i. sum_list (map f (filter (\<lambda>x. key x = i) (e # es)))) is)
      = sum_list (map (\<lambda>i. (if key e = i then f e else 0)
          + sum_list (map f (filter (\<lambda>x. key x = i) es))) is)"
    by (intro arg_cong [of _ _ sum_list] map_cong) auto
  also have "\<dots> = sum_list (map (\<lambda>i. if key e = i then f e else 0) is) + sum_list (map f es)"
    using Cons by (simp add: sum_list_addf)
  also have "sum_list (map (\<lambda>i. if key e = i then f e else 0) is) = f e"
    using Cons.prems by (simp add: sum_indicator)
  finally show ?case by simp
qed

lemma sum_list_filter_nonneg:
  "(\<And>x. x \<in> set xs \<Longrightarrow> 0 \<le> f x) \<Longrightarrow> 0 \<le> sum_list (map f (filter P xs) :: int list)"
  by (induction xs) auto

lemma filter_key_single: "distinct (map key rows) \<Longrightarrow> x \<in> set rows \<Longrightarrow> filter (\<lambda>r. key r = key x) rows = [x]"
proof (induction rows)
  case Nil
  then show ?case by simp
next
  case (Cons r rows)
  then show ?case by (cases "r = x") (auto simp: filter_empty_conv image_iff)
qed

lemma find_snoc: "find P (xs @ [x]) = (case find P xs of None \<Rightarrow> if P x then Some x else None | Some y \<Rightarrow> Some y)"
  by (induction xs) auto

lemma wp_returns: "wp m Q (\<lambda>_ _. False) s \<Longrightarrow> \<exists>x t. m s = (Inr x, t) \<and> Q x t"
  by (cases "m s"; cases "fst (m s)") (auto simp: wp_def)

lemma wp_value:
  assumes "wp m (\<lambda>y t. y = x \<and> Q t) (\<lambda>_ _. False) s"
  obtains t where "m s = (Inr x, t)" "Q t"
  using wp_returns [OF assms] by blast

lemma wp_returns_unit: "wp m Q (\<lambda>_ _. False) s \<Longrightarrow> \<exists>t. m s = (Inr (), t) \<and> Q () t"
  by (auto dest: wp_returns)

end
