(* ===== verification/Decimals.thy ===== *)
theory Decimals
  imports Complex_Main Prelude
begin

section \<open>Python's Decimal, as far as the code uses it\<close>

text \<open>
  Amounts become \<^verbatim>\<open>decimal.Decimal\<close> values when a rate or an interest is applied to them. A finite
  Decimal is the rational number it denotes. The operations of the default context round their
  exact result to 28 significant digits, half to even (\<open>ctx_round\<close>); \<^verbatim>\<open>quantize(Decimal("1"),
  ROUND_HALF_UP)\<close> rounds to an integer, half away from zero, and signals when the integer has
  more than 28 digits. The lemmas say when the context rounding changes nothing and how far it
  can be off otherwise.
\<close>

subsection \<open>Number of digits and the adjusted exponent\<close>

fun ndigits :: "nat \<Rightarrow> nat" where
  "ndigits n = (if n < 10 then 1 else Suc (ndigits (n div 10)))"

declare ndigits.simps [simp del]

lemma ndigits_pos [simp]: "0 < ndigits n"
  by (subst ndigits.simps) simp

lemma ndigits_upper: "n < 10 ^ ndigits n"
proof (induction n rule: ndigits.induct)
  case (1 n)
  show ?case
  proof (cases "n < 10")
    case True
    then show ?thesis by (subst ndigits.simps) simp
  next
    case False
    with 1 have "n div 10 < 10 ^ ndigits (n div 10)" by simp
    then have "n < 10 * 10 ^ ndigits (n div 10)" by (simp add: div_less_iff_less_mult mult.commute)
    with False show ?thesis by (subst ndigits.simps) simp
  qed
qed

lemma ndigits_lower: "0 < n \<Longrightarrow> 10 ^ (ndigits n - 1) \<le> n"
proof (induction n rule: ndigits.induct)
  case (1 n)
  show ?case
  proof (cases "n < 10")
    case True
    with "1.prems" show ?thesis by (subst ndigits.simps) simp
  next
    case False
    with 1 have "10 ^ (ndigits (n div 10) - 1) \<le> n div 10" by simp
    then have "10 * 10 ^ (ndigits (n div 10) - 1) \<le> n"
      by (metis less_eq_div_iff_mult_less_eq mult.commute zero_less_numeral)
    moreover have "10 * 10 ^ (ndigits (n div 10) - 1) = (10 :: nat) ^ ndigits (n div 10)"
      by (metis One_nat_def Suc_pred ndigits_pos power_Suc)
    ultimately show ?thesis using False by (subst ndigits.simps) simp
  qed
qed

text \<open>The power of ten of the leading digit of a positive rational.\<close>

definition adjusted :: "rat \<Rightarrow> int" where
  "adjusted x = (case quotient_of x of (p, q) \<Rightarrow>
     let e = int (ndigits (nat p)) - int (ndigits (nat q))
     in if 10 powi e \<le> x then e else e - 1)"

lemma of_nat_bounds:
  assumes "0 < n"
  shows "(10 :: rat) powi (int (ndigits n) - 1) \<le> of_nat n" "of_nat n < (10 :: rat) powi (int (ndigits n))"
proof -
  have "(10 :: rat) powi (int (ndigits n) - 1) = 10 ^ (ndigits n - 1)"
    by (simp add: power_int_def nat_diff_distrib')
  also have "\<dots> = of_nat (10 ^ (ndigits n - 1))" by simp
  also have "\<dots> \<le> of_nat n" using ndigits_lower [OF assms] of_nat_le_iff by blast
  finally show "(10 :: rat) powi (int (ndigits n) - 1) \<le> of_nat n" .
  have "(of_nat n :: rat) < of_nat (10 ^ ndigits n)" using ndigits_upper of_nat_less_iff by blast
  then show "of_nat n < (10 :: rat) powi (int (ndigits n))" by simp
qed

lemma adjusted_bounds:
  assumes "0 < x"
  shows "10 powi adjusted x \<le> x" "x < 10 powi (adjusted x + 1)"
proof -
  obtain p q where pq: "quotient_of x = (p, q)" by (cases "quotient_of x")
  then have q: "0 < q" and x: "x = of_int p / of_int q"
    using quotient_of_denom_pos quotient_of_div by blast+
  with assms have p: "0 < p" by (simp add: zero_less_divide_iff)
  let ?a = "int (ndigits (nat p))" and ?b = "int (ndigits (nat q))"
  have P: "(10 :: rat) powi (?a - 1) \<le> of_int p" "of_int p < (10 :: rat) powi ?a"
    using of_nat_bounds [of "nat p"] p by (simp_all add: of_nat_nat)
  have Q: "(10 :: rat) powi (?b - 1) \<le> of_int q" "of_int q < (10 :: rat) powi ?b"
    using of_nat_bounds [of "nat q"] q by (simp_all add: of_nat_nat)
  have "x < 10 powi ?a / 10 powi (?b - 1)"
    unfolding x using P Q p q by (intro frac_less) (auto)
  also have "\<dots> = 10 powi (?a - (?b - 1))"
    by (subst power_int_diff) auto
  also have "?a - (?b - 1) = ?a - ?b + 1" by simp
  finally have up: "x < 10 powi (?a - ?b + 1)" .
  have "(10 :: rat) powi (?a - ?b - 1) = 10 powi ((?a - 1) - ?b)"
    by (simp add: algebra_simps)
  also have "\<dots> = 10 powi (?a - 1) / (10 :: rat) powi ?b"
    by (subst power_int_diff) auto
  also have "\<dots> \<le> x"
    unfolding x using P Q p q by (intro frac_le) auto
  finally have lo: "10 powi (?a - ?b - 1) \<le> x" .
  show "10 powi adjusted x \<le> x" "x < 10 powi (adjusted x + 1)"
    using up lo by (auto simp: adjusted_def pq Let_def)
qed

subsection \<open>Rounding\<close>

definition round_half_even :: "rat \<Rightarrow> int" where
  "round_half_even y =
     (let f = \<lfloor>y\<rfloor>; d = y - of_int f
      in if d < 1 / 2 then f else if 1 / 2 < d then f + 1 else if even f then f else f + 1)"

lemma round_half_even_int [simp]: "round_half_even (of_int k) = k"
  by (simp add: round_half_even_def)

lemma round_half_even_error: "\<bar>of_int (round_half_even y) - y\<bar> \<le> 1 / 2"
proof -
  have "of_int \<lfloor>y\<rfloor> \<le> y" "y < of_int \<lfloor>y\<rfloor> + 1" by linarith+
  then show ?thesis by (auto simp: round_half_even_def Let_def abs_le_iff)
qed

definition prec :: int where
  "prec = 28"

definition ctx_round :: "rat \<Rightarrow> rat" where
  "ctx_round x = (if x = 0 then 0 else
     let u = 10 powi (adjusted \<bar>x\<bar> - (prec - 1))
     in sgn x * of_int (round_half_even (\<bar>x\<bar> / u)) * u)"

text \<open>A value with at most 28 digits is left alone.\<close>

lemma ctx_round_exact:
  assumes x: "x = of_int m * 10 powi e" and m: "\<bar>m\<bar> < 10 ^ 28"
  shows "ctx_round x = x"
proof (cases "m = 0")
  case True
  with x show ?thesis by (simp add: ctx_round_def)
next
  case False
  define u where "u = adjusted \<bar>x\<bar> - (prec - 1)"
  have pos: "0 < \<bar>x\<bar>" using False x by simp
  have ax: "\<bar>x\<bar> = of_int \<bar>m\<bar> * 10 powi e" using x by (simp add: abs_mult)
  have ue: "u \<le> e"
  proof (rule ccontr)
    assume "\<not> u \<le> e"
    then have "28 + e \<le> adjusted \<bar>x\<bar>" by (simp add: u_def prec_def)
    then have "(10 :: rat) powi (28 + e) \<le> 10 powi adjusted \<bar>x\<bar>" by (intro power_int_increasing) auto
    also have "\<dots> \<le> \<bar>x\<bar>" using adjusted_bounds(1) [OF pos] .
    finally have "10 ^ 28 * (10 :: rat) powi e \<le> \<bar>x\<bar>" by (simp add: power_int_add)
    moreover have "of_int \<bar>m\<bar> < (10 :: rat) ^ 28" using m by (metis of_int_less_iff of_int_numeral of_int_power)
    then have "of_int \<bar>m\<bar> * (10 :: rat) powi e < 10 ^ 28 * 10 powi e"
      by (intro mult_strict_right_mono) auto
    ultimately show False using ax by linarith
  qed
  have "\<bar>x\<bar> / 10 powi u = of_int \<bar>m\<bar> * 10 powi (e - u)"
    by (simp add: ax power_int_diff)
  also have "\<dots> = of_int (\<bar>m\<bar> * 10 ^ nat (e - u))"
    using ue by (simp add: power_int_def)
  finally have "of_int (round_half_even (\<bar>x\<bar> / 10 powi u)) * 10 powi u = \<bar>x\<bar>"
    by (metis divide_eq_eq power_int_not_zero round_half_even_int zero_neq_numeral)
  then have "sgn x * (of_int (round_half_even (\<bar>x\<bar> / 10 powi u)) * 10 powi u) = x"
    by (simp add: sgn_mult_abs)
  then show ?thesis using pos by (simp add: ctx_round_def Let_def u_def [symmetric] mult.assoc)
qed

lemma ctx_round_zero [simp]: "ctx_round 0 = 0"
  by (simp add: ctx_round_def)

lemma ctx_round_of_int: "\<bar>m\<bar> < 10 ^ 28 \<Longrightarrow> ctx_round (of_int m) = of_int m"
  by (rule ctx_round_exact [where e = 0]) auto

text \<open>
  Evaluation takes the exact case first: a value with at most eight decimals and 28 digits.
\<close>

definition ctx_round_long :: "rat \<Rightarrow> rat" where
  "ctx_round_long = ctx_round"

lemma ctx_round_long_code [code]:
  "ctx_round_long x = (if x = 0 then 0 else
     let u = 10 powi (adjusted \<bar>x\<bar> - (prec - 1))
     in sgn x * of_int (round_half_even (\<bar>x\<bar> / u)) * u)"
  by (simp add: ctx_round_long_def ctx_round_def)

lemma ctx_round_code [code]:
  "ctx_round x = (case quotient_of x of (a, b) \<Rightarrow>
     if 100000000 mod b = 0 \<and> \<bar>a * (100000000 div b)\<bar> < 10000000000000000000000000000 then x else ctx_round_long x)"
proof -
  obtain a b where q: "quotient_of x = (a, b)" by (cases "quotient_of x")
  then have b: "0 < b" and x: "x = of_int a / of_int b" by (auto intro: quotient_of_denom_pos quotient_of_div)
  show ?thesis
  proof (cases "100000000 mod b = 0 \<and> \<bar>a * (100000000 div b)\<bar> < 10000000000000000000000000000")
    case True
    then have "b dvd 100000000" by auto
    then obtain k where k: "100000000 = b * k" by (rule dvdE)
    with b have "100000000 div b = k" by (metis less_int_code(1) nonzero_mult_div_cancel_left)
    moreover have "x = of_int (a * k) * 10 powi (- 8)"
    proof -
      have "of_int b * of_int k = (of_int 100000000 :: rat)" unfolding k by simp
      then have "of_int b * of_int k = (10 :: rat) ^ 8" by simp
      with b show ?thesis unfolding x by (simp add: power_int_minus field_simps)
    qed
    moreover have "\<bar>a * k\<bar> < 10 ^ 28" using True calculation(1) by simp
    ultimately have "ctx_round x = x" by (intro ctx_round_exact)
    with q True show ?thesis by simp
  next
    case False
    then show ?thesis unfolding ctx_round_long_def by (auto simp: q)
  qed
qed

text \<open>Otherwise the result is off by half a unit in the 28th digit at most.\<close>

lemma ctx_round_error: "\<bar>ctx_round x - x\<bar> \<le> \<bar>x\<bar> / (2 * 10 ^ 27)"
proof (cases "x = 0")
  case True
  then show ?thesis by simp
next
  case False
  define u :: rat where "u = 10 powi (adjusted \<bar>x\<bar> - 27)"
  have u: "0 < u" by (simp add: u_def)
  have "10 ^ 27 * u = 10 powi (27 + (adjusted \<bar>x\<bar> - 27))"
    unfolding u_def power_int_add [OF disjI1, OF zero_neq_numeral [symmetric]] by simp
  also have "\<dots> \<le> \<bar>x\<bar>" using adjusted_bounds(1) [of "\<bar>x\<bar>"] False by simp
  finally have ux: "u / 2 \<le> \<bar>x\<bar> / (2 * 10 ^ 27)" by (simp add: field_simps)
  have "\<bar>of_int (round_half_even (\<bar>x\<bar> / u)) * u - \<bar>x\<bar>\<bar> = \<bar>of_int (round_half_even (\<bar>x\<bar> / u)) - \<bar>x\<bar> / u\<bar> * u"
    using u by (simp add: abs_mult [symmetric] abs_of_pos field_simps)
  also have "\<dots> \<le> 1 / 2 * u"
    using u by (intro mult_right_mono round_half_even_error) auto
  finally have e: "\<bar>of_int (round_half_even (\<bar>x\<bar> / u)) * u - \<bar>x\<bar>\<bar> \<le> u / 2" by simp
  have "ctx_round x - x = sgn x * (of_int (round_half_even (\<bar>x\<bar> / u)) * u - \<bar>x\<bar>)"
    using False by (simp add: ctx_round_def Let_def prec_def u_def algebra_simps abs_mult_sgn)
  then have "\<bar>ctx_round x - x\<bar> = \<bar>of_int (round_half_even (\<bar>x\<bar> / u)) * u - \<bar>x\<bar>\<bar>"
    using False by (simp add: abs_mult abs_sgn_eq)
  with e ux show ?thesis by linarith
qed

text \<open>\<^verbatim>\<open>quantize(Decimal("1"), rounding=ROUND_HALF_UP)\<close>: an integer, or \<^verbatim>\<open>InvalidOperation\<close>.\<close>

definition round_half_up :: "rat \<Rightarrow> int" where
  "round_half_up y = (if 0 \<le> y then \<lfloor>y + 1 / 2\<rfloor> else - \<lfloor>- y + 1 / 2\<rfloor>)"

definition quantize_unit :: "rat \<Rightarrow> int option" where
  "quantize_unit y = (if \<bar>round_half_up y\<bar> < 10 ^ 28 then Some (round_half_up y) else None)"

lemma round_half_up_of_int [simp]: "round_half_up (of_int k) = k"
proof -
  have "\<lfloor>of_int k + 1 / 2 :: rat\<rfloor> = k" "\<lfloor>- of_int k + 1 / 2 :: rat\<rfloor> = - k" by linarith+
  then show ?thesis by (simp add: round_half_up_def)
qed

lemma round_half_up_error: "\<bar>of_int (round_half_up y) - y\<bar> \<le> 1 / 2"
proof -
  have "of_int \<lfloor>y + 1 / 2\<rfloor> \<le> y + 1 / 2" "y + 1 / 2 < of_int \<lfloor>y + 1 / 2\<rfloor> + 1"
    "of_int \<lfloor>- y + 1 / 2\<rfloor> \<le> - y + 1 / 2" "- y + 1 / 2 < of_int \<lfloor>- y + 1 / 2\<rfloor> + 1"
    by linarith+
  then show ?thesis
    by (cases "0 \<le> y") (simp_all only: round_half_up_def if_True if_False of_int_minus abs_le_iff, linarith+)
qed

lemma round_half_up_nonneg: "0 \<le> y \<Longrightarrow> 0 \<le> round_half_up y"
  unfolding round_half_up_def by simp

lemma round_half_up_mono: "0 \<le> x \<Longrightarrow> x \<le> y \<Longrightarrow> round_half_up x \<le> round_half_up y"
  by (simp add: round_half_up_def floor_mono)

lemma round_half_up_ge: "of_int k \<le> y \<Longrightarrow> 0 \<le> k \<Longrightarrow> k \<le> round_half_up y"
  using round_half_up_mono [of "of_int k" y] by simp

end
