(* ===== verification/Money.thy ===== *)
theory Money
  imports Decimals "HOL-Library.List_Lexorder" "HOL-Library.Char_ord"
begin

section \<open>Amounts, balances and currencies of the wallet\<close>

text \<open>
  \<^verbatim>\<open>wallet/domain/money.py\<close>: an amount is a non-negative integer of minor units of a known
  currency, a balance an integer that may be negative. The constructors check, so they return an
  error or the value. Conversions to and from the usual unit go through Decimal.
\<close>

datatype amount_error = InvalidAmount | UnknownCurrency | DecimalSignal | IntegerOverflow

record currency =
  code :: string
  exponent :: nat
  name :: string

definition XOF :: string where
  "XOF = ''XOF''"

definition CURRENCIES :: "(string \<times> currency) list" where
  "CURRENCIES =
    [(''XOF'', \<lparr>code = ''XOF'', exponent = 0, name = ''Franc CFA BCEAO''\<rparr>),
     (''XAF'', \<lparr>code = ''XAF'', exponent = 0, name = ''Franc CFA BEAC''\<rparr>),
     (''EUR'', \<lparr>code = ''EUR'', exponent = 2, name = ''Euro''\<rparr>),
     (''USD'', \<lparr>code = ''USD'', exponent = 2, name = ''Dollar am'' @ [CHR 0xE9] @ ''ricain''\<rparr>),
     (''GBP'', \<lparr>code = ''GBP'', exponent = 2, name = ''Livre sterling''\<rparr>)]"

definition devise :: "string \<Rightarrow> amount_error + currency" where
  "devise c = (case map_of CURRENCIES c of None \<Rightarrow> Inl UnknownCurrency | Some d \<Rightarrow> Inr d)"

lemma devise_XOF [simp]: "devise XOF = Inr \<lparr>code = ''XOF'', exponent = 0, name = ''Franc CFA BCEAO''\<rparr>"
  by (simp add: devise_def CURRENCIES_def XOF_def)

lemma devise_exponent_le: "devise c = Inr d \<Longrightarrow> exponent d \<le> 2"
  by (auto simp: devise_def CURRENCIES_def split: if_splits)

subsection \<open>Money\<close>

datatype money = Money (amount: int) (m_currency: string)

definition mk_money :: "int \<Rightarrow> string \<Rightarrow> amount_error + money" where
  "mk_money a c = (if a < 0 then Inl InvalidAmount
     else case devise c of Inl e \<Rightarrow> Inl e | Inr _ \<Rightarrow> Inr (Money a c))"

definition valid_money :: "money \<Rightarrow> bool" where
  "valid_money m \<longleftrightarrow> 0 \<le> amount m \<and> (\<exists>d. devise (m_currency m) = Inr d)"

lemma mk_money_Inr_iff: "mk_money a c = Inr m \<longleftrightarrow> m = Money a c \<and> valid_money m"
  by (auto simp: mk_money_def valid_money_def split: sum.splits)

lemma mk_money_valid: "valid_money m \<Longrightarrow> mk_money (amount m) (m_currency m) = Inr m"
  by (cases m) (simp add: mk_money_Inr_iff)

text \<open>\<^verbatim>\<open>@dataclass(order=True)\<close>: amounts compare as the pair of amount and currency code.\<close>

instantiation money :: linorder
begin

definition less_eq_money :: "money \<Rightarrow> money \<Rightarrow> bool" where
  "less_eq_money m n \<longleftrightarrow> amount m < amount n \<or> amount m = amount n \<and> m_currency m \<le> m_currency n"

definition less_money :: "money \<Rightarrow> money \<Rightarrow> bool" where
  "less_money m n \<longleftrightarrow> amount m < amount n \<or> amount m = amount n \<and> m_currency m < m_currency n"

instance
  by standard (auto simp: less_eq_money_def less_money_def money.expand)

end

definition money_exponent :: "money \<Rightarrow> amount_error + nat" where
  "money_exponent m = map_sum id exponent (devise (m_currency m))"

text \<open>
  The argument of \<^verbatim>\<open>from_major\<close> is what \<^verbatim>\<open>Decimal(str(value))\<close> reads from it: nothing
  (\<^verbatim>\<open>InvalidOperation\<close>), a finite value, a not-a-number, which differs from itself, or an infinity,
  which is its own integral value and makes \<^verbatim>\<open>int\<close> raise \<^verbatim>\<open>OverflowError\<close>.
\<close>

datatype decimal_input = Unreadable | NotANumber | Infinite | Finite rat

definition from_major :: "decimal_input \<Rightarrow> string \<Rightarrow> amount_error + money" where
  "from_major value c = (case devise c of Inl e \<Rightarrow> Inl e | Inr d \<Rightarrow>
     (case value of Unreadable \<Rightarrow> Inl InvalidAmount | NotANumber \<Rightarrow> Inl InvalidAmount | Infinite \<Rightarrow> Inl IntegerOverflow
      | Finite x \<Rightarrow>
         let mineur = ctx_round (x * 10 powi (int (exponent d)))
         in if mineur \<noteq> of_int \<lfloor>mineur\<rfloor> then Inl InvalidAmount else mk_money \<lfloor>mineur\<rfloor> c))"

definition major_amount :: "money \<Rightarrow> amount_error + rat" where
  "major_amount m = (case devise (m_currency m) of Inl e \<Rightarrow> Inl e | Inr d \<Rightarrow>
     Inr (ctx_round (of_int (amount m) * 10 powi (- int (exponent d)))))"

definition from_db :: "rat \<Rightarrow> string \<Rightarrow> amount_error + money" where
  "from_db value c = (let q = ctx_round value
     in if q \<noteq> of_int \<lfloor>q\<rfloor> then Inl InvalidAmount else mk_money \<lfloor>q\<rfloor> c)"

definition to_db :: "money \<Rightarrow> rat" where
  "to_db m = of_int (amount m)"

definition check_same_currency :: "money \<Rightarrow> money \<Rightarrow> amount_error + unit" where
  "check_same_currency m n = (if m_currency m \<noteq> m_currency n then Inl InvalidAmount else Inr ())"

definition money_add :: "money \<Rightarrow> money \<Rightarrow> amount_error + money" where
  "money_add m n = (case check_same_currency m n of Inl e \<Rightarrow> Inl e
     | Inr _ \<Rightarrow> mk_money (amount m + amount n) (m_currency m))"

definition money_sub :: "money \<Rightarrow> money \<Rightarrow> amount_error + money" where
  "money_sub m n = (case check_same_currency m n of Inl e \<Rightarrow> Inl e
     | Inr _ \<Rightarrow> mk_money (amount m - amount n) (m_currency m))"

definition convertir_montant :: "money \<Rightarrow> string \<Rightarrow> rat \<Rightarrow> amount_error + money" where
  "convertir_montant m cible taux =
    (if taux \<le> 0 then Inl InvalidAmount
     else case devise cible of Inl e \<Rightarrow> Inl e | Inr d \<Rightarrow>
       (case major_amount m of Inl e \<Rightarrow> Inl e | Inr maj \<Rightarrow>
         (case quantize_unit (ctx_round (ctx_round (maj * taux) * 10 powi (int (exponent d)))) of
            None \<Rightarrow> Inl DecimalSignal
          | Some n \<Rightarrow> mk_money n cible)))"

definition is_zero :: "money \<Rightarrow> bool" where
  "is_zero m \<longleftrightarrow> amount m = 0"

definition is_positive :: "money \<Rightarrow> bool" where
  "is_positive m \<longleftrightarrow> 0 < amount m"

subsection \<open>Balance\<close>

datatype balance = Balance (b_amount: int) (b_currency: string)

definition mk_balance :: "int \<Rightarrow> string \<Rightarrow> amount_error + balance" where
  "mk_balance a c = (case devise c of Inl e \<Rightarrow> Inl e | Inr _ \<Rightarrow> Inr (Balance a c))"

definition balance_from_db :: "rat \<Rightarrow> string \<Rightarrow> amount_error + balance" where
  "balance_from_db value c = (let q = ctx_round value
     in if q \<noteq> of_int \<lfloor>q\<rfloor> then Inl InvalidAmount else mk_balance \<lfloor>q\<rfloor> c)"

definition couvre :: "balance \<Rightarrow> money \<Rightarrow> amount_error + bool" where
  "couvre b m = (if b_currency b \<noteq> m_currency m then Inl InvalidAmount else Inr (amount m \<le> b_amount b))"

subsection \<open>Conversions lose nothing\<close>

lemma major_amount_exact:
  assumes "valid_money m" "amount m < 10 ^ 28" "devise (m_currency m) = Inr d"
  shows "major_amount m = Inr (of_int (amount m) * 10 powi (- int (exponent d)))"
  using assms ctx_round_exact [OF refl, of "amount m" "- int (exponent d)"]
  by (simp add: major_amount_def valid_money_def)

lemma from_db_to_db:
  assumes "valid_money m" "amount m < 10 ^ 28"
  shows "from_db (to_db m) (m_currency m) = Inr m"
  using assms mk_money_valid [of m]
  by (simp add: from_db_def to_db_def ctx_round_of_int valid_money_def Let_def)

lemma pow10_cancel [simp]: "(10 :: rat) powi (- int k) * 10 ^ k = 1"
  by (simp add: power_int_minus)

text \<open>Reading back the usual-unit value of an amount gives the amount.\<close>

theorem from_major_major_amount:
  assumes "valid_money m" "amount m < 10 ^ 28"
  shows "\<exists>x. major_amount m = Inr x \<and> from_major (Finite x) (m_currency m) = Inr m"
proof -
  obtain d where d: "devise (m_currency m) = Inr d" using assms by (auto simp: valid_money_def)
  have "from_major (Finite (of_int (amount m) * 10 powi (- int (exponent d)))) (m_currency m) = Inr m"
    using assms d mk_money_valid [of m]
    by (simp add: from_major_def Let_def mult.assoc ctx_round_of_int valid_money_def
        del: power_int_minus_left)
  with major_amount_exact [OF assms d] show ?thesis by blast
qed

theorem from_major_major_amount_witness:
  "\<exists>x. major_amount (Money 1999 ''EUR'') = Inr x \<and> from_major (Finite x) ''EUR'' = Inr (Money 1999 ''EUR'')"
  using from_major_major_amount [of "Money 1999 ''EUR''"] by (simp add: valid_money_def devise_def CURRENCIES_def XOF_def)

text \<open>
  An exchange is the exact product, rounded half up to the target's minor unit, whenever the
  product has at most 28 digits.
\<close>

theorem convertir_montant_exact:
  assumes m: "valid_money m" "amount m < 10 ^ 28" "devise (m_currency m) = Inr d"
    and c: "devise cible = Inr d'"
    and t: "taux = of_int k * 10 powi (- 8)" "0 < k" "amount m * k < 10 ^ 28"
    and r: "convertir_montant m cible taux = Inr r"
  shows "r = Money (round_half_up (of_int (amount m) * taux * 10 powi (int (exponent d') - int (exponent d)))) cible"
proof -
  define n e where "n = amount m * k" and "e = - int (exponent d) - 8"
  have n: "\<bar>n\<bar> < 10 ^ 28" using m t by (simp add: n_def valid_money_def abs_mult)
  have p: "of_int (amount m) * 10 powi (- int (exponent d)) * taux = of_int n * 10 powi e"
    unfolding t(1) n_def e_def by (simp add: power_int_diff power_int_minus field_simps)
  have q: "of_int n * 10 powi e * 10 ^ exponent d' = of_int n * (10 :: rat) powi (e + int (exponent d'))"
    by (subst power_int_add) simp_all
  have "of_int n * (10 :: rat) powi (e + int (exponent d'))
      = of_int (amount m) * taux * 10 powi (int (exponent d') - int (exponent d))"
    unfolding t(1) n_def e_def by (simp add: power_int_diff power_int_add power_int_minus field_simps)
  moreover have "ctx_round (of_int n * 10 powi e) = of_int n * 10 powi e"
    "ctx_round (of_int n * 10 powi e * 10 ^ exponent d') = of_int n * 10 powi (e + int (exponent d'))"
    unfolding q by (rule ctx_round_exact [OF refl n])+
  ultimately show ?thesis
    using r c
    by (auto simp: convertir_montant_def major_amount_exact [OF m] p quantize_unit_def mk_money_Inr_iff
        split: if_splits)
qed

theorem convertir_montant_exact_witness:
  "convertir_montant (Money 1999 ''EUR'') ''XOF'' (of_int 65595700000 * 10 powi (- 8))
     = Inr (Money (round_half_up (1999 * (65595700000 * 10 powi (- 8)) * 10 powi (- 2))) ''XOF'')
   \<and> round_half_up (1999 * (65595700000 * 10 powi (- 8)) * 10 powi (- 2)) = 13113"
proof -
  let ?run = "convertir_montant (Money 1999 ''EUR'') ''XOF'' (of_int 65595700000 * 10 powi (- 8))"
  have v: "valid_money (Money 1999 ''EUR'')" "devise ''EUR'' = Inr \<lparr>code = ''EUR'', exponent = 2, name = ''Euro''\<rparr>"
    "devise ''XOF'' = Inr \<lparr>code = ''XOF'', exponent = 0, name = ''Franc CFA BCEAO''\<rparr>"
    by (simp_all add: valid_money_def devise_def CURRENCIES_def XOF_def)
  have "isl ?run = False" by code_simp
  then obtain r where r: "?run = Inr r" by (cases ?run) auto
  from convertir_montant_exact [OF v(1) _ _ v(3) refl _ _ r] v(2)
  have "r = Money (round_half_up (1999 * (65595700000 * 10 powi (- 8)) * 10 powi (- 2))) ''XOF''"
    by (simp del: power_int_minus_left)
  moreover have "round_half_up (1999 * (65595700000 * 10 powi (- 8)) * 10 powi (- 2)) = 13113" by code_simp
  ultimately show ?thesis using r by simp
qed

end
