(* ===== verification/WalletModel.thy ===== *)
theory WalletModel
  imports Money
begin

section \<open>The wallet: entities, exceptions, tables and repositories\<close>

text \<open>
  \<^verbatim>\<open>wallet/domain/entities.py\<close>, \<^verbatim>\<open>wallet/domain/errors.py\<close>, the SQL tables of
  \<^verbatim>\<open>wallet/infra/models.py\<close> as records, the database state \<open>wallet_db\<close> they form, and the
  repositories of \<^verbatim>\<open>wallet/infra/repositories.py\<close> as computations on it. An insertion that
  violates a constraint of the table raises \<open>IntegrityError\<close>, a value outside \<^verbatim>\<open>NUMERIC(14,2)\<close>
  raises \<open>DataError\<close>. The widths of text columns are not modelled.
\<close>

subsection \<open>Enumerations\<close>

datatype account_type = USER | MERCHANT | TECHNICAL

datatype account_status = ACTIVE | FROZEN | CLOSED

datatype direction = DEBIT | CREDIT

datatype transaction_type = DEPOSIT | WITHDRAWAL | P2P_TRANSFER | MERCHANT_PAYMENT
  | FUND_DISBURSEMENT | FUND_REPAYMENT | CURRENCY_CONVERSION

fun type_str :: "transaction_type \<Rightarrow> string" where
  "type_str DEPOSIT = ''deposit''"
| "type_str WITHDRAWAL = ''withdrawal''"
| "type_str P2P_TRANSFER = ''p2p_transfer''"
| "type_str MERCHANT_PAYMENT = ''merchant_payment''"
| "type_str FUND_DISBURSEMENT = ''fund_disbursement''"
| "type_str FUND_REPAYMENT = ''fund_repayment''"
| "type_str CURRENCY_CONVERSION = ''currency_conversion''"

lemma type_str_inj: "type_str a = type_str b \<longleftrightarrow> a = b"
  by (cases a; cases b) simp_all

datatype transaction_status = Tx_PENDING | Tx_COMPLETED | Tx_FAILED | Tx_REVERSED

subsection \<open>Posting lines and the double-entry check\<close>

record posting_line =
  pl_account :: uuid
  pl_direction :: direction
  pl_money :: money
  pl_reference :: "string option"

datatype unbalanced = TooFewLines | MixedCurrencies | NonPositiveLine | NonZeroSum int | NoEntries

fun sum_lines :: "int \<Rightarrow> posting_line list \<Rightarrow> unbalanced + int" where
  "sum_lines tot [] = Inr tot"
| "sum_lines tot (l # ls) =
     (if \<not> is_positive (pl_money l) then Inl NonPositiveLine
      else sum_lines (tot + (if pl_direction l = CREDIT then amount (pl_money l)
                               else - amount (pl_money l))) ls)"

definition assert_balanced :: "posting_line list \<Rightarrow> unbalanced + unit" where
  "assert_balanced ls =
    (if length ls < 2 then Inl TooFewLines
     else if 1 < card (set (map (m_currency \<circ> pl_money) ls)) then Inl MixedCurrencies
     else case sum_lines 0 ls of Inl e \<Rightarrow> Inl e
       | Inr tot \<Rightarrow> if tot \<noteq> 0 then Inl (NonZeroSum tot) else Inr ())"

subsection \<open>Exceptions\<close>

datatype wexc = AccountNotFound | RecipientNotFound | MerchantNotFound | TransactionNotFound
  | InsufficientBalance int int | AccountNotActive | CannotTransferToSelf | InvalidAmountError
  | GatewayUnavailable | WithdrawalNotSupported | DepositMethodNotSupported
  | ExchangeRateUnavailable | SameCurrencyConversion | CurrencyMismatch
  | IdempotencyKeyRequired | IdempotencyConflict | InvalidQrCodeError | QrCodeExpiredError
  | NotMerchantAccountOwner | PinRequired | InvalidPin | PinLocked | PinAlreadySet
  | StepUpProofAlreadyUsed | RecoveryCodeInvalid | StepUpOtpRequired | InvalidStepUpOtp
  | StepUpOtpExpired | StepUpProofInvalid
  | AmountError amount_error | UnbalancedLedger unbalanced | IntegrityError | DataError
  | NotImplementedError | RuntimeError

text \<open>The HTTP status of the business errors; anything else is answered with 500.\<close>

fun status_code :: "wexc \<Rightarrow> nat" where
  "status_code AccountNotFound = 404"
| "status_code RecipientNotFound = 404"
| "status_code MerchantNotFound = 404"
| "status_code TransactionNotFound = 404"
| "status_code (InsufficientBalance _ _) = 409"
| "status_code AccountNotActive = 409"
| "status_code CannotTransferToSelf = 422"
| "status_code InvalidAmountError = 422"
| "status_code GatewayUnavailable = 502"
| "status_code WithdrawalNotSupported = 422"
| "status_code DepositMethodNotSupported = 422"
| "status_code ExchangeRateUnavailable = 503"
| "status_code SameCurrencyConversion = 422"
| "status_code CurrencyMismatch = 422"
| "status_code IdempotencyKeyRequired = 400"
| "status_code IdempotencyConflict = 409"
| "status_code InvalidQrCodeError = 422"
| "status_code QrCodeExpiredError = 410"
| "status_code NotMerchantAccountOwner = 403"
| "status_code PinRequired = 409"
| "status_code InvalidPin = 403"
| "status_code PinLocked = 423"
| "status_code PinAlreadySet = 409"
| "status_code StepUpProofAlreadyUsed = 409"
| "status_code RecoveryCodeInvalid = 400"
| "status_code StepUpOtpRequired = 409"
| "status_code InvalidStepUpOtp = 403"
| "status_code StepUpOtpExpired = 410"
| "status_code StepUpProofInvalid = 403"
| "status_code _ = 500"

subsection \<open>Tables\<close>

record account =
  acc_id :: uuid
  acc_user :: "uuid option"
  acc_type :: account_type
  acc_currency :: string
  acc_status :: account_status
  acc_reference :: "string option"
  allows_negative_balance :: bool

record ledger_entry =
  le_id :: uuid
  le_account :: uuid
  le_transaction :: uuid
  le_direction :: direction
  le_amount :: int
  le_currency :: string
  le_reference :: "string option"

record transaction =
  tx_id :: uuid
  tx_type :: string
  tx_status :: transaction_status
  tx_origin :: "string option"
  tx_account :: "uuid option"
  tx_business :: "string option"
  tx_amount :: "int option"
  tx_currency :: "string option"
  tx_provider_reference :: "string option"
  tx_gateway_mode :: "string option"
  tx_authorization_url :: "string option"
  tx_access_code :: "string option"
  tx_reverses :: "uuid option"
  tx_key :: "string option"
  tx_created :: instant
  tx_completed :: "instant option"

record gateway_account =
  ga_provider :: string
  ga_account :: uuid

record exchange_rate =
  er_base :: string
  er_quote :: string
  er_rate :: rat
  er_source :: "string option"
  er_valid_from :: instant

record currency_conversion =
  cc_id :: uuid
  cc_account :: uuid
  cc_source_transaction :: uuid
  cc_target_transaction :: uuid
  cc_source_amount :: int
  cc_source_currency :: string
  cc_target_amount :: int
  cc_target_currency :: string
  cc_rate :: rat

record user_phone =
  up_user :: uuid
  up_phone :: string

record transaction_pin =
  pin_account :: uuid
  pin_hash :: string
  pin_salt :: string
  failed_attempts :: int
  locked_until :: "instant option"
  pin_updated :: instant

record recovery_code =
  rc_id :: uuid
  rc_account :: uuid
  rc_hash :: string
  rc_consumed :: "instant option"
  rc_created :: instant

record consumed_proof =
  cp_jti :: uuid
  cp_user :: uuid
  cp_purpose :: string
  cp_expires :: instant

record pin_audit =
  pa_account :: uuid
  pa_actor :: "uuid option"
  pa_action :: string
  pa_reason :: string
  pa_codes_issued :: nat

record event_payload =
  ep_transaction :: uuid
  ep_type :: string
  ep_amount :: int
  ep_currency :: string
  ep_origin :: "string option"

datatype outbox_status = Ob_PENDING | Ob_PUBLISHED

record outbox_event =
  ob_id :: uuid
  ob_name :: string
  ob_payload :: event_payload
  ob_status :: outbox_status
  ob_published :: "instant option"

text \<open>
  The database of the module, with the next identifier \<^verbatim>\<open>uuid_generate_v4()\<close> returns, the time
  \<^verbatim>\<open>datetime.now\<close> reads, and the events the bus has been given.
\<close>

record wallet_db =
  accounts :: "account list"
  entries :: "ledger_entry list"
  transactions :: "transaction list"
  gateway_accounts :: "gateway_account list"
  exchange_rates :: "exchange_rate list"
  conversions :: "currency_conversion list"
  phones :: "user_phone list"
  pins :: "transaction_pin list"
  recovery_codes :: "recovery_code list"
  consumed_proofs :: "consumed_proof list"
  pin_audits :: "pin_audit list"
  outbox :: "outbox_event list"
  bus_events :: "event_payload list"
  next_uuid :: uuid
  clock :: instant

type_synonym 'a wop = "(wallet_db, wexc, 'a) op"

definition empty_wallet :: wallet_db where
  "empty_wallet = \<lparr>accounts = [], entries = [], transactions = [], gateway_accounts = [],
     exchange_rates = [], conversions = [], phones = [], pins = [], recovery_codes = [],
     consumed_proofs = [], pin_audits = [], outbox = [], bus_events = [], next_uuid = 1, clock = 0\<rparr>"

text \<open>Updates are kept in one order, so that equal states look the same.\<close>

lemma next_uuid_last [simp]:
  "s\<lparr>next_uuid := i, accounts := x1\<rparr> = s\<lparr>accounts := x1, next_uuid := i\<rparr>"
  "s\<lparr>next_uuid := i, entries := x2\<rparr> = s\<lparr>entries := x2, next_uuid := i\<rparr>"
  "s\<lparr>next_uuid := i, transactions := x3\<rparr> = s\<lparr>transactions := x3, next_uuid := i\<rparr>"
  "s\<lparr>next_uuid := i, gateway_accounts := x4\<rparr> = s\<lparr>gateway_accounts := x4, next_uuid := i\<rparr>"
  "s\<lparr>next_uuid := i, phones := x5\<rparr> = s\<lparr>phones := x5, next_uuid := i\<rparr>"
  "s\<lparr>next_uuid := i, pins := x6\<rparr> = s\<lparr>pins := x6, next_uuid := i\<rparr>"
  "s\<lparr>next_uuid := i, recovery_codes := x7\<rparr> = s\<lparr>recovery_codes := x7, next_uuid := i\<rparr>"
  "s\<lparr>next_uuid := i, consumed_proofs := x8\<rparr> = s\<lparr>consumed_proofs := x8, next_uuid := i\<rparr>"
  "s\<lparr>next_uuid := i, pin_audits := x9\<rparr> = s\<lparr>pin_audits := x9, next_uuid := i\<rparr>"
  "s\<lparr>next_uuid := i, outbox := x10\<rparr> = s\<lparr>outbox := x10, next_uuid := i\<rparr>"
  "s\<lparr>next_uuid := i, conversions := x11\<rparr> = s\<lparr>conversions := x11, next_uuid := i\<rparr>"
  by simp_all

lemma entries_after_transactions [simp]:
  "s\<lparr>entries := es, transactions := ts\<rparr> = s\<lparr>transactions := ts, entries := es\<rparr>"
  by simp

text \<open>The range of \<^verbatim>\<open>NUMERIC(14, 2)\<close> for an integral value.\<close>

definition numeric_14_2 :: "int \<Rightarrow> bool" where
  "numeric_14_2 a \<longleftrightarrow> \<bar>a\<bar> < 10 ^ 12"

end
