(* ===== verification/WalletRepos.thy ===== *)
theory WalletRepos
  imports WalletModel
begin

section \<open>The repositories of the wallet\<close>

text \<open>
  \<^verbatim>\<open>wallet/infra/repositories.py\<close>: one definition per method. A read is a function of the
  database, a write a computation; \<open>fresh\<close> draws the identifier of a new row.
\<close>

definition fresh :: "uuid wop" where
  "fresh = bindE (readE next_uuid) (\<lambda>i. thenE (modE (\<lambda>s. s\<lparr>next_uuid := Suc i\<rparr>)) (retE i))"

definition now :: "instant wop" where
  "now = readE clock"

subsection \<open>AccountRepository\<close>

definition account_get :: "wallet_db \<Rightarrow> uuid \<Rightarrow> account option" where
  "account_get s i = lookup_row acc_id i (accounts s)"

definition account_by_user :: "wallet_db \<Rightarrow> uuid \<Rightarrow> string \<Rightarrow> account_type \<Rightarrow> account option" where
  "account_by_user s u cur ty =
     find (\<lambda>a. acc_user a = Some u \<and> acc_currency a = cur \<and> acc_type a = ty) (accounts s)"

definition account_by_reference :: "wallet_db \<Rightarrow> string \<Rightarrow> account option" where
  "account_by_reference s r = find (\<lambda>a. acc_reference a = Some r) (accounts s)"

definition account_create :: "uuid option \<Rightarrow> account_type \<Rightarrow> string \<Rightarrow> string option \<Rightarrow> bool \<Rightarrow> account wop" where
  "account_create u ty cur ref neg =
     bindE fresh (\<lambda>i.
     bindE (readE accounts) (\<lambda>rows.
     thenE (ensure (ty = TECHNICAL \<or> u \<noteq> None) IntegrityError)
     (thenE (ensure (u = None \<or> (\<forall>a \<in> set rows. \<not> (acc_user a = u \<and> acc_currency a = cur \<and> acc_type a = ty)))
        IntegrityError)
     (let row = \<lparr>acc_id = i, acc_user = u, acc_type = ty, acc_currency = cur, acc_status = ACTIVE,
                 acc_reference = ref, allows_negative_balance = neg\<rparr>
      in thenE (modE (\<lambda>s. s\<lparr>accounts := accounts s @ [row]\<rparr>)) (retE row)))))"

definition account_set_status :: "uuid \<Rightarrow> account_status \<Rightarrow> unit wop" where
  "account_set_status i st =
     modE (\<lambda>s. s\<lparr>accounts := update_row acc_id i (\<lambda>a. a\<lparr>acc_status := st\<rparr>) (accounts s)\<rparr>)"

definition signed :: "ledger_entry \<Rightarrow> int" where
  "signed e = (if le_direction e = CREDIT then le_amount e else - le_amount e)"

definition account_total :: "wallet_db \<Rightarrow> uuid \<Rightarrow> int" where
  "account_total s i = sum_list (map signed (filter (\<lambda>e. le_account e = i) (entries s)))"

definition account_balance :: "uuid \<Rightarrow> balance wop" where
  "account_balance i =
     bindE (readE (\<lambda>s. (account_total s i, account_get s i))) (\<lambda>(tot, acc).
       of_sum (map_sum AmountError id
         (balance_from_db (of_int tot) (case acc of None \<Rightarrow> XOF | Some a \<Rightarrow> acc_currency a))))"

subsection \<open>LedgerRepository\<close>

definition entry_row :: "uuid \<Rightarrow> uuid \<Rightarrow> uuid \<Rightarrow> direction \<Rightarrow> money \<Rightarrow> string option \<Rightarrow> ledger_entry" where
  "entry_row i acc tx dir m ref = \<lparr>le_id = i, le_account = acc, le_transaction = tx,
     le_direction = dir, le_amount = amount m, le_currency = m_currency m, le_reference = ref\<rparr>"

definition add_entry :: "uuid \<Rightarrow> uuid \<Rightarrow> direction \<Rightarrow> money \<Rightarrow> string option \<Rightarrow> unit wop" where
  "add_entry acc tx dir m ref =
     bindE fresh (\<lambda>i.
     bindE (readE (\<lambda>s. account_get s acc)) (\<lambda>a.
     thenE (ensure (numeric_14_2 (amount m)) DataError)
     (thenE (ensure (a \<noteq> None \<and> 0 < amount m) IntegrityError)
     (modE (\<lambda>s. s\<lparr>entries := entries s @ [entry_row i acc tx dir m ref]\<rparr>)))))"

definition entries_of :: "wallet_db \<Rightarrow> uuid \<Rightarrow> ledger_entry list" where
  "entries_of s tx = filter (\<lambda>e. le_transaction e = tx) (entries s)"

definition entry_for_account :: "wallet_db \<Rightarrow> uuid \<Rightarrow> uuid \<Rightarrow> ledger_entry option" where
  "entry_for_account s tx acc = find (\<lambda>e. le_transaction e = tx \<and> le_account e = acc) (entries s)"

subsection \<open>TransactionRepository\<close>

definition transaction_get :: "wallet_db \<Rightarrow> uuid \<Rightarrow> transaction option" where
  "transaction_get s i = lookup_row tx_id i (transactions s)"

definition get_by_idempotency_key :: "wallet_db \<Rightarrow> string \<Rightarrow> transaction option" where
  "get_by_idempotency_key s k = lookup_row tx_key (Some k) (transactions s)"

definition get_by_provider_reference :: "wallet_db \<Rightarrow> string \<Rightarrow> transaction option" where
  "get_by_provider_reference s r = lookup_row tx_provider_reference (Some r) (transactions s)"

definition update_transaction :: "uuid \<Rightarrow> (transaction \<Rightarrow> transaction) \<Rightarrow> unit wop" where
  "update_transaction i f = modE (\<lambda>s. s\<lparr>transactions := update_row tx_id i f (transactions s)\<rparr>)"

definition marquer :: "uuid \<Rightarrow> transaction_status \<Rightarrow> unit wop" where
  "marquer i st = bindE now (\<lambda>t. update_transaction i (\<lambda>r.
     if st = Tx_COMPLETED then r\<lparr>tx_status := st, tx_completed := Some t\<rparr> else r\<lparr>tx_status := st\<rparr>))"

definition transaction_row :: "uuid \<Rightarrow> string \<Rightarrow> transaction_status \<Rightarrow> string option \<Rightarrow> string option \<Rightarrow>
    instant option \<Rightarrow> uuid option \<Rightarrow> money option \<Rightarrow> uuid option \<Rightarrow> instant \<Rightarrow> transaction" where
  "transaction_row i ty st origin key completed acc m reverses created =
     \<lparr>tx_id = i, tx_type = ty, tx_status = st, tx_origin = origin, tx_account = acc,
      tx_business = None, tx_amount = map_option amount m, tx_currency = map_option m_currency m,
      tx_provider_reference = None, tx_gateway_mode = None, tx_authorization_url = None,
      tx_access_code = None, tx_reverses = reverses, tx_key = key, tx_created = created,
      tx_completed = completed\<rparr>"

definition transaction_create :: "string \<Rightarrow> transaction_status \<Rightarrow> string option \<Rightarrow> string option \<Rightarrow>
    instant option \<Rightarrow> uuid option \<Rightarrow> money option \<Rightarrow> uuid option \<Rightarrow> transaction wop" where
  "transaction_create ty st origin key completed acc m reverses =
     bindE fresh (\<lambda>i.
     bindE (readE id) (\<lambda>s.
     thenE (ensure (case m of None \<Rightarrow> True | Some x \<Rightarrow> numeric_14_2 (amount x)) DataError)
     (thenE (ensure (case key of None \<Rightarrow> True | Some k \<Rightarrow> get_by_idempotency_key s k = None) IntegrityError)
     (thenE (ensure (case acc of None \<Rightarrow> True | Some a \<Rightarrow> account_get s a \<noteq> None) IntegrityError)
     (let row = transaction_row i ty st origin key completed acc m reverses (clock s)
      in thenE (modE (\<lambda>s. s\<lparr>transactions := transactions s @ [row]\<rparr>)) (retE row))))))"

text \<open>
  \<^verbatim>\<open>_history_query\<close> and \<^verbatim>\<open>history\<close>: the outer join of the transactions with the entries of the
  account, filtered, newest first, one page of it with the total count. Dates are the days of the
  instants (\<open>day\<close>).
\<close>

definition day :: "instant \<Rightarrow> int" where
  "day t = t div 86400"

definition history_rows :: "wallet_db \<Rightarrow> uuid \<Rightarrow> (transaction \<times> ledger_entry option) list" where
  "history_rows s acc = concat (map (\<lambda>t.
     case filter (\<lambda>e. le_transaction e = tx_id t \<and> le_account e = acc) (entries s) of
       [] \<Rightarrow> [(t, None)] | es \<Rightarrow> map (\<lambda>e. (t, Some e)) es) (transactions s))"

definition history_query :: "wallet_db \<Rightarrow> uuid \<Rightarrow> string option \<Rightarrow> string option \<Rightarrow> int option \<Rightarrow> int option \<Rightarrow>
    (transaction \<times> ledger_entry option) list" where
  "history_query s acc origin ty from_date to_date = filter (\<lambda>(t, e).
     (e \<noteq> None \<or> tx_account t = Some acc)
     \<and> (case origin of None \<Rightarrow> True | Some [] \<Rightarrow> True | Some m \<Rightarrow> tx_origin t = Some m)
     \<and> (case ty of None \<Rightarrow> True | Some [] \<Rightarrow> True | Some y \<Rightarrow> tx_type t = y)
     \<and> (case from_date of None \<Rightarrow> True | Some d \<Rightarrow> d \<le> day (tx_created t))
     \<and> (case to_date of None \<Rightarrow> True | Some d \<Rightarrow> day (tx_created t) \<le> d)) (history_rows s acc)"

definition history :: "wallet_db \<Rightarrow> uuid \<Rightarrow> string option \<Rightarrow> string option \<Rightarrow> int option \<Rightarrow> int option \<Rightarrow>
    nat \<Rightarrow> nat \<Rightarrow> (transaction \<times> ledger_entry option) list \<times> nat" where
  "history s acc origin ty from_date to_date page page_size =
     (let q = history_query s acc origin ty from_date to_date
      in (take page_size (drop ((page - 1) * page_size) (sort_key (\<lambda>(t, _). - tx_created t) q)), length q))"

subsection \<open>OutboxRepository, GatewayAccountRepository, UserPhoneRepository\<close>

definition outbox_enqueue :: "string \<Rightarrow> event_payload \<Rightarrow> unit wop" where
  "outbox_enqueue nm p = bindE fresh (\<lambda>i. modE (\<lambda>s. s\<lparr>outbox := outbox s @
     [\<lparr>ob_id = i, ob_name = nm, ob_payload = p, ob_status = Ob_PENDING, ob_published = None\<rparr>]\<rparr>))"

definition outbox_pending :: "wallet_db \<Rightarrow> nat \<Rightarrow> outbox_event list" where
  "outbox_pending s max_rows = take max_rows (filter (\<lambda>e. ob_status e = Ob_PENDING) (outbox s))"

definition mark_published :: "uuid \<Rightarrow> unit wop" where
  "mark_published i = bindE now (\<lambda>t. modE (\<lambda>s. s\<lparr>outbox :=
     update_row ob_id i (\<lambda>e. e\<lparr>ob_status := Ob_PUBLISHED, ob_published := Some t\<rparr>) (outbox s)\<rparr>))"

definition account_id_for :: "wallet_db \<Rightarrow> string \<Rightarrow> uuid option" where
  "account_id_for s p = map_option ga_account (lookup_row ga_provider p (gateway_accounts s))"

definition gateway_register :: "string \<Rightarrow> uuid \<Rightarrow> unit wop" where
  "gateway_register p acc = bindE (readE (\<lambda>s. (account_id_for s p, account_get s acc))) (\<lambda>(old, a).
     thenE (ensure (old = None \<and> a \<noteq> None) IntegrityError)
     (modE (\<lambda>s. s\<lparr>gateway_accounts := gateway_accounts s @ [\<lparr>ga_provider = p, ga_account = acc\<rparr>]\<rparr>)))"

definition user_id_for :: "wallet_db \<Rightarrow> string \<Rightarrow> uuid option" where
  "user_id_for s phone = map_option up_user (lookup_row up_phone phone (phones s))"

definition phone_upsert :: "uuid \<Rightarrow> string \<Rightarrow> unit wop" where
  "phone_upsert u phone = bindE (readE phones) (\<lambda>rows.
     thenE (ensure (\<forall>r \<in> set rows. up_phone r = phone \<longrightarrow> up_user r = u) IntegrityError)
     (if lookup_row up_user u rows = None
      then modE (\<lambda>s. s\<lparr>phones := phones s @ [\<lparr>up_user = u, up_phone = phone\<rparr>]\<rparr>)
      else modE (\<lambda>s. s\<lparr>phones := update_row up_user u (\<lambda>r. r\<lparr>up_phone := phone\<rparr>) (phones s)\<rparr>)))"

subsection \<open>Transactional PINs, recovery codes, proofs, audit\<close>

definition pin_get :: "wallet_db \<Rightarrow> uuid \<Rightarrow> transaction_pin option" where
  "pin_get s acc = lookup_row pin_account acc (pins s)"

definition update_pin :: "uuid \<Rightarrow> (transaction_pin \<Rightarrow> transaction_pin) \<Rightarrow> unit wop" where
  "update_pin acc f = modE (\<lambda>s. s\<lparr>pins := update_row pin_account acc f (pins s)\<rparr>)"

definition set_pin :: "uuid \<Rightarrow> string \<Rightarrow> string \<Rightarrow> unit wop" where
  "set_pin acc h salt = bindE (readE (\<lambda>s. (pin_get s acc, account_get s acc, clock s))) (\<lambda>(row, a, t).
     if row = None
     then thenE (ensure (a \<noteq> None) IntegrityError)
       (modE (\<lambda>s. s\<lparr>pins := pins s @ [\<lparr>pin_account = acc, pin_hash = h, pin_salt = salt,
          failed_attempts = 0, locked_until = None, pin_updated = t\<rparr>]\<rparr>))
     else update_pin acc (\<lambda>r. r\<lparr>pin_hash := h, pin_salt := salt, failed_attempts := 0,
          locked_until := None, pin_updated := t\<rparr>))"

definition register_failure :: "transaction_pin \<Rightarrow> int \<Rightarrow> int wop" where
  "register_failure row lock_minutes = bindE now (\<lambda>t.
     let n = failed_attempts row + 1
     in thenE (update_pin (pin_account row) (\<lambda>r. r\<lparr>failed_attempts := n,
            locked_until := (if 5 \<le> n then Some (t + 60 * lock_minutes) else locked_until r),
            pin_updated := t\<rparr>))
        (retE n))"

definition clear_lock :: "uuid \<Rightarrow> unit wop" where
  "clear_lock acc = bindE now (\<lambda>t.
     update_pin acc (\<lambda>r. r\<lparr>failed_attempts := 0, locked_until := None, pin_updated := t\<rparr>))"

definition recovery_code_add :: "uuid \<Rightarrow> string \<Rightarrow> unit wop" where
  "recovery_code_add acc h = bindE fresh (\<lambda>i. bindE (readE (\<lambda>s. (recovery_codes s, account_get s acc, clock s)))
     (\<lambda>(rows, a, t). thenE (ensure (a \<noteq> None \<and> lookup_row rc_hash h rows = None) IntegrityError)
       (modE (\<lambda>s. s\<lparr>recovery_codes := recovery_codes s @
          [\<lparr>rc_id = i, rc_account = acc, rc_hash = h, rc_consumed = None, rc_created = t\<rparr>]\<rparr>))))"

definition recovery_codes_for :: "wallet_db \<Rightarrow> uuid \<Rightarrow> recovery_code list" where
  "recovery_codes_for s acc =
     sort_key (\<lambda>r. - rc_created r) (filter (\<lambda>r. rc_account r = acc) (recovery_codes s))"

definition proof_get :: "wallet_db \<Rightarrow> uuid \<Rightarrow> consumed_proof option" where
  "proof_get s jti = lookup_row cp_jti jti (consumed_proofs s)"

definition proof_add :: "uuid \<Rightarrow> uuid \<Rightarrow> string \<Rightarrow> instant \<Rightarrow> unit wop" where
  "proof_add jti u purpose expires = bindE (readE (\<lambda>s. proof_get s jti)) (\<lambda>old.
     thenE (ensure (old = None \<and> purpose \<noteq> []) IntegrityError)
     (modE (\<lambda>s. s\<lparr>consumed_proofs := consumed_proofs s @
        [\<lparr>cp_jti = jti, cp_user = u, cp_purpose = purpose, cp_expires = expires\<rparr>]\<rparr>)))"

definition audit_add :: "uuid \<Rightarrow> uuid option \<Rightarrow> string \<Rightarrow> string \<Rightarrow> nat \<Rightarrow> unit wop" where
  "audit_add acc actor action reason issued = bindE (readE (\<lambda>s. account_get s acc)) (\<lambda>a.
     thenE (ensure (a \<noteq> None) IntegrityError)
     (modE (\<lambda>s. s\<lparr>pin_audits := pin_audits s @ [\<lparr>pa_account = acc, pa_actor = actor,
        pa_action = action, pa_reason = reason, pa_codes_issued = issued\<rparr>]\<rparr>)))"

subsection \<open>Exchange rates\<close>

text \<open>
  \<^verbatim>\<open>TableExchangeRates\<close>: the latest rate of the pair, or the inverse of the latest rate of the
  opposite pair, computed in the Decimal context.
\<close>

definition dernier :: "wallet_db \<Rightarrow> string \<Rightarrow> string \<Rightarrow> rat option" where
  "dernier s base quote = (case sort_key (\<lambda>r. - er_valid_from r)
       (filter (\<lambda>r. er_base r = base \<and> er_quote r = quote) (exchange_rates s)) of
     [] \<Rightarrow> None | r # _ \<Rightarrow> Some (er_rate r))"

definition taux :: "wallet_db \<Rightarrow> string \<Rightarrow> string \<Rightarrow> rat option" where
  "taux s base quote = (if base = quote then Some 1
     else case dernier s base quote of Some r \<Rightarrow> Some r
       | None \<Rightarrow> (case dernier s quote base of Some r \<Rightarrow> Some (ctx_round (1 / r)) | None \<Rightarrow> None))"

definition poser :: "string \<Rightarrow> string \<Rightarrow> rat \<Rightarrow> string option \<Rightarrow> unit wop" where
  "poser base quote r source = bindE now (\<lambda>t.
     thenE (ensure (0 < r \<and> base \<noteq> quote) IntegrityError)
     (modE (\<lambda>s. s\<lparr>exchange_rates := exchange_rates s @
        [\<lparr>er_base = base, er_quote = quote, er_rate = r, er_source = source, er_valid_from = t\<rparr>]\<rparr>)))"

subsection \<open>Balances seen through the Decimal column\<close>

lemma sgn_ctx_round: "x \<noteq> 0 \<Longrightarrow> sgn (ctx_round x) = sgn x"
proof -
  assume x: "x \<noteq> 0"
  have "\<bar>ctx_round x - x\<bar> \<le> \<bar>x\<bar> / (2 * 10 ^ 27)" by (rule ctx_round_error)
  also have "\<dots> < \<bar>x\<bar>" using x by simp
  finally show ?thesis using x by (auto simp: sgn_if abs_if split: if_splits)
qed

text \<open>
  A balance read from the database that covers an amount of the column's range is at least that
  amount before any rounding of the sum.
\<close>

lemma couvre_sound:
  assumes b: "balance_from_db (of_int t) c = Inr b" and cv: "couvre b m = Inr True"
    and m: "numeric_14_2 (amount m)" "0 \<le> amount m"
  shows "amount m \<le> t"
proof (cases "\<bar>t\<bar> < 10 ^ 28")
  case True
  with b cv show ?thesis
    by (auto simp: balance_from_db_def mk_balance_def couvre_def ctx_round_of_int Let_def split: if_splits sum.splits)
next
  case False
  then have t: "t \<noteq> 0" by auto
  from b cv have "amount m \<le> \<lfloor>ctx_round (of_int t)\<rfloor>"
    by (auto simp: balance_from_db_def mk_balance_def couvre_def Let_def split: if_splits sum.splits)
  with m have "0 \<le> ctx_round (of_int t)" by linarith
  with t sgn_ctx_round [of "of_int t"] have "0 < t" by (auto simp: sgn_if split: if_splits)
  with False m show ?thesis by (simp add: numeric_14_2_def)
qed

lemma balance_from_db_small:
  assumes "\<bar>t\<bar> < 10 ^ 28" "devise c = Inr d"
  shows "balance_from_db (of_int t) c = Inr (Balance t c)"
  using assms by (simp add: balance_from_db_def mk_balance_def ctx_round_of_int Let_def)

end
