(* ===== verification/Ledger.thy ===== *)
theory Ledger
  imports WalletRepos
begin

section \<open>The ledger service\<close>

text \<open>
  \<^verbatim>\<open>wallet/application/ledger.py\<close>, the only code that inserts ledger entries: the checks before a
  movement, \<open>post\<close> with its idempotency key and its savepoint, the entries of a transaction that
  already exists, the reversal, and the transfer between two accounts.
\<close>

subsection \<open>Operations\<close>

definition load_debitable :: "uuid \<Rightarrow> account wop" where
  "load_debitable i =
     bindE (readE (\<lambda>s. account_get s i)) (\<lambda>row.
     bindE (some_or AccountNotFound row) (\<lambda>a.
     thenE (ensure (acc_status a = ACTIVE) AccountNotActive) (retE a)))"

definition load_creditable :: "uuid \<Rightarrow> account wop" where
  "load_creditable i =
     bindE (readE (\<lambda>s. account_get s i)) (\<lambda>row.
     bindE (some_or AccountNotFound row) (\<lambda>a.
     thenE (ensure (acc_status a \<noteq> CLOSED) AccountNotActive) (retE a)))"

definition autorise_solde_negatif :: "account \<Rightarrow> bool" where
  "autorise_solde_negatif a = allows_negative_balance a"

definition ensure_sufficient :: "uuid \<Rightarrow> money \<Rightarrow> unit wop" where
  "ensure_sufficient i m =
     bindE (account_balance i) (\<lambda>solde.
     bindE (of_sum (map_sum AmountError id (couvre solde m))) (\<lambda>ok.
     ensure ok (InsufficientBalance (b_amount solde) (amount m))))"

definition check_balanced :: "posting_line list \<Rightarrow> unit wop" where
  "check_balanced ls = of_sum (map_sum UnbalancedLedger id (assert_balanced ls))"

definition write_lines :: "uuid \<Rightarrow> posting_line list \<Rightarrow> unit wop" where
  "write_lines tx ls =
     forE ls (\<lambda>l. add_entry (pl_account l) tx (pl_direction l) (pl_money l) (pl_reference l))"

definition post :: "string \<Rightarrow> posting_line list \<Rightarrow> string \<Rightarrow> string option \<Rightarrow> transaction_status \<Rightarrow>
    (transaction \<times> bool) wop" where
  "post ty ls key origin status =
     bindE (readE (\<lambda>s. get_by_idempotency_key s key)) (\<lambda>existing.
     case existing of Some t \<Rightarrow> retE (t, True)
     | None \<Rightarrow>
       thenE (check_balanced ls)
       (bindE now (\<lambda>t.
        let completed = (if status = Tx_COMPLETED then Some t else None)
        in catchE
          (atomically
            (bindE (transaction_create ty status origin (Some key) completed None None None) (\<lambda>tx.
             thenE (write_lines (tx_id tx) ls)
             (retE (tx, False)))))
          IntegrityError
          (bindE (readE (\<lambda>s. get_by_idempotency_key s key)) (\<lambda>concurrent.
           case concurrent of None \<Rightarrow> raiseE IntegrityError | Some c \<Rightarrow> retE (c, True))))))"

definition post_sur_transaction :: "uuid \<Rightarrow> posting_line list \<Rightarrow> unit wop" where
  "post_sur_transaction tx ls = thenE (check_balanced ls) (write_lines tx ls)"

definition inverse_line :: "string \<Rightarrow> ledger_entry \<Rightarrow> amount_error + posting_line" where
  "inverse_line reference e =
     (case from_db (of_int (le_amount e)) (le_currency e) of Inl x \<Rightarrow> Inl x
      | Inr m \<Rightarrow> Inr \<lparr>pl_account = le_account e,
          pl_direction = (if le_direction e = DEBIT then CREDIT else DEBIT),
          pl_money = m, pl_reference = Some reference\<rparr>)"

definition tx_money :: "transaction \<Rightarrow> amount_error + money option" where
  "tx_money t = (case tx_amount t of None \<Rightarrow> Inr None
     | Some a \<Rightarrow> map_sum id Some (from_db (of_int a)
         (case tx_currency t of None \<Rightarrow> XOF | Some c \<Rightarrow> if c = [] then XOF else c)))"

definition contre_passer :: "transaction \<Rightarrow> string \<Rightarrow> transaction wop" where
  "contre_passer t reference =
     bindE (readE (\<lambda>s. entries_of s (tx_id t))) (\<lambda>originales.
     thenE (ensure (originales \<noteq> []) (UnbalancedLedger NoEntries))
     (bindE now (\<lambda>instant.
      bindE (of_sum (map_sum AmountError id (tx_money t))) (\<lambda>m.
      bindE (transaction_create (tx_type t) Tx_COMPLETED (tx_origin t)
              (Some (''reversal:'' @ uuid_str (tx_id t))) (Some instant) (tx_account t) m (Some (tx_id t))) (\<lambda>r.
      bindE (of_sum (map_sum AmountError id (map_or_fail (inverse_line reference) originales))) (\<lambda>inverses.
      thenE (post_sur_transaction (tx_id r) inverses)
      (retE r)))))))"

definition transfer :: "uuid \<Rightarrow> uuid \<Rightarrow> money \<Rightarrow> string \<Rightarrow> string \<Rightarrow> string \<Rightarrow> string option \<Rightarrow>
    transaction_status \<Rightarrow> (transaction \<times> bool) wop" where
  "transfer source_id destination_id montant ty reference key origin status =
     bindE (readE (\<lambda>s. get_by_idempotency_key s key)) (\<lambda>existing.
     case existing of Some t \<Rightarrow> retE (t, True)
     | None \<Rightarrow>
       bindE (load_debitable source_id) (\<lambda>source.
       bindE (load_creditable destination_id) (\<lambda>destination.
       thenE (ensure (acc_currency source = acc_currency destination
                      \<and> acc_currency source = m_currency montant) CurrencyMismatch)
       (thenE (whenE (\<not> autorise_solde_negatif source) (ensure_sufficient (acc_id source) montant))
       (post ty
          [\<lparr>pl_account = acc_id source, pl_direction = DEBIT, pl_money = montant, pl_reference = Some reference\<rparr>,
           \<lparr>pl_account = acc_id destination, pl_direction = CREDIT, pl_money = montant, pl_reference = Some reference\<rparr>]
          key origin status)))))"

subsection \<open>The double-entry check, characterised\<close>

definition line_signed :: "posting_line \<Rightarrow> int" where
  "line_signed l = (if pl_direction l = CREDIT then amount (pl_money l) else - amount (pl_money l))"

lemma sum_lines_Inr:
  "sum_lines k ls = Inr n \<longleftrightarrow>
     (\<forall>l \<in> set ls. is_positive (pl_money l)) \<and> n = k + sum_list (map line_signed ls)"
  by (induction ls arbitrary: k) (auto simp: line_signed_def)

lemma card_le_1_iff: "finite A \<Longrightarrow> \<not> 1 < card A \<longleftrightarrow> (\<forall>x \<in> A. \<forall>y \<in> A. x = y)"
  by (metis One_nat_def card_le_Suc0_iff_eq not_less)

lemma checks_Inr:
  "(if a then Inl x else if b then Inl y else r) = Inr u \<longleftrightarrow> \<not> a \<and> \<not> b \<and> r = Inr u"
  by simp

lemma assert_balanced_Inr:
  "assert_balanced ls = Inr u \<longleftrightarrow>
     2 \<le> length ls \<and> (\<forall>l \<in> set ls. \<forall>k \<in> set ls. m_currency (pl_money l) = m_currency (pl_money k))
     \<and> (\<forall>l \<in> set ls. is_positive (pl_money l)) \<and> sum_list (map line_signed ls) = 0"
proof -
  have c: "\<not> 1 < card (set (map (m_currency \<circ> pl_money) ls)) \<longleftrightarrow>
      (\<forall>l \<in> set ls. \<forall>k \<in> set ls. m_currency (pl_money l) = m_currency (pl_money k))"
    by (subst card_le_1_iff) auto
  moreover have "(case sum_lines 0 ls of Inl e \<Rightarrow> Inl e | Inr n \<Rightarrow> if n \<noteq> 0 then Inl (NonZeroSum n) else Inr ()) = Inr u \<longleftrightarrow>
      (\<forall>l \<in> set ls. is_positive (pl_money l)) \<and> sum_list (map line_signed ls) = 0"
  proof (cases "sum_lines 0 ls")
    case (Inl e)
    then show ?thesis using sum_lines_Inr [of 0 ls] by auto
  next
    case (Inr n)
    then have "\<forall>l \<in> set ls. is_positive (pl_money l)" "n = sum_list (map line_signed ls)"
      using sum_lines_Inr [of 0 ls n] by simp_all
    with Inr show ?thesis by simp
  qed
  ultimately show ?thesis
    unfolding assert_balanced_def checks_Inr by (simp only: not_less)
qed

subsection \<open>Successful runs of the operations\<close>

lemma load_debitable_Inr [simp]:
  "load_debitable i s = (Inr a, t) \<longleftrightarrow> t = s \<and> account_get s i = Some a \<and> acc_status a = ACTIVE"
  by (auto simp: load_debitable_def)

lemma load_creditable_Inr [simp]:
  "load_creditable i s = (Inr a, t) \<longleftrightarrow> t = s \<and> account_get s i = Some a \<and> acc_status a \<noteq> CLOSED"
  by (auto simp: load_creditable_def)

lemma account_get_id: "account_get s i = Some a \<Longrightarrow> acc_id a = i"
  by (auto simp: account_get_def dest: lookup_row_SomeD)

lemma map_sum_id_Inr [simp]: "map_sum f id r = Inr x \<longleftrightarrow> r = Inr x"
  by (cases r) auto

lemma ensure_sufficient_Inr:
  "ensure_sufficient i m s = (Inr u, t) \<Longrightarrow> t = s \<and> (numeric_14_2 (amount m) \<longrightarrow> 0 \<le> amount m \<longrightarrow> amount m \<le> account_total s i)"
  by (auto simp: ensure_sufficient_def account_balance_def intro: couvre_sound)

lemma check_balanced_Inr [simp]:
  "check_balanced ls s = (Inr u, t) \<longleftrightarrow> t = s \<and> assert_balanced ls = Inr u"
  by (auto simp: check_balanced_def)

fun line_rows :: "uuid \<Rightarrow> uuid \<Rightarrow> posting_line list \<Rightarrow> ledger_entry list" where
  "line_rows n tx [] = []"
| "line_rows n tx (l # ls) =
     entry_row n (pl_account l) tx (pl_direction l) (pl_money l) (pl_reference l) # line_rows (Suc n) tx ls"

definition writable :: "wallet_db \<Rightarrow> posting_line \<Rightarrow> bool" where
  "writable s l \<longleftrightarrow> numeric_14_2 (amount (pl_money l)) \<and> 0 < amount (pl_money l)
     \<and> account_get s (pl_account l) \<noteq> None"

lemma fresh_Inr [simp]: "fresh s = (Inr i, t) \<longleftrightarrow> i = next_uuid s \<and> t = s\<lparr>next_uuid := Suc i\<rparr>"
  by (auto simp: fresh_def)

lemma now_Inr [simp]: "now s = (Inr i, t) \<longleftrightarrow> i = clock s \<and> t = s"
  by (auto simp: now_def)

lemma account_get_frame [simp]:
  "account_get (s\<lparr>next_uuid := i\<rparr>) = account_get s"
  "account_get (s\<lparr>entries := es\<rparr>) = account_get s"
  "account_get (s\<lparr>transactions := ts\<rparr>) = account_get s"
  by (simp_all add: account_get_def fun_eq_iff)

lemma write_lines_Inr:
  "write_lines tx ls s = (Inr u, t) \<longleftrightarrow> (\<forall>l \<in> set ls. writable s l)
     \<and> t = s\<lparr>entries := entries s @ line_rows (next_uuid s) tx ls, next_uuid := next_uuid s + length ls\<rparr>"
proof (induction ls arbitrary: s)
  case Nil
  show ?case by (auto simp: write_lines_def)
next
  case (Cons l ls)
  define s' where "s' = s\<lparr>entries := entries s @
      [entry_row (next_uuid s) (pl_account l) tx (pl_direction l) (pl_money l) (pl_reference l)],
      next_uuid := Suc (next_uuid s)\<rparr>"
  have step: "write_lines tx (l # ls) s = (Inr u, t) \<longleftrightarrow> writable s l \<and> write_lines tx ls s' = (Inr u, t)"
    by (auto simp: write_lines_def add_entry_def writable_def s'_def)
  have w: "writable s' = writable s" by (simp add: writable_def s'_def fun_eq_iff)
  show ?case
    unfolding step Cons.IH w by (simp add: s'_def)
qed

lemma get_by_idempotency_key_frame [simp]:
  "get_by_idempotency_key (s\<lparr>next_uuid := i\<rparr>) = get_by_idempotency_key s"
  "get_by_idempotency_key (s\<lparr>entries := es\<rparr>) = get_by_idempotency_key s"
  by (simp_all add: get_by_idempotency_key_def fun_eq_iff)

lemma transaction_create_Inr:
  "transaction_create ty st origin key completed acc m reverses s = (Inr r, t) \<longleftrightarrow>
     (case m of None \<Rightarrow> True | Some x \<Rightarrow> numeric_14_2 (amount x))
     \<and> (case key of None \<Rightarrow> True | Some k \<Rightarrow> get_by_idempotency_key s k = None)
     \<and> (case acc of None \<Rightarrow> True | Some a \<Rightarrow> account_get s a \<noteq> None)
     \<and> r = transaction_row (next_uuid s) ty st origin key completed acc m reverses (clock s)
     \<and> t = s\<lparr>transactions := transactions s @ [r], next_uuid := Suc (next_uuid s)\<rparr>"
  by (auto simp: transaction_create_def Let_def split: option.splits)

text \<open>What a fresh posting adds: one header and the rows of its lines.\<close>

definition posted :: "wallet_db \<Rightarrow> transaction \<Rightarrow> posting_line list \<Rightarrow> wallet_db" where
  "posted s r ls = s\<lparr>transactions := transactions s @ [r],
     entries := entries s @ line_rows (Suc (next_uuid s)) (next_uuid s) ls,
     next_uuid := Suc (next_uuid s) + length ls\<rparr>"

definition post_row :: "wallet_db \<Rightarrow> string \<Rightarrow> string \<Rightarrow> string option \<Rightarrow> transaction_status \<Rightarrow> transaction" where
  "post_row s ty key origin status = transaction_row (next_uuid s) ty status origin (Some key)
     (if status = Tx_COMPLETED then Some (clock s) else None) None None None (clock s)"

lemma tx_id_row [simp]: "tx_id (transaction_row i ty st origin key completed acc m reverses created) = i"
  by (simp add: transaction_row_def)

lemma post_Inr:
  "post ty ls key origin status s = (Inr (r, replayed), t) \<longleftrightarrow>
     (if get_by_idempotency_key s key \<noteq> None
      then replayed \<and> t = s \<and> get_by_idempotency_key s key = Some r
      else \<not> replayed \<and> assert_balanced ls = Inr () \<and> (\<forall>l \<in> set ls. writable s l)
        \<and> r = post_row s ty key origin status \<and> t = posted s r ls)"
  (is "?run \<longleftrightarrow> ?rhs")
proof (cases "get_by_idempotency_key s key")
  case (Some x)
  then show ?thesis by (auto simp: post_def)
next
  case None
  have w: "writable (s\<lparr>transactions := ts, next_uuid := n\<rparr>) l = writable s l" for ts n l
    by (simp add: writable_def)
  from None show ?thesis
    by (auto simp: post_def catchE_Inr transaction_create_Inr write_lines_Inr w post_row_def posted_def
        Let_def dest!: atomically_Inl split: if_splits)
qed

lemma transfer_replay:
  "get_by_idempotency_key s key = Some r \<Longrightarrow> transfer a b m ty ref key origin st s = (Inr (r, True), s)"
  by (simp add: transfer_def op_defs)

definition transfer_lines :: "uuid \<Rightarrow> uuid \<Rightarrow> money \<Rightarrow> string \<Rightarrow> posting_line list" where
  "transfer_lines a b m ref =
     [\<lparr>pl_account = a, pl_direction = DEBIT, pl_money = m, pl_reference = Some ref\<rparr>,
      \<lparr>pl_account = b, pl_direction = CREDIT, pl_money = m, pl_reference = Some ref\<rparr>]"

lemma transfer_fresh:
  assumes run: "transfer a b m ty ref key origin st s = (Inr (r, replayed), t)"
    and new: "get_by_idempotency_key s key = None"
  obtains src dst where "account_get s a = Some src" "acc_status src = ACTIVE"
    "account_get s b = Some dst" "acc_status dst \<noteq> CLOSED"
    "acc_currency src = m_currency m" "acc_currency dst = m_currency m"
    "\<not> replayed" "0 < amount m" "numeric_14_2 (amount m)"
    "\<not> allows_negative_balance src \<Longrightarrow> amount m \<le> account_total s a"
    "r = post_row s ty key origin st" "t = posted s r (transfer_lines a b m ref)"
proof -
  from run new obtain src dst u where g: "account_get s a = Some src" "acc_status src = ACTIVE"
      "account_get s b = Some dst" "acc_status dst \<noteq> CLOSED"
      "acc_currency src = acc_currency dst" "acc_currency src = m_currency m"
    and suff: "\<not> allows_negative_balance src \<Longrightarrow> \<exists>x. ensure_sufficient (acc_id src) m s = (Inr x, u)"
    and u: "allows_negative_balance src \<Longrightarrow> u = s"
    and p: "post ty (transfer_lines (acc_id src) (acc_id dst) m ref) key origin st u = (Inr (r, replayed), t)"
    by (auto simp: transfer_def autorise_solde_negatif_def transfer_lines_def split: if_splits)
  from g have ids: "acc_id src = a" "acc_id dst = b" by (auto dest: account_get_id)
  have u_s: "u = s" using suff u by (cases "allows_negative_balance src") (auto dest: ensure_sufficient_Inr)
  from p new have post: "\<not> replayed" "0 < amount m" "numeric_14_2 (amount m)"
      "r = post_row s ty key origin st" "t = posted s r (transfer_lines a b m ref)"
    by (auto simp: post_Inr u_s ids writable_def transfer_lines_def)
  have "amount m \<le> account_total s a" if "\<not> allows_negative_balance src"
    using suff [OF that] post by (auto simp: ids u_s dest!: ensure_sufficient_Inr)
  with g post show thesis by (intro that [of src dst]) auto
qed

end
