(* ===== verification/WalletPins.thy ===== *)
theory WalletPins
  imports Ledger
begin

section \<open>Transaction PINs, recovery codes and step-up proofs\<close>

text \<open>
  The part of \<^verbatim>\<open>WalletUseCases\<close> (\<^verbatim>\<open>wallet/application/use_cases.py\<close>) that authenticates a user
  before money moves. The hash functions are code outside the repository: argon2, SHA-256 and the
  token generator are the fields of \<open>pin_lib\<close>, the random salt and the random token are functions of
  a number drawn with \<open>fresh\<close>.
\<close>

record pin_lib =
  argon_hash :: "nat \<Rightarrow> string \<Rightarrow> string"
  argon_verify :: "string \<Rightarrow> string \<Rightarrow> bool option"
  check_needs_rehash :: "string \<Rightarrow> bool"
  sha256_hex :: "string \<Rightarrow> string"
  token_urlsafe :: "nat \<Rightarrow> string"

record step_up_proof =
  proof_jti :: uuid
  proof_user :: uuid
  proof_purpose :: string
  proof_expires :: instant

subsection \<open>Provisioning\<close>

definition provisionner_compte :: "uuid \<Rightarrow> account wop" where
  "provisionner_compte u = bindE (readE (\<lambda>s. account_by_user s u XOF USER)) (\<lambda>existing.
     case existing of Some a \<Rightarrow> retE a | None \<Rightarrow> account_create (Some u) USER XOF None False)"

definition provisionner_compte_marchand :: "uuid \<Rightarrow> account wop" where
  "provisionner_compte_marchand u = bindE (readE (\<lambda>s. account_by_user s u XOF MERCHANT)) (\<lambda>existing.
     case existing of Some a \<Rightarrow> retE a | None \<Rightarrow> account_create (Some u) MERCHANT XOF None False)"

definition compte_de :: "uuid \<Rightarrow> account wop" where
  "compte_de u = bindE (readE (\<lambda>s. account_by_user s u XOF USER)) (\<lambda>a.
     case a of Some x \<Rightarrow> retE x | None \<Rightarrow> provisionner_compte u)"

subsection \<open>PIN checks\<close>

definition hash_pin :: "pin_lib \<Rightarrow> string \<Rightarrow> string wop" where
  "hash_pin L pin = bindE fresh (\<lambda>n. retE (argon_hash L n pin))"

definition legacy_pin_hash :: "pin_lib \<Rightarrow> string \<Rightarrow> string \<Rightarrow> string" where
  "legacy_pin_hash L pin salt = sha256_hex L (salt @ '':'' @ pin)"

definition hash_recovery_code :: "pin_lib \<Rightarrow> string \<Rightarrow> string" where
  "hash_recovery_code L secret = sha256_hex L secret"

definition is_argon2 :: "string \<Rightarrow> bool" where
  "is_argon2 h \<longleftrightarrow> take 10 h = ''$argon2id$''"

definition pin_valid :: "pin_lib \<Rightarrow> transaction_pin \<Rightarrow> string \<Rightarrow> bool" where
  "pin_valid L row pin = (if is_argon2 (pin_hash row) then argon_verify L (pin_hash row) pin = Some True
     else legacy_pin_hash L pin (pin_salt row) = pin_hash row)"

definition pin_locked :: "transaction_pin \<Rightarrow> instant \<Rightarrow> bool" where
  "pin_locked row t \<longleftrightarrow> (case locked_until row of None \<Rightarrow> False | Some u \<Rightarrow> t < u)"

definition LOCK_MINUTES :: int where
  "LOCK_MINUTES = 15"

definition verify_pin :: "pin_lib \<Rightarrow> uuid \<Rightarrow> string \<Rightarrow> unit wop" where
  "verify_pin L acc pin =
     bindE (readE (\<lambda>s. pin_get s acc)) (\<lambda>found.
     bindE (some_or PinRequired found) (\<lambda>row.
     bindE now (\<lambda>t.
     thenE (ensure (\<not> pin_locked row t) PinLocked)
     (if \<not> pin_valid L row pin then thenE (bindE (register_failure row LOCK_MINUTES) (\<lambda>_. retE ())) (raiseE InvalidPin)
      else thenE
        (whenE (\<not> is_argon2 (pin_hash row) \<or> check_needs_rehash L (pin_hash row))
          (bindE (hash_pin L pin) (\<lambda>h. update_pin acc (\<lambda>r. r\<lparr>pin_hash := h, pin_salt := ''argon2id''\<rparr>))))
        (clear_lock acc)))))"

definition ensure_password_policy :: "string \<Rightarrow> string \<Rightarrow> unit wop" where
  "ensure_password_policy pin confirm_pin = ensure (pin = confirm_pin) InvalidPin"

definition verifier_pin_utilisateur :: "pin_lib \<Rightarrow> uuid \<Rightarrow> string \<Rightarrow> unit wop" where
  "verifier_pin_utilisateur L u pin = bindE (compte_de u) (\<lambda>a. verify_pin L (acc_id a) pin)"

definition has_pin :: "uuid \<Rightarrow> bool wop" where
  "has_pin u = bindE (compte_de u) (\<lambda>a. readE (\<lambda>s. pin_get s (acc_id a) \<noteq> None))"

subsection \<open>Step-up proofs\<close>

definition consume_step_up_proof :: "step_up_proof \<Rightarrow> uuid \<Rightarrow> string \<Rightarrow> unit wop" where
  "consume_step_up_proof p u purpose =
     thenE (ensure (proof_user p = u \<and> proof_purpose p = purpose) StepUpProofInvalid)
     (bindE (readE (\<lambda>s. proof_get s (proof_jti p))) (\<lambda>used.
      thenE (ensure (used = None) StepUpProofAlreadyUsed)
      (catchE (atomically (proof_add (proof_jti p) u purpose (proof_expires p)))
        IntegrityError (raiseE StepUpProofAlreadyUsed))))"

definition require_transfer_step_up :: "int option \<Rightarrow> uuid \<Rightarrow> int \<Rightarrow> step_up_proof option \<Rightarrow> unit wop" where
  "require_transfer_step_up threshold u amnt proof =
     bindE (some_or RuntimeError threshold) (\<lambda>limit.
     whenE (\<not> amnt < limit)
       (bindE (some_or StepUpOtpRequired proof) (\<lambda>p.
        consume_step_up_proof p u ''wallet.transfer.high_value'')))"

subsection \<open>Defining, changing and resetting a PIN\<close>

fun issue_codes :: "pin_lib \<Rightarrow> uuid \<Rightarrow> nat \<Rightarrow> string list wop" where
  "issue_codes L acc 0 = retE []"
| "issue_codes L acc (Suc k) = bindE fresh (\<lambda>n.
     thenE (recovery_code_add acc (hash_recovery_code L (token_urlsafe L n)))
       (bindE (issue_codes L acc k) (\<lambda>rest. retE (token_urlsafe L n # rest))))"

definition define_pin :: "pin_lib \<Rightarrow> uuid \<Rightarrow> string \<Rightarrow> string \<Rightarrow> step_up_proof \<Rightarrow> (account \<times> string list) wop" where
  "define_pin L u pin confirm_pin proof =
     bindE (compte_de u) (\<lambda>a.
     bindE (readE (\<lambda>s. pin_get s (acc_id a))) (\<lambda>row.
     thenE (ensure (row = None) PinAlreadySet)
     (thenE (ensure_password_policy pin confirm_pin)
     (thenE (consume_step_up_proof proof u ''wallet.pin.set'')
     (bindE (hash_pin L pin) (\<lambda>h.
      thenE (set_pin (acc_id a) h ''argon2id'')
     (bindE (issue_codes L (acc_id a) 6) (\<lambda>codes. retE (a, codes)))))))))"

definition change_pin :: "pin_lib \<Rightarrow> uuid \<Rightarrow> string \<Rightarrow> string \<Rightarrow> string \<Rightarrow> account wop" where
  "change_pin L u current new_pin confirm_pin =
     bindE (compte_de u) (\<lambda>a.
     thenE (ensure_password_policy new_pin confirm_pin)
     (thenE (verify_pin L (acc_id a) current)
     (bindE (hash_pin L new_pin) (\<lambda>h.
      thenE (set_pin (acc_id a) h ''argon2id'') (retE a)))))"

definition reset_pin_with_recovery :: "pin_lib \<Rightarrow> uuid \<Rightarrow> string \<Rightarrow> string \<Rightarrow> string \<Rightarrow> account wop" where
  "reset_pin_with_recovery L u secret new_pin confirm_pin =
     bindE (compte_de u) (\<lambda>a.
     thenE (ensure_password_policy new_pin confirm_pin)
     (bindE (readE (\<lambda>s. find (\<lambda>r. rc_consumed r = None \<and> rc_hash r = hash_recovery_code L secret)
               (recovery_codes_for s (acc_id a)))) (\<lambda>match.
      bindE (some_or RecoveryCodeInvalid match) (\<lambda>row.
      bindE now (\<lambda>t.
      thenE (modE (\<lambda>s. s\<lparr>recovery_codes :=
               update_row rc_id (rc_id row) (\<lambda>r. r\<lparr>rc_consumed := Some t\<rparr>) (recovery_codes s)\<rparr>))
     (bindE (hash_pin L new_pin) (\<lambda>h.
      thenE (set_pin (acc_id a) h ''argon2id'') (retE a))))))))"

definition admin_reset_pin :: "pin_lib \<Rightarrow> uuid option \<Rightarrow> uuid \<Rightarrow> string \<Rightarrow> string \<Rightarrow> string \<Rightarrow>
    (account \<times> string list) wop" where
  "admin_reset_pin L admin u new_pin confirm_pin reason =
     bindE (compte_de u) (\<lambda>a.
     thenE (ensure_password_policy new_pin confirm_pin)
     (bindE (hash_pin L new_pin) (\<lambda>h.
      thenE (set_pin (acc_id a) h ''argon2id'')
     (bindE (issue_codes L (acc_id a) 6) (\<lambda>codes.
      thenE (audit_add (acc_id a) admin ''admin_reset_pin'' reason (length codes))
        (retE (a, codes)))))))"

definition lookup_recipient_display_name :: "wallet_db \<Rightarrow> string \<Rightarrow> string option" where
  "lookup_recipient_display_name s phone = (if user_id_for s phone = None then None
     else Some (''Compte se terminant par '' @ drop (length phone - 4) phone))"

subsection \<open>Account provisioning on success\<close>

lemma account_by_user_SomeD:
  "account_by_user s u c ty = Some a \<Longrightarrow> a \<in> set (accounts s) \<and> acc_user a = Some u \<and> acc_currency a = c \<and> acc_type a = ty"
  by (auto simp: account_by_user_def find_Some_iff)

lemma account_create_Inr:
  "account_create u ty cur ref neg s = (Inr a, t) \<longleftrightarrow>
     (ty = TECHNICAL \<or> u \<noteq> None)
     \<and> (u = None \<or> (\<forall>b \<in> set (accounts s). \<not> (acc_user b = u \<and> acc_currency b = cur \<and> acc_type b = ty)))
     \<and> a = \<lparr>acc_id = next_uuid s, acc_user = u, acc_type = ty, acc_currency = cur, acc_status = ACTIVE,
           acc_reference = ref, allows_negative_balance = neg\<rparr>
     \<and> t = s\<lparr>accounts := accounts s @ [a], next_uuid := Suc (next_uuid s)\<rparr>"
  by (auto simp: account_create_def Let_def)

lemma compte_de_Inr:
  "compte_de u s = (Inr a, t) \<longleftrightarrow>
     (case account_by_user s u XOF USER of Some b \<Rightarrow> a = b \<and> t = s
      | None \<Rightarrow> account_create (Some u) USER XOF None False s = (Inr a, t))"
  by (auto simp: compte_de_def provisionner_compte_def split: option.splits)

lemma update_pin_Inr [simp]:
  "update_pin acc f s = (Inr u, t) \<longleftrightarrow> t = s\<lparr>pins := update_row pin_account acc f (pins s)\<rparr>"
  by (simp add: update_pin_def)

lemma set_pin_Inr: "set_pin acc h salt s = (Inr u, t) \<Longrightarrow> \<exists>p. t = s\<lparr>pins := p\<rparr>"
  by (auto simp: set_pin_def split: if_splits)

lemma hash_pin_Inr [simp]:
  "hash_pin L pin s = (Inr h, t) \<longleftrightarrow> h = argon_hash L (next_uuid s) pin \<and> t = s\<lparr>next_uuid := Suc (next_uuid s)\<rparr>"
  by (auto simp: hash_pin_def)

subsection \<open>What a PIN check does\<close>

definition rehash_due :: "pin_lib \<Rightarrow> transaction_pin \<Rightarrow> bool" where
  "rehash_due L row \<longleftrightarrow> \<not> is_argon2 (pin_hash row) \<or> check_needs_rehash L (pin_hash row)"

lemma verify_pin_cases:
  "verify_pin L acc pin s =
    (case pin_get s acc of None \<Rightarrow> (Inl PinRequired, s)
     | Some row \<Rightarrow>
       if pin_locked row (clock s) then (Inl PinLocked, s)
       else if \<not> pin_valid L row pin then
         (Inl InvalidPin, s\<lparr>pins := update_row pin_account (pin_account row) (\<lambda>r. r\<lparr>failed_attempts := failed_attempts row + 1,
            locked_until := (if 5 \<le> failed_attempts row + 1 then Some (clock s + 60 * LOCK_MINUTES) else locked_until r),
            pin_updated := clock s\<rparr>) (pins s)\<rparr>)
       else if rehash_due L row then
         (Inr (), s\<lparr>pins := update_row pin_account acc (\<lambda>r. r\<lparr>pin_hash := argon_hash L (next_uuid s) pin,
            pin_salt := ''argon2id'', failed_attempts := 0, locked_until := None, pin_updated := clock s\<rparr>) (pins s),
            next_uuid := Suc (next_uuid s)\<rparr>)
       else (Inr (), s\<lparr>pins := update_row pin_account acc (\<lambda>r. r\<lparr>failed_attempts := 0, locked_until := None,
            pin_updated := clock s\<rparr>) (pins s)\<rparr>))"
proof (cases "pin_get s acc")
  case None
  then show ?thesis by (simp add: verify_pin_def op_defs)
next
  case (Some row)
  show ?thesis
    by (simp add: Some verify_pin_def op_defs now_def fresh_def hash_pin_def register_failure_def
        clear_lock_def update_pin_def rehash_due_def Let_def update_row_def comp_def if_distrib [of "\<lambda>r. r\<lparr>pin_updated := _\<rparr>"]
        cong: if_cong split: option.splits)
qed

lemma verify_pin_Inr:
  assumes run: "verify_pin L acc pin s = (Inr u, t)"
  obtains row f n where "pin_get s acc = Some row" "\<not> pin_locked row (clock s)" "pin_valid L row pin"
    "next_uuid s \<le> n" "t = s\<lparr>pins := update_row pin_account acc f (pins s), next_uuid := n\<rparr>"
    "\<And>r. failed_attempts (f r) = 0 \<and> locked_until (f r) = None"
proof -
  from run obtain row where row: "pin_get s acc = Some row" "\<not> pin_locked row (clock s)" "pin_valid L row pin"
    by (auto simp: verify_pin_cases split: option.splits if_splits)
  show thesis
  proof (cases "rehash_due L row")
    case True
    with run row show thesis
      by (intro that [OF row, of "Suc (next_uuid s)" "\<lambda>r. r\<lparr>pin_hash := argon_hash L (next_uuid s) pin,
        pin_salt := ''argon2id'', failed_attempts := 0, locked_until := None, pin_updated := clock s\<rparr>"])
        (auto simp: verify_pin_cases)
  next
    case False
    with run row show thesis
      by (intro that [OF row, of "next_uuid s" "\<lambda>r. r\<lparr>failed_attempts := 0, locked_until := None,
        pin_updated := clock s\<rparr>"]) (auto simp: verify_pin_cases)
  qed
qed

end
