(* ===== verification/LedgerInv.thy ===== *)
theory LedgerInv
  imports WalletPins
begin

section \<open>The invariants of the ledger\<close>

text \<open>
  \<open>ledger_ok\<close>: identifiers and idempotency keys are unique, entries are positive and belong to an
  account and a transaction, and the entries of every transaction are in one currency and sum to
  zero. \<open>solvent\<close>: an account that may not be overdrawn never is. Both are shown to be kept by
  every operation of the ledger service; the use cases follow in \<open>WalletInv\<close>.
\<close>

subsection \<open>The invariant\<close>

definition balanced_entries :: "ledger_entry list \<Rightarrow> bool" where
  "balanced_entries es \<longleftrightarrow> sum_list (map signed es) = 0
     \<and> (\<forall>e \<in> set es. \<forall>f \<in> set es. le_currency e = le_currency f)"

definition ids_ok :: "wallet_db \<Rightarrow> bool" where
  "ids_ok s \<longleftrightarrow> distinct (map acc_id (accounts s)) \<and> distinct (map tx_id (transactions s))
     \<and> (\<forall>a \<in> set (accounts s). acc_id a < next_uuid s)
     \<and> (\<forall>t \<in> set (transactions s). tx_id t < next_uuid s)
     \<and> distinct (filter (\<lambda>k. k \<noteq> None) (map tx_key (transactions s)))"

definition entry_ok :: "wallet_db \<Rightarrow> ledger_entry \<Rightarrow> bool" where
  "entry_ok s e \<longleftrightarrow> 0 < le_amount e \<and> numeric_14_2 (le_amount e)
     \<and> le_account e \<in> acc_id ` set (accounts s) \<and> le_transaction e \<in> tx_id ` set (transactions s)"

definition double_entry :: "wallet_db \<Rightarrow> bool" where
  "double_entry s \<longleftrightarrow> (\<forall>i. balanced_entries (entries_of s i))"

definition ledger_ok :: "wallet_db \<Rightarrow> bool" where
  "ledger_ok s \<longleftrightarrow> ids_ok s \<and> (\<forall>e \<in> set (entries s). entry_ok s e) \<and> double_entry s"

definition overdraftable :: "wallet_db \<Rightarrow> uuid \<Rightarrow> bool" where
  "overdraftable s i \<longleftrightarrow> (\<exists>a. account_get s i = Some a \<and> allows_negative_balance a)"

definition solvent :: "wallet_db \<Rightarrow> bool" where
  "solvent s \<longleftrightarrow> (\<forall>a \<in> set (accounts s). \<not> allows_negative_balance a \<longrightarrow> 0 \<le> account_total s (acc_id a))"

text \<open>
  What the confirmations and the failures of gateway operations rely on: the suspense accounts may
  be overdrawn, a pending deposit has no entries yet, and a pending withdrawal credits only
  accounts that may be overdrawn.
\<close>

definition pending_ok :: "wallet_db \<Rightarrow> bool" where
  "pending_ok s \<longleftrightarrow> (\<forall>g \<in> set (gateway_accounts s). overdraftable s (ga_account g))
     \<and> (\<forall>t \<in> set (transactions s). tx_status t = Tx_PENDING \<longrightarrow>
          (if tx_type t = type_str DEPOSIT then entries_of s (tx_id t) = []
           else \<forall>e \<in> set (entries_of s (tx_id t)). le_direction e = CREDIT \<longrightarrow> overdraftable s (le_account e)))"

text \<open>No PIN ever carries a failed attempt into a committed state.\<close>

definition pins_unlocked :: "wallet_db \<Rightarrow> bool" where
  "pins_unlocked s \<longleftrightarrow> (\<forall>r \<in> set (pins s). failed_attempts r = 0 \<and> locked_until r = None)"

definition wallet_inv :: "wallet_db \<Rightarrow> bool" where
  "wallet_inv s \<longleftrightarrow> ledger_ok s \<and> solvent s \<and> pending_ok s \<and> pins_unlocked s"

subsection \<open>The rows a posting adds\<close>

lemma set_line_rows_in: "e \<in> set (line_rows n tx ls) \<Longrightarrow>
    le_transaction e = tx \<and> (\<exists>l \<in> set ls. le_account e = pl_account l \<and> le_direction e = pl_direction l
      \<and> le_amount e = amount (pl_money l) \<and> le_currency e = m_currency (pl_money l))"
  by (induction n tx ls rule: line_rows.induct) (auto simp: entry_row_def)

lemma line_rows_signed: "map signed (line_rows n tx ls) = map line_signed ls"
  by (induction n tx ls rule: line_rows.induct) (simp_all add: signed_def line_signed_def entry_row_def)

lemma length_line_rows [simp]: "length (line_rows n tx ls) = length ls"
  by (induction n tx ls rule: line_rows.induct) simp_all

lemma filter_line_rows:
  "filter (\<lambda>e. le_transaction e = i) (line_rows n tx ls) = (if i = tx then line_rows n tx ls else [])"
  by (induction n tx ls rule: line_rows.induct) (auto simp: entry_row_def)

lemma account_line_rows:
  "sum_list (map signed (filter (\<lambda>e. le_account e = a) (line_rows n tx ls)))
     = sum_list (map line_signed (filter (\<lambda>l. pl_account l = a) ls))"
  by (induction n tx ls rule: line_rows.induct) (simp_all add: signed_def line_signed_def entry_row_def)

lemma balanced_line_rows: "assert_balanced ls = Inr u \<Longrightarrow> balanced_entries (line_rows n tx ls)"
  unfolding balanced_entries_def line_rows_signed assert_balanced_Inr
  by (metis set_line_rows_in)

subsection \<open>Appending rows to a transaction that has none\<close>

definition append_lines :: "uuid \<Rightarrow> posting_line list \<Rightarrow> wallet_db \<Rightarrow> wallet_db" where
  "append_lines tx ls s = s\<lparr>entries := entries s @ line_rows (next_uuid s) tx ls,
     next_uuid := next_uuid s + length ls\<rparr>"

lemma append_lines_simps [simp]:
  "accounts (append_lines tx ls s) = accounts s" "transactions (append_lines tx ls s) = transactions s"
  "gateway_accounts (append_lines tx ls s) = gateway_accounts s" "pins (append_lines tx ls s) = pins s"
  "entries (append_lines tx ls s) = entries s @ line_rows (next_uuid s) tx ls"
  "next_uuid (append_lines tx ls s) = next_uuid s + length ls"
  "account_get (append_lines tx ls s) = account_get s"
  by (simp_all add: append_lines_def account_get_def fun_eq_iff)

lemma entries_of_append_lines:
  "entries_of (append_lines tx ls s) i = entries_of s i @ (if i = tx then line_rows (next_uuid s) tx ls else [])"
  by (simp add: entries_of_def filter_line_rows)

lemma account_total_append_lines:
  "account_total (append_lines tx ls s) a
     = account_total s a + sum_list (map line_signed (filter (\<lambda>l. pl_account l = a) ls))"
  by (simp add: account_total_def account_line_rows)

lemma account_get_in: "account_get s i \<noteq> None \<longleftrightarrow> i \<in> acc_id ` set (accounts s)"
  using lookup_row_None_iff [of acc_id i "accounts s"] by (auto simp: account_get_def)

lemma ledger_ok_append:
  assumes ok: "ledger_ok s" and none: "entries_of s tx = []" and tx: "tx \<in> tx_id ` set (transactions s)"
    and bal: "assert_balanced ls = Inr u" and w: "\<forall>l \<in> set ls. writable s l"
  shows "ledger_ok (append_lines tx ls s)"
  unfolding ledger_ok_def
proof (intro conjI)
  show "ids_ok (append_lines tx ls s)" using ok by (auto simp: ledger_ok_def ids_ok_def)
  show "\<forall>e \<in> set (entries (append_lines tx ls s)). entry_ok (append_lines tx ls s) e"
  proof
    fix e
    assume "e \<in> set (entries (append_lines tx ls s))"
    then consider "e \<in> set (entries s)" | "e \<in> set (line_rows (next_uuid s) tx ls)" by auto
    then show "entry_ok (append_lines tx ls s) e"
    proof cases
      case 1
      with ok show ?thesis by (auto simp: ledger_ok_def entry_ok_def)
    next
      case 2
      from set_line_rows_in [OF this] obtain l where l: "l \<in> set ls" "le_transaction e = tx"
        "le_account e = pl_account l" "le_amount e = amount (pl_money l)" by blast
      from w l(1) have "writable s l" by blast
      with l tx account_get_in [of s "pl_account l"] show ?thesis by (simp add: entry_ok_def writable_def)
    qed
  qed
  show "double_entry (append_lines tx ls s)"
    using ok none balanced_line_rows [OF bal]
    by (auto simp: ledger_ok_def double_entry_def entries_of_append_lines)
qed

text \<open>Solvency is kept when every debited account is overdraftable or holds at least the net debit.\<close>

lemma solvent_append:
  assumes "solvent s"
    and "\<And>a. a \<in> set (accounts s) \<Longrightarrow> \<not> allows_negative_balance a \<Longrightarrow>
       0 \<le> account_total s (acc_id a) + sum_list (map line_signed (filter (\<lambda>l. pl_account l = acc_id a) ls))"
  shows "solvent (append_lines tx ls s)"
  using assms by (auto simp: solvent_def account_total_append_lines)

lemma pending_ok_append:
  assumes "pending_ok s" "t \<in> set (transactions s)" "tx_id t = tx" "tx_status t = Tx_PENDING \<Longrightarrow> False"
    "distinct (map tx_id (transactions s))"
  shows "pending_ok (append_lines tx ls s)"
proof -
  have "tx_id r \<noteq> tx" if "r \<in> set (transactions s)" "tx_status r = Tx_PENDING" for r
    using assms that by (metis distinct_map inj_onD)
  with assms show ?thesis
    by (auto simp: pending_ok_def entries_of_append_lines overdraftable_def)
qed

subsection \<open>Adding a transaction header\<close>

definition add_header :: "transaction \<Rightarrow> wallet_db \<Rightarrow> wallet_db" where
  "add_header r s = s\<lparr>transactions := transactions s @ [r], next_uuid := Suc (next_uuid s)\<rparr>"

lemma add_header_simps [simp]:
  "accounts (add_header r s) = accounts s" "transactions (add_header r s) = transactions s @ [r]"
  "gateway_accounts (add_header r s) = gateway_accounts s" "entries (add_header r s) = entries s"
  "next_uuid (add_header r s) = Suc (next_uuid s)" "pins (add_header r s) = pins s"
  "account_get (add_header r s) = account_get s" "entries_of (add_header r s) = entries_of s"
  "account_total (add_header r s) = account_total s"
  by (simp_all add: add_header_def account_get_def entries_of_def account_total_def fun_eq_iff)

lemma posted_eq: "tx_id r = next_uuid s \<Longrightarrow> posted s r ls = append_lines (next_uuid s) ls (add_header r s)"
  by (simp add: posted_def append_lines_def add_header_def)

lemma ledger_ok_header:
  assumes ok: "ledger_ok s" and r: "tx_id r = next_uuid s"
    and key: "tx_key r = None \<or> (\<exists>k. tx_key r = Some k \<and> get_by_idempotency_key s k = None)"
  shows "ledger_ok (add_header r s)"
proof -
  have "tx_key x \<noteq> tx_key r" if "tx_key r \<noteq> None" "x \<in> set (transactions s)" for x
    using key that by (auto simp: get_by_idempotency_key_def lookup_row_None_iff image_iff)
  moreover have "tx_id r \<notin> tx_id ` set (transactions s)" using ok r by (auto simp: ledger_ok_def ids_ok_def)
  ultimately show ?thesis
    using ok r by (fastforce simp: ledger_ok_def ids_ok_def entry_ok_def double_entry_def)
qed

lemma no_entries_yet: "ledger_ok s \<Longrightarrow> next_uuid s \<le> i \<Longrightarrow> entries_of s i = []"
  by (fastforce simp: entries_of_def filter_empty_conv ledger_ok_def entry_ok_def ids_ok_def)

lemma solvent_header: "solvent s \<Longrightarrow> solvent (add_header r s)"
  by (simp add: solvent_def)

lemma pending_ok_header:
  "ledger_ok s \<Longrightarrow> pending_ok s \<Longrightarrow> tx_id r = next_uuid s \<Longrightarrow> pending_ok (add_header r s)"
  using no_entries_yet [of s "next_uuid s"] by (auto simp: pending_ok_def overdraftable_def)

lemma wallet_inv_header:
  assumes "wallet_inv s" "tx_id r = next_uuid s"
    "tx_key r = None \<or> (\<exists>k. tx_key r = Some k \<and> get_by_idempotency_key s k = None)"
  shows "wallet_inv (add_header r s)"
  using assms by (auto simp: wallet_inv_def pins_unlocked_def intro: ledger_ok_header solvent_header pending_ok_header)

subsection \<open>Postings\<close>

text \<open>
  A new completed transaction with balanced, writable lines keeps the invariant when no account
  that may not be overdrawn ends below zero.
\<close>

lemma wallet_inv_posted:
  assumes inv: "wallet_inv s" and r: "tx_id r = next_uuid s" "tx_status r \<noteq> Tx_PENDING"
    and key: "tx_key r = None \<or> (\<exists>k. tx_key r = Some k \<and> get_by_idempotency_key s k = None)"
    and ls: "assert_balanced ls = Inr u" "\<forall>l \<in> set ls. writable s l"
    and cover: "\<And>a. a \<in> set (accounts s) \<Longrightarrow> \<not> allows_negative_balance a \<Longrightarrow>
       0 \<le> account_total s (acc_id a) + sum_list (map line_signed (filter (\<lambda>l. pl_account l = acc_id a) ls))"
  shows "wallet_inv (posted s r ls)"
proof -
  let ?h = "add_header r s"
  have h: "wallet_inv ?h" using inv r(1) key by (rule wallet_inv_header)
  have "ledger_ok (append_lines (next_uuid s) ls ?h)"
    using h inv ls no_entries_yet [of s "next_uuid s"]
    by (intro ledger_ok_append) (auto simp: wallet_inv_def writable_def r(1) [symmetric])
  moreover have "solvent (append_lines (next_uuid s) ls ?h)"
    using h cover by (intro solvent_append) (auto simp: wallet_inv_def)
  moreover have "pending_ok (append_lines (next_uuid s) ls ?h)"
    using h r by (intro pending_ok_append [of ?h r]) (auto simp: wallet_inv_def ledger_ok_def ids_ok_def)
  moreover have "pins_unlocked (append_lines (next_uuid s) ls ?h)"
    using inv by (simp add: wallet_inv_def pins_unlocked_def)
  ultimately show ?thesis by (simp add: posted_eq [OF r(1)] wallet_inv_def)
qed

lemma post_row_simps [simp]:
  "tx_id (post_row s ty key origin st) = next_uuid s" "tx_status (post_row s ty key origin st) = st"
  "tx_key (post_row s ty key origin st) = Some key" "tx_type (post_row s ty key origin st) = ty"
  "tx_amount (post_row s ty key origin st) = None"
  by (simp_all add: post_row_def transaction_row_def)

lemma transfer_lines_sum:
  "sum_list (map line_signed (filter (\<lambda>l. pl_account l = x) (transfer_lines a b m ref)))
     = (if x = a then - amount m else 0) + (if x = b then amount m else 0)"
  by (auto simp: transfer_lines_def line_signed_def)

lemma transfer_lines_balanced: "0 < amount m \<Longrightarrow> assert_balanced (transfer_lines a b m ref) = Inr ()"
  by (simp add: assert_balanced_Inr transfer_lines_def line_signed_def is_positive_def)

lemma account_get_distinct:
  "ledger_ok s \<Longrightarrow> a \<in> set (accounts s) \<Longrightarrow> account_get s (acc_id a) = Some a"
  by (simp add: ledger_ok_def ids_ok_def account_get_def lookup_row_distinct)

text \<open>The state after a transfer that moved money, for any status.\<close>

lemma transfer_posted_ok:
  assumes inv: "wallet_inv s" and new: "get_by_idempotency_key s key = None"
    and run: "transfer a b m ty ref key origin st s = (Inr (r, replayed), t)"
  shows "ledger_ok t \<and> solvent t \<and> pins_unlocked t \<and> (st \<noteq> Tx_PENDING \<longrightarrow> pending_ok t)"
proof -
  from run new obtain src dst where
    acc: "account_get s a = Some src" "account_get s b = Some dst"
    and m: "0 < amount m" "numeric_14_2 (amount m)"
    and suff: "\<not> allows_negative_balance src \<Longrightarrow> amount m \<le> account_total s a"
    and r: "r = post_row s ty key origin st" and t: "t = posted s r (transfer_lines a b m ref)"
    by (rule transfer_fresh) auto
  let ?ls = "transfer_lines a b m ref" and ?h = "add_header r s"
  have w: "\<forall>l \<in> set ?ls. writable s l" using m acc by (auto simp: transfer_lines_def writable_def)
  have cover: "0 \<le> account_total s (acc_id x) + sum_list (map line_signed (filter (\<lambda>l. pl_account l = acc_id x) ?ls))"
    if x: "x \<in> set (accounts s)" "\<not> allows_negative_balance x" for x
  proof -
    have "account_get s (acc_id x) = Some x" using inv x by (auto simp: wallet_inv_def intro: account_get_distinct)
    moreover have "0 \<le> account_total s (acc_id x)" using inv x by (auto simp: wallet_inv_def solvent_def)
    ultimately show ?thesis using suff m acc x by (auto simp: transfer_lines_sum)
  qed
  show ?thesis
  proof (cases "st = Tx_PENDING")
    case False
    then have "wallet_inv (posted s r ?ls)"
      using inv transfer_lines_balanced [OF m(1)] w cover by (intro wallet_inv_posted) (auto simp: r new)
    then show ?thesis by (simp add: t wallet_inv_def)
  next
    case True
    have h: "wallet_inv ?h" using inv new by (intro wallet_inv_header) (auto simp: r)
    have "ledger_ok (append_lines (next_uuid s) ?ls ?h)"
      using h inv w no_entries_yet [of s "next_uuid s"]
      by (intro ledger_ok_append [OF _ _ _ transfer_lines_balanced [OF m(1)]])
        (auto simp: wallet_inv_def writable_def r)
    moreover have "solvent (append_lines (next_uuid s) ?ls ?h)"
      using h cover by (intro solvent_append) (auto simp: wallet_inv_def)
    moreover have "pins_unlocked (append_lines (next_uuid s) ?ls ?h)"
      using inv by (simp add: wallet_inv_def pins_unlocked_def)
    ultimately show ?thesis using True by (simp add: t posted_eq r)
  qed
qed

lemma keeps_transfer [keeps_intros]: "keeps wallet_inv (transfer a b m ty ref key origin Tx_COMPLETED)"
proof (rule keepsI)
  fix s y t
  assume inv: "wallet_inv s" and run: "transfer a b m ty ref key origin Tx_COMPLETED s = (Inr y, t)"
  show "wallet_inv t"
  proof (cases "get_by_idempotency_key s key")
    case None
    obtain r replayed where "y = (r, replayed)" by (cases y)
    with transfer_posted_ok [OF inv None, of a b m ty ref origin Tx_COMPLETED r replayed t] run
    show ?thesis by (simp add: wallet_inv_def)
  next
    case (Some r)
    with inv run transfer_replay [OF Some, of a b m ty ref origin Tx_COMPLETED] show ?thesis by simp
  qed
qed

subsection \<open>Accounts\<close>

lemma account_total_frame: "entries s' = entries s \<Longrightarrow> account_total s' i = account_total s i"
  by (simp add: account_total_def)

lemma entries_of_frame: "entries s' = entries s \<Longrightarrow> entries_of s' i = entries_of s i"
  by (simp add: entries_of_def)

lemma no_total_yet: "ledger_ok s \<Longrightarrow> next_uuid s \<le> i \<Longrightarrow> account_total s i = 0"
proof -
  assume "ledger_ok s" "next_uuid s \<le> i"
  then have "filter (\<lambda>e. le_account e = i) (entries s) = []"
    by (fastforce simp: filter_empty_conv ledger_ok_def entry_ok_def ids_ok_def)
  then show ?thesis by (simp add: account_total_def)
qed

definition add_account :: "account \<Rightarrow> wallet_db \<Rightarrow> wallet_db" where
  "add_account a s = s\<lparr>accounts := accounts s @ [a], next_uuid := Suc (next_uuid s)\<rparr>"

lemma account_get_add_account:
  "account_get (add_account a s) i = (case account_get s i of None \<Rightarrow> if acc_id a = i then Some a else None | Some b \<Rightarrow> Some b)"
  by (simp add: add_account_def account_get_def lookup_row_append split: option.splits)

lemma overdraftable_add_account: "overdraftable s i \<Longrightarrow> overdraftable (add_account a s) i"
  by (auto simp: overdraftable_def account_get_add_account)

lemma wallet_inv_add_account:
  assumes inv: "wallet_inv s" and a: "acc_id a = next_uuid s"
  shows "wallet_inv (add_account a s)"
  unfolding wallet_inv_def
proof (intro conjI)
  have ok: "ledger_ok s" using inv by (simp add: wallet_inv_def)
  have "next_uuid s \<notin> acc_id ` set (accounts s)" using ok by (auto simp: ledger_ok_def ids_ok_def)
  with ok a show "ledger_ok (add_account a s)"
    by (auto simp: ledger_ok_def ids_ok_def entry_ok_def double_entry_def add_account_def entries_of_def)
  show "solvent (add_account a s)"
    using inv no_total_yet [OF ok, of "next_uuid s"] a
    by (auto simp: solvent_def add_account_def wallet_inv_def account_total_def)
  show "pending_ok (add_account a s)"
    using inv overdraftable_add_account [of s _ a]
    by (auto simp: pending_ok_def wallet_inv_def add_account_def entries_of_def)
  show "pins_unlocked (add_account a s)" using inv by (simp add: pins_unlocked_def wallet_inv_def add_account_def)
qed

lemma keeps_account_create [keeps_intros]: "keeps wallet_inv (account_create u ty cur ref neg)"
  using wallet_inv_add_account by (auto intro!: keepsI simp: account_create_Inr add_account_def)

lemma keeps_compte_de [keeps_intros]: "keeps wallet_inv (compte_de u)"
  unfolding compte_de_def provisionner_compte_def by (intro keeps_intros)

end
