(* ===== verification/Gateways.thy ===== *)
theory Gateways
  imports WalletModel PyStrings
begin

section \<open>Gateway adapters of the wallet\<close>

text \<open>
  \<^verbatim>\<open>wallet/infra/gateways.py\<close> and \<^verbatim>\<open>wallet/infra/pawapay_gateway.py\<close>: the port a gateway
  implements is the record \<open>gateway\<close>, the simulated adapters and the two HTTP adapters are values of
  it. The HTTP calls to Paystack and PawaPay are parameters (functions from the request the adapter
  builds to the decoded answer or a failure); a random \<^verbatim>\<open>uuid4\<close> is a function of the number
  the caller draws.
\<close>

datatype gateway_status = Gw_PENDING | Gw_COMPLETED | Gw_FAILED

record gateway_operation =
  op_reference :: string
  op_status :: gateway_status
  op_authorization_url :: "string option"
  op_access_code :: "string option"
  op_amount :: "int option"
  op_currency :: "string option"

datatype gateway_failure = Not_implemented | Gateway_error

record gateway =
  gw_mode :: string
  supports_withdrawal :: "string \<Rightarrow> bool"
  initier_depot :: "nat \<Rightarrow> string \<Rightarrow> string \<Rightarrow> string option \<Rightarrow> int \<Rightarrow> string \<Rightarrow> gateway_failure + gateway_operation"
  initier_retrait :: "nat \<Rightarrow> string \<Rightarrow> string \<Rightarrow> int \<Rightarrow> string \<Rightarrow> gateway_failure + gateway_operation"
  verifier_depot :: "nat \<Rightarrow> string \<Rightarrow> gateway_failure + gateway_operation"
  verifier_retrait :: "nat \<Rightarrow> string \<Rightarrow> gateway_failure + gateway_operation"

definition operation :: "string \<Rightarrow> gateway_status \<Rightarrow> gateway_operation" where
  "operation r st = \<lparr>op_reference = r, op_status = st, op_authorization_url = None,
     op_access_code = None, op_amount = None, op_currency = None\<rparr>"

subsection \<open>Simulated gateways\<close>

definition PROVIDERS :: "string list" where
  "PROVIDERS = [''paystack'', ''orange_money'', ''mtn_momo'', ''wave'', ''moov'', ''card_gateway'']"

definition stub_status :: "bool \<Rightarrow> gateway_status" where
  "stub_status autoconfirm = (if autoconfirm then Gw_COMPLETED else Gw_PENDING)"

definition stub_gateway :: "bool \<Rightarrow> gateway" where
  "stub_gateway autoconfirm =
     (let stub_op = (\<lambda>n. Inr (operation (''stub-'' @ uuid_str n) (stub_status autoconfirm)))
      in \<lparr>gw_mode = ''stub'', supports_withdrawal = (\<lambda>p. p \<in> set PROVIDERS),
         initier_depot = (\<lambda>n p ph em a r. stub_op n), initier_retrait = (\<lambda>n p ph a r. stub_op n),
         verifier_depot = (\<lambda>n r. stub_op n), verifier_retrait = (\<lambda>n r. stub_op n)\<rparr>)"

definition sandbox_gateway :: "string \<Rightarrow> string \<Rightarrow> string \<Rightarrow> bool \<Rightarrow> gateway" where
  "sandbox_gateway mode provider_name prefix autoconfirm =
     (let init = (\<lambda>kind n p. if p \<noteq> provider_name then Inl Not_implemented
            else Inr (operation (prefix @ kind @ uuid_str n) (stub_status autoconfirm)));
          check = (\<lambda>r. Inr (operation r (stub_status autoconfirm)))
      in \<lparr>gw_mode = mode, supports_withdrawal = (\<lambda>p. p = provider_name),
         initier_depot = (\<lambda>n p ph em a r. init ''deposit-'' n p),
         initier_retrait = (\<lambda>n p ph a r. init ''withdraw-'' n p),
         verifier_depot = (\<lambda>n r. check r), verifier_retrait = (\<lambda>n r. check r)\<rparr>)"

definition orange_money_sandbox :: "bool \<Rightarrow> gateway" where
  "orange_money_sandbox = sandbox_gateway ''sandbox_orange_money'' ''orange_money'' ''orange-money-sandbox-''"

definition wave_sandbox :: "bool \<Rightarrow> gateway" where
  "wave_sandbox = sandbox_gateway ''sandbox_wave'' ''wave'' ''wave-sandbox-''"

subsection \<open>Paystack\<close>

definition to_provider_xof :: "int \<Rightarrow> int" where
  "to_provider_xof a = a * 100"

definition from_provider_xof :: "int option \<Rightarrow> gateway_failure + int option" where
  "from_provider_xof v = (case v of None \<Rightarrow> Inr None
     | Some x \<Rightarrow> if x mod 100 \<noteq> 0 then Inl Gateway_error else Inr (Some (x div 100)))"

record paystack_request =
  pr_email :: string
  pr_amount :: int
  pr_currency :: string
  pr_reference :: string
  pr_phone :: string
  pr_provider :: string

record paystack_body =
  pb_reference :: string
  pb_authorization_url :: "string option"
  pb_access_code :: "string option"
  pb_status :: "string option"
  pb_amount :: "int option"
  pb_currency :: "string option"

record paystack_http =
  paystack_initialize :: "paystack_request \<Rightarrow> gateway_failure + (bool \<times> paystack_body)"
  paystack_verify :: "string \<Rightarrow> gateway_failure + (bool \<times> paystack_body)"

definition paystack_status :: "string option \<Rightarrow> gateway_status" where
  "paystack_status st = (let w = lower (case st of None \<Rightarrow> [] | Some x \<Rightarrow> x)
     in if w = ''success'' then Gw_COMPLETED
        else if w = ''failed'' \<or> w = ''abandoned'' then Gw_FAILED else Gw_PENDING)"

definition paystack_initier_depot :: "paystack_http \<Rightarrow> string \<Rightarrow> string \<Rightarrow> string option \<Rightarrow> int \<Rightarrow> string \<Rightarrow>
    gateway_failure + gateway_operation" where
  "paystack_initier_depot H provider phone email montant reference =
    (case paystack_initialize H
        \<lparr>pr_email = (case email of None \<Rightarrow> reference @ ''@diddipay.local''
            | Some e \<Rightarrow> if e = [] then reference @ ''@diddipay.local'' else e),
         pr_amount = to_provider_xof montant, pr_currency = ''XOF'', pr_reference = reference,
         pr_phone = phone, pr_provider = provider\<rparr> of
       Inl e \<Rightarrow> Inl Gateway_error
     | Inr (ok, b) \<Rightarrow> if \<not> ok then Inl Gateway_error
         else Inr \<lparr>op_reference = pb_reference b, op_status = Gw_PENDING,
           op_authorization_url = pb_authorization_url b, op_access_code = pb_access_code b,
           op_amount = None, op_currency = None\<rparr>)"

definition paystack_verifier_depot :: "paystack_http \<Rightarrow> string \<Rightarrow> gateway_failure + gateway_operation" where
  "paystack_verifier_depot H reference =
    (case paystack_verify H reference of
       Inl e \<Rightarrow> Inl Gateway_error
     | Inr (ok, b) \<Rightarrow> if \<not> ok then Inl Gateway_error
         else (case from_provider_xof (pb_amount b) of Inl e \<Rightarrow> Inl e
           | Inr a \<Rightarrow> Inr \<lparr>op_reference = pb_reference b, op_status = paystack_status (pb_status b),
               op_authorization_url = pb_authorization_url b, op_access_code = pb_access_code b,
               op_amount = a, op_currency = upper_or_none (pb_currency b)\<rparr>))"

definition paystack_gateway :: "paystack_http \<Rightarrow> gateway" where
  "paystack_gateway H = \<lparr>gw_mode = ''paystack'', supports_withdrawal = (\<lambda>p. False),
     initier_depot = (\<lambda>n. paystack_initier_depot H),
     initier_retrait = (\<lambda>n p ph a r. Inl Not_implemented),
     verifier_depot = (\<lambda>n. paystack_verifier_depot H),
     verifier_retrait = (\<lambda>n r. Inl Not_implemented)\<rparr>"

subsection \<open>PawaPay\<close>

fun provider_family :: "string \<Rightarrow> string option" where
  "provider_family p = (if p = ''mtn_momo'' then Some ''MTN_MOMO''
     else if p = ''orange_money'' then Some ''ORANGE''
     else if p = ''moov'' then Some ''MOOV'' else None)"

definition COUNTRY_BY_DIAL_CODE :: "(string \<times> string) list" where
  "COUNTRY_BY_DIAL_CODE = [(''225'', ''CIV''), (''229'', ''BEN''), (''226'', ''BFA''), (''221'', ''SEN'')]"

definition SUPPORTED_OPERATORS :: "string list" where
  "SUPPORTED_OPERATORS = [''MOOV_BEN'', ''MTN_MOMO_BEN'', ''MOOV_BFA'', ''MOOV_CIV'', ''MTN_MOMO_CIV'',
     ''ORANGE_CIV'', ''ORANGE_SEN'']"

definition digits_only :: "string \<Rightarrow> string" where
  "digits_only phone = filter (\<lambda>c. c \<noteq> CHR '' '') (dropWhile (\<lambda>c. c = CHR ''+'') phone)"

definition resolve_operator :: "string \<Rightarrow> string \<Rightarrow> gateway_failure + string" where
  "resolve_operator provider phone = (case provider_family provider of
     None \<Rightarrow> Inl Not_implemented
   | Some family \<Rightarrow>
      (case find (\<lambda>(dial, c). take (length dial) (digits_only phone) = dial) COUNTRY_BY_DIAL_CODE of
         None \<Rightarrow> Inl Gateway_error
       | Some (dial, country) \<Rightarrow>
          let operator = family @ ''_'' @ country
          in if operator \<notin> set SUPPORTED_OPERATORS then Inl Not_implemented else Inr operator))"

record pawapay_request =
  pw_id :: string
  pw_phone :: string
  pw_operator :: string
  pw_amount :: int
  pw_currency :: string
  pw_client_reference :: string

record pawapay_body =
  pw_body_id :: string
  pw_status :: "string option"
  pw_body_amount :: "rat option"
  pw_body_currency :: "string option"

record pawapay_http =
  pawapay_deposits :: "pawapay_request \<Rightarrow> gateway_failure + string option"
  pawapay_payouts :: "pawapay_request \<Rightarrow> gateway_failure + string option"
  pawapay_get_deposit :: "string \<Rightarrow> gateway_failure + (bool \<times> pawapay_body)"
  pawapay_get_payout :: "string \<Rightarrow> gateway_failure + (bool \<times> pawapay_body)"

definition map_initiate_status :: "string option \<Rightarrow> gateway_status" where
  "map_initiate_status st = (if st = Some ''REJECTED'' then Gw_FAILED else Gw_PENDING)"

definition map_final_status :: "string option \<Rightarrow> gateway_status" where
  "map_final_status st = (if st = Some ''COMPLETED'' then Gw_COMPLETED
     else if st = Some ''FAILED'' then Gw_FAILED else Gw_PENDING)"

definition parse_amount :: "rat option \<Rightarrow> gateway_failure + int option" where
  "parse_amount v = (case v of None \<Rightarrow> Inr None
     | Some x \<Rightarrow> if x \<noteq> of_int \<lfloor>x\<rfloor> then Inl Gateway_error else Inr (Some \<lfloor>x\<rfloor>))"

definition pawapay_initier :: "(pawapay_request \<Rightarrow> gateway_failure + string option) \<Rightarrow> nat \<Rightarrow> string \<Rightarrow>
    string \<Rightarrow> int \<Rightarrow> string \<Rightarrow> gateway_failure + gateway_operation" where
  "pawapay_initier post_request n provider phone montant reference =
    (case resolve_operator provider phone of Inl e \<Rightarrow> Inl e
     | Inr operator \<Rightarrow>
        (case post_request \<lparr>pw_id = uuid_str n, pw_phone = digits_only phone, pw_operator = operator,
             pw_amount = montant, pw_currency = ''XOF'', pw_client_reference = reference\<rparr> of
           Inl e \<Rightarrow> Inl Gateway_error
         | Inr st \<Rightarrow> Inr (operation (uuid_str n) (map_initiate_status st))))"

definition pawapay_verifier :: "(string \<Rightarrow> gateway_failure + (bool \<times> pawapay_body)) \<Rightarrow> string \<Rightarrow>
    gateway_failure + gateway_operation" where
  "pawapay_verifier get_request reference =
    (case get_request reference of Inl e \<Rightarrow> Inl Gateway_error
     | Inr (found, b) \<Rightarrow> if \<not> found then Inl Gateway_error
         else (case parse_amount (pw_body_amount b) of Inl e \<Rightarrow> Inl e
           | Inr a \<Rightarrow> Inr ((operation (pw_body_id b) (map_final_status (pw_status b)))
               \<lparr>op_amount := a, op_currency := upper_or_none (pw_body_currency b)\<rparr>)))"

definition pawapay_gateway :: "pawapay_http \<Rightarrow> gateway" where
  "pawapay_gateway H = \<lparr>gw_mode = ''pawapay'', supports_withdrawal = (\<lambda>p. provider_family p \<noteq> None),
     initier_depot = (\<lambda>n p ph em a r. pawapay_initier (pawapay_deposits H) n p ph a r),
     initier_retrait = (\<lambda>n p ph a r. pawapay_initier (pawapay_payouts H) n p ph a r),
     verifier_depot = (\<lambda>n r. pawapay_verifier (pawapay_get_deposit H) r),
     verifier_retrait = (\<lambda>n r. pawapay_verifier (pawapay_get_payout H) r)\<rparr>"

subsection \<open>Choosing a gateway\<close>

record gateway_settings =
  payment_gateway_mode :: string
  payment_gateway_autoconfirm :: bool
  paystack_secret_set :: bool
  pawapay_token_set :: bool
  paystack_api :: paystack_http
  pawapay_api :: pawapay_http

definition gateway_for_mode :: "gateway_settings \<Rightarrow> string \<Rightarrow> wexc + gateway" where
  "gateway_for_mode cfg mode =
    (if mode = ''stub'' then Inr (stub_gateway (payment_gateway_autoconfirm cfg))
     else if mode = ''sandbox_orange_money'' then Inr (orange_money_sandbox (payment_gateway_autoconfirm cfg))
     else if mode = ''sandbox_wave'' then Inr (wave_sandbox (payment_gateway_autoconfirm cfg))
     else if mode = ''paystack'' then
       (if paystack_secret_set cfg then Inr (paystack_gateway (paystack_api cfg)) else Inl RuntimeError)
     else if mode = ''pawapay'' then
       (if pawapay_token_set cfg then Inr (pawapay_gateway (pawapay_api cfg)) else Inl RuntimeError)
     else Inl NotImplementedError)"

definition dedicated_provider_mode :: "string \<Rightarrow> string option" where
  "dedicated_provider_mode p = (if p = ''paystack'' \<or> p = ''card_gateway'' then Some ''paystack'' else None)"

definition gateway_for_provider :: "gateway_settings \<Rightarrow> string \<Rightarrow> gateway \<Rightarrow> wexc + gateway" where
  "gateway_for_provider cfg provider fallback = (case dedicated_provider_mode provider of
     None \<Rightarrow> Inr fallback | Some mode \<Rightarrow> gateway_for_mode cfg mode)"

definition get_gateway :: "gateway_settings \<Rightarrow> wexc + gateway" where
  "get_gateway cfg = gateway_for_mode cfg (payment_gateway_mode cfg)"

subsection \<open>Properties\<close>

text \<open>
  the adapter a mode resolves to carries that mode, so the mode stored on a transaction finds the
  same adapter again whatever the global mode has become.
\<close>

theorem gateway_mode_stable:
  assumes "gateway_for_mode cfg mode = Inr g"
  shows "gw_mode g = mode \<and> gateway_for_mode (cfg\<lparr>payment_gateway_mode := m'\<rparr>) (gw_mode g) = Inr g"
  using assms
  by (auto simp: gateway_for_mode_def stub_gateway_def orange_money_sandbox_def wave_sandbox_def
      sandbox_gateway_def paystack_gateway_def pawapay_gateway_def Let_def split: if_splits)

theorem gateway_mode_stable_witness:
  "\<exists>H K. gw_mode (wave_sandbox True) = ''sandbox_wave'' \<and>
     gateway_for_mode (\<lparr>payment_gateway_mode = ''stub'', payment_gateway_autoconfirm = True,
       paystack_secret_set = False, pawapay_token_set = False, paystack_api = H, pawapay_api = K\<rparr>
       \<lparr>payment_gateway_mode := ''pawapay''\<rparr>) (gw_mode (wave_sandbox True)) = Inr (wave_sandbox True)"
proof -
  fix H K
  let ?cfg = "\<lparr>payment_gateway_mode = ''stub'', payment_gateway_autoconfirm = True,
       paystack_secret_set = False, pawapay_token_set = False, paystack_api = H, pawapay_api = K\<rparr>"
  have "gateway_for_mode ?cfg ''sandbox_wave'' = Inr (wave_sandbox True)"
    by (simp add: gateway_for_mode_def)
  from gateway_mode_stable [OF this, of "''pawapay''"] show ?thesis by blast
qed

text \<open>the amount Paystack is asked for reads back as the amount, and a fraction of a franc is refused.\<close>

theorem provider_xof_roundtrip:
  "from_provider_xof (Some (to_provider_xof a)) = Inr (Some a)
   \<and> (from_provider_xof (Some x) = Inr (Some b) \<longleftrightarrow> x = to_provider_xof b)"
  by (auto simp: from_provider_xof_def to_provider_xof_def)

text \<open>
  the PawaPay adapter only ever names one of the operators active on the account, whatever the
  provider and the number.
\<close>

theorem resolve_operator_supported:
  "case resolve_operator provider phone of Inl e \<Rightarrow> True | Inr op \<Rightarrow> op \<in> set SUPPORTED_OPERATORS"
  by (auto simp: resolve_operator_def Let_def split: option.splits prod.splits sum.splits)

end
