(* ===== verification/WalletOps.thy ===== *)
theory WalletOps
  imports LedgerInv Gateways
begin

section \<open>The use cases of the wallet\<close>

text \<open>
  The money-moving part of \<^verbatim>\<open>WalletUseCases\<close> (\<^verbatim>\<open>wallet/application/use_cases.py\<close>), the adapter
  \<^verbatim>\<open>WalletService\<close> other modules call (\<^verbatim>\<open>wallet/infra/wallet_service.py\<close>) and the handlers of the
  identity events (\<^verbatim>\<open>wallet/infra/subscribers.py\<close>). \<open>wallet_env\<close> holds what the constructor and the
  settings provide. An event given to the in-process bus is appended to \<open>bus_events\<close>.
\<close>

record wallet_env =
  we_pins :: pin_lib
  we_bus :: bool
  we_gateway :: "gateway option"
  we_gateways :: gateway_settings
  we_threshold :: "int option"

definition PAYMENT_COMPLETED :: string where
  "PAYMENT_COMPLETED = ''payment.completed''"

definition to_money :: "int \<Rightarrow> string \<Rightarrow> money wop" where
  "to_money a c = of_sum (map_sum (\<lambda>_. InvalidAmountError) id (mk_money a c))"

definition active_gateway :: "wallet_env \<Rightarrow> gateway wop" where
  "active_gateway env = (case we_gateway env of Some g \<Rightarrow> retE g | None \<Rightarrow> of_sum (get_gateway (we_gateways env)))"

definition reload :: "uuid \<Rightarrow> transaction wop" where
  "reload i = bindE (readE (\<lambda>s. transaction_get s i)) (\<lambda>t. some_or TransactionNotFound t)"

definition read_money :: "transaction \<Rightarrow> money wop" where
  "read_money t = bindE (of_sum (map_sum AmountError id (tx_money t))) (\<lambda>m. some_or RuntimeError m)"

subsection \<open>Events\<close>

definition completed_payload :: "transaction \<Rightarrow> money \<Rightarrow> event_payload" where
  "completed_payload t m = \<lparr>ep_transaction = tx_id t, ep_type = tx_type t, ep_amount = amount m,
     ep_currency = m_currency m, ep_origin = tx_origin t\<rparr>"

definition publish_completed :: "wallet_env \<Rightarrow> transaction \<Rightarrow> money \<Rightarrow> unit wop" where
  "publish_completed env t m = whenE (tx_status t = Tx_COMPLETED)
     (if \<not> we_bus env then outbox_enqueue PAYMENT_COMPLETED (completed_payload t m)
      else thenE (outbox_enqueue PAYMENT_COMPLETED (completed_payload t m))
        (modE (\<lambda>s. s\<lparr>bus_events := bus_events s @ [completed_payload t m]\<rparr>)))"

subsection \<open>Reading\<close>

definition consulter_solde :: "uuid \<Rightarrow> (account \<times> balance) wop" where
  "consulter_solde u = bindE (compte_de u) (\<lambda>a. bindE (account_balance (acc_id a)) (\<lambda>b. retE (a, b)))"

definition consulter_transaction :: "uuid \<Rightarrow> uuid \<Rightarrow> (transaction \<times> ledger_entry option) wop" where
  "consulter_transaction u i =
     bindE (compte_de u) (\<lambda>a.
     bindE (reload i) (\<lambda>t.
     bindE (readE (\<lambda>s. entry_for_account s i (acc_id a))) (\<lambda>e.
     thenE (ensure (\<not> (e = None \<and> tx_account t \<noteq> Some (acc_id a))) TransactionNotFound)
       (retE (t, e)))))"

subsection \<open>Transfers\<close>

text \<open>The replay check of a transfer: the stored entries must be those of this very transfer.\<close>

definition same_p2p :: "wallet_db \<Rightarrow> transaction \<Rightarrow> uuid \<Rightarrow> uuid \<Rightarrow> money \<Rightarrow> amount_error + bool" where
  "same_p2p s t src dst m =
    (case (entry_for_account s (tx_id t) src, entry_for_account s (tx_id t) dst) of
       (Some e, Some f) \<Rightarrow>
         if tx_type t \<noteq> type_str P2P_TRANSFER \<or> le_direction e \<noteq> DEBIT \<or> le_direction f \<noteq> CREDIT then Inr False
         else map_sum id (\<lambda>x. x = m) (from_db (of_int (le_amount e)) (le_currency e))
     | _ \<Rightarrow> Inr False)"

definition transferer_p2p :: "wallet_env \<Rightarrow> uuid \<Rightarrow> string \<Rightarrow> int \<Rightarrow> string \<Rightarrow> step_up_proof option \<Rightarrow> string \<Rightarrow>
    (transaction \<times> money \<times> bool) wop" where
  "transferer_p2p env u recipient_phone amnt pin proof key =
     bindE (compte_de u) (\<lambda>source.
     thenE (verify_pin (we_pins env) (acc_id source) pin)
     (bindE (to_money amnt (acc_currency source)) (\<lambda>montant.
     thenE (ensure (is_positive montant) InvalidAmountError)
     (bindE (readE (\<lambda>s. user_id_for s recipient_phone)) (\<lambda>found.
      bindE (some_or RecipientNotFound found) (\<lambda>recipient.
     thenE (ensure (recipient \<noteq> u) CannotTransferToSelf)
     (bindE (readE (\<lambda>s. account_by_user s recipient XOF USER)) (\<lambda>dest.
      bindE (some_or RecipientNotFound dest) (\<lambda>destination.
      bindE (readE (\<lambda>s. get_by_idempotency_key s key)) (\<lambda>existing.
      case existing of
        Some t \<Rightarrow>
          bindE (readE (\<lambda>s. same_p2p s t (acc_id source) (acc_id destination) montant)) (\<lambda>same.
          bindE (of_sum (map_sum AmountError id same)) (\<lambda>ok.
          thenE (ensure ok IdempotencyConflict) (retE (t, montant, True))))
      | None \<Rightarrow>
          thenE (require_transfer_step_up (we_threshold env) u amnt proof)
          (bindE (transfer (acc_id source) (acc_id destination) montant (type_str P2P_TRANSFER)
                   (''wallet:p2p:'' @ uuid_str u) key (Some ''wallet'') Tx_COMPLETED) (\<lambda>(t, replayed).
           thenE (whenE (\<not> replayed) (publish_completed env t montant))
             (retE (t, montant, replayed))))))))))))))"

definition payer_marchand :: "wallet_env \<Rightarrow> uuid \<Rightarrow> uuid \<Rightarrow> int \<Rightarrow> string \<Rightarrow> string option \<Rightarrow> string option \<Rightarrow> string \<Rightarrow>
    (transaction \<times> money \<times> bool) wop" where
  "payer_marchand env u merchant_id amnt pin origin business key =
     bindE (compte_de u) (\<lambda>source.
     thenE (verify_pin (we_pins env) (acc_id source) pin)
     (bindE (to_money amnt (acc_currency source)) (\<lambda>montant.
     thenE (ensure (is_positive montant) InvalidAmountError)
     (bindE (readE (\<lambda>s. account_get s merchant_id)) (\<lambda>found.
      bindE (some_or MerchantNotFound found) (\<lambda>merchant.
     thenE (ensure (acc_type merchant = MERCHANT) MerchantNotFound)
     (thenE (ensure (acc_id merchant \<noteq> acc_id source) CannotTransferToSelf)
     (bindE (transfer (acc_id source) (acc_id merchant) montant (type_str MERCHANT_PAYMENT)
               (''wallet:merchant:'' @ uuid_str (acc_id merchant)) key origin Tx_COMPLETED) (\<lambda>(t, replayed).
      thenE (whenE (business \<noteq> None) (update_transaction (tx_id t) (\<lambda>r. r\<lparr>tx_business := business\<rparr>)))
     (thenE (whenE (\<not> replayed) (publish_completed env t montant))
       (retE (t, montant, replayed))))))))))))"

subsection \<open>Deposits and withdrawals\<close>

definition compte_suspense :: "string \<Rightarrow> string \<Rightarrow> uuid wop" where
  "compte_suspense mode cur = bindE (readE (\<lambda>s. account_id_for s mode)) (\<lambda>existing.
     case existing of Some i \<Rightarrow> retE i
     | None \<Rightarrow> bindE (account_create None TECHNICAL cur (Some (''gateway:'' @ mode)) True) (\<lambda>a.
         thenE (gateway_register mode (acc_id a)) (retE (acc_id a))))"

definition confirmer_operation :: "wallet_env \<Rightarrow> uuid \<Rightarrow> string \<Rightarrow> transaction wop" where
  "confirmer_operation env i mode =
     bindE (reload i) (\<lambda>t.
     if tx_status t \<noteq> Tx_PENDING then retE t
     else
       thenE (whenE (tx_type t = type_str DEPOSIT)
         (bindE (read_money t) (\<lambda>montant.
          bindE (compte_suspense mode XOF) (\<lambda>suspense.
          bindE (some_or IntegrityError (tx_account t)) (\<lambda>acc.
          post_sur_transaction i
            [\<lparr>pl_account = suspense, pl_direction = DEBIT, pl_money = montant,
               pl_reference = Some (''wallet:deposit:'' @ mode)\<rparr>,
             \<lparr>pl_account = acc, pl_direction = CREDIT, pl_money = montant,
               pl_reference = Some (''wallet:deposit:'' @ mode)\<rparr>])))))
       (thenE (marquer i Tx_COMPLETED)
       (bindE (reload i) (\<lambda>t'.
        thenE (whenE (tx_amount t' \<noteq> None)
          (bindE (read_money t') (\<lambda>m. publish_completed env t' m)))
        (retE t')))))"

definition echouer_operation :: "uuid \<Rightarrow> string \<Rightarrow> transaction wop" where
  "echouer_operation i mode =
     bindE (reload i) (\<lambda>t.
     if tx_status t \<noteq> Tx_PENDING then retE t
     else thenE
       (if tx_type t = type_str WITHDRAWAL
        then bindE (contre_passer t (''wallet:reversal:'' @ mode)) (\<lambda>_. marquer i Tx_REVERSED)
        else marquer i Tx_FAILED)
       (reload i))"

definition settle_operation :: "wallet_env \<Rightarrow> uuid \<Rightarrow> string \<Rightarrow> gateway_status \<Rightarrow> unit wop" where
  "settle_operation env i mode st =
     (if st = Gw_COMPLETED then bindE (confirmer_operation env i mode) (\<lambda>_. retE ())
      else if st = Gw_FAILED then bindE (echouer_operation i mode) (\<lambda>_. retE ())
      else retE ())"

definition deposer :: "wallet_env \<Rightarrow> uuid \<Rightarrow> string \<Rightarrow> int \<Rightarrow> string \<Rightarrow> string option \<Rightarrow> string \<Rightarrow>
    (transaction \<times> string option \<times> string option) wop" where
  "deposer env u provider amnt phone email key =
     bindE (readE (\<lambda>s. get_by_idempotency_key s key)) (\<lambda>rejeu.
     case rejeu of Some t \<Rightarrow> retE (t, tx_authorization_url t, tx_access_code t)
     | None \<Rightarrow>
       bindE (compte_de u) (\<lambda>compte.
       bindE (to_money amnt (acc_currency compte)) (\<lambda>montant.
       thenE (ensure (is_positive montant) InvalidAmountError)
       (bindE (active_gateway env) (\<lambda>fallback.
        bindE (of_sum (gateway_for_provider (we_gateways env) provider fallback)) (\<lambda>gateway.
        bindE (compte_suspense (gw_mode gateway) (acc_currency compte)) (\<lambda>_.
       thenE (ensure (\<not> (provider = ''paystack'' \<and> (email = None \<or> email = Some []))) InvalidAmountError)
       (bindE (transaction_create (type_str DEPOSIT) Tx_PENDING (Some ''wallet'') (Some key) None
                 (Some (acc_id compte)) (Some montant) None) (\<lambda>t.
       thenE (update_transaction (tx_id t) (\<lambda>r. r\<lparr>tx_gateway_mode := Some (gw_mode gateway)\<rparr>))
       (bindE fresh (\<lambda>nonce.
        bindE (case initier_depot gateway nonce provider phone email (amount montant) (uuid_str (tx_id t)) of
                 Inl Not_implemented \<Rightarrow> raiseE DepositMethodNotSupported
               | Inl Gateway_error \<Rightarrow> raiseE GatewayUnavailable | Inr x \<Rightarrow> retE x) (\<lambda>operation.
       thenE (update_transaction (tx_id t) (\<lambda>r. r\<lparr>tx_provider_reference := Some (op_reference operation),
                 tx_authorization_url := op_authorization_url operation, tx_access_code := op_access_code operation\<rparr>))
       (thenE (settle_operation env (tx_id t) (gw_mode gateway) (op_status operation))
       (bindE (reload (tx_id t)) (\<lambda>t'.
        retE (t', op_authorization_url operation, op_access_code operation))))))))))))))))"

definition retirer :: "wallet_env \<Rightarrow> uuid \<Rightarrow> string \<Rightarrow> int \<Rightarrow> string \<Rightarrow> string \<Rightarrow> string \<Rightarrow> transaction wop" where
  "retirer env u provider amnt phone pin key =
     bindE (compte_de u) (\<lambda>compte.
     thenE (verify_pin (we_pins env) (acc_id compte) pin)
     (bindE (readE (\<lambda>s. get_by_idempotency_key s key)) (\<lambda>rejeu.
      case rejeu of Some t \<Rightarrow> retE t
      | None \<Rightarrow>
        bindE (to_money amnt (acc_currency compte)) (\<lambda>montant.
        thenE (ensure (is_positive montant) InvalidAmountError)
        (bindE (active_gateway env) (\<lambda>fallback.
         bindE (of_sum (gateway_for_provider (we_gateways env) provider fallback)) (\<lambda>gateway.
        thenE (ensure (supports_withdrawal gateway provider) WithdrawalNotSupported)
        (bindE (compte_suspense (gw_mode gateway) (acc_currency compte)) (\<lambda>suspense.
         bindE (transfer (acc_id compte) suspense montant (type_str WITHDRAWAL)
                  (''wallet:withdrawal:'' @ provider) key (Some ''wallet'') Tx_PENDING) (\<lambda>(t, _).
        thenE (update_transaction (tx_id t) (\<lambda>r. r\<lparr>tx_account := Some (acc_id compte),
                  tx_amount := Some (amount montant), tx_currency := Some (m_currency montant),
                  tx_gateway_mode := Some (gw_mode gateway)\<rparr>))
        (bindE fresh (\<lambda>nonce.
         bindE (case initier_retrait gateway nonce provider phone (amount montant) (uuid_str (tx_id t)) of
                  Inl Not_implemented \<Rightarrow> raiseE WithdrawalNotSupported
                | Inl Gateway_error \<Rightarrow> raiseE GatewayUnavailable | Inr x \<Rightarrow> retE x) (\<lambda>operation.
        thenE (update_transaction (tx_id t) (\<lambda>r. r\<lparr>tx_provider_reference := Some (op_reference operation)\<rparr>))
        (thenE (settle_operation env (tx_id t) (gw_mode gateway) (op_status operation))
          (reload (tx_id t))))))))))))))))"

subsection \<open>Reconciliation\<close>

datatype reconcile_status = Rc_not_found | Rc_missing_provider_reference | Rc_already_finalized
  | Rc_amount_or_currency_mismatch | Rc_completed | Rc_failed | Rc_pending

definition gateway_exception :: "gateway_failure \<Rightarrow> wexc" where
  "gateway_exception f = (case f of Not_implemented \<Rightarrow> NotImplementedError | Gateway_error \<Rightarrow> RuntimeError)"

definition reconcile_transaction :: "wallet_env \<Rightarrow> uuid \<Rightarrow> (reconcile_status \<times> string option) wop" where
  "reconcile_transaction env i =
     bindE (readE (\<lambda>s. transaction_get s i)) (\<lambda>found.
     case found of None \<Rightarrow> retE (Rc_not_found, None)
     | Some t \<Rightarrow>
       (case tx_provider_reference t of None \<Rightarrow> retE (Rc_missing_provider_reference, None)
        | Some reference \<Rightarrow>
          if tx_status t = Tx_COMPLETED \<or> tx_status t = Tx_FAILED \<or> tx_status t = Tx_REVERSED
          then retE (Rc_already_finalized, tx_gateway_mode t)
          else
            (let mode = (case tx_gateway_mode t of None \<Rightarrow> ''paystack'' | Some m \<Rightarrow> if m = [] then ''paystack'' else m)
             in bindE (of_sum (gateway_for_mode (we_gateways env) mode)) (\<lambda>gateway.
                bindE fresh (\<lambda>nonce.
                bindE (of_sum (map_sum gateway_exception id
                  (if tx_type t = type_str WITHDRAWAL then verifier_retrait gateway nonce reference
                   else verifier_depot gateway nonce reference))) (\<lambda>result.
                if op_status result = Gw_COMPLETED then
                  (if op_amount result \<noteq> None \<and> (op_amount result \<noteq> tx_amount t \<or> op_currency result \<noteq> tx_currency t)
                   then retE (Rc_amount_or_currency_mismatch, Some mode)
                   else bindE (confirmer_operation env i mode) (\<lambda>_. retE (Rc_completed, Some mode)))
                else if op_status result = Gw_FAILED then
                  bindE (echouer_operation i mode) (\<lambda>_. retE (Rc_failed, Some mode))
                else retE (Rc_pending, Some mode)))))))"

subsection \<open>The service other modules call\<close>

definition money_of_service :: "int \<Rightarrow> money wop" where
  "money_of_service a = of_sum (map_sum AmountError id (mk_money a XOF))"

definition debiter :: "uuid \<Rightarrow> uuid \<Rightarrow> int \<Rightarrow> string \<Rightarrow> string \<Rightarrow> string \<Rightarrow> string option \<Rightarrow> uuid wop" where
  "debiter compte contrepartie montant reference key ty origin =
     bindE (money_of_service montant) (\<lambda>m.
     bindE (transfer compte contrepartie m ty reference key origin Tx_COMPLETED) (\<lambda>(t, _).
     thenE (update_transaction (tx_id t) (\<lambda>r. r\<lparr>tx_amount := Some (amount m), tx_currency := Some (m_currency m)\<rparr>))
       (retE (tx_id t))))"

definition crediter :: "uuid \<Rightarrow> uuid \<Rightarrow> int \<Rightarrow> string \<Rightarrow> string \<Rightarrow> string \<Rightarrow> string option \<Rightarrow> uuid wop" where
  "crediter compte contrepartie montant reference key ty origin =
     bindE (money_of_service montant) (\<lambda>m.
     bindE (transfer contrepartie compte m ty reference key origin Tx_COMPLETED) (\<lambda>(t, _).
     thenE (update_transaction (tx_id t) (\<lambda>r. r\<lparr>tx_amount := Some (amount m), tx_currency := Some (m_currency m)\<rparr>))
       (retE (tx_id t))))"

definition ouvrir_compte_technique :: "string \<Rightarrow> uuid wop" where
  "ouvrir_compte_technique reference =
     bindE (account_create None TECHNICAL XOF (Some reference) False) (\<lambda>a. retE (acc_id a))"

definition solde :: "uuid \<Rightarrow> int wop" where
  "solde i = bindE (account_balance i) (\<lambda>b. retE (b_amount b))"

definition compte_de_utilisateur :: "uuid \<Rightarrow> uuid wop" where
  "compte_de_utilisateur u = bindE (readE (\<lambda>s. account_by_user s u XOF USER)) (\<lambda>found.
     case found of Some a \<Rightarrow> retE (acc_id a)
     | None \<Rightarrow> bindE (account_create (Some u) USER XOF None False) (\<lambda>a. retE (acc_id a)))"

subsection \<open>Identity events\<close>

definition on_user_registered :: "uuid option \<Rightarrow> string option \<Rightarrow> unit wop" where
  "on_user_registered user phone = (case user of None \<Rightarrow> retE ()
     | Some u \<Rightarrow> bindE (provisionner_compte u) (\<lambda>_.
         case phone of None \<Rightarrow> retE () | Some p \<Rightarrow> whenE (p \<noteq> []) (phone_upsert u p)))"

definition on_user_updated :: "uuid option \<Rightarrow> string option \<Rightarrow> unit wop" where
  "on_user_updated user phone = (case (user, phone) of
       (Some u, Some p) \<Rightarrow> whenE (p \<noteq> []) (phone_upsert u p) | _ \<Rightarrow> retE ())"

definition on_user_suspended :: "uuid option \<Rightarrow> unit wop" where
  "on_user_suspended user = (case user of None \<Rightarrow> retE ()
     | Some u \<Rightarrow> bindE (readE (\<lambda>s. account_by_user s u XOF USER)) (\<lambda>found.
         case found of None \<Rightarrow> retE () | Some a \<Rightarrow> account_set_status (acc_id a) FROZEN))"

end
