(* ===== verification/Exchange.thy ===== *)
theory Exchange
  imports WalletOps
begin

section \<open>Currency exchange\<close>

text \<open>
  \<^verbatim>\<open>wallet/application/exchange.py\<close>: a conversion is two transfers, each within one currency,
  through the position account of each currency, and a row that links them. \<^verbatim>\<open>self.rates\<close> is the
  table of quotations (\<open>taux\<close>), which is what the constructor uses when it is given no other port.
\<close>

definition fx_position_reference :: "string \<Rightarrow> string" where
  "fx_position_reference c = ''wallet:fx:position:'' @ c"

definition compte_de_position :: "string \<Rightarrow> uuid wop" where
  "compte_de_position c =
     bindE (of_sum (map_sum AmountError id (devise c))) (\<lambda>_.
     bindE (readE (\<lambda>s. account_by_reference s (fx_position_reference c))) (\<lambda>found.
     case found of Some a \<Rightarrow> retE (acc_id a)
     | None \<Rightarrow> bindE (account_create None TECHNICAL c (Some (fx_position_reference c)) True) (\<lambda>a. retE (acc_id a))))"

definition add_conversion :: "uuid \<Rightarrow> uuid \<Rightarrow> uuid \<Rightarrow> money \<Rightarrow> money \<Rightarrow> rat \<Rightarrow> currency_conversion wop" where
  "add_conversion acc src tgt m n r =
     bindE fresh (\<lambda>i.
     thenE (ensure (numeric_14_2 (amount m) \<and> numeric_14_2 (amount n)) DataError)
     (let row = \<lparr>cc_id = i, cc_account = acc, cc_source_transaction = src, cc_target_transaction = tgt,
            cc_source_amount = amount m, cc_source_currency = m_currency m,
            cc_target_amount = amount n, cc_target_currency = m_currency n, cc_rate = r\<rparr>
      in thenE (modE (\<lambda>s. s\<lparr>conversions := conversions s @ [row]\<rparr>)) (retE row)))"

definition convertir :: "uuid \<Rightarrow> uuid \<Rightarrow> money \<Rightarrow> string \<Rightarrow> (currency_conversion \<times> money \<times> money \<times> rat) wop" where
  "convertir source_id target_id montant key =
     bindE (readE (\<lambda>s. (account_get s source_id, account_get s target_id))) (\<lambda>(src, tgt).
     bindE (some_or AccountNotFound src) (\<lambda>source.
     bindE (some_or AccountNotFound tgt) (\<lambda>target.
     thenE (ensure (acc_currency source \<noteq> acc_currency target) SameCurrencyConversion)
     (thenE (ensure (m_currency montant = acc_currency source) InvalidAmountError)
     (thenE (ensure (is_positive montant) InvalidAmountError)
     (bindE (readE (\<lambda>s. taux s (acc_currency source) (acc_currency target))) (\<lambda>quoted.
      bindE (some_or ExchangeRateUnavailable quoted) (\<lambda>rate.
      bindE (of_sum (map_sum AmountError id (convertir_montant montant (acc_currency target) rate))) (\<lambda>cible.
     thenE (ensure (is_positive cible) InvalidAmountError)
     (bindE (compte_de_position (acc_currency source)) (\<lambda>position_source.
      bindE (compte_de_position (acc_currency target)) (\<lambda>position_cible.
      bindE (transfer (acc_id source) position_source montant (type_str CURRENCY_CONVERSION)
         (''wallet:fx:out:'' @ acc_currency source @ ''->'' @ acc_currency target)
         (key @ '':out'') (Some ''wallet'') Tx_COMPLETED) (\<lambda>(t_out, _).
      bindE (transfer position_cible (acc_id target) cible (type_str CURRENCY_CONVERSION)
         (''wallet:fx:in:'' @ acc_currency source @ ''->'' @ acc_currency target)
         (key @ '':in'') (Some ''wallet'') Tx_COMPLETED) (\<lambda>(t_in, _).
      bindE (add_conversion (acc_id source) (tx_id t_out) (tx_id t_in) montant cible rate) (\<lambda>c.
      retE (c, montant, cible, rate))))))))))))))))"

subsection \<open>A conversion on success\<close>

lemma add_conversion_Inr:
  "add_conversion acc src tgt m n r s = (Inr c, t) \<Longrightarrow>
     t = s\<lparr>conversions := conversions s @ [c], next_uuid := Suc (next_uuid s)\<rparr>
     \<and> cc_source_transaction c = src \<and> cc_target_transaction c = tgt
     \<and> cc_source_amount c = amount m \<and> cc_target_amount c = amount n \<and> cc_rate c = r"
  by (auto simp: add_conversion_def Let_def)

end
