(* ===== verification/WalletInv.thy ===== *)
theory WalletInv
  imports Exchange
begin

section \<open>The invariants of the wallet, for every request\<close>

text \<open>
  Every operation of the wallet keeps \<open>wallet_inv\<close> (\<open>keeps_intros\<close> carries the proofs), so it holds
  in every state reachable by requests, each committed or rolled back as a whole, and by the passing
  of time.
\<close>

subsection \<open>Operations on other tables\<close>

lemma wallet_inv_frame:
  assumes inv: "wallet_inv s" and same: "accounts t = accounts s" "entries t = entries s" "transactions t = transactions s"
    "gateway_accounts t = gateway_accounts s"
    and pins: "\<forall>r \<in> set (pins t). failed_attempts r = 0 \<and> locked_until r = None" and n: "next_uuid s \<le> next_uuid t"
  shows "wallet_inv t"
proof -
  have eq: "account_get t = account_get s" "entries_of t = entries_of s" "account_total t = account_total s"
    using same by (simp_all add: account_get_def entries_of_def account_total_def fun_eq_iff)
  have "ids_ok t"
    using inv n unfolding wallet_inv_def ledger_ok_def ids_ok_def same by (blast intro: order_less_le_trans)
  moreover have "\<forall>e \<in> set (entries t). entry_ok t e" "double_entry t"
    using inv unfolding wallet_inv_def ledger_ok_def entry_ok_def double_entry_def same eq by blast+
  moreover have "solvent t" using inv unfolding wallet_inv_def solvent_def same eq by blast
  moreover have "pending_ok t"
    using inv unfolding wallet_inv_def pending_ok_def overdraftable_def same eq by blast
  ultimately show ?thesis using pins by (simp add: wallet_inv_def ledger_ok_def pins_unlocked_def)
qed

lemma wallet_inv_pinsD: "wallet_inv s \<Longrightarrow> r \<in> set (pins s) \<Longrightarrow> failed_attempts r = 0 \<and> locked_until r = None"
  by (simp add: wallet_inv_def pins_unlocked_def)

lemma keeps_frame:
  assumes "\<And>s x t. m s = (Inr x, t) \<Longrightarrow> accounts t = accounts s \<and> entries t = entries s
     \<and> transactions t = transactions s \<and> gateway_accounts t = gateway_accounts s \<and> pins t = pins s
     \<and> next_uuid s \<le> next_uuid t"
  shows "keeps wallet_inv m"
proof (rule keepsI)
  fix s x t
  assume inv: "wallet_inv s" and run: "m s = (Inr x, t)"
  from wallet_inv_pinsD [OF inv] assms [OF run] show "wallet_inv t"
    by (intro wallet_inv_frame [OF inv]) simp_all
qed

lemma keeps_fresh [keeps_intros]: "keeps wallet_inv fresh"
  by (rule keeps_frame) auto

lemma keeps_now [keeps_intros]: "keeps wallet_inv now"
  by (rule keeps_frame) auto

lemma keeps_outbox_enqueue [keeps_intros]: "keeps wallet_inv (outbox_enqueue nm p)"
  by (rule keeps_frame) (auto simp: outbox_enqueue_def)

lemma keeps_bus [keeps_intros]: "keeps wallet_inv (modE (\<lambda>s. s\<lparr>bus_events := f s\<rparr>))"
  by (rule keeps_frame) auto

lemma keeps_recovery_codes [keeps_intros]: "keeps wallet_inv (modE (\<lambda>s. s\<lparr>recovery_codes := f s\<rparr>))"
  by (rule keeps_frame) auto

lemma keeps_phone_upsert [keeps_intros]: "keeps wallet_inv (phone_upsert u p)"
  by (rule keeps_frame) (auto simp: phone_upsert_def split: if_splits)

lemma keeps_recovery_code_add [keeps_intros]: "keeps wallet_inv (recovery_code_add acc h)"
  by (rule keeps_frame) (auto simp: recovery_code_add_def)

lemma keeps_proof_add [keeps_intros]: "keeps wallet_inv (proof_add jti u purpose e)"
  by (rule keeps_frame) (auto simp: proof_add_def)

lemma keeps_audit_add [keeps_intros]: "keeps wallet_inv (audit_add acc actor action reason n)"
  by (rule keeps_frame) (auto simp: audit_add_def)

lemma keeps_poser [keeps_intros]: "keeps wallet_inv (poser base quote r source)"
  by (rule keeps_frame) (auto simp: poser_def)

lemma keeps_add_conversion [keeps_intros]: "keeps wallet_inv (add_conversion acc src tgt m n r)"
  by (rule keeps_frame) (auto dest!: add_conversion_Inr)

subsection \<open>PINs\<close>

lemma wallet_inv_pins:
  "wallet_inv s \<Longrightarrow> \<forall>r \<in> set p. failed_attempts r = 0 \<and> locked_until r = None \<Longrightarrow> next_uuid s \<le> n \<Longrightarrow>
   wallet_inv (s\<lparr>pins := p, next_uuid := n\<rparr>)"
  by (rule wallet_inv_frame [of s]) simp_all

lemma wallet_inv_pins_only:
  "wallet_inv s \<Longrightarrow> \<forall>r \<in> set p. failed_attempts r = 0 \<and> locked_until r = None \<Longrightarrow> wallet_inv (s\<lparr>pins := p\<rparr>)"
  using wallet_inv_pins [of s p "next_uuid s"] by simp

lemma keeps_set_pin [keeps_intros]: "keeps wallet_inv (set_pin acc h salt)"
  by (rule keepsI)
    (auto simp: set_pin_def set_update_row dest: wallet_inv_pinsD intro!: wallet_inv_pins_only split: if_splits)

lemma keeps_hash_pin [keeps_intros]: "keeps wallet_inv (hash_pin L pin)"
  unfolding hash_pin_def by (intro keeps_intros)

lemma keeps_verify_pin [keeps_intros]: "keeps wallet_inv (verify_pin L acc pin)"
proof (rule keepsI)
  fix s x t
  assume inv: "wallet_inv s" and run: "verify_pin L acc pin s = (Inr x, t)"
  then have p: "\<forall>r \<in> set (pins s). failed_attempts r = 0 \<and> locked_until r = None"
    by (simp add: wallet_inv_def pins_unlocked_def)
  from run obtain f n where t: "t = s\<lparr>pins := update_row pin_account acc f (pins s), next_uuid := n\<rparr>"
    and f: "\<And>r. failed_attempts (f r) = 0 \<and> locked_until (f r) = None" and n: "next_uuid s \<le> n"
    by (rule verify_pin_Inr) (rule that)
  show "wallet_inv t"
    unfolding t using inv n p f by (intro wallet_inv_pins) (auto simp: set_update_row)
qed

lemma keeps_issue_codes [keeps_intros]: "keeps wallet_inv (issue_codes L acc k)"
  by (induction k) (auto intro!: keeps_intros)

lemma keeps_consume_step_up_proof [keeps_intros]: "keeps wallet_inv (consume_step_up_proof p u purpose)"
  unfolding consume_step_up_proof_def by (intro keeps_intros)

lemma keeps_require_transfer_step_up [keeps_intros]: "keeps wallet_inv (require_transfer_step_up th u a p)"
  unfolding require_transfer_step_up_def by (intro keeps_intros)

lemma keeps_pin_requests [keeps_intros]:
  "keeps wallet_inv (define_pin L u pin confirm_pin proof)"
  "keeps wallet_inv (change_pin L u current new_pin confirm_pin)"
  "keeps wallet_inv (reset_pin_with_recovery L u secret new_pin confirm_pin)"
  "keeps wallet_inv (admin_reset_pin L admin u new_pin confirm_pin reason)"
  unfolding define_pin_def change_pin_def reset_pin_with_recovery_def admin_reset_pin_def
    ensure_password_policy_def
  by (intro keeps_intros)+

subsection \<open>Transactions\<close>

lemma keeps_transaction_create [keeps_intros]:
  "keeps wallet_inv (transaction_create ty st origin key completed acc m reverses)"
  by (rule keepsI)
    (auto simp: transaction_create_Inr transaction_row_def add_header_def [symmetric]
      intro!: wallet_inv_header split: option.splits)

definition pending_ok_but :: "uuid \<Rightarrow> wallet_db \<Rightarrow> bool" where
  "pending_ok_but i s \<longleftrightarrow> (\<forall>g \<in> set (gateway_accounts s). overdraftable s (ga_account g))
     \<and> (\<forall>t \<in> set (transactions s). tx_status t = Tx_PENDING \<longrightarrow> tx_id t \<noteq> i \<longrightarrow>
          (if tx_type t = type_str DEPOSIT then entries_of s (tx_id t) = []
           else \<forall>e \<in> set (entries_of s (tx_id t)). le_direction e = CREDIT \<longrightarrow> overdraftable s (le_account e)))"

definition wallet_inv_but :: "uuid \<Rightarrow> wallet_db \<Rightarrow> bool" where
  "wallet_inv_but i s \<longleftrightarrow> ledger_ok s \<and> solvent s \<and> pending_ok_but i s \<and> pins_unlocked s"

lemma wallet_inv_weaken: "wallet_inv s \<Longrightarrow> wallet_inv_but i s"
  by (simp add: wallet_inv_def wallet_inv_but_def pending_ok_def pending_ok_but_def)

lemma ledger_ok_update_transactions:
  assumes "ledger_ok s" "\<And>r. tx_id (f r) = tx_id r" "\<And>r. tx_key (f r) = tx_key r"
  shows "ledger_ok (s\<lparr>transactions := update_row tx_id i f (transactions s)\<rparr>)"
proof -
  have "map tx_id (update_row tx_id i f (transactions s)) = map tx_id (transactions s)"
    "map tx_key (update_row tx_id i f (transactions s)) = map tx_key (transactions s)"
    using assms by (simp_all add: map_update_row)
  moreover from this(1) have "tx_id ` set (update_row tx_id i f (transactions s)) = tx_id ` set (transactions s)"
    by (metis set_map)
  moreover from this have "\<forall>t \<in> set (update_row tx_id i f (transactions s)). tx_id t < next_uuid s"
    using assms(1) unfolding ledger_ok_def ids_ok_def by (metis (no_types, lifting) image_iff)
  ultimately show ?thesis
    using assms(1) by (simp add: ledger_ok_def ids_ok_def entry_ok_def double_entry_def entries_of_def)
qed

lemma wallet_inv_settled:
  assumes "wallet_inv_but i s" "\<And>r. tx_id (f r) = tx_id r" "\<And>r. tx_key (f r) = tx_key r"
    "\<And>r. tx_status (f r) \<noteq> Tx_PENDING"
  shows "wallet_inv (s\<lparr>transactions := update_row tx_id i f (transactions s)\<rparr>)"
  using assms ledger_ok_update_transactions [of s f i]
  by (auto simp: wallet_inv_but_def wallet_inv_def solvent_def pending_ok_but_def pending_ok_def
      overdraftable_def entries_of_def pins_unlocked_def set_update_row account_total_def account_get_def)

lemma marquer_settles:
  assumes "wallet_inv_but i s" "st \<noteq> Tx_PENDING" "marquer i st s = (Inr u, t)"
  shows "wallet_inv t"
proof -
  have "t = s\<lparr>transactions := update_row tx_id i (\<lambda>r. if st = Tx_COMPLETED
      then r\<lparr>tx_status := st, tx_completed := Some (clock s)\<rparr> else r\<lparr>tx_status := st\<rparr>) (transactions s)\<rparr>"
    using assms(3) by (auto simp: marquer_def update_transaction_def)
  with wallet_inv_settled [OF assms(1)] assms(2) show ?thesis by simp
qed

lemma keeps_marquer: "st \<noteq> Tx_PENDING \<Longrightarrow> keeps wallet_inv (marquer i st)"
  by (rule keepsI) (auto intro: marquer_settles wallet_inv_weaken)

text \<open>Writing attributes other than the identifier, the key, the type and the status.\<close>

lemma keeps_update_transaction:
  assumes "\<And>r. tx_id (f r) = tx_id r" "\<And>r. tx_key (f r) = tx_key r" "\<And>r. tx_status (f r) = tx_status r"
    "\<And>r. tx_type (f r) = tx_type r"
  shows "keeps wallet_inv (update_transaction i f)"
proof (rule keepsI)
  fix s x t
  assume inv: "wallet_inv s" and run: "update_transaction i f s = (Inr x, t)"
  have "ledger_ok (s\<lparr>transactions := update_row tx_id i f (transactions s)\<rparr>)"
    using inv assms by (intro ledger_ok_update_transactions) (auto simp: wallet_inv_def)
  with inv run assms show "wallet_inv t"
    by (auto simp: update_transaction_def wallet_inv_def solvent_def pending_ok_def
      overdraftable_def entries_of_def pins_unlocked_def set_update_row account_total_def account_get_def)
qed

lemma keeps_attributes [keeps_intros]:
  "keeps wallet_inv (update_transaction i (\<lambda>r. r\<lparr>tx_business := b\<rparr>))"
  "keeps wallet_inv (update_transaction i (\<lambda>r. r\<lparr>tx_gateway_mode := m\<rparr>))"
  "keeps wallet_inv (update_transaction i (\<lambda>r. r\<lparr>tx_provider_reference := p\<rparr>))"
  "keeps wallet_inv (update_transaction i (\<lambda>r. r\<lparr>tx_provider_reference := p, tx_authorization_url := url, tx_access_code := cd\<rparr>))"
  "keeps wallet_inv (update_transaction i (\<lambda>r. r\<lparr>tx_amount := am, tx_currency := cu\<rparr>))"
  "keeps wallet_inv (update_transaction i (\<lambda>r. r\<lparr>tx_account := ac, tx_amount := am, tx_currency := cu, tx_gateway_mode := m\<rparr>))"
  by (rule keeps_update_transaction; simp)+

subsection \<open>Accounts of the gateways\<close>

lemma account_get_set_status:
  "account_get (s\<lparr>accounts := update_row acc_id i (\<lambda>a. a\<lparr>acc_status := st\<rparr>) (accounts s)\<rparr>) j =
     map_option (\<lambda>a. if j = i then a\<lparr>acc_status := st\<rparr> else a) (account_get s j)"
  by (auto simp: account_get_def lookup_update_row option.map_id0 cong: option.map_cong)
     (simp add: option.map_ident)

lemma keeps_account_set_status [keeps_intros]: "keeps wallet_inv (account_set_status i st)"
proof (rule keepsI)
  fix s x t
  assume inv: "wallet_inv s" and run: "account_set_status i st s = (Inr x, t)"
  let ?f = "\<lambda>a. a\<lparr>acc_status := st\<rparr>"
  have t: "t = s\<lparr>accounts := update_row acc_id i ?f (accounts s)\<rparr>"
    using run by (simp add: account_set_status_def)
  have m: "map acc_id (update_row acc_id i ?f (accounts s)) = map acc_id (accounts s)" by simp
  then have im: "acc_id ` set (update_row acc_id i ?f (accounts s)) = acc_id ` set (accounts s)"
    by (metis set_map)
  then have lt: "\<forall>a \<in> set (update_row acc_id i ?f (accounts s)). acc_id a < next_uuid s"
    using inv unfolding wallet_inv_def ledger_ok_def ids_ok_def by (metis (no_types, lifting) image_iff)
  have od: "overdraftable t j \<longleftrightarrow> overdraftable s j" for j
    by (cases "account_get s j") (simp_all add: overdraftable_def t account_get_set_status)
  have eq: "entries t = entries s" "transactions t = transactions s" "gateway_accounts t = gateway_accounts s"
    "pins t = pins s" "next_uuid t = next_uuid s" "entries_of t = entries_of s" "account_total t = account_total s"
    by (simp_all add: t entries_of_def account_total_def fun_eq_iff)
  have "ids_ok t"
    using inv m lt unfolding wallet_inv_def ledger_ok_def ids_ok_def eq by (simp add: t)
  moreover have "\<forall>e \<in> set (entries t). entry_ok t e" "double_entry t"
    using inv unfolding wallet_inv_def ledger_ok_def entry_ok_def double_entry_def eq by (simp_all add: t im)
  moreover have "solvent t"
    using inv unfolding wallet_inv_def solvent_def eq by (auto simp: t set_update_row)
  moreover have "pending_ok t"
    using inv unfolding wallet_inv_def pending_ok_def od eq by blast
  ultimately show "wallet_inv t"
    using inv by (simp add: wallet_inv_def ledger_ok_def pins_unlocked_def eq)
qed

lemma wallet_inv_register:
  assumes "wallet_inv s" "overdraftable s (ga_account g)"
  shows "wallet_inv (s\<lparr>gateway_accounts := gateway_accounts s @ [g]\<rparr>)"
  using assms
  by (auto simp: wallet_inv_def ledger_ok_def ids_ok_def entry_ok_def double_entry_def solvent_def
      pending_ok_def overdraftable_def pins_unlocked_def entries_of_def account_get_def account_total_def)

lemma compte_suspense_Inr:
  assumes inv: "wallet_inv s" and run: "compte_suspense mode cur s = (Inr i, t)"
  shows "wallet_inv t \<and> overdraftable t i \<and> transactions t = transactions s \<and> entries t = entries s"
proof (cases "account_id_for s mode")
  case (Some j)
  with run have "t = s" "i = j" by (auto simp: compte_suspense_def)
  moreover from Some have "\<exists>g \<in> set (gateway_accounts s). ga_account g = j"
    by (auto simp: account_id_for_def dest: lookup_row_SomeD)
  ultimately show ?thesis using inv by (auto simp: wallet_inv_def pending_ok_def)
next
  case None
  define a where "a = \<lparr>acc_id = next_uuid s, acc_user = None, acc_type = TECHNICAL, acc_currency = cur,
    acc_status = ACTIVE, acc_reference = Some (''gateway:'' @ mode), allows_negative_balance = True\<rparr>"
  define s' where "s' = add_account a s"
  from run None have i: "i = next_uuid s"
    and t: "t = s'\<lparr>gateway_accounts := gateway_accounts s' @ [\<lparr>ga_provider = mode, ga_account = i\<rparr>]\<rparr>"
    by (auto simp: compte_suspense_def account_create_Inr gateway_register_def s'_def a_def add_account_def)
  have inv': "wallet_inv s'" using inv by (simp add: s'_def a_def wallet_inv_add_account)
  have "account_get s i = None"
    using inv account_get_in [of s i] by (auto simp: i wallet_inv_def ledger_ok_def ids_ok_def)
  then have od: "overdraftable s' i"
    by (simp add: overdraftable_def s'_def account_get_add_account a_def i)
  have "wallet_inv t" unfolding t using inv' od by (intro wallet_inv_register) simp_all
  with od show ?thesis
    by (simp add: t overdraftable_def account_get_def) (simp add: s'_def add_account_def)
qed

lemma keeps_compte_suspense [keeps_intros]: "keeps wallet_inv (compte_suspense mode cur)"
  by (rule keepsI) (blast dest: compte_suspense_Inr)

end
