(* ===== verification/WalletSteps.thy ===== *)
theory WalletSteps
  imports WalletInv
begin

section \<open>Gateway operations, requests and reachable states of the wallet\<close>

text \<open>
  The operations that touch pending transactions keep \<open>wallet_inv\<close>, hence so does every request of
  the module. \<open>wallet_step\<close> is one committed or rolled-back request, or the passing of time, and
  \<open>wallet_reachable\<close> the states a run starting from the empty database goes through.
\<close>

subsection \<open>Confirming and failing an operation\<close>

lemma transaction_get_in: "transaction_get s i = Some t \<Longrightarrow> t \<in> set (transactions s) \<and> tx_id t = i"
  unfolding transaction_get_def by (rule lookup_row_SomeD)

lemma reload_Inr [simp]: "reload i s = (Inr t, u) \<longleftrightarrow> u = s \<and> transaction_get s i = Some t"
  by (auto simp: reload_def)

lemma keeps_reload [keeps_intros]: "keeps wallet_inv (reload i)"
  unfolding reload_def by (intro keeps_intros)

lemma keeps_read_money [keeps_intros]: "keeps wallet_inv (read_money t)"
  unfolding read_money_def by (intro keeps_intros)

lemma read_money_Inr: "read_money t s = (Inr m, u) \<Longrightarrow> u = s \<and> tx_money t = Inr (Some m)"
  by (auto simp: read_money_def)

lemma keeps_publish_completed [keeps_intros]: "keeps wallet_inv (publish_completed env t m)"
  unfolding publish_completed_def by (intro keeps_intros)

lemma post_sur_transaction_Inr:
  "post_sur_transaction i ls s = (Inr u, t) \<longleftrightarrow>
     assert_balanced ls = Inr () \<and> (\<forall>l \<in> set ls. writable s l) \<and> t = append_lines i ls s"
  by (auto simp: post_sur_transaction_def write_lines_Inr append_lines_def)

lemma wallet_inv_but_append:
  assumes inv: "wallet_inv s" and i: "i \<in> tx_id ` set (transactions s)" and none: "entries_of s i = []"
    and ls: "assert_balanced ls = Inr u" "\<forall>l \<in> set ls. writable s l"
    and cover: "\<And>a. a \<in> set (accounts s) \<Longrightarrow> \<not> allows_negative_balance a \<Longrightarrow>
       0 \<le> account_total s (acc_id a) + sum_list (map line_signed (filter (\<lambda>l. pl_account l = acc_id a) ls))"
  shows "wallet_inv_but i (append_lines i ls s)"
proof -
  have "ledger_ok (append_lines i ls s)"
    using inv none i ls by (intro ledger_ok_append) (simp_all add: wallet_inv_def)
  moreover have "solvent (append_lines i ls s)"
    using inv cover by (intro solvent_append) (simp_all add: wallet_inv_def)
  moreover have "pending_ok_but i (append_lines i ls s)"
    using inv by (auto simp: wallet_inv_def pending_ok_def pending_ok_but_def entries_of_append_lines overdraftable_def)
  ultimately show ?thesis using inv by (simp add: wallet_inv_def wallet_inv_but_def pins_unlocked_def)
qed

text \<open>The lines of a deposit: the suspense account is debited, the customer credited.\<close>

definition deposit_lines :: "uuid \<Rightarrow> uuid \<Rightarrow> money \<Rightarrow> string \<Rightarrow> posting_line list" where
  "deposit_lines suspense acc m mode =
     [\<lparr>pl_account = suspense, pl_direction = DEBIT, pl_money = m, pl_reference = Some (''wallet:deposit:'' @ mode)\<rparr>,
      \<lparr>pl_account = acc, pl_direction = CREDIT, pl_money = m, pl_reference = Some (''wallet:deposit:'' @ mode)\<rparr>]"

lemma deposit_lines_eq: "deposit_lines suspense acc m mode = transfer_lines suspense acc m (''wallet:deposit:'' @ mode)"
  by (simp add: deposit_lines_def transfer_lines_def)

lemma deposit_posting:
  assumes inv: "wallet_inv s" and t: "transaction_get s i = Some t" "tx_status t = Tx_PENDING" "tx_type t = type_str DEPOSIT"
    and sus: "compte_suspense mode XOF s = (Inr suspense, u)"
    and post: "post_sur_transaction i (deposit_lines suspense acc m mode) u = (Inr x, v)"
  shows "wallet_inv_but i v"
proof -
  from compte_suspense_Inr [OF inv sus] have u: "wallet_inv u" "overdraftable u suspense"
    "transactions u = transactions s" "entries u = entries s" by auto
  from t(1) have ti: "t \<in> set (transactions s)" "tx_id t = i" using transaction_get_in by blast+
  from inv ti t have none: "entries_of s i = []" by (auto simp: wallet_inv_def pending_ok_def)
  from post have ls: "assert_balanced (deposit_lines suspense acc m mode) = Inr ()"
      "\<forall>l \<in> set (deposit_lines suspense acc m mode). writable u l"
    and v: "v = append_lines i (deposit_lines suspense acc m mode) u"
    by (auto simp: post_sur_transaction_Inr)
  have m: "0 < amount m" using ls(2) by (simp add: deposit_lines_def writable_def)
  have "acc_id a \<noteq> suspense" if "a \<in> set (accounts u)" "\<not> allows_negative_balance a" for a
    using that u account_get_distinct [of u a] by (auto simp: overdraftable_def wallet_inv_def)
  then show ?thesis
    unfolding v using u ti none ls m
    by (intro wallet_inv_but_append)
      (auto simp: deposit_lines_eq transfer_lines_sum wallet_inv_def solvent_def entries_of_def)
qed

lemma keeps_confirmer_operation [keeps_intros]: "keeps wallet_inv (confirmer_operation env i mode)"
proof -
  define booking where "booking = (\<lambda>t. bindE (read_money t) (\<lambda>montant. bindE (compte_suspense mode XOF) (\<lambda>suspense.
     bindE (some_or IntegrityError (tx_account t)) (\<lambda>acc. post_sur_transaction i (deposit_lines suspense acc montant mode)))))"
  define closing where "closing = thenE (marquer i Tx_COMPLETED) (bindE (reload i) (\<lambda>t'.
     thenE (whenE (tx_amount t' \<noteq> None) (bindE (read_money t') (\<lambda>m. publish_completed env t' m))) (retE t')))"
  have closing: "yields (wallet_inv_but i) closing (\<lambda>_. wallet_inv)"
    unfolding closing_def
  proof (rule yields_thenE)
    show "yields (wallet_inv_but i) (marquer i Tx_COMPLETED) (\<lambda>_. wallet_inv)"
      by (rule yieldsI) (auto intro: marquer_settles)
  qed (unfold keeps_yields [symmetric], intro keeps_intros)
  have eq: "confirmer_operation env i mode = bindE (reload i) (\<lambda>t.
     if tx_status t \<noteq> Tx_PENDING then retE t
     else thenE (whenE (tx_type t = type_str DEPOSIT) (booking t)) closing)"
    unfolding confirmer_operation_def booking_def closing_def deposit_lines_def by (rule refl)
  show ?thesis
  proof (rule keepsI)
    fix s x t
    assume inv: "wallet_inv s" and run: "confirmer_operation env i mode s = (Inr x, t)"
    from run obtain r where r: "transaction_get s i = Some r"
      and rest: "(if tx_status r \<noteq> Tx_PENDING then retE r
         else thenE (whenE (tx_type r = type_str DEPOSIT) (booking r)) closing) s = (Inr x, t)"
      by (auto simp: eq)
    show "wallet_inv t"
    proof (cases "tx_status r = Tx_PENDING")
      case False
      with inv rest show ?thesis by simp
    next
      case True
      with rest obtain v where close: "closing v = (Inr x, t)"
        and book: "whenE (tx_type r = type_str DEPOSIT) (booking r) s = (Inr (), v)" by auto
      have "wallet_inv_but i v"
      proof (cases "tx_type r = type_str DEPOSIT")
        case False
        with book inv show ?thesis by (simp add: wallet_inv_weaken)
      next
        case d: True
        with book show ?thesis
          by (auto simp: booking_def dest!: read_money_Inr intro: deposit_posting [OF inv r True d])
      qed
      with closing close show ?thesis by (blast dest: yieldsD)
    qed
  qed
qed

subsection \<open>Reversals\<close>

lemma inverse_line_Inr:
  assumes "inverse_line ref e = Inr l" "numeric_14_2 (le_amount e)"
  shows "pl_account l = le_account e \<and> line_signed l = - signed e \<and> pl_reference l = Some ref
    \<and> amount (pl_money l) = le_amount e \<and> m_currency (pl_money l) = le_currency e"
proof -
  have "from_db (of_int (le_amount e)) (le_currency e) = Inr m \<Longrightarrow> m = Money (le_amount e) (le_currency e)" for m
    using assms(2) by (simp add: from_db_def ctx_round_of_int Let_def mk_money_Inr_iff numeric_14_2_def)
  with assms(1) show ?thesis
    by (cases "le_direction e") (auto simp: inverse_line_def line_signed_def signed_def split: sum.splits)
qed

lemma inverse_lines_signed:
  assumes "list_all2 (\<lambda>e l. inverse_line ref e = Inr l) es ls" "\<forall>e \<in> set es. numeric_14_2 (le_amount e)"
  shows "sum_list (map line_signed (filter (\<lambda>l. pl_account l = a) ls))
     = - sum_list (map signed (filter (\<lambda>e. le_account e = a) es))"
  using assms
proof (induction es ls rule: list_all2_induct)
  case (Cons e es l ls)
  from Cons.prems Cons.hyps(1) inverse_line_Inr [of ref e l] have "pl_account l = le_account e" "line_signed l = - signed e"
    by auto
  with Cons show ?case by simp
qed simp

lemma contre_passer_Inr:
  assumes run: "contre_passer r ref s = (Inr r', t)"
  obtains ls h where "tx_id h = next_uuid s" "tx_status h = Tx_COMPLETED" "tx_key h = Some (''reversal:'' @ uuid_str (tx_id r))"
    "get_by_idempotency_key s (''reversal:'' @ uuid_str (tx_id r)) = None"
    "list_all2 (\<lambda>e l. inverse_line ref e = Inr l) (entries_of s (tx_id r)) ls"
    "assert_balanced ls = Inr ()" "\<forall>l \<in> set ls. writable s l" "t = posted s h ls" "r' = h" "tx_reverses h = Some (tx_id r)"
proof -
  from run obtain m ls where m: "tx_money r = Inr m"
    and key: "get_by_idempotency_key s (''reversal:'' @ uuid_str (tx_id r)) = None"
    and r': "r' = transaction_row (next_uuid s) (tx_type r) Tx_COMPLETED (tx_origin r) (Some (''reversal:'' @ uuid_str (tx_id r)))
       (Some (clock s)) (tx_account r) m (Some (tx_id r)) (clock s)"
    and inv: "map_or_fail (inverse_line ref) (entries_of s (tx_id r)) = Inr ls"
    and post: "post_sur_transaction (tx_id r') ls (add_header r' s) = (Inr (), t)"
    by (auto simp: contre_passer_def transaction_create_Inr add_header_def)
  have id: "tx_id r' = next_uuid s" by (simp add: r')
  from post have "t = posted s r' ls" by (simp add: post_sur_transaction_Inr posted_eq [OF id] id)
  with post inv key id show thesis
    by (intro that [of r' ls])
      (auto simp: r' transaction_row_def post_sur_transaction_Inr map_or_fail_Inr writable_def)
qed

lemma pending_credit:
  assumes "wallet_inv s" "r \<in> set (transactions s)" "tx_status r = Tx_PENDING" "tx_type r \<noteq> type_str DEPOSIT"
    "e \<in> set (entries_of s (tx_id r))" "le_direction e = CREDIT"
  shows "overdraftable s (le_account e)"
proof -
  have "if tx_type r = type_str DEPOSIT then entries_of s (tx_id r) = []
     else \<forall>e \<in> set (entries_of s (tx_id r)). le_direction e = CREDIT \<longrightarrow> overdraftable s (le_account e)"
    using assms(1-3) unfolding wallet_inv_def pending_ok_def by blast
  with assms(4-6) show ?thesis by simp
qed

lemma contre_passer_inv:
  assumes inv: "wallet_inv s" and r: "r \<in> set (transactions s)" "tx_status r = Tx_PENDING" "tx_type r \<noteq> type_str DEPOSIT"
    and run: "contre_passer r ref s = (Inr r', t)"
  shows "wallet_inv t"
proof -
  from run obtain ls h where h: "tx_id h = next_uuid s" "tx_status h = Tx_COMPLETED"
      "tx_key h = Some (''reversal:'' @ uuid_str (tx_id r))"
      "get_by_idempotency_key s (''reversal:'' @ uuid_str (tx_id r)) = None"
    and rel: "list_all2 (\<lambda>e l. inverse_line ref e = Inr l) (entries_of s (tx_id r)) ls"
    and ls: "assert_balanced ls = Inr ()" "\<forall>l \<in> set ls. writable s l" and t: "t = posted s h ls"
    by (rule contre_passer_Inr)
  have num: "\<forall>e \<in> set (entries_of s (tx_id r)). numeric_14_2 (le_amount e) \<and> 0 < le_amount e"
    using inv by (auto simp: wallet_inv_def ledger_ok_def entry_ok_def entries_of_def)
  have cover: "0 \<le> account_total s (acc_id a) + sum_list (map line_signed (filter (\<lambda>l. pl_account l = acc_id a) ls))"
    if a: "a \<in> set (accounts s)" "\<not> allows_negative_balance a" for a
  proof -
    have "signed e \<le> 0" if e: "e \<in> set (entries_of s (tx_id r))" "le_account e = acc_id a" for e
    proof -
      have "\<not> overdraftable s (le_account e)"
        using inv a e account_get_distinct [of s a] by (simp add: overdraftable_def wallet_inv_def)
      then have "le_direction e = DEBIT"
        using pending_credit [OF inv r e(1)] by (cases "le_direction e") auto
      then show ?thesis using num e by (simp add: signed_def order_less_imp_le)
    qed
    then have "sum_list (map signed (filter (\<lambda>e. le_account e = acc_id a) (entries_of s (tx_id r)))) \<le> 0"
      by (intro sum_list_nonpos) auto
    moreover have "0 \<le> account_total s (acc_id a)" using inv a by (simp add: wallet_inv_def solvent_def)
    ultimately show ?thesis using inverse_lines_signed [OF rel, of "acc_id a"] num by simp
  qed
  show ?thesis unfolding t using inv h ls cover by (intro wallet_inv_posted) auto
qed

lemma echouer_cases:
  assumes "transaction_get s i = Some r"
  shows "echouer_operation i mode s =
    (if tx_status r \<noteq> Tx_PENDING then retE r
     else if tx_type r = type_str WITHDRAWAL
       then thenE (bindE (contre_passer r (''wallet:reversal:'' @ mode)) (\<lambda>_. marquer i Tx_REVERSED)) (reload i)
     else thenE (marquer i Tx_FAILED) (reload i)) s"
  using assms by (simp add: echouer_operation_def bindE_def [of "reload i"] reload_def op_defs)

lemma keeps_echouer_operation [keeps_intros]: "keeps wallet_inv (echouer_operation i mode)"
proof (rule keepsI)
  fix s x t
  assume inv: "wallet_inv s" and run: "echouer_operation i mode s = (Inr x, t)"
  from run obtain r where r: "transaction_get s i = Some r"
    unfolding echouer_operation_def bindE_Inr reload_Inr by blast
  then have ri: "r \<in> set (transactions s)" using transaction_get_in by blast
  note run = run [unfolded echouer_cases [OF r]]
  consider "tx_status r \<noteq> Tx_PENDING" | "tx_status r = Tx_PENDING" "tx_type r = type_str WITHDRAWAL"
    | "tx_status r = Tx_PENDING" "tx_type r \<noteq> type_str WITHDRAWAL" by blast
  then show "wallet_inv t"
  proof cases
    case 1
    with run inv show ?thesis by simp
  next
    case 2
    with run obtain y u z where c: "contre_passer r (''wallet:reversal:'' @ mode) s = (Inr y, u)"
      and mk: "marquer i Tx_REVERSED u = (Inr z, t)"
      by (simp only: thenE_Inr bindE_Inr reload_Inr if_False if_True simp_thms) blast
    have "wallet_inv u" by (rule contre_passer_inv [OF inv ri _ _ c]) (simp_all add: 2)
    with mk show ?thesis by (auto intro: marquer_settles wallet_inv_weaken)
  next
    case 3
    with run have "\<exists>z. marquer i Tx_FAILED s = (Inr z, t)"
      by (simp only: thenE_Inr reload_Inr if_False simp_thms) blast
    with inv show ?thesis by (auto intro: marquer_settles wallet_inv_weaken)
  qed
qed

end
