(* ===== verification/WalletReach.thy ===== *)
theory WalletReach
  imports WalletSteps
begin

section \<open>Requests and reachable states of the wallet\<close>

text \<open>
  \<open>run_request\<close> gives each entry point of the module its use case; a request is run under
  \<open>atomically\<close>, as \<^verbatim>\<open>get_session\<close> and the event subscribers do. The invariants proved here
  speak of every reachable database.
\<close>

subsection \<open>The operations that use a gateway\<close>

lemma keeps_to_money [keeps_intros]: "keeps wallet_inv (to_money a c)"
  unfolding to_money_def by (rule keeps_of_sum)

lemma keeps_active_gateway [keeps_intros]: "keeps wallet_inv (active_gateway env)"
  unfolding active_gateway_def by (intro keeps_intros)

lemma keeps_settle_operation [keeps_intros]: "keeps wallet_inv (settle_operation env i mode st)"
  unfolding settle_operation_def by (intro keeps_intros)

lemma keeps_gateway_answer [keeps_intros]:
  "keeps wallet_inv (case r of Inl Not_implemented \<Rightarrow> raiseE e | Inl Gateway_error \<Rightarrow> raiseE e' | Inr x \<Rightarrow> retE x)"
  by (auto intro: keeps_intros split: sum.splits gateway_failure.splits)

lemma keeps_deposer [keeps_intros]: "keeps wallet_inv (deposer env u provider amnt phone email key)"
  unfolding deposer_def by (intro keeps_intros)

text \<open>A pending transfer to an account that may be overdrawn.\<close>

lemma pending_transfer_inv:
  assumes inv: "wallet_inv s" and b: "overdraftable s b" and ty: "ty \<noteq> type_str DEPOSIT"
    and run: "transfer a b m ty ref key origin Tx_PENDING s = (Inr (r, replayed), t)"
  shows "wallet_inv t"
proof (cases "get_by_idempotency_key s key")
  case (Some x)
  with inv run transfer_replay [OF Some, of a b m ty ref origin Tx_PENDING] show ?thesis by simp
next
  case None
  from run None obtain r: "r = post_row s ty key origin Tx_PENDING" and t: "t = posted s r (transfer_lines a b m ref)"
    by (rule transfer_fresh)
  have ok: "ledger_ok t \<and> solvent t \<and> pins_unlocked t"
    using transfer_posted_ok [OF inv None run] by simp
  have e: "entries_of t i = entries_of s i @ (if i = next_uuid s then line_rows (Suc (next_uuid s)) i (transfer_lines a b m ref) else [])" for i
    by (simp add: t posted_eq r entries_of_append_lines)
  have fresh: "tx_id x \<noteq> next_uuid s" if "x \<in> set (transactions s)" for x
    using inv that by (auto simp: wallet_inv_def ledger_ok_def ids_ok_def)
  have none: "entries_of s (next_uuid s) = []"
    using inv no_entries_yet [of s "next_uuid s"] by (simp add: wallet_inv_def)
  have od: "overdraftable t i = overdraftable s i" for i
    by (simp add: t posted_eq r overdraftable_def)
  have "le_account x = b" if "x \<in> set (line_rows n i (transfer_lines a b m ref))" "le_direction x = CREDIT" for x n i
    using that by (auto simp: transfer_lines_def entry_row_def)
  then have new: "\<forall>e \<in> set (entries_of t (tx_id r)). le_direction e = CREDIT \<longrightarrow> overdraftable t (le_account e)"
    using none b by (auto simp: e r od)
  have old: "if tx_type x = type_str DEPOSIT then entries_of t (tx_id x) = []
     else \<forall>e \<in> set (entries_of t (tx_id x)). le_direction e = CREDIT \<longrightarrow> overdraftable t (le_account e)"
    if "x \<in> set (transactions s)" "tx_status x = Tx_PENDING" for x
    using inv that fresh [OF that(1)] unfolding wallet_inv_def pending_ok_def by (simp add: e od)
  have "transactions t = transactions s @ [r]" "gateway_accounts t = gateway_accounts s" "tx_type r = ty"
    by (simp_all add: t posted_def r)
  moreover from this inv have "\<forall>g \<in> set (gateway_accounts t). overdraftable t (ga_account g)"
    by (simp add: od wallet_inv_def pending_ok_def)
  ultimately have "pending_ok t"
    unfolding pending_ok_def using new old ty by simp
  with ok show ?thesis by (simp add: wallet_inv_def)
qed

lemma keeps_retirer [keeps_intros]: "keeps wallet_inv (retirer env u provider amnt phone pin key)"
proof -
  have withdraw: "keeps wallet_inv (bindE (compte_suspense mode cur) (\<lambda>suspense.
      bindE (transfer a suspense m (type_str WITHDRAWAL) ref key origin Tx_PENDING) f))"
    if f: "\<And>x. keeps wallet_inv (f x)" for mode cur a m ref key origin f
  proof (rule keepsI)
    fix s x t
    assume inv: "wallet_inv s" and run: "bindE (compte_suspense mode cur) (\<lambda>suspense.
      bindE (transfer a suspense m (type_str WITHDRAWAL) ref key origin Tx_PENDING) f) s = (Inr x, t)"
    then obtain i v r replayed w where s: "compte_suspense mode cur s = (Inr i, v)"
      and tr: "transfer a i m (type_str WITHDRAWAL) ref key origin Tx_PENDING v = (Inr (r, replayed), w)"
      and k: "f (r, replayed) w = (Inr x, t)"
      unfolding bindE_Inr by (metis surj_pair)
    from compte_suspense_Inr [OF inv s] pending_transfer_inv [OF _ _ _ tr] have "wallet_inv w" by simp
    with f k show "wallet_inv t" by (blast dest: keepsD)
  qed
  show ?thesis unfolding retirer_def by (intro keeps_intros withdraw)
qed

lemma keeps_reconcile_transaction [keeps_intros]: "keeps wallet_inv (reconcile_transaction env i)"
  unfolding reconcile_transaction_def by (intro keeps_intros)

lemma keeps_transfers [keeps_intros]:
  "keeps wallet_inv (transferer_p2p env u recipient amnt pin proof key)"
  "keeps wallet_inv (payer_marchand env u merchant amnt pin origin business key)"
  unfolding transferer_p2p_def payer_marchand_def by (intro keeps_intros)+

lemma keeps_services [keeps_intros]:
  "keeps wallet_inv (debiter compte contrepartie montant reference key ty origin)"
  "keeps wallet_inv (crediter compte contrepartie montant reference key ty origin)"
  "keeps wallet_inv (ouvrir_compte_technique reference)"
  "keeps wallet_inv (compte_de_utilisateur u)"
  unfolding debiter_def crediter_def ouvrir_compte_technique_def compte_de_utilisateur_def money_of_service_def
  by (intro keeps_intros)+

lemma keeps_events [keeps_intros]:
  "keeps wallet_inv (on_user_registered user phone)"
  "keeps wallet_inv (on_user_updated user phone)"
  "keeps wallet_inv (on_user_suspended user)"
  "keeps wallet_inv (provisionner_compte_marchand u)"
  unfolding on_user_registered_def on_user_updated_def on_user_suspended_def provisionner_compte_def
    provisionner_compte_marchand_def
  by (intro keeps_intros)+

lemma keeps_convertir [keeps_intros]: "keeps wallet_inv (convertir source target m key)"
  unfolding convertir_def compte_de_position_def by (intro keeps_intros)

subsection \<open>Requests\<close>

datatype wallet_request =
    User_registered "uuid option" "string option"
  | User_updated "uuid option" "string option"
  | User_suspended "uuid option"
  | Open_merchant uuid
  | P2p_transfer uuid string int string "step_up_proof option" string
  | Pay_merchant uuid uuid int string "string option" "string option" string
  | Deposit uuid string int string "string option" string
  | Withdraw uuid string int string string string
  | Confirm uuid string
  | Fail uuid string
  | Reconcile uuid
  | Define_pin uuid string string step_up_proof
  | Change_pin uuid string string string
  | Recover_pin uuid string string string
  | Admin_reset_pin "uuid option" uuid string string string
  | Check_pin uuid string
  | Debit uuid uuid int string string string "string option"
  | Credit uuid uuid int string string string "string option"
  | Open_technical string
  | Open_user uuid
  | Convert uuid uuid money string
  | Quote_rate string string rat "string option"
  | Mark_published uuid

definition done_with :: "'a wop \<Rightarrow> unit wop" where
  "done_with m = bindE m (\<lambda>_. retE ())"

fun run_request :: "wallet_env \<Rightarrow> wallet_request \<Rightarrow> unit wop" where
  "run_request env (User_registered u p) = on_user_registered u p"
| "run_request env (User_updated u p) = on_user_updated u p"
| "run_request env (User_suspended u) = on_user_suspended u"
| "run_request env (Open_merchant u) = done_with (provisionner_compte_marchand u)"
| "run_request env (P2p_transfer u to a pin proof key) = done_with (transferer_p2p env u to a pin proof key)"
| "run_request env (Pay_merchant u m a pin origin business key) =
     done_with (payer_marchand env u m a pin origin business key)"
| "run_request env (Deposit u provider a phone email key) = done_with (deposer env u provider a phone email key)"
| "run_request env (Withdraw u provider a phone pin key) = done_with (retirer env u provider a phone pin key)"
| "run_request env (Confirm i mode) = done_with (confirmer_operation env i mode)"
| "run_request env (Fail i mode) = done_with (echouer_operation i mode)"
| "run_request env (Reconcile i) = done_with (reconcile_transaction env i)"
| "run_request env (Define_pin u pin c proof) = done_with (define_pin (we_pins env) u pin c proof)"
| "run_request env (Change_pin u old pin c) = done_with (change_pin (we_pins env) u old pin c)"
| "run_request env (Recover_pin u secret pin c) = done_with (reset_pin_with_recovery (we_pins env) u secret pin c)"
| "run_request env (Admin_reset_pin admin u pin c reason) =
     done_with (admin_reset_pin (we_pins env) admin u pin c reason)"
| "run_request env (Check_pin u pin) = verifier_pin_utilisateur (we_pins env) u pin"
| "run_request env (Debit c d a ref key ty origin) = done_with (debiter c d a ref key ty origin)"
| "run_request env (Credit c d a ref key ty origin) = done_with (crediter c d a ref key ty origin)"
| "run_request env (Open_technical ref) = done_with (ouvrir_compte_technique ref)"
| "run_request env (Open_user u) = done_with (compte_de_utilisateur u)"
| "run_request env (Convert src tgt m key) = done_with (convertir src tgt m key)"
| "run_request env (Quote_rate base quote r source) = poser base quote r source"
| "run_request env (Mark_published i) = mark_published i"

lemma keeps_done_with [keeps_intros]: "keeps I m \<Longrightarrow> keeps I (done_with m)"
  unfolding done_with_def by (intro keeps_intros)

lemma keeps_verifier_pin_utilisateur [keeps_intros]: "keeps wallet_inv (verifier_pin_utilisateur L u pin)"
  unfolding verifier_pin_utilisateur_def by (intro keeps_intros)

lemma keeps_mark_published [keeps_intros]: "keeps wallet_inv (mark_published i)"
  by (rule keeps_frame) (auto simp: mark_published_def)

lemma keeps_run_request: "keeps wallet_inv (run_request env r)"
  by (cases r; simp only: run_request.simps; intro keeps_intros)

inductive wallet_reachable :: "wallet_env \<Rightarrow> wallet_db \<Rightarrow> bool" for env where
  start: "wallet_reachable env empty_wallet"
| request: "wallet_reachable env s \<Longrightarrow> wallet_reachable env (snd (atomically (run_request env r) s))"
| tick: "wallet_reachable env s \<Longrightarrow> clock s \<le> t \<Longrightarrow> wallet_reachable env (s\<lparr>clock := t\<rparr>)"

lemma wallet_inv_reachable: "wallet_reachable env s \<Longrightarrow> wallet_inv s"
proof (induction rule: wallet_reachable.induct)
  case start
  show ?case
    by (simp add: wallet_inv_def ledger_ok_def ids_ok_def double_entry_def balanced_entries_def entries_of_def
        solvent_def pending_ok_def pins_unlocked_def empty_wallet_def)
next
  case (request s r)
  show ?case by (rule keeps_request [OF keeps_run_request request.IH])
next
  case (tick s t)
  from wallet_inv_pinsD [OF tick.IH] show ?case by (intro wallet_inv_frame [OF tick.IH]) simp_all
qed

text \<open>Runs of several requests, for the concrete examples.\<close>

fun serve :: "wallet_env \<Rightarrow> wallet_request list \<Rightarrow> wallet_db \<Rightarrow> wallet_db" where
  "serve env [] s = s"
| "serve env (r # rs) s = serve env rs (snd (atomically (run_request env r) s))"

lemma reachable_serve: "wallet_reachable env s \<Longrightarrow> wallet_reachable env (serve env rs s)"
  by (induction rs arbitrary: s) (auto intro: wallet_reachable.request)

end
