(* ===== verification/WalletDemo.thy ===== *)
theory WalletDemo
  imports WalletReach
begin

section \<open>A concrete wallet\<close>

text \<open>
  A run of the module on concrete data, used to show that the hypotheses of the properties can hold:
  two users, the first with a PIN and a confirmed deposit of 5000 francs. The libraries the wallet
  is given here are simple functions that behave as documented (a hash that verifies, tokens that
  differ).
\<close>

definition demo_lib :: pin_lib where
  "demo_lib = \<lparr>argon_hash = (\<lambda>n pin. ''$argon2id$'' @ pin),
     argon_verify = (\<lambda>h pin. Some (h = ''$argon2id$'' @ pin)), check_needs_rehash = (\<lambda>h. False),
     sha256_hex = (\<lambda>x. ''h'' @ x), token_urlsafe = (\<lambda>n. ''c'' @ uuid_str n)\<rparr>"

definition no_paystack :: paystack_http where
  "no_paystack = \<lparr>paystack_initialize = (\<lambda>r. Inl Gateway_error), paystack_verify = (\<lambda>r. Inl Gateway_error)\<rparr>"

definition no_pawapay :: pawapay_http where
  "no_pawapay = \<lparr>pawapay_deposits = (\<lambda>r. Inl Gateway_error), pawapay_payouts = (\<lambda>r. Inl Gateway_error),
     pawapay_get_deposit = (\<lambda>r. Inl Gateway_error), pawapay_get_payout = (\<lambda>r. Inl Gateway_error)\<rparr>"

definition demo_settings :: gateway_settings where
  "demo_settings = \<lparr>payment_gateway_mode = ''stub'', payment_gateway_autoconfirm = False,
     paystack_secret_set = False, pawapay_token_set = False, paystack_api = no_paystack,
     pawapay_api = no_pawapay\<rparr>"

definition demo_env :: wallet_env where
  "demo_env = \<lparr>we_pins = demo_lib, we_bus = False, we_gateway = None, we_gateways = demo_settings,
     we_threshold = Some 3000\<rparr>"

definition demo_pin_proof :: step_up_proof where
  "demo_pin_proof = \<lparr>proof_jti = 900, proof_user = 101, proof_purpose = ''wallet.pin.set'', proof_expires = 600\<rparr>"

definition demo_transfer_proof :: step_up_proof where
  "demo_transfer_proof = \<lparr>proof_jti = 901, proof_user = 101, proof_purpose = ''wallet.transfer.high_value'',
     proof_expires = 600\<rparr>"

definition demo_setup :: "wallet_request list" where
  "demo_setup = [User_registered (Some 101) (Some ''701''), User_registered (Some 102) (Some ''702''),
     Define_pin 101 ''1234'' ''1234'' demo_pin_proof, Deposit 101 ''wave'' 5000 ''701'' None ''d1'']"

text \<open>The deposit is transaction 17; it is pending in \<open>demo_pending\<close> and confirmed in \<open>demo_state\<close>.\<close>

definition demo_pending :: wallet_db where
  "demo_pending = serve demo_env demo_setup empty_wallet"

definition demo_state :: wallet_db where
  "demo_state = serve demo_env [Confirm 17 ''stub''] demo_pending"

definition demo_withdrawing :: wallet_db where
  "demo_withdrawing = serve demo_env [Withdraw 101 ''wave'' 2000 ''701'' ''1234'' ''w1''] demo_state"

text \<open>Their values, computed once.\<close>

lemma demo_pending_value [code]:
  "demo_pending = \<lparr>accounts =
    [\<lparr>acc_id = 1, acc_user = Some 101, acc_type = USER,
        acc_currency = ''XOF'', acc_status = ACTIVE, acc_reference = None,
        allows_negative_balance = False\<rparr>,
     \<lparr>acc_id = 2, acc_user = Some 102, acc_type = USER,
        acc_currency = ''XOF'', acc_status = ACTIVE, acc_reference = None,
        allows_negative_balance = False\<rparr>,
     \<lparr>acc_id = 16, acc_user = None, acc_type = TECHNICAL,
        acc_currency = ''XOF'', acc_status = ACTIVE,
        acc_reference = Some ''gateway:stub'',
        allows_negative_balance = True\<rparr>],
    entries = [],
    transactions =
      [\<lparr>tx_id = 17, tx_type = ''deposit'', tx_status = Tx_PENDING,
          tx_origin = Some ''wallet'', tx_account = Some 1,
          tx_business = None, tx_amount = Some 5000,
          tx_currency = Some ''XOF'',
          tx_provider_reference = Some ''stub-18'',
          tx_gateway_mode = Some ''stub'', tx_authorization_url = None,
          tx_access_code = None, tx_reverses = None, tx_key = Some ''d1'',
          tx_created = 0, tx_completed = None\<rparr>],
    gateway_accounts = [\<lparr>ga_provider = ''stub'', ga_account = 16\<rparr>],
    exchange_rates = [], conversions = [],
    phones =
      [\<lparr>up_user = 101, up_phone = ''701''\<rparr>,
       \<lparr>up_user = 102, up_phone = ''702''\<rparr>],
    pins =
      [\<lparr>pin_account = 1, pin_hash = ''$argon2id$1234'',
          pin_salt = ''argon2id'', failed_attempts = 0, locked_until = None,
          pin_updated = 0\<rparr>],
    recovery_codes =
      [\<lparr>rc_id = 5, rc_account = 1, rc_hash = ''hc4'', rc_consumed = None,
          rc_created = 0\<rparr>,
       \<lparr>rc_id = 7, rc_account = 1, rc_hash = ''hc6'', rc_consumed = None,
          rc_created = 0\<rparr>,
       \<lparr>rc_id = 9, rc_account = 1, rc_hash = ''hc8'', rc_consumed = None,
          rc_created = 0\<rparr>,
       \<lparr>rc_id = 11, rc_account = 1, rc_hash = ''hc10'', rc_consumed = None,
          rc_created = 0\<rparr>,
       \<lparr>rc_id = 13, rc_account = 1, rc_hash = ''hc12'', rc_consumed = None,
          rc_created = 0\<rparr>,
       \<lparr>rc_id = 15, rc_account = 1, rc_hash = ''hc14'', rc_consumed = None,
          rc_created = 0\<rparr>],
    consumed_proofs =
      [\<lparr>cp_jti = 900, cp_user = 101, cp_purpose = ''wallet.pin.set'',
          cp_expires = 600\<rparr>],
    pin_audits = [], outbox = [], bus_events = [], next_uuid = 19,
    clock = 0\<rparr>"
  by code_simp

lemma demo_state_value [code]:
  "demo_state = \<lparr>accounts =
    [\<lparr>acc_id = 1, acc_user = Some 101, acc_type = USER,
        acc_currency = ''XOF'', acc_status = ACTIVE, acc_reference = None,
        allows_negative_balance = False\<rparr>,
     \<lparr>acc_id = 2, acc_user = Some 102, acc_type = USER,
        acc_currency = ''XOF'', acc_status = ACTIVE, acc_reference = None,
        allows_negative_balance = False\<rparr>,
     \<lparr>acc_id = 16, acc_user = None, acc_type = TECHNICAL,
        acc_currency = ''XOF'', acc_status = ACTIVE,
        acc_reference = Some ''gateway:stub'',
        allows_negative_balance = True\<rparr>],
    entries =
      [\<lparr>le_id = 19, le_account = 16, le_transaction = 17,
          le_direction = DEBIT, le_amount = 5000, le_currency = ''XOF'',
          le_reference = Some ''wallet:deposit:stub''\<rparr>,
       \<lparr>le_id = 20, le_account = 1, le_transaction = 17,
          le_direction = CREDIT, le_amount = 5000, le_currency = ''XOF'',
          le_reference = Some ''wallet:deposit:stub''\<rparr>],
    transactions =
      [\<lparr>tx_id = 17, tx_type = ''deposit'', tx_status = Tx_COMPLETED,
          tx_origin = Some ''wallet'', tx_account = Some 1,
          tx_business = None, tx_amount = Some 5000,
          tx_currency = Some ''XOF'',
          tx_provider_reference = Some ''stub-18'',
          tx_gateway_mode = Some ''stub'', tx_authorization_url = None,
          tx_access_code = None, tx_reverses = None, tx_key = Some ''d1'',
          tx_created = 0, tx_completed = Some 0\<rparr>],
    gateway_accounts = [\<lparr>ga_provider = ''stub'', ga_account = 16\<rparr>],
    exchange_rates = [], conversions = [],
    phones =
      [\<lparr>up_user = 101, up_phone = ''701''\<rparr>,
       \<lparr>up_user = 102, up_phone = ''702''\<rparr>],
    pins =
      [\<lparr>pin_account = 1, pin_hash = ''$argon2id$1234'',
          pin_salt = ''argon2id'', failed_attempts = 0, locked_until = None,
          pin_updated = 0\<rparr>],
    recovery_codes =
      [\<lparr>rc_id = 5, rc_account = 1, rc_hash = ''hc4'', rc_consumed = None,
          rc_created = 0\<rparr>,
       \<lparr>rc_id = 7, rc_account = 1, rc_hash = ''hc6'', rc_consumed = None,
          rc_created = 0\<rparr>,
       \<lparr>rc_id = 9, rc_account = 1, rc_hash = ''hc8'', rc_consumed = None,
          rc_created = 0\<rparr>,
       \<lparr>rc_id = 11, rc_account = 1, rc_hash = ''hc10'', rc_consumed = None,
          rc_created = 0\<rparr>,
       \<lparr>rc_id = 13, rc_account = 1, rc_hash = ''hc12'', rc_consumed = None,
          rc_created = 0\<rparr>,
       \<lparr>rc_id = 15, rc_account = 1, rc_hash = ''hc14'', rc_consumed = None,
          rc_created = 0\<rparr>],
    consumed_proofs =
      [\<lparr>cp_jti = 900, cp_user = 101, cp_purpose = ''wallet.pin.set'',
          cp_expires = 600\<rparr>],
    pin_audits = [],
    outbox =
      [\<lparr>ob_id = 21, ob_name = ''payment.completed'',
          ob_payload =
            \<lparr>ep_transaction = 17, ep_type = ''deposit'', ep_amount = 5000,
               ep_currency = ''XOF'', ep_origin = Some ''wallet''\<rparr>,
          ob_status = Ob_PENDING, ob_published = None\<rparr>],
    bus_events = [], next_uuid = 22, clock = 0\<rparr>"
  by code_simp

lemma demo_withdrawing_value [code]:
  "demo_withdrawing = \<lparr>accounts =
    [\<lparr>acc_id = 1, acc_user = Some 101, acc_type = USER,
        acc_currency = ''XOF'', acc_status = ACTIVE, acc_reference = None,
        allows_negative_balance = False\<rparr>,
     \<lparr>acc_id = 2, acc_user = Some 102, acc_type = USER,
        acc_currency = ''XOF'', acc_status = ACTIVE, acc_reference = None,
        allows_negative_balance = False\<rparr>,
     \<lparr>acc_id = 16, acc_user = None, acc_type = TECHNICAL,
        acc_currency = ''XOF'', acc_status = ACTIVE,
        acc_reference = Some ''gateway:stub'',
        allows_negative_balance = True\<rparr>],
    entries =
      [\<lparr>le_id = 19, le_account = 16, le_transaction = 17,
          le_direction = DEBIT, le_amount = 5000, le_currency = ''XOF'',
          le_reference = Some ''wallet:deposit:stub''\<rparr>,
       \<lparr>le_id = 20, le_account = 1, le_transaction = 17,
          le_direction = CREDIT, le_amount = 5000, le_currency = ''XOF'',
          le_reference = Some ''wallet:deposit:stub''\<rparr>,
       \<lparr>le_id = 23, le_account = 1, le_transaction = 22,
          le_direction = DEBIT, le_amount = 2000, le_currency = ''XOF'',
          le_reference = Some ''wallet:withdrawal:wave''\<rparr>,
       \<lparr>le_id = 24, le_account = 16, le_transaction = 22,
          le_direction = CREDIT, le_amount = 2000, le_currency = ''XOF'',
          le_reference = Some ''wallet:withdrawal:wave''\<rparr>],
    transactions =
      [\<lparr>tx_id = 17, tx_type = ''deposit'', tx_status = Tx_COMPLETED,
          tx_origin = Some ''wallet'', tx_account = Some 1,
          tx_business = None, tx_amount = Some 5000,
          tx_currency = Some ''XOF'',
          tx_provider_reference = Some ''stub-18'',
          tx_gateway_mode = Some ''stub'', tx_authorization_url = None,
          tx_access_code = None, tx_reverses = None, tx_key = Some ''d1'',
          tx_created = 0, tx_completed = Some 0\<rparr>,
       \<lparr>tx_id = 22, tx_type = ''withdrawal'', tx_status = Tx_PENDING,
          tx_origin = Some ''wallet'', tx_account = Some 1,
          tx_business = None, tx_amount = Some 2000,
          tx_currency = Some ''XOF'',
          tx_provider_reference = Some ''stub-25'',
          tx_gateway_mode = Some ''stub'', tx_authorization_url = None,
          tx_access_code = None, tx_reverses = None, tx_key = Some ''w1'',
          tx_created = 0, tx_completed = None\<rparr>],
    gateway_accounts = [\<lparr>ga_provider = ''stub'', ga_account = 16\<rparr>],
    exchange_rates = [], conversions = [],
    phones =
      [\<lparr>up_user = 101, up_phone = ''701''\<rparr>,
       \<lparr>up_user = 102, up_phone = ''702''\<rparr>],
    pins =
      [\<lparr>pin_account = 1, pin_hash = ''$argon2id$1234'',
          pin_salt = ''argon2id'', failed_attempts = 0, locked_until = None,
          pin_updated = 0\<rparr>],
    recovery_codes =
      [\<lparr>rc_id = 5, rc_account = 1, rc_hash = ''hc4'', rc_consumed = None,
          rc_created = 0\<rparr>,
       \<lparr>rc_id = 7, rc_account = 1, rc_hash = ''hc6'', rc_consumed = None,
          rc_created = 0\<rparr>,
       \<lparr>rc_id = 9, rc_account = 1, rc_hash = ''hc8'', rc_consumed = None,
          rc_created = 0\<rparr>,
       \<lparr>rc_id = 11, rc_account = 1, rc_hash = ''hc10'', rc_consumed = None,
          rc_created = 0\<rparr>,
       \<lparr>rc_id = 13, rc_account = 1, rc_hash = ''hc12'', rc_consumed = None,
          rc_created = 0\<rparr>,
       \<lparr>rc_id = 15, rc_account = 1, rc_hash = ''hc14'', rc_consumed = None,
          rc_created = 0\<rparr>],
    consumed_proofs =
      [\<lparr>cp_jti = 900, cp_user = 101, cp_purpose = ''wallet.pin.set'',
          cp_expires = 600\<rparr>],
    pin_audits = [],
    outbox =
      [\<lparr>ob_id = 21, ob_name = ''payment.completed'',
          ob_payload =
            \<lparr>ep_transaction = 17, ep_type = ''deposit'', ep_amount = 5000,
               ep_currency = ''XOF'', ep_origin = Some ''wallet''\<rparr>,
          ob_status = Ob_PENDING, ob_published = None\<rparr>],
    bus_events = [], next_uuid = 26, clock = 0\<rparr>"
  by code_simp

lemma demo_reachable:
  "wallet_reachable demo_env demo_pending" "wallet_reachable demo_env demo_state"
  "wallet_reachable demo_env demo_withdrawing"
  unfolding demo_pending_def demo_state_def demo_withdrawing_def
  by (intro reachable_serve wallet_reachable.start)+

end
