(* ===== verification/WalletProps.thy ===== *)
theory WalletProps
  imports WalletDemo
begin

section \<open>Properties of the wallet\<close>

text \<open>
  The promises of the module, stated over reachable databases and over the requests themselves, each
  with a concrete instance.
\<close>

subsection \<open>The ledger\<close>

text \<open>
  C1: in every reachable database the entries of each transaction are in one currency and sum to
  zero, and therefore so do all entries of the ledger together.
\<close>

theorem ledger_always_balanced:
  assumes "wallet_reachable env s"
  shows "balanced_entries (entries_of s i) \<and> sum_list (map signed (entries s)) = 0"
proof
  have ok: "ledger_ok s" using wallet_inv_reachable [OF assms] by (simp add: wallet_inv_def)
  then show "balanced_entries (entries_of s i)" by (simp add: ledger_ok_def double_entry_def)
  from ok have "sum_list (map signed (entries s)) = sum_list (map (\<lambda>i. sum_list (map signed (entries_of s i)))
      (map tx_id (transactions s)))"
    unfolding entries_of_def by (intro sum_by_key) (auto simp: ledger_ok_def ids_ok_def entry_ok_def)
  with ok show "sum_list (map signed (entries s)) = 0"
    by (simp add: ledger_ok_def double_entry_def balanced_entries_def comp_def)
qed

theorem ledger_always_balanced_witness:
  "balanced_entries (entries_of demo_state 17) \<and> length (entries_of demo_state 17) = 2"
  using ledger_always_balanced [OF demo_reachable(2), of 17] by (rule conjE) (simp, code_simp)

text \<open>
  C2: in every reachable database an account that may not be overdrawn has a balance of at least
  zero, whatever sequence of deposits, withdrawals, failures, transfers and conversions led there.
\<close>

theorem never_overdrawn:
  assumes "wallet_reachable env s" "account_get s i = Some a" "\<not> allows_negative_balance a"
  shows "0 \<le> account_total s i"
  using wallet_inv_reachable [OF assms(1)] assms(2, 3) account_get_id [OF assms(2)]
  by (auto simp: wallet_inv_def solvent_def account_get_def dest: lookup_row_SomeD)

theorem never_overdrawn_witness:
  "\<exists>a. account_get demo_state 1 = Some a \<and> 0 \<le> account_total demo_state 1 \<and> account_total demo_state 1 = 5000"
proof -
  have a: "account_get demo_state 1 = Some \<lparr>acc_id = 1, acc_user = Some 101, acc_type = USER, acc_currency = ''XOF'',
     acc_status = ACTIVE, acc_reference = None, allows_negative_balance = False\<rparr>" by code_simp
  have "account_total demo_state 1 = 5000" by code_simp
  with a never_overdrawn [OF demo_reachable(2) a] show ?thesis by simp
qed

subsection \<open>Runs of the use cases, taken apart\<close>

lemma account_total_same [simp]:
  "account_total (s\<lparr>next_uuid := n\<rparr>) = account_total s" "account_total (s\<lparr>pins := p\<rparr>) = account_total s"
  "account_total (s\<lparr>consumed_proofs := c\<rparr>) = account_total s" "account_total (s\<lparr>outbox := ob\<rparr>) = account_total s"
  "account_total (s\<lparr>accounts := ac\<rparr>) = account_total s" "account_total (s\<lparr>bus_events := bu\<rparr>) = account_total s"
  "account_total (s\<lparr>transactions := ts\<rparr>) = account_total s"
  by (simp_all add: account_total_def fun_eq_iff)

lemma account_total_posted:
  "tx_id r = next_uuid s \<Longrightarrow> account_total (posted s r ls) a
     = account_total s a + sum_list (map line_signed (filter (\<lambda>l. pl_account l = a) ls))"
  by (simp add: posted_eq account_total_append_lines)

definition same_ledger :: "wallet_db \<Rightarrow> wallet_db \<Rightarrow> bool" where
  "same_ledger s t \<longleftrightarrow> entries t = entries s \<and> transactions t = transactions s"

lemma same_ledgerD:
  "same_ledger s t \<Longrightarrow> account_total t = account_total s \<and> entries_of t = entries_of s
     \<and> get_by_idempotency_key t = get_by_idempotency_key s"
  by (simp add: same_ledger_def account_total_def entries_of_def get_by_idempotency_key_def fun_eq_iff)

lemma same_ledger_trans: "same_ledger s t \<Longrightarrow> same_ledger t u \<Longrightarrow> same_ledger s u"
  by (simp add: same_ledger_def)

lemma compte_de_run:
  assumes "compte_de u s = (Inr a, t)"
  shows "same_ledger s t \<and> acc_user a = Some u \<and> acc_currency a = XOF \<and> phones t = phones s
    \<and> consumed_proofs t = consumed_proofs s \<and> pins t = pins s \<and> clock t = clock s"
  using assms by (auto simp: compte_de_Inr account_create_Inr same_ledger_def
      split: option.splits dest!: account_by_user_SomeD)

lemma compte_de_stored: "compte_de u s = (Inr a, t) \<Longrightarrow> account_by_user t u XOF USER = Some a"
  by (auto simp: compte_de_Inr account_create_Inr account_by_user_def find_snoc split: option.splits)

lemma verify_pin_run:
  assumes "verify_pin L acc pin s = (Inr u, t)"
  shows "same_ledger s t \<and> accounts t = accounts s \<and> phones t = phones s \<and> consumed_proofs t = consumed_proofs s
    \<and> (\<exists>row. pin_get s acc = Some row \<and> \<not> pin_locked row (clock s) \<and> pin_valid L row pin)"
  using assms by (rule verify_pin_Inr) (simp add: same_ledger_def)

lemma consumed_grows [simp]: "s\<lparr>consumed_proofs := consumed_proofs s @ [x]\<rparr> = s \<longleftrightarrow> False"
  by (auto dest: arg_cong [of _ _ consumed_proofs])

lemma step_up_run:
  assumes "require_transfer_step_up th u a p s = (Inr x, t)"
  shows "same_ledger s t \<and> accounts t = accounts s \<and> (\<exists>limit. th = Some limit \<and> (limit \<le> a \<longrightarrow>
     (\<exists>q. p = Some q \<and> proof_user q = u \<and> proof_purpose q = ''wallet.transfer.high_value''
       \<and> proof_get s (proof_jti q) = None \<and> proof_get t (proof_jti q) \<noteq> None)))"
  using assms
  by (auto simp: require_transfer_step_up_def consume_step_up_proof_def catchE_Inr proof_add_def same_ledger_def
      proof_get_def lookup_row_append split: if_splits)

lemma publish_run: "publish_completed env r m s = (Inr x, t) \<Longrightarrow> same_ledger s t \<and> accounts t = accounts s
    \<and> consumed_proofs t = consumed_proofs s"
  by (auto simp: publish_completed_def outbox_enqueue_def same_ledger_def split: if_splits)

lemma to_money_Inr [simp]: "to_money a c s = (Inr m, t) \<longleftrightarrow> t = s \<and> mk_money a c = Inr m"
  by (auto simp: to_money_def)

text \<open>A transfer request that returned: who paid whom, under which PIN, and what the ledger did.\<close>

lemma p2p_run:
  assumes run: "transferer_p2p env u phone amnt pin proof key s = (Inr (r, m, replayed), t)"
  obtains src dst s1 s2 row where "compte_de u s = (Inr src, s1)" "pin_get s1 (acc_id src) = Some row"
    "\<not> pin_locked row (clock s1)" "pin_valid (we_pins env) row pin"
    "m = Money amnt XOF" "0 < amnt" "acc_user src = Some u" "user_id_for s phone = acc_user dst" "acc_user dst \<noteq> Some u"
    "account_by_user s2 (the (acc_user dst)) XOF USER = Some dst" "account_by_user s2 u XOF USER = Some src"
    "same_ledger s s2" "consumed_proofs s2 = consumed_proofs s"
    "(case get_by_idempotency_key s key of
        Some t \<Rightarrow>
          bindE (readE (\<lambda>s. same_p2p s t (acc_id src) (acc_id dst) m)) (\<lambda>same.
          bindE (of_sum (map_sum AmountError id same)) (\<lambda>ok.
          thenE (ensure ok IdempotencyConflict) (retE (t, m, True))))
      | None \<Rightarrow>
          thenE (require_transfer_step_up (we_threshold env) u amnt proof)
          (bindE (transfer (acc_id src) (acc_id dst) m (type_str P2P_TRANSFER)
                   (''wallet:p2p:'' @ uuid_str u) key (Some ''wallet'') Tx_COMPLETED) (\<lambda>(t, replayed).
           thenE (whenE (\<not> replayed) (publish_completed env t m))
             (retE (t, m, replayed))))) s2 = (Inr (r, m, replayed), t)"
proof -
  from run obtain src s1 s2 dst recipient where
    c: "compte_de u s = (Inr src, s1)"
    and v: "verify_pin (we_pins env) (acc_id src) pin s1 = (Inr (), s2)"
    and m: "mk_money amnt (acc_currency src) = Inr m" "is_positive m"
    and rec: "user_id_for s2 phone = Some recipient" "recipient \<noteq> u"
    and dst: "account_by_user s2 recipient XOF USER = Some dst"
    and rest: "(case get_by_idempotency_key s2 key of
        Some t \<Rightarrow>
          bindE (readE (\<lambda>s. same_p2p s t (acc_id src) (acc_id dst) m)) (\<lambda>same.
          bindE (of_sum (map_sum AmountError id same)) (\<lambda>ok.
          thenE (ensure ok IdempotencyConflict) (retE (t, m, True))))
      | None \<Rightarrow>
          thenE (require_transfer_step_up (we_threshold env) u amnt proof)
          (bindE (transfer (acc_id src) (acc_id dst) m (type_str P2P_TRANSFER)
                   (''wallet:p2p:'' @ uuid_str u) key (Some ''wallet'') Tx_COMPLETED) (\<lambda>(t, replayed).
           thenE (whenE (\<not> replayed) (publish_completed env t m))
             (retE (t, m, replayed))))) s2 = (Inr (r, m, replayed), t)"
    unfolding transferer_p2p_def
    by (simp only: bindE_Inr thenE_Inr to_money_Inr ensure_Inr readE_Inr some_or_Inr) (auto split: option.splits)
  note cr = compte_de_run [OF c] and vr = verify_pin_run [OF v]
  have s2: "same_ledger s s2" using cr vr by (auto intro: same_ledger_trans)
  have ph: "user_id_for s2 phone = user_id_for s phone" using cr vr by (simp add: user_id_for_def)
  have own: "account_by_user s2 u XOF USER = Some src" using compte_de_stored [OF c] vr by (simp add: account_by_user_def)
  have mm: "m = Money amnt XOF" "0 < amnt" using m cr by (auto simp: mk_money_Inr_iff is_positive_def)
  have du: "acc_user dst = Some recipient" using dst by (auto dest: account_by_user_SomeD)
  from vr obtain row where row: "pin_get s1 (acc_id src) = Some row" "\<not> pin_locked row (clock s1)"
    "pin_valid (we_pins env) row pin" by blast
  have key: "get_by_idempotency_key s2 = get_by_idempotency_key s" using same_ledgerD [OF s2] by simp
  show thesis
    by (rule that [OF c row mm _ _ _ _ own s2 _ rest [unfolded key]]) (use cr vr rec ph du dst in auto)
qed

lemma p2p_new:
  assumes run: "transferer_p2p env u phone amnt pin proof key s = (Inr (r, m, False), t)"
  obtains src dst :: account and s2 s3 s4 where "acc_user src = Some u" "acc_user dst = user_id_for s phone" "acc_user dst \<noteq> Some u"
    "m = Money amnt XOF" "0 < amnt" "get_by_idempotency_key s key = None" "same_ledger s s2" "consumed_proofs s2 = consumed_proofs s"
    "require_transfer_step_up (we_threshold env) u amnt proof s2 = (Inr (), s3)" "same_ledger s s3"
    "r = post_row s3 (type_str P2P_TRANSFER) key (Some ''wallet'') Tx_COMPLETED"
    "s4 = posted s3 r (transfer_lines (acc_id src) (acc_id dst) m (''wallet:p2p:'' @ uuid_str u))"
    "same_ledger s4 t" "consumed_proofs t = consumed_proofs s3"
    "account_by_user t u XOF USER = Some src" "account_by_user t (the (acc_user dst)) XOF USER = Some dst"
  using run
proof (rule p2p_run)
  fix src dst :: account and s1 s2 row
  assume m: "m = Money amnt XOF" "0 < amnt" and u: "acc_user src = Some u" "user_id_for s phone = acc_user dst" "acc_user dst \<noteq> Some u"
    and s2: "same_ledger s s2" "consumed_proofs s2 = consumed_proofs s"
    and stored: "account_by_user s2 u XOF USER = Some src" "account_by_user s2 (the (acc_user dst)) XOF USER = Some dst"
    and rest: "(case get_by_idempotency_key s key of
        Some t \<Rightarrow>
          bindE (readE (\<lambda>s. same_p2p s t (acc_id src) (acc_id dst) m)) (\<lambda>same.
          bindE (of_sum (map_sum AmountError id same)) (\<lambda>ok.
          thenE (ensure ok IdempotencyConflict) (retE (t, m, True))))
      | None \<Rightarrow>
          thenE (require_transfer_step_up (we_threshold env) u amnt proof)
          (bindE (transfer (acc_id src) (acc_id dst) m (type_str P2P_TRANSFER)
                   (''wallet:p2p:'' @ uuid_str u) key (Some ''wallet'') Tx_COMPLETED) (\<lambda>(t, replayed).
           thenE (whenE (\<not> replayed) (publish_completed env t m))
             (retE (t, m, replayed))))) s2 = (Inr (r, m, False), t)"
  have new: "get_by_idempotency_key s key = None" using rest by (auto split: option.splits)
  with rest obtain s3 s4 where st: "require_transfer_step_up (we_threshold env) u amnt proof s2 = (Inr (), s3)"
    and tr: "transfer (acc_id src) (acc_id dst) m (type_str P2P_TRANSFER)
         (''wallet:p2p:'' @ uuid_str u) key (Some ''wallet'') Tx_COMPLETED s3 = (Inr (r, False), s4)"
    and pub: "publish_completed env r m s4 = (Inr (), t)"
    by (auto split: prod.splits if_splits)
  have s3: "same_ledger s s3" using s2(1) step_up_run [OF st] by (blast intro: same_ledger_trans)
  have "get_by_idempotency_key s3 key = None" using same_ledgerD [OF s3] new by simp
  from tr this have "r = post_row s3 (type_str P2P_TRANSFER) key (Some ''wallet'') Tx_COMPLETED"
    "s4 = posted s3 r (transfer_lines (acc_id src) (acc_id dst) m (''wallet:p2p:'' @ uuid_str u))"
    by (auto elim: transfer_fresh)
  moreover from this have "consumed_proofs s4 = consumed_proofs s3" "accounts s4 = accounts s3" by (simp_all add: posted_def)
  moreover from this have "account_by_user t = account_by_user s2"
    using publish_run [OF pub] step_up_run [OF st] by (simp add: account_by_user_def fun_eq_iff)
  ultimately show thesis
    using publish_run [OF pub] stored by (intro that [OF u(1) u(2) [symmetric] u(3) m new s2 st s3]) auto
qed

subsection \<open>Transfers\<close>

lemma two_users_two_accounts:
  assumes "wallet_inv t" "account_by_user t u XOF USER = Some src" "account_by_user t v XOF USER = Some dst" "v \<noteq> u"
  shows "acc_id src \<noteq> acc_id dst"
  using assms distinct_map_same [of acc_id "accounts t" src dst]
  by (auto simp: wallet_inv_def ledger_ok_def ids_ok_def dest!: account_by_user_SomeD)

lemma keeps_p2p: "wallet_inv s \<Longrightarrow> transferer_p2p env u phone amnt pin proof key s = (Inr x, t) \<Longrightarrow> wallet_inv t"
  by (rule keepsD [of wallet_inv "transferer_p2p env u phone amnt pin proof key"]) (intro keeps_intros)

text \<open>
  C3: a new transfer takes exactly the amount from the caller's account, gives exactly that to the account of
  the user the number belongs to, which is another one, and changes no other balance; its transaction is
  stored as completed under the key of the request.
\<close>

theorem p2p_moves_amount:
  assumes reach: "wallet_reachable env s" and run: "transferer_p2p env u phone amnt pin proof key s = (Inr (r, m, False), t)"
  shows "\<exists>v src dst. user_id_for s phone = Some v \<and> v \<noteq> u \<and> account_by_user t u XOF USER = Some src
    \<and> account_by_user t v XOF USER = Some dst \<and> acc_id src \<noteq> acc_id dst
    \<and> 0 < amnt \<and> r \<in> set (transactions t) \<and> tx_status r = Tx_COMPLETED \<and> tx_key r = Some key
    \<and> (\<forall>i. account_total t i = account_total s i + (if i = acc_id dst then amnt else if i = acc_id src then - amnt else 0))"
  using run
proof (rule p2p_new)
  fix src dst :: account and s2 s3 s4
  assume *: "acc_user src = Some u" "acc_user dst = user_id_for s phone" "acc_user dst \<noteq> Some u" "m = Money amnt XOF" "0 < amnt"
    and s3: "same_ledger s s3" and t: "same_ledger s4 t"
    and r: "r = post_row s3 (type_str P2P_TRANSFER) key (Some ''wallet'') Tx_COMPLETED"
    and s4: "s4 = posted s3 r (transfer_lines (acc_id src) (acc_id dst) m (''wallet:p2p:'' @ uuid_str u))"
    and stored: "account_by_user t u XOF USER = Some src" "account_by_user t (the (acc_user dst)) XOF USER = Some dst"
  obtain v where v: "acc_user dst = Some v" using stored(2) by (auto dest: account_by_user_SomeD)
  with * have ph: "user_id_for s phone = Some v" "v \<noteq> u" by auto
  have ids: "acc_id src \<noteq> acc_id dst"
    using two_users_two_accounts [OF keeps_p2p [OF wallet_inv_reachable [OF reach] run] stored(1), of v dst] stored(2) v ph(2) by simp
  have "account_total t i = account_total s i + (if i = acc_id dst then amnt else if i = acc_id src then - amnt else 0)" for i
    using same_ledgerD [OF t] same_ledgerD [OF s3] * ids
    by (simp add: s4 r account_total_posted transfer_lines_sum)
  moreover have "r \<in> set (transactions t)" using t by (simp add: same_ledger_def s4 posted_def)
  ultimately show ?thesis using ph stored v ids *(5) by (intro exI [of _ v] exI [of _ src] exI [of _ dst]) (auto simp: r)
qed

definition demo_p2p :: "((wexc + transaction \<times> money \<times> bool) \<times> wallet_db)" where
  "demo_p2p = transferer_p2p demo_env 101 ''702'' 1200 ''1234'' None ''k1'' demo_state"

theorem p2p_moves_amount_witness:
  "\<exists>r m t src dst. demo_p2p = (Inr (r, m, False), t) \<and> account_by_user t 101 XOF USER = Some src \<and> account_by_user t 102 XOF USER = Some dst
     \<and> account_total t (acc_id dst) = account_total demo_state (acc_id dst) + 1200
     \<and> account_total t (acc_id src) = account_total demo_state (acc_id src) - 1200"
proof -
  have ph: "user_id_for demo_state ''702'' = Some 102" by code_simp
  have "case demo_p2p of (Inr (r, m, b), t) \<Rightarrow> \<not> b | _ \<Rightarrow> False" by code_simp
  then obtain r m t where run: "demo_p2p = (Inr (r, m, False), t)"
    by (cases demo_p2p) (auto split: sum.splits)
  from p2p_moves_amount [OF demo_reachable(2) run [unfolded demo_p2p_def]] ph obtain src dst where
    "account_by_user t 101 XOF USER = Some src" "account_by_user t 102 XOF USER = Some dst" "acc_id src \<noteq> acc_id dst"
    "\<forall>i. account_total t i = account_total demo_state i + (if i = acc_id dst then 1200 else if i = acc_id src then - 1200 else 0)"
    by auto
  with run show ?thesis by (intro exI [of _ r] exI [of _ m] exI [of _ t] exI [of _ src] exI [of _ dst]) simp
qed

text \<open>
  C4: a transfer request whose idempotency key is already used never moves money: it returns the
  stored transaction, and only if that is a transfer of this amount between the caller's account and the
  account of the user of the number: its stored entries debit the one and credit the other.
\<close>

theorem p2p_replay_moves_nothing:
  assumes "transferer_p2p env u phone amnt pin proof key s = (Inr (r, m, replayed), t)"
    "get_by_idempotency_key s key = Some r0"
  shows "r = r0 \<and> replayed \<and> entries t = entries s \<and> transactions t = transactions s \<and> tx_type r = type_str P2P_TRANSFER
    \<and> (\<exists>v src dst e f. user_id_for s phone = Some v \<and> v \<noteq> u \<and> account_by_user t u XOF USER = Some src
        \<and> account_by_user t v XOF USER = Some dst
        \<and> entry_for_account s (tx_id r) (acc_id src) = Some e \<and> le_direction e = DEBIT
        \<and> entry_for_account s (tx_id r) (acc_id dst) = Some f \<and> le_direction f = CREDIT
        \<and> from_db (of_int (le_amount e)) (le_currency e) = Inr (Money amnt XOF))"
  using assms(1)
proof (rule p2p_run)
  fix src dst :: account and s1 s2 row
  assume u: "user_id_for s phone = acc_user dst" "acc_user dst \<noteq> Some u" "m = Money amnt XOF" and s2: "same_ledger s s2"
    and stored: "account_by_user s2 u XOF USER = Some src" "account_by_user s2 (the (acc_user dst)) XOF USER = Some dst"
    and rest: "(case get_by_idempotency_key s key of
        Some t \<Rightarrow>
          bindE (readE (\<lambda>s. same_p2p s t (acc_id src) (acc_id dst) m)) (\<lambda>same.
          bindE (of_sum (map_sum AmountError id same)) (\<lambda>ok.
          thenE (ensure ok IdempotencyConflict) (retE (t, m, True))))
      | None \<Rightarrow>
          thenE (require_transfer_step_up (we_threshold env) u amnt proof)
          (bindE (transfer (acc_id src) (acc_id dst) m (type_str P2P_TRANSFER)
                   (''wallet:p2p:'' @ uuid_str u) key (Some ''wallet'') Tx_COMPLETED) (\<lambda>(t, replayed).
           thenE (whenE (\<not> replayed) (publish_completed env t m))
             (retE (t, m, replayed))))) s2 = (Inr (r, m, replayed), t)"
  from rest assms(2) have r: "r = r0" "replayed" "t = s2" "same_p2p s2 r (acc_id src) (acc_id dst) m = Inr True"
    by auto
  have "entry_for_account s2 = entry_for_account s"
    using s2 by (simp add: entry_for_account_def same_ledger_def fun_eq_iff)
  with r(4) obtain e f where "entry_for_account s (tx_id r) (acc_id src) = Some e" "le_direction e = DEBIT"
    "entry_for_account s (tx_id r) (acc_id dst) = Some f" "le_direction f = CREDIT" "tx_type r = type_str P2P_TRANSFER"
    "from_db (of_int (le_amount e)) (le_currency e) = Inr m"
    by (auto simp: same_p2p_def map_sum_Inr split: option.splits if_splits)
  moreover obtain v where "acc_user dst = Some v" using stored(2) by (auto dest: account_by_user_SomeD)
  ultimately show ?thesis using r u s2 stored by (auto simp: same_ledger_def)
qed

definition demo_p2p_again :: "((wexc + transaction \<times> money \<times> bool) \<times> wallet_db)" where
  "demo_p2p_again = transferer_p2p demo_env 101 ''702'' 1200 ''1234'' None ''k1'' (snd demo_p2p)"

theorem p2p_replay_moves_nothing_witness:
  "\<exists>r m t. demo_p2p_again = (Inr (r, m, True), t) \<and> entries t = entries (snd demo_p2p) \<and> length (entries t) = 4"
proof -
  have "case demo_p2p_again of (Inr (r, m, b), t) \<Rightarrow> b \<and> get_by_idempotency_key (snd demo_p2p) ''k1'' = Some r | _ \<Rightarrow> False"
    by code_simp
  then obtain r m t where run: "demo_p2p_again = (Inr (r, m, True), t)"
    and key: "get_by_idempotency_key (snd demo_p2p) ''k1'' = Some r"
    by (cases demo_p2p_again) (auto split: sum.splits)
  have "length (entries (snd demo_p2p)) = 4" by code_simp
  with p2p_replay_moves_nothing [OF run [unfolded demo_p2p_again_def] key] have "entries t = entries (snd demo_p2p) \<and> length (entries t) = 4"
    by simp
  with run show ?thesis by blast
qed

text \<open>
  C14: a new transfer of at least the step-up threshold spends a proof of the right purpose issued to
  the caller: the proof was not consumed before and is consumed afterwards.
\<close>

theorem high_value_needs_proof:
  assumes "transferer_p2p env u phone amnt pin proof key s = (Inr (r, m, False), t)"
    "we_threshold env = Some limit" "limit \<le> amnt"
  shows "\<exists>p. proof = Some p \<and> proof_user p = u \<and> proof_purpose p = ''wallet.transfer.high_value''
    \<and> proof_get s (proof_jti p) = None \<and> proof_get t (proof_jti p) \<noteq> None"
  using assms(1)
proof (rule p2p_new)
  fix src dst :: account and s2 s3 s4
  assume "consumed_proofs s2 = consumed_proofs s" "consumed_proofs t = consumed_proofs s3"
    "require_transfer_step_up (we_threshold env) u amnt proof s2 = (Inr (), s3)"
  moreover from this step_up_run [OF this(3)] assms(2, 3) show ?thesis by (auto simp: proof_get_def)
qed

theorem high_value_needs_proof_witness:
  "\<exists>p. Some demo_transfer_proof = Some p \<and> proof_user p = 101 \<and> proof_get demo_state (proof_jti p) = None"
proof -
  let ?run = "transferer_p2p demo_env 101 ''702'' 4000 ''1234'' (Some demo_transfer_proof) ''k2'' demo_state"
  have "case ?run of (Inr (r, m, b), t) \<Rightarrow> \<not> b | _ \<Rightarrow> False" by code_simp
  then obtain r m t where run: "?run = (Inr (r, m, False), t)" by (cases ?run) (auto split: sum.splits)
  have "we_threshold demo_env = Some 3000" by (simp add: demo_env_def)
  from high_value_needs_proof [OF run this] show ?thesis by auto
qed

end
