(* ===== verification/WalletSafety.thy ===== *)
theory WalletSafety
  imports WalletProps
begin

section \<open>Properties of deposits, withdrawals, PINs and reconciliation\<close>

subsection \<open>Deposits\<close>

lemma transaction_get_update:
  "(\<And>r. tx_id (f r) = tx_id r) \<Longrightarrow>
   transaction_get (s\<lparr>transactions := update_row tx_id i f (transactions s)\<rparr>) j =
     (if j = i then map_option f (transaction_get s i) else transaction_get s j)"
  by (simp add: transaction_get_def lookup_update_row)

lemma transaction_get_frame [simp]:
  "transaction_get (append_lines i ls s) = transaction_get s"
  "transaction_get (s\<lparr>outbox := ob\<rparr>) = transaction_get s"
  by (simp_all add: transaction_get_def append_lines_def fun_eq_iff)

lemma account_id_for_same: "gateway_accounts t = gateway_accounts s \<Longrightarrow> account_id_for t = account_id_for s"
  by (simp add: account_id_for_def fun_eq_iff)

lemma publish_gateways: "publish_completed env r m s = (Inr x, t) \<Longrightarrow> account_id_for t = account_id_for s"
  by (rule account_id_for_same) (auto simp: publish_completed_def outbox_enqueue_def split: if_splits)

text \<open>What confirming a pending operation does, whatever its type.\<close>

lemma confirm_run:
  assumes run: "confirmer_operation env i mode s = (Inr r', t)"
    and r: "transaction_get s i = Some r" "tx_status r = Tx_PENDING"
  obtains u v where "whenE (tx_type r = type_str DEPOSIT)
       (bindE (read_money r) (\<lambda>montant. bindE (compte_suspense mode XOF) (\<lambda>suspense.
        bindE (some_or IntegrityError (tx_account r)) (\<lambda>acc.
        post_sur_transaction i (deposit_lines suspense acc montant mode))))) s = (Inr (), u)"
    "marquer i Tx_COMPLETED u = (Inr (), v)" "transaction_get v i = Some r'" "same_ledger v t" "account_id_for t = account_id_for v"
proof -
  from run r obtain u v where bk: "whenE (tx_type r = type_str DEPOSIT)
       (bindE (read_money r) (\<lambda>montant. bindE (compte_suspense mode XOF) (\<lambda>suspense.
        bindE (some_or IntegrityError (tx_account r)) (\<lambda>acc.
        post_sur_transaction i (deposit_lines suspense acc montant mode))))) s = (Inr (), u)"
    and mk: "marquer i Tx_COMPLETED u = (Inr (), v)" and r': "transaction_get v i = Some r'"
    and pub: "whenE (tx_amount r' \<noteq> None) (bindE (read_money r') (\<lambda>m. publish_completed env r' m)) v = (Inr (), t)"
    unfolding confirmer_operation_def deposit_lines_def [symmetric]
    by (simp only: bindE_Inr reload_Inr thenE_Inr if_False retE_Inr) (auto simp del: whenE_Inr)
  have "same_ledger v t"
    using pub by (auto simp: same_ledger_def dest!: read_money_Inr publish_run split: if_splits)
  moreover have "account_id_for t = account_id_for v"
    using pub by (auto dest!: read_money_Inr publish_gateways split: if_splits)
  ultimately show thesis using bk mk r' by (intro that)
qed

lemma marquer_run:
  "marquer i st s = (Inr u, t) \<Longrightarrow> entries t = entries s \<and> accounts t = accounts s \<and> account_id_for t = account_id_for s
     \<and> transaction_get t i = map_option (\<lambda>r. if st = Tx_COMPLETED then r\<lparr>tx_status := st, tx_completed := Some (clock s)\<rparr>
         else r\<lparr>tx_status := st\<rparr>) (transaction_get s i)"
  by (auto simp: marquer_def update_transaction_def transaction_get_update intro!: account_id_for_same)

lemma suspense_is_registered:
  assumes "compte_suspense mode cur s = (Inr suspense, w)"
  shows "account_id_for w mode = Some suspense" "account_get s acc = Some ac \<Longrightarrow> account_get w acc = Some ac"
  using assms by (auto simp: compte_suspense_def account_create_Inr gateway_register_def account_id_for_def account_get_def
    lookup_row_append split: option.splits)

text \<open>
  C8: confirming a pending deposit takes exactly its amount from the suspense account registered for the
  processor, gives it to the customer's account, which may not be overdrawn and so is another one, and changes
  no other balance. This happens once: the stored transaction is completed, and confirming or failing it again
  leaves the database as it is.
\<close>

theorem deposit_confirmed_once:
  assumes reach: "wallet_reachable env s" and run: "confirmer_operation env i mode s = (Inr r', t)"
    and r: "transaction_get s i = Some r" "tx_status r = Tx_PENDING" "tx_type r = type_str DEPOSIT"
    and amount: "tx_amount r = Some a" "tx_account r = Some acc" "numeric_14_2 a"
    and customer: "account_get s acc = Some ac" "\<not> allows_negative_balance ac"
  shows "(\<exists>suspense. account_id_for t mode = Some suspense \<and> suspense \<noteq> acc
        \<and> (\<forall>j. account_total t j = account_total s j + (if j = acc then a else if j = suspense then - a else 0)))
    \<and> transaction_get t i = Some r' \<and> tx_status r' = Tx_COMPLETED
    \<and> confirmer_operation env' i mode' t = (Inr r', t) \<and> echouer_operation i mode' t = (Inr r', t)"
  using run r(1, 2)
proof (rule confirm_run)
  fix u v
  assume "whenE (tx_type r = type_str DEPOSIT)
       (bindE (read_money r) (\<lambda>montant. bindE (compte_suspense mode XOF) (\<lambda>suspense.
        bindE (some_or IntegrityError (tx_account r)) (\<lambda>acc.
        post_sur_transaction i (deposit_lines suspense acc montant mode))))) s = (Inr (), u)"
    and mk: "marquer i Tx_COMPLETED u = (Inr (), v)" and r': "transaction_get v i = Some r'" and t: "same_ledger v t"
    and gw: "account_id_for t = account_id_for v"
  with r amount obtain m suspense w where m: "tx_money r = Inr (Some m)"
    and sus: "compte_suspense mode XOF s = (Inr suspense, w)"
    and u: "u = append_lines i (deposit_lines suspense acc m mode) w"
    by (auto simp: post_sur_transaction_Inr dest!: read_money_Inr)
  have ma: "amount m = a"
    using m amount(1, 3) by (auto simp: tx_money_def from_db_def ctx_round_of_int numeric_14_2_def Let_def mk_money_Inr_iff
        map_sum_Inr split: option.splits if_splits)
  have w: "entries w = entries s"
    using sus by (auto simp: compte_suspense_def account_create_Inr gateway_register_def split: option.splits)
  have tot: "account_total t j = account_total u j" for j
    using t marquer_run [OF mk] by (simp add: same_ledger_def account_total_def)
  have other: "suspense \<noteq> acc"
    using compte_suspense_Inr [OF wallet_inv_reachable [OF reach] sus] suspense_is_registered(2) [OF sus customer(1)] customer(2)
    by (auto simp: overdraftable_def)
  have "account_total t j = account_total s j + (if j = acc then a else if j = suspense then - a else 0)" for j
    using ma w other by (simp add: tot u account_total_append_lines deposit_lines_eq transfer_lines_sum)
      (simp add: account_total_def)
  moreover have "account_id_for t mode = Some suspense"
    using suspense_is_registered(1) [OF sus] marquer_run [OF mk] gw by (simp add: u append_lines_def account_id_for_def)
  moreover note other
  moreover have st: "tx_status r' = Tx_COMPLETED"
    using marquer_run [OF mk] r' by (cases "transaction_get u i") auto
  moreover have got: "transaction_get t i = Some r'" using r' t by (simp add: same_ledger_def transaction_get_def)
  moreover from st got have "confirmer_operation env' i mode' t = (Inr r', t)" "echouer_operation i mode' t = (Inr r', t)"
    by (simp_all add: confirmer_operation_def echouer_operation_def reload_def op_defs)
  ultimately show ?thesis by blast
qed

theorem deposit_confirmed_once_witness:
  "\<exists>r' t. confirmer_operation demo_env 17 ''stub'' demo_pending = (Inr r', t) \<and> tx_status r' = Tx_COMPLETED
     \<and> account_total t 1 = account_total demo_pending 1 + 5000 \<and> confirmer_operation demo_env 17 ''stub'' t = (Inr r', t)"
proof -
  let ?run = "confirmer_operation demo_env 17 ''stub'' demo_pending"
  have "case (?run, transaction_get demo_pending 17) of ((Inr r', t), Some r) \<Rightarrow>
      tx_status r = Tx_PENDING \<and> tx_type r = type_str DEPOSIT \<and> tx_amount r = Some 5000 \<and> tx_account r = Some 1 | _ \<Rightarrow> False"
    by code_simp
  then obtain r' t r where run: "?run = (Inr r', t)" and r: "transaction_get demo_pending 17 = Some r"
    "tx_status r = Tx_PENDING" "tx_type r = type_str DEPOSIT" "tx_amount r = Some 5000" "tx_account r = Some 1"
    by (cases ?run) (auto split: sum.splits option.splits)
  have "numeric_14_2 5000" by (simp add: numeric_14_2_def)
  have "map_option allows_negative_balance (account_get demo_pending 1) = Some False" by code_simp
  then obtain ac where "account_get demo_pending 1 = Some ac" "\<not> allows_negative_balance ac" by auto
  from deposit_confirmed_once [OF demo_reachable(1) run r \<open>numeric_14_2 5000\<close> this, of demo_env "''stub''"] run show ?thesis by auto
qed

subsection \<open>Withdrawals\<close>

text \<open>
  When the operator refuses a withdrawal, the entries written when it was requested are undone by
  opposite entries of a new transaction that points to it: the two together leave every balance
  where it was, the withdrawal is marked reversed and can be neither confirmed nor failed again.
\<close>

theorem failed_withdrawal_restores_balances:
  assumes inv: "wallet_reachable env s" and run: "echouer_operation i mode s = (Inr r', t)"
    and r: "transaction_get s i = Some r" "tx_status r = Tx_PENDING" "tx_type r = type_str WITHDRAWAL"
  shows "(\<forall>j. account_total t j + sum_list (map signed (filter (\<lambda>e. le_account e = j) (entries_of s i))) = account_total s j)
    \<and> tx_status r' = Tx_REVERSED \<and> (\<exists>h \<in> set (transactions t). tx_reverses h = Some i \<and> tx_status h = Tx_COMPLETED)
    \<and> echouer_operation i mode' t = (Inr r', t) \<and> confirmer_operation env' i mode' t = (Inr r', t)"
proof -
  have id: "tx_id r = i" using r(1) transaction_get_in by blast
  from run [unfolded echouer_cases [OF r(1)]] r obtain y u z where
    c: "contre_passer r (''wallet:reversal:'' @ mode) s = (Inr y, u)"
    and mk: "marquer i Tx_REVERSED u = (Inr z, t)" and r': "transaction_get t i = Some r'"
    by (simp only: thenE_Inr bindE_Inr reload_Inr if_False if_True simp_thms) blast
  from c obtain ls h where h: "tx_id h = next_uuid s" "tx_status h = Tx_COMPLETED" "tx_reverses h = Some (tx_id r)"
    and rel: "list_all2 (\<lambda>e l. inverse_line (''wallet:reversal:'' @ mode) e = Inr l) (entries_of s (tx_id r)) ls"
    and u: "u = posted s h ls"
    by (rule contre_passer_Inr)
  have ok: "ledger_ok s" using wallet_inv_reachable [OF inv] by (simp add: wallet_inv_def)
  then have num: "\<forall>e \<in> set (entries_of s (tx_id r)). numeric_14_2 (le_amount e)"
    by (auto simp: ledger_ok_def entry_ok_def entries_of_def)
  have old: "i \<noteq> next_uuid s"
    using ok r(1) transaction_get_in [OF r(1)] by (auto simp: ledger_ok_def ids_ok_def)
  have "account_total t j = account_total u j" for j
    using marquer_run [OF mk] by (simp add: account_total_def)
  then have tot: "account_total t j + sum_list (map signed (filter (\<lambda>e. le_account e = j) (entries_of s i))) = account_total s j" for j
    using inverse_lines_signed [OF rel num, of j] by (simp add: u account_total_posted [OF h(1)] id)
  have st: "tx_status r' = Tx_REVERSED" using marquer_run [OF mk] r' by (cases "transaction_get u i") auto
  have "h \<in> set (transactions u)" by (simp add: u posted_def)
  moreover have "transactions t = update_row tx_id i (\<lambda>r. r\<lparr>tx_status := Tx_REVERSED\<rparr>) (transactions u)"
    using mk by (auto simp: marquer_def update_transaction_def)
  ultimately have "h \<in> set (transactions t)" using h(1) old by (auto simp: set_update_row image_iff)
  then have "\<exists>h \<in> set (transactions t). tx_reverses h = Some i \<and> tx_status h = Tx_COMPLETED" using h id by blast
  moreover have "echouer_operation i mode' t = (Inr r', t)" "confirmer_operation env' i mode' t = (Inr r', t)"
    using st r' by (simp_all add: confirmer_operation_def echouer_operation_def reload_def op_defs)
  ultimately show ?thesis using tot st by blast
qed

theorem failed_withdrawal_restores_balances_witness:
  "\<exists>r' t. echouer_operation 22 ''stub'' demo_withdrawing = (Inr r', t) \<and> tx_status r' = Tx_REVERSED
     \<and> account_total t 1 - 2000 = account_total demo_withdrawing 1"
proof -
  let ?run = "echouer_operation 22 ''stub'' demo_withdrawing"
  have "case (?run, transaction_get demo_withdrawing 22) of ((Inr r', t), Some r) \<Rightarrow>
      tx_status r = Tx_PENDING \<and> tx_type r = type_str WITHDRAWAL | _ \<Rightarrow> False"
    by code_simp
  then obtain r' t r where run: "?run = (Inr r', t)" and r: "transaction_get demo_withdrawing 22 = Some r"
    "tx_status r = Tx_PENDING" "tx_type r = type_str WITHDRAWAL"
    by (cases ?run) (auto split: sum.splits option.splits)
  have net: "sum_list (map signed (filter (\<lambda>e. le_account e = 1) (entries_of demo_withdrawing 22))) = - 2000" by code_simp
  note * = failed_withdrawal_restores_balances [OF demo_reachable(3) run r, of "''stub''" demo_env]
  from * have "account_total t 1 + sum_list (map signed (filter (\<lambda>e. le_account e = 1) (entries_of demo_withdrawing 22)))
    = account_total demo_withdrawing 1" by blast
  with net have "account_total t 1 - 2000 = account_total demo_withdrawing 1" by linarith
  with * run show ?thesis by blast
qed

subsection \<open>PINs and proofs\<close>

text \<open>
  C16: a wrong PIN is refused, but the request that carries it is rolled back: the failed attempt
  \<^verbatim>\<open>register_failure\<close> counted is lost, and in no reachable database does any PIN have a
  failed attempt or a lock.
\<close>

theorem pin_lock_never_engages:
  assumes "wallet_reachable env s" "pin_get s acc = Some row" "\<not> pin_valid L row pin"
  shows "atomically (verify_pin L acc pin) s = (Inl InvalidPin, s) \<and> failed_attempts row = 0 \<and> locked_until row = None"
proof -
  have row: "row \<in> set (pins s)" using assms(2) by (auto simp: pin_get_def dest: lookup_row_SomeD)
  from wallet_inv_pinsD [OF wallet_inv_reachable [OF assms(1)] this]
  show ?thesis using assms(2, 3) by (simp add: atomically_def verify_pin_cases pin_locked_def)
qed

theorem pin_lock_never_engages_witness:
  "atomically (verify_pin demo_lib 1 ''0000'') demo_state = (Inl InvalidPin, demo_state)"
proof -
  have "case pin_get demo_state 1 of Some row \<Rightarrow> \<not> pin_valid demo_lib row ''0000'' | None \<Rightarrow> False" by code_simp
  then obtain row where "pin_get demo_state 1 = Some row" "\<not> pin_valid demo_lib row ''0000''"
    by (auto split: option.splits)
  with pin_lock_never_engages [OF demo_reachable(2) this] show ?thesis by blast
qed

text \<open>
  C15: money leaves a user's account only against the PIN: a transfer, a merchant payment or a
  withdrawal that returns had a PIN row for the caller's account, not locked, and the given PIN
  verified against it.
\<close>

theorem spending_needs_pin:
  assumes "transferer_p2p env u phone amnt pin proof key s = (Inr x, t)
    \<or> payer_marchand env u merchant amnt pin origin business key s = (Inr x, t)
    \<or> retirer env u provider amnt phone pin key s = (Inr y, t)"
  shows "\<exists>a s1 row. compte_de u s = (Inr a, s1) \<and> acc_user a = Some u \<and> pin_get s1 (acc_id a) = Some row
    \<and> \<not> pin_locked row (clock s1) \<and> pin_valid (we_pins env) row pin"
proof -
  from assms obtain a s1 s2 where c: "compte_de u s = (Inr a, s1)"
    and v: "verify_pin (we_pins env) (acc_id a) pin s1 = (Inr (), s2)"
    unfolding transferer_p2p_def payer_marchand_def retirer_def bindE_Inr thenE_Inr by (elim disjE exE conjE) simp_all
  from compte_de_run [OF c] verify_pin_run [OF v] c show ?thesis by blast
qed

theorem spending_needs_pin_witness:
  "\<exists>a s1 row. compte_de 101 demo_state = (Inr a, s1) \<and> pin_get s1 (acc_id a) = Some row"
proof -
  have "case demo_p2p of (Inr x, t) \<Rightarrow> True | _ \<Rightarrow> False" by code_simp
  then obtain x t where "demo_p2p = (Inr x, t)" by (cases demo_p2p) (auto split: sum.splits)
  with spending_needs_pin [of demo_env 101 "''702''" 1200 "''1234''" None "''k1''" demo_state x t]
  show ?thesis unfolding demo_p2p_def by blast
qed

text \<open>
  A step-up proof is accepted once: a use that returns was by the user and for the purpose it was
  issued for, and in every later database, which keeps the consumed identifiers, any use of it by
  anyone and for any purpose is refused.
\<close>

theorem step_up_proof_single_use:
  assumes "consume_step_up_proof p u purpose s = (Inr x, t)"
    "cp_jti ` set (consumed_proofs t) \<subseteq> cp_jti ` set (consumed_proofs t')"
  shows "proof_user p = u \<and> proof_purpose p = purpose \<and> proof_get s (proof_jti p) = None
    \<and> fst (consume_step_up_proof p u' purpose' t') \<in> {Inl StepUpProofAlreadyUsed, Inl StepUpProofInvalid}"
proof -
  from assms(1) have s: "proof_user p = u" "proof_purpose p = purpose" "proof_get s (proof_jti p) = None"
    and t: "proof_jti p \<in> cp_jti ` set (consumed_proofs t)"
    by (auto simp: consume_step_up_proof_def catchE_Inr proof_add_def)
  from t assms(2) have "proof_get t' (proof_jti p) \<noteq> None"
    by (auto simp: proof_get_def lookup_row_None_iff)
  with s show ?thesis by (auto simp: consume_step_up_proof_def op_defs)
qed

theorem step_up_proof_single_use_witness:
  "\<exists>t. consume_step_up_proof demo_transfer_proof 101 ''wallet.transfer.high_value'' demo_state = (Inr (), t)
     \<and> fst (consume_step_up_proof demo_transfer_proof 101 ''wallet.transfer.high_value'' t) \<noteq> Inr ()"
proof -
  let ?run = "consume_step_up_proof demo_transfer_proof 101 ''wallet.transfer.high_value'' demo_state"
  have "case ?run of (Inr x, t) \<Rightarrow> True | _ \<Rightarrow> False" by code_simp
  then obtain t where run: "?run = (Inr (), t)" by (cases ?run) (auto split: sum.splits)
  from step_up_proof_single_use [OF run order_refl] have
    "fst (consume_step_up_proof demo_transfer_proof 101 ''wallet.transfer.high_value'' t)
      \<in> {Inl StepUpProofAlreadyUsed, Inl StepUpProofInvalid}" by blast
  then have "fst (consume_step_up_proof demo_transfer_proof 101 ''wallet.transfer.high_value'' t) \<noteq> Inr ()" by auto
  with run show ?thesis by blast
qed

text \<open>
  A recovery code resets the PIN at most once: after a reset that returned, the same code is
  refused in the database it left (the hashes of the codes are unique, as the table requires).
\<close>

theorem recovery_code_single_use:
  assumes run: "reset_pin_with_recovery L u secret new_pin new_pin s = (Inr a, t)"
    and known: "account_by_user s u XOF USER = Some a"
    and uniq: "distinct (map rc_hash (recovery_codes s))" "distinct (map rc_id (recovery_codes s))"
  shows "reset_pin_with_recovery L u secret pin2 pin2 t = (Inl RecoveryCodeInvalid, t)"
proof -
  let ?h = "hash_recovery_code L secret"
  from run known obtain row where
    f: "find (\<lambda>r. rc_consumed r = None \<and> rc_hash r = ?h) (recovery_codes_for s (acc_id a)) = Some row"
    and t: "recovery_codes t = update_row rc_id (rc_id row) (\<lambda>r. r\<lparr>rc_consumed := Some (clock s)\<rparr>) (recovery_codes s)"
    and acc: "accounts t = accounts s"
    by (auto simp: reset_pin_with_recovery_def compte_de_Inr ensure_password_policy_def set_pin_def split: if_splits)
  from find_Some_prop [OF f] have row: "row \<in> set (recovery_codes s)" "rc_hash row = ?h"
    by (auto simp: recovery_codes_for_def)
  have "rc_consumed r \<noteq> None" if r: "r \<in> set (recovery_codes t)" "rc_hash r = ?h" for r
  proof -
    from r(1) obtain q where q: "q \<in> set (recovery_codes s)"
      "r = (if rc_id q = rc_id row then q\<lparr>rc_consumed := Some (clock s)\<rparr> else q)"
      unfolding t set_update_row by blast
    with r(2) row have "q = row" using uniq(1) by (auto simp: distinct_map inj_on_def split: if_splits)
    with q show ?thesis by simp
  qed
  then have none: "find (\<lambda>r. rc_consumed r = None \<and> rc_hash r = ?h) (recovery_codes_for t (acc_id a)) = None"
    by (auto simp: find_None_prop recovery_codes_for_def)
  have "account_by_user t u XOF USER = Some a" using known acc by (simp add: account_by_user_def)
  with none show ?thesis
    by (simp add: reset_pin_with_recovery_def compte_de_def ensure_password_policy_def op_defs)
qed

theorem recovery_code_single_use_witness:
  "\<exists>a t. reset_pin_with_recovery demo_lib 101 ''c4'' ''9999'' ''9999'' demo_state = (Inr a, t)
     \<and> reset_pin_with_recovery demo_lib 101 ''c4'' ''1111'' ''1111'' t = (Inl RecoveryCodeInvalid, t)"
proof -
  let ?run = "reset_pin_with_recovery demo_lib 101 ''c4'' ''9999'' ''9999'' demo_state"
  have "case ?run of (Inr a, t) \<Rightarrow> account_by_user demo_state 101 XOF USER = Some a | _ \<Rightarrow> False" by code_simp
  then obtain a t where run: "?run = (Inr a, t)" and known: "account_by_user demo_state 101 XOF USER = Some a"
    by (cases ?run) (auto split: sum.splits)
  have "distinct (map rc_hash (recovery_codes demo_state))" "distinct (map rc_id (recovery_codes demo_state))"
    by code_simp+
  from recovery_code_single_use [OF run known this] run show ?thesis by blast
qed

subsection \<open>Reconciliation, frozen accounts\<close>

text \<open>
  Reconciliation completes an operation only when the gateway reports it completed with the amount
  and the currency of the transaction (or reports no amount), and every other answer than completed or
  failed leaves the ledger and the transactions as they are.
\<close>

theorem reconcile_only_on_match:
  assumes run: "reconcile_transaction env i s = (Inr (st, mode), t)"
  shows "(st = Rc_completed \<longrightarrow> (\<exists>r g n ref o'. transaction_get s i = Some r \<and> tx_status r = Tx_PENDING
      \<and> gateway_for_mode (we_gateways env) (the mode) = Inr g
      \<and> (if tx_type r = type_str WITHDRAWAL then verifier_retrait g n ref else verifier_depot g n ref) = Inr o'
      \<and> tx_provider_reference r = Some ref \<and> op_status o' = Gw_COMPLETED
      \<and> (op_amount o' = None \<or> op_amount o' = tx_amount r \<and> op_currency o' = tx_currency r)))
    \<and> (st \<notin> {Rc_completed, Rc_failed} \<longrightarrow> entries t = entries s \<and> transactions t = transactions s)"
proof (cases "transaction_get s i")
  case None
  with run show ?thesis by (auto simp: reconcile_transaction_def)
next
  case (Some r)
  show ?thesis
  proof (cases "tx_provider_reference r")
    case None
    with run Some show ?thesis by (auto simp: reconcile_transaction_def)
  next
    case ref: (Some ref)
    show ?thesis
    proof (cases "tx_status r = Tx_PENDING")
      case False
      with run Some ref show ?thesis by (cases "tx_status r") (auto simp: reconcile_transaction_def)
    next
      case True
      define m where "m = (case tx_gateway_mode r of None \<Rightarrow> ''paystack'' | Some m \<Rightarrow> if m = [] then ''paystack'' else m)"
      from run Some ref True obtain g o' where g: "gateway_for_mode (we_gateways env) m = Inr g"
        and o': "(if tx_type r = type_str WITHDRAWAL then verifier_retrait g (next_uuid s) ref
            else verifier_depot g (next_uuid s) ref) = Inr o'"
        and rest: "(if op_status o' = Gw_COMPLETED then
            (if op_amount o' \<noteq> None \<and> (op_amount o' \<noteq> tx_amount r \<or> op_currency o' \<noteq> tx_currency r)
             then retE (Rc_amount_or_currency_mismatch, Some m)
             else bindE (confirmer_operation env i m) (\<lambda>_. retE (Rc_completed, Some m)))
          else if op_status o' = Gw_FAILED then
            bindE (echouer_operation i m) (\<lambda>_. retE (Rc_failed, Some m))
          else retE (Rc_pending, Some m)) (s\<lparr>next_uuid := Suc (next_uuid s)\<rparr>) = (Inr (st, mode), t)"
        unfolding reconcile_transaction_def bindE_readE
        by (simp only: option.case ref True transaction_status.distinct simp_thms if_False Let_def m_def [symmetric]
            bindE_Inr of_sum_Inr fresh_Inr map_sum_id_Inr) blast
      show ?thesis
      proof (cases "op_status o'")
        case Gw_COMPLETED
        with rest Some True g o' ref show ?thesis
          by (cases "op_amount o' \<noteq> None \<and> (op_amount o' \<noteq> tx_amount r \<or> op_currency o' \<noteq> tx_currency r)")
            (simp, force)
      qed (use rest in auto)
    qed
  qed
qed

definition demo_auto :: wallet_env where
  "demo_auto = demo_env\<lparr>we_gateways := demo_settings\<lparr>payment_gateway_autoconfirm := True\<rparr>\<rparr>"

theorem reconcile_only_on_match_witness:
  "\<exists>t r. reconcile_transaction demo_auto 17 demo_pending = (Inr (Rc_completed, Some ''stub''), t)
     \<and> transaction_get demo_pending 17 = Some r \<and> tx_status r = Tx_PENDING"
proof -
  let ?run = "reconcile_transaction demo_auto 17 demo_pending"
  have "case ?run of (Inr x, t) \<Rightarrow> x = (Rc_completed, Some ''stub'') | _ \<Rightarrow> False" by code_simp
  then obtain t where run: "?run = (Inr (Rc_completed, Some ''stub''), t)" by (cases ?run) (auto split: sum.splits)
  from reconcile_only_on_match [OF run] obtain r where "transaction_get demo_pending 17 = Some r" "tx_status r = Tx_PENDING"
    by blast
  with run show ?thesis by blast
qed

text \<open>
  an account that is not active (\<^verbatim>\<open>user.suspended\<close> freezes it) sends nothing: a new transfer
  from it is refused and leaves the database as it is, whatever the balance.
\<close>

theorem frozen_account_cannot_send:
  assumes "account_get s a = Some acc" "acc_status acc \<noteq> ACTIVE" "get_by_idempotency_key s key = None"
  shows "transfer a b m ty ref key origin st s = (Inl AccountNotActive, s)"
  using assms by (simp add: transfer_def load_debitable_def op_defs)

theorem frozen_account_cannot_send_witness:
  "\<exists>s. s = serve demo_env [User_suspended (Some 101)] demo_state
     \<and> transfer 1 2 (Money 100 ''XOF'') ''p2p_transfer'' ''r'' ''k9'' None Tx_COMPLETED s = (Inl AccountNotActive, s)"
proof -
  let ?s = "serve demo_env [User_suspended (Some 101)] demo_state"
  have "case account_get ?s 1 of Some acc \<Rightarrow> acc_status acc \<noteq> ACTIVE | None \<Rightarrow> False" by code_simp
  then obtain acc where acc: "account_get ?s 1 = Some acc" "acc_status acc \<noteq> ACTIVE" by (auto split: option.splits)
  have "get_by_idempotency_key ?s ''k9'' = None" by code_simp
  from frozen_account_cannot_send [OF acc this] show ?thesis by blast
qed

subsection \<open>Idempotency keys of the service and of conversions\<close>

text \<open>
  \<^verbatim>\<open>WalletService.debiter\<close> answers a key that any earlier transaction used, of any kind and
  between any accounts, with that transaction: the caller sees a debit that succeeded, no entry is
  written, and the stored transaction's amount is overwritten with the requested one.
\<close>

theorem debit_with_foreign_key:
  assumes "get_by_idempotency_key s key = Some r" "0 \<le> a"
  shows "\<exists>t. debiter compte contrepartie a reference key ty origin s = (Inr (tx_id r), t)
    \<and> entries t = entries s
    \<and> transactions t = update_row tx_id (tx_id r) (\<lambda>q. q\<lparr>tx_amount := Some a, tx_currency := Some XOF\<rparr>) (transactions s)"
proof -
  have "mk_money a XOF = Inr (Money a XOF)" using assms(2) by (simp add: mk_money_Inr_iff valid_money_def)
  then show ?thesis
    using transfer_replay [OF assms(1), of contrepartie] transfer_replay [OF assms(1), of compte contrepartie]
    by (simp add: debiter_def money_of_service_def bindE_of_sum bindE_run thenE_modE update_transaction_def retE_def)
qed

theorem debit_with_foreign_key_witness:
  "\<exists>t. debiter 2 1 999 ''loan'' ''d1'' ''fund_repayment'' None demo_state = (Inr 17, t) \<and> entries t = entries demo_state"
proof -
  have "case get_by_idempotency_key demo_state ''d1'' of Some r \<Rightarrow> tx_id r = 17 | None \<Rightarrow> False" by code_simp
  then obtain r where "get_by_idempotency_key demo_state ''d1'' = Some r" "tx_id r = 17" by (auto split: option.splits)
  with debit_with_foreign_key [OF this(1), of 999 2 1 "''loan''" "''fund_repayment''" None] show ?thesis by auto
qed

lemma compte_de_position_run:
  "compte_de_position c s = (Inr i, t) \<Longrightarrow> same_ledger s t \<and> conversions t = conversions s"
  by (auto simp: compte_de_position_def account_create_Inr same_ledger_def split: option.splits)

text \<open>
  A conversion requested again under the same key moves no money but records a second conversion
  row for the same two transactions, at the rate of the day of the second request.
\<close>

theorem conversion_replay_recorded_twice:
  assumes run: "convertir a b m key s = (Inr (c, m', n, rate), t)"
    and keys: "get_by_idempotency_key s (key @ '':out'') = Some r1" "get_by_idempotency_key s (key @ '':in'') = Some r2"
  shows "entries t = entries s \<and> transactions t = transactions s \<and> conversions t = conversions s @ [c]
    \<and> cc_source_transaction c = tx_id r1 \<and> cc_target_transaction c = tx_id r2
    \<and> (\<exists>src tgt. taux s (acc_currency (src :: account)) (acc_currency (tgt :: account)) = Some (cc_rate c))"
proof -
  from run obtain src tgt p q s1 s2 s3 s4 t1 t2 x y where
    rate: "taux s (acc_currency (src :: account)) (acc_currency (tgt :: account)) = Some rate"
    and p1: "compte_de_position (acc_currency src) s = (Inr p, s1)"
    and p2: "compte_de_position (acc_currency tgt) s1 = (Inr q, s2)"
    and o: "transfer (acc_id src) p m (type_str CURRENCY_CONVERSION)
         (''wallet:fx:out:'' @ acc_currency src @ ''->'' @ acc_currency tgt) (key @ '':out'') (Some ''wallet'') Tx_COMPLETED s2 = (Inr (t1, x), s3)"
    and i: "transfer q (acc_id tgt) n (type_str CURRENCY_CONVERSION)
         (''wallet:fx:in:'' @ acc_currency src @ ''->'' @ acc_currency tgt) (key @ '':in'') (Some ''wallet'') Tx_COMPLETED s3 = (Inr (t2, y), s4)"
    and c: "add_conversion (acc_id src) (tx_id t1) (tx_id t2) m n rate s4 = (Inr c, t)"
    unfolding convertir_def bindE_readE by (auto simp del: type_str.simps)
  have s2: "same_ledger s s2" "conversions s2 = conversions s"
    using compte_de_position_run [OF p1] compte_de_position_run [OF p2] by (auto intro: same_ledger_trans)
  note k = same_ledgerD [OF s2(1)]
  have "get_by_idempotency_key s2 (key @ '':out'') = Some r1" using k keys by simp
  from o transfer_replay [OF this] have s3: "t1 = r1" "s3 = s2" by auto
  have "get_by_idempotency_key s3 (key @ '':in'') = Some r2" using k keys s3 by simp
  from i transfer_replay [OF this] have s4: "t2 = r2" "s4 = s3" by auto
  from add_conversion_Inr [OF c] s2 s3 s4 rate show ?thesis by (auto simp: same_ledger_def)
qed

definition demo_fx :: wallet_db where
  "demo_fx = serve demo_env [Quote_rate ''XOF'' ''EUR'' (3 / 2000) None] (demo_state\<lparr>accounts := accounts demo_state @
     [\<lparr>acc_id = 50, acc_user = Some 101, acc_type = USER, acc_currency = ''EUR'', acc_status = ACTIVE,
       acc_reference = None, allows_negative_balance = False\<rparr>], next_uuid := 60\<rparr>)"

definition demo_fx_once :: wallet_db where
  "demo_fx_once = serve demo_env [Convert 1 50 (Money 3000 ''XOF'') ''fx''] demo_fx"

theorem conversion_replay_recorded_twice_witness:
  "\<exists>c m n rate t. convertir 1 50 (Money 3000 ''XOF'') ''fx'' demo_fx_once = (Inr (c, m, n, rate), t)
     \<and> entries t = entries demo_fx_once \<and> length (conversions t) = 2"
proof -
  let ?run = "convertir 1 50 (Money 3000 ''XOF'') ''fx'' demo_fx_once"
  have "case (?run, get_by_idempotency_key demo_fx_once ''fx:out'', get_by_idempotency_key demo_fx_once ''fx:in'') of
      ((Inr x, t), Some a, Some b) \<Rightarrow> length (conversions demo_fx_once) = 1 | _ \<Rightarrow> False" by code_simp
  then obtain c m n rate t r1 r2 where run: "?run = (Inr (c, m, n, rate), t)"
    and keys: "get_by_idempotency_key demo_fx_once (''fx'' @ '':out'') = Some r1"
      "get_by_idempotency_key demo_fx_once (''fx'' @ '':in'') = Some r2"
    and l: "length (conversions demo_fx_once) = 1"
    by (cases ?run) (auto split: sum.splits option.splits)
  from conversion_replay_recorded_twice [OF run keys] l have "entries t = entries demo_fx_once" "length (conversions t) = 2" by auto
  with run show ?thesis by blast
qed

end
