(* ===== verification/Loan.thy ===== *)
theory Loan
  imports Decimals Prelude
begin

section \<open>Loan terms and repayment schedules\<close>

text \<open>
  \<^verbatim>\<open>fund/domain/loan.py\<close>: the terms of a loan, computed in the Decimal context, and the schedule
  that spreads the total over the months, the last installment taking up the remainder. Dates are
  year, month and day; a year outside 1 to 9999 is the \<open>ValueError\<close> of \<^verbatim>\<open>datetime.date\<close>.
\<close>

subsection \<open>Terms\<close>

definition MAX_DURATION_MONTHS :: int where
  "MAX_DURATION_MONTHS = 60"

record loan_terms =
  lt_principal :: int
  lt_duration :: int
  lt_rate :: rat
  total_repayable :: int
  monthly_installment :: int

datatype loan_error = InvalidLoanTerms | DecimalInvalid | DateOutOfRange

definition calculer_conditions :: "int \<Rightarrow> int \<Rightarrow> rat \<Rightarrow> loan_error + loan_terms" where
  "calculer_conditions capital duration_months taux =
    (if capital \<le> 0 then Inl InvalidLoanTerms
     else if duration_months \<le> 0 \<or> duration_months > MAX_DURATION_MONTHS then Inl InvalidLoanTerms
     else if taux < 0 then Inl InvalidLoanTerms
     else case quantize_unit (ctx_round (of_int capital * ctx_round (1 + ctx_round (taux / 100)))) of
       None \<Rightarrow> Inl DecimalInvalid
     | Some tot \<Rightarrow>
        (case quantize_unit (ctx_round (of_int tot / of_int duration_months)) of
           None \<Rightarrow> Inl DecimalInvalid
         | Some mensualite \<Rightarrow> Inr \<lparr>lt_principal = capital, lt_duration = duration_months, lt_rate = taux,
             total_repayable = tot, monthly_installment = mensualite\<rparr>))"

subsection \<open>Dates\<close>

datatype date = Date (date_year: int) (date_month: int) (date_day: int)

definition bissextile :: "int \<Rightarrow> bool" where
  "bissextile y \<longleftrightarrow> y mod 4 = 0 \<and> (y mod 100 \<noteq> 0 \<or> y mod 400 = 0)"

definition jours_du_mois :: "int \<Rightarrow> int list" where
  "jours_du_mois y = [31, if bissextile y then 29 else 28, 31, 30, 31, 30, 31, 31, 30, 31, 30, 31]"

definition days_in_month :: "int \<Rightarrow> int \<Rightarrow> int" where
  "days_in_month y m = jours_du_mois y ! nat (m - 1)"

definition valid_date :: "date \<Rightarrow> bool" where
  "valid_date d \<longleftrightarrow> 1 \<le> date_year d \<and> date_year d \<le> 9999 \<and> 1 \<le> date_month d \<and> date_month d \<le> 12
     \<and> 1 \<le> date_day d \<and> date_day d \<le> days_in_month (date_year d) (date_month d)"

definition mk_date :: "int \<Rightarrow> int \<Rightarrow> int \<Rightarrow> loan_error + date" where
  "mk_date y m d = (if valid_date (Date y m d) then Inr (Date y m d) else Inl DateOutOfRange)"

definition ajouter_mois :: "date \<Rightarrow> int \<Rightarrow> loan_error + date" where
  "ajouter_mois origine mois =
    (let tot = date_month origine - 1 + mois;
         annee = date_year origine + tot div 12;
         mois_cible = tot mod 12 + 1
     in mk_date annee mois_cible (min (date_day origine) (days_in_month annee mois_cible)))"

subsection \<open>The schedule\<close>

record installment =
  installment_no :: int
  due_date :: date
  amount_due :: int

text \<open>The loop over the installment numbers, with the sum accumulated so far.\<close>

fun echeances_from :: "loan_terms \<Rightarrow> date \<Rightarrow> int \<Rightarrow> int list \<Rightarrow> loan_error + installment list" where
  "echeances_from terms depart cumul [] = Inr []"
| "echeances_from terms depart cumul (numero # rest) =
     (let montant = (if numero = lt_duration terms then total_repayable terms - cumul else monthly_installment terms)
      in case ajouter_mois depart numero of Inl e \<Rightarrow> Inl e
         | Inr d \<Rightarrow> (case echeances_from terms depart (cumul + montant) rest of Inl e \<Rightarrow> Inl e
             | Inr es \<Rightarrow> Inr (\<lparr>installment_no = numero, due_date = d, amount_due = montant\<rparr> # es)))"

definition construire_echeancier :: "loan_terms \<Rightarrow> date \<Rightarrow> loan_error + installment list" where
  "construire_echeancier terms depart = echeances_from terms depart 0 [1..lt_duration terms]"

text \<open>The terms a disbursement rebuilds from the stored loan: the installment is truncated.\<close>

definition truncate :: "rat \<Rightarrow> int" where
  "truncate x = (if x < 0 then \<lceil>x\<rceil> else \<lfloor>x\<rfloor>)"

definition stored_terms :: "int \<Rightarrow> int \<Rightarrow> rat \<Rightarrow> int \<Rightarrow> loan_terms" where
  "stored_terms capital duration rate tot = \<lparr>lt_principal = capital, lt_duration = duration, lt_rate = rate,
     total_repayable = tot, monthly_installment = truncate (ctx_round (of_int tot / of_int duration))\<rparr>"

subsection \<open>Decimal division of an amount\<close>

text \<open>28 digits are enough for the quotient of an amount by a number of months to keep its floor.\<close>

lemma floor_ctx_div:
  assumes "0 \<le> t" "t < 10 ^ 20" "0 < d" "d \<le> 60"
  shows "\<lfloor>ctx_round (of_int t / of_int d)\<rfloor> = t div d"
proof (cases "t mod d = 0")
  case True
  then obtain k where k: "t = d * k" by auto
  have "\<bar>k\<bar> < 10 ^ 28"
  proof -
    have "0 \<le> k" using assms k by (simp add: zero_le_mult_iff)
    moreover have "k \<le> t" using assms k \<open>0 \<le> k\<close> by (simp add: mult_le_cancel_right1)
    ultimately show ?thesis using assms by simp
  qed
  with assms show ?thesis by (simp add: k ctx_round_of_int)
next
  case False
  define x :: rat where "x = of_int t / of_int d"
  define q where "q = t div d"
  have r: "0 < t mod d" "t mod d \<le> d - 1" using False assms pos_mod_bound [of d t] pos_mod_sign [of d t] by linarith+
  have "t = q * d + t mod d" by (simp add: q_def)
  then have "of_int t = of_int q * of_int d + (of_int (t mod d) :: rat)" by (metis of_int_add of_int_mult)
  then have x: "x = of_int q + of_int (t mod d) / of_int d" using assms by (simp add: x_def field_simps)
  have lo: "1 / 60 \<le> of_int (t mod d) / (of_int d :: rat)"
  proof -
    have "1 / 60 \<le> 1 / (of_int d :: rat)" using assms by (simp add: field_simps)
    also have "\<dots> \<le> of_int (t mod d) / of_int d" using r assms by (simp add: divide_right_mono)
    finally show ?thesis .
  qed
  have hi: "of_int (t mod d) / (of_int d :: rat) \<le> 1 - 1 / 60"
  proof -
    have "(of_int (t mod d) :: rat) \<le> of_int (d - 1)" using r(2) by (metis of_int_le_iff)
    then have "of_int (t mod d) / of_int d \<le> of_int (d - 1) / (of_int d :: rat)"
      using assms by (intro divide_right_mono) simp_all
    also have "\<dots> = 1 - 1 / of_int d" using assms by (simp add: field_simps)
    also have "\<dots> \<le> 1 - 1 / 60" using assms by (simp add: field_simps)
    finally show ?thesis .
  qed
  have nx: "0 \<le> x" "x < 10 ^ 20"
  proof -
    show "0 \<le> x" using assms by (simp add: x_def)
    have "t \<le> t * d" using assms by (simp add: mult_le_cancel_left1)
    then have "(of_int t :: rat) \<le> of_int t * of_int d" by (metis of_int_le_iff of_int_mult)
    then have "x \<le> of_int t" using assms by (simp add: x_def divide_le_eq)
    also have "(of_int t :: rat) < of_int (10 ^ 20)" using assms by (simp only: of_int_less_iff)
    finally show "x < 10 ^ 20" by simp
  qed
  have "\<bar>ctx_round x - x\<bar> \<le> \<bar>x\<bar> / (2 * 10 ^ 27)" by (rule ctx_round_error)
  also have "\<dots> < 1 / 60" using nx by (simp add: field_simps)
  finally have "of_int q \<le> ctx_round x" "ctx_round x < of_int q + 1" using lo hi x by linarith+
  then show ?thesis unfolding x_def [symmetric] q_def [symmetric] by (simp add: floor_eq_iff)
qed

lemma stored_terms_installment:
  assumes "0 \<le> t" "t < 10 ^ 20" "0 < d" "d \<le> 60"
  shows "monthly_installment (stored_terms p d r t) = t div d"
proof -
  have "0 \<le> t div d" using assms by (simp add: pos_imp_zdiv_nonneg_iff)
  with floor_ctx_div [OF assms] have "0 \<le> ctx_round (of_int t / of_int d)" by linarith
  with floor_ctx_div [OF assms] show ?thesis by (simp add: stored_terms_def truncate_def)
qed

subsection \<open>The schedule adds up\<close>

lemma echeances_from_Inr:
  assumes "echeances_from terms depart cumul ns = Inr es"
  shows "map installment_no es = ns
    \<and> (\<forall>e \<in> set es. ajouter_mois depart (installment_no e) = Inr (due_date e))
    \<and> (ns \<noteq> [] \<longrightarrow> lt_duration terms = last ns \<longrightarrow> lt_duration terms \<notin> set (butlast ns) \<longrightarrow>
        map amount_due es = replicate (length ns - 1) (monthly_installment terms)
          @ [total_repayable terms - cumul - int (length ns - 1) * monthly_installment terms])"
  using assms
proof (induction ns arbitrary: cumul es)
  case Nil
  then show ?case by simp
next
  case (Cons n ns)
  let ?m = "if n = lt_duration terms then total_repayable terms - cumul else monthly_installment terms"
  from Cons.prems obtain d es' where d: "ajouter_mois depart n = Inr d"
    and es': "echeances_from terms depart (cumul + ?m) ns = Inr es'"
    and es: "es = \<lparr>installment_no = n, due_date = d, amount_due = ?m\<rparr> # es'"
    by (auto simp: Let_def split: sum.splits)
  note IH = Cons.IH [OF es']
  show ?case
  proof (cases ns)
    case Nil
    with IH d es show ?thesis by auto
  next
    case (Cons k ks)
    with IH d es show ?thesis by (auto simp: algebra_simps)
  qed
qed

lemma upto_facts: "1 \<le> n \<Longrightarrow> last [1..n] = n \<and> n \<notin> set (butlast [1..n]) \<and> length [1..n] = nat n"
  by (simp add: upto_rec2)

lemma echeancier_amounts:
  assumes "construire_echeancier terms depart = Inr es" "1 \<le> lt_duration terms"
  shows "map amount_due es = replicate (nat (lt_duration terms) - 1) (monthly_installment terms)
    @ [total_repayable terms - (lt_duration terms - 1) * monthly_installment terms]"
proof -
  have "[1..lt_duration terms] \<noteq> []" using assms(2) by simp
  moreover have "int (nat (lt_duration terms) - 1) = lt_duration terms - 1" using assms(2) by simp
  ultimately show ?thesis
    using echeances_from_Inr [OF assms(1) [unfolded construire_echeancier_def]] upto_facts [OF assms(2)] by simp
qed

lemma sum_list_replicate_int: "sum_list (replicate n (k :: int)) = int n * k"
  by (induction n) (simp_all add: algebra_simps)

text \<open>
  C17: a schedule has one installment per month, numbered from one, due the same day of the following
  months, and its amounts add up to exactly the total to repay, whatever the installment is.
\<close>

theorem schedule_adds_up:
  assumes "construire_echeancier terms depart = Inr es" "1 \<le> lt_duration terms"
  shows "map installment_no es = [1..lt_duration terms] \<and> sum_list (map amount_due es) = total_repayable terms
    \<and> (\<forall>e \<in> set es. ajouter_mois depart (installment_no e) = Inr (due_date e))"
proof -
  have "sum_list (map amount_due es) = total_repayable terms"
    unfolding echeancier_amounts [OF assms] using assms(2) by (simp add: sum_list_replicate_int)
  then show ?thesis
    using echeances_from_Inr [OF assms(1) [unfolded construire_echeancier_def]] by simp
qed

theorem schedule_adds_up_witness:
  "\<exists>es. construire_echeancier (stored_terms 200000 6 (13 / 2) 213001) (Date 2024 1 31) = Inr es
     \<and> sum_list (map amount_due es) = 213001 \<and> map installment_no es = [1..6]"
proof -
  let ?t = "stored_terms 200000 6 (13 / 2) 213001"
  have m: "monthly_installment ?t = 35500" by (simp add: stored_terms_installment)
  then have t: "?t = \<lparr>lt_principal = 200000, lt_duration = 6, lt_rate = 13 / 2, total_repayable = 213001,
      monthly_installment = 35500\<rparr>" by (simp add: stored_terms_def)
  have "\<not> isl (construire_echeancier ?t (Date 2024 1 31))" unfolding t by code_simp
  then obtain es where es: "construire_echeancier ?t (Date 2024 1 31) = Inr es"
    by (cases "construire_echeancier ?t (Date 2024 1 31)") auto
  have "lt_duration ?t = 6" "total_repayable ?t = 213001" by (simp_all add: stored_terms_def)
  with schedule_adds_up [OF es] es show ?thesis by auto
qed

text \<open>
  The schedule of a disbursed loan never asks for a negative amount: every installment is the
  truncated share of the total, and the last is that share plus the remainder, which is less than
  one franc per month.
\<close>

theorem disbursed_installments_bounded:
  assumes es: "construire_echeancier (stored_terms p n r t) depart = Inr es"
    and t: "0 \<le> t" "t < 10 ^ 20" and n: "1 \<le> n" "n \<le> 60"
  shows "(\<forall>e \<in> set es. t div n \<le> amount_due e \<and> amount_due e < t div n + n)
    \<and> (\<forall>e \<in> set (butlast es). amount_due e = t div n) \<and> amount_due (last es) = t div n + t mod n"
proof -
  have m: "monthly_installment (stored_terms p n r t) = t div n"
    using t n by (intro stored_terms_installment) auto
  have d: "lt_duration (stored_terms p n r t) = n" "total_repayable (stored_terms p n r t) = t"
    by (simp_all add: stored_terms_def)
  have "t - (n - 1) * (t div n) = t div n + t mod n"
    using div_mult_mod_eq [of t n] by (simp add: algebra_simps)
  with echeancier_amounts [OF es] n have a: "map amount_due es = replicate (nat n - 1) (t div n) @ [t div n + t mod n]"
    by (simp add: m d)
  have mod: "0 \<le> t mod n" "t mod n < n" using n by simp_all
  from a obtain fs l where fs: "es = fs @ [l]" "map amount_due fs = replicate (nat n - 1) (t div n)" "amount_due l = t div n + t mod n"
    by (cases es rule: rev_cases) auto
  from fs(2) have "\<forall>e \<in> set fs. amount_due e = t div n"
    by (metis in_set_replicate list.set_map image_eqI)
  with fs mod n show ?thesis by auto
qed

theorem disbursed_installments_bounded_witness:
  "\<exists>es. construire_echeancier (stored_terms 200000 6 (13 / 2) 213001) (Date 2024 1 31) = Inr es
     \<and> amount_due (last es) = 35501"
proof -
  let ?t = "stored_terms 200000 6 (13 / 2) 213001"
  have m: "monthly_installment ?t = 35500" by (simp add: stored_terms_installment)
  then have t: "?t = \<lparr>lt_principal = 200000, lt_duration = 6, lt_rate = 13 / 2, total_repayable = 213001,
      monthly_installment = 35500\<rparr>" by (simp add: stored_terms_def)
  have "\<not> isl (construire_echeancier ?t (Date 2024 1 31))" unfolding t by code_simp
  then obtain es where es: "construire_echeancier ?t (Date 2024 1 31) = Inr es"
    by (cases "construire_echeancier ?t (Date 2024 1 31)") auto
  with disbursed_installments_bounded [OF es] show ?thesis by auto
qed

subsection \<open>Due dates\<close>

lemma days_in_month_bounds: "1 \<le> m \<Longrightarrow> m \<le> 12 \<Longrightarrow> 28 \<le> days_in_month y m \<and> days_in_month y m \<le> 31"
proof -
  assume "1 \<le> m" "m \<le> 12"
  then have "m \<in> {1, 2, 3, 4, 5, 6, 7, 8, 9, 10, 11, 12}" unfolding insert_iff empty_iff by presburger
  then show ?thesis by (auto simp: days_in_month_def jours_du_mois_def nth_Cons')
qed

text \<open>
  Adding months to a valid date moves on by exactly that many months and keeps the day, or the
  last day of a shorter month; it is a valid date unless the year leaves the calendar, the only case
  that raises.
\<close>

theorem month_addition:
  assumes "valid_date d"
  shows "(case ajouter_mois d k of
      Inr e \<Rightarrow> valid_date e \<and> 12 * date_year e + date_month e = 12 * date_year d + date_month d + k
        \<and> date_day e = min (date_day d) (days_in_month (date_year e) (date_month e))
    | Inl x \<Rightarrow> x = DateOutOfRange
        \<and> (12 * date_year d + date_month d + k \<le> 12 \<or> 12 * 9999 + 12 < 12 * date_year d + date_month d + k))"
proof -
  define n where "n = date_month d - 1 + k"
  define y m where "y = date_year d + n div 12" and "m = n mod 12 + 1"
  have nm: "12 * (n div 12) + n mod 12 = n" by simp
  have m: "1 \<le> m" "m \<le> 12" by (simp_all add: m_def)
  have sum: "12 * y + m = 12 * date_year d + date_month d + k"
    using nm by (simp add: y_def m_def n_def algebra_simps)
  let ?e = "Date y m (min (date_day d) (days_in_month y m))"
  have eq: "ajouter_mois d k = (if valid_date ?e then Inr ?e else Inl DateOutOfRange)"
    by (simp add: ajouter_mois_def mk_date_def Let_def y_def m_def n_def)
  have "valid_date ?e \<longleftrightarrow> 1 \<le> y \<and> y \<le> 9999"
    using m days_in_month_bounds [OF m, of y] assms by (auto simp: valid_date_def)
  with sum m show ?thesis unfolding eq by (auto simp: valid_date_def)
qed

theorem month_addition_witness:
  "ajouter_mois (Date 2024 1 31) 1 = Inr (Date 2024 2 29) \<and> 12 * 2024 + 2 = 12 * 2024 + 1 + (1 :: int)"
proof -
  have "valid_date (Date 2024 1 31)" by (simp add: valid_date_def days_in_month_def jours_du_mois_def)
  from month_addition [OF this, of 1] show ?thesis by code_simp
qed

subsection \<open>Loan terms\<close>

text \<open>
  Terms are refused exactly for a capital that is not positive, a duration outside 1 to 60
  months or a negative rate; otherwise, for amounts and rates of the columns' size, the total is the
  capital with simple interest rounded half up, at least the capital, and the quoted installment is
  the truncated share of the total or one franc more.
\<close>

theorem loan_terms_computed:
  assumes p: "p < 10 ^ 12" and k: "taux = of_int k / 100" "k < 10 ^ 5"
  shows "(calculer_conditions p n taux = Inl InvalidLoanTerms \<longleftrightarrow> p \<le> 0 \<or> n \<notin> {1..60} \<or> taux < 0)
    \<and> (0 < p \<longrightarrow> n \<in> {1..60} \<longrightarrow> 0 \<le> taux \<longrightarrow>
        (\<exists>t. calculer_conditions p n taux = Inr t \<and> lt_principal t = p \<and> lt_duration t = n \<and> lt_rate t = taux
          \<and> total_repayable t = round_half_up (of_int p * (1 + taux / 100)) \<and> p \<le> total_repayable t
          \<and> total_repayable t div n \<le> monthly_installment t \<and> monthly_installment t \<le> total_repayable t div n + 1))"
proof -
  have good: "\<exists>t. calculer_conditions p n taux = Inr t \<and> lt_principal t = p \<and> lt_duration t = n \<and> lt_rate t = taux
      \<and> total_repayable t = round_half_up (of_int p * (1 + taux / 100)) \<and> p \<le> total_repayable t
      \<and> total_repayable t div n \<le> monthly_installment t \<and> monthly_installment t \<le> total_repayable t div n + 1"
    if h: "0 < p" "n \<in> {1..60}" "0 \<le> taux"
  proof -
    have k0: "0 \<le> k" using h(3) k(1) by (simp add: zero_le_divide_iff)
    have e1: "ctx_round (taux / 100) = taux / 100"
      by (rule ctx_round_exact [of _ k "- 4"]) (use k k0 in \<open>auto simp: power_int_minus\<close>)
    have e2: "ctx_round (1 + taux / 100) = 1 + taux / 100"
      by (rule ctx_round_exact [of _ "10000 + k" "- 4"]) (use k k0 in \<open>auto simp: power_int_minus field_simps\<close>)
    have small: "0 \<le> p * (10000 + k)" "p * (10000 + k) < 10 ^ 12 * (10000 + 10 ^ 5)"
      using h(1) k0 mult_strict_mono [OF p, of "10000 + k" "10000 + 10 ^ 5"] k(2) by simp_all
    have e3: "ctx_round (of_int p * (1 + taux / 100)) = of_int p * (1 + taux / 100)"
      by (rule ctx_round_exact [of _ "p * (10000 + k)" "- 4"]) (use k small in \<open>auto simp: power_int_minus field_simps\<close>)
    define x where "x = of_int p * (1 + taux / 100)"
    define t where "t = round_half_up x"
    have x: "of_int p \<le> x" "x < 10 ^ 18"
    proof -
      show "of_int p \<le> x" using h by (simp add: x_def field_simps)
      have "x * 10000 = of_int (p * (10000 + k))" by (simp add: x_def k(1) field_simps)
      also have "(of_int (p * (10000 + k)) :: rat) < of_int (10 ^ 12 * (10000 + 10 ^ 5))"
        using small(2) by (simp only: of_int_less_iff)
      finally show "x < 10 ^ 18" by simp
    qed
    have t: "p \<le> t" "t < 10 ^ 20"
    proof -
      show "p \<le> t" unfolding t_def using x(1) h(1) by (intro round_half_up_ge) auto
      have "\<bar>of_int t - x\<bar> \<le> 1 / 2" unfolding t_def by (rule round_half_up_error)
      then have "of_int t - x \<le> 1 / 2" by (rule abs_le_D1)
      then have "of_int t < (of_int (10 ^ 20) :: rat)" 
      proof -
        have "(10 ^ 18 :: rat) + 1 / 2 < 10 ^ 20" by simp
        with \<open>of_int t - x \<le> 1 / 2\<close> x(2) show ?thesis unfolding of_int_power of_int_numeral by linarith
      qed
      then show "t < 10 ^ 20" by (simp only: of_int_less_iff)
    qed
    define y where "y = ctx_round (of_int t / of_int n)"
    have fl: "\<lfloor>y\<rfloor> = t div n" unfolding y_def using t h by (intro floor_ctx_div) auto
    have q: "0 \<le> t div n" using t h by (simp add: pos_imp_zdiv_nonneg_iff)
    then have y0: "0 \<le> y" using fl by linarith
    have m: "t div n \<le> round_half_up y" "round_half_up y \<le> t div n + 1"
      using fl y0 by (simp_all add: round_half_up_def) linarith+
    have tn: "t div n \<le> t" using t h zdiv_mono2 [of t 1 n] by simp
    have qx: "quantize_unit x = Some t" using t h(1) by (simp add: quantize_unit_def t_def)
    have qy: "quantize_unit y = Some (round_half_up y)" using m q t tn by (simp add: quantize_unit_def)
    have e3x: "ctx_round x = x" unfolding x_def by (rule e3)
    have "calculer_conditions p n taux = Inr \<lparr>lt_principal = p, lt_duration = n, lt_rate = taux,
        total_repayable = t, monthly_installment = round_half_up y\<rparr>"
      unfolding calculer_conditions_def e1 e2 x_def [symmetric] e3x qx option.case y_def [symmetric] qy
      using h by (simp add: MAX_DURATION_MONTHS_def)
    with m t(1) show ?thesis unfolding x_def [symmetric] t_def [symmetric] by simp
  qed
  have bad: "p \<le> 0 \<or> n \<notin> {1..60} \<or> taux < 0 \<Longrightarrow> calculer_conditions p n taux = Inl InvalidLoanTerms"
    by (auto simp: calculer_conditions_def MAX_DURATION_MONTHS_def)
  show ?thesis using good bad by (metis Inl_Inr_False not_le)
qed

theorem loan_terms_computed_witness:
  "\<exists>t. calculer_conditions 200000 6 (of_int 650 / 100) = Inr t \<and> total_repayable t = 213000 \<and> 200000 \<le> total_repayable t"
proof -
  have "round_half_up (of_int 200000 * (1 + of_int 650 / 100 / 100)) = 213000" by code_simp
  with loan_terms_computed [OF _ refl, of 200000 650 6] show ?thesis by auto
qed

end
