(* ===== verification/Fund.thy ===== *)
theory Fund
  imports WalletReach Loan
begin

section \<open>Crowdfunding: campaigns, investments and loans\<close>

text \<open>
  The module \<^verbatim>\<open>fund\<close>: its tables (\<^verbatim>\<open>fund/infra/models.py\<close>), repositories
  (\<^verbatim>\<open>fund/infra/repositories.py\<close>) and use cases (\<^verbatim>\<open>fund/application/use_cases.py\<close>). The wallet
  is reached only through the operations of \<^verbatim>\<open>WalletServicePort\<close>, the record \<open>wallet_port\<close>; the
  session is shared, so the database state of the module carries the wallet's state as a part.
\<close>

subsection \<open>Tables\<close>

datatype campaign_status = Campaign_draft | Campaign_active | Campaign_closed | Campaign_cancelled

datatype loan_status = Loan_pending | Loan_disbursed | Loan_repaying | Loan_closed | Loan_defaulted

datatype installment_status = Inst_due | Inst_paid | Inst_late | Inst_defaulted

record campaign =
  cmp_id :: uuid
  cmp_owner :: uuid
  cmp_title :: string
  cmp_goal :: int
  cmp_raised :: int
  cmp_currency :: string
  cmp_status :: campaign_status
  cmp_account :: uuid
  cmp_created :: instant

record investment =
  inv_id :: uuid
  inv_campaign :: uuid
  inv_investor :: uuid
  inv_amount :: int
  inv_transaction :: "uuid option"
  inv_intent :: "uuid option"
  inv_created :: instant

record loan =
  ln_id :: uuid
  ln_campaign :: uuid
  ln_borrower :: uuid
  ln_principal :: int
  ln_duration :: int
  ln_rate :: rat
  ln_total :: int
  ln_currency :: string
  ln_score :: "int option"
  ln_status :: loan_status
  ln_disbursed :: "instant option"
  ln_transaction :: "uuid option"
  ln_created :: instant

record repayment_row =
  rp_loan :: uuid
  rp_no :: int
  rp_due_date :: date
  rp_due :: int
  rp_paid :: int
  rp_status :: installment_status
  rp_paid_at :: "instant option"

record loan_history_row =
  lh_loan :: uuid
  lh_from :: "loan_status option"
  lh_to :: loan_status
  lh_transaction :: "uuid option"

record payment_order =
  po_id :: uuid
  po_operation :: string
  po_reference :: string
  po_payer :: uuid
  po_campaign :: "uuid option"
  po_intent :: uuid
  po_key :: string
  po_amount :: int
  po_currency :: string
  po_status :: string
  po_completed :: "instant option"

record ('w, 'p) fund_db =
  wallet_part :: 'w
  payments_part :: 'p
  campaigns :: "campaign list"
  investments :: "investment list"
  loans :: "loan list"
  schedules :: "repayment_row list"
  loan_history :: "loan_history_row list"
  payment_orders :: "payment_order list"
  event_inbox :: "uuid list"
  fund_next :: uuid
  fund_clock :: instant

subsection \<open>Exceptions\<close>

datatype fexc = CampaignNotFound | CampaignNotActive | CampaignGoalAlreadyReached | CannotInvestInOwnCampaign
  | LoanNotFound | InvalidLoanTermsError | NotCampaignOwner | InstallmentAlreadyPaid
  | RepaymentExceedsInstallment | LoanNotDisbursed | LoanAlreadyDisbursed
  | Wallet_exc wexc | Payment_exc string | Fund_integrity | Fund_data | Fund_value string | Fund_lookup string
  | Fund_runtime | Loan_exc loan_error

fun fund_status_code :: "fexc \<Rightarrow> nat" where
  "fund_status_code CampaignNotFound = 404"
| "fund_status_code CampaignNotActive = 409"
| "fund_status_code CampaignGoalAlreadyReached = 409"
| "fund_status_code CannotInvestInOwnCampaign = 422"
| "fund_status_code LoanNotFound = 404"
| "fund_status_code InvalidLoanTermsError = 422"
| "fund_status_code NotCampaignOwner = 403"
| "fund_status_code InstallmentAlreadyPaid = 409"
| "fund_status_code RepaymentExceedsInstallment = 422"
| "fund_status_code LoanNotDisbursed = 409"
| "fund_status_code LoanAlreadyDisbursed = 409"
| "fund_status_code (Wallet_exc e) = status_code e"
| "fund_status_code _ = 500"

type_synonym ('w, 'p, 'a) fop = "(('w, 'p) fund_db, fexc, 'a) op"

subsection \<open>The wallet, seen from the module\<close>

record 'w wallet_port =
  port_verifier_pin :: "uuid \<Rightarrow> string \<Rightarrow> ('w, wexc, unit) op"
  port_debiter :: "uuid \<Rightarrow> uuid \<Rightarrow> int \<Rightarrow> string \<Rightarrow> string \<Rightarrow> string \<Rightarrow> string option \<Rightarrow> ('w, wexc, uuid) op"
  port_crediter :: "uuid \<Rightarrow> uuid \<Rightarrow> int \<Rightarrow> string \<Rightarrow> string \<Rightarrow> string \<Rightarrow> string option \<Rightarrow> ('w, wexc, uuid) op"
  port_ouvrir_compte_technique :: "string \<Rightarrow> ('w, wexc, uuid) op"
  port_solde :: "uuid \<Rightarrow> ('w, wexc, int) op"
  port_compte_de_utilisateur :: "uuid \<Rightarrow> ('w, wexc, uuid) op"

definition wallet_service :: "pin_lib \<Rightarrow> wallet_db wallet_port" where
  "wallet_service L = \<lparr>port_verifier_pin = verifier_pin_utilisateur L, port_debiter = debiter,
     port_crediter = crediter, port_ouvrir_compte_technique = ouvrir_compte_technique, port_solde = solde,
     port_compte_de_utilisateur = compte_de_utilisateur\<rparr>"

definition in_wallet :: "('w, wexc, 'a) op \<Rightarrow> ('w, 'p, 'a) fop" where
  "in_wallet = on_part wallet_part (\<lambda>w s. s\<lparr>wallet_part := w\<rparr>) Wallet_exc"

subsection \<open>Repositories\<close>

definition fund_fresh :: "('w, 'p, uuid) fop" where
  "fund_fresh = bindE (readE fund_next) (\<lambda>i. thenE (modE (\<lambda>s. s\<lparr>fund_next := Suc i\<rparr>)) (retE i))"

definition campaign_get :: "('w, 'p) fund_db \<Rightarrow> uuid \<Rightarrow> campaign option" where
  "campaign_get s i = lookup_row cmp_id i (campaigns s)"

definition update_campaign :: "uuid \<Rightarrow> (campaign \<Rightarrow> campaign) \<Rightarrow> ('w, 'p, unit) fop" where
  "update_campaign i f = modE (\<lambda>s. s\<lparr>campaigns := update_row cmp_id i f (campaigns s)\<rparr>)"

definition campaign_create :: "uuid \<Rightarrow> string \<Rightarrow> int \<Rightarrow> string \<Rightarrow> uuid \<Rightarrow> campaign_status \<Rightarrow> ('w, 'p, campaign) fop" where
  "campaign_create owner title goal cur account st =
     bindE fund_fresh (\<lambda>i.
     bindE (readE fund_clock) (\<lambda>t.
     thenE (ensure (numeric_14_2 goal) Fund_data)
     (thenE (ensure (0 < goal) Fund_integrity)
     (let row = \<lparr>cmp_id = i, cmp_owner = owner, cmp_title = title, cmp_goal = goal, cmp_raised = 0,
            cmp_currency = cur, cmp_status = st, cmp_account = account, cmp_created = t\<rparr>
      in thenE (modE (\<lambda>s. s\<lparr>campaigns := campaigns s @ [row]\<rparr>)) (retE row)))))"

definition list_by_status :: "('w, 'p) fund_db \<Rightarrow> campaign_status option \<Rightarrow> nat \<Rightarrow> nat \<Rightarrow> campaign list \<times> nat" where
  "list_by_status s st page page_size =
     (let q = filter (\<lambda>c. case st of None \<Rightarrow> True | Some x \<Rightarrow> cmp_status c = x) (campaigns s)
      in (take page_size (drop ((page - 1) * page_size) (sort_key (\<lambda>c. - cmp_created c) q)), length q))"

definition investment_create :: "uuid \<Rightarrow> uuid \<Rightarrow> int \<Rightarrow> uuid option \<Rightarrow> uuid option \<Rightarrow> ('w, 'p, investment) fop" where
  "investment_create campaign investor amnt tx intent =
     bindE fund_fresh (\<lambda>i.
     bindE (readE (\<lambda>s. (campaign_get s campaign, investments s, fund_clock s))) (\<lambda>(c, rows, t).
     thenE (ensure (numeric_14_2 amnt) Fund_data)
     (thenE (ensure (0 < amnt \<and> c \<noteq> None \<and> (intent = None \<or> intent \<notin> inv_intent ` set rows)) Fund_integrity)
     (let row = \<lparr>inv_id = i, inv_campaign = campaign, inv_investor = investor, inv_amount = amnt,
            inv_transaction = tx, inv_intent = intent, inv_created = t\<rparr>
      in thenE (modE (\<lambda>s. s\<lparr>investments := investments s @ [row]\<rparr>)) (retE row)))))"

definition by_wallet_transaction :: "('w, 'p) fund_db \<Rightarrow> uuid \<Rightarrow> investment option" where
  "by_wallet_transaction s i = lookup_row inv_transaction (Some i) (investments s)"

definition latest_for_campaign :: "('w, 'p) fund_db \<Rightarrow> uuid \<Rightarrow> nat \<Rightarrow> investment list" where
  "latest_for_campaign s i max_rows =
     take max_rows (sort_key (\<lambda>v. - inv_created v) (filter (\<lambda>v. inv_campaign v = i) (investments s)))"

definition loan_get :: "('w, 'p) fund_db \<Rightarrow> uuid \<Rightarrow> loan option" where
  "loan_get s i = lookup_row ln_id i (loans s)"

definition update_loan :: "uuid \<Rightarrow> (loan \<Rightarrow> loan) \<Rightarrow> ('w, 'p, unit) fop" where
  "update_loan i f = modE (\<lambda>s. s\<lparr>loans := update_row ln_id i f (loans s)\<rparr>)"

definition tracer_statut :: "uuid \<Rightarrow> loan_status option \<Rightarrow> loan_status \<Rightarrow> uuid option \<Rightarrow> ('w, 'p, unit) fop" where
  "tracer_statut i old new tx = modE (\<lambda>s. s\<lparr>loan_history := loan_history s @
     [\<lparr>lh_loan = i, lh_from = old, lh_to = new, lh_transaction = tx\<rparr>]\<rparr>)"

definition changer_statut :: "uuid \<Rightarrow> loan_status \<Rightarrow> uuid option \<Rightarrow> ('w, 'p, unit) fop" where
  "changer_statut i to_status tx =
     bindE (readE (\<lambda>s. loan_get s i)) (\<lambda>found.
     bindE (some_or LoanNotFound found) (\<lambda>l.
     if ln_status l = to_status then retE ()
     else thenE (update_loan i (\<lambda>r. r\<lparr>ln_status := to_status\<rparr>)) (tracer_statut i (Some (ln_status l)) to_status tx)))"

definition loan_create :: "uuid \<Rightarrow> uuid \<Rightarrow> loan_terms \<Rightarrow> string \<Rightarrow> int option \<Rightarrow> ('w, 'p, loan) fop" where
  "loan_create campaign borrower terms cur score =
     bindE fund_fresh (\<lambda>i.
     bindE (readE (\<lambda>s. (campaign_get s campaign, fund_clock s))) (\<lambda>(c, t).
     thenE (ensure (numeric_14_2 (lt_principal terms) \<and> numeric_14_2 (total_repayable terms)) Fund_data)
     (thenE (ensure (0 < lt_principal terms \<and> 0 < lt_duration terms \<and> lt_duration terms \<le> 60 \<and> c \<noteq> None) Fund_integrity)
     (let row = \<lparr>ln_id = i, ln_campaign = campaign, ln_borrower = borrower, ln_principal = lt_principal terms,
            ln_duration = lt_duration terms, ln_rate = lt_rate terms, ln_total = total_repayable terms,
            ln_currency = cur, ln_score = score, ln_status = Loan_pending, ln_disbursed = None,
            ln_transaction = None, ln_created = t\<rparr>
      in thenE (modE (\<lambda>s. s\<lparr>loans := loans s @ [row]\<rparr>)) (thenE (tracer_statut i None Loan_pending None) (retE row))))))"

definition list_by_borrower :: "('w, 'p) fund_db \<Rightarrow> uuid \<Rightarrow> loan_status option \<Rightarrow> nat \<Rightarrow> nat \<Rightarrow> loan list \<times> nat" where
  "list_by_borrower s u st page page_size =
     (let q = filter (\<lambda>l. ln_borrower l = u \<and> (case st of None \<Rightarrow> True | Some x \<Rightarrow> ln_status l = x)) (loans s)
      in (take page_size (drop ((page - 1) * page_size) (sort_key (\<lambda>l. - ln_created l) q)), length q))"

definition schedule_row :: "uuid \<Rightarrow> installment \<Rightarrow> repayment_row" where
  "schedule_row i e = \<lparr>rp_loan = i, rp_no = installment_no e, rp_due_date = due_date e, rp_due = amount_due e,
     rp_paid = 0, rp_status = Inst_due, rp_paid_at = None\<rparr>"

definition ajouter_echeances :: "uuid \<Rightarrow> installment list \<Rightarrow> ('w, 'p, unit) fop" where
  "ajouter_echeances i es = forE es (\<lambda>e.
     bindE (readE schedules) (\<lambda>rows.
     thenE (ensure (numeric_14_2 (amount_due e)) Fund_data)
     (thenE (ensure (0 < amount_due e \<and> (\<forall>r \<in> set rows. \<not> (rp_loan r = i \<and> rp_no r = installment_no e))) Fund_integrity)
       (modE (\<lambda>s. s\<lparr>schedules := schedules s @ [schedule_row i e]\<rparr>)))))"

definition echeancier_rows :: "('w, 'p) fund_db \<Rightarrow> uuid \<Rightarrow> repayment_row list" where
  "echeancier_rows s i = sort_key rp_no (filter (\<lambda>r. rp_loan r = i) (schedules s))"

definition prochaine_echeance :: "('w, 'p) fund_db \<Rightarrow> uuid \<Rightarrow> repayment_row option" where
  "prochaine_echeance s i = (case sort_key rp_no (filter (\<lambda>r. rp_loan r = i \<and> rp_status r \<noteq> Inst_paid) (schedules s)) of
     [] \<Rightarrow> None | r # _ \<Rightarrow> Some r)"

definition update_echeance :: "uuid \<Rightarrow> int \<Rightarrow> (repayment_row \<Rightarrow> repayment_row) \<Rightarrow> ('w, 'p, unit) fop" where
  "update_echeance i n f = modE (\<lambda>s. s\<lparr>schedules := update_row (\<lambda>r. (rp_loan r, rp_no r)) (i, n) f (schedules s)\<rparr>)"

subsection \<open>Campaigns and investments\<close>

definition INVESTMENT_TX_TYPE :: string where
  "INVESTMENT_TX_TYPE = ''fund_disbursement''"

definition ORIGIN_MODULE :: string where
  "ORIGIN_MODULE = ''fund''"

definition creer_campagne :: "'w wallet_port \<Rightarrow> uuid \<Rightarrow> string \<Rightarrow> int \<Rightarrow> string \<Rightarrow> ('w, 'p, campaign) fop" where
  "creer_campagne W owner title goal cur =
     bindE (in_wallet (port_ouvrir_compte_technique W (''fund:campaign:'' @ take 40 title))) (\<lambda>account.
     campaign_create owner title goal cur account Campaign_draft)"

definition detail_campagne :: "uuid \<Rightarrow> ('w, 'p, campaign \<times> investment list) fop" where
  "detail_campagne i =
     bindE (readE (\<lambda>s. campaign_get s i)) (\<lambda>found.
     bindE (some_or CampaignNotFound found) (\<lambda>c.
     readE (\<lambda>s. (c, latest_for_campaign s i 10))))"

definition investir :: "'w wallet_port \<Rightarrow> uuid \<Rightarrow> uuid \<Rightarrow> int \<Rightarrow> string \<Rightarrow> string \<Rightarrow> ('w, 'p, investment \<times> uuid) fop" where
  "investir W campaign_id investor amnt pin key =
     thenE (in_wallet (port_verifier_pin W investor pin))
     (bindE (readE (\<lambda>s. campaign_get s campaign_id)) (\<lambda>found.
      bindE (some_or CampaignNotFound found) (\<lambda>c.
     thenE (ensure (cmp_status c = Campaign_active) CampaignNotActive)
     (thenE (ensure (cmp_owner c \<noteq> investor) CannotInvestInOwnCampaign)
     (thenE (ensure (cmp_raised c < cmp_goal c) CampaignGoalAlreadyReached)
     (bindE (in_wallet (port_compte_de_utilisateur W investor)) (\<lambda>account.
      bindE (in_wallet (port_debiter W account (cmp_account c) amnt (''fund:investment:'' @ uuid_str campaign_id)
               key INVESTMENT_TX_TYPE (Some ORIGIN_MODULE))) (\<lambda>tx.
      bindE (readE (\<lambda>s. by_wallet_transaction s tx)) (\<lambda>already.
      case already of Some v \<Rightarrow> retE (v, tx)
      | None \<Rightarrow>
        bindE (investment_create campaign_id investor amnt (Some tx) None) (\<lambda>v.
        thenE (ensure (numeric_14_2 (cmp_raised c + amnt)) Fund_data)
        (thenE (update_campaign campaign_id (\<lambda>r. r\<lparr>cmp_raised := cmp_raised r + amnt\<rparr>))
          (retE (v, tx)))))))))))))"

subsection \<open>Loans\<close>

record scoring_port =
  taux_pour :: "uuid \<Rightarrow> rat"
  score_de :: "uuid \<Rightarrow> int option"

text \<open>\<^verbatim>\<open>TauxFixeScoring\<close>, the implementation in use: one rate for everybody, no score.\<close>

definition taux_fixe_scoring :: "rat \<Rightarrow> scoring_port" where
  "taux_fixe_scoring r = \<lparr>taux_pour = (\<lambda>u. r), score_de = (\<lambda>u. None)\<rparr>"

definition simuler :: "scoring_port \<Rightarrow> uuid \<Rightarrow> int \<Rightarrow> int \<Rightarrow> ('w, 'p, loan_terms) fop" where
  "simuler S u amnt duration = of_sum (map_sum (\<lambda>e. if e = InvalidLoanTerms then InvalidLoanTermsError else Loan_exc e) id
     (calculer_conditions amnt duration (taux_pour S u)))"

definition demander :: "scoring_port \<Rightarrow> uuid \<Rightarrow> uuid \<Rightarrow> int \<Rightarrow> int \<Rightarrow> ('w, 'p, loan) fop" where
  "demander S campaign_id borrower amnt duration =
     bindE (readE (\<lambda>s. campaign_get s campaign_id)) (\<lambda>found.
     bindE (some_or CampaignNotFound found) (\<lambda>c.
     thenE (ensure (cmp_owner c = borrower) NotCampaignOwner)
     (bindE (simuler S borrower amnt duration) (\<lambda>terms.
      loan_create campaign_id borrower terms (cmp_currency c) (score_de S borrower)))))"

definition decaisser :: "'w wallet_port \<Rightarrow> uuid \<Rightarrow> date \<Rightarrow> ('w, 'p, loan) fop" where
  "decaisser W loan_id depart =
     bindE (readE (\<lambda>s. loan_get s loan_id)) (\<lambda>found.
     bindE (some_or LoanNotFound found) (\<lambda>l.
     thenE (ensure (ln_status l = Loan_pending) LoanAlreadyDisbursed)
     (bindE (readE (\<lambda>s. campaign_get s (ln_campaign l))) (\<lambda>foundc.
      bindE (some_or CampaignNotFound foundc) (\<lambda>c.
      bindE (in_wallet (port_compte_de_utilisateur W (ln_borrower l))) (\<lambda>account.
      bindE (in_wallet (port_crediter W account (cmp_account c) (ln_principal l)
               (''fund:loan:disbursement:'' @ uuid_str (ln_id l)) (''fund:loan:disbursement:'' @ uuid_str (ln_id l))
               ''fund_disbursement'' (Some ORIGIN_MODULE))) (\<lambda>tx.
      bindE (of_sum (map_sum Loan_exc id
               (construire_echeancier (stored_terms (ln_principal l) (ln_duration l) (ln_rate l) (ln_total l)) depart))) (\<lambda>es.
      thenE (ajouter_echeances loan_id es)
      (bindE (readE fund_clock) (\<lambda>t.
       thenE (update_loan loan_id (\<lambda>r. r\<lparr>ln_disbursed := Some t, ln_transaction := Some tx\<rparr>))
       (thenE (changer_statut loan_id Loan_disbursed (Some tx))
       (bindE (readE (\<lambda>s. loan_get s loan_id)) (\<lambda>l'. some_or LoanNotFound l')))))))))))))"

definition detail_pret :: "uuid \<Rightarrow> uuid \<Rightarrow> ('w, 'p, loan \<times> repayment_row option) fop" where
  "detail_pret loan_id u =
     bindE (readE (\<lambda>s. loan_get s loan_id)) (\<lambda>found.
     bindE (some_or LoanNotFound found) (\<lambda>l.
     thenE (ensure (ln_borrower l = u) LoanNotFound)
     (readE (\<lambda>s. (l, find (\<lambda>r. rp_status r \<noteq> Inst_paid) (echeancier_rows s loan_id))))))"

definition echeancier_pret :: "uuid \<Rightarrow> uuid \<Rightarrow> ('w, 'p, repayment_row list) fop" where
  "echeancier_pret loan_id u =
     bindE (readE (\<lambda>s. loan_get s loan_id)) (\<lambda>found.
     bindE (some_or LoanNotFound found) (\<lambda>l.
     thenE (ensure (ln_borrower l = u) LoanNotFound)
     (readE (\<lambda>s. echeancier_rows s loan_id))))"

definition rembourser :: "'w wallet_port \<Rightarrow> uuid \<Rightarrow> uuid \<Rightarrow> int \<Rightarrow> string \<Rightarrow> string \<Rightarrow> ('w, 'p, unit) fop" where
  "rembourser W loan_id borrower amnt pin key =
     thenE (in_wallet (port_verifier_pin W borrower pin))
     (bindE (readE (\<lambda>s. loan_get s loan_id)) (\<lambda>found.
      bindE (some_or LoanNotFound found) (\<lambda>l.
     thenE (ensure (ln_borrower l = borrower) LoanNotFound)
     (thenE (ensure (ln_status l \<noteq> Loan_pending) LoanNotDisbursed)
     (bindE (readE (\<lambda>s. prochaine_echeance s loan_id)) (\<lambda>next_due.
      bindE (some_or InstallmentAlreadyPaid next_due) (\<lambda>e.
     thenE (ensure (\<not> rp_due e - rp_paid e < amnt) RepaymentExceedsInstallment)
     (bindE (readE (\<lambda>s. campaign_get s (ln_campaign l))) (\<lambda>foundc.
      bindE (some_or CampaignNotFound foundc) (\<lambda>c.
      bindE (in_wallet (port_compte_de_utilisateur W borrower)) (\<lambda>account.
      bindE (in_wallet (port_debiter W account (cmp_account c) amnt (''fund:loan:repayment:'' @ uuid_str (ln_id l))
               key ''fund_repayment'' (Some ORIGIN_MODULE))) (\<lambda>tx.
     thenE (update_loan loan_id (\<lambda>r. r\<lparr>ln_transaction := Some tx\<rparr>))
     (bindE (readE fund_clock) (\<lambda>t.
     thenE (update_echeance loan_id (rp_no e) (\<lambda>r.
        let paid = rp_paid e + amnt
        in if rp_due e \<le> paid then r\<lparr>rp_paid := paid, rp_status := Inst_paid, rp_paid_at := Some t\<rparr>
           else r\<lparr>rp_paid := paid\<rparr>))
     (thenE (whenE (ln_status l = Loan_disbursed) (changer_statut loan_id Loan_repaying None))
     (bindE (readE (\<lambda>s. prochaine_echeance s loan_id)) (\<lambda>rest.
      whenE (rest = None) (changer_statut loan_id Loan_closed None))))))))))))))))))"

end
