(* ===== verification/WalletContract.thy ===== *)
theory WalletContract
  imports WalletSafety Fund
begin

section \<open>What the crowdfunding module may assume of the wallet\<close>

text \<open>
  The locale \<open>wallet_contract\<close> states the promises that the documentation of \<^verbatim>\<open>WalletServicePort\<close>
  makes to its clients, over an abstract wallet: what every account holds, and which transaction
  an idempotency key belongs to. The service of the wallet module fulfils it.
\<close>

definition moved :: "uuid \<Rightarrow> uuid \<Rightarrow> int \<Rightarrow> (uuid \<Rightarrow> int) \<Rightarrow> uuid \<Rightarrow> int" where
  "moved src dst a h i = h i - (if i = src then a else 0) + (if i = dst then a else 0)"

definition paid_under :: "(uuid \<Rightarrow> int) \<Rightarrow> uuid option \<Rightarrow> uuid \<Rightarrow> uuid \<Rightarrow> int \<Rightarrow> uuid \<Rightarrow> (uuid \<Rightarrow> int) \<Rightarrow> bool" where
  "paid_under h owner src dst a tx h' \<longleftrightarrow> 0 \<le> a \<and> (case owner of
     Some i \<Rightarrow> tx = i \<and> h' = h
   | None \<Rightarrow> 0 < a \<and> h' = moved src dst a h)"

locale wallet_contract =
  fixes W :: "'w wallet_port" and wok :: "'w \<Rightarrow> bool" and holdings :: "'w \<Rightarrow> uuid \<Rightarrow> int"
    and key_owner :: "'w \<Rightarrow> string \<Rightarrow> uuid option"
  assumes pin_law: "wok w \<Longrightarrow> port_verifier_pin W u p w = (Inr x, w') \<Longrightarrow>
      wok w' \<and> holdings w' = holdings w \<and> key_owner w' = key_owner w"
    and account_law: "wok w \<Longrightarrow> port_compte_de_utilisateur W u w = (Inr c, w') \<Longrightarrow>
      wok w' \<and> holdings w' = holdings w \<and> key_owner w' = key_owner w"
    and open_law: "wok w \<Longrightarrow> port_ouvrir_compte_technique W ref w = (Inr c, w') \<Longrightarrow>
      wok w' \<and> holdings w' = holdings w \<and> key_owner w' = key_owner w"
    and debit_law: "wok w \<Longrightarrow> port_debiter W c d a ref key ty org w = (Inr tx, w') \<Longrightarrow>
      wok w' \<and> paid_under (holdings w) (key_owner w key) c d a tx (holdings w') \<and> key_owner w' key = Some tx
      \<and> (\<forall>k. k \<noteq> key \<longrightarrow> key_owner w' k = key_owner w k)"
    and credit_law: "wok w \<Longrightarrow> port_crediter W c d a ref key ty org w = (Inr tx, w') \<Longrightarrow>
      wok w' \<and> paid_under (holdings w) (key_owner w key) d c a tx (holdings w') \<and> key_owner w' key = Some tx
      \<and> (\<forall>k. k \<noteq> key \<longrightarrow> key_owner w' k = key_owner w k)"
begin

text \<open>A call to the port from the client's state changes the wallet's part only.\<close>

lemma pin_call:
  "wok (wallet_part s) \<Longrightarrow> in_wallet (port_verifier_pin W u p) s = (Inr x, t) \<Longrightarrow>
   \<exists>w. t = s\<lparr>wallet_part := w\<rparr> \<and> wok w \<and> holdings w = holdings (wallet_part s) \<and> key_owner w = key_owner (wallet_part s)"
  unfolding in_wallet_def on_part_Inr using pin_law by blast

lemma account_call:
  "wok (wallet_part s) \<Longrightarrow> in_wallet (port_compte_de_utilisateur W u) s = (Inr c, t) \<Longrightarrow>
   \<exists>w. t = s\<lparr>wallet_part := w\<rparr> \<and> wok w \<and> holdings w = holdings (wallet_part s) \<and> key_owner w = key_owner (wallet_part s)"
  unfolding in_wallet_def on_part_Inr using account_law by blast

lemma open_call:
  "wok (wallet_part s) \<Longrightarrow> in_wallet (port_ouvrir_compte_technique W ref) s = (Inr c, t) \<Longrightarrow>
   \<exists>w. t = s\<lparr>wallet_part := w\<rparr> \<and> wok w \<and> holdings w = holdings (wallet_part s) \<and> key_owner w = key_owner (wallet_part s)"
  unfolding in_wallet_def on_part_Inr using open_law by blast

lemma debit_call:
  "wok (wallet_part s) \<Longrightarrow> in_wallet (port_debiter W c d a ref key ty org) s = (Inr tx, t) \<Longrightarrow>
   \<exists>w. t = s\<lparr>wallet_part := w\<rparr> \<and> wok w \<and> key_owner w key = Some tx
     \<and> paid_under (holdings (wallet_part s)) (key_owner (wallet_part s) key) c d a tx (holdings w)"
  unfolding in_wallet_def on_part_Inr using debit_law by blast

lemma credit_call:
  "wok (wallet_part s) \<Longrightarrow> in_wallet (port_crediter W c d a ref key ty org) s = (Inr tx, t) \<Longrightarrow>
   \<exists>w. t = s\<lparr>wallet_part := w\<rparr> \<and> wok w \<and> key_owner w key = Some tx
     \<and> paid_under (holdings (wallet_part s)) (key_owner (wallet_part s) key) d c a tx (holdings w)"
  unfolding in_wallet_def on_part_Inr using credit_law by blast

end

subsection \<open>The wallet service fulfils the contract\<close>

definition key_owner_of :: "wallet_db \<Rightarrow> string \<Rightarrow> uuid option" where
  "key_owner_of w k = map_option tx_id (get_by_idempotency_key w k)"

lemma key_owner_update:
  "key_owner_of (w\<lparr>transactions := update_row tx_id i (\<lambda>r. r\<lparr>tx_amount := a, tx_currency := c\<rparr>) (transactions w)\<rparr>) = key_owner_of w"
proof (rule ext)
  fix k
  show "key_owner_of (w\<lparr>transactions := update_row tx_id i (\<lambda>r. r\<lparr>tx_amount := a, tx_currency := c\<rparr>) (transactions w)\<rparr>) k = key_owner_of w k"
    by (cases "lookup_row tx_key (Some k) (transactions w)")
      (simp_all add: key_owner_of_def get_by_idempotency_key_def lookup_update_row_other)
qed

lemma key_owner_posted:
  "get_by_idempotency_key w key = None \<Longrightarrow>
   key_owner_of (posted w (post_row w ty key org st) ls) k = (if k = key then Some (next_uuid w) else key_owner_of w k)"
  by (auto simp: key_owner_of_def get_by_idempotency_key_def posted_def post_row_def transaction_row_def lookup_row_append
      split: option.splits)

lemma service_payment:
  assumes inv: "wallet_inv w" and m: "mk_money a XOF = Inr m"
    and tr: "transfer src dst m ty ref key org Tx_COMPLETED w = (Inr (r, replayed), v)"
    and v': "w' = v\<lparr>transactions := update_row tx_id (tx_id r) (\<lambda>q. q\<lparr>tx_amount := x, tx_currency := y\<rparr>) (transactions v)\<rparr>"
  shows "paid_under (account_total w) (key_owner_of w key) src dst a (tx_id r) (account_total w')
    \<and> key_owner_of w' key = Some (tx_id r) \<and> (\<forall>k. k \<noteq> key \<longrightarrow> key_owner_of w' k = key_owner_of w k)"
proof -
  have a: "amount m = a" "0 \<le> a" using m by (auto simp: mk_money_Inr_iff valid_money_def)
  have own: "key_owner_of w' = key_owner_of v" unfolding v' by (rule key_owner_update)
  have same: "account_total w' = account_total v" by (simp add: v')
  show ?thesis
  proof (cases "get_by_idempotency_key w key")
    case (Some q)
    with tr transfer_replay [OF Some, of src dst m ty ref org Tx_COMPLETED] have "r = q" "v = w" by auto
    with Some a show ?thesis by (simp add: own same paid_under_def) (simp add: key_owner_of_def)
  next
    case None
    from tr None obtain r': "r = post_row w ty key org Tx_COMPLETED" "v = posted w r (transfer_lines src dst m ref)" "0 < amount m"
      by (rule transfer_fresh)
    have "account_total v i = moved src dst a (account_total w) i" for i
      unfolding r'(2) by (subst account_total_posted) (auto simp: r'(1) transfer_lines_def line_signed_def moved_def a)
    with same have "account_total w' = moved src dst a (account_total w)" by (simp add: fun_eq_iff)
    then show ?thesis using None r' a by (simp add: own paid_under_def key_owner_posted) (simp add: key_owner_of_def fun_eq_iff)
  qed
qed

interpretation ws: wallet_contract "wallet_service L" wallet_inv account_total key_owner_of
proof unfold_locales
  fix w w' u p x
  assume inv: "wallet_inv w" and run: "port_verifier_pin (wallet_service L) u p w = (Inr x, w')"
  then obtain a v where c: "compte_de u w = (Inr a, v)" and p: "verify_pin L (acc_id a) p v = (Inr x, w')"
    by (auto simp: wallet_service_def verifier_pin_utilisateur_def)
  with compte_de_run [OF c] verify_pin_run [OF p] have "same_ledger w w'" by (blast intro: same_ledger_trans)
  with keepsD [OF keeps_verifier_pin_utilisateur inv, of L u p x w'] run
  show "wallet_inv w' \<and> account_total w' = account_total w \<and> key_owner_of w' = key_owner_of w"
    by (auto simp: wallet_service_def key_owner_of_def fun_eq_iff dest: same_ledgerD)
next
  fix w w' u c
  assume inv: "wallet_inv w" and run: "port_compte_de_utilisateur (wallet_service L) u w = (Inr c, w')"
  then have run': "compte_de_utilisateur u w = (Inr c, w')" by (simp add: wallet_service_def)
  then have "same_ledger w w'"
    by (auto simp: compte_de_utilisateur_def account_create_Inr same_ledger_def split: option.splits)
  with keepsD [OF keeps_services(4) inv run']
  show "wallet_inv w' \<and> account_total w' = account_total w \<and> key_owner_of w' = key_owner_of w"
    by (auto simp: key_owner_of_def fun_eq_iff dest: same_ledgerD)
next
  fix w w' ref c
  assume inv: "wallet_inv w" and run: "port_ouvrir_compte_technique (wallet_service L) ref w = (Inr c, w')"
  then have run': "ouvrir_compte_technique ref w = (Inr c, w')" by (simp add: wallet_service_def)
  then have "same_ledger w w'" by (auto simp: ouvrir_compte_technique_def account_create_Inr same_ledger_def)
  with keepsD [OF keeps_services(3) inv run']
  show "wallet_inv w' \<and> account_total w' = account_total w \<and> key_owner_of w' = key_owner_of w"
    by (auto simp: key_owner_of_def fun_eq_iff dest: same_ledgerD)
next
  fix w w' c d a ref key ty org tx
  assume inv: "wallet_inv w" and run: "port_debiter (wallet_service L) c d a ref key ty org w = (Inr tx, w')"
  then have run': "debiter c d a ref key ty org w = (Inr tx, w')" by (simp add: wallet_service_def)
  then obtain m r b v where "mk_money a XOF = Inr m" "transfer c d m ty ref key org Tx_COMPLETED w = (Inr (r, b), v)" "tx = tx_id r"
      "w' = v\<lparr>transactions := update_row tx_id (tx_id r) (\<lambda>q. q\<lparr>tx_amount := Some (amount m), tx_currency := Some (m_currency m)\<rparr>) (transactions v)\<rparr>"
    by (auto simp: debiter_def money_of_service_def map_sum_Inr update_transaction_def)
  with service_payment [OF inv] keepsD [OF keeps_services(1) inv run']
  show "wallet_inv w' \<and> paid_under (account_total w) (key_owner_of w key) c d a tx (account_total w') \<and> key_owner_of w' key = Some tx
      \<and> (\<forall>k. k \<noteq> key \<longrightarrow> key_owner_of w' k = key_owner_of w k)" by blast
next
  fix w w' c d a ref key ty org tx
  assume inv: "wallet_inv w" and run: "port_crediter (wallet_service L) c d a ref key ty org w = (Inr tx, w')"
  then have run': "crediter c d a ref key ty org w = (Inr tx, w')" by (simp add: wallet_service_def)
  then obtain m r b v where "mk_money a XOF = Inr m" "transfer d c m ty ref key org Tx_COMPLETED w = (Inr (r, b), v)" "tx = tx_id r"
      "w' = v\<lparr>transactions := update_row tx_id (tx_id r) (\<lambda>q. q\<lparr>tx_amount := Some (amount m), tx_currency := Some (m_currency m)\<rparr>) (transactions v)\<rparr>"
    by (auto simp: crediter_def money_of_service_def map_sum_Inr update_transaction_def)
  with service_payment [OF inv] keepsD [OF keeps_services(2) inv run']
  show "wallet_inv w' \<and> paid_under (account_total w) (key_owner_of w key) d c a tx (account_total w') \<and> key_owner_of w' key = Some tx
      \<and> (\<forall>k. k \<noteq> key \<longrightarrow> key_owner_of w' k = key_owner_of w k)" by blast
qed

end
