(* ===== verification/FundPayments.thy ===== *)
theory FundPayments
  imports Fund
begin

section \<open>Investments paid through the payment orchestrator\<close>

text \<open>
  \<^verbatim>\<open>fund/application/payment_use_cases.py\<close>: an investment paid by Mobile Money or card starts a
  collection with the payment module (the port \<open>payment_port\<close>) and is recorded when the
  \<^verbatim>\<open>payment.succeeded\<close> event comes back. The inbox keeps the identifiers of the events already
  applied.
\<close>

record collection_request =
  cq_reference :: string
  cq_amount :: int
  cq_currency :: string
  cq_payer :: uuid
  cq_key :: string
  cq_channel :: "string option"
  cq_network :: "string option"
  cq_email :: "string option"
  cq_phone :: "string option"
  cq_callback :: "string option"
  cq_campaign :: uuid

record payment_action =
  pact_type :: string
  pact_url :: "string option"
  pact_instructions :: "string option"

record collection_result =
  cr_intent :: uuid
  cr_status :: string
  cr_action :: "payment_action option"

record 'p payment_port =
  create_collection :: "collection_request \<Rightarrow> ('p, string, collection_result) op"
  get_collection :: "uuid \<Rightarrow> ('p, string, collection_result) op"

definition in_payments :: "('p, string, 'a) op \<Rightarrow> ('w, 'p, 'a) fop" where
  "in_payments = on_part payments_part (\<lambda>p s. s\<lparr>payments_part := p\<rparr>) Payment_exc"

subsection \<open>Repositories\<close>

definition ORDER_STATUSES :: "string list" where
  "ORDER_STATUSES = [''requires_action'', ''processing'', ''succeeded'', ''failed'', ''cancelled'', ''unknown'']"

definition order_get :: "('w, 'p) fund_db \<Rightarrow> uuid \<Rightarrow> payment_order option" where
  "order_get s i = lookup_row po_id i (payment_orders s)"

definition order_by_idempotency :: "('w, 'p) fund_db \<Rightarrow> string \<Rightarrow> payment_order option" where
  "order_by_idempotency s k = lookup_row po_key k (payment_orders s)"

definition order_by_payment_intent :: "('w, 'p) fund_db \<Rightarrow> uuid \<Rightarrow> payment_order option" where
  "order_by_payment_intent s i = lookup_row po_intent i (payment_orders s)"

definition order_create :: "string \<Rightarrow> string \<Rightarrow> uuid \<Rightarrow> uuid \<Rightarrow> uuid \<Rightarrow> string \<Rightarrow> int \<Rightarrow> string \<Rightarrow> string \<Rightarrow>
    ('w, 'p, payment_order) fop" where
  "order_create op_kind reference payer campaign intent key amnt cur st =
     bindE fund_fresh (\<lambda>i.
     bindE (readE (\<lambda>s. (order_by_idempotency s key, order_by_payment_intent s intent, campaign_get s campaign))) (\<lambda>(k, p, c).
     thenE (ensure (k = None \<and> p = None \<and> c \<noteq> None \<and> 0 < amnt \<and> st \<in> set ORDER_STATUSES) Fund_integrity)
     (let row = \<lparr>po_id = i, po_operation = op_kind, po_reference = reference, po_payer = payer,
            po_campaign = Some campaign, po_intent = intent, po_key = key, po_amount = amnt, po_currency = cur,
            po_status = st, po_completed = None\<rparr>
      in thenE (modE (\<lambda>s. s\<lparr>payment_orders := payment_orders s @ [row]\<rparr>)) (retE row))))"

definition update_order :: "uuid \<Rightarrow> (payment_order \<Rightarrow> payment_order) \<Rightarrow> ('w, 'p, unit) fop" where
  "update_order i f = modE (\<lambda>s. s\<lparr>payment_orders := update_row po_id i f (payment_orders s)\<rparr>)"

definition add_once :: "uuid \<Rightarrow> ('w, 'p, bool) fop" where
  "add_once i = bindE (readE event_inbox) (\<lambda>seen.
     if i \<in> set seen then retE False
     else thenE (modE (\<lambda>s. s\<lparr>event_inbox := event_inbox s @ [i]\<rparr>)) (retE True))"

subsection \<open>Use cases\<close>

definition same_order :: "payment_order \<Rightarrow> uuid \<Rightarrow> uuid \<Rightarrow> int \<Rightarrow> bool" where
  "same_order o' campaign investor amnt \<longleftrightarrow> po_campaign o' = Some campaign \<and> po_payer o' = investor \<and> po_amount o' = amnt"

definition collection_of :: "'p payment_port option \<Rightarrow> uuid \<Rightarrow> ('w, 'p, collection_result option) fop" where
  "collection_of P intent = (case P of None \<Rightarrow> retE None
     | Some port \<Rightarrow> bindE (in_payments (get_collection port intent)) (\<lambda>r. retE (Some r)))"

definition start_investment :: "'p payment_port option \<Rightarrow> uuid \<Rightarrow> uuid \<Rightarrow> int \<Rightarrow> string \<Rightarrow> string option \<Rightarrow> string option \<Rightarrow>
    string option \<Rightarrow> string option \<Rightarrow> string option \<Rightarrow> ('w, 'p, payment_order \<times> collection_result option) fop" where
  "start_investment P campaign_id investor amnt key channel network email phone callback =
     bindE (readE (\<lambda>s. order_by_idempotency s key)) (\<lambda>existing.
     case existing of
       Some o' \<Rightarrow>
         thenE (ensure (same_order o' campaign_id investor amnt) (Fund_value ''IDEMPOTENCY_CONFLICT''))
         (bindE (collection_of P (po_intent o')) (\<lambda>r. retE (o', r)))
     | None \<Rightarrow>
         bindE (readE (\<lambda>s. campaign_get s campaign_id)) (\<lambda>found.
         bindE (some_or CampaignNotFound found) (\<lambda>c.
         thenE (ensure (cmp_status c = Campaign_active) CampaignNotActive)
         (thenE (ensure (cmp_owner c \<noteq> investor) CannotInvestInOwnCampaign)
         (let remaining = cmp_goal c - cmp_raised c;
              reference = ''fund:investment:'' @ uuid_str campaign_id @ '':'' @ take 24 key
          in thenE (ensure (\<not> (remaining \<le> 0 \<or> remaining < amnt)) CampaignGoalAlreadyReached)
            (bindE (some_or Fund_runtime P) (\<lambda>port.
             bindE (in_payments (create_collection port \<lparr>cq_reference = reference, cq_amount = amnt,
                 cq_currency = cmp_currency c, cq_payer = investor, cq_key = key, cq_channel = channel,
                 cq_network = network, cq_email = email, cq_phone = phone, cq_callback = callback,
                 cq_campaign = campaign_id\<rparr>)) (\<lambda>payment.
             bindE (catchE
               (atomically (order_create ''investment'' reference investor campaign_id (cr_intent payment) key amnt
                  (cmp_currency c) (cr_status payment)))
               Fund_integrity
               (bindE (readE (\<lambda>s. order_by_idempotency s key)) (\<lambda>again.
                bindE (some_or Fund_integrity again) (\<lambda>o'.
                thenE (ensure (same_order o' campaign_id investor amnt) (Fund_value ''IDEMPOTENCY_CONFLICT''))
                  (retE o'))))) (\<lambda>order.
             retE (order, Some payment))))))))))"

definition get_order :: "'p payment_port option \<Rightarrow> uuid \<Rightarrow> uuid \<Rightarrow> ('w, 'p, payment_order \<times> collection_result option) fop" where
  "get_order P order_id u =
     bindE (readE (\<lambda>s. order_get s order_id)) (\<lambda>found.
     bindE (some_or (Fund_lookup ''PAYMENT_ORDER_NOT_FOUND'') found) (\<lambda>o'.
     thenE (ensure (po_payer o' = u) (Fund_lookup ''PAYMENT_ORDER_NOT_FOUND''))
     (bindE (collection_of P (po_intent o')) (\<lambda>r. retE (o', r)))))"

text \<open>The data of a payment event, as the callback carries it.\<close>

record event_data =
  ed_intent :: "uuid option"
  ed_reference :: "string option"
  ed_amount :: int
  ed_currency :: "string option"
  ed_status :: "string option"

datatype applied = Applied_duplicate | Applied_processed

definition set_order_status :: "uuid \<Rightarrow> string \<Rightarrow> ('w, 'p, unit) fop" where
  "set_order_status i st = thenE (ensure (st \<in> set ORDER_STATUSES) Fund_integrity)
     (update_order i (\<lambda>r. r\<lparr>po_status := st\<rparr>))"

definition apply_event :: "uuid \<Rightarrow> string \<Rightarrow> event_data \<Rightarrow> ('w, 'p, applied) fop" where
  "apply_event event_id event_type d =
     bindE (add_once event_id) (\<lambda>new.
     if \<not> new then retE Applied_duplicate
     else
       bindE (some_or (Fund_value ''badly formed hexadecimal UUID string'') (ed_intent d)) (\<lambda>intent.
       bindE (readE (\<lambda>s. order_by_payment_intent s intent)) (\<lambda>found.
       bindE (some_or (Fund_value ''PAYMENT_ORDER_NOT_FOUND'') found) (\<lambda>o'.
       thenE (ensure (ed_reference d = Some (po_reference o')) (Fund_value ''PAYMENT_REFERENCE_MISMATCH''))
       (thenE (ensure (ed_amount d = po_amount o' \<and> ed_currency d = Some (po_currency o')) (Fund_value ''PAYMENT_AMOUNT_MISMATCH''))
       (if event_type \<noteq> ''payment.succeeded'' then
          thenE (set_order_status (po_id o') (case ed_status d of None \<Rightarrow> po_status o'
                   | Some st \<Rightarrow> if st = [] then po_status o' else st))
            (retE Applied_processed)
        else
          thenE (whenE (po_status o' \<noteq> ''succeeded'')
            (bindE (readE (\<lambda>s. case po_campaign o' of None \<Rightarrow> None | Some c \<Rightarrow> campaign_get s c)) (\<lambda>foundc.
             bindE (some_or CampaignNotFound foundc) (\<lambda>c.
             bindE (investment_create (cmp_id c) (po_payer o') (po_amount o') None (Some (po_intent o'))) (\<lambda>_.
             bindE (readE fund_clock) (\<lambda>t.
             thenE (ensure (numeric_14_2 (cmp_raised c + po_amount o')) Fund_data)
             (thenE (update_campaign (cmp_id c) (\<lambda>r. r\<lparr>cmp_raised := cmp_raised r + po_amount o'\<rparr>))
               (update_order (po_id o') (\<lambda>r. r\<lparr>po_status := ''succeeded'', po_completed := Some t\<rparr>)))))))))
            (retE Applied_processed)))))))"

end
