(* ===== verification/FundInv.thy ===== *)
theory FundInv
  imports WalletContract FundPayments
begin

section \<open>The invariant of the crowdfunding module\<close>

text \<open>
  What holds between requests: a campaign has raised what its investments add up to, a payment
  intent backs at most one investment, the schedule of a disbursed loan adds up to the total to
  repay, no installment is paid beyond its amount, and a loan is closed when all of them are paid.
  The proofs use the wallet through \<open>wallet_contract\<close> only.
\<close>

definition raised_for :: "('w, 'p) fund_db \<Rightarrow> uuid \<Rightarrow> int" where
  "raised_for s i = sum_list (map inv_amount (filter (\<lambda>v. inv_campaign v = i) (investments s)))"

definition campaigns_ok :: "('w, 'p) fund_db \<Rightarrow> bool" where
  "campaigns_ok s \<longleftrightarrow> distinct (map cmp_id (campaigns s))
     \<and> (\<forall>c \<in> set (campaigns s). cmp_id c < fund_next s \<and> cmp_raised c = raised_for s (cmp_id c))"

definition investments_ok :: "('w, 'p) fund_db \<Rightarrow> bool" where
  "investments_ok s \<longleftrightarrow> (\<forall>v \<in> set (investments s). 0 < inv_amount v \<and> inv_campaign v \<in> cmp_id ` set (campaigns s))
     \<and> distinct (filter (\<lambda>i. i \<noteq> None) (map inv_intent (investments s)))"

definition loan_rows :: "('w, 'p) fund_db \<Rightarrow> uuid \<Rightarrow> repayment_row list" where
  "loan_rows s i = filter (\<lambda>r. rp_loan r = i) (schedules s)"

definition row_ok :: "repayment_row \<Rightarrow> bool" where
  "row_ok r \<longleftrightarrow> 0 < rp_due r \<and> 0 \<le> rp_paid r \<and> rp_paid r \<le> rp_due r \<and> (rp_status r = Inst_paid \<longleftrightarrow> rp_paid r = rp_due r)"

definition loan_ok :: "('w, 'p) fund_db \<Rightarrow> loan \<Rightarrow> bool" where
  "loan_ok s l \<longleftrightarrow> ln_id l < fund_next s \<and> 1 \<le> ln_duration l
     \<and> (ln_status l = Loan_pending \<longleftrightarrow> loan_rows s (ln_id l) = [])
     \<and> (ln_status l \<noteq> Loan_pending \<longrightarrow> sum_list (map rp_due (loan_rows s (ln_id l))) = ln_total l
          \<and> (ln_status l = Loan_closed \<longleftrightarrow> (\<forall>r \<in> set (loan_rows s (ln_id l)). rp_status r = Inst_paid)))"

definition loans_ok :: "('w, 'p) fund_db \<Rightarrow> bool" where
  "loans_ok s \<longleftrightarrow> distinct (map ln_id (loans s)) \<and> (\<forall>l \<in> set (loans s). loan_ok s l)"

abbreviation row_key :: "repayment_row \<Rightarrow> uuid \<times> int" where
  "row_key \<equiv> (\<lambda>r. (rp_loan r, rp_no r))"

definition schedules_ok :: "('w, 'p) fund_db \<Rightarrow> bool" where
  "schedules_ok s \<longleftrightarrow> distinct (map row_key (schedules s))
     \<and> (\<forall>r \<in> set (schedules s). row_ok r \<and> rp_loan r \<in> ln_id ` set (loans s))"

definition fund_inv :: "('w, 'p) fund_db \<Rightarrow> bool" where
  "fund_inv s \<longleftrightarrow> campaigns_ok s \<and> investments_ok s \<and> loans_ok s \<and> schedules_ok s"

lemmas fund_inv_defs = fund_inv_def campaigns_ok_def investments_ok_def loans_ok_def schedules_ok_def
  loan_ok_def loan_rows_def raised_for_def

lemma fund_inv_frame:
  assumes "fund_inv s" "campaigns s' = campaigns s" "investments s' = investments s" "loans s' = loans s"
    "schedules s' = schedules s" "fund_next s \<le> fund_next s'"
  shows "fund_inv s'"
  using assms by (auto simp: fund_inv_defs intro: less_le_trans)

lemma fund_inv_other_parts [simp]:
  "fund_inv (s\<lparr>wallet_part := w\<rparr>) = fund_inv s" "fund_inv (s\<lparr>payments_part := p\<rparr>) = fund_inv s"
  "fund_inv (s\<lparr>payment_orders := os\<rparr>) = fund_inv s" "fund_inv (s\<lparr>event_inbox := es\<rparr>) = fund_inv s"
  "fund_inv (s\<lparr>loan_history := h\<rparr>) = fund_inv s" "fund_inv (s\<lparr>fund_clock := c\<rparr>) = fund_inv s"
  by (auto intro: fund_inv_frame)

subsection \<open>The writes\<close>

lemma ball_update_row:
  "(\<forall>x \<in> set (update_row key k f rows). P x) \<longleftrightarrow> (\<forall>x \<in> set rows. P (if key x = k then f x else x))"
  unfolding set_update_row by blast

lemma campaign_get_SomeD: "campaign_get s i = Some c \<Longrightarrow> c \<in> set (campaigns s) \<and> cmp_id c = i"
  unfolding campaign_get_def by (rule lookup_row_SomeD)

lemma loan_get_SomeD: "loan_get s i = Some l \<Longrightarrow> l \<in> set (loans s) \<and> ln_id l = i"
  unfolding loan_get_def by (rule lookup_row_SomeD)

lemma fund_inv_new_campaign:
  assumes "fund_inv s" "cmp_id c = fund_next s" "cmp_raised c = 0"
  shows "fund_inv (s\<lparr>fund_next := Suc (fund_next s), campaigns := campaigns s @ [c]\<rparr>)"
proof -
  have "fund_next s \<notin> inv_campaign ` set (investments s)"
    using assms(1) by (fastforce simp: fund_inv_defs)
  then have "filter (\<lambda>v. inv_campaign v = fund_next s) (investments s) = []" by (rule filter_key_empty)
  with assms show ?thesis by (auto simp: fund_inv_defs)
qed

definition raise_by :: "int \<Rightarrow> campaign \<Rightarrow> campaign" where
  "raise_by a c = c\<lparr>cmp_raised := cmp_raised c + a\<rparr>"

lemma raise_by_simps [simp]: "cmp_id (raise_by a c) = cmp_id c" "cmp_raised (raise_by a c) = cmp_raised c + a"
  by (simp_all add: raise_by_def)

lemma fund_inv_new_investment:
  assumes inv: "fund_inv s" and c: "inv_campaign v \<in> cmp_id ` set (campaigns s)" and a: "0 < inv_amount v"
    and i: "inv_intent v = None \<or> inv_intent v \<notin> inv_intent ` set (investments s)"
  shows "fund_inv (s\<lparr>fund_next := Suc (fund_next s), investments := investments s @ [v],
    campaigns := update_row cmp_id (inv_campaign v) (raise_by (inv_amount v)) (campaigns s)\<rparr>)" (is "fund_inv ?t")
proof -
  have "campaigns_ok ?t"
    using inv by (auto simp: fund_inv_def campaigns_ok_def raised_for_def set_update_row intro: less_SucI split: if_splits)
  moreover have "investments_ok ?t"
    using inv c a i by (auto simp: fund_inv_def investments_ok_def)
  moreover have "loans_ok ?t" "schedules_ok ?t"
    using inv by (auto simp: fund_inv_defs less_SucI)
  ultimately show ?thesis by (simp add: fund_inv_def)
qed

lemma fund_inv_new_loan:
  assumes inv: "fund_inv s" and l: "ln_id l = fund_next s" "ln_status l = Loan_pending" "1 \<le> ln_duration l"
  shows "fund_inv (s\<lparr>fund_next := Suc (fund_next s), loans := loans s @ [l]\<rparr>)" (is "fund_inv ?t")
proof -
  have "fund_next s \<notin> rp_loan ` set (schedules s)"
    using inv by (fastforce simp: fund_inv_def schedules_ok_def loans_ok_def loan_ok_def)
  then have "loan_rows ?t (fund_next s) = []" by (simp add: loan_rows_def filter_key_empty)
  with inv l have "loans_ok ?t"
    by (auto simp: fund_inv_def loans_ok_def loan_ok_def) (auto simp: loan_rows_def)
  moreover have "campaigns_ok ?t" "investments_ok ?t" "schedules_ok ?t"
    using inv by (auto simp: fund_inv_defs less_SucI)
  ultimately show ?thesis by (simp add: fund_inv_def)
qed

text \<open>A loan is disbursed: its rows are written and its status leaves \<open>Loan_pending\<close>.\<close>

lemma fund_inv_disbursed:
  assumes inv: "fund_inv s" and l: "loan_get s i = Some l" "ln_status l = Loan_pending"
    and rows: "rows \<noteq> []" "sum_list (map rp_due rows) = ln_total l" "distinct (map rp_no rows)"
      "\<forall>r \<in> set rows. rp_loan r = i \<and> row_ok r \<and> rp_status r \<noteq> Inst_paid"
    and f: "\<And>x. ln_id (f x) = ln_id x" "\<And>x. ln_total (f x) = ln_total x" "\<And>x. ln_duration (f x) = ln_duration x"
      "\<And>x. ln_status (f x) = Loan_disbursed"
    and t: "loans t = update_row ln_id i f (loans s)" "schedules t = schedules s @ rows"
      "campaigns t = campaigns s" "investments t = investments s" "fund_next t = fund_next s"
  shows "fund_inv t"
proof -
  from loan_get_SomeD [OF l(1)] have li: "l \<in> set (loans s)" "ln_id l = i" by simp_all
  have unique: "x = l" if "x \<in> set (loans s)" "ln_id x = i" for x
    using inv that li by (auto simp: fund_inv_def loans_ok_def intro: distinct_map_same)
  from inv li l(2) have none: "loan_rows s i = []" by (auto simp: fund_inv_def loans_ok_def loan_ok_def)
  have here: "filter (\<lambda>r. rp_loan r = i) rows = rows" using rows(4) by (simp add: filter_id_conv)
  have other: "filter (\<lambda>r. rp_loan r = j) rows = []" if "j \<noteq> i" for j
    using rows(4) that by (auto simp: filter_empty_conv)
  have lr: "loan_rows t j = (if j = i then rows else loan_rows s j)" for j
    using none by (auto simp: loan_rows_def t here other)
  have "loan_ok t (if ln_id x = i then f x else x)" if x: "x \<in> set (loans s)" for x
  proof (cases "ln_id x = i")
    case True
    with unique [OF x] have "x = l" by simp
    moreover have "\<not> (\<forall>r \<in> set rows. rp_status r = Inst_paid)" using rows by (cases rows) auto
    ultimately show ?thesis
      using inv x rows li by (auto simp: loan_ok_def lr f t fund_inv_def loans_ok_def)
  next
    case False
    with inv x show ?thesis by (auto simp: loan_ok_def lr t fund_inv_def loans_ok_def)
  qed
  moreover have "distinct (map ln_id (loans t))" using inv f(1) by (simp add: t fund_inv_def loans_ok_def)
  ultimately have "loans_ok t" unfolding loans_ok_def t(1) ball_update_row by blast
  moreover have "schedules_ok t"
  proof -
    have "ln_id ` set (loans t) = ln_id ` set (loans s)" using f(1) by (simp add: t)
    moreover have "distinct (map row_key rows)"
      using rows(3) by (auto simp: distinct_map inj_on_def)
    moreover have "\<forall>r \<in> set (schedules s). rp_loan r \<noteq> i" using none by (auto simp: loan_rows_def filter_empty_conv)
    ultimately show ?thesis using inv rows(4) li by (auto simp: schedules_ok_def t fund_inv_def)
  qed
  moreover have "campaigns_ok t" "investments_ok t" using inv by (auto simp: fund_inv_defs t)
  ultimately show ?thesis by (simp add: fund_inv_def)
qed

text \<open>An installment is paid, and the loan's status follows.\<close>

definition paid_row :: "int \<Rightarrow> instant \<Rightarrow> repayment_row \<Rightarrow> repayment_row" where
  "paid_row a tm r = (if rp_due r \<le> rp_paid r + a
     then r\<lparr>rp_paid := rp_paid r + a, rp_status := Inst_paid, rp_paid_at := Some tm\<rparr> else r\<lparr>rp_paid := rp_paid r + a\<rparr>)"

lemma paid_row_simps [simp]:
  "rp_loan (paid_row a tm r) = rp_loan r" "rp_no (paid_row a tm r) = rp_no r" "rp_due (paid_row a tm r) = rp_due r"
  "rp_paid (paid_row a tm r) = rp_paid r + a"
  by (simp_all add: paid_row_def)

lemma map_update_row_same: "(\<And>x. g (f x) = g x) \<Longrightarrow> map g (filter P (update_row key k f rows)) = map g (filter P rows)"
  if "\<And>x. P (f x) = P x"
  using that by (induction rows) auto

lemma loan_rows_update:
  "(\<And>r. rp_loan (f r) = rp_loan r) \<Longrightarrow> schedules t = update_row row_key k f (schedules s) \<Longrightarrow>
   loan_rows t i = update_row row_key k f (loan_rows s i)"
  unfolding loan_rows_def by (simp add: update_row_def filter_map comp_def if_distrib [of rp_loan])

lemma fund_inv_repaid:
  assumes inv: "fund_inv s" and l: "loan_get s i = Some l" "ln_status l \<noteq> Loan_pending"
    and e: "e \<in> set (schedules s)" "rp_loan e = i" "rp_status e \<noteq> Inst_paid" "0 \<le> a" "a \<le> rp_due e - rp_paid e"
    and f: "\<And>x. ln_id (f x) = ln_id x" "\<And>x. ln_total (f x) = ln_total x" "\<And>x. ln_duration (f x) = ln_duration x"
      "\<And>x. x \<in> set (loans s) \<Longrightarrow> ln_id x = i \<Longrightarrow> ln_status (f x) = new"
    and new: "new \<noteq> Loan_pending" "new = Loan_closed \<longleftrightarrow> (\<forall>r \<in> set (loan_rows t i). rp_status r = Inst_paid)"
    and t: "loans t = update_row ln_id i f (loans s)" "schedules t = update_row row_key (i, rp_no e) (paid_row a tm) (schedules s)"
      "campaigns t = campaigns s" "investments t = investments s" "fund_next t = fund_next s"
  shows "fund_inv t"
proof -
  from loan_get_SomeD [OF l(1)] have li: "l \<in> set (loans s)" "ln_id l = i" by simp_all
  have uniq: "r = e" if "r \<in> set (schedules s)" "row_key r = (i, rp_no e)" for r
    using inv that e(1,2) by (auto simp: fund_inv_def schedules_ok_def intro: distinct_map_same)
  have lr: "loan_rows t j = update_row row_key (i, rp_no e) (paid_row a tm) (loan_rows s j)" for j
    by (rule loan_rows_update) (simp_all add: t)
  have other: "loan_rows t j = loan_rows s j" if "j \<noteq> i" for j
    unfolding lr using that by (intro update_row_absent) (auto simp: loan_rows_def)
  have dues: "map rp_due (loan_rows t j) = map rp_due (loan_rows s j)" for j
    unfolding lr by (rule map_update_row) simp
  have "loan_rows s i \<noteq> []" using e(1,2) by (auto simp: loan_rows_def filter_empty_conv)
  have "loan_ok t (if ln_id x = i then f x else x)" if x: "x \<in> set (loans s)" for x
  proof (cases "ln_id x = i")
    case True
    have "x = l" using inv x True li by (auto simp: fund_inv_def loans_ok_def intro: distinct_map_same)
    with inv li l(2) have "ln_id x < fund_next s" "1 \<le> ln_duration x" "sum_list (map rp_due (loan_rows s i)) = ln_total x"
      by (auto simp: fund_inv_def loans_ok_def loan_ok_def)
    moreover have "loan_rows t i \<noteq> []" using \<open>loan_rows s i \<noteq> []\<close> by (simp add: lr update_row_def)
    ultimately show ?thesis using x True f new by (simp add: loan_ok_def dues t)
  next
    case False
    with inv x show ?thesis by (auto simp: loan_ok_def other t fund_inv_def loans_ok_def)
  qed
  moreover have "distinct (map ln_id (loans t))" using inv f(1) by (simp add: t fund_inv_def loans_ok_def)
  ultimately have "loans_ok t" unfolding loans_ok_def t(1) ball_update_row by blast
  moreover have "schedules_ok t"
  proof -
    have "row_ok (if row_key r = (i, rp_no e) then paid_row a tm r else r)" if r: "r \<in> set (schedules s)" for r
    proof (cases "row_key r = (i, rp_no e)")
      case True
      with uniq r have "r = e" by simp
      with inv e show ?thesis by (auto simp: fund_inv_def schedules_ok_def row_ok_def paid_row_def)
    next
      case False
      with inv r show ?thesis by (auto simp: fund_inv_def schedules_ok_def)
    qed
    moreover have same: "rp_loan ` set (schedules t) = rp_loan ` set (schedules s)"
      unfolding t(2) by (metis list.set_map map_update_row paid_row_simps(1))
    moreover have "distinct (map row_key (schedules t))" using inv by (simp add: t fund_inv_def schedules_ok_def)
    moreover have "\<forall>r \<in> set (schedules t). rp_loan r \<in> ln_id ` set (loans t)"
    proof -
      have "rp_loan ` set (schedules s) \<subseteq> ln_id ` set (loans t)"
        using inv f(1) by (auto simp: t fund_inv_def schedules_ok_def)
      then show ?thesis unfolding same [symmetric] by (rule image_subset_iff [THEN iffD1])
    qed
    ultimately show ?thesis unfolding schedules_ok_def t(2) ball_update_row by blast
  qed
  moreover have "campaigns_ok t" "investments_ok t" using inv by (auto simp: fund_inv_defs t)
  ultimately show ?thesis by (simp add: fund_inv_def)
qed

end
