(* ===== verification/FundReach.thy ===== *)
theory FundReach
  imports FundInv
begin

section \<open>Requests and reachable states of the crowdfunding module\<close>

text \<open>
  Every use case of \<^verbatim>\<open>fund\<close> keeps \<open>fund_inv\<close>, for any wallet that fulfils \<open>wallet_contract\<close> and any
  payment orchestrator. The reachable states interleave the requests of the module, those of the
  wallet, the changes of the orchestrator and the change of a campaign's status by the operators
  (no use case of the module activates a campaign).
\<close>

definition fund_and_wallet :: "('w \<Rightarrow> bool) \<Rightarrow> ('w, 'p) fund_db \<Rightarrow> bool" where
  "fund_and_wallet wok s \<longleftrightarrow> wok (wallet_part s) \<and> fund_inv s"

subsection \<open>Runs of the repositories\<close>

lemma fund_fresh_Inr [simp]: "fund_fresh s = (Inr i, t) \<longleftrightarrow> i = fund_next s \<and> t = s\<lparr>fund_next := Suc (fund_next s)\<rparr>"
  by (auto simp: fund_fresh_def)

lemma fund_queries [simp]:
  "campaign_get (s\<lparr>fund_next := n\<rparr>) = campaign_get s" "campaign_get (s\<lparr>wallet_part := w\<rparr>) = campaign_get s"
  "campaign_get (s\<lparr>event_inbox := b\<rparr>) = campaign_get s"
  "loan_get (s\<lparr>wallet_part := w\<rparr>) = loan_get s" "loan_get (s\<lparr>schedules := rs\<rparr>) = loan_get s"
  "by_wallet_transaction (s\<lparr>wallet_part := w\<rparr>) = by_wallet_transaction s"
  "prochaine_echeance (s\<lparr>wallet_part := w\<rparr>) = prochaine_echeance s"
  "order_by_payment_intent (s\<lparr>event_inbox := b\<rparr>) = order_by_payment_intent s"
  by (simp_all add: campaign_get_def loan_get_def by_wallet_transaction_def prochaine_echeance_def
      order_by_payment_intent_def fun_eq_iff)

lemma campaign_create_Inr:
  "campaign_create owner title goal cur account st s = (Inr c, t) \<longleftrightarrow>
     numeric_14_2 goal \<and> 0 < goal
     \<and> c = \<lparr>cmp_id = fund_next s, cmp_owner = owner, cmp_title = title, cmp_goal = goal, cmp_raised = 0, cmp_currency = cur,
            cmp_status = st, cmp_account = account, cmp_created = fund_clock s\<rparr>
     \<and> t = s\<lparr>fund_next := Suc (fund_next s), campaigns := campaigns s @ [c]\<rparr>"
  by (auto simp: campaign_create_def Let_def)

lemma investment_create_Inr:
  "investment_create campaign investor amnt tx intent s = (Inr v, t) \<longleftrightarrow>
     numeric_14_2 amnt \<and> 0 < amnt \<and> campaign_get s campaign \<noteq> None
     \<and> (intent = None \<or> intent \<notin> inv_intent ` set (investments s))
     \<and> v = \<lparr>inv_id = fund_next s, inv_campaign = campaign, inv_investor = investor, inv_amount = amnt, inv_transaction = tx,
            inv_intent = intent, inv_created = fund_clock s\<rparr>
     \<and> t = s\<lparr>fund_next := Suc (fund_next s), investments := investments s @ [v]\<rparr>"
  by (auto simp: investment_create_def Let_def)

lemma loan_create_Inr:
  "loan_create campaign borrower terms cur score s = (Inr l, t) \<Longrightarrow>
     0 < lt_duration terms \<and> ln_id l = fund_next s \<and> ln_status l = Loan_pending \<and> ln_duration l = lt_duration terms
     \<and> ln_total l = total_repayable terms \<and> ln_principal l = lt_principal terms \<and> ln_borrower l = borrower
     \<and> (\<exists>h. t = s\<lparr>fund_next := Suc (fund_next s), loans := loans s @ [l], loan_history := h\<rparr>)"
  by (auto simp: loan_create_def tracer_statut_def Let_def)

lemma update_campaign_raise:
  "update_campaign i (\<lambda>r. r\<lparr>cmp_raised := cmp_raised r + a\<rparr>) s = (Inr u, t) \<longleftrightarrow>
     t = s\<lparr>campaigns := update_row cmp_id i (raise_by a) (campaigns s)\<rparr>"
  by (auto simp: update_campaign_def raise_by_def [abs_def])

lemma changer_statut_Inr:
  assumes "changer_statut i st tx s = (Inr u, t)" "distinct (map ln_id (loans s))"
  shows "\<exists>h. t = s\<lparr>loans := update_row ln_id i (\<lambda>r. r\<lparr>ln_status := st\<rparr>) (loans s), loan_history := h\<rparr>"
proof -
  from assms(1) obtain l where l: "loan_get s i = Some l" and t: "t = s \<and> ln_status l = st \<or>
      (\<exists>h. t = s\<lparr>loans := update_row ln_id i (\<lambda>r. r\<lparr>ln_status := st\<rparr>) (loans s), loan_history := h\<rparr>)"
    by (auto simp: changer_statut_def update_loan_def tracer_statut_def split: if_splits)
  have same: "update_row ln_id i (\<lambda>r. r\<lparr>ln_status := st\<rparr>) (loans s) = loans s" if "ln_status l = st"
    unfolding update_row_def
  proof (intro map_idI)
    fix x assume "x \<in> set (loans s)"
    with loan_get_SomeD [OF l] distinct_map_same [OF assms(2), of x l] that
    show "(if ln_id x = i then x\<lparr>ln_status := st\<rparr> else x) = x" by auto
  qed
  from t show ?thesis
  proof
    assume "t = s \<and> ln_status l = st"
    with same show ?thesis by (intro exI [of _ "loan_history s"]) simp
  qed
qed

lemma ajouter_echeances_Inr:
  "ajouter_echeances i es s = (Inr u, t) \<Longrightarrow>
     t = s\<lparr>schedules := schedules s @ map (schedule_row i) es\<rparr> \<and> (\<forall>e \<in> set es. 0 < amount_due e)"
proof (induction es arbitrary: s)
  case Nil
  then show ?case by (simp add: ajouter_echeances_def)
next
  case (Cons e es)
  from Cons.prems have "0 < amount_due e"
      "ajouter_echeances i es (s\<lparr>schedules := schedules s @ [schedule_row i e]\<rparr>) = (Inr u, t)"
    by (auto simp: ajouter_echeances_def)
  with Cons.IH show ?case by fastforce
qed

lemma update_row_cong:
  "(\<And>r. r \<in> set rows \<Longrightarrow> key r = k \<Longrightarrow> f r = g r) \<Longrightarrow> update_row key k f rows = update_row key k g rows"
  by (simp add: update_row_def)

lemma prochaine_echeance_None: "prochaine_echeance s i = None \<longleftrightarrow> (\<forall>r \<in> set (loan_rows s i). rp_status r = Inst_paid)"
proof -
  have "prochaine_echeance s i = None \<longleftrightarrow> filter (\<lambda>r. rp_loan r = i \<and> rp_status r \<noteq> Inst_paid) (schedules s) = []"
    unfolding prochaine_echeance_def
    by (cases "sort_key rp_no (filter (\<lambda>r. rp_loan r = i \<and> rp_status r \<noteq> Inst_paid) (schedules s))")
      (auto dest: arg_cong [of _ _ length] simp del: set_sort)
  then show ?thesis by (auto simp: loan_rows_def filter_empty_conv)
qed

lemma prochaine_echeance_Some:
  assumes "prochaine_echeance s i = Some e"
  shows "e \<in> set (schedules s) \<and> rp_loan e = i \<and> rp_status e \<noteq> Inst_paid"
proof -
  from assms have "e \<in> set (sort_key rp_no (filter (\<lambda>r. rp_loan r = i \<and> rp_status r \<noteq> Inst_paid) (schedules s)))"
    by (auto simp: prochaine_echeance_def simp del: set_sort split: list.splits)
  then show ?thesis by simp
qed

lemma prochaine_echeance_frame: "schedules t = schedules s \<Longrightarrow> prochaine_echeance t = prochaine_echeance s"
  by (simp add: prochaine_echeance_def fun_eq_iff)

lemma update_row_twice:
  "(\<And>r. key (g r) = key r) \<Longrightarrow> update_row key k f (update_row key k g rows) = update_row key k (\<lambda>r. f (g r)) rows"
  by (induction rows) auto

lemma schedule_row_simps [simp]:
  "rp_loan (schedule_row i e) = i" "rp_no (schedule_row i e) = installment_no e" "rp_due (schedule_row i e) = amount_due e"
  "rp_paid (schedule_row i e) = 0" "rp_status (schedule_row i e) = Inst_due"
  by (simp_all add: schedule_row_def)

lemma schedule_rows:
  assumes "construire_echeancier (stored_terms p n r tot) depart = Inr es" "1 \<le> n"
  shows "es \<noteq> [] \<and> sum_list (map amount_due es) = tot \<and> distinct (map installment_no es)"
proof -
  have d: "lt_duration (stored_terms p n r tot) = n" "total_repayable (stored_terms p n r tot) = tot"
    by (simp_all add: stored_terms_def)
  from echeancier_amounts [OF assms(1)] assms(2) have "sum_list (map amount_due es) = tot"
    by (simp add: d sum_list_replicate_int)
  moreover have "map installment_no es = [1..n]"
    using echeances_from_Inr [OF assms(1) [unfolded construire_echeancier_def]] by (simp add: d)
  ultimately show ?thesis using assms(2) by (cases es) auto
qed

subsection \<open>Use cases keep the invariant\<close>

context wallet_contract
begin

lemma keeps_creer_campagne: "keeps (fund_and_wallet wok) (creer_campagne W owner title goal cur)"
proof (rule keepsI)
  fix s x t
  assume inv: "fund_and_wallet wok s" and run: "creer_campagne W owner title goal cur s = (Inr x, t)"
  from run obtain account u where "in_wallet (port_ouvrir_compte_technique W (''fund:campaign:'' @ take 40 title)) s = (Inr account, u)"
      "campaign_create owner title goal cur account Campaign_draft u = (Inr x, t)"
    by (auto simp: creer_campagne_def)
  with inv open_call obtain w where w: "u = s\<lparr>wallet_part := w\<rparr>" "wok w"
      "campaign_create owner title goal cur account Campaign_draft u = (Inr x, t)"
    by (metis fund_and_wallet_def)
  with inv fund_inv_new_campaign [of u x] show "fund_and_wallet wok t"
    by (auto simp: campaign_create_Inr fund_and_wallet_def)
qed

lemma keeps_demander: "keeps (fund_and_wallet wok) (demander S campaign_id borrower amnt duration)"
proof (rule keepsI)
  fix s x t
  assume inv: "fund_and_wallet wok s" and run: "demander S campaign_id borrower amnt duration s = (Inr x, t)"
  from run obtain terms cur score where "loan_create campaign_id borrower terms cur score s = (Inr x, t)"
    by (auto simp: demander_def simuler_def)
  from loan_create_Inr [OF this] inv fund_inv_new_loan [of s x] show "fund_and_wallet wok t"
    by (auto simp: fund_and_wallet_def)
qed

text \<open>An investment: what the wallet did, and the row written.\<close>

lemma investir_run:
  assumes ok: "wok (wallet_part s)" and run: "investir W i u a pin key s = (Inr (v, tx), t)"
  obtains c w0 w account w1 where "campaign_get s i = Some c" "cmp_status c = Campaign_active" "cmp_owner c \<noteq> u" "cmp_raised c < cmp_goal c"
    "wok w0" "holdings w0 = holdings (wallet_part s)" "key_owner w0 = key_owner (wallet_part s)" "wok w"
    "paid_under (holdings (wallet_part s)) (key_owner (wallet_part s) key) account (cmp_account c) a tx (holdings w)"
    "port_compte_de_utilisateur W u w0 = (Inr account, w1)"
    "port_debiter W account (cmp_account c) a (''fund:investment:'' @ uuid_str i) key INVESTMENT_TX_TYPE (Some ORIGIN_MODULE) w1 = (Inr tx, w)"
    "t = s\<lparr>wallet_part := w\<rparr> \<and> by_wallet_transaction s tx = Some v \<or>
     by_wallet_transaction s tx = None \<and> 0 < a \<and> numeric_14_2 (cmp_raised c + a)
     \<and> v = \<lparr>inv_id = fund_next s, inv_campaign = i, inv_investor = u, inv_amount = a, inv_transaction = Some tx,
            inv_intent = None, inv_created = fund_clock s\<rparr>
     \<and> t = s\<lparr>wallet_part := w, fund_next := Suc (fund_next s), investments := investments s @ [v],
            campaigns := update_row cmp_id i (raise_by a) (campaigns s)\<rparr>"
proof -
  from run obtain x u1 c account u2 u3 where p: "in_wallet (port_verifier_pin W u pin) s = (Inr x, u1)"
    and c: "campaign_get u1 i = Some c" "cmp_status c = Campaign_active" "cmp_owner c \<noteq> u" "cmp_raised c < cmp_goal c"
    and acc: "in_wallet (port_compte_de_utilisateur W u) u1 = (Inr account, u2)"
    and d: "in_wallet (port_debiter W account (cmp_account c) a (''fund:investment:'' @ uuid_str i) key
              INVESTMENT_TX_TYPE (Some ORIGIN_MODULE)) u2 = (Inr tx, u3)"
    and rest: "(by_wallet_transaction u3 tx = Some v \<and> t = u3) \<or> (by_wallet_transaction u3 tx = None \<and>
      (\<exists>u4. investment_create i u a (Some tx) None u3 = (Inr v, u4) \<and> numeric_14_2 (cmp_raised c + a)
        \<and> t = u4\<lparr>campaigns := update_row cmp_id i (raise_by a) (campaigns u4)\<rparr>))"
    unfolding investir_def run_simps run_option update_campaign_raise by blast
  from pin_call [OF ok p] obtain w1 where w1: "u1 = s\<lparr>wallet_part := w1\<rparr>" "wok w1"
      "holdings w1 = holdings (wallet_part s)" "key_owner w1 = key_owner (wallet_part s)" by blast
  from account_call [OF _ acc] w1 obtain w2 where w2: "u2 = s\<lparr>wallet_part := w2\<rparr>" "wok w2"
      "holdings w2 = holdings (wallet_part s)" "key_owner w2 = key_owner (wallet_part s)" by auto
  from debit_call [OF _ d] w2 obtain w3 where w3: "u3 = s\<lparr>wallet_part := w3\<rparr>" "wok w3"
      "paid_under (holdings (wallet_part s)) (key_owner (wallet_part s) key) account (cmp_account c) a tx (holdings w3)" by auto
  have calls: "port_compte_de_utilisateur W u w1 = (Inr account, w2)"
      "port_debiter W account (cmp_account c) a (''fund:investment:'' @ uuid_str i) key INVESTMENT_TX_TYPE (Some ORIGIN_MODULE) w2 = (Inr tx, w3)"
    using acc d by (auto simp: in_wallet_def on_part_Inr w1 w2 w3 dest!: arg_cong [of _ _ wallet_part])
  show thesis
    by (rule that [OF _ _ _ _ _ _ _ _ _ calls])
      (use c w1 w3 rest in \<open>auto simp: investment_create_Inr\<close>)
qed

lemma keeps_investir: "keeps (fund_and_wallet wok) (investir W i u a pin key)"
proof (rule keepsI)
  fix s x t
  assume inv: "fund_and_wallet wok s" and run: "investir W i u a pin key s = (Inr x, t)"
  obtain v tx where x: "x = (v, tx)" by (cases x)
  from inv have ok: "wok (wallet_part s)" by (simp add: fund_and_wallet_def)
  from run [unfolded x] show "fund_and_wallet wok t"
  proof (rule investir_run [OF ok])
    fix c w
    assume c: "campaign_get s i = Some c" and w: "wok w"
      and t: "t = s\<lparr>wallet_part := w\<rparr> \<and> by_wallet_transaction s tx = Some v \<or>
     by_wallet_transaction s tx = None \<and> 0 < a \<and> numeric_14_2 (cmp_raised c + a)
     \<and> v = \<lparr>inv_id = fund_next s, inv_campaign = i, inv_investor = u, inv_amount = a, inv_transaction = Some tx,
            inv_intent = None, inv_created = fund_clock s\<rparr>
     \<and> t = s\<lparr>wallet_part := w, fund_next := Suc (fund_next s), investments := investments s @ [v],
            campaigns := update_row cmp_id i (raise_by a) (campaigns s)\<rparr>"
    from campaign_get_SomeD [OF c] t w inv fund_inv_new_investment [of "s\<lparr>wallet_part := w\<rparr>" v]
    show "fund_and_wallet wok t" by (auto simp: fund_and_wallet_def)
  qed
qed

lemma decaisser_run:
  assumes ok: "wok (wallet_part s)" and ids: "distinct (map ln_id (loans s))"
    and run: "decaisser W i depart s = (Inr l', t)"
  obtains l c es w w0 account tx h where "loan_get s i = Some l" "ln_status l = Loan_pending" "campaign_get s (ln_campaign l) = Some c"
    "construire_echeancier (stored_terms (ln_principal l) (ln_duration l) (ln_rate l) (ln_total l)) depart = Inr es"
    "\<forall>e \<in> set es. 0 < amount_due e" "wok w"
    "paid_under (holdings (wallet_part s)) (key_owner (wallet_part s) (''fund:loan:disbursement:'' @ uuid_str i))
       (cmp_account c) account (ln_principal l) tx (holdings w)"
    "port_compte_de_utilisateur W (ln_borrower l) (wallet_part s) = (Inr account, w0)"
    "port_crediter W account (cmp_account c) (ln_principal l) (''fund:loan:disbursement:'' @ uuid_str i)
       (''fund:loan:disbursement:'' @ uuid_str i) ''fund_disbursement'' (Some ORIGIN_MODULE) w0 = (Inr tx, w)"
    "loan_get t i = Some l'"
    "t = s\<lparr>wallet_part := w, schedules := schedules s @ map (schedule_row i) es, loan_history := h,
       loans := update_row ln_id i (\<lambda>r. r\<lparr>ln_disbursed := Some (fund_clock s), ln_transaction := Some tx, ln_status := Loan_disbursed\<rparr>) (loans s)\<rparr>"
proof -
  let ?ref = "''fund:loan:disbursement:'' @ uuid_str i"
  from run obtain l c account u1 tx u2 es x u3 x' u4 v where l: "loan_get s i = Some l" "ln_status l = Loan_pending"
    and c: "campaign_get s (ln_campaign l) = Some c"
    and acc: "in_wallet (port_compte_de_utilisateur W (ln_borrower l)) s = (Inr account, u1)"
    and cr: "in_wallet (port_crediter W account (cmp_account c) (ln_principal l) (''fund:loan:disbursement:'' @ uuid_str (ln_id l))
               (''fund:loan:disbursement:'' @ uuid_str (ln_id l)) ''fund_disbursement'' (Some ORIGIN_MODULE)) u1 = (Inr tx, u2)"
    and es: "map_sum Loan_exc id
         (construire_echeancier (stored_terms (ln_principal l) (ln_duration l) (ln_rate l) (ln_total l)) depart) = Inr es"
    and rows: "ajouter_echeances i es u2 = (Inr x, u3)"
    and u4: "update_loan i (\<lambda>r. r\<lparr>ln_disbursed := Some (fund_clock u3), ln_transaction := Some tx\<rparr>) u3 = (Inr x', u4)"
    and st: "changer_statut i Loan_disbursed (Some tx) u4 = (Inr v, t)" and l': "loan_get t i = Some l'"
    unfolding decaisser_def run_simps by blast
  from account_call [OF ok acc] obtain w1 where w1: "u1 = s\<lparr>wallet_part := w1\<rparr>" "wok w1"
      "holdings w1 = holdings (wallet_part s)" "key_owner w1 = key_owner (wallet_part s)" by blast
  from loan_get_SomeD [OF l(1)] have li: "ln_id l = i" by simp
  from credit_call [OF _ cr] w1 li obtain w where w: "u2 = s\<lparr>wallet_part := w\<rparr>" "wok w"
    "paid_under (holdings (wallet_part s)) (key_owner (wallet_part s) ?ref) (cmp_account c) account (ln_principal l) tx (holdings w)" by auto
  have calls: "port_compte_de_utilisateur W (ln_borrower l) (wallet_part s) = (Inr account, w1)"
      "port_crediter W account (cmp_account c) (ln_principal l) ?ref ?ref ''fund_disbursement'' (Some ORIGIN_MODULE) w1 = (Inr tx, w)"
    using acc cr by (auto simp: in_wallet_def on_part_Inr w1 w li dest!: arg_cong [of _ _ wallet_part])
  from ajouter_echeances_Inr [OF rows] w
  have u3: "u3 = s\<lparr>wallet_part := w, schedules := schedules s @ map (schedule_row i) es\<rparr>" and pos: "\<forall>e \<in> set es. 0 < amount_due e"
    by simp_all
  from u4 have u4': "u4 = u3\<lparr>loans := update_row ln_id i (\<lambda>r. r\<lparr>ln_disbursed := Some (fund_clock s), ln_transaction := Some tx\<rparr>) (loans s)\<rparr>"
    by (simp add: update_loan_def u3)
  from changer_statut_Inr [OF st] ids obtain h where
    "t = u4\<lparr>loans := update_row ln_id i (\<lambda>r. r\<lparr>ln_status := Loan_disbursed\<rparr>) (loans u4), loan_history := h\<rparr>"
    by (auto simp: u4')
  then have t: "t = s\<lparr>wallet_part := w, schedules := schedules s @ map (schedule_row i) es, loan_history := h,
       loans := update_row ln_id i (\<lambda>r. r\<lparr>ln_disbursed := Some (fund_clock s), ln_transaction := Some tx, ln_status := Loan_disbursed\<rparr>) (loans s)\<rparr>"
    by (simp add: u4' u3 update_row_twice)
  from es have es': "construire_echeancier (stored_terms (ln_principal l) (ln_duration l) (ln_rate l) (ln_total l)) depart = Inr es"
    by (simp add: map_sum_Inr)
  show thesis by (rule that [OF l c es' pos w(2,3) calls l' t])
qed

lemma keeps_decaisser: "keeps (fund_and_wallet wok) (decaisser W i depart)"
proof (rule keepsI)
  fix s x t
  assume inv: "fund_and_wallet wok s" and run: "decaisser W i depart s = (Inr x, t)"
  then have ok: "wok (wallet_part s)" "distinct (map ln_id (loans s))"
    by (simp_all add: fund_and_wallet_def fund_inv_def loans_ok_def)
  from run obtain l c es w w0 account tx h where l: "loan_get s i = Some l" "ln_status l = Loan_pending"
    and es: "construire_echeancier (stored_terms (ln_principal l) (ln_duration l) (ln_rate l) (ln_total l)) depart = Inr es"
    and pos: "\<forall>e \<in> set es. 0 < amount_due e" and w: "wok w"
    and t: "t = s\<lparr>wallet_part := w, schedules := schedules s @ map (schedule_row i) es, loan_history := h,
       loans := update_row ln_id i (\<lambda>r. r\<lparr>ln_disbursed := Some (fund_clock s), ln_transaction := Some tx, ln_status := Loan_disbursed\<rparr>) (loans s)\<rparr>"
    by (rule decaisser_run [OF ok])
  from inv loan_get_SomeD [OF l(1)] have "1 \<le> ln_duration l"
    by (auto simp: fund_and_wallet_def fund_inv_def loans_ok_def loan_ok_def)
  from schedule_rows [OF es this]
  have rows: "map (schedule_row i) es \<noteq> []" "sum_list (map rp_due (map (schedule_row i) es)) = ln_total l"
    "distinct (map rp_no (map (schedule_row i) es))" by (simp_all add: comp_def)
  have good: "\<forall>r \<in> set (map (schedule_row i) es). rp_loan r = i \<and> row_ok r \<and> rp_status r \<noteq> Inst_paid"
    using pos by (auto simp: row_ok_def)
  have "fund_inv s" using inv by (simp add: fund_and_wallet_def)
  from fund_inv_disbursed [OF this l rows good, where t = t and f =
      "\<lambda>r. r\<lparr>ln_disbursed := Some (fund_clock s), ln_transaction := Some tx, ln_status := Loan_disbursed\<rparr>"]
  have "fund_inv t" by (simp add: t)
  with w show "fund_and_wallet wok t" by (simp add: fund_and_wallet_def t)
qed

text \<open>A repayment: what the wallet did, the installment paid, the loan's new status.\<close>

lemma rembourser_run:
  assumes ok: "wok (wallet_part s)" and inv: "fund_inv s" and run: "rembourser W i u a pin key s = (Inr x, t)"
  obtains l e c w w0 w1 tx account new h where "loan_get s i = Some l" "ln_borrower l = u" "ln_status l \<noteq> Loan_pending"
    "prochaine_echeance s i = Some e" "a \<le> rp_due e - rp_paid e" "campaign_get s (ln_campaign l) = Some c" "wok w"
    "paid_under (holdings (wallet_part s)) (key_owner (wallet_part s) key) account (cmp_account c) a tx (holdings w)"
    "port_compte_de_utilisateur W u w0 = (Inr account, w1)"
    "port_debiter W account (cmp_account c) a (''fund:loan:repayment:'' @ uuid_str i) key ''fund_repayment'' (Some ORIGIN_MODULE) w1 = (Inr tx, w)"
    "new = (if prochaine_echeance t i = None then Loan_closed else if ln_status l = Loan_disbursed then Loan_repaying else ln_status l)"
    "t = s\<lparr>wallet_part := w, schedules := update_row row_key (i, rp_no e) (paid_row a (fund_clock s)) (schedules s),
       loans := update_row ln_id i (\<lambda>r. r\<lparr>ln_transaction := Some tx, ln_status := new\<rparr>) (loans s), loan_history := h\<rparr>"
proof -
  have ids: "distinct (map ln_id (loans s))" using inv by (simp add: fund_inv_def loans_ok_def)
  from run obtain x1 u1 l e c account u2 tx u3 x3 u4 x4 u5 x5 u6
    where p: "in_wallet (port_verifier_pin W u pin) s = (Inr x1, u1)"
    and l: "loan_get u1 i = Some l" "ln_borrower l = u" "ln_status l \<noteq> Loan_pending"
    and e: "prochaine_echeance u1 i = Some e" "\<not> rp_due e - rp_paid e < a" and c: "campaign_get u1 (ln_campaign l) = Some c"
    and acc: "in_wallet (port_compte_de_utilisateur W u) u1 = (Inr account, u2)"
    and d: "in_wallet (port_debiter W account (cmp_account c) a (''fund:loan:repayment:'' @ uuid_str (ln_id l))
               key ''fund_repayment'' (Some ORIGIN_MODULE)) u2 = (Inr tx, u3)"
    and u4: "update_loan i (\<lambda>r. r\<lparr>ln_transaction := Some tx\<rparr>) u3 = (Inr x3, u4)"
    and u5: "update_echeance i (rp_no e) (\<lambda>r.
        let paid = rp_paid e + a
        in if rp_due e \<le> paid then r\<lparr>rp_paid := paid, rp_status := Inst_paid, rp_paid_at := Some (fund_clock u4)\<rparr>
           else r\<lparr>rp_paid := paid\<rparr>) u4 = (Inr x4, u5)"
    and st1: "if ln_status l = Loan_disbursed then changer_statut i Loan_repaying None u5 = (Inr x5, u6) else u6 = u5"
    and st2: "if prochaine_echeance u6 i = None then changer_statut i Loan_closed None u6 = (Inr x, t) else t = u6"
    unfolding rembourser_def run_simps by blast
  from pin_call [OF ok p] obtain w1 where w1: "u1 = s\<lparr>wallet_part := w1\<rparr>" "wok w1"
      "holdings w1 = holdings (wallet_part s)" "key_owner w1 = key_owner (wallet_part s)" by blast
  from account_call [OF _ acc] w1 obtain w2 where w2: "u2 = s\<lparr>wallet_part := w2\<rparr>" "wok w2"
      "holdings w2 = holdings (wallet_part s)" "key_owner w2 = key_owner (wallet_part s)" by auto
  from debit_call [OF _ d] w2 obtain w where w: "u3 = s\<lparr>wallet_part := w\<rparr>" "wok w"
      "paid_under (holdings (wallet_part s)) (key_owner (wallet_part s) key) account (cmp_account c) a tx (holdings w)" by auto
  from loan_get_SomeD [OF l(1)] have "ln_id l = i" by simp
  then have calls: "port_compte_de_utilisateur W u w1 = (Inr account, w2)"
      "port_debiter W account (cmp_account c) a (''fund:loan:repayment:'' @ uuid_str i) key ''fund_repayment'' (Some ORIGIN_MODULE) w2 = (Inr tx, w)"
    using acc d by (auto simp: in_wallet_def on_part_Inr w1 w2 w dest!: arg_cong [of _ _ wallet_part])
  let ?S = "update_row row_key (i, rp_no e) (paid_row a (fund_clock s)) (schedules s)"
  define ls where "ls = (\<lambda>st. update_row ln_id i (\<lambda>r. r\<lparr>ln_transaction := Some tx, ln_status := st\<rparr>) (loans s))"
  have ls_ids: "distinct (map ln_id (ls st))" for st using ids by (simp add: ls_def)
  have ls_ls: "update_row ln_id i (\<lambda>r. r\<lparr>ln_status := st'\<rparr>) (ls st) = ls st'" for st st'
    by (simp add: ls_def update_row_twice)
  from l w1 have ls_same: "update_row ln_id i (\<lambda>r. r\<lparr>ln_transaction := Some tx\<rparr>) (loans s) = ls (ln_status l)"
    unfolding ls_def by (intro update_row_cong) (auto dest!: loan_get_SomeD dest: distinct_map_same [OF ids])
  from e(1) have e': "prochaine_echeance s i = Some e" by (simp add: w1)
  have "r = e" if "r \<in> set (schedules s)" "row_key r = (i, rp_no e)" for r
    using prochaine_echeance_Some [OF e'] inv that
    by (auto simp: fund_inv_def schedules_ok_def intro: distinct_map_same)
  then have rows: "update_row row_key (i, rp_no e) (\<lambda>r. let paid = rp_paid e + a
        in if rp_due e \<le> paid then r\<lparr>rp_paid := paid, rp_status := Inst_paid, rp_paid_at := Some (fund_clock s)\<rparr>
           else r\<lparr>rp_paid := paid\<rparr>) (schedules s) = ?S"
    by (intro update_row_cong) (auto simp: paid_row_def Let_def)
  from u4 have u4': "u4 = s\<lparr>wallet_part := w, loans := ls (ln_status l)\<rparr>"
    by (simp add: update_loan_def w ls_same)
  then have clk: "fund_clock u4 = fund_clock s" by simp
  from u5 [unfolded clk] u4' rows have u5': "u5 = s\<lparr>wallet_part := w, schedules := ?S, loans := ls (ln_status l)\<rparr>"
    by (simp add: update_echeance_def)
  define mid where "mid = (if ln_status l = Loan_disbursed then Loan_repaying else ln_status l)"
  obtain h where u6: "u6 = s\<lparr>wallet_part := w, schedules := ?S, loans := ls mid, loan_history := h\<rparr>"
  proof (cases "ln_status l = Loan_disbursed")
    case True
    with st1 changer_statut_Inr [of i Loan_repaying None u5 x5 u6] that show thesis
      by (auto simp: u5' ls_ids ls_ls mid_def)
  next
    case False
    with st1 that [of "loan_history s"] show thesis by (simp add: u5' mid_def)
  qed
  define new where "new = (if prochaine_echeance u6 i = None then Loan_closed else mid)"
  obtain h' where t: "t = s\<lparr>wallet_part := w, schedules := ?S, loans := ls new, loan_history := h'\<rparr>"
  proof (cases "prochaine_echeance u6 i = None")
    case True
    with st2 changer_statut_Inr [of i Loan_closed None u6 x t] that show thesis
      by (auto simp: u6 ls_ids ls_ls new_def)
  next
    case False
    with st2 have "t = u6" "new = mid" by (auto simp: new_def)
    with that [of h] show thesis by (simp add: u6)
  qed
  have "prochaine_echeance t = prochaine_echeance u6" by (rule prochaine_echeance_frame) (simp add: t u6)
  then have new: "new = (if prochaine_echeance t i = None then Loan_closed else if ln_status l = Loan_disbursed then Loan_repaying else ln_status l)"
    by (simp add: new_def mid_def)
  show thesis
    by (rule that [of l e c w account tx w1 w2 new h'])
      (use l e' e(2) c w calls new t in \<open>auto simp: w1 ls_def\<close>)
qed

lemma keeps_rembourser: "keeps (fund_and_wallet wok) (rembourser W i u a pin key)"
proof (rule keepsI)
  fix s x t
  assume "fund_and_wallet wok s" and run: "rembourser W i u a pin key s = (Inr x, t)"
  then have ok: "wok (wallet_part s)" and inv: "fund_inv s" by (simp_all add: fund_and_wallet_def)
  from run obtain l e c w w0 w1 tx account new h where l: "loan_get s i = Some l" "ln_borrower l = u" "ln_status l \<noteq> Loan_pending"
    and e: "prochaine_echeance s i = Some e" "a \<le> rp_due e - rp_paid e" "campaign_get s (ln_campaign l) = Some c" and w: "wok w"
    and a: "paid_under (holdings (wallet_part s)) (key_owner (wallet_part s) key) account (cmp_account c) a tx (holdings w)"
    and "port_compte_de_utilisateur W u w0 = (Inr account, w1)"
    and "port_debiter W account (cmp_account c) a (''fund:loan:repayment:'' @ uuid_str i) key ''fund_repayment'' (Some ORIGIN_MODULE) w1 = (Inr tx, w)"
    and new: "new = (if prochaine_echeance t i = None then Loan_closed else if ln_status l = Loan_disbursed then Loan_repaying else ln_status l)"
    and t: "t = s\<lparr>wallet_part := w, schedules := update_row row_key (i, rp_no e) (paid_row a (fund_clock s)) (schedules s),
       loans := update_row ln_id i (\<lambda>r. r\<lparr>ln_transaction := Some tx, ln_status := new\<rparr>) (loans s), loan_history := h\<rparr>"
    by (rule rembourser_run [OF ok inv])
  note in_sched = prochaine_echeance_Some [OF e(1)]
  from a have "0 \<le> a" by (simp add: paid_under_def)
  have unclosed: "ln_status l \<noteq> Loan_closed"
  proof
    assume "ln_status l = Loan_closed"
    with inv loan_get_SomeD [OF l(1)] have "prochaine_echeance s i = None"
      unfolding prochaine_echeance_None by (auto simp: fund_inv_def loans_ok_def loan_ok_def)
    with e show False by simp
  qed
  have "fund_inv t"
    by (rule fund_inv_repaid [OF inv l(1,3) _ _ _ \<open>0 \<le> a\<close> e(2), where t = t and new = new and tm = "fund_clock s" and
         f = "\<lambda>r. r\<lparr>ln_transaction := Some tx, ln_status := new\<rparr>"])
      (use in_sched l unclosed new in \<open>simp_all add: t prochaine_echeance_None split: if_splits\<close>)
  with w show "fund_and_wallet wok t" by (simp add: fund_and_wallet_def t)
qed

end

subsection \<open>Payment orders\<close>

lemma keeps_fund_frame:
  assumes "\<And>s x t. m s = (Inr x, t) \<Longrightarrow> wallet_part t = wallet_part s \<and> campaigns t = campaigns s \<and> investments t = investments s
      \<and> loans t = loans s \<and> schedules t = schedules s \<and> fund_next s \<le> fund_next t"
  shows "keeps (fund_and_wallet wok) m"
  unfolding keeps_def fund_and_wallet_def using assms fund_inv_frame by metis

lemma keeps_in_payments [keeps_intros]: "keeps (fund_and_wallet wok) (in_payments m)"
  by (rule keeps_fund_frame) (auto simp: in_payments_def on_part_Inr)

lemma keeps_order_create [keeps_intros]:
  "keeps (fund_and_wallet wok) (order_create op_kind reference payer campaign intent key amnt cur st)"
  by (rule keeps_fund_frame) (auto simp: order_create_def Let_def)

lemma keeps_update_order [keeps_intros]: "keeps (fund_and_wallet wok) (update_order i f)"
  by (rule keeps_fund_frame) (simp add: update_order_def)

lemma keeps_add_once [keeps_intros]: "keeps (fund_and_wallet wok) (add_once i)"
  by (rule keeps_fund_frame) (auto simp: add_once_def split: if_splits)

lemma keeps_start_investment:
  "keeps (fund_and_wallet wok) (start_investment P campaign_id investor amnt key channel network email phone callback)"
  unfolding start_investment_def collection_of_def Let_def by (intro keeps_intros)

lemma keeps_paid_investment [keeps_intros]:
  fixes k :: "instant \<Rightarrow> ('w, 'p, 'a) fop"
  assumes k: "\<And>t. keeps (fund_and_wallet wok) (k t)"
  shows "keeps (fund_and_wallet wok) (bindE (investment_create i u a tx intent) (\<lambda>_. bindE (readE fund_clock) (\<lambda>t.
    thenE (ensure b Fund_data) (thenE (update_campaign i (\<lambda>r. r\<lparr>cmp_raised := cmp_raised r + a\<rparr>)) (k t)))))"
proof (rule keepsI)
  fix s :: "('w, 'p) fund_db" and x t
  assume inv: "fund_and_wallet wok s"
  assume "bindE (investment_create i u a tx intent) (\<lambda>_. bindE (readE fund_clock) (\<lambda>t.
    thenE (ensure b Fund_data) (thenE (update_campaign i (\<lambda>r. r\<lparr>cmp_raised := cmp_raised r + a\<rparr>)) (k t)))) s = (Inr x, t)"
  then obtain v s1 where v: "investment_create i u a tx intent s = (Inr v, s1)"
    and k': "k (fund_clock s1) (s1\<lparr>campaigns := update_row cmp_id i (raise_by a) (campaigns s1)\<rparr>) = (Inr x, t)"
    unfolding run_simps update_campaign_raise by blast
  from v obtain c where "campaign_get s i = Some c" by (auto simp: investment_create_Inr)
  from campaign_get_SomeD [OF this] v inv fund_inv_new_investment [of s v]
  have "fund_and_wallet wok (s1\<lparr>campaigns := update_row cmp_id i (raise_by a) (campaigns s1)\<rparr>)"
    by (auto simp: investment_create_Inr fund_and_wallet_def)
  from keepsD [OF k this k'] show "fund_and_wallet wok t" .
qed

lemma keeps_apply_event: "keeps (fund_and_wallet wok) (apply_event event_id event_type d)"
  unfolding apply_event_def set_order_status_def by (intro keeps_intros)

subsection \<open>Requests\<close>

datatype fund_request =
    Create_campaign uuid string int string
  | Invest uuid uuid int string string
  | Ask_loan uuid uuid int int
  | Disburse uuid date
  | Repay uuid uuid int string string
  | Start_payment uuid uuid int string "string option" "string option" "string option" "string option" "string option"
  | Payment_event uuid string event_data

definition ignore_result :: "('w, 'p, 'a) fop \<Rightarrow> ('w, 'p, unit) fop" where
  "ignore_result m = bindE m (\<lambda>_. retE ())"

fun run_fund :: "'w wallet_port \<Rightarrow> 'p payment_port option \<Rightarrow> scoring_port \<Rightarrow> fund_request \<Rightarrow> ('w, 'p, unit) fop" where
  "run_fund W P S (Create_campaign u title goal cur) = ignore_result (creer_campagne W u title goal cur)"
| "run_fund W P S (Invest i u a pin key) = ignore_result (investir W i u a pin key)"
| "run_fund W P S (Ask_loan i u a n) = ignore_result (demander S i u a n)"
| "run_fund W P S (Disburse i d) = ignore_result (decaisser W i d)"
| "run_fund W P S (Repay i u a pin key) = rembourser W i u a pin key"
| "run_fund W P S (Start_payment i u a key ch net em ph cb) = ignore_result (start_investment P i u a key ch net em ph cb)"
| "run_fund W P S (Payment_event i ty d) = ignore_result (apply_event i ty d)"

lemma keeps_ignore_result: "keeps I m \<Longrightarrow> keeps I (ignore_result m)"
  unfolding ignore_result_def by (intro keeps_intros)

context wallet_contract
begin

lemma keeps_run_fund: "keeps (fund_and_wallet wok) (run_fund W P S r)"
  by (cases r) (simp_all add: keeps_ignore_result keeps_creer_campagne keeps_investir keeps_demander keeps_decaisser
      keeps_rembourser keeps_start_investment keeps_apply_event)

end

subsection \<open>Reachable states\<close>

definition empty_fund :: "'w \<Rightarrow> 'p \<Rightarrow> ('w, 'p) fund_db" where
  "empty_fund w p = \<lparr>wallet_part = w, payments_part = p, campaigns = [], investments = [], loans = [], schedules = [],
     loan_history = [], payment_orders = [], event_inbox = [], fund_next = 1, fund_clock = 0\<rparr>"

inductive fund_reachable :: "wallet_env \<Rightarrow> 'p payment_port option \<Rightarrow> scoring_port \<Rightarrow> (wallet_db, 'p) fund_db \<Rightarrow> bool"
  for env P S where
  start: "fund_reachable env P S (empty_fund empty_wallet p)"
| request: "fund_reachable env P S s \<Longrightarrow>
    fund_reachable env P S (snd (atomically (run_fund (wallet_service (we_pins env)) P S r) s))"
| wallet: "fund_reachable env P S s \<Longrightarrow>
    fund_reachable env P S (s\<lparr>wallet_part := snd (atomically (run_request env wr) (wallet_part s))\<rparr>)"
| payments: "fund_reachable env P S s \<Longrightarrow> fund_reachable env P S (s\<lparr>payments_part := p\<rparr>)"
| operators: "fund_reachable env P S s \<Longrightarrow>
    fund_reachable env P S (s\<lparr>campaigns := update_row cmp_id i (\<lambda>c. c\<lparr>cmp_status := st\<rparr>) (campaigns s)\<rparr>)"
| tick: "fund_reachable env P S s \<Longrightarrow> fund_reachable env P S (s\<lparr>fund_clock := c\<rparr>)"

lemma fund_inv_campaign_status:
  assumes "fund_inv s"
  shows "fund_inv (s\<lparr>campaigns := update_row cmp_id i (\<lambda>c. c\<lparr>cmp_status := st\<rparr>) (campaigns s)\<rparr>)" (is "fund_inv ?t")
proof -
  have "campaigns_ok ?t"
    using assms by (auto simp: fund_inv_def campaigns_ok_def raised_for_def set_update_row)
  moreover have "investments_ok ?t" "loans_ok ?t" "schedules_ok ?t"
    using assms by (auto simp: fund_inv_def investments_ok_def loans_ok_def loan_ok_def loan_rows_def schedules_ok_def)
  ultimately show ?thesis by (simp add: fund_inv_def)
qed

lemma fund_inv_reachable: "fund_reachable env P S s \<Longrightarrow> fund_and_wallet wallet_inv s"
proof (induction rule: fund_reachable.induct)
  case (start p)
  have "wallet_inv empty_wallet" by (rule wallet_inv_reachable [OF wallet_reachable.start])
  then show ?case by (simp add: empty_fund_def fund_and_wallet_def fund_inv_defs)
next
  case (request s r)
  show ?case by (rule keeps_request [OF ws.keeps_run_fund request.IH])
next
  case (wallet s wr)
  then have "wallet_inv (wallet_part s)" by (simp add: fund_and_wallet_def)
  from keeps_request [OF keeps_run_request this] wallet.IH show ?case by (simp add: fund_and_wallet_def)
qed (simp_all add: fund_and_wallet_def fund_inv_campaign_status)

end
