(* ===== verification/FundDemo.thy ===== *)
theory FundDemo
  imports FundReach
begin

section \<open>A concrete crowdfunding database\<close>

text \<open>
  The wallet of \<open>WalletDemo\<close> with one campaign, an investment of 2000, and a loan of 1000 over two
  months that is disbursed; the properties of the module are applied to it.
\<close>

definition demo_fund0 :: "(wallet_db, unit) fund_db" where
  "demo_fund0 = empty_fund demo_state ()"

definition demo_scoring :: scoring_port where
  "demo_scoring = taux_fixe_scoring (13 / 2)"

definition fund_step :: "fund_request \<Rightarrow> (wallet_db, unit) fund_db \<Rightarrow> (wallet_db, unit) fund_db" where
  "fund_step r s = snd (atomically (run_fund (wallet_service demo_lib) None demo_scoring r) s)"

definition activate :: "uuid \<Rightarrow> (wallet_db, unit) fund_db \<Rightarrow> (wallet_db, unit) fund_db" where
  "activate i s = s\<lparr>campaigns := update_row cmp_id i (\<lambda>c. c\<lparr>cmp_status := Campaign_active\<rparr>) (campaigns s)\<rparr>"

text \<open>Campaign 1 of user 102 is open; loan 3 is asked for, then disbursed.\<close>

definition demo_open :: "(wallet_db, unit) fund_db" where
  "demo_open = activate 1 (fund_step (Create_campaign 102 ''school'' 10000 XOF) demo_fund0)"

definition demo_invested :: "(wallet_db, unit) fund_db" where
  "demo_invested = fund_step (Ask_loan 1 102 1000 2) (fund_step (Invest 1 101 2000 ''1234'' ''i1'') demo_open)"

definition demo_disbursed :: "(wallet_db, unit) fund_db" where
  "demo_disbursed = fund_step (Disburse 3 (Date 2024 1 31)) demo_invested"

text \<open>The borrower, user 102, sets a PIN and repays 200.\<close>

definition demo_borrower_proof :: step_up_proof where
  "demo_borrower_proof = \<lparr>proof_jti = 950, proof_user = 102, proof_purpose = ''wallet.pin.set'', proof_expires = 600\<rparr>"

definition demo_repaid :: "(wallet_db, unit) fund_db" where
  "demo_repaid = fund_step (Repay 3 102 200 ''1234'' ''r1'')
     (demo_disbursed\<lparr>wallet_part := serve demo_env [Define_pin 102 ''1234'' ''1234'' demo_borrower_proof] (wallet_part demo_disbursed)\<rparr>)"

text \<open>The values of these states, computed once.\<close>

lemma demo_open_value [code]:
  "demo_open = \<lparr>wallet_part =
    \<lparr>accounts =
       [\<lparr>acc_id = 1, acc_user = Some 101, acc_type = USER,
           acc_currency = ''XOF'', acc_status = ACTIVE,
           acc_reference = None, allows_negative_balance = False\<rparr>,
        \<lparr>acc_id = 2, acc_user = Some 102, acc_type = USER,
           acc_currency = ''XOF'', acc_status = ACTIVE,
           acc_reference = None, allows_negative_balance = False\<rparr>,
        \<lparr>acc_id = 16, acc_user = None, acc_type = TECHNICAL,
           acc_currency = ''XOF'', acc_status = ACTIVE,
           acc_reference = Some ''gateway:stub'',
           allows_negative_balance = True\<rparr>,
        \<lparr>acc_id = 22, acc_user = None, acc_type = TECHNICAL,
           acc_currency = ''XOF'', acc_status = ACTIVE,
           acc_reference = Some ''fund:campaign:school'',
           allows_negative_balance = False\<rparr>],
       entries =
         [\<lparr>le_id = 19, le_account = 16, le_transaction = 17,
             le_direction = DEBIT, le_amount = 5000, le_currency = ''XOF'',
             le_reference = Some ''wallet:deposit:stub''\<rparr>,
          \<lparr>le_id = 20, le_account = 1, le_transaction = 17,
             le_direction = CREDIT, le_amount = 5000, le_currency = ''XOF'',
             le_reference = Some ''wallet:deposit:stub''\<rparr>],
       transactions =
         [\<lparr>tx_id = 17, tx_type = ''deposit'', tx_status = Tx_COMPLETED,
             tx_origin = Some ''wallet'', tx_account = Some 1,
             tx_business = None, tx_amount = Some 5000,
             tx_currency = Some ''XOF'',
             tx_provider_reference = Some ''stub-18'',
             tx_gateway_mode = Some ''stub'', tx_authorization_url = None,
             tx_access_code = None, tx_reverses = None,
             tx_key = Some ''d1'', tx_created = 0, tx_completed = Some 0\<rparr>],
       gateway_accounts = [\<lparr>ga_provider = ''stub'', ga_account = 16\<rparr>],
       exchange_rates = [], conversions = [],
       phones =
         [\<lparr>up_user = 101, up_phone = ''701''\<rparr>,
          \<lparr>up_user = 102, up_phone = ''702''\<rparr>],
       pins =
         [\<lparr>pin_account = 1, pin_hash = ''$argon2id$1234'',
             pin_salt = ''argon2id'', failed_attempts = 0,
             locked_until = None, pin_updated = 0\<rparr>],
       recovery_codes =
         [\<lparr>rc_id = 5, rc_account = 1, rc_hash = ''hc4'', rc_consumed = None,
             rc_created = 0\<rparr>,
          \<lparr>rc_id = 7, rc_account = 1, rc_hash = ''hc6'', rc_consumed = None,
             rc_created = 0\<rparr>,
          \<lparr>rc_id = 9, rc_account = 1, rc_hash = ''hc8'', rc_consumed = None,
             rc_created = 0\<rparr>,
          \<lparr>rc_id = 11, rc_account = 1, rc_hash = ''hc10'',
             rc_consumed = None, rc_created = 0\<rparr>,
          \<lparr>rc_id = 13, rc_account = 1, rc_hash = ''hc12'',
             rc_consumed = None, rc_created = 0\<rparr>,
          \<lparr>rc_id = 15, rc_account = 1, rc_hash = ''hc14'',
             rc_consumed = None, rc_created = 0\<rparr>],
       consumed_proofs =
         [\<lparr>cp_jti = 900, cp_user = 101, cp_purpose = ''wallet.pin.set'',
             cp_expires = 600\<rparr>],
       pin_audits = [],
       outbox =
         [\<lparr>ob_id = 21, ob_name = ''payment.completed'',
             ob_payload =
               \<lparr>ep_transaction = 17, ep_type = ''deposit'',
                  ep_amount = 5000, ep_currency = ''XOF'',
                  ep_origin = Some ''wallet''\<rparr>,
             ob_status = Ob_PENDING, ob_published = None\<rparr>],
       bus_events = [], next_uuid = 23, clock = 0\<rparr>,
    payments_part = (),
    campaigns =
      [\<lparr>cmp_id = 1, cmp_owner = 102, cmp_title = ''school'',
          cmp_goal = 10000, cmp_raised = 0, cmp_currency = ''XOF'',
          cmp_status = Campaign_active, cmp_account = 22, cmp_created = 0\<rparr>],
    investments = [], loans = [], schedules = [], loan_history = [],
    payment_orders = [], event_inbox = [], fund_next = 2, fund_clock = 0\<rparr>"
  by code_simp

lemma demo_invested_value [code]:
  "demo_invested = \<lparr>wallet_part =
    \<lparr>accounts =
       [\<lparr>acc_id = 1, acc_user = Some 101, acc_type = USER,
           acc_currency = ''XOF'', acc_status = ACTIVE,
           acc_reference = None, allows_negative_balance = False\<rparr>,
        \<lparr>acc_id = 2, acc_user = Some 102, acc_type = USER,
           acc_currency = ''XOF'', acc_status = ACTIVE,
           acc_reference = None, allows_negative_balance = False\<rparr>,
        \<lparr>acc_id = 16, acc_user = None, acc_type = TECHNICAL,
           acc_currency = ''XOF'', acc_status = ACTIVE,
           acc_reference = Some ''gateway:stub'',
           allows_negative_balance = True\<rparr>,
        \<lparr>acc_id = 22, acc_user = None, acc_type = TECHNICAL,
           acc_currency = ''XOF'', acc_status = ACTIVE,
           acc_reference = Some ''fund:campaign:school'',
           allows_negative_balance = False\<rparr>],
       entries =
         [\<lparr>le_id = 19, le_account = 16, le_transaction = 17,
             le_direction = DEBIT, le_amount = 5000, le_currency = ''XOF'',
             le_reference = Some ''wallet:deposit:stub''\<rparr>,
          \<lparr>le_id = 20, le_account = 1, le_transaction = 17,
             le_direction = CREDIT, le_amount = 5000, le_currency = ''XOF'',
             le_reference = Some ''wallet:deposit:stub''\<rparr>,
          \<lparr>le_id = 24, le_account = 1, le_transaction = 23,
             le_direction = DEBIT, le_amount = 2000, le_currency = ''XOF'',
             le_reference = Some ''fund:investment:1''\<rparr>,
          \<lparr>le_id = 25, le_account = 22, le_transaction = 23,
             le_direction = CREDIT, le_amount = 2000, le_currency = ''XOF'',
             le_reference = Some ''fund:investment:1''\<rparr>],
       transactions =
         [\<lparr>tx_id = 17, tx_type = ''deposit'', tx_status = Tx_COMPLETED,
             tx_origin = Some ''wallet'', tx_account = Some 1,
             tx_business = None, tx_amount = Some 5000,
             tx_currency = Some ''XOF'',
             tx_provider_reference = Some ''stub-18'',
             tx_gateway_mode = Some ''stub'', tx_authorization_url = None,
             tx_access_code = None, tx_reverses = None,
             tx_key = Some ''d1'', tx_created = 0, tx_completed = Some 0\<rparr>,
          \<lparr>tx_id = 23, tx_type = ''fund_disbursement'',
             tx_status = Tx_COMPLETED, tx_origin = Some ''fund'',
             tx_account = None, tx_business = None, tx_amount = Some 2000,
             tx_currency = Some ''XOF'', tx_provider_reference = None,
             tx_gateway_mode = None, tx_authorization_url = None,
             tx_access_code = None, tx_reverses = None,
             tx_key = Some ''i1'', tx_created = 0, tx_completed = Some 0\<rparr>],
       gateway_accounts = [\<lparr>ga_provider = ''stub'', ga_account = 16\<rparr>],
       exchange_rates = [], conversions = [],
       phones =
         [\<lparr>up_user = 101, up_phone = ''701''\<rparr>,
          \<lparr>up_user = 102, up_phone = ''702''\<rparr>],
       pins =
         [\<lparr>pin_account = 1, pin_hash = ''$argon2id$1234'',
             pin_salt = ''argon2id'', failed_attempts = 0,
             locked_until = None, pin_updated = 0\<rparr>],
       recovery_codes =
         [\<lparr>rc_id = 5, rc_account = 1, rc_hash = ''hc4'', rc_consumed = None,
             rc_created = 0\<rparr>,
          \<lparr>rc_id = 7, rc_account = 1, rc_hash = ''hc6'', rc_consumed = None,
             rc_created = 0\<rparr>,
          \<lparr>rc_id = 9, rc_account = 1, rc_hash = ''hc8'', rc_consumed = None,
             rc_created = 0\<rparr>,
          \<lparr>rc_id = 11, rc_account = 1, rc_hash = ''hc10'',
             rc_consumed = None, rc_created = 0\<rparr>,
          \<lparr>rc_id = 13, rc_account = 1, rc_hash = ''hc12'',
             rc_consumed = None, rc_created = 0\<rparr>,
          \<lparr>rc_id = 15, rc_account = 1, rc_hash = ''hc14'',
             rc_consumed = None, rc_created = 0\<rparr>],
       consumed_proofs =
         [\<lparr>cp_jti = 900, cp_user = 101, cp_purpose = ''wallet.pin.set'',
             cp_expires = 600\<rparr>],
       pin_audits = [],
       outbox =
         [\<lparr>ob_id = 21, ob_name = ''payment.completed'',
             ob_payload =
               \<lparr>ep_transaction = 17, ep_type = ''deposit'',
                  ep_amount = 5000, ep_currency = ''XOF'',
                  ep_origin = Some ''wallet''\<rparr>,
             ob_status = Ob_PENDING, ob_published = None\<rparr>],
       bus_events = [], next_uuid = 26, clock = 0\<rparr>,
    payments_part = (),
    campaigns =
      [\<lparr>cmp_id = 1, cmp_owner = 102, cmp_title = ''school'',
          cmp_goal = 10000, cmp_raised = 2000, cmp_currency = ''XOF'',
          cmp_status = Campaign_active, cmp_account = 22, cmp_created = 0\<rparr>],
    investments =
      [\<lparr>inv_id = 2, inv_campaign = 1, inv_investor = 101, inv_amount = 2000,
          inv_transaction = Some 23, inv_intent = None, inv_created = 0\<rparr>],
    loans =
      [\<lparr>ln_id = 3, ln_campaign = 1, ln_borrower = 102, ln_principal = 1000,
          ln_duration = 2, ln_rate = 13 / 2, ln_total = 1065,
          ln_currency = ''XOF'', ln_score = None, ln_status = Loan_pending,
          ln_disbursed = None, ln_transaction = None, ln_created = 0\<rparr>],
    schedules = [],
    loan_history =
      [\<lparr>lh_loan = 3, lh_from = None, lh_to = Loan_pending,
          lh_transaction = None\<rparr>],
    payment_orders = [], event_inbox = [], fund_next = 4, fund_clock = 0\<rparr>"
  by code_simp

lemma demo_disbursed_value [code]:
  "demo_disbursed = \<lparr>wallet_part =
    \<lparr>accounts =
       [\<lparr>acc_id = 1, acc_user = Some 101, acc_type = USER,
           acc_currency = ''XOF'', acc_status = ACTIVE,
           acc_reference = None, allows_negative_balance = False\<rparr>,
        \<lparr>acc_id = 2, acc_user = Some 102, acc_type = USER,
           acc_currency = ''XOF'', acc_status = ACTIVE,
           acc_reference = None, allows_negative_balance = False\<rparr>,
        \<lparr>acc_id = 16, acc_user = None, acc_type = TECHNICAL,
           acc_currency = ''XOF'', acc_status = ACTIVE,
           acc_reference = Some ''gateway:stub'',
           allows_negative_balance = True\<rparr>,
        \<lparr>acc_id = 22, acc_user = None, acc_type = TECHNICAL,
           acc_currency = ''XOF'', acc_status = ACTIVE,
           acc_reference = Some ''fund:campaign:school'',
           allows_negative_balance = False\<rparr>],
       entries =
         [\<lparr>le_id = 19, le_account = 16, le_transaction = 17,
             le_direction = DEBIT, le_amount = 5000, le_currency = ''XOF'',
             le_reference = Some ''wallet:deposit:stub''\<rparr>,
          \<lparr>le_id = 20, le_account = 1, le_transaction = 17,
             le_direction = CREDIT, le_amount = 5000, le_currency = ''XOF'',
             le_reference = Some ''wallet:deposit:stub''\<rparr>,
          \<lparr>le_id = 24, le_account = 1, le_transaction = 23,
             le_direction = DEBIT, le_amount = 2000, le_currency = ''XOF'',
             le_reference = Some ''fund:investment:1''\<rparr>,
          \<lparr>le_id = 25, le_account = 22, le_transaction = 23,
             le_direction = CREDIT, le_amount = 2000, le_currency = ''XOF'',
             le_reference = Some ''fund:investment:1''\<rparr>,
          \<lparr>le_id = 27, le_account = 22, le_transaction = 26,
             le_direction = DEBIT, le_amount = 1000, le_currency = ''XOF'',
             le_reference = Some ''fund:loan:disbursement:3''\<rparr>,
          \<lparr>le_id = 28, le_account = 2, le_transaction = 26,
             le_direction = CREDIT, le_amount = 1000, le_currency = ''XOF'',
             le_reference = Some ''fund:loan:disbursement:3''\<rparr>],
       transactions =
         [\<lparr>tx_id = 17, tx_type = ''deposit'', tx_status = Tx_COMPLETED,
             tx_origin = Some ''wallet'', tx_account = Some 1,
             tx_business = None, tx_amount = Some 5000,
             tx_currency = Some ''XOF'',
             tx_provider_reference = Some ''stub-18'',
             tx_gateway_mode = Some ''stub'', tx_authorization_url = None,
             tx_access_code = None, tx_reverses = None,
             tx_key = Some ''d1'', tx_created = 0, tx_completed = Some 0\<rparr>,
          \<lparr>tx_id = 23, tx_type = ''fund_disbursement'',
             tx_status = Tx_COMPLETED, tx_origin = Some ''fund'',
             tx_account = None, tx_business = None, tx_amount = Some 2000,
             tx_currency = Some ''XOF'', tx_provider_reference = None,
             tx_gateway_mode = None, tx_authorization_url = None,
             tx_access_code = None, tx_reverses = None,
             tx_key = Some ''i1'', tx_created = 0, tx_completed = Some 0\<rparr>,
          \<lparr>tx_id = 26, tx_type = ''fund_disbursement'',
             tx_status = Tx_COMPLETED, tx_origin = Some ''fund'',
             tx_account = None, tx_business = None, tx_amount = Some 1000,
             tx_currency = Some ''XOF'', tx_provider_reference = None,
             tx_gateway_mode = None, tx_authorization_url = None,
             tx_access_code = None, tx_reverses = None,
             tx_key = Some ''fund:loan:disbursement:3'', tx_created = 0,
             tx_completed = Some 0\<rparr>],
       gateway_accounts = [\<lparr>ga_provider = ''stub'', ga_account = 16\<rparr>],
       exchange_rates = [], conversions = [],
       phones =
         [\<lparr>up_user = 101, up_phone = ''701''\<rparr>,
          \<lparr>up_user = 102, up_phone = ''702''\<rparr>],
       pins =
         [\<lparr>pin_account = 1, pin_hash = ''$argon2id$1234'',
             pin_salt = ''argon2id'', failed_attempts = 0,
             locked_until = None, pin_updated = 0\<rparr>],
       recovery_codes =
         [\<lparr>rc_id = 5, rc_account = 1, rc_hash = ''hc4'', rc_consumed = None,
             rc_created = 0\<rparr>,
          \<lparr>rc_id = 7, rc_account = 1, rc_hash = ''hc6'', rc_consumed = None,
             rc_created = 0\<rparr>,
          \<lparr>rc_id = 9, rc_account = 1, rc_hash = ''hc8'', rc_consumed = None,
             rc_created = 0\<rparr>,
          \<lparr>rc_id = 11, rc_account = 1, rc_hash = ''hc10'',
             rc_consumed = None, rc_created = 0\<rparr>,
          \<lparr>rc_id = 13, rc_account = 1, rc_hash = ''hc12'',
             rc_consumed = None, rc_created = 0\<rparr>,
          \<lparr>rc_id = 15, rc_account = 1, rc_hash = ''hc14'',
             rc_consumed = None, rc_created = 0\<rparr>],
       consumed_proofs =
         [\<lparr>cp_jti = 900, cp_user = 101, cp_purpose = ''wallet.pin.set'',
             cp_expires = 600\<rparr>],
       pin_audits = [],
       outbox =
         [\<lparr>ob_id = 21, ob_name = ''payment.completed'',
             ob_payload =
               \<lparr>ep_transaction = 17, ep_type = ''deposit'',
                  ep_amount = 5000, ep_currency = ''XOF'',
                  ep_origin = Some ''wallet''\<rparr>,
             ob_status = Ob_PENDING, ob_published = None\<rparr>],
       bus_events = [], next_uuid = 29, clock = 0\<rparr>,
    payments_part = (),
    campaigns =
      [\<lparr>cmp_id = 1, cmp_owner = 102, cmp_title = ''school'',
          cmp_goal = 10000, cmp_raised = 2000, cmp_currency = ''XOF'',
          cmp_status = Campaign_active, cmp_account = 22, cmp_created = 0\<rparr>],
    investments =
      [\<lparr>inv_id = 2, inv_campaign = 1, inv_investor = 101, inv_amount = 2000,
          inv_transaction = Some 23, inv_intent = None, inv_created = 0\<rparr>],
    loans =
      [\<lparr>ln_id = 3, ln_campaign = 1, ln_borrower = 102, ln_principal = 1000,
          ln_duration = 2, ln_rate = 13 / 2, ln_total = 1065,
          ln_currency = ''XOF'', ln_score = None,
          ln_status = Loan_disbursed, ln_disbursed = Some 0,
          ln_transaction = Some 26, ln_created = 0\<rparr>],
    schedules =
      [\<lparr>rp_loan = 3, rp_no = 1, rp_due_date = Date 2024 2 29, rp_due = 532,
          rp_paid = 0, rp_status = Inst_due, rp_paid_at = None\<rparr>,
       \<lparr>rp_loan = 3, rp_no = 2, rp_due_date = Date 2024 3 31, rp_due = 533,
          rp_paid = 0, rp_status = Inst_due, rp_paid_at = None\<rparr>],
    loan_history =
      [\<lparr>lh_loan = 3, lh_from = None, lh_to = Loan_pending,
          lh_transaction = None\<rparr>,
       \<lparr>lh_loan = 3, lh_from = Some Loan_pending, lh_to = Loan_disbursed,
          lh_transaction = Some 26\<rparr>],
    payment_orders = [], event_inbox = [], fund_next = 4, fund_clock = 0\<rparr>"
  by code_simp

lemma demo_repaid_value [code]:
  "demo_repaid = \<lparr>wallet_part =
    \<lparr>accounts =
       [\<lparr>acc_id = 1, acc_user = Some 101, acc_type = USER,
           acc_currency = ''XOF'', acc_status = ACTIVE,
           acc_reference = None, allows_negative_balance = False\<rparr>,
        \<lparr>acc_id = 2, acc_user = Some 102, acc_type = USER,
           acc_currency = ''XOF'', acc_status = ACTIVE,
           acc_reference = None, allows_negative_balance = False\<rparr>,
        \<lparr>acc_id = 16, acc_user = None, acc_type = TECHNICAL,
           acc_currency = ''XOF'', acc_status = ACTIVE,
           acc_reference = Some ''gateway:stub'',
           allows_negative_balance = True\<rparr>,
        \<lparr>acc_id = 22, acc_user = None, acc_type = TECHNICAL,
           acc_currency = ''XOF'', acc_status = ACTIVE,
           acc_reference = Some ''fund:campaign:school'',
           allows_negative_balance = False\<rparr>],
       entries =
         [\<lparr>le_id = 19, le_account = 16, le_transaction = 17,
             le_direction = DEBIT, le_amount = 5000, le_currency = ''XOF'',
             le_reference = Some ''wallet:deposit:stub''\<rparr>,
          \<lparr>le_id = 20, le_account = 1, le_transaction = 17,
             le_direction = CREDIT, le_amount = 5000, le_currency = ''XOF'',
             le_reference = Some ''wallet:deposit:stub''\<rparr>,
          \<lparr>le_id = 24, le_account = 1, le_transaction = 23,
             le_direction = DEBIT, le_amount = 2000, le_currency = ''XOF'',
             le_reference = Some ''fund:investment:1''\<rparr>,
          \<lparr>le_id = 25, le_account = 22, le_transaction = 23,
             le_direction = CREDIT, le_amount = 2000, le_currency = ''XOF'',
             le_reference = Some ''fund:investment:1''\<rparr>,
          \<lparr>le_id = 27, le_account = 22, le_transaction = 26,
             le_direction = DEBIT, le_amount = 1000, le_currency = ''XOF'',
             le_reference = Some ''fund:loan:disbursement:3''\<rparr>,
          \<lparr>le_id = 28, le_account = 2, le_transaction = 26,
             le_direction = CREDIT, le_amount = 1000, le_currency = ''XOF'',
             le_reference = Some ''fund:loan:disbursement:3''\<rparr>,
          \<lparr>le_id = 43, le_account = 2, le_transaction = 42,
             le_direction = DEBIT, le_amount = 200, le_currency = ''XOF'',
             le_reference = Some ''fund:loan:repayment:3''\<rparr>,
          \<lparr>le_id = 44, le_account = 22, le_transaction = 42,
             le_direction = CREDIT, le_amount = 200, le_currency = ''XOF'',
             le_reference = Some ''fund:loan:repayment:3''\<rparr>],
       transactions =
         [\<lparr>tx_id = 17, tx_type = ''deposit'', tx_status = Tx_COMPLETED,
             tx_origin = Some ''wallet'', tx_account = Some 1,
             tx_business = None, tx_amount = Some 5000,
             tx_currency = Some ''XOF'',
             tx_provider_reference = Some ''stub-18'',
             tx_gateway_mode = Some ''stub'', tx_authorization_url = None,
             tx_access_code = None, tx_reverses = None,
             tx_key = Some ''d1'', tx_created = 0, tx_completed = Some 0\<rparr>,
          \<lparr>tx_id = 23, tx_type = ''fund_disbursement'',
             tx_status = Tx_COMPLETED, tx_origin = Some ''fund'',
             tx_account = None, tx_business = None, tx_amount = Some 2000,
             tx_currency = Some ''XOF'', tx_provider_reference = None,
             tx_gateway_mode = None, tx_authorization_url = None,
             tx_access_code = None, tx_reverses = None,
             tx_key = Some ''i1'', tx_created = 0, tx_completed = Some 0\<rparr>,
          \<lparr>tx_id = 26, tx_type = ''fund_disbursement'',
             tx_status = Tx_COMPLETED, tx_origin = Some ''fund'',
             tx_account = None, tx_business = None, tx_amount = Some 1000,
             tx_currency = Some ''XOF'', tx_provider_reference = None,
             tx_gateway_mode = None, tx_authorization_url = None,
             tx_access_code = None, tx_reverses = None,
             tx_key = Some ''fund:loan:disbursement:3'', tx_created = 0,
             tx_completed = Some 0\<rparr>,
          \<lparr>tx_id = 42, tx_type = ''fund_repayment'',
             tx_status = Tx_COMPLETED, tx_origin = Some ''fund'',
             tx_account = None, tx_business = None, tx_amount = Some 200,
             tx_currency = Some ''XOF'', tx_provider_reference = None,
             tx_gateway_mode = None, tx_authorization_url = None,
             tx_access_code = None, tx_reverses = None,
             tx_key = Some ''r1'', tx_created = 0, tx_completed = Some 0\<rparr>],
       gateway_accounts = [\<lparr>ga_provider = ''stub'', ga_account = 16\<rparr>],
       exchange_rates = [], conversions = [],
       phones =
         [\<lparr>up_user = 101, up_phone = ''701''\<rparr>,
          \<lparr>up_user = 102, up_phone = ''702''\<rparr>],
       pins =
         [\<lparr>pin_account = 1, pin_hash = ''$argon2id$1234'',
             pin_salt = ''argon2id'', failed_attempts = 0,
             locked_until = None, pin_updated = 0\<rparr>,
          \<lparr>pin_account = 2, pin_hash = ''$argon2id$1234'',
             pin_salt = ''argon2id'', failed_attempts = 0,
             locked_until = None, pin_updated = 0\<rparr>],
       recovery_codes =
         [\<lparr>rc_id = 5, rc_account = 1, rc_hash = ''hc4'', rc_consumed = None,
             rc_created = 0\<rparr>,
          \<lparr>rc_id = 7, rc_account = 1, rc_hash = ''hc6'', rc_consumed = None,
             rc_created = 0\<rparr>,
          \<lparr>rc_id = 9, rc_account = 1, rc_hash = ''hc8'', rc_consumed = None,
             rc_created = 0\<rparr>,
          \<lparr>rc_id = 11, rc_account = 1, rc_hash = ''hc10'',
             rc_consumed = None, rc_created = 0\<rparr>,
          \<lparr>rc_id = 13, rc_account = 1, rc_hash = ''hc12'',
             rc_consumed = None, rc_created = 0\<rparr>,
          \<lparr>rc_id = 15, rc_account = 1, rc_hash = ''hc14'',
             rc_consumed = None, rc_created = 0\<rparr>,
          \<lparr>rc_id = 31, rc_account = 2, rc_hash = ''hc30'',
             rc_consumed = None, rc_created = 0\<rparr>,
          \<lparr>rc_id = 33, rc_account = 2, rc_hash = ''hc32'',
             rc_consumed = None, rc_created = 0\<rparr>,
          \<lparr>rc_id = 35, rc_account = 2, rc_hash = ''hc34'',
             rc_consumed = None, rc_created = 0\<rparr>,
          \<lparr>rc_id = 37, rc_account = 2, rc_hash = ''hc36'',
             rc_consumed = None, rc_created = 0\<rparr>,
          \<lparr>rc_id = 39, rc_account = 2, rc_hash = ''hc38'',
             rc_consumed = None, rc_created = 0\<rparr>,
          \<lparr>rc_id = 41, rc_account = 2, rc_hash = ''hc40'',
             rc_consumed = None, rc_created = 0\<rparr>],
       consumed_proofs =
         [\<lparr>cp_jti = 900, cp_user = 101, cp_purpose = ''wallet.pin.set'',
             cp_expires = 600\<rparr>,
          \<lparr>cp_jti = 950, cp_user = 102, cp_purpose = ''wallet.pin.set'',
             cp_expires = 600\<rparr>],
       pin_audits = [],
       outbox =
         [\<lparr>ob_id = 21, ob_name = ''payment.completed'',
             ob_payload =
               \<lparr>ep_transaction = 17, ep_type = ''deposit'',
                  ep_amount = 5000, ep_currency = ''XOF'',
                  ep_origin = Some ''wallet''\<rparr>,
             ob_status = Ob_PENDING, ob_published = None\<rparr>],
       bus_events = [], next_uuid = 45, clock = 0\<rparr>,
    payments_part = (),
    campaigns =
      [\<lparr>cmp_id = 1, cmp_owner = 102, cmp_title = ''school'',
          cmp_goal = 10000, cmp_raised = 2000, cmp_currency = ''XOF'',
          cmp_status = Campaign_active, cmp_account = 22, cmp_created = 0\<rparr>],
    investments =
      [\<lparr>inv_id = 2, inv_campaign = 1, inv_investor = 101, inv_amount = 2000,
          inv_transaction = Some 23, inv_intent = None, inv_created = 0\<rparr>],
    loans =
      [\<lparr>ln_id = 3, ln_campaign = 1, ln_borrower = 102, ln_principal = 1000,
          ln_duration = 2, ln_rate = 13 / 2, ln_total = 1065,
          ln_currency = ''XOF'', ln_score = None, ln_status = Loan_repaying,
          ln_disbursed = Some 0, ln_transaction = Some 42, ln_created = 0\<rparr>],
    schedules =
      [\<lparr>rp_loan = 3, rp_no = 1, rp_due_date = Date 2024 2 29, rp_due = 532,
          rp_paid = 200, rp_status = Inst_due, rp_paid_at = None\<rparr>,
       \<lparr>rp_loan = 3, rp_no = 2, rp_due_date = Date 2024 3 31, rp_due = 533,
          rp_paid = 0, rp_status = Inst_due, rp_paid_at = None\<rparr>],
    loan_history =
      [\<lparr>lh_loan = 3, lh_from = None, lh_to = Loan_pending,
          lh_transaction = None\<rparr>,
       \<lparr>lh_loan = 3, lh_from = Some Loan_pending, lh_to = Loan_disbursed,
          lh_transaction = Some 26\<rparr>,
       \<lparr>lh_loan = 3, lh_from = Some Loan_disbursed, lh_to = Loan_repaying,
          lh_transaction = None\<rparr>],
    payment_orders = [], event_inbox = [], fund_next = 4, fund_clock = 0\<rparr>"
  by code_simp

end
