(* ===== verification/FundProps.thy ===== *)
theory FundProps
  imports FundDemo
begin

section \<open>Properties of the crowdfunding module\<close>

text \<open>
  What a campaign has raised, what an investment and a repayment move, when a loan is disbursed, and
  what the events of the payment orchestrator do to an order.
\<close>

lemma reachable_step:
  "fund_reachable demo_env None demo_scoring s \<Longrightarrow> fund_reachable demo_env None demo_scoring (fund_step r s)"
  unfolding fund_step_def using fund_reachable.request [of demo_env None demo_scoring s r] by (simp add: demo_env_def)

lemma reachable_serve_wallet:
  "fund_reachable env P S s \<Longrightarrow> fund_reachable env P S (s\<lparr>wallet_part := serve env rs (wallet_part s)\<rparr>)"
proof (induction rs arbitrary: s)
  case Nil
  then show ?case by simp
next
  case (Cons r rs)
  from Cons.IH [OF fund_reachable.wallet [OF Cons.prems, of r]] show ?case by simp
qed

lemma demo_fund_reachable:
  "fund_reachable demo_env None demo_scoring demo_open"
  "fund_reachable demo_env None demo_scoring demo_invested"
  "fund_reachable demo_env None demo_scoring demo_disbursed"
  "fund_reachable demo_env None demo_scoring demo_repaid"
proof -
  have "fund_reachable demo_env None demo_scoring demo_fund0"
    using reachable_serve_wallet [OF reachable_serve_wallet [OF fund_reachable.start], of demo_env None demo_scoring "[Confirm 17 ''stub'']" demo_setup "()"]
    by (simp add: demo_fund0_def demo_state_def demo_pending_def empty_fund_def)
  then show o': "fund_reachable demo_env None demo_scoring demo_open"
    unfolding demo_open_def activate_def by (intro fund_reachable.operators reachable_step)
  then show i: "fund_reachable demo_env None demo_scoring demo_invested"
    unfolding demo_invested_def by (intro reachable_step)
  then show d: "fund_reachable demo_env None demo_scoring demo_disbursed"
    unfolding demo_disbursed_def by (intro reachable_step)
  then show "fund_reachable demo_env None demo_scoring demo_repaid"
    unfolding demo_repaid_def by (intro reachable_step reachable_serve_wallet)
qed

text \<open>
  C18: in every reachable database a campaign has raised exactly the sum of its investments, no payment
  intent backs two investments, no installment is paid beyond what is due and it is marked paid
  when it is, the schedule of a loan that left \<open>Loan_pending\<close> adds up to the total to repay, and the
  loan is closed exactly when every installment is paid.
\<close>

theorem fund_state_consistent:
  assumes "fund_reachable env P S s"
  shows "(\<forall>c \<in> set (campaigns s). cmp_raised c = sum_list (map inv_amount (filter (\<lambda>v. inv_campaign v = cmp_id c) (investments s))))
    \<and> distinct (filter (\<lambda>i. i \<noteq> None) (map inv_intent (investments s)))
    \<and> (\<forall>r \<in> set (schedules s). 0 \<le> rp_paid r \<and> rp_paid r \<le> rp_due r \<and> (rp_status r = Inst_paid \<longleftrightarrow> rp_paid r = rp_due r))
    \<and> (\<forall>l \<in> set (loans s). let rows = filter (\<lambda>r. rp_loan r = ln_id l) (schedules s) in
        (ln_status l = Loan_pending \<longleftrightarrow> rows = []) \<and> (ln_status l \<noteq> Loan_pending \<longrightarrow>
          sum_list (map rp_due rows) = ln_total l \<and> (ln_status l = Loan_closed \<longleftrightarrow> (\<forall>r \<in> set rows. rp_status r = Inst_paid))))"
  using fund_inv_reachable [OF assms] by (auto simp: fund_and_wallet_def fund_inv_defs row_ok_def Let_def)

theorem fund_state_consistent_witness:
  "\<exists>c \<in> set (campaigns demo_disbursed). cmp_raised c = 2000
     \<and> sum_list (map inv_amount (filter (\<lambda>v. inv_campaign v = cmp_id c) (investments demo_disbursed))) = 2000"
proof -
  have "\<exists>c \<in> set (campaigns demo_disbursed). cmp_raised c = 2000" by code_simp
  with fund_state_consistent [OF demo_fund_reachable(3)] show ?thesis by (metis (no_types, lifting))
qed

subsection \<open>Investments\<close>

lemma compte_de_utilisateur_run:
  "compte_de_utilisateur u w = (Inr i, w') \<Longrightarrow> \<exists>a \<in> set (accounts w'). acc_id a = i \<and> acc_user a = Some u \<and> acc_type a = USER"
  by (auto simp: compte_de_utilisateur_def account_create_Inr split: option.splits dest: account_by_user_SomeD)

lemma posted_accounts: "accounts (posted s r ls) = accounts s"
  by (simp add: posted_def)

lemma transfer_accounts: "transfer a b m ty ref key org st s = (Inr (r, replayed), t) \<Longrightarrow> accounts t = accounts s"
proof (cases "get_by_idempotency_key s key")
  case None
  assume "transfer a b m ty ref key org st s = (Inr (r, replayed), t)"
  then show ?thesis by (rule transfer_fresh [OF _ None]) (simp add: posted_accounts)
qed (simp add: transfer_replay)

lemma service_accounts:
  "debiter c d a ref key ty org w = (Inr tx, w') \<Longrightarrow> accounts w' = accounts w"
  "crediter c d a ref key ty org w = (Inr tx, w') \<Longrightarrow> accounts w' = accounts w"
  by (auto simp: debiter_def crediter_def money_of_service_def update_transaction_def dest!: transfer_accounts)

text \<open>
  C19: an investment that returns is for an open campaign of somebody else that has not reached its goal.
  Under a key the wallet has not seen, the amount leaves the investor's account for the campaign's
  and no other balance changes; unless the transaction is already recorded, one row of that amount,
  investor and transaction is added and the campaign has raised that much more.
\<close>

theorem investment_paid_and_recorded:
  assumes inv: "wallet_inv (wallet_part s)" and run: "investir (wallet_service L) i u a pin key s = (Inr (v, tx), t)"
  shows "\<exists>c src. campaign_get s i = Some c \<and> cmp_status c = Campaign_active \<and> cmp_owner c \<noteq> u \<and> cmp_raised c < cmp_goal c
    \<and> src \<in> set (accounts (wallet_part t)) \<and> acc_user src = Some u \<and> acc_type src = USER
    \<and> (get_by_idempotency_key (wallet_part s) key = None \<longrightarrow> 0 < a \<and>
        (\<forall>j. account_total (wallet_part t) j = account_total (wallet_part s) j - (if j = acc_id src then a else 0)
               + (if j = cmp_account c then a else 0)))
    \<and> (if by_wallet_transaction s tx = None
       then investments t = investments s @ [v] \<and> inv_amount v = a \<and> inv_investor v = u \<and> inv_campaign v = i \<and> inv_transaction v = Some tx
         \<and> campaigns t = update_row cmp_id i (\<lambda>r. r\<lparr>cmp_raised := cmp_raised r + a\<rparr>) (campaigns s)
       else investments t = investments s \<and> campaigns t = campaigns s)"
  using run
proof (rule ws.investir_run [OF inv])
  fix c w0 w account w1
  assume c: "campaign_get s i = Some c" "cmp_status c = Campaign_active" "cmp_owner c \<noteq> u" "cmp_raised c < cmp_goal c"
    and p: "paid_under (account_total (wallet_part s)) (key_owner_of (wallet_part s) key) account (cmp_account c) a tx (account_total w)"
    and acc: "port_compte_de_utilisateur (wallet_service L) u w0 = (Inr account, w1)"
    and d: "port_debiter (wallet_service L) account (cmp_account c) a (''fund:investment:'' @ uuid_str i) key INVESTMENT_TX_TYPE
              (Some ORIGIN_MODULE) w1 = (Inr tx, w)"
    and t: "t = s\<lparr>wallet_part := w\<rparr> \<and> by_wallet_transaction s tx = Some v \<or>
     by_wallet_transaction s tx = None \<and> 0 < a \<and> numeric_14_2 (cmp_raised c + a)
     \<and> v = \<lparr>inv_id = fund_next s, inv_campaign = i, inv_investor = u, inv_amount = a, inv_transaction = Some tx,
            inv_intent = None, inv_created = fund_clock s\<rparr>
     \<and> t = s\<lparr>wallet_part := w, fund_next := Suc (fund_next s), investments := investments s @ [v],
            campaigns := update_row cmp_id i (raise_by a) (campaigns s)\<rparr>"
  from d have "accounts w = accounts w1" by (simp add: wallet_service_def service_accounts)
  with acc compte_de_utilisateur_run [of u w0 account w1] obtain src where src: "src \<in> set (accounts w)" "acc_id src = account"
      "acc_user src = Some u" "acc_type src = USER" by (auto simp: wallet_service_def)
  have w: "wallet_part t = w" using t by auto
  have "get_by_idempotency_key (wallet_part s) key = None \<longrightarrow> 0 < a \<and> account_total w = moved account (cmp_account c) a (account_total (wallet_part s))"
    using p by (auto simp: paid_under_def key_owner_of_def)
  with c src t show ?thesis unfolding w
    by (intro exI [of _ c] exI [of _ src]) (auto simp: moved_def raise_by_def [abs_def])
qed

theorem investment_paid_and_recorded_witness:
  "\<exists>v t. investir (wallet_service demo_lib) 1 101 2000 ''1234'' ''i1'' demo_open = (Inr (v, 23), t)
    \<and> investments t = investments demo_open @ [v] \<and> account_total (wallet_part t) 1 = account_total (wallet_part demo_open) 1 - 2000"
proof -
  have ok: "wallet_inv (wallet_part demo_open)" using fund_inv_reachable [OF demo_fund_reachable(1)] by (simp add: fund_and_wallet_def)
  have "wp (investir (wallet_service demo_lib) 1 101 2000 ''1234'' ''i1'') (\<lambda>x t. snd x = 23
      \<and> (\<forall>a \<in> set (accounts (wallet_part t)). acc_user a = Some 101 \<longrightarrow> acc_id a = 1)
      \<and> get_by_idempotency_key (wallet_part demo_open) ''i1'' = None \<and> by_wallet_transaction demo_open 23 = None
      \<and> (\<forall>c \<in> set (campaigns demo_open). cmp_account c \<noteq> 1)) (\<lambda>_ _. False) demo_open" by code_simp
  from wp_returns [OF this] obtain v t
    where run: "investir (wallet_service demo_lib) 1 101 2000 ''1234'' ''i1'' demo_open = (Inr (v, 23), t)"
    and one: "\<forall>a \<in> set (accounts (wallet_part t)). acc_user a = Some 101 \<longrightarrow> acc_id a = 1"
    and fresh: "get_by_idempotency_key (wallet_part demo_open) ''i1'' = None" "by_wallet_transaction demo_open 23 = None"
    and c: "\<forall>c \<in> set (campaigns demo_open). cmp_account c \<noteq> 1" by (metis prod.collapse)
  from investment_paid_and_recorded [OF ok run] fresh obtain c' src where c': "campaign_get demo_open 1 = Some c'"
    and src: "src \<in> set (accounts (wallet_part t))" "acc_user src = Some 101"
    and moved: "account_total (wallet_part t) 1 = account_total (wallet_part demo_open) 1 - (if 1 = acc_id src then 2000 else 0)
      + (if 1 = cmp_account c' then 2000 else 0)" and rows: "investments t = investments demo_open @ [v]" by auto
  from campaign_get_SomeD [OF c'] c have "cmp_account c' \<noteq> 1" by blast
  moreover from one src have "acc_id src = 1" by blast
  ultimately show ?thesis using run rows moved by simp
qed

text \<open>
  C20: an investment under a key that an earlier transaction of the wallet used never moves money. If an
  investment carries that transaction, it is answered and nothing is recorded; but if none does (the key was
  that of a deposit, or of a transfer to somebody else), the investment of the caller is recorded and the
  campaign raises its amount, although nobody paid.
\<close>

theorem investment_without_payment:
  assumes inv: "wallet_inv (wallet_part s)" and used: "get_by_idempotency_key (wallet_part s) key = Some q"
    and run: "investir (wallet_service L) i u a pin key s = (Inr (v, tx), t)"
  shows "tx = tx_id q \<and> account_total (wallet_part t) = account_total (wallet_part s)
    \<and> (case by_wallet_transaction s (tx_id q) of
         Some v0 \<Rightarrow> v = v0 \<and> investments t = investments s \<and> campaigns t = campaigns s
       | None \<Rightarrow> investments t = investments s @ [v] \<and> inv_amount v = a \<and> inv_investor v = u \<and> inv_campaign v = i
           \<and> campaigns t = update_row cmp_id i (\<lambda>r. r\<lparr>cmp_raised := cmp_raised r + a\<rparr>) (campaigns s))"
  using run
  by (rule ws.investir_run [OF inv])
    (use used in \<open>auto simp: paid_under_def key_owner_of_def raise_by_def [abs_def]\<close>)

theorem investment_without_payment_witness:
  "\<exists>v t. investir (wallet_service demo_lib) 1 101 9000 ''1234'' ''d1'' demo_open = (Inr (v, 17), t)
    \<and> account_total (wallet_part t) = account_total (wallet_part demo_open)
    \<and> investments t = investments demo_open @ [v] \<and> inv_amount v = 9000"
proof -
  have ok: "wallet_inv (wallet_part demo_open)" using fund_inv_reachable [OF demo_fund_reachable(1)] by (simp add: fund_and_wallet_def)
  have "wp (investir (wallet_service demo_lib) 1 101 9000 ''1234'' ''d1'') (\<lambda>x t. snd x = 17
      \<and> by_wallet_transaction demo_open 17 = None
      \<and> map_option tx_id (get_by_idempotency_key (wallet_part demo_open) ''d1'') = Some 17) (\<lambda>_ _. False) demo_open" by code_simp
  from wp_returns [OF this] obtain x t
    where x: "investir (wallet_service demo_lib) 1 101 9000 ''1234'' ''d1'' demo_open = (Inr x, t)" "snd x = 17"
    and k: "by_wallet_transaction demo_open 17 = None" "map_option tx_id (get_by_idempotency_key (wallet_part demo_open) ''d1'') = Some 17"
    by blast
  from k(2) obtain q where q: "get_by_idempotency_key (wallet_part demo_open) ''d1'' = Some q" "tx_id q = 17" by blast
  with k(1) have "by_wallet_transaction demo_open (tx_id q) = None" by simp
  moreover from x obtain v where run: "investir (wallet_service demo_lib) 1 101 9000 ''1234'' ''d1'' demo_open = (Inr (v, 17), t)"
    by (cases x) simp
  ultimately show ?thesis using investment_without_payment [OF ok q(1) run] by auto
qed

subsection \<open>Loans\<close>

lemma loan_get_updated:
  "(\<And>x. ln_id (f x) = ln_id x) \<Longrightarrow> loans t = update_row ln_id i f (loans s) \<Longrightarrow> loan_get t i = map_option f (loan_get s i)"
  by (simp add: loan_get_def lookup_update_row)

text \<open>
  C21: a disbursement that returns is of a pending loan, writes its schedule, whose amounts add up to the total
  to repay, and marks it disbursed; a second disbursement is refused, whatever the wallet answers. The capital
  leaves the campaign's account for the borrower's if the wallet has no transaction under the key of the
  disbursement; if it has one, whatever it was for, no balance changes and the loan is disbursed all the same.
\<close>

theorem loan_disbursed_once:
  assumes reach: "fund_and_wallet wallet_inv s" and run: "decaisser (wallet_service L) i depart s = (Inr l', t)"
  shows "\<exists>l c dst. loan_get s i = Some l \<and> ln_status l = Loan_pending \<and> campaign_get s (ln_campaign l) = Some c
    \<and> dst \<in> set (accounts (wallet_part t)) \<and> acc_user dst = Some (ln_borrower l) \<and> acc_type dst = USER
    \<and> (if get_by_idempotency_key (wallet_part s) (''fund:loan:disbursement:'' @ uuid_str i) = None
       then \<forall>j. account_total (wallet_part t) j = account_total (wallet_part s) j - (if j = cmp_account c then ln_principal l else 0)
               + (if j = acc_id dst then ln_principal l else 0)
       else account_total (wallet_part t) = account_total (wallet_part s))
    \<and> (\<exists>es. schedules t = schedules s @ map (schedule_row i) es \<and> map installment_no es = [1..ln_duration l]
         \<and> sum_list (map amount_due es) = ln_total l)
    \<and> loan_get t i = Some l' \<and> ln_status l' = Loan_disbursed
    \<and> fst (decaisser W i depart' t) = Inl LoanAlreadyDisbursed"
proof -
  from reach have ok: "wallet_inv (wallet_part s)" "distinct (map ln_id (loans s))"
    by (simp_all add: fund_and_wallet_def fund_inv_def loans_ok_def)
  from run obtain l c es w w0 account tx h where l: "loan_get s i = Some l" "ln_status l = Loan_pending"
    and c: "campaign_get s (ln_campaign l) = Some c"
    and es: "construire_echeancier (stored_terms (ln_principal l) (ln_duration l) (ln_rate l) (ln_total l)) depart = Inr es"
    and "\<forall>e \<in> set es. 0 < amount_due e" "wallet_inv w"
    and p: "paid_under (account_total (wallet_part s)) (key_owner_of (wallet_part s) (''fund:loan:disbursement:'' @ uuid_str i))
       (cmp_account c) account (ln_principal l) tx (account_total w)"
    and acc: "port_compte_de_utilisateur (wallet_service L) (ln_borrower l) (wallet_part s) = (Inr account, w0)"
    and cr: "port_crediter (wallet_service L) account (cmp_account c) (ln_principal l) (''fund:loan:disbursement:'' @ uuid_str i)
       (''fund:loan:disbursement:'' @ uuid_str i) ''fund_disbursement'' (Some ORIGIN_MODULE) w0 = (Inr tx, w)"
    and l': "loan_get t i = Some l'"
    and t: "t = s\<lparr>wallet_part := w, schedules := schedules s @ map (schedule_row i) es, loan_history := h,
       loans := update_row ln_id i (\<lambda>r. r\<lparr>ln_disbursed := Some (fund_clock s), ln_transaction := Some tx, ln_status := Loan_disbursed\<rparr>) (loans s)\<rparr>"
    by (rule ws.decaisser_run [OF ok])
  from cr have "accounts w = accounts w0" by (simp add: wallet_service_def service_accounts)
  with acc compte_de_utilisateur_run [of "ln_borrower l" "wallet_part s" account w0] obtain dst where dst: "dst \<in> set (accounts w)"
      "acc_id dst = account" "acc_user dst = Some (ln_borrower l)" "acc_type dst = USER" by (auto simp: wallet_service_def)
  have "1 \<le> ln_duration l" using reach loan_get_SomeD [OF l(1)] by (auto simp: fund_and_wallet_def fund_inv_def loans_ok_def loan_ok_def)
  with schedule_rows [OF es] echeances_from_Inr [OF es [unfolded construire_echeancier_def]]
  have sched: "map installment_no es = [1..ln_duration l]" "sum_list (map amount_due es) = ln_total l"
    by (simp_all add: stored_terms_def)
  have "loan_get t i = map_option (\<lambda>r. r\<lparr>ln_disbursed := Some (fund_clock s), ln_transaction := Some tx, ln_status := Loan_disbursed\<rparr>) (loan_get s i)"
    by (rule loan_get_updated) (simp_all add: t)
  with l l' have st: "ln_status l' = Loan_disbursed" by auto
  with l' have "fst (decaisser W i depart' t) = Inl LoanAlreadyDisbursed"
    by (simp add: decaisser_def step_simps)
  moreover have "account_total w = (if get_by_idempotency_key (wallet_part s) (''fund:loan:disbursement:'' @ uuid_str i) = None
      then moved (cmp_account c) account (ln_principal l) (account_total (wallet_part s)) else account_total (wallet_part s))"
    using p by (auto simp: paid_under_def key_owner_of_def)
  ultimately show ?thesis
    using l c dst sched l' st by (intro exI [of _ l] exI [of _ c] exI [of _ dst]) (auto simp: t moved_def)
qed

theorem loan_disbursed_once_witness:
  "\<exists>l t. decaisser (wallet_service demo_lib) 3 (Date 2024 1 31) demo_invested = (Inr l, t) \<and> ln_status l = Loan_disbursed
    \<and> fst (decaisser (wallet_service demo_lib) 3 (Date 2024 2 1) t) = Inl LoanAlreadyDisbursed"
proof -
  have ok: "fund_and_wallet wallet_inv demo_invested" by (rule fund_inv_reachable [OF demo_fund_reachable(2)])
  have "wp (decaisser (wallet_service demo_lib) 3 (Date 2024 1 31)) (\<lambda>_ _. True) (\<lambda>_ _. False) demo_invested" by code_simp
  from wp_returns [OF this] obtain l t where run: "decaisser (wallet_service demo_lib) 3 (Date 2024 1 31) demo_invested = (Inr l, t)" by blast
  from loan_disbursed_once [OF ok run, of "wallet_service demo_lib" "Date 2024 2 1"] run show ?thesis by blast
qed

text \<open>
  A repayment that returns is of the caller's own loan and adds its amount to the first unpaid
  installment, never beyond what is due. Under a key the wallet has not seen, the amount leaves the
  borrower's account for the campaign's; under a key that any earlier transaction used, also that of
  the same repayment sent twice, the installment is credited again although no balance changes.
\<close>

theorem repayment_counts_every_request:
  assumes reach: "fund_and_wallet wallet_inv s" and run: "rembourser (wallet_service L) i u a pin key s = (Inr x, t)"
  shows "\<exists>l e c src. loan_get s i = Some l \<and> ln_borrower l = u \<and> ln_status l \<noteq> Loan_pending \<and> campaign_get s (ln_campaign l) = Some c
    \<and> prochaine_echeance s i = Some e \<and> 0 \<le> a \<and> rp_paid e + a \<le> rp_due e
    \<and> map (\<lambda>r. (row_key r, rp_paid r)) (schedules t)
        = map (\<lambda>r. (row_key r, if row_key r = (i, rp_no e) then rp_paid r + a else rp_paid r)) (schedules s)
    \<and> src \<in> set (accounts (wallet_part t)) \<and> acc_user src = Some u \<and> acc_type src = USER
    \<and> (if get_by_idempotency_key (wallet_part s) key = None
       then \<forall>j. account_total (wallet_part t) j = account_total (wallet_part s) j - (if j = acc_id src then a else 0)
               + (if j = cmp_account c then a else 0)
       else account_total (wallet_part t) = account_total (wallet_part s))"
proof -
  from reach have ok: "wallet_inv (wallet_part s)" "fund_inv s" by (simp_all add: fund_and_wallet_def)
  from run obtain l e c w w0 w1 tx account new h where l: "loan_get s i = Some l" "ln_borrower l = u" "ln_status l \<noteq> Loan_pending"
    and e: "prochaine_echeance s i = Some e" "a \<le> rp_due e - rp_paid e" and c: "campaign_get s (ln_campaign l) = Some c" and "wallet_inv w"
    and p: "paid_under (account_total (wallet_part s)) (key_owner_of (wallet_part s) key) account (cmp_account c) a tx (account_total w)"
    and acc: "port_compte_de_utilisateur (wallet_service L) u w0 = (Inr account, w1)"
    and d: "port_debiter (wallet_service L) account (cmp_account c) a (''fund:loan:repayment:'' @ uuid_str i) key ''fund_repayment'' (Some ORIGIN_MODULE) w1 = (Inr tx, w)"
    and "new = (if prochaine_echeance t i = None then Loan_closed else if ln_status l = Loan_disbursed then Loan_repaying else ln_status l)"
    and t: "t = s\<lparr>wallet_part := w, schedules := update_row row_key (i, rp_no e) (paid_row a (fund_clock s)) (schedules s),
       loans := update_row ln_id i (\<lambda>r. r\<lparr>ln_transaction := Some tx, ln_status := new\<rparr>) (loans s), loan_history := h\<rparr>"
    by (rule ws.rembourser_run [OF ok])
  from d have "accounts w = accounts w1" by (simp add: wallet_service_def service_accounts)
  with acc compte_de_utilisateur_run [of u w0 account w1] obtain src where src: "src \<in> set (accounts w)" "acc_id src = account"
      "acc_user src = Some u" "acc_type src = USER" by (auto simp: wallet_service_def)
  have rows: "map (\<lambda>r. (row_key r, rp_paid r)) (schedules t)
        = map (\<lambda>r. (row_key r, if row_key r = (i, rp_no e) then rp_paid r + a else rp_paid r)) (schedules s)"
    by (simp add: t update_row_def)
  have money: "0 \<le> a" "if get_by_idempotency_key (wallet_part s) key = None then account_total w = moved account (cmp_account c) a (account_total (wallet_part s))
      else account_total w = account_total (wallet_part s)"
    using p by (auto simp: paid_under_def key_owner_of_def split: option.split_asm)
  have w: "wallet_part t = w" by (simp add: t)
  show ?thesis
    unfolding w using l e c src rows money
    by (intro exI [of _ l] exI [of _ e] exI [of _ c] exI [of _ src]) (auto simp: moved_def split: if_splits)
qed

theorem repayment_counts_every_request_witness:
  "\<exists>t. rembourser (wallet_service demo_lib) 3 102 200 ''1234'' ''r1'' demo_repaid = (Inr (), t)
    \<and> account_total (wallet_part t) = account_total (wallet_part demo_repaid)
    \<and> map rp_paid (schedules demo_repaid) = [200, 0] \<and> map rp_paid (schedules t) = [400, 0]"
proof -
  have ok: "fund_and_wallet wallet_inv demo_repaid" by (rule fund_inv_reachable [OF demo_fund_reachable(4)])
  have "wp (rembourser (wallet_service demo_lib) 3 102 200 ''1234'' ''r1'') (\<lambda>_ t. map rp_paid (schedules t) = [400, 0]
      \<and> map rp_paid (schedules demo_repaid) = [200, 0] \<and> get_by_idempotency_key (wallet_part demo_repaid) ''r1'' \<noteq> None)
      (\<lambda>_ _. False) demo_repaid" by code_simp
  from wp_returns_unit [OF this] obtain t where all: "rembourser (wallet_service demo_lib) 3 102 200 ''1234'' ''r1'' demo_repaid = (Inr (), t)
      \<and> map rp_paid (schedules t) = [400, 0] \<and> map rp_paid (schedules demo_repaid) = [200, 0]
      \<and> get_by_idempotency_key (wallet_part demo_repaid) ''r1'' \<noteq> None" by (rule exE)
  note run = all [THEN conjunct1] and rows = all [THEN conjunct2, THEN conjunct1] all [THEN conjunct2, THEN conjunct2, THEN conjunct1]
    and used = all [THEN conjunct2, THEN conjunct2, THEN conjunct2]
  from repayment_counts_every_request [OF ok run, unfolded if_not_P [OF used]]
  have same: "account_total (wallet_part t) = account_total (wallet_part demo_repaid)" by (elim exE conjE)
  show ?thesis by (rule exI [of _ t], intro conjI run same rows)
qed

subsection \<open>Events of the payment orchestrator\<close>

lemma add_once_Inr: "add_once e s = (Inr b, t) \<longleftrightarrow>
    (if e \<in> set (event_inbox s) then \<not> b \<and> t = s else b \<and> t = s\<lparr>event_inbox := event_inbox s @ [e]\<rparr>)"
  by (auto simp: add_once_def)

lemma duplicate_event: "e \<in> set (event_inbox t) \<Longrightarrow> apply_event e ty d t = (Inr Applied_duplicate, t)"
  by (simp add: apply_event_def add_once_def op_defs)

text \<open>
  C22: an event is applied at most once: whatever it says the second time, nothing changes. The first
  success of an order that has not succeeded records exactly one investment of the order's amount
  and payer under its payment intent and raises the campaign by it; any other event records none.
\<close>

theorem payment_event_once:
  assumes run: "apply_event e ty d s = (Inr r, t)"
  shows "apply_event e ty' d' t = (Inr Applied_duplicate, t)
    \<and> (e \<in> set (event_inbox s) \<longrightarrow> t = s)
    \<and> (e \<notin> set (event_inbox s) \<longrightarrow> (\<exists>intent order. ed_intent d = Some intent \<and> order_by_payment_intent s intent = Some order
        \<and> ed_reference d = Some (po_reference order) \<and> ed_amount d = po_amount order \<and> ed_currency d = Some (po_currency order)
        \<and> (if ty = ''payment.succeeded'' \<and> po_status order \<noteq> ''succeeded''
           then \<exists>v c. po_campaign order = Some c \<and> investments t = investments s @ [v] \<and> inv_amount v = po_amount order
             \<and> inv_investor v = po_payer order \<and> inv_intent v = Some intent \<and> inv_campaign v = c
             \<and> Some intent \<notin> inv_intent ` set (investments s)
             \<and> campaigns t = update_row cmp_id c (\<lambda>x. x\<lparr>cmp_raised := cmp_raised x + po_amount order\<rparr>) (campaigns s)
           else investments t = investments s \<and> campaigns t = campaigns s)))"
proof (cases "e \<in> set (event_inbox s)")
  case True
  with run show ?thesis by (simp add: duplicate_event)
next
  case False
  define u where "u = s\<lparr>event_inbox := event_inbox s @ [e]\<rparr>"
  from run False obtain intent order where d: "ed_intent d = Some intent" "order_by_payment_intent u intent = Some order"
      "ed_reference d = Some (po_reference order)" "ed_amount d = po_amount order" "ed_currency d = Some (po_currency order)"
    and rest: "(if ty \<noteq> ''payment.succeeded'' then
          thenE (set_order_status (po_id order) (case ed_status d of None \<Rightarrow> po_status order
                   | Some st \<Rightarrow> if st = [] then po_status order else st)) (retE Applied_processed)
        else
          thenE (whenE (po_status order \<noteq> ''succeeded'')
            (bindE (readE (\<lambda>s. case po_campaign order of None \<Rightarrow> None | Some c \<Rightarrow> campaign_get s c)) (\<lambda>foundc.
             bindE (some_or CampaignNotFound foundc) (\<lambda>c.
             bindE (investment_create (cmp_id c) (po_payer order) (po_amount order) None (Some (po_intent order))) (\<lambda>_.
             bindE (readE fund_clock) (\<lambda>t.
             thenE (ensure (numeric_14_2 (cmp_raised c + po_amount order)) Fund_data)
             (thenE (update_campaign (cmp_id c) (\<lambda>r. r\<lparr>cmp_raised := cmp_raised r + po_amount order\<rparr>))
               (update_order (po_id order) (\<lambda>r. r\<lparr>po_status := ''succeeded'', po_completed := Some t\<rparr>)))))))))
            (retE Applied_processed)) u = (Inr r, t)"
    unfolding apply_event_def u_def by (auto simp: add_once_Inr simp del: if_not_P)
  have order: "order_by_payment_intent s intent = Some order" "po_intent order = intent"
    using d(2) by (auto simp: u_def order_by_payment_intent_def dest: lookup_row_SomeD)
  have facts: "e \<in> set (event_inbox t) \<and> (if ty = ''payment.succeeded'' \<and> po_status order \<noteq> ''succeeded''
           then \<exists>v c. po_campaign order = Some c \<and> investments t = investments s @ [v] \<and> inv_amount v = po_amount order
             \<and> inv_investor v = po_payer order \<and> inv_intent v = Some intent \<and> inv_campaign v = c
             \<and> Some intent \<notin> inv_intent ` set (investments s)
             \<and> campaigns t = update_row cmp_id c (\<lambda>x. x\<lparr>cmp_raised := cmp_raised x + po_amount order\<rparr>) (campaigns s)
           else investments t = investments s \<and> campaigns t = campaigns s)"
    using rest order(2)
    by (auto simp: u_def set_order_status_def update_order_def update_campaign_def investment_create_Inr
        split: if_splits option.split_asm dest: campaign_get_SomeD)
  with duplicate_event [of e t ty' d'] d order False show ?thesis by (auto simp: u_def)
qed

definition demo_port :: "unit payment_port" where
  "demo_port = \<lparr>create_collection = (\<lambda>r. retE \<lparr>cr_intent = 77, cr_status = ''processing'', cr_action = None\<rparr>),
     get_collection = (\<lambda>i. retE \<lparr>cr_intent = i, cr_status = ''processing'', cr_action = None\<rparr>)\<rparr>"

definition demo_ordered :: "(wallet_db, unit) fund_db" where
  "demo_ordered = snd (atomically (start_investment (Some demo_port) 1 101 500 ''k1'' None None None None None) demo_open)"

definition demo_event :: event_data where
  "demo_event = \<lparr>ed_intent = Some 77, ed_reference = Some (''fund:investment:1:k1''), ed_amount = 500, ed_currency = Some XOF,
     ed_status = Some ''succeeded''\<rparr>"

theorem payment_event_once_witness:
  "\<exists>t v. apply_event 900 ''payment.succeeded'' demo_event demo_ordered = (Inr Applied_processed, t)
    \<and> apply_event 900 ''payment.succeeded'' demo_event t = (Inr Applied_duplicate, t)
    \<and> investments t = investments demo_ordered @ [v] \<and> inv_amount v = 500"
proof -
  have "wp (apply_event 900 ''payment.succeeded'' demo_event) (\<lambda>r t. r = Applied_processed \<and> 900 \<notin> set (event_inbox demo_ordered)
      \<and> map_option po_status (order_by_payment_intent demo_ordered 77) = Some ''processing''
      \<and> map_option po_amount (order_by_payment_intent demo_ordered 77) = Some 500) (\<lambda>_ _. False) demo_ordered" by code_simp
  from wp_returns [OF this] obtain r t where run: "apply_event 900 ''payment.succeeded'' demo_event demo_ordered = (Inr r, t)" "r = Applied_processed"
    and new: "900 \<notin> set (event_inbox demo_ordered)"
    and st: "map_option po_status (order_by_payment_intent demo_ordered 77) = Some ''processing''"
      "map_option po_amount (order_by_payment_intent demo_ordered 77) = Some 500" by blast
  have i: "ed_intent demo_event = Some 77" by (simp add: demo_event_def)
  from payment_event_once [OF run(1), of "''payment.succeeded''" demo_event] new st i obtain v
    where "investments t = investments demo_ordered @ [v]" "inv_amount v = 500"
      "apply_event 900 ''payment.succeeded'' demo_event t = (Inr Applied_duplicate, t)" by auto
  with run show ?thesis by blast
qed

end
