(* ===== verification/PayDomain.thy ===== *)
theory PayDomain
  imports PyStrings
begin

section \<open>Payments: entities, state machines and ports\<close>

text \<open>
  \<^verbatim>\<open>payments/domain/entities.py\<close>, \<^verbatim>\<open>payments/domain/errors.py\<close>, \<^verbatim>\<open>payments/application/errors.py\<close>
  and the values of \<^verbatim>\<open>payments/application/ports.py\<close>. A payment intent, an attempt, a refund and
  a payout each have a status that moves along a table; \<open>status_machine\<close> is what the four tables
  have in common.
\<close>

subsection \<open>Exceptions\<close>

datatype pexc =
    P_InvalidAmount | P_InvalidCurrency | P_InvalidStateTransition string
  | P_PaymentNotFound | P_IdempotencyConflict | P_OperationConflict | P_PersistenceConflict
  | P_ProcessorRequestRejected | P_ProcessorCallUncertain | P_ProcessorWebhookRejected
  | P_RoutingError | P_Integrity | P_Value string | P_Lookup | P_NotImplemented
  | P_NotFound string | P_Conflict string | P_Unprocessable string

subsection \<open>Statuses and their transitions\<close>

datatype intent_status = Pi_requires_action | Pi_processing | Pi_succeeded | Pi_failed | Pi_cancelled
  | Pi_partially_refunded | Pi_refunded

datatype attempt_status = At_pending | At_requires_action | At_processing | At_succeeded | At_failed
  | At_cancelled | At_unknown

datatype refund_status = Rf_pending | Rf_processing | Rf_succeeded | Rf_failed

datatype payout_status = Pt_pending | Pt_processing | Pt_succeeded | Pt_failed | Pt_disputed

fun intent_status_str :: "intent_status \<Rightarrow> string" where
  "intent_status_str Pi_requires_action = ''requires_action''"
| "intent_status_str Pi_processing = ''processing''"
| "intent_status_str Pi_succeeded = ''succeeded''"
| "intent_status_str Pi_failed = ''failed''"
| "intent_status_str Pi_cancelled = ''cancelled''"
| "intent_status_str Pi_partially_refunded = ''partially_refunded''"
| "intent_status_str Pi_refunded = ''refunded''"

fun payout_status_str :: "payout_status \<Rightarrow> string" where
  "payout_status_str Pt_pending = ''pending''"
| "payout_status_str Pt_processing = ''processing''"
| "payout_status_str Pt_succeeded = ''succeeded''"
| "payout_status_str Pt_failed = ''failed''"
| "payout_status_str Pt_disputed = ''disputed''"

datatype next_action_type = Redirect | Mobile_money_prompt | Display_instructions | Await_confirmation | No_action

fun intent_transitions :: "intent_status \<Rightarrow> intent_status list" where
  "intent_transitions Pi_processing = [Pi_requires_action, Pi_succeeded, Pi_failed, Pi_cancelled]"
| "intent_transitions Pi_requires_action = [Pi_processing, Pi_succeeded, Pi_failed, Pi_cancelled]"
| "intent_transitions Pi_failed = [Pi_processing]"
| "intent_transitions Pi_succeeded = [Pi_partially_refunded, Pi_refunded]"
| "intent_transitions Pi_partially_refunded = [Pi_partially_refunded, Pi_refunded]"
| "intent_transitions Pi_cancelled = []"
| "intent_transitions Pi_refunded = []"

fun attempt_transitions :: "attempt_status \<Rightarrow> attempt_status list" where
  "attempt_transitions At_pending = [At_requires_action, At_processing, At_succeeded, At_failed, At_cancelled, At_unknown]"
| "attempt_transitions At_requires_action = [At_processing, At_succeeded, At_failed, At_cancelled, At_unknown]"
| "attempt_transitions At_processing = [At_succeeded, At_failed, At_unknown]"
| "attempt_transitions At_unknown = [At_processing, At_succeeded, At_failed]"
| "attempt_transitions At_succeeded = []"
| "attempt_transitions At_failed = []"
| "attempt_transitions At_cancelled = []"

fun refund_transitions :: "refund_status \<Rightarrow> refund_status list" where
  "refund_transitions Rf_pending = [Rf_processing, Rf_succeeded, Rf_failed]"
| "refund_transitions Rf_processing = [Rf_succeeded, Rf_failed]"
| "refund_transitions Rf_succeeded = []"
| "refund_transitions Rf_failed = []"

definition moves_to :: "('s \<Rightarrow> 's list) \<Rightarrow> string \<Rightarrow> 's \<Rightarrow> 's \<Rightarrow> pexc + 's" where
  "moves_to table entity current target =
     (if target = current then Inr current
      else if target \<notin> set (table current) then Inl (P_InvalidStateTransition entity)
      else Inr target)"

lemma moves_to_Inr: "moves_to table entity x y = Inr z \<longleftrightarrow> z = y \<and> (y = x \<or> y \<in> set (table x))"
  by (auto simp: moves_to_def)

text \<open>
  The statuses of a machine split into those it may still leave and the settled ones, which lead
  only to settled ones again; \<open>path\<close> is what any number of accepted moves can do.
\<close>

inductive path :: "('s \<Rightarrow> 's list) \<Rightarrow> 's \<Rightarrow> 's \<Rightarrow> bool" for table where
  path_refl: "path table x x"
| path_step: "path table x y \<Longrightarrow> z \<in> set (table y) \<Longrightarrow> path table x z"

lemma path_trans: "path table x y \<Longrightarrow> path table y z \<Longrightarrow> path table x z"
  by (rotate_tac, induction rule: path.induct) (auto intro: path.intros)

lemma path_single: "y \<in> set (table x) \<Longrightarrow> path table x y"
  by (blast intro: path.intros)

lemma moves_to_path: "moves_to table entity x y = Inr z \<Longrightarrow> path table x z"
  by (auto simp: moves_to_Inr intro: path_single path_refl)

locale status_machine =
  fixes table :: "'s \<Rightarrow> 's list" and settled :: "'s \<Rightarrow> bool"
  assumes settled_closed: "settled x \<Longrightarrow> y \<in> set (table x) \<Longrightarrow> settled y"
begin

lemma settled_path: "path table x y \<Longrightarrow> settled x \<Longrightarrow> settled y"
  by (induction rule: path.induct) (auto intro: settled_closed)

lemma settled_move: "moves_to table entity x y = Inr z \<Longrightarrow> settled x \<Longrightarrow> settled z"
  by (rule settled_path [OF moves_to_path])

end

definition paid_status :: "intent_status \<Rightarrow> bool" where
  "paid_status x \<longleftrightarrow> x \<in> {Pi_succeeded, Pi_partially_refunded, Pi_refunded}"

interpretation intent_paid: status_machine intent_transitions paid_status
  by unfold_locales (auto simp: paid_status_def)

interpretation intent_cancelled: status_machine intent_transitions "\<lambda>x. x = Pi_cancelled"
  by unfold_locales auto

interpretation attempt_final: status_machine attempt_transitions "\<lambda>x. x = y \<and> y \<in> {At_succeeded, At_failed, At_cancelled}" for y
  by unfold_locales auto

interpretation refund_final: status_machine refund_transitions "\<lambda>x. x = y \<and> y \<in> {Rf_succeeded, Rf_failed}" for y
  by unfold_locales auto

subsection \<open>Amounts and actions\<close>

record pay_money =
  pm_amount :: int
  pm_currency :: string

definition mk_pay_money :: "int \<Rightarrow> string \<Rightarrow> pexc + pay_money" where
  "mk_pay_money a c =
     (if a \<le> 0 then Inl P_InvalidAmount
      else let normalized = upper (strip c)
           in if length normalized \<noteq> 3 \<or> \<not> is_alpha normalized then Inl P_InvalidCurrency
              else Inr \<lparr>pm_amount = a, pm_currency = normalized\<rparr>)"

record next_action =
  na_type :: next_action_type
  na_url :: "string option"
  na_instructions :: "string option"
  na_expires :: "instant option"

definition mk_next_action :: "next_action_type \<Rightarrow> string option \<Rightarrow> string option \<Rightarrow> instant option \<Rightarrow> pexc + next_action" where
  "mk_next_action ty url instructions expires =
     (if ty = Redirect \<and> \<not> truthy url then Inl (P_Value ''redirect next action requires a URL'')
      else Inr \<lparr>na_type = ty, na_url = url, na_instructions = instructions, na_expires = expires\<rparr>)"

subsection \<open>Entities\<close>

text \<open>
  An entity and its row have the same fields, so one record stands for both. Metadata and
  destinations are JSON objects; the code reads string members of them only.
\<close>

type_synonym json_object = "(string \<times> string) list"

record pay_intent =
  pi_id :: uuid
  pi_client :: string
  pi_reference :: string
  pi_payer :: "uuid option"
  pi_payee :: "uuid option"
  pi_money :: pay_money
  pi_status :: intent_status
  pi_key :: string
  pi_fingerprint :: string
  pi_description :: "string option"
  pi_metadata :: json_object
  pi_refunded :: int
  pi_created :: instant
  pi_updated :: instant

record pay_attempt =
  pa_id :: uuid
  pa_intent :: uuid
  pa_number :: int
  pa_processor :: string
  pa_channel :: "string option"
  pa_network :: "string option"
  pa_money :: pay_money
  pa_status :: attempt_status
  pa_provider_ref :: "string option"
  pa_provider_status :: "string option"
  pa_action :: "next_action option"
  pa_failure :: "string option"
  pa_created :: instant
  pa_updated :: instant

record pay_refund =
  rf_id :: uuid
  rf_intent :: uuid
  rf_attempt :: uuid
  rf_client :: string
  rf_processor :: string
  rf_money :: pay_money
  rf_status :: refund_status
  rf_key :: string
  rf_fingerprint :: string
  rf_reason :: "string option"
  rf_provider_ref :: "string option"
  rf_provider_status :: "string option"
  rf_created :: instant
  rf_updated :: instant

record pay_payout =
  pt_id :: uuid
  pt_client :: string
  pt_reference :: string
  pt_beneficiary :: string
  pt_money :: pay_money
  pt_status :: payout_status
  pt_key :: string
  pt_fingerprint :: string
  pt_processor :: string
  pt_provider_ref :: "string option"
  pt_provider_status :: "string option"
  pt_failure :: "string option"
  pt_metadata :: json_object
  pt_destination :: "json_object option"
  pt_created :: instant
  pt_updated :: instant

definition intent_transition_to :: "instant \<Rightarrow> intent_status \<Rightarrow> pay_intent \<Rightarrow> pexc + pay_intent" where
  "intent_transition_to now target i =
     (if target = pi_status i then Inr i
      else map_sum id (\<lambda>st. i\<lparr>pi_status := st, pi_updated := now\<rparr>)
        (moves_to intent_transitions ''payment_intent'' (pi_status i) target))"

definition attempt_transition_to :: "instant \<Rightarrow> attempt_status \<Rightarrow> pay_attempt \<Rightarrow> pexc + pay_attempt" where
  "attempt_transition_to now target a =
     (if target = pa_status a then Inr a
      else map_sum id (\<lambda>st. a\<lparr>pa_status := st, pa_updated := now\<rparr>)
        (moves_to attempt_transitions ''payment_attempt'' (pa_status a) target))"

definition refund_transition_to :: "instant \<Rightarrow> refund_status \<Rightarrow> pay_refund \<Rightarrow> pexc + pay_refund" where
  "refund_transition_to now target r =
     (if target = rf_status r then Inr r
      else map_sum id (\<lambda>st. r\<lparr>rf_status := st, rf_updated := now\<rparr>)
        (moves_to refund_transitions ''refund'' (rf_status r) target))"

definition apply_refund :: "instant \<Rightarrow> int \<Rightarrow> pay_intent \<Rightarrow> pexc + pay_intent" where
  "apply_refund now a i =
     (if pi_status i \<noteq> Pi_succeeded \<and> pi_status i \<noteq> Pi_partially_refunded
      then Inl (P_InvalidStateTransition ''payment_intent'')
      else if a \<le> 0 \<or> pm_amount (pi_money i) < pi_refunded i + a then Inl P_InvalidAmount
      else let r = pi_refunded i + a
           in intent_transition_to now
                (if r = pm_amount (pi_money i) then Pi_refunded else Pi_partially_refunded)
                (i\<lparr>pi_refunded := r\<rparr>))"

definition apply_provider_status :: "instant \<Rightarrow> payout_status \<Rightarrow> string option \<Rightarrow> string option \<Rightarrow> string option \<Rightarrow>
    pay_payout \<Rightarrow> pexc + pay_payout" where
  "apply_provider_status now status provider_ref provider_status failure p =
     (if (pt_status p = Pt_succeeded \<or> pt_status p = Pt_failed) \<and> status \<noteq> pt_status p
      then Inl (P_InvalidStateTransition ''payout'')
      else Inr (p\<lparr>pt_status := status, pt_provider_ref := or_else provider_ref (pt_provider_ref p),
             pt_provider_status := provider_status, pt_failure := failure, pt_updated := now\<rparr>))"

end
