(* ===== verification/PayDb.thy ===== *)
theory PayDb
  imports PayDomain
begin

section \<open>Payments: tables and repositories\<close>

text \<open>
  The tables of \<^verbatim>\<open>payments/infra/models.py\<close> with their constraints, and the repositories of
  \<^verbatim>\<open>payments/infra/repositories.py\<close>, \<^verbatim>\<open>backoffice_commands.py\<close> and \<^verbatim>\<open>support_refunds.py\<close>. A
  violated constraint is the exception \<open>P_Integrity\<close>, raised by the flush of the operation.
\<close>

subsection \<open>Rows\<close>

datatype event_status = Ev_received | Ev_processed | Ev_ignored | Ev_failed

record provider_event =
  pe_id :: uuid
  pe_processor :: string
  pe_key :: string
  pe_type :: string
  pe_status :: event_status
  pe_attempt :: "uuid option"
  pe_error :: "string option"

datatype delivery_status = Ob_pending | Ob_delivering | Ob_delivered | Ob_dead_letter

datatype pay_payload =
    Payment_payload string uuid string int string string
  | Payout_payload uuid string string int string string json_object
  | Support_payload uuid uuid uuid "uuid option" string "(string \<times> string option) list" string

record pay_outbox =
  px_id :: uuid
  px_client :: string
  px_type :: string
  px_aggregate :: uuid
  px_payload :: pay_payload
  px_status :: delivery_status
  px_attempts :: nat
  px_error :: "string option"
  px_next_attempt :: instant
  px_delivered :: "instant option"
  px_locked :: "instant option"
  px_created :: instant

datatype command_status = Cmd_processing | Cmd_completed | Cmd_failed

datatype command_result = No_result | Retry_result uuid | Settlement_result uuid int string string string

record backoffice_command =
  bc_id :: uuid
  bc_client :: string
  bc_command :: string
  bc_actor :: string
  bc_key :: string
  bc_action :: string
  bc_target_type :: string
  bc_target :: uuid
  bc_reason :: string
  bc_fingerprint :: string
  bc_status :: command_status
  bc_result :: command_result

record journal =
  fj_id :: uuid
  fj_intent :: "uuid option"
  fj_payout :: "uuid option"
  fj_type :: string
  fj_reference :: string
  fj_amount :: int
  fj_currency :: string
  fj_created :: instant

datatype fin_direction = Fin_debit | Fin_credit

record fin_entry =
  fe_id :: uuid
  fe_journal :: uuid
  fe_account :: string
  fe_direction :: fin_direction
  fe_amount :: int
  fe_currency :: string

record pay_db =
  intents :: "pay_intent list"
  attempts :: "pay_attempt list"
  provider_events :: "provider_event list"
  refunds :: "pay_refund list"
  pay_outboxes :: "pay_outbox list"
  commands :: "backoffice_command list"
  payouts :: "pay_payout list"
  journals :: "journal list"
  fin_entries :: "fin_entry list"
  pay_next :: uuid
  pay_clock :: instant

type_synonym 'a pop = "(pay_db, pexc, 'a) op"

definition empty_payments :: pay_db where
  "empty_payments = \<lparr>intents = [], attempts = [], provider_events = [], refunds = [], pay_outboxes = [],
     commands = [], payouts = [], journals = [], fin_entries = [], pay_next = 1, pay_clock = 0\<rparr>"

definition big_int :: "int \<Rightarrow> bool" where
  "big_int a \<longleftrightarrow> - (2 ^ 63) \<le> a \<and> a < 2 ^ 63"

abbreviation out_of_range :: pexc where
  "out_of_range \<equiv> P_Value ''bigint out of range''"

definition pay_fresh :: "uuid pop" where
  "pay_fresh = bindE (readE pay_next) (\<lambda>i. thenE (modE (\<lambda>s. s\<lparr>pay_next := Suc i\<rparr>)) (retE i))"

subsection \<open>Payment intents\<close>

definition intent_get :: "pay_db \<Rightarrow> uuid \<Rightarrow> pay_intent option" where
  "intent_get s i = lookup_row pi_id i (intents s)"

definition intent_by_idempotency :: "pay_db \<Rightarrow> string \<Rightarrow> string \<Rightarrow> pay_intent option" where
  "intent_by_idempotency s client key = find (\<lambda>i. pi_client i = client \<and> pi_key i = key) (intents s)"

definition intent_add :: "pay_intent \<Rightarrow> unit pop" where
  "intent_add i =
     bindE (readE intents) (\<lambda>rows.
     thenE (ensure (big_int (pm_amount (pi_money i))) out_of_range)
     (thenE (ensure (0 < pm_amount (pi_money i) \<and> 0 \<le> pi_refunded i \<and> pi_refunded i \<le> pm_amount (pi_money i)
          \<and> (\<forall>r \<in> set rows. pi_id r \<noteq> pi_id i \<and> \<not> (pi_client r = pi_client i \<and> pi_key r = pi_key i))) P_Integrity)
       (modE (\<lambda>s. s\<lparr>intents := intents s @ [i]\<rparr>))))"

definition intents_for_client :: "pay_db \<Rightarrow> string \<Rightarrow> nat \<Rightarrow> pay_intent list" where
  "intents_for_client s client max_rows =
     take max_rows (sort_key (\<lambda>i. - pi_created i) (filter (\<lambda>i. pi_client i = client) (intents s)))"

definition intent_save :: "pay_intent \<Rightarrow> unit pop" where
  "intent_save i =
     bindE (readE (\<lambda>s. intent_get s (pi_id i))) (\<lambda>found.
     bindE (some_or P_Lookup found) (\<lambda>row.
     thenE (ensure (0 \<le> pi_refunded i \<and> pi_refunded i \<le> pm_amount (pi_money row)) P_Integrity)
       (modE (\<lambda>s. s\<lparr>intents := update_row pi_id (pi_id i)
          (\<lambda>r. r\<lparr>pi_status := pi_status i, pi_refunded := pi_refunded i, pi_updated := pi_updated i\<rparr>) (intents s)\<rparr>))))"

subsection \<open>Attempts\<close>

definition attempt_get :: "pay_db \<Rightarrow> uuid \<Rightarrow> pay_attempt option" where
  "attempt_get s i = lookup_row pa_id i (attempts s)"

definition attempt_by_provider_reference :: "pay_db \<Rightarrow> string \<Rightarrow> string \<Rightarrow> pay_attempt option" where
  "attempt_by_provider_reference s processor ref =
     find (\<lambda>a. pa_processor a = processor \<and> pa_provider_ref a = Some ref) (attempts s)"

definition attempts_for :: "pay_db \<Rightarrow> uuid \<Rightarrow> pay_attempt list" where
  "attempts_for s i = sort_key pa_number (filter (\<lambda>a. pa_intent a = i) (attempts s))"

definition next_attempt_number :: "pay_db \<Rightarrow> uuid \<Rightarrow> int" where
  "next_attempt_number s i = (case attempts_for s i of [] \<Rightarrow> 1 | as \<Rightarrow> pa_number (last as) + 1)"

definition attempts_to_reconcile :: "pay_db \<Rightarrow> instant \<Rightarrow> nat \<Rightarrow> pay_attempt list" where
  "attempts_to_reconcile s older_than max_rows =
     take max_rows (sort_key pa_updated (filter (\<lambda>a. pa_status a \<in> {At_requires_action, At_processing, At_unknown}
        \<and> pa_provider_ref a \<noteq> None \<and> pa_updated a \<le> older_than) (attempts s)))"

text \<open>The two partial unique indexes: one row per provider reference, one success per intent.\<close>

definition attempt_unique :: "pay_attempt list \<Rightarrow> pay_attempt \<Rightarrow> bool" where
  "attempt_unique rows a \<longleftrightarrow> (\<forall>r \<in> set rows. pa_id r \<noteq> pa_id a \<longrightarrow>
     (pa_provider_ref a = None \<or> \<not> (pa_processor r = pa_processor a \<and> pa_provider_ref r = pa_provider_ref a))
     \<and> \<not> (pa_status a = At_succeeded \<and> pa_status r = At_succeeded \<and> pa_intent r = pa_intent a))"

definition attempt_add :: "pay_attempt \<Rightarrow> unit pop" where
  "attempt_add a =
     bindE (readE (\<lambda>s. (attempts s, intent_get s (pa_intent a)))) (\<lambda>(rows, i).
     thenE (ensure (big_int (pm_amount (pa_money a))) out_of_range)
     (thenE (ensure (0 < pm_amount (pa_money a) \<and> 0 < pa_number a \<and> i \<noteq> None \<and> attempt_unique rows a
          \<and> (\<forall>r \<in> set rows. pa_id r \<noteq> pa_id a \<and> \<not> (pa_intent r = pa_intent a \<and> pa_number r = pa_number a))) P_Integrity)
       (modE (\<lambda>s. s\<lparr>attempts := attempts s @ [a]\<rparr>))))"

definition attempt_save :: "pay_attempt \<Rightarrow> unit pop" where
  "attempt_save a =
     bindE (readE (\<lambda>s. (attempt_get s (pa_id a), attempts s))) (\<lambda>(found, rows).
     bindE (some_or P_Lookup found) (\<lambda>_.
     thenE (ensure (attempt_unique rows a) P_Integrity)
       (modE (\<lambda>s. s\<lparr>attempts := update_row pa_id (pa_id a)
          (\<lambda>r. r\<lparr>pa_status := pa_status a, pa_provider_ref := pa_provider_ref a, pa_provider_status := pa_provider_status a,
             pa_action := pa_action a, pa_failure := pa_failure a, pa_updated := pa_updated a\<rparr>) (attempts s)\<rparr>))))"

subsection \<open>Provider events\<close>

definition event_get :: "pay_db \<Rightarrow> string \<Rightarrow> string \<Rightarrow> provider_event option" where
  "event_get s processor key = find (\<lambda>e. pe_processor e = processor \<and> pe_key e = key) (provider_events s)"

definition event_add :: "string \<Rightarrow> string \<Rightarrow> string \<Rightarrow> provider_event pop" where
  "event_add processor key ty =
     bindE pay_fresh (\<lambda>i.
     bindE (readE (\<lambda>s. event_get s processor key)) (\<lambda>found.
     thenE (ensure (found = None) P_Integrity)
     (let row = \<lparr>pe_id = i, pe_processor = processor, pe_key = key, pe_type = ty, pe_status = Ev_received,
            pe_attempt = None, pe_error = None\<rparr>
      in thenE (modE (\<lambda>s. s\<lparr>provider_events := provider_events s @ [row]\<rparr>)) (retE row))))"

definition event_mark :: "provider_event \<Rightarrow> event_status \<Rightarrow> uuid option \<Rightarrow> string option \<Rightarrow> unit pop" where
  "event_mark row st attempt err = modE (\<lambda>s. s\<lparr>provider_events := update_row pe_id (pe_id row)
     (\<lambda>r. r\<lparr>pe_status := st, pe_attempt := attempt, pe_error := err\<rparr>) (provider_events s)\<rparr>)"

subsection \<open>Refunds\<close>

definition refund_by_idempotency :: "pay_db \<Rightarrow> string \<Rightarrow> string \<Rightarrow> pay_refund option" where
  "refund_by_idempotency s client key = find (\<lambda>r. rf_client r = client \<and> rf_key r = key) (refunds s)"

definition refund_unique :: "pay_refund list \<Rightarrow> pay_refund \<Rightarrow> bool" where
  "refund_unique rows f \<longleftrightarrow> (\<forall>r \<in> set rows. rf_id r \<noteq> rf_id f \<longrightarrow>
     rf_provider_ref f = None \<or> \<not> (rf_processor r = rf_processor f \<and> rf_provider_ref r = rf_provider_ref f))"

definition refund_add :: "pay_refund \<Rightarrow> unit pop" where
  "refund_add f =
     bindE (readE (\<lambda>s. (refunds s, intent_get s (rf_intent f), attempt_get s (rf_attempt f)))) (\<lambda>(rows, i, a).
     thenE (ensure (big_int (pm_amount (rf_money f))) out_of_range)
     (thenE (ensure (0 < pm_amount (rf_money f) \<and> i \<noteq> None \<and> a \<noteq> None \<and> refund_unique rows f
          \<and> (\<forall>r \<in> set rows. rf_id r \<noteq> rf_id f \<and> \<not> (rf_client r = rf_client f \<and> rf_key r = rf_key f))) P_Integrity)
       (modE (\<lambda>s. s\<lparr>refunds := refunds s @ [f]\<rparr>))))"

definition total_active_for :: "pay_db \<Rightarrow> uuid \<Rightarrow> int" where
  "total_active_for s i = sum_list (map (\<lambda>r. pm_amount (rf_money r))
     (filter (\<lambda>r. rf_intent r = i \<and> rf_status r \<in> {Rf_pending, Rf_processing, Rf_succeeded}) (refunds s)))"

definition refund_save :: "pay_refund \<Rightarrow> unit pop" where
  "refund_save f =
     bindE (readE (\<lambda>s. (lookup_row rf_id (rf_id f) (refunds s), refunds s))) (\<lambda>(found, rows).
     bindE (some_or P_Lookup found) (\<lambda>_.
     thenE (ensure (refund_unique rows f) P_Integrity)
       (modE (\<lambda>s. s\<lparr>refunds := update_row rf_id (rf_id f)
          (\<lambda>r. r\<lparr>rf_status := rf_status f, rf_provider_ref := rf_provider_ref f,
             rf_provider_status := rf_provider_status f, rf_updated := rf_updated f\<rparr>) (refunds s)\<rparr>))))"

subsection \<open>Outbox\<close>

definition outbox_add :: "string \<Rightarrow> string \<Rightarrow> uuid \<Rightarrow> pay_payload \<Rightarrow> unit pop" where
  "outbox_add client ty aggregate payload =
     bindE pay_fresh (\<lambda>i.
     bindE (readE pay_clock) (\<lambda>now.
     modE (\<lambda>s. s\<lparr>pay_outboxes := pay_outboxes s @ [\<lparr>px_id = i, px_client = client, px_type = ty, px_aggregate = aggregate,
        px_payload = payload, px_status = Ob_pending, px_attempts = 0, px_error = None, px_next_attempt = now,
        px_delivered = None, px_locked = None, px_created = now\<rparr>]\<rparr>)))"

definition claimable :: "instant \<Rightarrow> int \<Rightarrow> pay_outbox \<Rightarrow> bool" where
  "claimable now lease r \<longleftrightarrow> (px_status r = Ob_pending \<and> px_next_attempt r \<le> now)
     \<or> (px_status r = Ob_delivering \<and> (case px_locked r of None \<Rightarrow> False | Some t \<Rightarrow> t \<le> now - lease))"

definition claim :: "nat \<Rightarrow> int \<Rightarrow> pay_outbox list pop" where
  "claim max_rows lease =
     bindE (readE (\<lambda>s. (pay_clock s, take max_rows (sort_key px_created (filter (claimable (pay_clock s) lease) (pay_outboxes s)))))) (\<lambda>(now, rows).
     thenE (modE (\<lambda>s. s\<lparr>pay_outboxes := map (\<lambda>r. if px_id r \<in> set (map px_id rows)
        then r\<lparr>px_status := Ob_delivering, px_locked := Some now\<rparr> else r) (pay_outboxes s)\<rparr>))
       (retE (map (\<lambda>r. r\<lparr>px_status := Ob_delivering, px_locked := Some now\<rparr>) rows)))"

definition mark_delivered :: "pay_outbox \<Rightarrow> unit pop" where
  "mark_delivered row = bindE (readE pay_clock) (\<lambda>now.
     modE (\<lambda>s. s\<lparr>pay_outboxes := update_row px_id (px_id row)
       (\<lambda>r. r\<lparr>px_status := Ob_delivered, px_delivered := Some now, px_locked := None, px_error := None\<rparr>) (pay_outboxes s)\<rparr>))"

definition retry_delay :: "nat \<Rightarrow> int" where
  "retry_delay n = min 3600 (2 ^ min n 10)"

text \<open>The worker holds the row it claimed, and counts from the attempts it read then.\<close>

definition failed_row :: "instant \<Rightarrow> nat \<Rightarrow> string \<Rightarrow> nat \<Rightarrow> pay_outbox \<Rightarrow> pay_outbox" where
  "failed_row now max_attempts err n r =
     (let r' = r\<lparr>px_attempts := n, px_error := Some (take 255 err), px_locked := None\<rparr>
      in if max_attempts \<le> n then r'\<lparr>px_status := Ob_dead_letter\<rparr>
         else r'\<lparr>px_status := Ob_pending, px_next_attempt := now + retry_delay n\<rparr>)"

definition mark_failed :: "pay_outbox \<Rightarrow> string \<Rightarrow> nat \<Rightarrow> unit pop" where
  "mark_failed row err max_attempts = bindE (readE pay_clock) (\<lambda>now.
     modE (\<lambda>s. s\<lparr>pay_outboxes := update_row px_id (px_id row)
       (failed_row now max_attempts err (Suc (px_attempts row))) (pay_outboxes s)\<rparr>))"

definition status_counts :: "pay_db \<Rightarrow> (delivery_status \<times> nat) list" where
  "status_counts s = map (\<lambda>st. (st, length (filter (\<lambda>r. px_status r = st) (pay_outboxes s))))
     (remdups (map px_status (pay_outboxes s)))"

subsection \<open>Payouts\<close>

definition payout_get :: "pay_db \<Rightarrow> uuid \<Rightarrow> pay_payout option" where
  "payout_get s i = lookup_row pt_id i (payouts s)"

definition payout_by_idempotency :: "pay_db \<Rightarrow> string \<Rightarrow> string \<Rightarrow> pay_payout option" where
  "payout_by_idempotency s client key = find (\<lambda>p. pt_client p = client \<and> pt_key p = key) (payouts s)"

definition payout_by_reference :: "pay_db \<Rightarrow> string \<Rightarrow> string \<Rightarrow> pay_payout option" where
  "payout_by_reference s client ref =
     (case sort_key (\<lambda>p. - pt_created p) (filter (\<lambda>p. pt_client p = client \<and> pt_reference p = ref) (payouts s)) of
        [] \<Rightarrow> None | p # _ \<Rightarrow> Some p)"

definition payout_unique :: "pay_payout list \<Rightarrow> pay_payout \<Rightarrow> bool" where
  "payout_unique rows p \<longleftrightarrow> (\<forall>r \<in> set rows. pt_id r \<noteq> pt_id p \<longrightarrow>
     pt_provider_ref p = None \<or> \<not> (pt_processor r = pt_processor p \<and> pt_provider_ref r = pt_provider_ref p))"

text \<open>\<^verbatim>\<open>PayoutRepository.add\<close> turns the violation into \<^verbatim>\<open>PersistenceConflict\<close>; the others let it through.\<close>

definition payout_add :: "pay_payout \<Rightarrow> unit pop" where
  "payout_add p =
     bindE (readE payouts) (\<lambda>rows.
     thenE (ensure (big_int (pm_amount (pt_money p))) out_of_range)
     (thenE (ensure (0 < pm_amount (pt_money p) \<and> payout_unique rows p
          \<and> (\<forall>r \<in> set rows. pt_id r \<noteq> pt_id p \<and> \<not> (pt_client r = pt_client p \<and> pt_key r = pt_key p))) P_PersistenceConflict)
       (modE (\<lambda>s. s\<lparr>payouts := payouts s @ [p]\<rparr>))))"

definition payout_save :: "pay_payout \<Rightarrow> unit pop" where
  "payout_save p =
     bindE (readE (\<lambda>s. (payout_get s (pt_id p), payouts s))) (\<lambda>(found, rows).
     bindE (some_or P_Lookup found) (\<lambda>_.
     thenE (ensure (payout_unique rows p) P_Integrity)
       (modE (\<lambda>s. s\<lparr>payouts := update_row pt_id (pt_id p)
          (\<lambda>r. r\<lparr>pt_status := pt_status p, pt_provider_ref := pt_provider_ref p, pt_provider_status := pt_provider_status p,
             pt_failure := pt_failure p, pt_updated := pt_updated p\<rparr>) (payouts s)\<rparr>))))"

definition payouts_to_reconcile :: "pay_db \<Rightarrow> instant \<Rightarrow> nat \<Rightarrow> pay_payout list" where
  "payouts_to_reconcile s older_than max_rows =
     take max_rows (sort_key pt_updated (filter (\<lambda>p. pt_status p \<in> {Pt_pending, Pt_processing}
        \<and> pt_provider_ref p \<noteq> None \<and> pt_updated p \<le> older_than) (payouts s)))"

subsection \<open>Financial journals\<close>

definition journal_get :: "pay_db \<Rightarrow> string \<Rightarrow> string \<Rightarrow> journal option" where
  "journal_get s ty ref = find (\<lambda>j. fj_type j = ty \<and> fj_reference j = ref) (journals s)"

definition two_entries :: "uuid \<Rightarrow> uuid \<Rightarrow> string \<Rightarrow> string \<Rightarrow> int \<Rightarrow> string \<Rightarrow> fin_entry list" where
  "two_entries n journal_id debit_account credit_account a cur =
     [\<lparr>fe_id = n, fe_journal = journal_id, fe_account = debit_account, fe_direction = Fin_debit, fe_amount = a, fe_currency = cur\<rparr>,
      \<lparr>fe_id = Suc n, fe_journal = journal_id, fe_account = credit_account, fe_direction = Fin_credit, fe_amount = a, fe_currency = cur\<rparr>]"

definition write_journal :: "uuid option \<Rightarrow> uuid option \<Rightarrow> string \<Rightarrow> string \<Rightarrow> int \<Rightarrow> string \<Rightarrow> string \<Rightarrow> string \<Rightarrow> journal pop" where
  "write_journal intent payout ty ref a cur debit_account credit_account =
     bindE (readE (\<lambda>s. journal_get s ty ref)) (\<lambda>existing.
     case existing of Some j \<Rightarrow> retE j
     | None \<Rightarrow>
       bindE pay_fresh (\<lambda>i.
       bindE (readE (\<lambda>s. (pay_clock s, case intent of None \<Rightarrow> True | Some x \<Rightarrow> intent_get s x \<noteq> None,
                case payout of None \<Rightarrow> True | Some x \<Rightarrow> payout_get s x \<noteq> None))) (\<lambda>(now, known_intent, known_payout).
       thenE (ensure (big_int a) out_of_range)
       (thenE (ensure (0 < a \<and> (intent = None) \<noteq> (payout = None) \<and> known_intent \<and> known_payout) P_Integrity)
       (bindE pay_fresh (\<lambda>n. bindE pay_fresh (\<lambda>_.
        let j = \<lparr>fj_id = i, fj_intent = intent, fj_payout = payout, fj_type = ty, fj_reference = ref, fj_amount = a,
              fj_currency = cur, fj_created = now\<rparr>
        in thenE (modE (\<lambda>s. s\<lparr>journals := journals s @ [j],
              fin_entries := fin_entries s @ two_entries n i debit_account credit_account a cur\<rparr>))
             (retE j))))))))"

definition journal_post :: "uuid \<Rightarrow> string \<Rightarrow> string \<Rightarrow> int \<Rightarrow> string \<Rightarrow> string \<Rightarrow> string \<Rightarrow> journal pop" where
  "journal_post intent = write_journal (Some intent) None"

definition journal_post_payout :: "uuid \<Rightarrow> string \<Rightarrow> string \<Rightarrow> int \<Rightarrow> string \<Rightarrow> string \<Rightarrow> string \<Rightarrow> journal pop" where
  "journal_post_payout payout = write_journal None (Some payout)"

definition journal_total :: "pay_db \<Rightarrow> uuid \<Rightarrow> string \<Rightarrow> int" where
  "journal_total s i ty = sum_list (map fj_amount (filter (\<lambda>j. fj_intent j = Some i \<and> fj_type j = ty) (journals s)))"

record financial_summary =
  fs_gross :: int
  fs_refunded :: int
  fs_fees :: int
  fs_net_expected :: int
  fs_settled :: int
  fs_outstanding :: int

definition journal_summary :: "pay_db \<Rightarrow> uuid \<Rightarrow> financial_summary" where
  "journal_summary s i =
     (let gross = journal_total s i ''capture''; back = journal_total s i ''refund'';
          fees = journal_total s i ''processor_fee''; settlements = journal_total s i ''settlement''
      in \<lparr>fs_gross = gross, fs_refunded = back, fs_fees = fees, fs_net_expected = gross - back - fees,
           fs_settled = settlements, fs_outstanding = gross - back - fees - settlements\<rparr>)"

definition payout_summary :: "pay_db \<Rightarrow> uuid \<Rightarrow> (string \<times> int) list" where
  "payout_summary s i = (let js = filter (\<lambda>j. fj_payout j = Some i) (journals s)
     in map (\<lambda>ty. (ty, sum_list (map fj_amount (filter (\<lambda>j. fj_type j = ty) js)))) (remdups (map fj_type js)))"

subsection \<open>Backoffice commands\<close>

definition command_replay :: "pay_db \<Rightarrow> string \<Rightarrow> string \<Rightarrow> string \<Rightarrow> backoffice_command option" where
  "command_replay s client command key =
     find (\<lambda>c. bc_client c = client \<and> (bc_command c = command \<or> bc_key c = key)) (commands s)"

definition command_create :: "string \<Rightarrow> string \<Rightarrow> string \<Rightarrow> string \<Rightarrow> string \<Rightarrow> string \<Rightarrow> uuid \<Rightarrow> string \<Rightarrow> string \<Rightarrow>
    backoffice_command pop" where
  "command_create client command actor key action target_type target reason fingerprint =
     bindE pay_fresh (\<lambda>i.
     bindE (readE commands) (\<lambda>rows.
     thenE (ensure (\<forall>c \<in> set rows. \<not> (bc_client c = client \<and> (bc_command c = command \<or> bc_key c = key))) P_Integrity)
     (let row = \<lparr>bc_id = i, bc_client = client, bc_command = command, bc_actor = actor, bc_key = key, bc_action = action,
            bc_target_type = target_type, bc_target = target, bc_reason = reason, bc_fingerprint = fingerprint,
            bc_status = Cmd_processing, bc_result = No_result\<rparr>
      in thenE (modE (\<lambda>s. s\<lparr>commands := commands s @ [row]\<rparr>)) (retE row))))"

definition command_complete :: "backoffice_command \<Rightarrow> command_result \<Rightarrow> backoffice_command pop" where
  "command_complete c result =
     thenE (modE (\<lambda>s. s\<lparr>commands := update_row bc_id (bc_id c) (\<lambda>r. r\<lparr>bc_status := Cmd_completed, bc_result := result\<rparr>) (commands s)\<rparr>))
     (bindE (readE (\<lambda>s. lookup_row bc_id (bc_id c) (commands s))) (some_or P_Lookup))"

definition command_get :: "pay_db \<Rightarrow> string \<Rightarrow> string \<Rightarrow> backoffice_command option" where
  "command_get s client command = find (\<lambda>c. bc_client c = client \<and> bc_command c = command) (commands s)"

end
