(* ===== verification/PayRouter.thy ===== *)
theory PayRouter
  imports PayDb "HOL-Library.List_Lexorder" "HOL-Library.Char_ord" "HOL-Library.Product_Lexorder"
begin

section \<open>Payments: processors and their selection\<close>

text \<open>
  The processor port of \<^verbatim>\<open>payments/application/ports.py\<close>, the registry of
  \<^verbatim>\<open>processor_router.py\<close> and the simulated processor of \<^verbatim>\<open>sandbox_processor.py\<close>. A call to a
  processor answers with a value or raises; what a provider answers to a verification may change
  with time, so those calls take the instant they are made at.
\<close>

subsection \<open>The port\<close>

datatype pay_direction = Collection | Refund_direction | Payout_direction

record capabilities =
  cap_currencies :: "string list"
  cap_directions :: "pay_direction list"
  cap_channels :: "string list"
  cap_networks :: "string list"

definition supports :: "capabilities \<Rightarrow> string \<Rightarrow> pay_direction \<Rightarrow> string option \<Rightarrow> string option \<Rightarrow> bool" where
  "supports c cur dir channel network =
     (if upper cur \<notin> set (cap_currencies c) \<or> dir \<notin> set (cap_directions c) then False
      else if truthy channel \<and> cap_channels c \<noteq> [] \<and> the channel \<notin> set (cap_channels c) then False
      else \<not> (truthy network \<and> cap_networks c \<noteq> [] \<and> the network \<notin> set (cap_networks c)))"

record init_request =
  ir_intent :: uuid
  ir_attempt :: uuid
  ir_reference :: string
  ir_money :: pay_money
  ir_key :: string
  ir_channel :: "string option"
  ir_network :: "string option"
  ir_email :: "string option"
  ir_phone :: "string option"
  ir_callback :: "string option"
  ir_metadata :: json_object

record provider_result =
  pv_reference :: string
  pv_status :: attempt_status
  pv_provider_status :: "string option"
  pv_action :: "next_action option"
  pv_failure :: "string option"
  pv_amount :: "int option"
  pv_currency :: "string option"
  pv_fee :: "int option"

record provider_notice =
  pn_key :: string
  pn_type :: string
  pn_reference :: "string option"
  pn_status :: "attempt_status option"
  pn_amount :: "int option"
  pn_currency :: "string option"
  pn_fee :: "int option"
  pn_payload_status :: "string option"

record refund_request =
  rr_refund :: uuid
  rr_reference :: string
  rr_money :: pay_money
  rr_reason :: "string option"

record refund_result =
  rs_reference :: "string option"
  rs_status :: refund_status
  rs_provider_status :: "string option"

record payout_request =
  pq_payout :: uuid
  pq_reference :: string
  pq_beneficiary :: string
  pq_money :: pay_money
  pq_key :: string
  pq_destination :: "json_object option"
  pq_metadata :: json_object

record payout_result =
  ps_reference :: "string option"
  ps_status :: payout_status
  ps_provider_status :: "string option"
  ps_failure :: "string option"

text \<open>
  An answer, or one of the exceptions the callers tell apart: refused before the call, uncertain
  (with the reference to verify), the rejection of a webhook, anything else.
\<close>

datatype 'a psp = Answer 'a | Rejected | Uncertain string | Webhook_rejected | Crashed

record processor =
  pc_name :: string
  pc_capabilities :: capabilities
  initialize_payment :: "init_request \<Rightarrow> provider_result psp"
  verify_payment :: "instant \<Rightarrow> string \<Rightarrow> provider_result psp"
  parse_webhook :: "string \<Rightarrow> (string \<times> string) list \<Rightarrow> provider_notice psp"
  refund_payment :: "refund_request \<Rightarrow> refund_result psp"
  create_payout :: "payout_request \<Rightarrow> payout_result psp"
  verify_payout :: "instant \<Rightarrow> string \<Rightarrow> payout_result psp"

subsection \<open>The registry\<close>

type_synonym registry = "(int \<times> processor) list"

definition SIMULATED_PROCESSOR_NAMES :: "string list" where
  "SIMULATED_PROCESSOR_NAMES = [''sandbox'']"

definition register :: "processor \<Rightarrow> int \<Rightarrow> registry \<Rightarrow> pexc + registry" where
  "register p priority R =
     (if pc_name p \<in> set (map (\<lambda>(_, q). pc_name q) R) then Inl (P_Value ''already registered'')
      else Inr (R @ [(priority, p)]))"

definition processor_get :: "registry \<Rightarrow> string \<Rightarrow> pexc + processor" where
  "processor_get R name = (case find (\<lambda>(_, p). pc_name p = name) R of
     None \<Rightarrow> Inl P_RoutingError | Some (_, p) \<Rightarrow> Inr p)"

definition ordered :: "registry \<Rightarrow> processor list" where
  "ordered R = map snd (sort_key (\<lambda>(priority, p). (priority, pc_name p)) R)"

definition select :: "registry \<Rightarrow> string \<Rightarrow> pay_direction \<Rightarrow> string option \<Rightarrow> string option \<Rightarrow> string option \<Rightarrow> pexc + processor" where
  "select R cur dir channel network preferred =
     (case (if truthy preferred then map_sum id (\<lambda>p. [p]) (processor_get R (the preferred)) else Inr (ordered R)) of
        Inl e \<Rightarrow> Inl e
      | Inr candidates \<Rightarrow>
          (case find (\<lambda>p. supports (pc_capabilities p) cur dir channel network) candidates of
             None \<Rightarrow> Inl P_RoutingError | Some p \<Rightarrow> Inr p))"

text \<open>
  The processor that a collection prefers: the first real one that names the requested network, else
  the configured default.
\<close>

definition preferred_for :: "registry \<Rightarrow> string option \<Rightarrow> string \<Rightarrow> string option \<Rightarrow> string option \<Rightarrow> string option" where
  "preferred_for R fallback cur channel network =
     (if truthy network then
        (case find (\<lambda>p. pc_name p \<notin> set SIMULATED_PROCESSOR_NAMES \<and> the network \<in> set (cap_networks (pc_capabilities p))
             \<and> supports (pc_capabilities p) cur Collection channel network) (ordered R) of
           None \<Rightarrow> fallback | Some p \<Rightarrow> Some (pc_name p))
      else fallback)"

definition names :: "registry \<Rightarrow> string list" where
  "names R = sort (map (\<lambda>(_, p). pc_name p) R)"

subsection \<open>The simulated processor\<close>

definition sandbox_processor :: processor where
  "sandbox_processor = \<lparr>pc_name = ''sandbox'',
     pc_capabilities = \<lparr>cap_currencies = [''XOF''], cap_directions = [Collection, Refund_direction, Payout_direction],
       cap_channels = [''mobile_money'', ''card''], cap_networks = [''orange'', ''wave'', ''mtn'']\<rparr>,
     initialize_payment = (\<lambda>r. Answer \<lparr>pv_reference = ''sandbox-'' @ uuid_str (ir_attempt r), pv_status = At_requires_action,
       pv_provider_status = Some ''initialized'',
       pv_action = Some \<lparr>na_type = Redirect, na_url = Some (''https://sandbox.diddipay.local/pay/'' @ uuid_str (ir_attempt r)),
         na_instructions = None, na_expires = None\<rparr>,
       pv_failure = None, pv_amount = None, pv_currency = None, pv_fee = None\<rparr>),
     verify_payment = (\<lambda>_ ref. Answer \<lparr>pv_reference = ref, pv_status = At_requires_action,
       pv_provider_status = Some ''initialized'', pv_action = None, pv_failure = None, pv_amount = None,
       pv_currency = None, pv_fee = None\<rparr>),
     parse_webhook = (\<lambda>_ _. Crashed),
     refund_payment = (\<lambda>r. Answer \<lparr>rs_reference = Some (''sandbox-refund-'' @ uuid_str (rr_refund r)), rs_status = Rf_succeeded,
       rs_provider_status = Some ''processed''\<rparr>),
     create_payout = (\<lambda>r. Answer \<lparr>ps_reference = Some (''sandbox-payout-'' @ uuid_str (pq_payout r)), ps_status = Pt_succeeded,
       ps_provider_status = Some ''processed'', ps_failure = None\<rparr>),
     verify_payout = (\<lambda>_ ref. Answer \<lparr>ps_reference = Some ref, ps_status = Pt_succeeded,
       ps_provider_status = Some ''processed'', ps_failure = None\<rparr>)\<rparr>"

subsection \<open>What the selection gives\<close>

lemma processor_get_Inr: "processor_get R name = Inr p \<Longrightarrow> pc_name p = name \<and> p \<in> snd ` set R"
  by (force simp: processor_get_def split: option.splits dest!: find_Some_prop)

lemma set_ordered: "set (ordered R) = snd ` set R"
  by (simp add: ordered_def)

end
