(* ===== verification/Json.thy ===== *)
theory Json
  imports PyStrings "HOL-Library.List_Lexorder" "HOL-Library.Char_ord"
begin

section \<open>Canonical JSON and request fingerprints\<close>

text \<open>
  \<^verbatim>\<open>payments/application/fingerprints.py\<close>: the fingerprint of a request is the SHA-256 of its canonical
  JSON text, \<^verbatim>\<open>json.dumps\<close> with sorted keys and no blanks. The values a fingerprint is taken of are
  strings, integers, absent values and objects of them; the hash is a parameter.
\<close>

datatype json = J_null | J_int int | J_str string | J_obj "(string \<times> json) list"

definition int_str :: "int \<Rightarrow> string" where
  "int_str k = (if k < 0 then CHR ''-'' # uuid_str (nat (- k)) else uuid_str (nat k))"

definition hex_digit :: "nat \<Rightarrow> char" where
  "hex_digit n = ''0123456789abcdef'' ! n"

definition escape_char :: "char \<Rightarrow> string" where
  "escape_char c = (let n = of_char c :: nat in
     if n = 34 then [char_of (92 :: nat), c]
     else if n = 92 then [c, c]
     else if n = 10 then [char_of (92 :: nat), CHR ''n'']
     else if n = 13 then [char_of (92 :: nat), CHR ''r'']
     else if n = 9 then [char_of (92 :: nat), CHR ''t'']
     else if n = 8 then [char_of (92 :: nat), CHR ''b'']
     else if n = 12 then [char_of (92 :: nat), CHR ''f'']
     else if n < 32 \<or> 126 < n then [char_of (92 :: nat), CHR ''u'', CHR ''0'', CHR ''0'', hex_digit (n div 16), hex_digit (n mod 16)]
     else [c])"

definition quoted :: "string \<Rightarrow> string" where
  "quoted s = char_of (34 :: nat) # concat (map escape_char s) @ [char_of (34 :: nat)]"

fun join :: "string \<Rightarrow> string list \<Rightarrow> string" where
  "join sep [] = []"
| "join sep [x] = x"
| "join sep (x # y # xs) = x @ sep @ join sep (y # xs)"

fun dumps :: "json \<Rightarrow> string" where
  "dumps J_null = ''null''"
| "dumps (J_int k) = int_str k"
| "dumps (J_str s) = quoted s"
| "dumps (J_obj kvs) = ''{'' @ join '','' (map (\<lambda>(k, v). quoted k @ '':'' @ v)
     (sort_key fst (map (\<lambda>(k, v). (k, dumps v)) kvs))) @ ''}''"

definition request_fingerprint :: "(string \<Rightarrow> string) \<Rightarrow> (string \<times> json) list \<Rightarrow> string" where
  "request_fingerprint sha256 payload = sha256 (dumps (J_obj payload))"

definition J_opt :: "string option \<Rightarrow> json" where
  "J_opt x = (case x of None \<Rightarrow> J_null | Some s \<Rightarrow> J_str s)"

definition J_uuid :: "uuid option \<Rightarrow> json" where
  "J_uuid x = (case x of None \<Rightarrow> J_null | Some i \<Rightarrow> J_str (uuid_str i))"

definition J_object :: "(string \<times> string) list \<Rightarrow> json" where
  "J_object kvs = J_obj (map (\<lambda>(k, v). (k, J_str v)) kvs)"

end
