(* ===== verification/PayUse.thy ===== *)
theory PayUse
  imports PayRouter Json
begin

section \<open>Payments: use cases\<close>

text \<open>
  \<^verbatim>\<open>payments/application/use_cases.py\<close>, \<^verbatim>\<open>success.py\<close>, \<^verbatim>\<open>accounting.py\<close>, \<^verbatim>\<open>webhooks.py\<close>,
  \<^verbatim>\<open>reconciliation.py\<close> and \<^verbatim>\<open>refunds.py\<close>. The code commits in the middle of a request, before it calls
  a provider; each stretch between two commits is one \<open>atomically\<close>, and what a use case does before
  the call (\<open>..._begin\<close>) and after it (\<open>..._finish\<close>) are two definitions, since other requests may run
  in between.
\<close>

record pay_env =
  pv_registry :: registry
  pv_default :: "string option"
  pv_sha256 :: "string \<Rightarrow> string"

subsection \<open>Creating and reading a payment\<close>

record create_command =
  cc_client :: string
  cc_reference :: string
  cc_amount :: int
  cc_currency :: string
  cc_key :: string
  cc_payer :: "uuid option"
  cc_payee :: "uuid option"
  cc_channel :: "string option"
  cc_network :: "string option"
  cc_email :: "string option"
  cc_phone :: "string option"
  cc_callback :: "string option"
  cc_description :: "string option"
  cc_metadata :: json_object

definition create_fingerprint :: "pay_env \<Rightarrow> create_command \<Rightarrow> string" where
  "create_fingerprint env c = request_fingerprint (pv_sha256 env)
     [(''client_id'', J_str (cc_client c)), (''business_reference'', J_str (cc_reference c)), (''amount'', J_int (cc_amount c)),
      (''currency'', J_str (upper (cc_currency c))), (''payer_user_id'', J_uuid (cc_payer c)), (''payee_user_id'', J_uuid (cc_payee c)),
      (''channel'', J_opt (cc_channel c)), (''network'', J_opt (cc_network c)), (''callback_url'', J_opt (cc_callback c)),
      (''description'', J_opt (cc_description c)), (''metadata'', J_object (cc_metadata c))]"

record payment_view =
  vw_intent :: pay_intent
  vw_attempts :: "pay_attempt list"
  vw_created :: bool

definition idempotent_view :: "pay_intent \<Rightarrow> string \<Rightarrow> payment_view pop" where
  "idempotent_view i fingerprint =
     thenE (ensure (pi_fingerprint i = fingerprint) P_IdempotencyConflict)
     (readE (\<lambda>s. \<lparr>vw_intent = i, vw_attempts = attempts_for s (pi_id i), vw_created = False\<rparr>))"

definition new_intent :: "uuid \<Rightarrow> instant \<Rightarrow> create_command \<Rightarrow> pay_money \<Rightarrow> string \<Rightarrow> pay_intent" where
  "new_intent n now c m fingerprint = \<lparr>pi_id = n, pi_client = cc_client c, pi_reference = cc_reference c, pi_payer = cc_payer c,
     pi_payee = cc_payee c, pi_money = m, pi_status = Pi_processing, pi_key = cc_key c, pi_fingerprint = fingerprint,
     pi_description = cc_description c, pi_metadata = cc_metadata c, pi_refunded = 0, pi_created = now, pi_updated = now\<rparr>"

definition new_attempt :: "uuid \<Rightarrow> instant \<Rightarrow> create_command \<Rightarrow> pay_intent \<Rightarrow> string \<Rightarrow> int \<Rightarrow> pay_attempt" where
  "new_attempt n now c i processor number = \<lparr>pa_id = n, pa_intent = pi_id i, pa_number = number, pa_processor = processor,
     pa_channel = cc_channel c, pa_network = cc_network c, pa_money = pi_money i, pa_status = At_pending, pa_provider_ref = None,
     pa_provider_status = None, pa_action = None, pa_failure = None, pa_created = now, pa_updated = now\<rparr>"

text \<open>The replay of an earlier request, or the new rows for which a provider has to be called.\<close>

datatype create_begun = Replayed payment_view | Started processor pay_intent pay_attempt

definition create_insert :: "pay_env \<Rightarrow> create_command \<Rightarrow> processor \<Rightarrow> pay_money \<Rightarrow> create_begun pop" where
  "create_insert env c p m =
     bindE pay_fresh (\<lambda>n. bindE pay_fresh (\<lambda>k.
     bindE (readE pay_clock) (\<lambda>now.
     let i = new_intent n now c m (create_fingerprint env c); a = new_attempt k now c i (pc_name p) 1
     in catchE (atomically (thenE (intent_add i) (thenE (attempt_add a) (retE (Started p i a)))))
          P_PersistenceConflict
          (bindE (readE (\<lambda>s. intent_by_idempotency s (cc_client c) (cc_key c))) (\<lambda>existing.
           bindE (some_or P_PersistenceConflict existing) (\<lambda>x.
           bindE (idempotent_view x (create_fingerprint env c)) (\<lambda>v. retE (Replayed v))))))))"

definition create_begin :: "pay_env \<Rightarrow> create_command \<Rightarrow> create_begun pop" where
  "create_begin env c =
     bindE (readE (\<lambda>s. intent_by_idempotency s (cc_client c) (cc_key c))) (\<lambda>existing.
     case existing of
       Some x \<Rightarrow> bindE (idempotent_view x (create_fingerprint env c)) (\<lambda>v. retE (Replayed v))
     | None \<Rightarrow>
         bindE (of_sum (select (pv_registry env) (cc_currency c) Collection (cc_channel c) (cc_network c)
                 (preferred_for (pv_registry env) (pv_default env) (cc_currency c) (cc_channel c) (cc_network c)))) (\<lambda>p.
         bindE (of_sum (mk_pay_money (cc_amount c) (cc_currency c))) (\<lambda>m.
         create_insert env c p m)))"

definition plain_result :: "string \<Rightarrow> attempt_status \<Rightarrow> string \<Rightarrow> string \<Rightarrow> provider_result" where
  "plain_result ref st provider_status failure = \<lparr>pv_reference = ref, pv_status = st, pv_provider_status = Some provider_status,
     pv_action = None, pv_failure = Some failure, pv_amount = None, pv_currency = None, pv_fee = None\<rparr>"

definition initialize :: "processor \<Rightarrow> create_command \<Rightarrow> pay_intent \<Rightarrow> pay_attempt \<Rightarrow> provider_result" where
  "initialize p c i a =
     (case initialize_payment p \<lparr>ir_intent = pi_id i, ir_attempt = pa_id a, ir_reference = pi_reference i, ir_money = pi_money i,
          ir_key = cc_key c, ir_channel = cc_channel c, ir_network = cc_network c, ir_email = cc_email c, ir_phone = cc_phone c,
          ir_callback = cc_callback c, ir_metadata = cc_metadata c\<rparr> of
        Answer r \<Rightarrow> r
      | Rejected \<Rightarrow> plain_result (''rejected-'' @ uuid_str (pa_id a)) At_failed ''rejected_before_call'' ''PROCESSOR_REQUEST_REJECTED''
      | Uncertain ref \<Rightarrow> plain_result ref At_unknown ''network_error'' ''PROCESSOR_UNCERTAIN''
      | _ \<Rightarrow> plain_result (''unknown-'' @ uuid_str (pa_id a)) At_unknown ''network_error'' ''PROCESSOR_UNCERTAIN'')"

fun intent_target :: "attempt_status \<Rightarrow> intent_status option" where
  "intent_target At_requires_action = Some Pi_requires_action"
| "intent_target At_succeeded = Some Pi_succeeded"
| "intent_target At_failed = Some Pi_failed"
| "intent_target At_cancelled = Some Pi_cancelled"
| "intent_target _ = None"

definition apply_provider_result :: "instant \<Rightarrow> provider_result \<Rightarrow> pay_intent \<Rightarrow> pay_attempt \<Rightarrow> pexc + (pay_intent \<times> pay_attempt)" where
  "apply_provider_result now r i a =
     (let a1 = a\<lparr>pa_provider_ref := Some (pv_reference r), pa_provider_status := pv_provider_status r,
            pa_action := pv_action r, pa_failure := pv_failure r\<rparr>
      in case attempt_transition_to now (pv_status r) a1 of Inl e \<Rightarrow> Inl e
         | Inr a2 \<Rightarrow> (case intent_target (pv_status r) of None \<Rightarrow> Inr (i, a2)
             | Some st \<Rightarrow> (case intent_transition_to now st i of Inl e \<Rightarrow> Inl e | Inr i2 \<Rightarrow> Inr (i2, a2))))"

definition create_finish :: "processor \<Rightarrow> create_command \<Rightarrow> pay_intent \<Rightarrow> pay_attempt \<Rightarrow> payment_view pop" where
  "create_finish p c i a =
     bindE (readE pay_clock) (\<lambda>now.
     bindE (of_sum (apply_provider_result now (initialize p c i a) i a)) (\<lambda>(i', a').
     thenE (intent_save i') (thenE (attempt_save a')
       (retE \<lparr>vw_intent = i', vw_attempts = [a'], vw_created = True\<rparr>))))"

definition payment_create :: "pay_env \<Rightarrow> create_command \<Rightarrow> payment_view pop" where
  "payment_create env c =
     bindE (atomically (create_begin env c)) (\<lambda>b. case b of
       Replayed v \<Rightarrow> retE v
     | Started p i a \<Rightarrow> atomically (create_finish p c i a))"

definition payment_get :: "string \<Rightarrow> uuid \<Rightarrow> payment_view pop" where
  "payment_get client i =
     bindE (readE (\<lambda>s. intent_get s i)) (\<lambda>found.
     bindE (some_or P_PaymentNotFound found) (\<lambda>x.
     thenE (ensure (pi_client x = client) P_PaymentNotFound)
       (readE (\<lambda>s. \<lparr>vw_intent = x, vw_attempts = attempts_for s i, vw_created = False\<rparr>))))"

definition payment_list :: "pay_db \<Rightarrow> string \<Rightarrow> nat \<Rightarrow> payment_view list" where
  "payment_list s client max_rows =
     map (\<lambda>i. \<lparr>vw_intent = i, vw_attempts = attempts_for s (pi_id i), vw_created = False\<rparr>) (intents_for_client s client max_rows)"

definition cancel :: "string \<Rightarrow> uuid \<Rightarrow> payment_view pop" where
  "cancel client i =
     atomically (bindE (payment_get client i) (\<lambda>v.
     case vw_attempts v of [] \<Rightarrow> raiseE P_OperationConflict
     | as \<Rightarrow>
       (let a = last as in
        thenE (ensure (pa_status a = At_pending \<and> pa_provider_ref a = None) P_OperationConflict)
        (bindE (readE pay_clock) (\<lambda>now.
         bindE (of_sum (attempt_transition_to now At_cancelled a)) (\<lambda>a'.
         bindE (of_sum (intent_transition_to now Pi_cancelled (vw_intent v))) (\<lambda>x.
         thenE (attempt_save a') (thenE (intent_save x)
           (retE (v\<lparr>vw_intent := x, vw_attempts := butlast as @ [a']\<rparr>))))))))))"

subsection \<open>Accounting\<close>

definition receivable :: "string \<Rightarrow> string" where
  "receivable processor = ''processor_receivable:'' @ processor"

definition payable :: "string \<Rightarrow> string" where
  "payable client = ''module_payable:'' @ client"

definition record_capture :: "pay_intent \<Rightarrow> pay_attempt \<Rightarrow> string \<Rightarrow> int \<Rightarrow> unit pop" where
  "record_capture i a event_ref fee =
     bindE (journal_post (pi_id i) ''capture'' event_ref (pm_amount (pi_money i)) (pm_currency (pi_money i))
              (receivable (pa_processor a)) (payable (pi_client i))) (\<lambda>_.
     whenE (0 < fee) (bindE (journal_post (pi_id i) ''processor_fee'' event_ref fee (pm_currency (pi_money i))
              ''processor_fee_expense'' (receivable (pa_processor a))) (\<lambda>_. retE ())))"

definition record_refund :: "pay_intent \<Rightarrow> pay_attempt \<Rightarrow> pay_refund \<Rightarrow> unit pop" where
  "record_refund i a f =
     bindE (journal_post (pi_id i) ''refund'' (uuid_str (rf_id f)) (pm_amount (rf_money f)) (pm_currency (rf_money f))
              (payable (pi_client i)) (receivable (pa_processor a))) (\<lambda>_. retE ())"

definition record_settlement :: "pay_intent \<Rightarrow> string \<Rightarrow> int \<Rightarrow> string \<Rightarrow> unit pop" where
  "record_settlement i processor a settlement_ref =
     bindE (readE (\<lambda>s. journal_summary s (pi_id i))) (\<lambda>sm.
     thenE (ensure (\<not> (a \<le> 0 \<or> fs_outstanding sm < a)) (P_Value ''settlement exceeds the outstanding provider receivable''))
     (bindE (journal_post (pi_id i) ''settlement'' settlement_ref a (pm_currency (pi_money i)) ''bank_cash'' (receivable processor)) (\<lambda>_.
      retE ())))"

definition record_payment_success :: "pay_intent \<Rightarrow> pay_attempt \<Rightarrow> string \<Rightarrow> int \<Rightarrow> unit pop" where
  "record_payment_success i a event_key fee =
     thenE (outbox_add (pi_client i) ''payment.succeeded'' (pi_id i)
       (Payment_payload event_key (pi_id i) (pi_reference i) (pm_amount (pi_money i)) (pm_currency (pi_money i))
          (intent_status_str (pi_status i))))
     (record_capture i a event_key fee)"

subsection \<open>Webhooks\<close>

definition apply_status :: "instant \<Rightarrow> uuid option \<Rightarrow> attempt_status option \<Rightarrow> pay_intent \<Rightarrow> pay_attempt \<Rightarrow>
    pexc + (pay_intent \<times> pay_attempt)" where
  "apply_status now latest status i a =
     (case status of None \<Rightarrow> Inr (i, a)
      | Some st \<Rightarrow>
        if st = pa_status a then Inr (i, a)
        else if st = At_succeeded then
          (case attempt_transition_to now At_succeeded a of Inl e \<Rightarrow> Inl e
           | Inr a' \<Rightarrow>
             (case (if pi_status i = Pi_failed then intent_transition_to now Pi_processing i else Inr i) of Inl e \<Rightarrow> Inl e
              | Inr i1 \<Rightarrow>
                (case (if pi_status i1 \<noteq> Pi_succeeded then intent_transition_to now Pi_succeeded i1 else Inr i1) of
                   Inl e \<Rightarrow> Inl e | Inr i2 \<Rightarrow> Inr (i2, a'))))
        else if st = At_failed then
          (if pa_status a \<in> {At_succeeded, At_failed, At_cancelled} then Inr (i, a)
           else (case attempt_transition_to now At_failed a of Inl e \<Rightarrow> Inl e
             | Inr a' \<Rightarrow>
               if latest = Some (pa_id a) \<and> pi_status i \<in> {Pi_processing, Pi_requires_action}
               then (case intent_transition_to now Pi_failed i of Inl e \<Rightarrow> Inl e | Inr i' \<Rightarrow> Inr (i', a'))
               else Inr (i, a')))
        else if st = At_processing \<and> pa_status a \<in> {At_pending, At_requires_action, At_unknown} then
          (case attempt_transition_to now At_processing a of Inl e \<Rightarrow> Inl e
           | Inr a' \<Rightarrow>
             if pi_status i = Pi_requires_action
             then (case intent_transition_to now Pi_processing i of Inl e \<Rightarrow> Inl e | Inr i' \<Rightarrow> Inr (i', a'))
             else Inr (i, a'))
        else Inr (i, a))"

definition latest_attempt :: "pay_db \<Rightarrow> uuid \<Rightarrow> uuid option" where
  "latest_attempt s i = (case attempts_for s i of [] \<Rightarrow> None | as \<Rightarrow> Some (pa_id (last as)))"

datatype webhook_outcome = Wh_duplicate | Wh_ignored | Wh_failed | Wh_processed

definition psp_exception :: "'a psp \<Rightarrow> pexc" where
  "psp_exception r = (case r of Rejected \<Rightarrow> P_ProcessorRequestRejected | Uncertain _ \<Rightarrow> P_ProcessorCallUncertain
     | Webhook_rejected \<Rightarrow> P_ProcessorWebhookRejected | _ \<Rightarrow> P_NotImplemented)"

definition webhook_receive :: "processor \<Rightarrow> provider_notice \<Rightarrow> provider_event option pop" where
  "webhook_receive p n =
     bindE (readE (\<lambda>s. event_get s (pc_name p) (pn_key n))) (\<lambda>row.
     case row of
       Some r \<Rightarrow> retE (if pe_status r = Ev_processed \<or> pe_status r = Ev_ignored then None else Some r)
     | None \<Rightarrow> bindE (event_add (pc_name p) (pn_key n) (pn_type n)) (\<lambda>r. retE (Some r)))"

definition give_up :: "provider_event \<Rightarrow> event_status \<Rightarrow> uuid option \<Rightarrow> string \<Rightarrow> webhook_outcome \<Rightarrow> webhook_outcome pop" where
  "give_up r st attempt reason out = thenE (event_mark r st attempt (Some reason)) (retE out)"

definition webhook_apply :: "processor \<Rightarrow> provider_notice \<Rightarrow> provider_event \<Rightarrow> webhook_outcome pop" where
  "webhook_apply p n r =
     (if \<not> truthy (pn_reference n) then give_up r Ev_ignored None ''missing provider reference'' Wh_ignored
      else
        bindE (readE (\<lambda>s. attempt_by_provider_reference s (pc_name p) (the (pn_reference n)))) (\<lambda>found.
        case found of None \<Rightarrow> give_up r Ev_ignored None ''unknown provider reference'' Wh_ignored
        | Some a \<Rightarrow>
          bindE (readE (\<lambda>s. intent_get s (pa_intent a))) (\<lambda>found_intent.
          case found_intent of None \<Rightarrow> give_up r Ev_failed (Some (pa_id a)) ''payment intent missing'' Wh_failed
          | Some i \<Rightarrow>
            if pn_status n = Some At_succeeded \<and> (pn_amount n \<noteq> Some (pm_amount (pa_money a))
                 \<or> pn_currency n \<noteq> Some (pm_currency (pa_money a)))
            then give_up r Ev_failed (Some (pa_id a)) ''provider amount or currency mismatch'' Wh_failed
            else
              bindE (readE (\<lambda>s. (pay_clock s, latest_attempt s (pi_id i)))) (\<lambda>(now, latest).
              case apply_status now latest (pn_status n) i a of
                Inl _ \<Rightarrow> give_up r Ev_failed (Some (pa_id a)) ''invalid transition'' Wh_failed
              | Inr (i', a') \<Rightarrow>
                  thenE (attempt_save (a'\<lparr>pa_provider_status := pn_payload_status n\<rparr>))
                  (thenE (intent_save i')
                  (thenE (event_mark r Ev_processed (Some (pa_id a)) None)
                  (thenE (whenE (pn_status n = Some At_succeeded \<and> pi_status i \<noteq> Pi_succeeded)
                     (record_payment_success i' a' (pn_key n) (case pn_fee n of None \<Rightarrow> 0 | Some x \<Rightarrow> x)))
                   (retE Wh_processed))))))))"

definition webhook_process :: "processor \<Rightarrow> string \<Rightarrow> (string \<times> string) list \<Rightarrow> webhook_outcome pop" where
  "webhook_process p body headers =
     (case parse_webhook p body headers of
        Answer n \<Rightarrow>
          bindE (atomically (webhook_receive p n)) (\<lambda>row.
          case row of None \<Rightarrow> retE Wh_duplicate | Some r \<Rightarrow> atomically (webhook_apply p n r))
      | x \<Rightarrow> raiseE (psp_exception x))"

subsection \<open>Reconciliation\<close>

record sweep =
  sw_succeeded :: nat
  sw_failed :: nat
  sw_pending :: nat
  sw_mismatched :: nat

definition log_verification :: "pay_attempt \<Rightarrow> event_status \<Rightarrow> string option \<Rightarrow> unit pop" where
  "log_verification a st reason =
     bindE (readE pay_clock) (\<lambda>now.
     bindE (event_add (pa_processor a) (''reconciliation:'' @ uuid_str (pa_id a) @ '':'' @ int_str now) ''reconciliation.verify'') (\<lambda>row.
     event_mark row st (Some (pa_id a)) reason))"

definition reconcile_attempt :: "pay_env \<Rightarrow> pay_attempt \<Rightarrow> sweep \<Rightarrow> sweep pop" where
  "reconcile_attempt env a sw =
     (case processor_get (pv_registry env) (pa_processor a) of
        Inl _ \<Rightarrow> thenE (log_verification a Ev_failed (Some ''processor is not registered'')) (retE (sw\<lparr>sw_pending := Suc (sw_pending sw)\<rparr>))
      | Inr p \<Rightarrow>
        bindE (readE pay_clock) (\<lambda>now.
        case verify_payment p now (case pa_provider_ref a of None \<Rightarrow> [] | Some x \<Rightarrow> x) of
          Uncertain _ \<Rightarrow> thenE (log_verification a Ev_failed (Some ''uncertain'')) (retE (sw\<lparr>sw_pending := Suc (sw_pending sw)\<rparr>))
        | Answer r \<Rightarrow>
          bindE (readE (\<lambda>s. intent_get s (pa_intent a))) (\<lambda>found.
          case found of None \<Rightarrow> thenE (log_verification a Ev_failed (Some ''intent_missing'')) (retE (sw\<lparr>sw_failed := Suc (sw_failed sw)\<rparr>))
          | Some i \<Rightarrow>
            if pv_status r = At_succeeded \<and> (Some (pv_reference r) \<noteq> pa_provider_ref a \<or> pv_amount r \<noteq> Some (pm_amount (pa_money a))
                 \<or> pv_currency r \<noteq> Some (pm_currency (pa_money a)))
            then thenE (log_verification a Ev_failed (Some ''amount_or_currency_mismatch'')) (retE (sw\<lparr>sw_mismatched := Suc (sw_mismatched sw)\<rparr>))
            else
              bindE (readE (\<lambda>s. latest_attempt s (pi_id i))) (\<lambda>latest.
              bindE (of_sum (apply_status now latest (Some (pv_status r)) i a)) (\<lambda>(i', a').
              thenE (attempt_save (a'\<lparr>pa_provider_status := pv_provider_status r\<rparr>))
              (thenE (intent_save i')
              (thenE (whenE (pv_status r = At_succeeded \<and> pi_status i \<noteq> Pi_succeeded)
                 (record_payment_success i' a' (''reconciliation:'' @ uuid_str (pa_id a)) (case pv_fee r of None \<Rightarrow> 0 | Some x \<Rightarrow> x)))
              (thenE (log_verification a Ev_processed None)
               (retE (if pv_status r = At_succeeded then sw\<lparr>sw_succeeded := Suc (sw_succeeded sw)\<rparr>
                      else if pv_status r = At_failed then sw\<lparr>sw_failed := Suc (sw_failed sw)\<rparr>
                      else sw\<lparr>sw_pending := Suc (sw_pending sw)\<rparr>))))))))
        | x \<Rightarrow> raiseE (psp_exception x)))"

fun reconcile_all :: "pay_env \<Rightarrow> pay_attempt list \<Rightarrow> sweep \<Rightarrow> sweep pop" where
  "reconcile_all env [] sw = retE sw"
| "reconcile_all env (a # as) sw = bindE (atomically (reconcile_attempt env a sw)) (\<lambda>sw'. reconcile_all env as sw')"

definition reconcile_payments :: "pay_env \<Rightarrow> int \<Rightarrow> nat \<Rightarrow> (nat \<times> sweep) pop" where
  "reconcile_payments env minimum_age max_rows =
     bindE (readE (\<lambda>s. attempts_to_reconcile s (pay_clock s - minimum_age) max_rows)) (\<lambda>candidates.
     bindE (reconcile_all env candidates \<lparr>sw_succeeded = 0, sw_failed = 0, sw_pending = 0, sw_mismatched = 0\<rparr>) (\<lambda>sw.
     retE (length candidates, sw)))"

subsection \<open>Refunds\<close>

record refund_command =
  rc_client :: string
  rc_intent :: uuid
  rc_amount :: int
  rc_key :: string
  rc_reason :: "string option"

definition refund_fingerprint :: "pay_env \<Rightarrow> refund_command \<Rightarrow> string" where
  "refund_fingerprint env c = request_fingerprint (pv_sha256 env)
     [(''client_id'', J_str (rc_client c)), (''payment_intent_id'', J_uuid (Some (rc_intent c))), (''amount'', J_int (rc_amount c)),
      (''reason'', J_opt (rc_reason c))]"

datatype refund_begun = Refund_replayed pay_refund | Refund_started pay_intent pay_attempt pay_refund

definition refund_begin :: "pay_env \<Rightarrow> refund_command \<Rightarrow> refund_begun pop" where
  "refund_begin env c =
     bindE (readE (\<lambda>s. refund_by_idempotency s (rc_client c) (rc_key c))) (\<lambda>existing.
     case existing of
       Some f \<Rightarrow> thenE (ensure (rf_fingerprint f = refund_fingerprint env c) P_IdempotencyConflict) (retE (Refund_replayed f))
     | None \<Rightarrow>
       bindE (readE (\<lambda>s. intent_get s (rc_intent c))) (\<lambda>found.
       bindE (some_or P_PaymentNotFound found) (\<lambda>i.
       thenE (ensure (pi_client i = rc_client c) P_PaymentNotFound)
       (thenE (ensure (pi_status i = Pi_succeeded \<or> pi_status i = Pi_partially_refunded) P_OperationConflict)
       (bindE (readE (\<lambda>s. find (\<lambda>a. pa_status a = At_succeeded) (rev (attempts_for s (pi_id i))))) (\<lambda>found_attempt.
        bindE (some_or P_OperationConflict found_attempt) (\<lambda>a.
        thenE (ensure (truthy (pa_provider_ref a)) P_OperationConflict)
        (bindE (readE (\<lambda>s. total_active_for s (pi_id i))) (\<lambda>active.
         thenE (ensure (\<not> (rc_amount c \<le> 0 \<or> pm_amount (pi_money i) < active + rc_amount c)) P_OperationConflict)
         (bindE pay_fresh (\<lambda>n.
          bindE (readE pay_clock) (\<lambda>now.
          bindE (of_sum (mk_pay_money (rc_amount c) (pm_currency (pi_money i)))) (\<lambda>m.
          let f = \<lparr>rf_id = n, rf_intent = pi_id i, rf_attempt = pa_id a, rf_client = rc_client c, rf_processor = pa_processor a,
                rf_money = m, rf_status = Rf_pending, rf_key = rc_key c, rf_fingerprint = refund_fingerprint env c,
                rf_reason = rc_reason c, rf_provider_ref = None, rf_provider_status = None, rf_created = now, rf_updated = now\<rparr>
          in thenE (refund_add f) (retE (Refund_started i a f)))))))))))))))"

definition refund_finish :: "pay_env \<Rightarrow> pay_intent \<Rightarrow> pay_attempt \<Rightarrow> pay_refund \<Rightarrow> pay_refund pop" where
  "refund_finish env i a f =
     bindE (of_sum (processor_get (pv_registry env) (pa_processor a))) (\<lambda>p.
     bindE (readE pay_clock) (\<lambda>now.
     bindE (case refund_payment p \<lparr>rr_refund = rf_id f, rr_reference = the (pa_provider_ref a), rr_money = rf_money f, rr_reason = rf_reason f\<rparr> of
         Uncertain _ \<Rightarrow> of_sum (map_sum id (\<lambda>g. g\<lparr>rf_provider_status := Some ''unknown''\<rparr>) (refund_transition_to now Rf_processing f))
       | Answer r \<Rightarrow> of_sum (refund_transition_to now (rs_status r)
           (f\<lparr>rf_provider_ref := rs_reference r, rf_provider_status := rs_provider_status r\<rparr>))
       | x \<Rightarrow> raiseE (psp_exception x)) (\<lambda>g.
     thenE (whenE (rf_status g = Rf_succeeded)
       (bindE (of_sum (apply_refund now (pm_amount (rf_money g)) i)) (\<lambda>i'.
        thenE (intent_save i') (record_refund i' a g))))
     (thenE (refund_save g) (retE g)))))"

definition refund_create :: "pay_env \<Rightarrow> refund_command \<Rightarrow> pay_refund pop" where
  "refund_create env c =
     bindE (atomically (refund_begin env c)) (\<lambda>b. case b of
       Refund_replayed f \<Rightarrow> retE f
     | Refund_started i a f \<Rightarrow> atomically (refund_finish env i a f))"

end
