(* ===== verification/PayoutUse.thy ===== *)
theory PayoutUse
  imports PayUse
begin

section \<open>Payments: payouts, deliveries and backoffice commands\<close>

text \<open>
  \<^verbatim>\<open>payments/application/payouts.py\<close>, \<^verbatim>\<open>deliveries.py\<close>, \<^verbatim>\<open>backoffice_commands.py\<close> with its adapter in
  \<^verbatim>\<open>infra/backoffice_commands.py\<close>. As in \<open>PayUse\<close>, each stretch between two commits is one
  \<open>atomically\<close>.
\<close>

subsection \<open>Payouts\<close>

record payout_command =
  pd_client :: string
  pd_reference :: string
  pd_beneficiary :: string
  pd_amount :: int
  pd_currency :: string
  pd_key :: string
  pd_destination :: "json_object option"
  pd_metadata :: json_object

definition payout_fingerprint :: "pay_env \<Rightarrow> payout_command \<Rightarrow> string" where
  "payout_fingerprint env c = request_fingerprint (pv_sha256 env)
     [(''client_id'', J_str (pd_client c)), (''business_reference'', J_str (pd_reference c)),
      (''beneficiary_reference'', J_str (pd_beneficiary c)),
      (''beneficiary_destination'', case pd_destination c of None \<Rightarrow> J_null | Some d \<Rightarrow> J_object d),
      (''amount'', J_int (pd_amount c)), (''currency'', J_str (upper (pd_currency c))), (''metadata'', J_object (pd_metadata c))]"

datatype payout_begun = Payout_replayed pay_payout | Payout_started processor pay_payout

definition idempotent_payout :: "pay_payout \<Rightarrow> string \<Rightarrow> payout_begun pop" where
  "idempotent_payout p fingerprint =
     thenE (ensure (pt_fingerprint p = fingerprint) P_IdempotencyConflict) (retE (Payout_replayed p))"

definition member :: "string \<Rightarrow> json_object option \<Rightarrow> string option" where
  "member key d = (case d of None \<Rightarrow> None | Some kvs \<Rightarrow> map_of kvs key)"

definition new_payout :: "uuid \<Rightarrow> instant \<Rightarrow> payout_command \<Rightarrow> pay_money \<Rightarrow> string \<Rightarrow> string \<Rightarrow> pay_payout" where
  "new_payout n now c m fingerprint processor = \<lparr>pt_id = n, pt_client = pd_client c, pt_reference = pd_reference c,
     pt_beneficiary = pd_beneficiary c, pt_money = m, pt_status = Pt_pending, pt_key = pd_key c, pt_fingerprint = fingerprint,
     pt_processor = processor, pt_provider_ref = None, pt_provider_status = None, pt_failure = None,
     pt_metadata = pd_metadata c, pt_destination = pd_destination c, pt_created = now, pt_updated = now\<rparr>"

definition payout_begin :: "pay_env \<Rightarrow> bool \<Rightarrow> payout_command \<Rightarrow> payout_begun pop" where
  "payout_begin env allow_simulated c =
     bindE (readE (\<lambda>s. payout_by_idempotency s (pd_client c) (pd_key c))) (\<lambda>existing.
     case existing of
       Some x \<Rightarrow> idempotent_payout x (payout_fingerprint env c)
     | None \<Rightarrow>
       bindE (of_sum (select (pv_registry env) (pd_currency c) Payout_direction
               (member ''type'' (pd_destination c)) (member ''network'' (pd_destination c)) None)) (\<lambda>p.
       thenE (ensure (\<not> (pc_name p \<in> set SIMULATED_PROCESSOR_NAMES \<and> \<not> allow_simulated)) P_RoutingError)
       (bindE (of_sum (mk_pay_money (pd_amount c) (pd_currency c))) (\<lambda>m.
        bindE pay_fresh (\<lambda>n.
        bindE (readE pay_clock) (\<lambda>now.
        let x = new_payout n now c m (payout_fingerprint env c) (pc_name p)
        in catchE (atomically (thenE (payout_add x) (retE (Payout_started p x))))
             P_PersistenceConflict
             (bindE (readE (\<lambda>s. payout_by_idempotency s (pd_client c) (pd_key c))) (\<lambda>again.
              bindE (some_or P_PersistenceConflict again) (\<lambda>y. idempotent_payout y (payout_fingerprint env c))))))))))"

definition execute_payout :: "processor \<Rightarrow> pay_payout \<Rightarrow> payout_result" where
  "execute_payout p x =
     (case create_payout p \<lparr>pq_payout = pt_id x, pq_reference = pt_reference x, pq_beneficiary = pt_beneficiary x,
          pq_money = pt_money x, pq_key = pt_key x, pq_destination = pt_destination x, pq_metadata = pt_metadata x\<rparr> of
        Answer r \<Rightarrow> r
      | Rejected \<Rightarrow> \<lparr>ps_reference = None, ps_status = Pt_failed, ps_provider_status = Some ''rejected_before_call'',
          ps_failure = Some ''PROCESSOR_REQUEST_REJECTED''\<rparr>
      | Uncertain ref \<Rightarrow> \<lparr>ps_reference = Some ref, ps_status = Pt_processing, ps_provider_status = Some ''network_error'',
          ps_failure = Some ''PROCESSOR_UNCERTAIN''\<rparr>
      | _ \<Rightarrow> \<lparr>ps_reference = None, ps_status = Pt_processing, ps_provider_status = Some ''network_error'',
          ps_failure = Some ''PROCESSOR_UNCERTAIN''\<rparr>)"

definition enqueue_status :: "pay_payout \<Rightarrow> unit pop" where
  "enqueue_status x = outbox_add (pt_client x) (''payout.'' @ payout_status_str (pt_status x)) (pt_id x)
     (Payout_payload (pt_id x) (pt_reference x) (pt_beneficiary x) (pm_amount (pt_money x)) (pm_currency (pt_money x))
        (payout_status_str (pt_status x)) (pt_metadata x))"

definition record_payout_success :: "pay_payout \<Rightarrow> unit pop" where
  "record_payout_success x =
     bindE (journal_post_payout (pt_id x) ''payout'' (''payout:'' @ uuid_str (pt_id x) @ '':succeeded'') (pm_amount (pt_money x))
              (pm_currency (pt_money x)) (payable (pt_client x)) (''processor_balance:'' @ pt_processor x)) (\<lambda>_. retE ())"

definition payout_finish :: "processor \<Rightarrow> pay_payout \<Rightarrow> pay_payout pop" where
  "payout_finish p x =
     bindE (readE pay_clock) (\<lambda>now.
     let r = execute_payout p x
     in bindE (of_sum (apply_provider_status now (ps_status r) (ps_reference r) (ps_provider_status r) (ps_failure r) x)) (\<lambda>y.
        thenE (payout_save y)
        (thenE (whenE (pt_status y = Pt_succeeded) (record_payout_success y))
        (thenE (enqueue_status y) (retE y)))))"

definition payout_create :: "pay_env \<Rightarrow> bool \<Rightarrow> payout_command \<Rightarrow> (pay_payout \<times> bool) pop" where
  "payout_create env allow_simulated c =
     bindE (atomically (payout_begin env allow_simulated c)) (\<lambda>b. case b of
       Payout_replayed x \<Rightarrow> retE (x, False)
     | Payout_started p x \<Rightarrow> bindE (atomically (payout_finish p x)) (\<lambda>y. retE (y, True)))"

definition payout_view :: "string \<Rightarrow> uuid \<Rightarrow> pay_payout pop" where
  "payout_view client i =
     bindE (readE (\<lambda>s. payout_get s i)) (\<lambda>found.
     bindE (some_or P_PaymentNotFound found) (\<lambda>x.
     thenE (ensure (pt_client x = client) P_PaymentNotFound) (retE x)))"

definition payout_by_business_reference :: "string \<Rightarrow> string \<Rightarrow> pay_payout pop" where
  "payout_by_business_reference client ref =
     bindE (readE (\<lambda>s. payout_by_reference s client ref)) (some_or P_PaymentNotFound)"

record payout_sweep =
  pw_succeeded :: nat
  pw_failed :: nat
  pw_pending :: nat

text \<open>
  The sweep counts an \<^verbatim>\<open>OSError\<close> of \<open>verify_payout\<close> as it counts a call that is uncertain: for this caller
  \<open>Uncertain\<close> stands for both.
\<close>

definition reconcile_payout :: "pay_env \<Rightarrow> pay_payout \<Rightarrow> payout_sweep \<Rightarrow> payout_sweep pop" where
  "reconcile_payout env x sw =
     (case processor_get (pv_registry env) (pt_processor x) of
        Inl _ \<Rightarrow> retE (sw\<lparr>pw_pending := Suc (pw_pending sw)\<rparr>)
      | Inr p \<Rightarrow>
        bindE (readE pay_clock) (\<lambda>now.
        case verify_payout p now (case pt_provider_ref x of None \<Rightarrow> [] | Some ref \<Rightarrow> ref) of
          Uncertain _ \<Rightarrow> retE (sw\<lparr>pw_pending := Suc (pw_pending sw)\<rparr>)
        | Answer r \<Rightarrow>
          bindE (of_sum (apply_provider_status now (ps_status r) (ps_reference r) (ps_provider_status r) (ps_failure r) x)) (\<lambda>y.
          thenE (payout_save y)
          (thenE (whenE (pt_status y = Pt_succeeded) (record_payout_success y))
          (thenE (whenE (pt_status y \<noteq> pt_status x) (enqueue_status y))
           (retE (if pt_status y = Pt_succeeded then sw\<lparr>pw_succeeded := Suc (pw_succeeded sw)\<rparr>
                  else if pt_status y = Pt_failed then sw\<lparr>pw_failed := Suc (pw_failed sw)\<rparr>
                  else sw\<lparr>pw_pending := Suc (pw_pending sw)\<rparr>)))))
        | e \<Rightarrow> raiseE (psp_exception e)))"

fun reconcile_all_payouts :: "pay_env \<Rightarrow> pay_payout list \<Rightarrow> payout_sweep \<Rightarrow> payout_sweep pop" where
  "reconcile_all_payouts env [] sw = retE sw"
| "reconcile_all_payouts env (x # xs) sw =
     bindE (atomically (reconcile_payout env x sw)) (\<lambda>sw'. reconcile_all_payouts env xs sw')"

definition reconcile_payouts :: "pay_env \<Rightarrow> int \<Rightarrow> nat \<Rightarrow> (nat \<times> payout_sweep) pop" where
  "reconcile_payouts env minimum_age max_rows =
     bindE (readE (\<lambda>s. payouts_to_reconcile s (pay_clock s - minimum_age) max_rows)) (\<lambda>candidates.
     bindE (reconcile_all_payouts env candidates \<lparr>pw_succeeded = 0, pw_failed = 0, pw_pending = 0\<rparr>) (\<lambda>sw.
     retE (length candidates, sw)))"

subsection \<open>Delivering events\<close>

text \<open>
  A target is the address and the secret of a module; the sender either has the event durably
  accepted or reports why not.
\<close>

record callback_target =
  ct_url :: string
  ct_secret :: string

type_synonym sender = "instant \<Rightarrow> callback_target \<Rightarrow> pay_outbox \<Rightarrow> string option"

record delivery_summary =
  dl_scanned :: nat
  dl_delivered :: nat
  dl_retried :: nat
  dl_unavailable :: nat

definition MAX_ATTEMPTS :: nat where
  "MAX_ATTEMPTS = 10"

definition LEASE_SECONDS :: int where
  "LEASE_SECONDS = 300"

definition target_for :: "(string \<times> callback_target) list \<Rightarrow> string \<Rightarrow> callback_target option" where
  "target_for targets client = (case map_of targets client of Some t \<Rightarrow> Some t | None \<Rightarrow> map_of targets ''*'')"

definition deliver_row :: "sender \<Rightarrow> (string \<times> callback_target) list \<Rightarrow> pay_outbox \<Rightarrow> delivery_summary \<Rightarrow> delivery_summary pop" where
  "deliver_row send targets row sm =
     (case target_for targets (px_client row) of
        None \<Rightarrow> thenE (mark_failed row ''callback target not configured'' MAX_ATTEMPTS)
                 (retE (sm\<lparr>dl_unavailable := Suc (dl_unavailable sm)\<rparr>))
      | Some t \<Rightarrow>
        bindE (readE pay_clock) (\<lambda>now.
        case send now t row of
          Some err \<Rightarrow> thenE (mark_failed row err MAX_ATTEMPTS) (retE (sm\<lparr>dl_retried := Suc (dl_retried sm)\<rparr>))
        | None \<Rightarrow> thenE (mark_delivered row) (retE (sm\<lparr>dl_delivered := Suc (dl_delivered sm)\<rparr>))))"

fun deliver_rows :: "sender \<Rightarrow> (string \<times> callback_target) list \<Rightarrow> pay_outbox list \<Rightarrow> delivery_summary \<Rightarrow> delivery_summary pop" where
  "deliver_rows send targets [] sm = retE sm"
| "deliver_rows send targets (r # rs) sm =
     bindE (atomically (deliver_row send targets r sm)) (\<lambda>sm'. deliver_rows send targets rs sm')"

definition run_deliveries :: "sender \<Rightarrow> (string \<times> callback_target) list \<Rightarrow> nat \<Rightarrow> delivery_summary pop" where
  "run_deliveries send targets max_rows =
     bindE (atomically (claim max_rows LEASE_SECONDS)) (\<lambda>rows.
     deliver_rows send targets rows \<lparr>dl_scanned = length rows, dl_delivered = 0, dl_retried = 0, dl_unavailable = 0\<rparr>)"

subsection \<open>Backoffice commands\<close>

datatype command_payload = Retry_payload uuid | Settlement_payload int string

definition retry_callback :: "uuid \<Rightarrow> uuid \<Rightarrow> command_result pop" where
  "retry_callback intent event_id =
     bindE (readE (\<lambda>s. lookup_row px_id event_id (pay_outboxes s))) (\<lambda>found.
     bindE (some_or (P_NotFound ''CALLBACK_NOT_FOUND'') found) (\<lambda>row.
     thenE (ensure (px_aggregate row = intent) (P_NotFound ''CALLBACK_NOT_FOUND''))
     (thenE (ensure (px_status row = Ob_dead_letter) (P_Conflict ''CALLBACK_NOT_RETRYABLE''))
     (bindE (readE pay_clock) (\<lambda>now.
     thenE (modE (\<lambda>s. s\<lparr>pay_outboxes := update_row px_id event_id
        (\<lambda>r. r\<lparr>px_status := Ob_pending, px_next_attempt := now, px_locked := None, px_error := None\<rparr>) (pay_outboxes s)\<rparr>))
       (retE (Retry_result event_id)))))))"

definition record_settlement_command :: "uuid \<Rightarrow> int \<Rightarrow> string \<Rightarrow> command_result pop" where
  "record_settlement_command intent a settlement_ref =
     bindE (readE (\<lambda>s. intent_get s intent)) (\<lambda>found.
     bindE (some_or (P_NotFound ''PAYMENT_INTENT_NOT_FOUND'') found) (\<lambda>i.
     bindE (readE (\<lambda>s. attempts_for s intent)) (\<lambda>as.
     thenE (ensure (as \<noteq> []) (P_Conflict ''SETTLEMENT_ATTEMPT_MISSING''))
     (thenE (catchE (record_settlement i (pa_processor (last as)) a settlement_ref)
        (P_Value ''settlement exceeds the outstanding provider receivable'') (raiseE (P_Unprocessable ''SETTLEMENT_AMOUNT_INVALID'')))
       (retE (Settlement_result intent a (pm_currency (pi_money i)) (pa_processor (last as)) settlement_ref))))))"

definition payload_json :: "command_payload \<Rightarrow> json" where
  "payload_json p = (case p of
     Retry_payload e \<Rightarrow> J_obj [(''event_id'', J_str (uuid_str e))]
   | Settlement_payload a ref \<Rightarrow> J_obj [(''amount'', J_int a), (''settlement_reference'', J_str ref)])"

definition command_fingerprint :: "pay_env \<Rightarrow> string \<Rightarrow> string \<Rightarrow> uuid \<Rightarrow> string \<Rightarrow> command_payload \<Rightarrow> string" where
  "command_fingerprint env action target_type target reason payload = request_fingerprint (pv_sha256 env)
     [(''action'', J_str action), (''target_type'', J_str target_type), (''target_id'', J_str (uuid_str target)),
      (''reason'', J_str reason), (''payload'', payload_json payload)]"

definition execute_command :: "pay_env \<Rightarrow> string \<Rightarrow> string \<Rightarrow> string \<Rightarrow> string \<Rightarrow> string \<Rightarrow> string \<Rightarrow> uuid \<Rightarrow> string \<Rightarrow>
    command_payload \<Rightarrow> backoffice_command pop" where
  "execute_command env client command actor key action target_type target reason payload =
     bindE (readE (\<lambda>s. command_replay s client command key)) (\<lambda>existing.
     case existing of
       Some c \<Rightarrow> thenE (ensure (bc_fingerprint c = command_fingerprint env action target_type target reason payload)
                   (P_Conflict ''IDEMPOTENCY_CONFLICT'')) (retE c)
     | None \<Rightarrow>
       bindE (command_create client command actor key action target_type target reason
                (command_fingerprint env action target_type target reason payload)) (\<lambda>c.
       bindE (if action = ''payment.callback.retry'' then
                (case payload of Retry_payload e \<Rightarrow> retry_callback target e | _ \<Rightarrow> raiseE P_Lookup)
              else if action = ''payment.settlement.record'' then
                (case payload of Settlement_payload a ref \<Rightarrow> record_settlement_command target a ref | _ \<Rightarrow> raiseE P_Lookup)
              else raiseE (P_NotFound ''COMMAND_NOT_FOUND'')) (\<lambda>result.
       command_complete c result)))"

end
