(* ===== verification/PaySteps.thy ===== *)
theory PaySteps
  imports PayoutUse
begin

section \<open>Payments: requests that interleave\<close>

text \<open>
  A request of the payment module commits more than once: what it has decided before a call to a
  provider, and what the provider answered. In between, other requests run. A world is the database
  with the second halves that are still outstanding; a step starts a request, runs one outstanding
  half, or loses one (the process died between its two commits). A half that raises is rolled back.
\<close>

datatype pay_task =
    Task_create processor create_command pay_intent pay_attempt
  | Task_webhook processor provider_notice provider_event
  | Task_verify pay_attempt
  | Task_refund pay_intent pay_attempt pay_refund
  | Task_payout processor pay_payout
  | Task_verify_payout pay_payout
  | Task_deliver pay_outbox

datatype pay_request =
    Req_create create_command
  | Req_cancel string uuid
  | Req_webhook string string "(string \<times> string) list"
  | Req_sweep int nat
  | Req_refund refund_command
  | Req_payout bool payout_command
  | Req_payout_sweep int nat
  | Req_deliver nat
  | Req_command string string string string string string uuid string command_payload
  | Req_tick nat

record pay_world =
  wd_db :: pay_db
  wd_tasks :: "pay_task list"

record pay_config =
  cf_env :: pay_env
  cf_send :: sender
  cf_targets :: "(string \<times> callback_target) list"

definition no_task :: "'a pop \<Rightarrow> pay_task list pop" where
  "no_task m = bindE m (\<lambda>_. retE [])"

text \<open>The first transaction of a request, and the halves it leaves to be run.\<close>

definition begin_create :: "pay_env \<Rightarrow> create_command \<Rightarrow> pay_task list pop" where
  "begin_create env c = bindE (create_begin env c) (\<lambda>b. retE (case b of
     Replayed _ \<Rightarrow> [] | Started p i a \<Rightarrow> [Task_create p c i a]))"

definition begin_webhook :: "pay_env \<Rightarrow> string \<Rightarrow> string \<Rightarrow> (string \<times> string) list \<Rightarrow> pay_task list pop" where
  "begin_webhook env name body headers =
     bindE (of_sum (processor_get (pv_registry env) name)) (\<lambda>p.
     case parse_webhook p body headers of
       Answer n \<Rightarrow> bindE (webhook_receive p n) (\<lambda>row. retE (case row of None \<Rightarrow> [] | Some r \<Rightarrow> [Task_webhook p n r]))
     | x \<Rightarrow> raiseE (psp_exception x))"

definition begin_sweep :: "int \<Rightarrow> nat \<Rightarrow> pay_task list pop" where
  "begin_sweep minimum_age max_rows =
     readE (\<lambda>s. map Task_verify (attempts_to_reconcile s (pay_clock s - minimum_age) max_rows))"

definition begin_refund :: "pay_env \<Rightarrow> refund_command \<Rightarrow> pay_task list pop" where
  "begin_refund env c = bindE (refund_begin env c) (\<lambda>b. retE (case b of
     Refund_replayed _ \<Rightarrow> [] | Refund_started i a f \<Rightarrow> [Task_refund i a f]))"

definition begin_payout :: "pay_env \<Rightarrow> bool \<Rightarrow> payout_command \<Rightarrow> pay_task list pop" where
  "begin_payout env simulated c = bindE (payout_begin env simulated c) (\<lambda>b. retE (case b of
     Payout_replayed _ \<Rightarrow> [] | Payout_started p x \<Rightarrow> [Task_payout p x]))"

definition begin_payout_sweep :: "int \<Rightarrow> nat \<Rightarrow> pay_task list pop" where
  "begin_payout_sweep minimum_age max_rows =
     readE (\<lambda>s. map Task_verify_payout (payouts_to_reconcile s (pay_clock s - minimum_age) max_rows))"

definition begin_deliver :: "nat \<Rightarrow> pay_task list pop" where
  "begin_deliver max_rows = bindE (claim max_rows LEASE_SECONDS) (\<lambda>rows. retE (map Task_deliver rows))"

fun begin_request :: "pay_env \<Rightarrow> pay_request \<Rightarrow> pay_task list pop" where
  "begin_request env (Req_create c) = begin_create env c"
| "begin_request env (Req_cancel client i) = no_task (cancel client i)"
| "begin_request env (Req_webhook name body headers) = begin_webhook env name body headers"
| "begin_request env (Req_sweep minimum_age max_rows) = begin_sweep minimum_age max_rows"
| "begin_request env (Req_refund c) = begin_refund env c"
| "begin_request env (Req_payout simulated c) = begin_payout env simulated c"
| "begin_request env (Req_payout_sweep minimum_age max_rows) = begin_payout_sweep minimum_age max_rows"
| "begin_request env (Req_deliver max_rows) = begin_deliver max_rows"
| "begin_request env (Req_command client command actor key action ty target reason payload) =
     no_task (execute_command env client command actor key action ty target reason payload)"
| "begin_request env (Req_tick n) = no_task (modE (\<lambda>s. s\<lparr>pay_clock := pay_clock s + int n\<rparr>))"

definition no_sweep :: sweep where
  "no_sweep = \<lparr>sw_succeeded = 0, sw_failed = 0, sw_pending = 0, sw_mismatched = 0\<rparr>"

definition no_payout_sweep :: payout_sweep where
  "no_payout_sweep = \<lparr>pw_succeeded = 0, pw_failed = 0, pw_pending = 0\<rparr>"

definition no_deliveries :: delivery_summary where
  "no_deliveries = \<lparr>dl_scanned = 0, dl_delivered = 0, dl_retried = 0, dl_unavailable = 0\<rparr>"

text \<open>The second transaction.\<close>

definition finished :: "'a pop \<Rightarrow> unit pop" where
  "finished m = bindE m (\<lambda>_. retE ())"

fun run_task :: "pay_config \<Rightarrow> pay_task \<Rightarrow> unit pop" where
  "run_task cf (Task_create p c i a) = finished (create_finish p c i a)"
| "run_task cf (Task_webhook p n r) = finished (webhook_apply p n r)"
| "run_task cf (Task_verify a) = finished (reconcile_attempt (cf_env cf) a no_sweep)"
| "run_task cf (Task_refund i a f) = finished (refund_finish (cf_env cf) i a f)"
| "run_task cf (Task_payout p x) = finished (payout_finish p x)"
| "run_task cf (Task_verify_payout x) = finished (reconcile_payout (cf_env cf) x no_payout_sweep)"
| "run_task cf (Task_deliver r) = finished (deliver_row (cf_send cf) (cf_targets cf) r no_deliveries)"

inductive pay_step :: "pay_config \<Rightarrow> pay_world \<Rightarrow> pay_world \<Rightarrow> bool" for cf where
  step_request: "begin_request (cf_env cf) q s = (Inr ts, t) \<Longrightarrow>
     pay_step cf \<lparr>wd_db = s, wd_tasks = us\<rparr> \<lparr>wd_db = t, wd_tasks = us @ ts\<rparr>"
| step_task: "run_task cf u s = (Inr (), t) \<Longrightarrow>
     pay_step cf \<lparr>wd_db = s, wd_tasks = us @ u # vs\<rparr> \<lparr>wd_db = t, wd_tasks = us @ vs\<rparr>"
| step_lost: "pay_step cf \<lparr>wd_db = s, wd_tasks = us @ u # vs\<rparr> \<lparr>wd_db = s, wd_tasks = us @ vs\<rparr>"

definition empty_world :: pay_world where
  "empty_world = \<lparr>wd_db = empty_payments, wd_tasks = []\<rparr>"

inductive pay_reachable :: "pay_config \<Rightarrow> pay_world \<Rightarrow> bool" for cf where
  reachable_start: "pay_reachable cf empty_world"
| reachable_pay_step: "pay_reachable cf w \<Longrightarrow> pay_step cf w w' \<Longrightarrow> pay_reachable cf w'"

inductive_cases pay_stepE: "pay_step cf w w'"

text \<open>
  The use cases, which run their halves one after the other, are sequences of these steps.
\<close>

inductive pay_steps :: "pay_config \<Rightarrow> pay_world \<Rightarrow> pay_world \<Rightarrow> bool" for cf where
  steps_refl: "pay_steps cf w w"
| steps_more: "pay_steps cf w v \<Longrightarrow> pay_step cf v u \<Longrightarrow> pay_steps cf w u"

lemma pay_steps_trans: "pay_steps cf w v \<Longrightarrow> pay_steps cf v u \<Longrightarrow> pay_steps cf w u"
  by (rotate_tac, induction rule: pay_steps.induct) (auto intro: pay_steps.intros)

lemma reachable_steps: "pay_steps cf w v \<Longrightarrow> pay_reachable cf w \<Longrightarrow> pay_reachable cf v"
  by (induction rule: pay_steps.induct) (auto intro: reachable_pay_step)

lemma one_step: "pay_step cf w v \<Longrightarrow> pay_steps cf w v"
  by (blast intro: pay_steps.intros)

lemma finished_Inr: "finished m s = (Inr (), t) \<longleftrightarrow> (\<exists>x. m s = (Inr x, t))"
  by (auto simp: finished_def)

lemma request_then_task:
  assumes "begin_request (cf_env cf) q s = (Inr [u], t)" "run_task cf u t = (Inr (), r)"
  shows "pay_steps cf \<lparr>wd_db = s, wd_tasks = us\<rparr> \<lparr>wd_db = r, wd_tasks = us\<rparr>"
proof -
  from step_request [OF assms(1), of us] have "pay_step cf \<lparr>wd_db = s, wd_tasks = us\<rparr> \<lparr>wd_db = t, wd_tasks = us @ [u]\<rparr>" .
  moreover from step_task [OF assms(2), of us "[]"]
  have "pay_step cf \<lparr>wd_db = t, wd_tasks = us @ [u]\<rparr> \<lparr>wd_db = r, wd_tasks = us\<rparr>" by simp
  ultimately show ?thesis by (blast intro: one_step pay_steps_trans)
qed

lemma request_alone:
  assumes "begin_request (cf_env cf) q s = (Inr [], t)"
  shows "pay_steps cf \<lparr>wd_db = s, wd_tasks = us\<rparr> \<lparr>wd_db = t, wd_tasks = us\<rparr>"
  using one_step [OF step_request [OF assms, of us]] by simp

lemma create_is_steps:
  assumes "payment_create (cf_env cf) c s = (Inr v, t)"
  shows "pay_steps cf \<lparr>wd_db = s, wd_tasks = us\<rparr> \<lparr>wd_db = t, wd_tasks = us\<rparr>"
proof -
  from assms obtain b r where b: "create_begin (cf_env cf) c s = (Inr b, r)" and rest:
    "(case b of Replayed v \<Rightarrow> retE v | Started p i a \<Rightarrow> atomically (create_finish p c i a)) r = (Inr v, t)"
    by (auto simp: payment_create_def)
  show ?thesis
  proof (cases b)
    case (Replayed w)
    with b rest have "begin_request (cf_env cf) (Req_create c) s = (Inr [], t)" by (simp add: begin_create_def)
    then show ?thesis by (rule request_alone)
  next
    case (Started p i a)
    with b have "begin_request (cf_env cf) (Req_create c) s = (Inr [Task_create p c i a], r)" by (simp add: begin_create_def)
    moreover from Started rest have "run_task cf (Task_create p c i a) r = (Inr (), t)" by (auto simp: finished_Inr)
    ultimately show ?thesis by (rule request_then_task)
  qed
qed

lemma refund_is_steps:
  assumes "refund_create (cf_env cf) c s = (Inr f, t)"
  shows "pay_steps cf \<lparr>wd_db = s, wd_tasks = us\<rparr> \<lparr>wd_db = t, wd_tasks = us\<rparr>"
proof -
  from assms obtain b r where b: "refund_begin (cf_env cf) c s = (Inr b, r)" and rest:
    "(case b of Refund_replayed f \<Rightarrow> retE f | Refund_started i a f \<Rightarrow> atomically (refund_finish (cf_env cf) i a f)) r = (Inr f, t)"
    by (auto simp: refund_create_def)
  show ?thesis
  proof (cases b)
    case (Refund_replayed w)
    with b rest have "begin_request (cf_env cf) (Req_refund c) s = (Inr [], t)" by (simp add: begin_refund_def)
    then show ?thesis by (rule request_alone)
  next
    case (Refund_started i a g)
    with b have "begin_request (cf_env cf) (Req_refund c) s = (Inr [Task_refund i a g], r)" by (simp add: begin_refund_def)
    moreover from Refund_started rest have "run_task cf (Task_refund i a g) r = (Inr (), t)" by (auto simp: finished_Inr)
    ultimately show ?thesis by (rule request_then_task)
  qed
qed

lemma payout_is_steps:
  assumes "payout_create (cf_env cf) simulated c s = (Inr y, t)"
  shows "pay_steps cf \<lparr>wd_db = s, wd_tasks = us\<rparr> \<lparr>wd_db = t, wd_tasks = us\<rparr>"
proof -
  from assms obtain b r where b: "payout_begin (cf_env cf) simulated c s = (Inr b, r)" and rest:
    "(case b of Payout_replayed x \<Rightarrow> retE (x, False)
      | Payout_started p x \<Rightarrow> bindE (atomically (payout_finish p x)) (\<lambda>y. retE (y, True))) r = (Inr y, t)"
    by (auto simp: payout_create_def)
  show ?thesis
  proof (cases b)
    case (Payout_replayed w)
    with b rest have "begin_request (cf_env cf) (Req_payout simulated c) s = (Inr [], t)" by (simp add: begin_payout_def)
    then show ?thesis by (rule request_alone)
  next
    case (Payout_started p x)
    with b have "begin_request (cf_env cf) (Req_payout simulated c) s = (Inr [Task_payout p x], r)" by (simp add: begin_payout_def)
    moreover from Payout_started rest have "run_task cf (Task_payout p x) r = (Inr (), t)" by (auto simp: finished_Inr)
    ultimately show ?thesis by (rule request_then_task)
  qed
qed

lemma webhook_is_steps:
  assumes "webhook_process p body headers s = (Inr out, t)" "processor_get (pv_registry (cf_env cf)) name = Inr p"
  shows "pay_steps cf \<lparr>wd_db = s, wd_tasks = us\<rparr> \<lparr>wd_db = t, wd_tasks = us\<rparr>"
proof -
  from assms(1) obtain n where n: "parse_webhook p body headers = Answer n"
    by (cases "parse_webhook p body headers") (auto simp: webhook_process_def)
  with assms(1) obtain row r where row: "webhook_receive p n s = (Inr row, r)" and rest:
    "(case row of None \<Rightarrow> retE Wh_duplicate | Some e \<Rightarrow> atomically (webhook_apply p n e)) r = (Inr out, t)"
    by (auto simp: webhook_process_def)
  from assms(2) n row have begins: "begin_request (cf_env cf) (Req_webhook name body headers) s =
      (Inr (case row of None \<Rightarrow> [] | Some e \<Rightarrow> [Task_webhook p n e]), r)"
    by (simp add: begin_webhook_def bindE_def of_sum_def retE_def)
  show ?thesis
  proof (cases row)
    case None
    with begins have "begin_request (cf_env cf) (Req_webhook name body headers) s = (Inr [], r)" by simp
    from request_alone [OF this] None rest show ?thesis by simp
  next
    case (Some e)
    with begins have "begin_request (cf_env cf) (Req_webhook name body headers) s = (Inr [Task_webhook p n e], r)" by simp
    moreover from Some rest have "run_task cf (Task_webhook p n e) r = (Inr (), t)" by (auto simp: finished_Inr)
    ultimately show ?thesis by (rule request_then_task)
  qed
qed

end
