(* ===== verification/PayInv.thy ===== *)
theory PayInv
  imports PaySteps
begin

section \<open>Payments: what every world keeps\<close>

text \<open>
  \<open>pay_inv T K s\<close>: the database \<open>s\<close> is consistent, each outstanding half in \<open>T\<close> still finds the rows it
  was started for, and the payments in \<open>K\<close> are paid. The books: one journal for each (type, reference), with
  one owner and two entries of its amount. Refunds: those not failed never exceed the payment, and the
  books carry exactly the succeeded ones. Payouts: the books carry a payout once it has succeeded.
\<close>

definition refunded_total :: "pay_db \<Rightarrow> uuid \<Rightarrow> int" where
  "refunded_total s i = sum_list (map (\<lambda>r. pm_amount (rf_money r))
     (filter (\<lambda>r. rf_intent r = i \<and> rf_status r = Rf_succeeded) (refunds s)))"

definition entries_of_journal :: "pay_db \<Rightarrow> journal \<Rightarrow> fin_entry list" where
  "entries_of_journal s j = filter (\<lambda>e. fe_journal e = fj_id j) (fin_entries s)"

text \<open>
  What each type of booking debits and credits, as far as the money owed by the processors is concerned.
\<close>

definition owed_by_processor :: "string \<Rightarrow> bool" where
  "owed_by_processor account \<longleftrightarrow> starts_with ''processor_receivable:'' account"

definition booking_ok :: "string \<Rightarrow> string \<Rightarrow> string \<Rightarrow> bool" where
  "booking_ok ty d c \<longleftrightarrow>
     (ty = ''capture'' \<and> owed_by_processor d \<and> \<not> owed_by_processor c)
     \<or> (ty \<in> {''refund'', ''processor_fee'', ''settlement''} \<and> \<not> owed_by_processor d \<and> owed_by_processor c)
     \<or> (ty = ''payout'' \<and> \<not> owed_by_processor d \<and> \<not> owed_by_processor c)"

lemma account_kinds [simp]:
  "owed_by_processor (receivable p)" "\<not> owed_by_processor (payable c)" "\<not> owed_by_processor ''processor_fee_expense''"
  "\<not> owed_by_processor ''bank_cash''"
  by (simp_all add: owed_by_processor_def starts_with_def receivable_def payable_def)

definition journal_ok :: "pay_db \<Rightarrow> journal \<Rightarrow> bool" where
  "journal_ok s j \<longleftrightarrow> 0 < fj_amount j
     \<and> (fj_intent j = None \<longleftrightarrow> fj_type j = ''payout'') \<and> (fj_payout j = None \<longleftrightarrow> fj_type j \<noteq> ''payout'')
     \<and> (\<exists>n d c. entries_of_journal s j = two_entries n (fj_id j) d c (fj_amount j) (fj_currency j) \<and> booking_ok (fj_type j) d c)"

definition books_ok :: "pay_db \<Rightarrow> bool" where
  "books_ok s \<longleftrightarrow> distinct (map (\<lambda>j. (fj_type j, fj_reference j)) (journals s)) \<and> distinct (map fj_id (journals s))
     \<and> (\<forall>j \<in> set (journals s). fj_id j < pay_next s \<and> journal_ok s j)
     \<and> (\<forall>e \<in> set (fin_entries s). fe_journal e \<in> fj_id ` set (journals s))"

definition refunds_ok :: "pay_db \<Rightarrow> bool" where
  "refunds_ok s \<longleftrightarrow> distinct (map pi_id (intents s)) \<and> distinct (map rf_id (refunds s))
     \<and> (\<forall>f \<in> set (refunds s). 0 < pm_amount (rf_money f))
     \<and> (\<forall>i \<in> set (intents s). total_active_for s (pi_id i) \<le> pm_amount (pi_money i) \<and> 0 \<le> pi_refunded i
          \<and> pi_refunded i \<le> refunded_total s (pi_id i))
     \<and> (\<forall>i. journal_total s i ''refund'' = refunded_total s i)
     \<and> (\<forall>j \<in> set (journals s). fj_type j = ''refund'' \<longrightarrow>
          (\<exists>f \<in> set (refunds s). rf_status f = Rf_succeeded \<and> fj_reference j = uuid_str (rf_id f)))"

definition payout_journal :: "pay_payout \<Rightarrow> journal \<Rightarrow> bool" where
  "payout_journal p j \<longleftrightarrow> fj_type j = ''payout'' \<and> fj_payout j = Some (pt_id p)
     \<and> fj_reference j = ''payout:'' @ uuid_str (pt_id p) @ '':succeeded''
     \<and> fj_amount j = pm_amount (pt_money p) \<and> fj_currency j = pm_currency (pt_money p)"

definition payouts_ok :: "pay_db \<Rightarrow> bool" where
  "payouts_ok s \<longleftrightarrow> distinct (map pt_id (payouts s))
     \<and> (\<forall>p \<in> set (payouts s). pt_status p = Pt_succeeded \<longrightarrow> (\<exists>j \<in> set (journals s). payout_journal p j))
     \<and> (\<forall>j \<in> set (journals s). fj_type j = ''payout'' \<longrightarrow> (\<exists>p \<in> set (payouts s). payout_journal p j))"

definition paid_in :: "pay_db \<Rightarrow> uuid \<Rightarrow> pay_money \<Rightarrow> bool" where
  "paid_in s i m \<longleftrightarrow> (\<exists>x \<in> set (intents s). pi_id x = i \<and> paid_status (pi_status x) \<and> pi_money x = m)"

fun task_ok :: "pay_db \<Rightarrow> pay_task \<Rightarrow> bool" where
  "task_ok s (Task_create p c i a) \<longleftrightarrow> pi_refunded i = 0
     \<and> (\<exists>x \<in> set (intents s). pi_id x = pi_id i \<and> \<not> paid_status (pi_status x))
     \<and> (\<exists>b \<in> set (attempts s). pa_id b = pa_id a)
     \<and> (\<forall>b \<in> set (attempts s). (pa_intent b = pi_id i \<longleftrightarrow> pa_id b = pa_id a)
          \<and> (pa_id b = pa_id a \<longrightarrow> pa_provider_ref b = None))"
| "task_ok s (Task_webhook p n r) \<longleftrightarrow> True"
| "task_ok s (Task_verify a) \<longleftrightarrow> pa_provider_ref a \<noteq> None
     \<and> (\<exists>b \<in> set (attempts s). pa_id b = pa_id a \<and> pa_provider_ref b \<noteq> None \<and> pa_intent b = pa_intent a)"
| "task_ok s (Task_refund i a f) \<longleftrightarrow> f \<in> set (refunds s) \<and> rf_status f = Rf_pending \<and> rf_intent f = pi_id i
     \<and> paid_in s (pi_id i) (pi_money i) \<and> paid_status (pi_status i) \<and> 0 \<le> pi_refunded i \<and> pi_refunded i \<le> refunded_total s (pi_id i)"
| "task_ok s (Task_payout p x) \<longleftrightarrow> (\<exists>y \<in> set (payouts s). pt_id y = pt_id x \<and> pt_money y = pt_money x)"
| "task_ok s (Task_verify_payout x) \<longleftrightarrow> (\<exists>y \<in> set (payouts s). pt_id y = pt_id x \<and> pt_money y = pt_money x)"
| "task_ok s (Task_deliver r) \<longleftrightarrow> True"

fun task_keys :: "pay_task \<Rightarrow> (nat \<times> uuid) list" where
  "task_keys (Task_create p c i a) = [(0, pi_id i)]"
| "task_keys (Task_refund i a f) = [(1, rf_id f)]"
| "task_keys _ = []"

definition money_ok :: "pay_money \<Rightarrow> bool" where
  "money_ok m \<longleftrightarrow> 0 < pm_amount m \<and> big_int (pm_amount m) \<and> length (pm_currency m) = 3 \<and> is_alpha (pm_currency m)"

definition intent_keys :: "pay_db \<Rightarrow> (uuid \<times> pay_money) set" where
  "intent_keys s = (\<lambda>i. (pi_id i, pi_money i)) ` set (intents s)"

definition attempt_keys :: "pay_db \<Rightarrow> (uuid \<times> pay_money) set" where
  "attempt_keys s = (\<lambda>a. (pa_intent a, pa_money a)) ` set (attempts s)"

definition refund_keys :: "pay_db \<Rightarrow> (uuid \<times> pay_money) set" where
  "refund_keys s = (\<lambda>f. (rf_intent f, rf_money f)) ` set (refunds s)"

lemmas row_keys_defs = intent_keys_def attempt_keys_def refund_keys_def

definition links_ok :: "pay_db \<Rightarrow> bool" where
  "links_ok s \<longleftrightarrow> distinct (map pa_id (attempts s)) \<and> attempt_keys s \<subseteq> intent_keys s
     \<and> fst ` refund_keys s \<subseteq> fst ` intent_keys s
     \<and> (\<forall>m \<in> snd ` intent_keys s \<union> snd ` refund_keys s \<union> pt_money ` set (payouts s). money_ok m)"

definition pay_inv :: "pay_task list \<Rightarrow> (uuid \<times> pay_money) set \<Rightarrow> pay_db \<Rightarrow> bool" where
  "pay_inv T K s \<longleftrightarrow> books_ok s \<and> refunds_ok s \<and> payouts_ok s \<and> distinct (concat (map task_keys T))
     \<and> (\<forall>t \<in> set T. task_ok s t) \<and> (\<forall>(i, m) \<in> K. paid_in s i m)
     \<and> links_ok s"

lemma links_ok_update:
  assumes "links_ok s" "intent_keys t = intent_keys s" "map pa_id (attempts t) = map pa_id (attempts s)"
    "attempt_keys t = attempt_keys s" "refund_keys t = refund_keys s" "pt_money ` set (payouts t) = pt_money ` set (payouts s)"
  shows "links_ok t"
  using assms by (simp add: links_ok_def)

lemma links_ok_ids:
  assumes "links_ok s"
  shows "pa_intent ` set (attempts s) \<subseteq> pi_id ` set (intents s)" "rf_intent ` set (refunds s) \<subseteq> pi_id ` set (intents s)"
  using assms by (auto simp: links_ok_def row_keys_defs image_image image_subset_iff)

lemma pay_invD:
  assumes "pay_inv T K s"
  shows "books_ok s" "refunds_ok s" "payouts_ok s" "distinct (concat (map task_keys T))" "t \<in> set T \<Longrightarrow> task_ok s t"
    "(i, m) \<in> K \<Longrightarrow> paid_in s i m" "distinct (map pi_id (intents s))" "distinct (map rf_id (refunds s))"
    "distinct (map pt_id (payouts s))" "distinct (map pa_id (attempts s))" "links_ok s"
  using assms by (auto simp: pay_inv_def refunds_ok_def payouts_ok_def links_ok_def)

subsection \<open>What the invariant depends on\<close>

definition core :: "pay_db \<Rightarrow> _" where
  "core s = (intents s, attempts s, refunds s, payouts s, journals s, fin_entries s)"

lemma task_ok_core: "core t = core s \<Longrightarrow> task_ok t u = task_ok s u"
  by (cases u) (simp_all add: core_def paid_in_def refunded_total_def)

lemma pay_inv_core:
  assumes "core t = core s" "pay_next s \<le> pay_next t" "pay_inv T K s"
  shows "pay_inv T K t"
proof -
  from assms(1) have eqs: "intents t = intents s" "attempts t = attempts s" "refunds t = refunds s" "payouts t = payouts s"
      "journals t = journals s" "fin_entries t = fin_entries s"
    by (simp_all add: core_def)
  from assms(3) eqs assms(2) have "books_ok t"
    by (force simp: pay_inv_def books_ok_def journal_ok_def entries_of_journal_def)
  moreover from assms(3) eqs have "refunds_ok t"
    by (simp add: pay_inv_def refunds_ok_def total_active_for_def refunded_total_def journal_total_def)
  moreover from assms(3) eqs have "payouts_ok t" by (simp add: pay_inv_def payouts_ok_def)
  ultimately show ?thesis
    using assms(3) eqs task_ok_core [OF assms(1)] by (simp add: pay_inv_def paid_in_def links_ok_def row_keys_defs)
qed

lemma keeps_core:
  assumes "\<And>s x t. m s = (Inr x, t) \<Longrightarrow> core t = core s \<and> pay_next s \<le> pay_next t"
  shows "keeps (pay_inv T K) m"
  using assms by (auto intro!: keepsI elim: pay_inv_core [rotated 2])

lemma pay_fresh_Inr [simp]: "pay_fresh s = (Inr i, t) \<longleftrightarrow> i = pay_next s \<and> t = s\<lparr>pay_next := Suc (pay_next s)\<rparr>"
  by (auto simp: pay_fresh_def)

lemma core_updates [simp]:
  "core (s\<lparr>pay_next := n\<rparr>) = core s" "core (s\<lparr>provider_events := es\<rparr>) = core s" "core (s\<lparr>pay_outboxes := os\<rparr>) = core s"
  "core (s\<lparr>commands := cs\<rparr>) = core s" "core (s\<lparr>pay_clock := k\<rparr>) = core s"
  by (simp_all add: core_def)

lemma keeps_pay_frames [keeps_intros]:
  "keeps (pay_inv T K) pay_fresh"
  "keeps (pay_inv T K) (event_add p k ty)"
  "keeps (pay_inv T K) (event_mark r st a e)"
  "keeps (pay_inv T K) (outbox_add c ty i pl)"
  "keeps (pay_inv T K) (claim n lease)"
  "keeps (pay_inv T K) (mark_delivered row)"
  "keeps (pay_inv T K) (mark_failed row err n)"
  "keeps (pay_inv T K) (command_create c1 c2 c3 c4 c5 c6 tg rsn fp)"
  "keeps (pay_inv T K) (command_complete bc res)"
  "keeps (pay_inv T K) (modE (\<lambda>s. s\<lparr>pay_outboxes := g s\<rparr>))"
  "keeps (pay_inv T K) (modE (\<lambda>s. s\<lparr>pay_clock := h s\<rparr>))"
  by (rule keeps_core, auto simp: event_add_def event_mark_def outbox_add_def claim_def mark_delivered_def mark_failed_def
      command_create_def command_complete_def Let_def)+

subsection \<open>Changes of single rows\<close>

lemma intent_get_Some: "intent_get s n = Some x \<Longrightarrow> x \<in> set (intents s) \<and> pi_id x = n"
  unfolding intent_get_def by (rule lookup_row_SomeD)

lemma attempt_get_Some: "attempt_get s n = Some x \<Longrightarrow> x \<in> set (attempts s) \<and> pa_id x = n"
  unfolding attempt_get_def by (rule lookup_row_SomeD)

lemma payout_get_Some: "payout_get s n = Some x \<Longrightarrow> x \<in> set (payouts s) \<and> pt_id x = n"
  unfolding payout_get_def by (rule lookup_row_SomeD)

definition set_intent :: "intent_status \<Rightarrow> int \<Rightarrow> instant \<Rightarrow> pay_intent \<Rightarrow> pay_intent" where
  "set_intent st r u x = x\<lparr>pi_status := st, pi_refunded := r, pi_updated := u\<rparr>"

lemma set_intent_simps [simp]:
  "pi_id (set_intent st r u x) = pi_id x" "pi_money (set_intent st r u x) = pi_money x"
  "pi_status (set_intent st r u x) = st" "pi_refunded (set_intent st r u x) = r"
  by (simp_all add: set_intent_def)

lemma intent_save_Inr:
  "intent_save i s = (Inr v, t) \<longleftrightarrow> (\<exists>x. intent_get s (pi_id i) = Some x \<and> 0 \<le> pi_refunded i \<and> pi_refunded i \<le> pm_amount (pi_money x)
     \<and> t = s\<lparr>intents := update_row pi_id (pi_id i) (set_intent (pi_status i) (pi_refunded i) (pi_updated i)) (intents s)\<rparr>)"
  by (auto simp: intent_save_def set_intent_def [abs_def])

lemma paid_in_update:
  assumes "paid_in s k m" "distinct (map pi_id (intents s))" "x \<in> set (intents s)"
    "paid_status (pi_status x) \<Longrightarrow> paid_status st"
  shows "paid_in (s\<lparr>intents := update_row pi_id (pi_id x) (set_intent st r u) (intents s)\<rparr>) k m"
proof -
  from assms(1) obtain y where y: "y \<in> set (intents s)" "pi_id y = k" "paid_status (pi_status y)" "pi_money y = m"
    by (auto simp: paid_in_def)
  show ?thesis
  proof (cases "k = pi_id x")
    case True
    with y distinct_map_same [OF assms(2) y(1) assms(3)] have "y = x" by simp
    with y assms(4) True show ?thesis
      unfolding paid_in_def by (intro bexI [of _ "set_intent st r u y"]) (simp_all add: update_row_this)
  next
    case False
    with y show ?thesis unfolding paid_in_def by (intro bexI [of _ y]) (simp_all add: update_row_other)
  qed
qed

lemma task_ok_intent:
  assumes "task_ok s w" "distinct (map pi_id (intents s))" "x \<in> set (intents s)"
    "paid_status (pi_status x) \<Longrightarrow> paid_status st"
    "\<And>p c i a. w = Task_create p c i a \<Longrightarrow> paid_status st \<Longrightarrow> pi_id i \<noteq> pi_id x"
  shows "task_ok (s\<lparr>intents := update_row pi_id (pi_id x) (set_intent st r u) (intents s)\<rparr>) w"
proof (cases w)
  case (Task_create p c i a)
  with assms(1) obtain y where y: "y \<in> set (intents s)" "pi_id y = pi_id i" "\<not> paid_status (pi_status y)" by auto
  have "\<exists>z \<in> set (update_row pi_id (pi_id x) (set_intent st r u) (intents s)). pi_id z = pi_id i \<and> \<not> paid_status (pi_status z)"
  proof (cases "pi_id i = pi_id x")
    case True
    with assms(5) [OF Task_create] y show ?thesis
      by (intro bexI [of _ "set_intent st r u y"]) (auto intro: update_row_this)
  next
    case False
    with y show ?thesis by (intro bexI [of _ y]) (simp_all add: update_row_other)
  qed
  with Task_create assms(1) show ?thesis by simp
next
  case (Task_refund i a f)
  with assms show ?thesis by (simp add: paid_in_update refunded_total_def)
qed (use assms(1) in simp_all)

lemma pay_inv_intent:
  assumes "pay_inv T K s" "x \<in> set (intents s)" "0 \<le> r" "r \<le> refunded_total s (pi_id x)"
    "paid_status (pi_status x) \<Longrightarrow> paid_status st"
    "\<And>p c i a. Task_create p c i a \<in> set T \<Longrightarrow> paid_status st \<Longrightarrow> pi_id i \<noteq> pi_id x"
  shows "pay_inv T K (s\<lparr>intents := update_row pi_id (pi_id x) (set_intent st r u) (intents s)\<rparr>)"
proof -
  let ?t = "s\<lparr>intents := update_row pi_id (pi_id x) (set_intent st r u) (intents s)\<rparr>"
  note inv = pay_invD [OF assms(1)]
  from inv(1) have "books_ok ?t" by (simp add: books_ok_def journal_ok_def entries_of_journal_def)
  moreover from inv(2) assms(3,4) have "refunds_ok ?t"
    by (auto simp: refunds_ok_def total_active_for_def refunded_total_def journal_total_def set_update_row)
  moreover from inv(3) have "payouts_ok ?t" by (simp add: payouts_ok_def)
  moreover have "task_ok ?t w" if "w \<in> set T" for w
    using that assms(6) by (intro task_ok_intent [OF inv(5) [OF that] inv(7) assms(2,5)]) blast+
  moreover have "paid_in ?t i m" if "(i, m) \<in> K" for i m
    using paid_in_update [OF inv(6) [OF that] inv(7) assms(2,5)] .
  moreover have "links_ok ?t" using links_ok_update [OF inv(11), of ?t] by (simp add: row_keys_defs)
  ultimately show ?thesis by (auto simp: pay_inv_def inv(4))
qed

definition set_attempt :: "pay_attempt \<Rightarrow> pay_attempt \<Rightarrow> pay_attempt" where
  "set_attempt a r = r\<lparr>pa_status := pa_status a, pa_provider_ref := pa_provider_ref a, pa_provider_status := pa_provider_status a,
     pa_action := pa_action a, pa_failure := pa_failure a, pa_updated := pa_updated a\<rparr>"

lemma set_attempt_simps [simp]:
  "pa_id (set_attempt a r) = pa_id r" "pa_intent (set_attempt a r) = pa_intent r" "pa_money (set_attempt a r) = pa_money r"
  "pa_provider_ref (set_attempt a r) = pa_provider_ref a" "pa_status (set_attempt a r) = pa_status a"
  by (simp_all add: set_attempt_def)

lemma attempt_save_Inr:
  "attempt_save a s = (Inr v, t) \<longleftrightarrow> attempt_get s (pa_id a) \<noteq> None \<and> attempt_unique (attempts s) a
     \<and> t = s\<lparr>attempts := update_row pa_id (pa_id a) (set_attempt a) (attempts s)\<rparr>"
  by (auto simp: attempt_save_def set_attempt_def [abs_def])

lemma pay_inv_attempt:
  assumes "pay_inv T K s"
    "pa_provider_ref a = None \<Longrightarrow> \<forall>b \<in> set (attempts s). pa_id b = pa_id a \<longrightarrow> pa_provider_ref b = None"
    "\<And>p c i b. Task_create p c i b \<in> set T \<Longrightarrow> pa_id b = pa_id a \<Longrightarrow> pa_provider_ref a = None"
  shows "pay_inv T K (s\<lparr>attempts := update_row pa_id (pa_id a) (set_attempt a) (attempts s)\<rparr>)"
proof -
  let ?t = "s\<lparr>attempts := update_row pa_id (pa_id a) (set_attempt a) (attempts s)\<rparr>"
  note inv = pay_invD [OF assms(1)]
  have "task_ok ?t w" if w: "w \<in> set T" for w
  proof (cases w)
    case (Task_create p c i b)
    with inv(5) [OF w] have ok: "task_ok s (Task_create p c i b)" by simp
    from w Task_create assms(3) [of p c i b] have none: "pa_id b = pa_id a \<Longrightarrow> pa_provider_ref a = None" by simp
    have rows: "(pa_intent y = pi_id i \<longleftrightarrow> pa_id y = pa_id b) \<and> (pa_id y = pa_id b \<longrightarrow> pa_provider_ref y = None)"
      if "y \<in> set (attempts ?t)" for y
      using that ok none by (auto simp: set_update_row)
    have "pa_id b \<in> pa_id ` set (attempts s)" using ok by (auto simp: image_iff) metis
    then have "pa_id b \<in> pa_id ` set (attempts ?t)" by simp
    then obtain y where y: "y \<in> set (attempts ?t)" "pa_id y = pa_id b" by (metis imageE)
    from ok have "pi_refunded i = 0 \<and> (\<exists>x \<in> set (intents ?t). pi_id x = pi_id i \<and> \<not> paid_status (pi_status x))" by simp
    with rows y show ?thesis unfolding Task_create task_ok.simps by blast
  next
    case (Task_verify b)
    with inv(5) [OF w] obtain y where y: "y \<in> set (attempts s)" "pa_id y = pa_id b" "pa_provider_ref y \<noteq> None"
        "pa_intent y = pa_intent b" and b: "pa_provider_ref b \<noteq> None"
      by auto
    let ?f = "\<lambda>r. if pa_id r = pa_id a then set_attempt a r else r"
    from y assms(2) have "pa_id (?f y) = pa_id b \<and> pa_provider_ref (?f y) \<noteq> None \<and> pa_intent (?f y) = pa_intent b"
      by (cases "pa_provider_ref a") auto
    moreover from y have "?f y \<in> set (attempts ?t)" by (simp add: set_update_row)
    ultimately show ?thesis using b Task_verify by (simp del: if_split) blast
  qed (use inv(5) [OF w] in \<open>simp_all add: paid_in_def refunded_total_def\<close>)
  moreover have "links_ok ?t" using links_ok_update [OF inv(11), of ?t] by (simp add: row_keys_defs)
  ultimately show ?thesis using assms(1)
    by (simp add: pay_inv_def books_ok_def journal_ok_def entries_of_journal_def refunds_ok_def total_active_for_def
        refunded_total_def journal_total_def payouts_ok_def paid_in_def)
qed

subsection \<open>Journals\<close>

lemma write_journal_Inr:
  assumes "write_journal intent payout ty ref a cur d c s = (Inr j, t)"
  obtains "journal_get s ty ref = Some j" "t = s"
  | "journal_get s ty ref = None" "0 < a" "(intent = None) \<noteq> (payout = None)"
    "j = \<lparr>fj_id = pay_next s, fj_intent = intent, fj_payout = payout, fj_type = ty, fj_reference = ref, fj_amount = a,
       fj_currency = cur, fj_created = pay_clock s\<rparr>"
    "t = s\<lparr>pay_next := Suc (Suc (Suc (pay_next s))), journals := journals s @ [j],
       fin_entries := fin_entries s @ two_entries (Suc (pay_next s)) (pay_next s) d c a cur\<rparr>"
  using assms by (cases "journal_get s ty ref") (auto simp: write_journal_def Let_def)

lemma journal_get_None: "journal_get s ty ref = None \<longleftrightarrow> (\<forall>j \<in> set (journals s). \<not> (fj_type j = ty \<and> fj_reference j = ref))"
  by (simp add: journal_get_def find_None_prop)

lemma two_entries_journal: "e \<in> set (two_entries n k d c a cur) \<Longrightarrow> fe_journal e = k"
  by (auto simp: two_entries_def)

lemma entries_of_new_journal:
  assumes "books_ok s" "fj_id j = pay_next s"
    "t = s\<lparr>pay_next := m, journals := journals s @ [j], fin_entries := fin_entries s @ two_entries n (pay_next s) d c a cur\<rparr>"
  shows "entries_of_journal t j = two_entries n (pay_next s) d c a cur"
    "k \<in> set (journals s) \<Longrightarrow> entries_of_journal t k = entries_of_journal s k"
proof -
  from assms(1) have fresh: "\<forall>k \<in> set (journals s). fj_id k < pay_next s" "\<forall>e \<in> set (fin_entries s). fe_journal e < pay_next s"
    by (auto simp: books_ok_def)
  show "entries_of_journal t j = two_entries n (pay_next s) d c a cur"
    using fresh(2) by (auto simp: entries_of_journal_def assms(2,3) two_entries_def filter_empty_conv)
  show "entries_of_journal t k = entries_of_journal s k" if "k \<in> set (journals s)"
    using fresh(1) that by (auto simp: entries_of_journal_def assms(3) two_entries_def)
qed

lemma books_ok_post:
  assumes ok: "books_ok s" and new: "journal_get s (fj_type j) (fj_reference j) = None" "0 < fj_amount j"
      "fj_intent j = None \<longleftrightarrow> fj_type j = ''payout''" "fj_id j = pay_next s"
      "fj_payout j = None \<longleftrightarrow> fj_type j \<noteq> ''payout''" "booking_ok (fj_type j) d c"
    and t: "t = s\<lparr>pay_next := Suc (Suc (Suc (pay_next s))), journals := journals s @ [j],
      fin_entries := fin_entries s @ two_entries n (pay_next s) d c (fj_amount j) (fj_currency j)\<rparr>"
  shows "books_ok t"
proof -
  note entries = entries_of_new_journal [OF ok new(4) t]
  from ok have "journal_ok t k" if "k \<in> set (journals s)" for k
    using that entries(2) [OF that] by (auto simp: books_ok_def journal_ok_def)
  moreover from new entries(1) have "journal_ok t j" by (auto simp: journal_ok_def)
  moreover have "(fj_type j, fj_reference j) \<notin> (\<lambda>j. (fj_type j, fj_reference j)) ` set (journals s)"
    using new(1) by (auto simp: journal_get_None)
  moreover have "fj_id j \<notin> fj_id ` set (journals s)" using ok new(4) by (auto simp: books_ok_def)
  ultimately show ?thesis
    using ok new(4) by (auto simp: books_ok_def t less_Suc_eq dest: two_entries_journal)
qed

lemma journal_total_post:
  "journal_total (s\<lparr>pay_next := m, journals := journals s @ [j], fin_entries := es\<rparr>) i ty =
     journal_total s i ty + (if fj_intent j = Some i \<and> fj_type j = ty then fj_amount j else 0)"
  by (simp add: journal_total_def)

lemma keeps_write_journal:
  assumes "ty \<noteq> ''refund''" "ty \<noteq> ''payout''" "booking_ok ty d c"
  shows "keeps (pay_inv T K) (write_journal (Some i) None ty ref a cur d c)"
proof (rule keepsI)
  fix s j t assume inv: "pay_inv T K s" and run: "write_journal (Some i) None ty ref a cur d c s = (Inr j, t)"
  from run show "pay_inv T K t"
  proof (cases rule: write_journal_Inr)
    case 1
    with inv show ?thesis by simp
  next
    case 2
    let ?j = j
    from 2 pay_invD(1) [OF inv] assms have books: "books_ok t" by (intro books_ok_post [of s j d c t]) auto
    from 2(4) assms have ty: "fj_type ?j \<noteq> ''refund''" "fj_type ?j \<noteq> ''payout''" by simp_all
    from pay_invD(2) [OF inv] ty have "refunds_ok t"
      by (auto simp: refunds_ok_def 2(5) journal_total_post total_active_for_def refunded_total_def)
    moreover from pay_invD(3) [OF inv] ty have "payouts_ok t" by (auto simp: payouts_ok_def 2(5))
    moreover have "task_ok t w \<longleftrightarrow> task_ok s w" for w by (cases w) (simp_all add: 2(5) paid_in_def refunded_total_def)
    ultimately show ?thesis using inv books by (simp add: pay_inv_def 2(5) paid_in_def links_ok_def row_keys_defs)
  qed
qed

lemma keeps_bookings [keeps_intros]:
  "keeps (pay_inv T K) (record_capture i a ref fee)"
  "keeps (pay_inv T K) (record_settlement i p n ref)"
  "keeps (pay_inv T K) (record_payment_success i a key fee)"
  unfolding record_capture_def record_settlement_def record_payment_success_def journal_post_def
  by (intro keeps_intros keeps_write_journal; simp add: booking_ok_def)+

subsection \<open>Payouts\<close>

definition set_payout :: "pay_payout \<Rightarrow> pay_payout \<Rightarrow> pay_payout" where
  "set_payout p r = r\<lparr>pt_status := pt_status p, pt_provider_ref := pt_provider_ref p, pt_provider_status := pt_provider_status p,
     pt_failure := pt_failure p, pt_updated := pt_updated p\<rparr>"

lemma set_payout_simps [simp]:
  "pt_id (set_payout p r) = pt_id r" "pt_money (set_payout p r) = pt_money r" "pt_status (set_payout p r) = pt_status p"
  by (simp_all add: set_payout_def)

lemma payout_save_Inr:
  "payout_save p s = (Inr v, t) \<longleftrightarrow> payout_get s (pt_id p) \<noteq> None \<and> payout_unique (payouts s) p
     \<and> t = s\<lparr>payouts := update_row pt_id (pt_id p) (set_payout p) (payouts s)\<rparr>"
  by (auto simp: payout_save_def set_payout_def [abs_def])

lemma payout_journal_same: "pt_id p = pt_id q \<Longrightarrow> pt_money p = pt_money q \<Longrightarrow> payout_journal p j = payout_journal q j"
  by (simp add: payout_journal_def)

lemma payouts_ok_saved:
  assumes ok: "payouts_ok s" and y: "y \<in> set (payouts s)" "pt_id y = pt_id x" "pt_money y = pt_money x"
    and t: "payouts t = update_row pt_id (pt_id x) (set_payout x) (payouts s)" "set (journals s) \<subseteq> set (journals t)"
    and new: "\<And>j. j \<in> set (journals t) \<Longrightarrow> fj_type j = ''payout'' \<Longrightarrow> j \<in> set (journals s) \<or> payout_journal x j"
    and booked: "pt_status x = Pt_succeeded \<Longrightarrow> \<exists>j \<in> set (journals t). payout_journal x j"
  shows "payouts_ok t"
  unfolding payouts_ok_def
proof (intro conjI ballI impI)
  from ok show "distinct (map pt_id (payouts t))" by (simp add: payouts_ok_def t(1))
  fix p assume "p \<in> set (payouts t)" "pt_status p = Pt_succeeded"
  then obtain r where r: "r \<in> set (payouts s)" "p = (if pt_id r = pt_id x then set_payout x r else r)"
    by (auto simp: t(1) set_update_row)
  show "\<exists>j \<in> set (journals t). payout_journal p j"
  proof (cases "pt_id r = pt_id x")
    case True
    with r(1) y ok have "r = y" by (auto simp: payouts_ok_def dest: distinct_map_same)
    with True r y \<open>pt_status p = Pt_succeeded\<close> booked payout_journal_same [of p x] show ?thesis by simp
  next
    case False
    with r \<open>pt_status p = Pt_succeeded\<close> ok obtain j where "j \<in> set (journals s)" "payout_journal p j"
      by (auto simp: payouts_ok_def)
    with t(2) show ?thesis by blast
  qed
next
  fix j assume j: "j \<in> set (journals t)" "fj_type j = ''payout''"
  let ?f = "\<lambda>r. if pt_id r = pt_id x then set_payout x r else r"
  have "\<exists>r \<in> set (payouts s). payout_journal r j"
  proof (cases "j \<in> set (journals s)")
    case True
    with j ok show ?thesis by (auto simp: payouts_ok_def)
  next
    case False
    with new j have "payout_journal x j" by blast
    with y payout_journal_same [of y x] show ?thesis by blast
  qed
  then obtain r where r: "r \<in> set (payouts s)" "payout_journal r j" by blast
  from r(2) payout_journal_same [of "?f r" r] have "payout_journal (?f r) j" by simp
  moreover from r(1) have "?f r \<in> set (payouts t)" by (simp add: t(1) set_update_row)
  ultimately show "\<exists>p \<in> set (payouts t). payout_journal p j" by blast
qed

lemma payout_row_kept:
  "\<exists>z \<in> set (payouts s). pt_id z = i \<and> pt_money z = m \<Longrightarrow>
   \<exists>z \<in> set (update_row pt_id k (set_payout x) (payouts s)). pt_id z = i \<and> pt_money z = m"
proof (elim bexE)
  fix z assume "z \<in> set (payouts s)" "pt_id z = i \<and> pt_money z = m"
  then show ?thesis
    by (intro bexI [of _ "if pt_id z = k then set_payout x z else z"]) (auto simp: update_row_other update_row_this)
qed

lemma task_ok_payouts:
  "task_ok s w \<Longrightarrow> task_ok (s\<lparr>payouts := update_row pt_id k (set_payout x) (payouts s)\<rparr>) w"
  by (cases w) (simp_all add: payout_row_kept paid_in_def refunded_total_def)

lemma pay_inv_payout:
  assumes inv: "pay_inv T K s" and y: "y \<in> set (payouts s)" "pt_id y = pt_id x" "pt_money y = pt_money x"
    and save: "payout_save x s = (Inr u, r)"
    and book: "whenE (pt_status x = Pt_succeeded) (record_payout_success x) r = (Inr v, t)"
  shows "pay_inv T K t"
proof -
  from save have r: "r = s\<lparr>payouts := update_row pt_id (pt_id x) (set_payout x) (payouts s)\<rparr>"
    by (simp add: payout_save_Inr)
  note invs = pay_invD [OF inv]
  have unbooked: "pay_inv T K r" if "pt_status x = Pt_succeeded \<Longrightarrow> \<exists>j \<in> set (journals s). payout_journal x j"
  proof -
    from invs(3) y r that have "payouts_ok r" by (intro payouts_ok_saved [of s y x r]) auto
    moreover from inv have "\<forall>w \<in> set T. task_ok r w" by (auto simp: r pay_inv_def task_ok_payouts)
    ultimately show ?thesis
      using inv by (simp add: pay_inv_def r books_ok_def journal_ok_def entries_of_journal_def refunds_ok_def total_active_for_def
          refunded_total_def journal_total_def paid_in_def links_ok_def row_keys_defs)
  qed
  show ?thesis
  proof (cases "pt_status x = Pt_succeeded")
    case False
    with book unbooked show ?thesis by simp
  next
    case True
    let ?ref = "''payout:'' @ uuid_str (pt_id x) @ '':succeeded''"
    from True book obtain j where "write_journal None (Some (pt_id x)) ''payout'' ?ref (pm_amount (pt_money x))
        (pm_currency (pt_money x)) (payable (pt_client x)) (''processor_balance:'' @ pt_processor x) r = (Inr j, t)"
      by (auto simp: record_payout_success_def journal_post_payout_def)
    then show ?thesis
    proof (cases rule: write_journal_Inr)
      case 1
      then have "j \<in> set (journals s)" "fj_type j = ''payout''" "fj_reference j = ?ref"
        by (auto simp: journal_get_def r dest: find_Some_prop)
      with invs(3) obtain p where p: "p \<in> set (payouts s)" "payout_journal p j" by (auto simp: payouts_ok_def)
      with \<open>fj_reference j = ?ref\<close> have "pt_id p = pt_id x" by (simp add: payout_journal_def uuid_str_inj)
      with p y invs(9) have "p = y" by (auto dest: distinct_map_same)
      with p y payout_journal_same [of y x] have "payout_journal x j" by simp
      with \<open>j \<in> set (journals s)\<close> unbooked 1 show ?thesis by blast
    next
      case 2
      from 2(1) have none: "journal_get s ''payout'' ?ref = None" by (simp add: r journal_get_def)
      from 2(4) have booked: "payout_journal x j" by (simp add: payout_journal_def)
      have "books_ok r" using invs(1) by (simp add: r books_ok_def journal_ok_def entries_of_journal_def)
      with 2 none have "books_ok t" by (intro books_ok_post [of r j "payable (pt_client x)" "''processor_balance:'' @ pt_processor x" t])
          (auto simp: r journal_get_def booking_ok_def owed_by_processor_def starts_with_def payable_def)
      moreover from invs(2) 2(4) have "refunds_ok t"
        by (auto simp: refunds_ok_def 2(5) r journal_total_post total_active_for_def refunded_total_def journal_total_def)
      moreover from 2(5) booked y have "payouts_ok t"
        by (intro payouts_ok_saved [OF invs(3) y]) (auto simp: r)
      moreover have "task_ok t w" if "w \<in> set T" for w
      proof -
        have "task_ok t w \<longleftrightarrow> task_ok r w" by (cases w) (simp_all add: 2(5) paid_in_def refunded_total_def)
        with invs(5) [OF that] show ?thesis by (simp add: r task_ok_payouts)
      qed
      ultimately show ?thesis using inv by (simp add: pay_inv_def 2(5) r paid_in_def links_ok_def row_keys_defs)
    qed
  qed
qed

subsection \<open>Refunds\<close>

definition set_refund :: "pay_refund \<Rightarrow> pay_refund \<Rightarrow> pay_refund" where
  "set_refund g r = r\<lparr>rf_status := rf_status g, rf_provider_ref := rf_provider_ref g, rf_provider_status := rf_provider_status g,
     rf_updated := rf_updated g\<rparr>"

lemma set_refund_simps [simp]:
  "rf_id (set_refund g r) = rf_id r" "rf_intent (set_refund g r) = rf_intent r" "rf_money (set_refund g r) = rf_money r"
  "rf_status (set_refund g r) = rf_status g"
  by (simp_all add: set_refund_def)

lemma refund_save_Inr:
  "refund_save g s = (Inr v, t) \<longleftrightarrow> lookup_row rf_id (rf_id g) (refunds s) \<noteq> None \<and> refund_unique (refunds s) g
     \<and> t = s\<lparr>refunds := update_row rf_id (rf_id g) (set_refund g) (refunds s)\<rparr>"
  by (auto simp: refund_save_def set_refund_def [abs_def])

lemma refund_transition_to_Inr:
  "refund_transition_to now st f = Inr g \<Longrightarrow> rf_status g = st \<and> rf_id g = rf_id f \<and> rf_intent g = rf_intent f \<and> rf_money g = rf_money f"
  by (auto simp: refund_transition_to_def moves_to_def split: if_splits)

lemma apply_refund_Inr:
  assumes "apply_refund now n i = Inr j"
  shows "paid_status (pi_status i)" "paid_status (pi_status j)" "0 < n" "pi_refunded i + n \<le> pm_amount (pi_money i)"
    "pi_refunded j = pi_refunded i + n" "pi_id j = pi_id i" "pi_money j = pi_money i" "pi_client j = pi_client i"
  using assms by (auto simp: apply_refund_def intent_transition_to_def moves_to_def paid_status_def Let_def split: if_splits)

lemma refund_finish_Inr:
  assumes "refund_finish env i a f s = (Inr g, t)"
  obtains "rf_id g = rf_id f" "rf_intent g = rf_intent f" "rf_money g = rf_money f" "rf_status g \<noteq> Rf_succeeded"
      "refund_save g s = (Inr (), t)"
  | now j r q where "rf_id g = rf_id f" "rf_intent g = rf_intent f" "rf_money g = rf_money f" "rf_status g = Rf_succeeded"
      "apply_refund now (pm_amount (rf_money f)) i = Inr j" "intent_save j s = (Inr (), r)"
      "record_refund j a g r = (Inr (), q)" "refund_save g q = (Inr (), t)"
proof -
  from assms obtain p where p: "processor_get (pv_registry env) (pa_processor a) = Inr p" and run:
    "bindE (case refund_payment p \<lparr>rr_refund = rf_id f, rr_reference = the (pa_provider_ref a), rr_money = rf_money f, rr_reason = rf_reason f\<rparr> of
         Uncertain _ \<Rightarrow> of_sum (map_sum id (\<lambda>g. g\<lparr>rf_provider_status := Some ''unknown''\<rparr>) (refund_transition_to (pay_clock s) Rf_processing f))
       | Answer r \<Rightarrow> of_sum (refund_transition_to (pay_clock s) (rs_status r)
           (f\<lparr>rf_provider_ref := rs_reference r, rf_provider_status := rs_provider_status r\<rparr>))
       | x \<Rightarrow> raiseE (psp_exception x)) (\<lambda>g.
     thenE (whenE (rf_status g = Rf_succeeded)
       (bindE (of_sum (apply_refund (pay_clock s) (pm_amount (rf_money g)) i)) (\<lambda>i'.
        thenE (intent_save i') (record_refund i' a g))))
     (thenE (refund_save g) (retE g))) s = (Inr g, t)"
    by (auto simp: refund_finish_def)
  define m :: "pay_refund pop" where "m = (case refund_payment p \<lparr>rr_refund = rf_id f, rr_reference = the (pa_provider_ref a), rr_money = rf_money f, rr_reason = rf_reason f\<rparr> of
         Uncertain _ \<Rightarrow> of_sum (map_sum id (\<lambda>g. g\<lparr>rf_provider_status := Some ''unknown''\<rparr>) (refund_transition_to (pay_clock s) Rf_processing f))
       | Answer r \<Rightarrow> of_sum (refund_transition_to (pay_clock s) (rs_status r)
           (f\<lparr>rf_provider_ref := rs_reference r, rf_provider_status := rs_provider_status r\<rparr>))
       | x \<Rightarrow> raiseE (psp_exception x))"
  have same: "u = s \<and> rf_id h = rf_id f \<and> rf_intent h = rf_intent f \<and> rf_money h = rf_money f" if "m s = (Inr h, u)" for h u
    using that by (auto simp: m_def map_sum_Inr dest!: refund_transition_to_Inr split: psp.splits)
  from run [folded m_def] obtain u where h: "m s = (Inr g, u)" and rest:
    "thenE (whenE (rf_status g = Rf_succeeded)
       (bindE (of_sum (apply_refund (pay_clock s) (pm_amount (rf_money g)) i)) (\<lambda>i'.
        thenE (intent_save i') (record_refund i' a g)))) (refund_save g) u = (Inr (), t)"
    by auto
  from same [OF h] rest that show ?thesis by (cases "rf_status g = Rf_succeeded") auto
qed

lemma refund_sums:
  assumes "distinct (map rf_id (refunds s))" "f \<in> set (refunds s)" "rf_status f = Rf_pending"
    "refunds t = update_row rf_id (rf_id f) (set_refund g) (refunds s)"
  shows "total_active_for t k = total_active_for s k - (if rf_intent f = k \<and> rf_status g = Rf_failed then pm_amount (rf_money f) else 0)"
    "refunded_total t k = refunded_total s k + (if rf_intent f = k \<and> rf_status g = Rf_succeeded then pm_amount (rf_money f) else 0)"
  unfolding total_active_for_def refunded_total_def assms(4) sum_filter_update_row [OF assms(1,2)]
  using assms(3) by (cases "rf_status g"; simp)+

lemma task_ok_refund:
  assumes "task_ok s w" "(1, rf_id f) \<notin> set (task_keys w)" "distinct (map rf_id (refunds s))"
    "0 < pm_amount (rf_money f)" "f \<in> set (refunds s)" "rf_status f = Rf_pending"
  shows "task_ok (s\<lparr>refunds := update_row rf_id (rf_id f) (set_refund g) (refunds s)\<rparr>) w"
proof (cases w)
  case (Task_refund i a f2)
  let ?t = "s\<lparr>refunds := update_row rf_id (rf_id f) (set_refund g) (refunds s)\<rparr>"
  from refund_sums(2) [OF assms(3,5,6), of ?t g] assms(4) have "refunded_total s k \<le> refunded_total ?t k" for k by simp
  from this [of "pi_id i"] Task_refund assms(1,2) show ?thesis by (simp add: update_row_other paid_in_def)
qed (use assms(1) in \<open>simp_all add: paid_in_def refunded_total_def\<close>)

lemma unpaid_not_paid:
  assumes "task_ok s (Task_create p c i a)" "paid_in s n m" "distinct (map pi_id (intents s))"
  shows "pi_id i \<noteq> n"
proof
  assume "pi_id i = n"
  with assms(1,2) obtain x y where "x \<in> set (intents s)" "pi_id x = n" "\<not> paid_status (pi_status x)"
      "y \<in> set (intents s)" "pi_id y = n" "paid_status (pi_status y)"
    by (auto simp: paid_in_def)
  with distinct_map_same [OF assms(3), of x y] show False by auto
qed

lemma refunds_ok_frame:
  assumes "refunds_ok s" "intents t = intents s" "refunds t = update_row rf_id (rf_id f) (set_refund g) (refunds s)"
    "journals t = journals s" "f \<in> set (refunds s)" "rf_status f = Rf_pending" "rf_status g \<noteq> Rf_succeeded"
  shows "refunds_ok t"
proof -
  from assms(1,5) have d: "distinct (map rf_id (refunds s))" "0 < pm_amount (rf_money f)" by (auto simp: refunds_ok_def)
  note sums = refund_sums [OF d(1) assms(5,6,3)]
  from sums d(2) assms(7) have le: "total_active_for t k \<le> total_active_for s k" "refunded_total t k = refunded_total s k"
    "journal_total t k ty = journal_total s k ty" for k ty
    by (simp_all add: journal_total_def assms(4))
  have "\<exists>h \<in> set (refunds t). rf_status h = Rf_succeeded \<and> fj_reference j = uuid_str (rf_id h)"
    if j: "j \<in> set (journals t)" "fj_type j = ''refund''" for j
  proof -
    from assms(1,4) j obtain h where h: "h \<in> set (refunds s)" "rf_status h = Rf_succeeded" "fj_reference j = uuid_str (rf_id h)"
      unfolding refunds_ok_def by metis
    have "rf_id h \<noteq> rf_id f" using distinct_map_same [OF d(1) h(1) assms(5)] h(2) assms(6) by auto
    with h assms(3) show ?thesis by (auto intro: update_row_other)
  qed
  moreover have "total_active_for t (pi_id i) \<le> pm_amount (pi_money i)" if "i \<in> set (intents s)" for i
    using assms(1) that order_trans [OF le(1)] unfolding refunds_ok_def by blast
  ultimately show ?thesis
    using assms(1,2,3) le(2,3) unfolding refunds_ok_def by (simp add: set_update_row image_iff ball_Un)
qed

lemma refunds_ok_booked:
  assumes ok: "refunds_ok s" and f: "f \<in> set (refunds s)" "rf_status f = Rf_pending" "rf_intent f = pi_id x"
    and x: "x \<in> set (intents s)" "0 \<le> r" "r \<le> refunded_total s (pi_id x) + pm_amount (rf_money f)"
    and g: "rf_status g = Rf_succeeded"
    and j: "fj_type j = ''refund''" "fj_reference j = uuid_str (rf_id f)" "fj_intent j = Some (pi_id x)"
      "fj_amount j = pm_amount (rf_money f)"
    and t: "intents t = update_row pi_id (pi_id x) (set_intent st r u) (intents s)"
      "refunds t = update_row rf_id (rf_id f) (set_refund g) (refunds s)" "journals t = journals s @ [j]"
  shows "refunds_ok t"
proof -
  from ok f(1) have d: "distinct (map rf_id (refunds s))" "0 < pm_amount (rf_money f)" by (auto simp: refunds_ok_def)
  note sums = refund_sums [OF d(1) f(1,2) t(2)]
  have active: "total_active_for t k = total_active_for s k" for k using sums(1) [of k] g by simp
  have repaid: "refunded_total t k = refunded_total s k + (if pi_id x = k then pm_amount (rf_money f) else 0)" for k
    using sums(2) [of k] g f(3) by simp
  have booked: "journal_total t k ''refund'' = journal_total s k ''refund'' + (if pi_id x = k then pm_amount (rf_money f) else 0)" for k
    by (simp add: journal_total_def t(3) j)
  have "\<exists>h \<in> set (refunds t). rf_status h = Rf_succeeded \<and> fj_reference k = uuid_str (rf_id h)"
    if k: "k \<in> set (journals t)" "fj_type k = ''refund''" for k
  proof (cases "k = j")
    case True
    with f(1) j(2) g t(2) show ?thesis by (intro bexI [of _ "set_refund g f"]) (simp_all add: update_row_this)
  next
    case False
    with ok k t(3) obtain h where h: "h \<in> set (refunds s)" "rf_status h = Rf_succeeded" "fj_reference k = uuid_str (rf_id h)"
      unfolding refunds_ok_def by (metis rotate1.simps(2) set_ConsD set_rotate1)
    have "rf_id h \<noteq> rf_id f" using distinct_map_same [OF d(1) h(1) f(1)] h(2) f(2) by auto
    with h t(2) show ?thesis by (auto intro: update_row_other)
  qed
  moreover have "total_active_for t (pi_id y) \<le> pm_amount (pi_money y) \<and> 0 \<le> pi_refunded y \<and> pi_refunded y \<le> refunded_total t (pi_id y)"
    if "y \<in> set (intents t)" for y
  proof -
    from that obtain z where z: "z \<in> set (intents s)" "y = (if pi_id z = pi_id x then set_intent st r u z else z)"
      by (auto simp: t(1) set_update_row)
    from ok z(1) have "total_active_for s (pi_id z) \<le> pm_amount (pi_money z)" "0 \<le> pi_refunded z"
        "pi_refunded z \<le> refunded_total s (pi_id z)"
      by (auto simp: refunds_ok_def)
    with z(2) x(2,3) d(2) repaid [of "pi_id z"] active [of "pi_id z"] show ?thesis by (cases "pi_id z = pi_id x") simp_all
  qed
  ultimately show ?thesis
    using ok booked repaid unfolding refunds_ok_def t(1,2) by (simp add: set_update_row image_iff ball_Un)
qed

subsection \<open>Outstanding halves\<close>

lemma pay_inv_drop: "pay_inv (u # T) K s \<Longrightarrow> pay_inv T K s"
  by (simp add: pay_inv_def)

lemma pay_inv_middle: "pay_inv (us @ u # vs) K s \<longleftrightarrow> pay_inv (u # us @ vs) K s"
  by (auto simp: pay_inv_def)

lemma pay_inv_append: "pay_inv (us @ ts) K s \<longleftrightarrow> pay_inv (ts @ us) K s"
  by (auto simp: pay_inv_def)

lemma pay_inv_rebuild:
  assumes "pay_inv (u # T) K s" "books_ok t" "refunds_ok t" "payouts_ok t"
    "\<And>w. w \<in> set T \<Longrightarrow> task_ok s w \<Longrightarrow> set (task_keys w) \<inter> set (task_keys u) = {} \<Longrightarrow> task_ok t w"
    "\<And>i m. paid_in s i m \<Longrightarrow> paid_in t i m" "links_ok t"
  shows "pay_inv T K t"
proof -
  from assms(1) have u: "\<forall>w \<in> set T. task_ok s w \<and> set (task_keys w) \<inter> set (task_keys u) = {}"
    unfolding pay_inv_def by (simp add: disjoint_iff) blast
  from u assms(5) have "\<forall>w \<in> set T. task_ok t w" by blast
  moreover from assms(1,6) have "\<forall>(i, m) \<in> K. paid_in t i m" by (auto simp: pay_inv_def)
  ultimately show ?thesis using assms(1-4,7) by (simp add: pay_inv_def)
qed

lemma refund_task:
  assumes inv: "pay_inv (Task_refund i a f # T) K s" and run: "refund_finish env i a f s = (Inr g, t)"
  shows "pay_inv T K t"
proof -
  note invs = pay_invD [OF inv]
  have f: "f \<in> set (refunds s)" "rf_status f = Rf_pending" "rf_intent f = pi_id i" "paid_in s (pi_id i) (pi_money i)"
      "pi_refunded i \<le> refunded_total s (pi_id i)" "0 \<le> pi_refunded i"
    using invs(5) [of "Task_refund i a f"] by auto
  have positive: "0 < pm_amount (rf_money f)" using invs(2) f(1) by (simp add: refunds_ok_def)
  from run show ?thesis
  proof (cases rule: refund_finish_Inr)
    case 1
    then have t: "t = s\<lparr>refunds := update_row rf_id (rf_id f) (set_refund g) (refunds s)\<rparr>" by (simp add: refund_save_Inr)
    show ?thesis
    proof (rule pay_inv_rebuild [OF inv])
      show "books_ok t" using invs(1) by (simp add: t books_ok_def journal_ok_def entries_of_journal_def)
      show "payouts_ok t" using invs(3) by (simp add: t payouts_ok_def)
      show "refunds_ok t" using refunds_ok_frame [OF invs(2), of t f g] f(1,2) 1(4) by (simp add: t)
      show "task_ok t w" if "task_ok s w" "set (task_keys w) \<inter> set (task_keys (Task_refund i a f)) = {}" for w
        unfolding t using task_ok_refund [OF that(1) _ invs(8) positive f(1,2)] that(2) by simp
      show "links_ok t" using links_ok_update [OF invs(11), of t] by (simp add: row_keys_defs t)
    qed (simp add: t paid_in_def)
  next
    case (2 now i' r q)
    note paid_back = apply_refund_Inr [OF 2(5)]
    from 2(6) paid_back obtain y where y: "intent_get s (pi_id i) = Some y" and r:
        "r = s\<lparr>intents := update_row pi_id (pi_id i) (set_intent (pi_status i') (pi_refunded i') (pi_updated i')) (intents s)\<rparr>"
      by (auto simp: intent_save_Inr)
    from y have x: "y \<in> set (intents s)" "pi_id y = pi_id i" by (auto dest: intent_get_Some)
    from 2(7) obtain j where "write_journal (Some (pi_id i)) None ''refund'' (uuid_str (rf_id f)) (pm_amount (rf_money f))
        (pm_currency (rf_money f)) (payable (pi_client i)) (receivable (pa_processor a)) r = (Inr j, q)"
      using paid_back 2(1,3) by (auto simp: record_refund_def journal_post_def)
    then show ?thesis
    proof (cases rule: write_journal_Inr)
      case 1
      then have "j \<in> set (journals s)" "fj_type j = ''refund''" "fj_reference j = uuid_str (rf_id f)"
        by (auto simp: journal_get_def r dest: find_Some_prop)
      with invs(2) obtain h where "h \<in> set (refunds s)" "rf_status h = Rf_succeeded" "rf_id h = rf_id f"
        unfolding refunds_ok_def by (metis uuid_str_inj)
      with distinct_map_same [OF invs(8) _ f(1), of h] f(2) show ?thesis by simp
    next
      case j: 2
      from 2(8) 2(1) have t: "t = q\<lparr>refunds := update_row rf_id (rf_id f) (set_refund g) (refunds q)\<rparr>" by (simp add: refund_save_Inr)
      have none: "journal_get s (fj_type j) (fj_reference j) = None" using j(1,4) by (simp add: r journal_get_def)
      let ?r = "s\<lparr>intents := update_row pi_id (pi_id y) (set_intent (pi_status i') (pi_refunded i') (pi_updated i')) (intents s)\<rparr>"
      have r': "r = ?r" by (simp add: r x)
      show ?thesis
      proof (rule pay_inv_rebuild [OF inv])
        have "books_ok r" using invs(1) by (simp add: r books_ok_def journal_ok_def entries_of_journal_def)
        then have "books_ok q" using none j(2-5)
          by (intro books_ok_post [of r j "payable (pi_client i)" "receivable (pa_processor a)" q])
            (auto simp: r journal_get_def booking_ok_def)
        then show "books_ok t" by (simp add: t books_ok_def journal_ok_def entries_of_journal_def)
        show "payouts_ok t" using invs(3) j(4) by (auto simp: t j(5) r payouts_ok_def)
        have "0 < pm_amount (rf_money f)" using paid_back(3) .
        then show "refunds_ok t"
          by (intro refunds_ok_booked [OF invs(2) f(1,2) _ x(1) _ _ 2(4), where j = j and r = "pi_refunded i'"])
            (use f x paid_back j(4) in \<open>simp_all add: t j(5) r\<close>)
        show "paid_in t k m" if "paid_in s k m" for k m
          using paid_in_update [OF that invs(7) x(1), of "pi_status i'"] paid_back(2) by (simp add: t j(5) r' paid_in_def)
        show "task_ok t w" if w: "task_ok s w" "set (task_keys w) \<inter> set (task_keys (Task_refund i a f)) = {}" for w
        proof -
          from w(2) have new: "(1, rf_id f) \<notin> set (task_keys w)" by auto
          have "task_ok s (w)" using w(1) .
          then have "task_ok r w" unfolding r'
            by (rule task_ok_intent [OF _ invs(7) x(1)]) (use paid_back(2) unpaid_not_paid [OF _ f(4) invs(7)] w(1) x(2) in auto)
          then have "task_ok (r\<lparr>refunds := update_row rf_id (rf_id f) (set_refund g) (refunds r)\<rparr>) w"
            using task_ok_refund [OF _ new, of r g] invs(8) positive f(1,2) by (simp add: r')
          moreover have "task_ok t w = task_ok (r\<lparr>refunds := update_row rf_id (rf_id f) (set_refund g) (refunds r)\<rparr>) w"
            by (cases w) (simp_all add: t j(5) paid_in_def refunded_total_def)
          ultimately show ?thesis by simp
        qed
        show "links_ok t" using links_ok_update [OF invs(11), of t] by (simp add: row_keys_defs t j(5) r)
      qed
    qed
  qed
qed

end
