(* ===== verification/PayReach.thy ===== *)
theory PayReach
  imports PayInv
begin

section \<open>Payments: every world is consistent\<close>

text \<open>
  Each request and each outstanding half keeps \<open>pay_inv\<close>; the halves a request leaves find the rows it
  has just written. Hence \<open>pay_inv\<close> holds in every reachable world, and a paid payment stays paid.
\<close>

subsection \<open>Requests that insert\<close>

lemma intent_add_Inr:
  "intent_add i s = (Inr u, t) \<longleftrightarrow> big_int (pm_amount (pi_money i)) \<and> 0 < pm_amount (pi_money i) \<and> 0 \<le> pi_refunded i
     \<and> pi_refunded i \<le> pm_amount (pi_money i)
     \<and> (\<forall>r \<in> set (intents s). pi_id r \<noteq> pi_id i \<and> \<not> (pi_client r = pi_client i \<and> pi_key r = pi_key i))
     \<and> t = s\<lparr>intents := intents s @ [i]\<rparr>"
  by (auto simp: intent_add_def)

lemma attempt_add_Inr:
  "attempt_add a s = (Inr u, t) \<longleftrightarrow> big_int (pm_amount (pa_money a)) \<and> 0 < pm_amount (pa_money a) \<and> 0 < pa_number a
     \<and> intent_get s (pa_intent a) \<noteq> None \<and> attempt_unique (attempts s) a
     \<and> (\<forall>r \<in> set (attempts s). pa_id r \<noteq> pa_id a \<and> \<not> (pa_intent r = pa_intent a \<and> pa_number r = pa_number a))
     \<and> t = s\<lparr>attempts := attempts s @ [a]\<rparr>"
  by (auto simp: attempt_add_def)

definition created :: "pay_db \<Rightarrow> pay_intent \<Rightarrow> pay_attempt \<Rightarrow> pay_db" where
  "created s i a = s\<lparr>pay_next := Suc (Suc (pay_next s)), intents := intents s @ [i], attempts := attempts s @ [a]\<rparr>"

lemma idempotent_view_Inr: "idempotent_view x fp s = (Inr v, t) \<Longrightarrow> t = s"
  by (auto simp: idempotent_view_def)

lemma create_begin_Inr:
  assumes "create_begin env c s = (Inr b, t)"
  obtains v where "b = Replayed v" "core t = core s" "pay_next s \<le> pay_next t"
  | p i a where "b = Started p i a" "t = created s i a" "pi_refunded i = 0" "pi_status i = Pi_processing"
      "0 < pm_amount (pi_money i)" "pa_intent a = pi_id i" "pa_provider_ref a = None"
      "pi_id i \<notin> pi_id ` set (intents s)" "pa_id a \<notin> pa_id ` set (attempts s)"
      "pa_money a = pi_money i" "money_ok (pi_money i)"
proof (cases "intent_by_idempotency s (cc_client c) (cc_key c)")
  case (Some x)
  with assms that(1) show ?thesis by (auto simp: create_begin_def dest!: idempotent_view_Inr)
next
  case None
  with assms obtain p m where p: "mk_pay_money (cc_amount c) (cc_currency c) = Inr m" and run: "create_insert env c p m s = (Inr b, t)"
    by (auto simp: create_begin_def)
  let ?s = "s\<lparr>pay_next := Suc (Suc (pay_next s))\<rparr>"
  let ?i = "new_intent (pay_next s) (pay_clock s) c m (create_fingerprint env c)"
  let ?a = "new_attempt (Suc (pay_next s)) (pay_clock s) c ?i (pc_name p) 1"
  from run have "catchE (atomically (thenE (intent_add ?i) (thenE (attempt_add ?a) (retE (Started p ?i ?a)))))
          P_PersistenceConflict
          (bindE (readE (\<lambda>s. intent_by_idempotency s (cc_client c) (cc_key c))) (\<lambda>existing.
           bindE (some_or P_PersistenceConflict existing) (\<lambda>x.
           bindE (idempotent_view x (create_fingerprint env c)) (\<lambda>v. retE (Replayed v))))) ?s = (Inr b, t)"
    by (simp add: create_insert_def Let_def)
  then consider "thenE (intent_add ?i) (thenE (attempt_add ?a) (retE (Started p ?i ?a))) ?s = (Inr b, t)"
    | u where "atomically (thenE (intent_add ?i) (thenE (attempt_add ?a) (retE (Started p ?i ?a)))) ?s = (Inl P_PersistenceConflict, u)"
      "\<exists>v. b = Replayed v \<and> t = u"
    unfolding catchE_Inr by (auto dest: idempotent_view_Inr)
  then show ?thesis
  proof cases
    case 1
    then show ?thesis
      by (intro that(2) [of p ?i ?a])
        (use p in \<open>auto simp: intent_add_Inr attempt_add_Inr created_def new_intent_def new_attempt_def image_iff
          money_ok_def mk_pay_money_def Let_def split: if_splits\<close>)
  next
    case 2
    then have "t = ?s" by (blast dest: atomically_Inl)
    with 2 that(1) show ?thesis by auto
  qed
qed

lemma created_simps [simp]:
  "intents (created s i a) = intents s @ [i]" "attempts (created s i a) = attempts s @ [a]" "refunds (created s i a) = refunds s"
  "payouts (created s i a) = payouts s" "journals (created s i a) = journals s" "fin_entries (created s i a) = fin_entries s"
  "pay_next (created s i a) = Suc (Suc (pay_next s))"
  by (simp_all add: created_def)

lemma no_refunds_yet:
  assumes "links_ok s" "n \<notin> pi_id ` set (intents s)"
  shows "total_active_for s n = 0" "refunded_total s n = 0"
  using assms links_ok_ids [OF assms(1)] by (auto simp: total_active_for_def refunded_total_def filter_empty_conv image_subset_iff
      intro!: arg_cong [of _ "[]" "\<lambda>xs. sum_list (map _ xs)", simplified])

lemma paid_in_append: "paid_in s k m \<Longrightarrow> intents t = intents s @ xs \<Longrightarrow> paid_in t k m"
  by (auto simp: paid_in_def)

lemma begin_create_inv:
  assumes inv: "pay_inv T K s" and new: "pi_refunded i = 0" "pi_status i = Pi_processing" "0 < pm_amount (pi_money i)"
    "pa_intent a = pi_id i" "pa_provider_ref a = None" "pi_id i \<notin> pi_id ` set (intents s)" "pa_id a \<notin> pa_id ` set (attempts s)"
    "pa_money a = pi_money i" "money_ok (pi_money i)"
  shows "pay_inv (Task_create p c i a # T) K (created s i a)"
proof -
  let ?t = "created s i a"
  note invs = pay_invD [OF inv]
  have unpaid: "\<not> paid_status (pi_status i)" by (simp add: new(2) paid_status_def)
  have sums: "total_active_for ?t k = total_active_for s k" "refunded_total ?t k = refunded_total s k"
    "journal_total ?t k ty = journal_total s k ty" for k ty
    by (simp_all add: total_active_for_def refunded_total_def journal_total_def)
  have "books_ok ?t" using invs(1) by (auto simp: books_ok_def journal_ok_def entries_of_journal_def)
  moreover have "refunds_ok ?t"
    using invs(2) new(1,3,6) no_refunds_yet [OF invs(11) new(6)] by (simp add: refunds_ok_def sums)
  moreover have "payouts_ok ?t" using invs(3) by (simp add: payouts_ok_def)
  moreover have "links_ok ?t" using invs(11) new(4,7-9) by (auto simp: links_ok_def row_keys_defs image_image)
  moreover have "task_ok ?t w" if w: "w \<in> set T" for w
  proof (cases w)
    case (Task_create p' c' i' a')
    with invs(5) [OF w] new(4,6,7) show ?thesis by (auto simp: image_iff)
  next
    case (Task_refund i' a' f')
    with invs(5) [OF w] show ?thesis by (simp add: sums paid_in_append [of s _ _ ?t "[i]"])
  qed (use invs(5) [OF w] in auto)
  moreover have "task_ok ?t (Task_create p c i a)"
  proof -
    have "pi_id i \<notin> pa_intent ` set (attempts s)" using links_ok_ids [OF invs(11)] new(6) by auto
    with new(1,4,5,7) unpaid show ?thesis by (auto simp: image_iff)
  qed
  moreover have "pi_id i \<noteq> pi_id i'" if "Task_create p' c' i' a' \<in> set T" for p' c' i' a'
    using invs(5) [OF that] new(6) by (auto simp: image_iff)
  then have "(0, pi_id i) \<notin> set (task_keys w)" if "w \<in> set T" for w
    using that by (cases w) auto
  ultimately show ?thesis
    using inv paid_in_append [of s _ _ ?t "[i]"] by (auto simp: pay_inv_def)
qed

lemma create_request:
  "yields (pay_inv T K) (begin_create env c) (\<lambda>ts. pay_inv (ts @ T) K)"
proof (rule yieldsI)
  fix s ts t assume inv: "pay_inv T K s" and run: "begin_create env c s = (Inr ts, t)"
  from run obtain b where b: "create_begin env c s = (Inr b, t)" and ts: "ts = (case b of
     Replayed _ \<Rightarrow> [] | Started p i a \<Rightarrow> [Task_create p c i a])"
    by (auto simp: begin_create_def)
  from b show "pay_inv (ts @ T) K t"
  proof (cases rule: create_begin_Inr)
    case 1
    with inv ts show ?thesis by (simp add: pay_inv_core)
  next
    case (2 p i a)
    with begin_create_inv [OF inv 2(3-)] ts show ?thesis by simp
  qed
qed

lemma apply_provider_result_Inr:
  assumes "apply_provider_result now r i a = Inr (j, b)"
  shows "pi_id j = pi_id i \<and> pi_refunded j = pi_refunded i \<and> pa_id b = pa_id a"
  using assms by (auto simp: apply_provider_result_def attempt_transition_to_def intent_transition_to_def moves_to_def Let_def
      split: if_splits sum.splits option.splits)

lemma create_task:
  assumes inv: "pay_inv (Task_create p c i a # T) K s" and run: "create_finish p c i a s = (Inr v, t)"
  shows "pay_inv T K t"
proof -
  note invs = pay_invD [OF inv]
  have ok: "task_ok s (Task_create p c i a)" using invs(5) [of "Task_create p c i a"] by simp
  from run obtain j b r where j: "apply_provider_result (pay_clock s) (initialize p c i a) i a = Inr (j, b)"
      and saves: "intent_save j s = (Inr (), r)" "attempt_save b r = (Inr (), t)"
    by (auto simp: create_finish_def)
  note same = apply_provider_result_Inr [OF j]
  from ok obtain x where x: "x \<in> set (intents s)" "pi_id x = pi_id i" "\<not> paid_status (pi_status x)" and i0: "pi_refunded i = 0"
    by auto
  from saves(1) same x(2) have r:
    "r = s\<lparr>intents := update_row pi_id (pi_id x) (set_intent (pi_status j) (pi_refunded j) (pi_updated j)) (intents s)\<rparr>"
    by (auto simp: intent_save_Inr)
  from inv have others: "pi_id i' \<noteq> pi_id i" if "Task_create p' c' i' a' \<in> set T" for p' c' i' a'
    using that by (force simp: pay_inv_def)
  have "0 \<le> refunded_total s (pi_id x)" using invs(2) x(1) by (force simp: refunds_ok_def)
  then have "pay_inv T K r" unfolding r
    using x(3) i0 same others x(2) by (intro pay_inv_intent [OF pay_inv_drop [OF inv] x(1)]) auto
  moreover from saves(2) same have t: "t = r\<lparr>attempts := update_row pa_id (pa_id b) (set_attempt b) (attempts r)\<rparr>"
    by (simp add: attempt_save_Inr)
  ultimately have inv': "pay_inv T K r" and t: "t = r\<lparr>attempts := update_row pa_id (pa_id b) (set_attempt b) (attempts r)\<rparr>" .
  show ?thesis unfolding t
  proof (rule pay_inv_attempt [OF inv'])
    show "\<forall>y \<in> set (attempts r). pa_id y = pa_id b \<longrightarrow> pa_provider_ref y = None" using ok same by (simp add: r)
    fix p' c' i' a' assume w: "Task_create p' c' i' a' \<in> set T" "pa_id a' = pa_id b"
    then have "task_ok s (Task_create p' c' i' a')" using invs(5) [of "Task_create p' c' i' a'"] by simp
    from ok obtain y where y: "y \<in> set (attempts s)" "pa_id y = pa_id a" by auto
    with ok have "pa_intent y = pi_id i" by simp
    moreover from \<open>task_ok s (Task_create p' c' i' a')\<close> y w(2) same have "pa_intent y = pi_id i'" by simp
    ultimately have "pi_id i' = pi_id i" by simp
    with others [OF w(1)] show "pa_provider_ref b = None" by simp
  qed
qed

subsection \<open>Status changes\<close>

lemma attempt_transition_to_Inr:
  "attempt_transition_to now st a = Inr b \<Longrightarrow> pa_status b = st \<and> pa_id b = pa_id a \<and> pa_provider_ref b = pa_provider_ref a
     \<and> pa_intent b = pa_intent a \<and> path attempt_transitions (pa_status a) st"
  by (auto simp: attempt_transition_to_def map_sum_Inr moves_to_Inr intro: path_refl path_single split: if_splits)

lemma intent_transition_to_Inr:
  "intent_transition_to now st i = Inr j \<Longrightarrow> pi_status j = st \<and> pi_id j = pi_id i \<and> pi_refunded j = pi_refunded i
     \<and> pi_money j = pi_money i \<and> path intent_transitions (pi_status i) st"
  by (auto simp: intent_transition_to_def map_sum_Inr moves_to_Inr intro: path_refl path_single split: if_splits)

lemma intent_transition_to_path:
  "intent_transition_to now st i = Inr j \<Longrightarrow> path intent_transitions (pi_status i) (pi_status j)"
  using intent_transition_to_Inr by blast

lemma paid_path: "path intent_transitions x y \<Longrightarrow> paid_status x \<Longrightarrow> paid_status y"
  by (rule intent_paid.settled_path)

definition stays_or_moves :: "instant \<Rightarrow> pay_intent \<Rightarrow> pay_intent \<Rightarrow> bool" where
  "stays_or_moves now i j \<longleftrightarrow> j = i \<or> (\<exists>st. intent_transition_to now st i = Inr j)"

lemma stays_or_moves_path:
  "stays_or_moves now i j \<Longrightarrow> pi_id j = pi_id i \<and> pi_refunded j = pi_refunded i \<and> pi_money j = pi_money i
     \<and> path intent_transitions (pi_status i) (pi_status j)"
  by (auto simp: stays_or_moves_def path_refl dest: intent_transition_to_Inr)

lemma apply_status_moves:
  assumes "apply_status now latest (Some st) i a = Inr (j, b)" "st \<noteq> pa_status a"
  shows "(j = i \<and> b = a) \<or> attempt_transition_to now st a = Inr b \<and> (\<exists>k. stays_or_moves now i k \<and> stays_or_moves now k j)"
proof (cases st)
  case At_succeeded
  then obtain k where "attempt_transition_to now At_succeeded a = Inr b"
      "(if pi_status i = Pi_failed then intent_transition_to now Pi_processing i else Inr i) = Inr k"
      "(if pi_status k \<noteq> Pi_succeeded then intent_transition_to now Pi_succeeded k else Inr k) = Inr j"
    using assms by (simp add: apply_status_def split: sum.splits)
  moreover from this have "stays_or_moves now i k" "stays_or_moves now k j"
    by (auto simp: stays_or_moves_def split: if_splits)
  ultimately show ?thesis using At_succeeded by blast
next
  case At_failed
  then show ?thesis using assms
    by (auto simp: apply_status_def stays_or_moves_def split: sum.splits if_splits)
next
  case At_processing
  then show ?thesis using assms
    by (auto simp: apply_status_def stays_or_moves_def split: sum.splits if_splits)
qed (use assms in \<open>simp_all add: apply_status_def\<close>)

lemma apply_status_Inr:
  assumes "apply_status now latest status i a = Inr (j, b)"
  shows "pi_id j = pi_id i" "pi_refunded j = pi_refunded i" "path intent_transitions (pi_status i) (pi_status j)"
    "pa_id b = pa_id a" "pa_provider_ref b = pa_provider_ref a" "pi_money j = pi_money i"
proof -
  consider "j = i \<and> b = a" | st k where "attempt_transition_to now st a = Inr b" "stays_or_moves now i k" "stays_or_moves now k j"
  proof (cases "status = None \<or> status = Some (pa_status a)")
    case True
    with assms that(1) show ?thesis by (auto simp: apply_status_def)
  next
    case False
    then obtain st where "status = Some st" "st \<noteq> pa_status a" by auto
    with assms apply_status_moves [of now latest st i a j b] that show ?thesis by blast
  qed
  then have "pi_id j = pi_id i \<and> pi_refunded j = pi_refunded i \<and> path intent_transitions (pi_status i) (pi_status j)
      \<and> pa_id b = pa_id a \<and> pa_provider_ref b = pa_provider_ref a \<and> pi_money j = pi_money i"
  proof cases
    case 1
    then show ?thesis by (simp add: path_refl)
  next
    case (2 st k)
    with attempt_transition_to_Inr [OF 2(1)] stays_or_moves_path [OF 2(2)] stays_or_moves_path [OF 2(3)] show ?thesis
      by (auto intro: path_trans)
  qed
  then show "pi_id j = pi_id i" "pi_refunded j = pi_refunded i" "path intent_transitions (pi_status i) (pi_status j)"
    "pa_id b = pa_id a" "pa_provider_ref b = pa_provider_ref a" "pi_money j = pi_money i" by simp_all
qed

lemma status_saved:
  assumes inv: "pay_inv T K s" and row: "y \<in> set (attempts s)" "pa_provider_ref y \<noteq> None" "pa_id a = pa_id y"
      "pa_provider_ref a \<noteq> None"
    and i: "intent_get s (pa_intent y) = Some i" and j: "apply_status now latest st i a = Inr (j, b)"
    and saves: "attempt_save (b\<lparr>pa_provider_status := z\<rparr>) s = (Inr (), r)" "intent_save j r = (Inr (), t)"
  shows "pay_inv T K t"
proof -
  note invs = pay_invD [OF inv] and same = apply_status_Inr [OF j]
  from i have x: "i \<in> set (intents s)" "pi_id i = pa_intent y" by (auto dest: intent_get_Some)
  have sent: "pi_id i' \<noteq> pi_id i \<and> pa_id a' \<noteq> pa_id a" if "Task_create p c i' a' \<in> set T" for p c i' a'
  proof -
    have "\<forall>b \<in> set (attempts s). (pa_intent b = pi_id i' \<longleftrightarrow> pa_id b = pa_id a') \<and> (pa_id b = pa_id a' \<longrightarrow> pa_provider_ref b = None)"
      using invs(5) [OF that] by simp
    from bspec [OF this row(1)] row x(2) show ?thesis by metis
  qed
  let ?b = "b\<lparr>pa_provider_status := z\<rparr>"
  from saves(1) have r: "r = s\<lparr>attempts := update_row pa_id (pa_id ?b) (set_attempt ?b) (attempts s)\<rparr>" by (simp add: attempt_save_Inr)
  have "pay_inv T K r" unfolding r
  proof (rule pay_inv_attempt [OF inv])
    show "\<forall>b \<in> set (attempts s). pa_id b = pa_id ?b \<longrightarrow> pa_provider_ref b = None" if "pa_provider_ref ?b = None"
      using that row(4) same(5) by simp
    show "pa_provider_ref ?b = None" if "Task_create p c i' a' \<in> set T" "pa_id a' = pa_id ?b" for p c i' a'
      using sent [OF that(1)] that(2) same(4) by simp
  qed
  moreover have "pi_refunded i \<le> refunded_total r (pi_id i)" "0 \<le> pi_refunded i"
    using invs(2) x(1) by (auto simp: refunds_ok_def r refunded_total_def)
  moreover from saves(2) same(1) have
    "t = r\<lparr>intents := update_row pi_id (pi_id i) (set_intent (pi_status j) (pi_refunded j) (pi_updated j)) (intents r)\<rparr>"
    by (auto simp: intent_save_Inr)
  ultimately have step: "pay_inv T K r" "pi_refunded i \<le> refunded_total r (pi_id i)" "0 \<le> pi_refunded i"
    "t = r\<lparr>intents := update_row pi_id (pi_id i) (set_intent (pi_status j) (pi_refunded j) (pi_updated j)) (intents r)\<rparr>" .
  show ?thesis unfolding step(4)
    by (rule pay_inv_intent [OF step(1)]) (use x(1) same(2) step(2,3) paid_path [OF same(3)] sent in \<open>simp_all add: r\<close>)
qed

lemma keeps_give_up [keeps_intros]: "keeps (pay_inv T K) (give_up r st a why out)"
  unfolding give_up_def by (intro keeps_intros)

lemma keeps_booked_tail [keeps_intros]:
  "keeps (pay_inv T K) (thenE (event_mark r st x y) (thenE (whenE c (record_payment_success j b k fee)) (retE z)))"
  by (intro keeps_intros)

lemma webhook_apply_cases:
  assumes "webhook_apply p n r s = (Inr out, t)"
  obtains st x y z where "give_up r st x y z s = (Inr out, t)"
  | a i j b where "attempt_by_provider_reference s (pc_name p) (the (pn_reference n)) = Some a" "truthy (pn_reference n)"
      "intent_get s (pa_intent a) = Some i"
      "\<not> (pn_status n = Some At_succeeded \<and> (pn_amount n \<noteq> Some (pm_amount (pa_money a)) \<or> pn_currency n \<noteq> Some (pm_currency (pa_money a))))"
      "apply_status (pay_clock s) (latest_attempt s (pi_id i)) (pn_status n) i a = Inr (j, b)"
      "thenE (attempt_save (b\<lparr>pa_provider_status := pn_payload_status n\<rparr>)) (thenE (intent_save j)
        (thenE (event_mark r Ev_processed (Some (pa_id a)) None)
        (thenE (whenE (pn_status n = Some At_succeeded \<and> pi_status i \<noteq> Pi_succeeded)
           (record_payment_success j b (pn_key n) (case pn_fee n of None \<Rightarrow> 0 | Some x \<Rightarrow> x)))
         (retE Wh_processed)))) s = (Inr out, t)"
proof (cases "truthy (pn_reference n)")
  case False
  with assms that(1) show ?thesis by (simp add: webhook_apply_def)
next
  case t: True
  show ?thesis
  proof (cases "attempt_by_provider_reference s (pc_name p) (the (pn_reference n))")
    case None
    with assms t that(1) show ?thesis by (simp add: webhook_apply_def bindE_readE)
  next
    case a: (Some a)
    show ?thesis
    proof (cases "intent_get s (pa_intent a)")
      case None
      with assms t a that(1) show ?thesis by (simp add: webhook_apply_def bindE_readE)
    next
      case i: (Some i)
      show ?thesis
      proof (cases "pn_status n = Some At_succeeded \<and> (pn_amount n \<noteq> Some (pm_amount (pa_money a)) \<or> pn_currency n \<noteq> Some (pm_currency (pa_money a)))")
        case True
        with assms t a i that(1) show ?thesis by (simp add: webhook_apply_def bindE_readE del: not_None_eq)
      next
        case False
        note skip = webhook_apply_def t a i bindE_readE option.case if_False not_True_eq_False if_not_P [OF False] prod.case
        show ?thesis
        proof (cases "apply_status (pay_clock s) (latest_attempt s (pi_id i)) (pn_status n) i a")
          case (Inl e)
          with assms that(1) show ?thesis by (simp only: skip sum.case)
        next
          case (Inr jb)
          with assms that(2) [OF a t i False, of "fst jb" "snd jb"] show ?thesis
            by (cases jb) (simp only: skip sum.case fst_conv snd_conv)
        qed
      qed
    qed
  qed
qed

lemma webhook_task: "keeps (pay_inv T K) (webhook_apply p n r)"
proof (rule keepsI)
  fix s out t assume inv: "pay_inv T K s" and run: "webhook_apply p n r s = (Inr out, t)"
  from run show "pay_inv T K t"
  proof (cases rule: webhook_apply_cases)
    case 1
    then show ?thesis by (rule keepsD [OF keeps_give_up inv])
  next
    case (2 a i j b)
    from 2(1) have a: "a \<in> set (attempts s)" "pa_provider_ref a \<noteq> None"
      by (auto simp: attempt_by_provider_reference_def dest: find_Some_prop)
    from 2(6) obtain q r' where saves: "attempt_save (b\<lparr>pa_provider_status := pn_payload_status n\<rparr>) s = (Inr (), q)"
        "intent_save j q = (Inr (), r')" and rest: "thenE (event_mark r Ev_processed (Some (pa_id a)) None)
        (thenE (whenE (pn_status n = Some At_succeeded \<and> pi_status i \<noteq> Pi_succeeded)
           (record_payment_success j b (pn_key n) (case pn_fee n of None \<Rightarrow> 0 | Some x \<Rightarrow> x)))
         (retE Wh_processed)) r' = (Inr out, t)"
      unfolding thenE_Inr by auto
    from status_saved [OF inv a refl a(2) 2(3,5) saves] have "pay_inv T K r'" .
    then show ?thesis by (rule keepsD [OF keeps_booked_tail _ rest])
  qed
qed

subsection \<open>The sweeps\<close>

lemma keeps_logged [keeps_intros]:
  "keeps (pay_inv T K) (log_verification a st x)"
  "keeps (pay_inv T K) (thenE (log_verification a st x) (retE sw))"
  "keeps (pay_inv T K) (thenE (whenE c (record_payment_success j b k fee)) (thenE (log_verification a st x) (retE sw)))"
  unfolding log_verification_def by (intro keeps_intros)+

lemma reconcile_attempt_cases:
  assumes "reconcile_attempt env a sw s = (Inr out, t)"
  obtains st x sw' where "thenE (log_verification a st x) (retE sw') s = (Inr out, t)"
  | p r i j b sw' where "processor_get (pv_registry env) (pa_processor a) = Inr p"
      "verify_payment p (pay_clock s) (case pa_provider_ref a of None \<Rightarrow> [] | Some x \<Rightarrow> x) = Answer r"
      "intent_get s (pa_intent a) = Some i"
      "\<not> (pv_status r = At_succeeded \<and> (Some (pv_reference r) \<noteq> pa_provider_ref a \<or> pv_amount r \<noteq> Some (pm_amount (pa_money a))
                 \<or> pv_currency r \<noteq> Some (pm_currency (pa_money a))))"
      "apply_status (pay_clock s) (latest_attempt s (pi_id i)) (Some (pv_status r)) i a = Inr (j, b)"
      "thenE (attempt_save (b\<lparr>pa_provider_status := pv_provider_status r\<rparr>)) (thenE (intent_save j)
        (thenE (whenE (pv_status r = At_succeeded \<and> pi_status i \<noteq> Pi_succeeded)
           (record_payment_success j b (''reconciliation:'' @ uuid_str (pa_id a)) (case pv_fee r of None \<Rightarrow> 0 | Some x \<Rightarrow> x)))
         (thenE (log_verification a Ev_processed None) (retE sw')))) s = (Inr out, t)"
proof (cases "processor_get (pv_registry env) (pa_processor a)")
  case (Inl e)
  with assms that(1) show ?thesis by (simp only: reconcile_attempt_def sum.case)
next
  case p: (Inr p)
  let ?v = "verify_payment p (pay_clock s) (case pa_provider_ref a of None \<Rightarrow> [] | Some x \<Rightarrow> x)"
  show ?thesis
  proof (cases ?v)
    case (Answer r)
    note skip = reconcile_attempt_def p sum.case bindE_readE Answer psp.case
    show ?thesis
    proof (cases "intent_get s (pa_intent a)")
      case None
      with assms that(1) show ?thesis by (simp only: skip option.case)
    next
      case i: (Some i)
      show ?thesis
      proof (cases "pv_status r = At_succeeded \<and> (Some (pv_reference r) \<noteq> pa_provider_ref a \<or> pv_amount r \<noteq> Some (pm_amount (pa_money a))
                 \<or> pv_currency r \<noteq> Some (pm_currency (pa_money a)))")
        case True
        with assms that(1) show ?thesis by (simp only: skip i option.case if_P)
      next
        case False
        note skip = skip i option.case if_not_P [OF False] bindE_of_sum
        show ?thesis
        proof (cases "apply_status (pay_clock s) (latest_attempt s (pi_id i)) (Some (pv_status r)) i a")
          case (Inl e)
          with assms show ?thesis by (simp only: skip) simp
        next
          case (Inr jb)
          obtain j b where jb: "jb = (j, b)" by fastforce
          show ?thesis
            by (rule that(2) [OF p Answer i False Inr [unfolded jb]])
              (use assms Inr jb in \<open>simp only: skip prod.case\<close>)
        qed
      qed
    qed
  next
    case (Uncertain ref)
    with assms that(1) p show ?thesis by (simp only: reconcile_attempt_def sum.case bindE_readE psp.case)
  qed (use assms p in \<open>simp_all add: reconcile_attempt_def bindE_readE\<close>)
qed

lemma verify_task:
  assumes inv: "pay_inv (Task_verify a # T) K s" and run: "reconcile_attempt env a sw s = (Inr out, t)"
  shows "pay_inv T K t"
proof -
  note kept = pay_inv_drop [OF inv]
  from run show ?thesis
  proof (cases rule: reconcile_attempt_cases)
    case 1
    then show ?thesis by (rule keepsD [OF keeps_logged(2) kept])
  next
    case (2 p r i j b sw')
    from pay_invD(5) [OF inv, of "Task_verify a"] obtain y where y: "y \<in> set (attempts s)" "pa_provider_ref y \<noteq> None"
        "pa_id a = pa_id y" "pa_intent y = pa_intent a" "pa_provider_ref a \<noteq> None"
      by auto
    from 2(6) obtain q r' where saves: "attempt_save (b\<lparr>pa_provider_status := pv_provider_status r\<rparr>) s = (Inr (), q)"
        "intent_save j q = (Inr (), r')" and rest: "thenE (whenE (pv_status r = At_succeeded \<and> pi_status i \<noteq> Pi_succeeded)
           (record_payment_success j b (''reconciliation:'' @ uuid_str (pa_id a)) (case pv_fee r of None \<Rightarrow> 0 | Some x \<Rightarrow> x)))
         (thenE (log_verification a Ev_processed None) (retE sw')) r' = (Inr out, t)"
      unfolding thenE_Inr by auto
    from status_saved [OF kept y(1-3,5) _ 2(5) saves] 2(3) y(4) have "pay_inv T K r'" by simp
    then show ?thesis by (rule keepsD [OF keeps_logged(3) _ rest])
  qed
qed

lemma pay_inv_more:
  assumes "pay_inv T K s" "\<And>u. u \<in> set ts \<Longrightarrow> task_ok s u \<and> task_keys u = []"
  shows "pay_inv (ts @ T) K s"
proof -
  have "concat (map task_keys ts) = []" using assms(2) by simp
  then have "distinct (concat (map task_keys (ts @ T)))" using assms(1) by (simp add: pay_inv_def del: concat_eq_Nil_conv)
  with assms show ?thesis by (auto simp: pay_inv_def)
qed

lemma sweep_request: "yields (pay_inv T K) (begin_sweep age n) (\<lambda>ts. pay_inv (ts @ T) K)"
proof (rule yieldsI)
  fix s ts t assume inv: "pay_inv T K s" and run: "begin_sweep age n s = (Inr ts, t)"
  then have ts: "ts = map Task_verify (attempts_to_reconcile s (pay_clock s - age) n)" "t = s"
    by (simp_all add: begin_sweep_def)
  have "task_ok s (Task_verify a)" if "a \<in> set (attempts_to_reconcile s (pay_clock s - age) n)" for a
    using that by (auto simp: attempts_to_reconcile_def dest!: in_set_takeD)
  with inv show "pay_inv (ts @ T) K t" unfolding ts by (intro pay_inv_more) auto
qed

lemma payout_sweep_request: "yields (pay_inv T K) (begin_payout_sweep age n) (\<lambda>ts. pay_inv (ts @ T) K)"
proof (rule yieldsI)
  fix s ts t assume inv: "pay_inv T K s" and run: "begin_payout_sweep age n s = (Inr ts, t)"
  then have ts: "ts = map Task_verify_payout (payouts_to_reconcile s (pay_clock s - age) n)" "t = s"
    by (simp_all add: begin_payout_sweep_def)
  have "task_ok s (Task_verify_payout x)" if "x \<in> set (payouts_to_reconcile s (pay_clock s - age) n)" for x
    using that by (auto simp: payouts_to_reconcile_def dest!: in_set_takeD)
  with inv show "pay_inv (ts @ T) K t" unfolding ts by (intro pay_inv_more) auto
qed

subsection \<open>Refunds, payouts and the rest\<close>

lemma refund_begin_Inr:
  assumes "refund_begin env c s = (Inr b, t)"
  obtains f where "b = Refund_replayed f" "t = s"
  | i a f where "b = Refund_started i a f" "t = s\<lparr>pay_next := Suc (pay_next s), refunds := refunds s @ [f]\<rparr>"
      "intent_get s (rc_intent c) = Some i" "pi_status i \<in> {Pi_succeeded, Pi_partially_refunded}"
      "rf_intent f = pi_id i" "rf_status f = Rf_pending" "0 < pm_amount (rf_money f)"
      "total_active_for s (pi_id i) + pm_amount (rf_money f) \<le> pm_amount (pi_money i)"
      "rf_id f \<notin> rf_id ` set (refunds s)" "money_ok (rf_money f)"
proof (cases "refund_by_idempotency s (rc_client c) (rc_key c)")
  case (Some f)
  with assms that(1) show ?thesis by (auto simp: refund_begin_def)
next
  case None
  with assms show ?thesis
    by (auto simp: refund_begin_def refund_add_def mk_pay_money_def money_ok_def Let_def image_iff
        intro!: that(2) split: if_splits)
qed

lemma begin_refund_inv:
  assumes inv: "pay_inv T K s" and new: "i \<in> set (intents s)" "pi_status i \<in> {Pi_succeeded, Pi_partially_refunded}"
      "rf_intent f = pi_id i" "rf_status f = Rf_pending" "0 < pm_amount (rf_money f)"
      "total_active_for s (pi_id i) + pm_amount (rf_money f) \<le> pm_amount (pi_money i)"
      "rf_id f \<notin> rf_id ` set (refunds s)" "money_ok (rf_money f)"
    and t: "t = s\<lparr>pay_next := Suc (pay_next s), refunds := refunds s @ [f]\<rparr>"
  shows "pay_inv (Task_refund i a f # T) K t"
proof -
  note invs = pay_invD [OF inv]
  note i = new(1)
  have sums: "total_active_for t k = total_active_for s k + (if k = pi_id i then pm_amount (rf_money f) else 0)"
    "refunded_total t k = refunded_total s k" "journal_total t k ty = journal_total s k ty" for k ty
    using new(3,4) by (auto simp: t total_active_for_def refunded_total_def journal_total_def)
  have "books_ok t" using invs(1) by (auto simp: t books_ok_def journal_ok_def entries_of_journal_def)
  moreover have "refunds_ok t"
  proof -
    have "total_active_for t (pi_id x) \<le> pm_amount (pi_money x) \<and> 0 \<le> pi_refunded x \<and> pi_refunded x \<le> refunded_total t (pi_id x)"
      if x: "x \<in> set (intents s)" for x
    proof (cases "pi_id x = pi_id i")
      case True
      with distinct_map_same [OF invs(7) x i] new(6) invs(2) i show ?thesis by (simp add: sums refunds_ok_def)
    next
      case False
      with invs(2) x show ?thesis by (simp add: sums refunds_ok_def)
    qed
    moreover have "journal_total t k ''refund'' = refunded_total t k" for k using invs(2) by (simp add: sums refunds_ok_def)
    ultimately show ?thesis using invs(2) new(5,7) by (auto simp: refunds_ok_def t)
  qed
  moreover have "payouts_ok t" using invs(3) by (simp add: t payouts_ok_def)
  moreover have "links_ok t" using invs(11) new(3,8) i by (auto simp: t links_ok_def row_keys_defs image_image)
  moreover have "task_ok t w" if w: "w \<in> set T" for w
  proof (cases w)
    case (Task_refund i' a' f')
    with invs(5) [OF w] show ?thesis by (simp add: sums) (simp add: t paid_in_def)
  qed (use invs(5) [OF w] in \<open>simp_all add: t\<close>)
  moreover have "task_ok t (Task_refund i a f)"
  proof -
    have "paid_status (pi_status i)" using new(2) by (auto simp: paid_status_def)
    moreover have "0 \<le> pi_refunded i \<and> pi_refunded i \<le> refunded_total s (pi_id i)" using invs(2) i by (simp add: refunds_ok_def)
    ultimately show ?thesis using i new(3,4) by (simp add: sums) (auto simp: t paid_in_def)
  qed
  moreover have "(1, rf_id f) \<notin> set (task_keys w)" if w: "w \<in> set T" for w
    using invs(5) [OF w] new(7) by (cases w) (auto simp: image_iff)
  ultimately show ?thesis
    using inv by (auto simp: pay_inv_def) (auto simp: t paid_in_def)
qed

lemma refund_request: "yields (pay_inv T K) (begin_refund env c) (\<lambda>ts. pay_inv (ts @ T) K)"
proof (rule yieldsI)
  fix s ts t assume inv: "pay_inv T K s" and run: "begin_refund env c s = (Inr ts, t)"
  from run obtain b where b: "refund_begin env c s = (Inr b, t)" and ts: "ts = (case b of
     Refund_replayed _ \<Rightarrow> [] | Refund_started i a f \<Rightarrow> [Task_refund i a f])"
    by (auto simp: begin_refund_def)
  from b show "pay_inv (ts @ T) K t"
  proof (cases rule: refund_begin_Inr)
    case 1
    with inv ts show ?thesis by simp
  next
    case (2 i a f)
    from 2(3) have "i \<in> set (intents s)" by (auto dest: intent_get_Some)
    from begin_refund_inv [OF inv this 2(4-10,2)] 2(1) ts show ?thesis by simp
  qed
qed

lemma idempotent_payout_Inr: "idempotent_payout x fp s = (Inr b, t) \<Longrightarrow> b = Payout_replayed x \<and> t = s"
  by (auto simp: idempotent_payout_def)

lemma payout_begin_Inr:
  assumes "payout_begin env simulated c s = (Inr b, t)"
  obtains x where "b = Payout_replayed x" "core t = core s" "pay_next s \<le> pay_next t"
  | p x where "b = Payout_started p x" "t = s\<lparr>pay_next := Suc (pay_next s), payouts := payouts s @ [x]\<rparr>"
      "pt_id x \<notin> pt_id ` set (payouts s)" "pt_status x = Pt_pending" "money_ok (pt_money x)"
proof (cases "payout_by_idempotency s (pd_client c) (pd_key c)")
  case (Some x)
  with assms that(1) show ?thesis by (auto simp: payout_begin_def dest!: idempotent_payout_Inr)
next
  case None
  with assms obtain p m where p: "mk_pay_money (pd_amount c) (pd_currency c) = Inr m" and run:
    "catchE (atomically (thenE (payout_add (new_payout (pay_next s) (pay_clock s) c m (payout_fingerprint env c) (pc_name p)))
         (retE (Payout_started p (new_payout (pay_next s) (pay_clock s) c m (payout_fingerprint env c) (pc_name p))))))
       P_PersistenceConflict
       (bindE (readE (\<lambda>s. payout_by_idempotency s (pd_client c) (pd_key c))) (\<lambda>again.
        bindE (some_or P_PersistenceConflict again) (\<lambda>y. idempotent_payout y (payout_fingerprint env c))))
       (s\<lparr>pay_next := Suc (pay_next s)\<rparr>) = (Inr b, t)"
    by (auto simp: payout_begin_def Let_def)
  let ?s = "s\<lparr>pay_next := Suc (pay_next s)\<rparr>" and ?x = "new_payout (pay_next s) (pay_clock s) c m (payout_fingerprint env c) (pc_name p)"
  from run consider "thenE (payout_add ?x) (retE (Payout_started p ?x)) ?s = (Inr b, t)"
    | u x where "atomically (thenE (payout_add ?x) (retE (Payout_started p ?x))) ?s = (Inl P_PersistenceConflict, u)"
      "b = Payout_replayed x \<and> t = u"
    unfolding catchE_Inr by (auto dest: idempotent_payout_Inr)
  then show ?thesis
  proof cases
    case 1
    then show ?thesis
      by (intro that(2) [of p ?x]) (use p in \<open>auto simp: payout_add_def new_payout_def image_iff
          money_ok_def mk_pay_money_def Let_def split: if_splits\<close>)
  next
    case 2
    then have "t = ?s" by (blast dest: atomically_Inl)
    with 2 that(1) show ?thesis by auto
  qed
qed

lemma payout_request: "yields (pay_inv T K) (begin_payout env simulated c) (\<lambda>ts. pay_inv (ts @ T) K)"
proof (rule yieldsI)
  fix s ts t assume inv: "pay_inv T K s" and run: "begin_payout env simulated c s = (Inr ts, t)"
  from run obtain b where b: "payout_begin env simulated c s = (Inr b, t)" and ts: "ts = (case b of
     Payout_replayed _ \<Rightarrow> [] | Payout_started p x \<Rightarrow> [Task_payout p x])"
    by (auto simp: begin_payout_def)
  note invs = pay_invD [OF inv]
  from b show "pay_inv (ts @ T) K t"
  proof (cases rule: payout_begin_Inr)
    case 1
    with inv ts show ?thesis by (simp add: pay_inv_core)
  next
    case (2 p x)
    have "books_ok t" using invs(1) by (auto simp: 2(2) books_ok_def journal_ok_def entries_of_journal_def)
    moreover have "refunds_ok t" using invs(2)
      by (simp add: 2(2) refunds_ok_def total_active_for_def refunded_total_def journal_total_def)
    moreover have "payouts_ok t" using invs(3) 2(3,4) by (auto simp: 2(2) payouts_ok_def)
    moreover have "task_ok t w" if "w \<in> set T" for w
      using invs(5) [OF that] by (cases w) (auto simp: 2(2) paid_in_def refunded_total_def)
    ultimately have "pay_inv T K t" using inv 2(5) by (simp add: pay_inv_def 2(2) paid_in_def links_ok_def row_keys_defs)
    then show ?thesis unfolding ts 2(1) by (intro pay_inv_more) (auto simp: 2(2))
  qed
qed

lemma payout_saved:
  assumes inv: "pay_inv T K s" and y: "\<exists>y \<in> set (payouts s). pt_id y = pt_id x \<and> pt_money y = pt_money x"
    and j: "apply_provider_status now st ref pst failure x = Inr z"
    and saves: "payout_save z s = (Inr (), r)" "whenE (pt_status z = Pt_succeeded) (record_payout_success z) r = (Inr (), t)"
  shows "pay_inv T K t"
proof -
  from j have z: "pt_id z = pt_id x" "pt_money z = pt_money x" by (auto simp: apply_provider_status_def split: if_splits)
  from y obtain y where "y \<in> set (payouts s)" "pt_id y = pt_id z" "pt_money y = pt_money z" by (auto simp: z)
  from pay_inv_payout [OF inv this saves] show ?thesis .
qed

lemma keeps_enqueue [keeps_intros]:
  "keeps (pay_inv T K) (enqueue_status x)" "keeps (pay_inv T K) (whenE c (enqueue_status x))"
  unfolding enqueue_status_def by (intro keeps_intros)+

lemma payout_task:
  assumes inv: "pay_inv (Task_payout p x # T) K s" and run: "payout_finish p x s = (Inr z, t)"
  shows "pay_inv T K t"
proof -
  from run obtain r q where z: "apply_provider_status (pay_clock s) (ps_status (execute_payout p x)) (ps_reference (execute_payout p x))
        (ps_provider_status (execute_payout p x)) (ps_failure (execute_payout p x)) x = Inr z"
      and saves: "payout_save z s = (Inr (), r)" "whenE (pt_status z = Pt_succeeded) (record_payout_success z) r = (Inr (), q)"
      and rest: "enqueue_status z q = (Inr (), t)"
    by (auto simp: payout_finish_def Let_def)
  from payout_saved [OF pay_inv_drop [OF inv] _ z saves] pay_invD(5) [OF inv, of "Task_payout p x"] have "pay_inv T K q" by simp
  then show ?thesis by (rule keepsD [OF keeps_enqueue(1) _ rest])
qed

lemma verify_payout_task:
  assumes inv: "pay_inv (Task_verify_payout x # T) K s" and run: "reconcile_payout env x sw s = (Inr out, t)"
  shows "pay_inv T K t"
proof (cases "processor_get (pv_registry env) (pt_processor x)")
  case (Inl e)
  with run pay_inv_drop [OF inv] show ?thesis by (simp add: reconcile_payout_def)
next
  case p: (Inr p)
  let ?v = "verify_payout p (pay_clock s) (case pt_provider_ref x of None \<Rightarrow> [] | Some ref \<Rightarrow> ref)"
  show ?thesis
  proof (cases ?v)
    case (Answer r)
    with p run obtain z u q sw' where z: "apply_provider_status (pay_clock s) (ps_status r) (ps_reference r) (ps_provider_status r)
          (ps_failure r) x = Inr z"
        and saves: "payout_save z s = (Inr (), u)" "whenE (pt_status z = Pt_succeeded) (record_payout_success z) u = (Inr (), q)"
        and rest: "whenE (pt_status z \<noteq> pt_status x) (enqueue_status z) q = (Inr (), t)"
      unfolding reconcile_payout_def by (auto simp add: bindE_readE simp del: whenE_Inr)
    from payout_saved [OF pay_inv_drop [OF inv] _ z saves] pay_invD(5) [OF inv, of "Task_verify_payout x"]
    have "pay_inv T K q" by simp
    then show ?thesis by (rule keepsD [OF keeps_enqueue(2) _ rest])
  qed (use run p pay_inv_drop [OF inv] in \<open>simp_all add: reconcile_payout_def bindE_readE\<close>)
qed

lemma cancel_Inr:
  assumes "cancel client n s = (Inr v, t)"
  obtains i a b j r where "intent_get s n = Some i" "attempts_for s n \<noteq> []" "a = last (attempts_for s n)"
      "pa_status a = At_pending" "pa_provider_ref a = None"
      "attempt_transition_to (pay_clock s) At_cancelled a = Inr b" "intent_transition_to (pay_clock s) Pi_cancelled i = Inr j"
      "attempt_save b s = (Inr (), r)" "intent_save j r = (Inr (), t)"
proof -
  from assms obtain w u where w: "payment_get client n s = (Inr w, u)"
    and rest: "(case vw_attempts w of [] \<Rightarrow> raiseE P_OperationConflict
     | as \<Rightarrow>
       (let a = last as in
        thenE (ensure (pa_status a = At_pending \<and> pa_provider_ref a = None) P_OperationConflict)
        (bindE (readE pay_clock) (\<lambda>now.
         bindE (of_sum (attempt_transition_to now At_cancelled a)) (\<lambda>a'.
         bindE (of_sum (intent_transition_to now Pi_cancelled (vw_intent w))) (\<lambda>x.
         thenE (attempt_save a') (thenE (intent_save x)
           (retE (w\<lparr>vw_intent := x, vw_attempts := butlast as @ [a']\<rparr>))))))))) u = (Inr v, t)"
    unfolding cancel_def atomically_Inr bindE_Inr by blast
  from w have "u = s" "intent_get s n = Some (vw_intent w)" "vw_attempts w = attempts_for s n"
    by (auto simp: payment_get_def)
  with rest that show ?thesis
    by (cases "attempts_for s n") (auto simp: Let_def)
qed

lemma keeps_cancel: "keeps (pay_inv T K) (cancel client n)"
proof (rule keepsI)
  fix s v t assume inv: "pay_inv T K s" and run: "cancel client n s = (Inr v, t)"
  note invs = pay_invD [OF inv]
  from run show "pay_inv T K t"
  proof (cases rule: cancel_Inr)
    case (1 i a b j r)
    from 1(1) have i: "i \<in> set (intents s)" "pi_id i = n" by (auto dest: intent_get_Some)
    from 1(2,3) have a: "a \<in> set (attempts s)" using last_in_set [OF 1(2)] by (simp add: attempts_for_def)
    note b = attempt_transition_to_Inr [OF 1(6)] and j = intent_transition_to_Inr [OF 1(7)]
    from 1(8) have r: "r = s\<lparr>attempts := update_row pa_id (pa_id b) (set_attempt b) (attempts s)\<rparr>" by (simp add: attempt_save_Inr)
    have "pay_inv T K r" unfolding r
    proof (rule pay_inv_attempt [OF inv])
      show "\<forall>y \<in> set (attempts s). pa_id y = pa_id b \<longrightarrow> pa_provider_ref y = None"
        using distinct_map_same [OF invs(10) _ a] b 1(5) by auto
      show "pa_provider_ref b = None" using b 1(5) by simp
    qed
    moreover have "pi_refunded i \<le> refunded_total r (pi_id i)" "0 \<le> pi_refunded i"
      using invs(2) i(1) by (auto simp: refunds_ok_def r refunded_total_def)
    moreover have "\<not> paid_status Pi_cancelled" by (simp add: paid_status_def)
    moreover from 1(9) j have
      "t = r\<lparr>intents := update_row pi_id (pi_id i) (set_intent Pi_cancelled (pi_refunded i) (pi_updated j)) (intents r)\<rparr>"
      by (auto simp: intent_save_Inr)
    ultimately have step: "pay_inv T K r" "pi_refunded i \<le> refunded_total r (pi_id i)" "0 \<le> pi_refunded i"
      "\<not> paid_status Pi_cancelled"
      "t = r\<lparr>intents := update_row pi_id (pi_id i) (set_intent Pi_cancelled (pi_refunded i) (pi_updated j)) (intents r)\<rparr>" .
    show ?thesis unfolding step(5)
      by (rule pay_inv_intent [OF step(1)]) (use i step j paid_path [of "pi_status i" Pi_cancelled] in \<open>auto simp: r\<close>)
  qed
qed

lemma keeps_catch_raise [keeps_intros]: "keeps I m \<Longrightarrow> keeps I (catchE m e (raiseE x))"
  by (auto simp: keeps_def catchE_Inr)

lemma keeps_payload [keeps_intros]:
  "(\<And>e. keeps I (f e)) \<Longrightarrow> (\<And>a r. keeps I (g a r)) \<Longrightarrow>
   keeps I (case p of Retry_payload e \<Rightarrow> f e | Settlement_payload a r \<Rightarrow> g a r)"
  by (cases p) simp_all

lemma keeps_rest [keeps_intros]:
  "keeps (pay_inv T K) (retry_callback i e)"
  "keeps (pay_inv T K) (record_settlement_command i n ref)"
  "keeps (pay_inv T K) (deliver_row send targets row sm)"
  unfolding retry_callback_def record_settlement_command_def deliver_row_def by (intro keeps_intros)+

lemma keeps_execute_command: "keeps (pay_inv T K) (execute_command env c1 c2 c3 c4 action ty target reason payload)"
  unfolding execute_command_def by (intro keeps_intros)

lemma keeps_no_task: "keeps (pay_inv T K) m \<Longrightarrow> yields (pay_inv T K) (no_task m) (\<lambda>ts. pay_inv (ts @ T) K)"
  by (auto simp: no_task_def yields_def keeps_def)

lemma deliver_request: "yields (pay_inv T K) (begin_deliver n) (\<lambda>ts. pay_inv (ts @ T) K)"
proof (rule yieldsI)
  fix s ts t assume inv: "pay_inv T K s" and run: "begin_deliver n s = (Inr ts, t)"
  then obtain rows where rows: "claim n LEASE_SECONDS s = (Inr rows, t)" and ts: "ts = map Task_deliver rows"
    by (auto simp: begin_deliver_def)
  have "keeps (pay_inv T K) (claim n LEASE_SECONDS)" by (intro keeps_intros)
  from keepsD [OF this inv rows] show "pay_inv (ts @ T) K t" unfolding ts by (intro pay_inv_more) auto
qed

lemma webhook_request: "yields (pay_inv T K) (begin_webhook env name body headers) (\<lambda>ts. pay_inv (ts @ T) K)"
proof (rule yieldsI)
  fix s ts t assume inv: "pay_inv T K s" and run: "begin_webhook env name body headers s = (Inr ts, t)"
  then obtain p where p: "processor_get (pv_registry env) name = Inr p" by (auto simp: begin_webhook_def)
  with run obtain n row where row: "webhook_receive p n s = (Inr row, t)"
      and ts: "ts = (case row of None \<Rightarrow> [] | Some r \<Rightarrow> [Task_webhook p n r])"
    by (cases "parse_webhook p body headers") (auto simp: begin_webhook_def)
  have "keeps (pay_inv T K) (webhook_receive p n)" unfolding webhook_receive_def by (intro keeps_intros)
  from keepsD [OF this inv row] show "pay_inv (ts @ T) K t"
    unfolding ts by (intro pay_inv_more) (auto split: option.splits)
qed

lemma every_request: "yields (pay_inv T K) (begin_request env q) (\<lambda>ts. pay_inv (ts @ T) K)"
proof (cases q)
  case (Req_tick n)
  have "keeps (pay_inv T K) (modE (\<lambda>s. s\<lparr>pay_clock := pay_clock s + int n\<rparr>))" by (intro keeps_intros)
  from keeps_no_task [OF this] show ?thesis by (simp add: Req_tick)
qed (simp_all add: create_request webhook_request sweep_request refund_request payout_request payout_sweep_request deliver_request
    keeps_no_task keeps_cancel keeps_execute_command)

lemma every_task:
  assumes "pay_inv (u # T) K s" "run_task cf u s = (Inr x, t)"
  shows "pay_inv T K t"
proof (cases u)
  case (Task_create p c i a)
  with assms create_task show ?thesis by (auto simp: finished_def)
next
  case (Task_webhook p n r)
  with assms keepsD [OF webhook_task pay_inv_drop [OF assms(1)]] show ?thesis by (auto simp: finished_def)
next
  case (Task_verify a)
  with assms verify_task show ?thesis by (auto simp: finished_def)
next
  case (Task_refund i a f)
  with assms refund_task show ?thesis by (auto simp: finished_def)
next
  case (Task_payout p x)
  with assms payout_task show ?thesis by (auto simp: finished_def)
next
  case (Task_verify_payout x)
  with assms verify_payout_task show ?thesis by (auto simp: finished_def)
next
  case (Task_deliver r)
  with assms keepsD [OF keeps_rest(3) pay_inv_drop [OF assms(1)]] show ?thesis by (auto simp: finished_def)
qed

subsection \<open>Steps and reachable worlds\<close>

lemma step_inv:
  assumes "pay_step cf w w'" "pay_inv (wd_tasks w) K (wd_db w)"
  shows "pay_inv (wd_tasks w') K (wd_db w')"
  using assms(1)
proof cases
  case (step_request q s ts t us)
  with assms(2) yieldsD [OF every_request] show ?thesis by (simp add: pay_inv_append [of us])
next
  case (step_task u s t us vs)
  with assms(2) every_task show ?thesis by (simp add: pay_inv_middle)
next
  case (step_lost s us u vs)
  with assms(2) show ?thesis by (auto simp: pay_inv_middle intro: pay_inv_drop)
qed

lemma empty_inv: "pay_inv [] {} empty_payments"
  by (simp add: pay_inv_def empty_payments_def books_ok_def refunds_ok_def payouts_ok_def links_ok_def row_keys_defs journal_total_def refunded_total_def)

lemma pay_inv_reachable: "pay_reachable cf w \<Longrightarrow> pay_inv (wd_tasks w) {} (wd_db w)"
proof (induction rule: pay_reachable.induct)
  case reachable_start
  show ?case by (simp add: empty_world_def empty_inv)
next
  case (reachable_pay_step w w')
  then show ?case by (blast intro: step_inv)
qed

lemma pay_inv_paid: "pay_inv T {} s \<Longrightarrow> paid_in s i m \<Longrightarrow> pay_inv T {(i, m)} s"
  by (simp add: pay_inv_def)

end
