(* ===== verification/PayReports.thy ===== *)
theory PayReports
  imports PayReach
begin

section \<open>Reports over the payment tables\<close>

text \<open>
  The read models of the payment module: \<^verbatim>\<open>payments/application/\<close> and \<^verbatim>\<open>payments/infra/\<close>
  \<^verbatim>\<open>daily_summary.py\<close>, \<^verbatim>\<open>accounting_summary.py\<close>, \<^verbatim>\<open>integrity.py\<close>, \<^verbatim>\<open>health_summary.py\<close>,
  \<^verbatim>\<open>support_context.py\<close> and \<^verbatim>\<open>backoffice.py\<close>, and what \<^verbatim>\<open>presentation/summary_router.py\<close> computes from
  them. A date is the number of a day; the business time zone, Africa/Abidjan, is UTC all year, so a
  day is 86400 seconds of the clock. The order of the groups of a SQL aggregate is that of their first row.
\<close>

subsection \<open>A day\<close>

definition day_bounds :: "int \<Rightarrow> instant \<times> instant" where
  "day_bounds day = (86400 * day, 86400 * (day + 1))"

definition today :: "instant \<Rightarrow> int" where
  "today now = now div 86400"

definition dated :: "instant \<Rightarrow> instant \<Rightarrow> string list \<Rightarrow> journal \<Rightarrow> bool" where
  "dated start stop kinds j \<longleftrightarrow> start \<le> fj_created j \<and> fj_created j < stop \<and> fj_currency j = ''XOF'' \<and> fj_type j \<in> set kinds"

subsection \<open>The daily summary\<close>

definition daily_totals :: "pay_db \<Rightarrow> instant \<Rightarrow> instant \<Rightarrow> (string \<times> nat \<times> int) list" where
  "daily_totals s start stop =
     (let rows = filter (dated start stop [''capture'', ''refund'', ''processor_fee'', ''settlement'', ''payout'']) (journals s)
      in map (\<lambda>ty. (ty, length (filter (\<lambda>j. fj_type j = ty) rows), sum_list (map fj_amount (filter (\<lambda>j. fj_type j = ty) rows))))
           (remdups (map fj_type rows)))"

record daily_figures =
  ds_date :: int
  ds_payments :: "nat \<times> int"
  ds_refunds :: "nat \<times> int"
  ds_fees :: int
  ds_settlements :: "nat \<times> int"
  ds_payouts :: "nat \<times> int"
  ds_calculated :: instant

definition total_of :: "(string \<times> nat \<times> int) list \<Rightarrow> string \<Rightarrow> nat \<times> int" where
  "total_of totals ty = (case map_of totals ty of None \<Rightarrow> (0, 0) | Some x \<Rightarrow> x)"

definition daily_summary :: "pay_db \<Rightarrow> int \<Rightarrow> daily_figures" where
  "daily_summary s day =
     (let totals = daily_totals s (fst (day_bounds day)) (snd (day_bounds day))
      in \<lparr>ds_date = day, ds_payments = total_of totals ''capture'', ds_refunds = total_of totals ''refund'',
        ds_fees = snd (total_of totals ''processor_fee''), ds_settlements = total_of totals ''settlement'',
        ds_payouts = total_of totals ''payout'', ds_calculated = pay_clock s\<rparr>)"

text \<open>The metrics sent to Pilotage, with the two derived ones.\<close>

definition pilotage_metrics :: "daily_figures \<Rightarrow> (string \<times> int) list" where
  "pilotage_metrics r =
     (let net = snd (ds_payments r) - snd (ds_refunds r) - ds_fees r
      in [(''confirmed_payments_count'', int (fst (ds_payments r))), (''confirmed_payments_amount_xof'', snd (ds_payments r)),
          (''confirmed_refunds_count'', int (fst (ds_refunds r))), (''confirmed_refunds_amount_xof'', snd (ds_refunds r)),
          (''processor_fees_amount_xof'', ds_fees r), (''net_expected_delta_xof'', net),
          (''settlements_count'', int (fst (ds_settlements r))), (''settlements_amount_xof'', snd (ds_settlements r)),
          (''unsettled_receivable_delta_xof'', net - snd (ds_settlements r)),
          (''payouts_count'', int (fst (ds_payouts r))), (''payouts_amount_xof'', snd (ds_payouts r))])"

definition is_final :: "instant \<Rightarrow> int \<Rightarrow> bool" where
  "is_final now day \<longleftrightarrow> day < today now"

subsection \<open>The accounting summary\<close>

definition SERVICES :: "string list" where
  "SERVICES = [''diddigo'', ''diddisend'', ''diddifood'', ''diddifund'', ''diddifree'']"

definition FLOW_TYPES :: "string list" where
  "FLOW_TYPES = [''service_payment'', ''wallet_topup'', ''refund'', ''settlement'', ''payout'', ''wallet_deposit'', ''wallet_withdrawal'',
     ''wallet_transfer'', ''adjustment'', ''unknown'']"

definition normalize_service :: "string \<Rightarrow> string" where
  "normalize_service client =
     (let v = lower (strip client) in
      if v \<in> set SERVICES then v
      else (case find (\<lambda>x. starts_with (x @ ''-'') v \<or> starts_with (x @ ''_'') v) SERVICES of None \<Rightarrow> ''unknown'' | Some x \<Rightarrow> x))"

definition classify_flow :: "string \<Rightarrow> json_object \<Rightarrow> string" where
  "classify_flow business_reference metadata =
     (let explicit = lower (strip (case map_of metadata ''flow_type'' of None \<Rightarrow> [] | Some x \<Rightarrow> x));
          r = lower (strip business_reference)
      in if explicit \<in> set FLOW_TYPES then explicit
         else if contains ''topup'' r \<or> contains ''top-up'' r then ''wallet_topup''
         else if contains ''wallet_deposit'' r \<or> contains ''wallet-deposit'' r then ''wallet_deposit''
         else if contains ''wallet_withdrawal'' r \<or> contains ''wallet-withdrawal'' r then ''wallet_withdrawal''
         else if contains ''wallet_transfer'' r \<or> contains ''wallet-transfer'' r then ''wallet_transfer''
         else ''service_payment'')"

record source_row =
  so_client :: string
  so_processor :: string
  so_reference :: string
  so_metadata :: json_object
  so_type :: string
  so_count :: nat
  so_amount :: int

definition paid_through :: "pay_db \<Rightarrow> uuid \<Rightarrow> string" where
  "paid_through s i = (case find (\<lambda>a. pa_intent a = i \<and> pa_status a = At_succeeded) (attempts s) of
     None \<Rightarrow> ''unknown'' | Some a \<Rightarrow> pa_processor a)"

text \<open>The joins of the two queries, a row with what it is grouped by; the grouping itself.\<close>

definition payment_keys :: "pay_db \<Rightarrow> journal \<Rightarrow> (uuid \<times> source_row) option" where
  "payment_keys s j = (case fj_intent j of None \<Rightarrow> None | Some i \<Rightarrow> map_option (\<lambda>x. (i,
     \<lparr>so_client = pi_client x, so_processor = paid_through s i, so_reference = pi_reference x, so_metadata = pi_metadata x,
      so_type = fj_type j, so_count = 0, so_amount = 0\<rparr>)) (intent_get s i))"

definition payout_keys :: "pay_db \<Rightarrow> journal \<Rightarrow> (uuid \<times> source_row) option" where
  "payout_keys s j = (case fj_payout j of None \<Rightarrow> None | Some i \<Rightarrow> map_option (\<lambda>x. (0,
     \<lparr>so_client = pt_client x, so_processor = pt_processor x, so_reference = pt_reference x, so_metadata = pt_metadata x,
      so_type = fj_type j, so_count = 0, so_amount = 0\<rparr>)) (payout_get s i))"

definition grouped :: "(journal \<Rightarrow> 'k option) \<Rightarrow> journal list \<Rightarrow> ('k \<times> journal list) list" where
  "grouped key js = map (\<lambda>k. (k, filter (\<lambda>j. key j = Some k) js)) (remdups (map the (filter (\<lambda>k. k \<noteq> None) (map key js))))"

definition source_of :: "('u \<times> source_row) \<times> journal list \<Rightarrow> source_row" where
  "source_of g = (case g of ((_, row), js) \<Rightarrow> row\<lparr>so_count := length js, so_amount := sum_list (map fj_amount js)\<rparr>)"

definition accounting_rows :: "pay_db \<Rightarrow> instant \<Rightarrow> instant \<Rightarrow> source_row list" where
  "accounting_rows s start stop =
     map source_of (grouped (payment_keys s) (filter (dated start stop [''capture'', ''refund'', ''processor_fee'', ''settlement'']) (journals s)))
     @ map source_of (grouped (payout_keys s) (filter (dated start stop [''payout'']) (journals s)))"

text \<open>The totals of one key of the dictionary \<open>grouped\<close>, and the entry made of them.\<close>

record flow_totals =
  ft_count :: nat
  ft_capture :: int
  ft_refund :: int
  ft_fee :: int
  ft_settlement :: int
  ft_payout :: int

record accounting_entry =
  ae_service :: string
  ae_processor :: string
  ae_flow :: string
  ae_count :: nat
  ae_gross :: int
  ae_refund :: int
  ae_fees :: int
  ae_net :: int
  ae_settled :: int
  ae_outstanding :: int

definition flow_key :: "source_row \<Rightarrow> string \<times> string \<times> string" where
  "flow_key r = (normalize_service (so_client r), if so_processor r = [] then ''unknown'' else so_processor r,
     if so_type r = ''payout'' then ''payout'' else classify_flow (so_reference r) (so_metadata r))"

definition no_totals :: flow_totals where
  "no_totals = \<lparr>ft_count = 0, ft_capture = 0, ft_refund = 0, ft_fee = 0, ft_settlement = 0, ft_payout = 0\<rparr>"

definition add_row :: "source_row \<Rightarrow> flow_totals \<Rightarrow> flow_totals" where
  "add_row r t =
     (let a = so_amount r; ty = so_type r; c = ft_count t + (if ty \<in> {''capture'', ''payout''} then so_count r else 0)
      in if ty = ''capture'' then t\<lparr>ft_capture := ft_capture t + a, ft_count := c\<rparr>
         else if ty = ''refund'' then t\<lparr>ft_refund := ft_refund t + a, ft_count := c\<rparr>
         else if ty = ''processor_fee'' then t\<lparr>ft_fee := ft_fee t + a, ft_count := c\<rparr>
         else if ty = ''settlement'' then t\<lparr>ft_settlement := ft_settlement t + a, ft_count := c\<rparr>
         else t\<lparr>ft_payout := ft_payout t + a, ft_count := c\<rparr>)"

definition entry_of :: "(string \<times> string \<times> string) \<times> flow_totals \<Rightarrow> accounting_entry" where
  "entry_of g = (case g of ((service, processor, flow), t) \<Rightarrow>
     let gross = (if ft_capture t \<noteq> 0 then ft_capture t else ft_payout t);
         net = (if flow = ''payout'' then 0 else gross - ft_refund t - ft_fee t)
     in \<lparr>ae_service = service, ae_processor = processor, ae_flow = flow, ae_count = ft_count t, ae_gross = gross, ae_refund = ft_refund t,
          ae_fees = ft_fee t, ae_net = net, ae_settled = ft_settlement t, ae_outstanding = (if flow = ''payout'' then 0 else net - ft_settlement t)\<rparr>)"

definition flow_groups :: "source_row list \<Rightarrow> ((string \<times> string \<times> string) \<times> flow_totals) list" where
  "flow_groups rows = map (\<lambda>k. (k, fold add_row (filter (\<lambda>r. flow_key r = k) rows) no_totals)) (sort (remdups (map flow_key rows)))"

definition accounting_summary :: "pay_db \<Rightarrow> int \<Rightarrow> accounting_entry list" where
  "accounting_summary s day = map entry_of (flow_groups (accounting_rows s (fst (day_bounds day)) (snd (day_bounds day))))"

subsection \<open>Integrity and health\<close>

record integrity_gap =
  ig_intent :: uuid
  ig_no_capture :: bool
  ig_no_callback :: bool

definition captured :: "pay_db \<Rightarrow> uuid \<Rightarrow> bool" where
  "captured s i \<longleftrightarrow> (\<exists>j \<in> set (journals s). fj_intent j = Some i \<and> fj_type j = ''capture'')"

definition notified :: "pay_db \<Rightarrow> uuid \<Rightarrow> bool" where
  "notified s i \<longleftrightarrow> (\<exists>e \<in> set (pay_outboxes s). px_aggregate e = i \<and> px_type e = ''payment.succeeded'')"

definition find_gaps :: "pay_db \<Rightarrow> nat \<Rightarrow> integrity_gap list" where
  "find_gaps s n = take n (map (\<lambda>i. \<lparr>ig_intent = pi_id i, ig_no_capture = \<not> captured s (pi_id i), ig_no_callback = \<not> notified s (pi_id i)\<rparr>)
     (sort_key (\<lambda>i. (pi_created i, pi_id i))
       (filter (\<lambda>i. pi_status i \<in> {Pi_succeeded, Pi_partially_refunded, Pi_refunded} \<and> (\<not> captured s (pi_id i) \<or> \<not> notified s (pi_id i))) (intents s))))"

definition integrity_audit :: "pay_db \<Rightarrow> int \<Rightarrow> pexc + (integrity_gap list \<times> bool)" where
  "integrity_audit s n =
     (if n < 1 \<or> 500 < n then Inl (P_Value ''limit must be between 1 and 500'')
      else let rows = find_gaps s (nat n + 1) in Inr (take (nat n) rows, nat n < length rows))"

datatype health = Healthy | Degraded | Unavailable

text \<open>The counts are \<open>None\<close> when reading them raised.\<close>

definition health_summary :: "(delivery_status \<times> nat) list option \<Rightarrow> health \<times> (nat \<times> nat) option" where
  "health_summary counts = (case counts of None \<Rightarrow> (Unavailable, None)
     | Some cs \<Rightarrow>
       let dead = (case map_of cs Ob_dead_letter of None \<Rightarrow> 0 | Some k \<Rightarrow> k);
           waiting = (case map_of cs Ob_pending of None \<Rightarrow> 0 | Some k \<Rightarrow> k)
       in (if dead \<noteq> 0 then Degraded else Healthy, Some (waiting, dead)))"

subsection \<open>Views for support and back office\<close>

record support_context_view =
  sx_intent :: uuid
  sx_reference :: string
  sx_status :: intent_status
  sx_money :: pay_money
  sx_refunded :: int
  sx_refund_status :: string
  sx_attempt :: "(attempt_status \<times> string option \<times> string option \<times> instant) option"
  sx_updated :: instant

definition last_updated :: "pay_attempt list \<Rightarrow> pay_attempt option" where
  "last_updated rows = (case rev (sort_key (\<lambda>a. (pa_updated a, pa_id a)) rows) of [] \<Rightarrow> None | a # _ \<Rightarrow> Some a)"

definition support_context :: "pay_db \<Rightarrow> uuid \<Rightarrow> support_context_view option" where
  "support_context s i = map_option (\<lambda>x.
     \<lparr>sx_intent = pi_id x, sx_reference = pi_reference x, sx_status = pi_status x, sx_money = pi_money x, sx_refunded = pi_refunded x,
      sx_refund_status = (if pi_refunded x = 0 then ''none'' else if pi_refunded x < pm_amount (pi_money x) then ''partially_refunded'' else ''refunded''),
      sx_attempt = map_option (\<lambda>a. (pa_status a, pa_provider_status a, pa_failure a, pa_updated a))
        (last_updated (filter (\<lambda>a. pa_intent a = i) (attempts s))),
      sx_updated = pi_updated x\<rparr>) (intent_get s i)"

record backoffice_payment =
  bp_intent :: pay_intent
  bp_attempts :: "pay_attempt list"
  bp_summary :: "financial_summary option"

definition backoffice_get :: "pay_db \<Rightarrow> uuid \<Rightarrow> backoffice_payment option" where
  "backoffice_get s i = map_option (\<lambda>x. \<lparr>bp_intent = x, bp_attempts = attempts_for s i, bp_summary = Some (journal_summary s i)\<rparr>) (intent_get s i)"

definition backoffice_list :: "pay_db \<Rightarrow> nat \<Rightarrow> nat \<Rightarrow> intent_status option \<Rightarrow> backoffice_payment list \<times> nat" where
  "backoffice_list s page page_size status =
     (let rows = filter (\<lambda>x. status = None \<or> status = Some (pi_status x)) (intents s)
      in (map (\<lambda>x. \<lparr>bp_intent = x, bp_attempts = [], bp_summary = None\<rparr>)
            (take page_size (drop ((page - 1) * page_size) (sort_key (\<lambda>x. (- pi_updated x, pi_id x)) rows))), length rows))"

end
