(* ===== verification/PayDemo.thy ===== *)
theory PayDemo
  imports PayReach
begin

section \<open>Concrete worlds of the payment module\<close>

text \<open>
  A processor that answers at once, and worlds reached from the empty one by requests and halves in
  a chosen order; the properties of the module are applied to them.
\<close>

datatype move = Go pay_request | Run nat

fun play :: "pay_config \<Rightarrow> move list \<Rightarrow> pay_world \<Rightarrow> pay_world" where
  "play cf [] w = w"
| "play cf (Go q # ms) w = (case begin_request (cf_env cf) q (wd_db w) of
     (Inl _, _) \<Rightarrow> play cf ms w
   | (Inr ts, t) \<Rightarrow> play cf ms \<lparr>wd_db = t, wd_tasks = wd_tasks w @ ts\<rparr>)"
| "play cf (Run k # ms) w = (if length (wd_tasks w) \<le> k then play cf ms w
     else let rest = take k (wd_tasks w) @ drop (Suc k) (wd_tasks w) in
       (case run_task cf (wd_tasks w ! k) (wd_db w) of
          (Inl _, _) \<Rightarrow> play cf ms \<lparr>wd_db = wd_db w, wd_tasks = rest\<rparr>
        | (Inr _, t) \<Rightarrow> play cf ms \<lparr>wd_db = t, wd_tasks = rest\<rparr>))"

lemma play_reachable: "pay_reachable cf w \<Longrightarrow> pay_reachable cf (play cf ms w)"
proof (induction cf ms w rule: play.induct)
  case (1 cf w)
  then show ?case by simp
next
  case (2 cf q ms w)
  obtain s us where w: "w = \<lparr>wd_db = s, wd_tasks = us\<rparr>" by (cases w) auto
  show ?case
  proof (cases "begin_request (cf_env cf) q s")
    case (Pair r t)
    show ?thesis
    proof (cases r)
      case (Inl e)
      with 2 Pair w show ?thesis by simp
    next
      case (Inr ts)
      with Pair step_request [of cf q s ts t us] 2(3) w have "pay_reachable cf \<lparr>wd_db = t, wd_tasks = us @ ts\<rparr>"
        by (blast intro: reachable_pay_step)
      with 2(2) Pair Inr w show ?thesis by simp
    qed
  qed
next
  case (3 cf k ms w)
  obtain s us where w: "w = \<lparr>wd_db = s, wd_tasks = us\<rparr>" by (cases w) auto
  show ?case
  proof (cases "length us \<le> k")
    case True
    with 3 w show ?thesis by simp
  next
    case False
    let ?rest = "take k us @ drop (Suc k) us"
    from False have us: "us = take k us @ us ! k # drop (Suc k) us" by (simp add: id_take_nth_drop)
    have lost: "pay_reachable cf \<lparr>wd_db = s, wd_tasks = ?rest\<rparr>"
      using step_lost [of cf s "take k us" "us ! k" "drop (Suc k) us"] us 3(4) w by (metis reachable_pay_step)
    show ?thesis
    proof (cases "run_task cf (us ! k) s")
      case (Pair r t)
      show ?thesis
      proof (cases r)
        case (Inl e)
        with 3(2) False Pair w lost show ?thesis by simp
      next
        case (Inr x)
        with Pair step_task [of cf "us ! k" s t "take k us" "drop (Suc k) us"] us 3(4) w
        have "pay_reachable cf \<lparr>wd_db = t, wd_tasks = ?rest\<rparr>" by (metis (full_types) reachable_pay_step old.unit.exhaust)
        with 3(3) False Pair Inr w show ?thesis by simp
      qed
    qed
  qed
qed

subsection \<open>A processor and a client\<close>

definition demo_processor :: processor where
  "demo_processor = \<lparr>pc_name = ''demo'',
     pc_capabilities = \<lparr>cap_currencies = [''XOF''], cap_directions = [Collection, Refund_direction, Payout_direction],
       cap_channels = [], cap_networks = []\<rparr>,
     initialize_payment = (\<lambda>r. Answer \<lparr>pv_reference = ''d'' @ uuid_str (ir_attempt r), pv_status = At_requires_action,
       pv_provider_status = None, pv_action = None, pv_failure = None, pv_amount = None, pv_currency = None, pv_fee = None\<rparr>),
     verify_payment = (\<lambda>_ ref. Answer \<lparr>pv_reference = ref, pv_status = At_succeeded, pv_provider_status = None, pv_action = None,
       pv_failure = None, pv_amount = Some 5000, pv_currency = Some ''XOF'', pv_fee = Some 100\<rparr>),
     parse_webhook = (\<lambda>body headers. Answer \<lparr>pn_key = body, pn_type = ''charge'', pn_reference = map_of headers ''ref'',
       pn_status = Some At_succeeded, pn_amount = Some 5000, pn_currency = Some ''XOF'', pn_fee = Some 100,
       pn_payload_status = None\<rparr>),
     refund_payment = (\<lambda>r. Answer \<lparr>rs_reference = Some (''r'' @ uuid_str (rr_refund r)), rs_status = Rf_succeeded,
       rs_provider_status = None\<rparr>),
     create_payout = (\<lambda>r. Answer \<lparr>ps_reference = Some (''p'' @ uuid_str (pq_payout r)), ps_status = Pt_processing,
       ps_provider_status = None, ps_failure = None\<rparr>),
     verify_payout = (\<lambda>_ ref. Answer \<lparr>ps_reference = Some ref, ps_status = Pt_succeeded, ps_provider_status = None,
       ps_failure = None\<rparr>)\<rparr>"

definition demo_pay_env :: pay_env where
  "demo_pay_env = \<lparr>pv_registry = [(100, demo_processor)], pv_default = None, pv_sha256 = (\<lambda>_. ''h'')\<rparr>"

definition demo_config :: pay_config where
  "demo_config = \<lparr>cf_env = demo_pay_env, cf_send = (\<lambda>_ _ _. None),
     cf_targets = [(''go'', \<lparr>ct_url = ''u'', ct_secret = ''k''\<rparr>)]\<rparr>"

definition demo_create :: create_command where
  "demo_create = \<lparr>cc_client = ''go'', cc_reference = ''b1'', cc_amount = 5000, cc_currency = ''xof'', cc_key = ''k1'',
     cc_payer = None, cc_payee = None, cc_channel = None, cc_network = None, cc_email = None, cc_phone = None,
     cc_callback = None, cc_description = None, cc_metadata = []\<rparr>"

definition demo_refund :: "int \<Rightarrow> string \<Rightarrow> refund_command" where
  "demo_refund n key = \<lparr>rc_client = ''go'', rc_intent = 1, rc_amount = n, rc_key = key, rc_reason = None\<rparr>"

definition demo_payout :: payout_command where
  "demo_payout = \<lparr>pd_client = ''go'', pd_reference = ''b2'', pd_beneficiary = ''ben'', pd_amount = 300, pd_currency = ''XOF'',
     pd_key = ''p1'', pd_destination = None, pd_metadata = []\<rparr>"

subsection \<open>Worlds\<close>

definition demo_begun :: pay_world where
  "demo_begun = play demo_config [Go (Req_create demo_create)] empty_world"

definition demo_waiting :: pay_world where
  "demo_waiting = play demo_config [Run 0] demo_begun"

definition demo_paid :: pay_world where
  "demo_paid = play demo_config [Go (Req_webhook ''demo'' ''e1'' [(''ref'', ''d2'')]), Run 0] demo_waiting"

definition demo_refunding :: pay_world where
  "demo_refunding = play demo_config [Go (Req_refund (demo_refund 2000 ''r1'')), Go (Req_refund (demo_refund 3000 ''r2''))] demo_paid"

definition demo_refunded :: pay_world where
  "demo_refunded = play demo_config [Run 0, Run 0] demo_refunding"

definition demo_paid_out :: pay_world where
  "demo_paid_out = play demo_config [Go (Req_payout True demo_payout), Run 0, Go (Req_payout_sweep 0 10), Run 0] demo_paid"

lemma demo_worlds_reachable:
  "pay_reachable demo_config demo_begun" "pay_reachable demo_config demo_waiting" "pay_reachable demo_config demo_paid"
  "pay_reachable demo_config demo_refunding" "pay_reachable demo_config demo_refunded" "pay_reachable demo_config demo_paid_out"
  unfolding demo_begun_def demo_waiting_def demo_paid_def demo_refunding_def demo_refunded_def demo_paid_out_def
  by (intro play_reachable reachable_start)+

text \<open>The values of these worlds, computed once.\<close>

lemma world_value: "wd_db w = s \<Longrightarrow> length (wd_tasks w) = 0 \<Longrightarrow> w = \<lparr>wd_db = s, wd_tasks = []\<rparr>"
  by (cases w) simp

lemma demo_waiting_value [code]:
  "demo_waiting = \<lparr>wd_db =
    \<lparr>intents =
       [\<lparr>pi_id = 1, pi_client = ''go'', pi_reference = ''b1'',
           pi_payer = None, pi_payee = None,
           pi_money = \<lparr>pm_amount = 5000, pm_currency = ''XOF''\<rparr>,
           pi_status = Pi_requires_action, pi_key = ''k1'',
           pi_fingerprint = ''h'', pi_description = None,
           pi_metadata = [], pi_refunded = 0, pi_created = 0,
           pi_updated = 0\<rparr>],
       attempts =
         [\<lparr>pa_id = 2, pa_intent = 1, pa_number = 1, pa_processor = ''demo'',
             pa_channel = None, pa_network = None,
             pa_money = \<lparr>pm_amount = 5000, pm_currency = ''XOF''\<rparr>,
             pa_status = At_requires_action, pa_provider_ref = Some ''d2'',
             pa_provider_status = None, pa_action = None, pa_failure = None,
             pa_created = 0, pa_updated = 0\<rparr>],
       provider_events = [], refunds = [], pay_outboxes = [], commands = [],
       payouts = [], journals = [], fin_entries = [], pay_next = 3,
       pay_clock = 0\<rparr>,
    wd_tasks = []\<rparr>"
  by (rule world_value; code_simp)

lemma demo_paid_value [code]:
  "demo_paid = \<lparr>wd_db =
    \<lparr>intents =
       [\<lparr>pi_id = 1, pi_client = ''go'', pi_reference = ''b1'',
           pi_payer = None, pi_payee = None,
           pi_money = \<lparr>pm_amount = 5000, pm_currency = ''XOF''\<rparr>,
           pi_status = Pi_succeeded, pi_key = ''k1'',
           pi_fingerprint = ''h'', pi_description = None,
           pi_metadata = [], pi_refunded = 0, pi_created = 0,
           pi_updated = 0\<rparr>],
       attempts =
         [\<lparr>pa_id = 2, pa_intent = 1, pa_number = 1, pa_processor = ''demo'',
             pa_channel = None, pa_network = None,
             pa_money = \<lparr>pm_amount = 5000, pm_currency = ''XOF''\<rparr>,
             pa_status = At_succeeded, pa_provider_ref = Some ''d2'',
             pa_provider_status = None, pa_action = None, pa_failure = None,
             pa_created = 0, pa_updated = 0\<rparr>],
       provider_events =
         [\<lparr>pe_id = 3, pe_processor = ''demo'', pe_key = ''e1'',
             pe_type = ''charge'', pe_status = Ev_processed,
             pe_attempt = Some 2, pe_error = None\<rparr>],
       refunds = [],
       pay_outboxes =
         [\<lparr>px_id = 4, px_client = ''go'', px_type = ''payment.succeeded'',
             px_aggregate = 1,
             px_payload =
               Payment_payload ''e1'' 1 ''b1'' 5000 ''XOF'' ''succeeded'',
             px_status = Ob_pending, px_attempts = 0, px_error = None,
             px_next_attempt = 0, px_delivered = None, px_locked = None,
             px_created = 0\<rparr>],
       commands = [], payouts = [],
       journals =
         [\<lparr>fj_id = 5, fj_intent = Some 1, fj_payout = None,
             fj_type = ''capture'', fj_reference = ''e1'', fj_amount = 5000,
             fj_currency = ''XOF'', fj_created = 0\<rparr>,
          \<lparr>fj_id = 8, fj_intent = Some 1, fj_payout = None,
             fj_type = ''processor_fee'', fj_reference = ''e1'',
             fj_amount = 100, fj_currency = ''XOF'', fj_created = 0\<rparr>],
       fin_entries =
         [\<lparr>fe_id = 6, fe_journal = 5,
             fe_account = ''processor_receivable:demo'',
             fe_direction = Fin_debit, fe_amount = 5000,
             fe_currency = ''XOF''\<rparr>,
          \<lparr>fe_id = 7, fe_journal = 5, fe_account = ''module_payable:go'',
             fe_direction = Fin_credit, fe_amount = 5000,
             fe_currency = ''XOF''\<rparr>,
          \<lparr>fe_id = 9, fe_journal = 8,
             fe_account = ''processor_fee_expense'',
             fe_direction = Fin_debit, fe_amount = 100,
             fe_currency = ''XOF''\<rparr>,
          \<lparr>fe_id = 10, fe_journal = 8,
             fe_account = ''processor_receivable:demo'',
             fe_direction = Fin_credit, fe_amount = 100,
             fe_currency = ''XOF''\<rparr>],
       pay_next = 11, pay_clock = 0\<rparr>,
    wd_tasks = []\<rparr>"
  by (rule world_value; code_simp)

lemma demo_refunded_value [code]:
  "demo_refunded = \<lparr>wd_db =
    \<lparr>intents =
       [\<lparr>pi_id = 1, pi_client = ''go'', pi_reference = ''b1'',
           pi_payer = None, pi_payee = None,
           pi_money = \<lparr>pm_amount = 5000, pm_currency = ''XOF''\<rparr>,
           pi_status = Pi_partially_refunded, pi_key = ''k1'',
           pi_fingerprint = ''h'', pi_description = None,
           pi_metadata = [], pi_refunded = 3000, pi_created = 0,
           pi_updated = 0\<rparr>],
       attempts =
         [\<lparr>pa_id = 2, pa_intent = 1, pa_number = 1, pa_processor = ''demo'',
             pa_channel = None, pa_network = None,
             pa_money = \<lparr>pm_amount = 5000, pm_currency = ''XOF''\<rparr>,
             pa_status = At_succeeded, pa_provider_ref = Some ''d2'',
             pa_provider_status = None, pa_action = None, pa_failure = None,
             pa_created = 0, pa_updated = 0\<rparr>],
       provider_events =
         [\<lparr>pe_id = 3, pe_processor = ''demo'', pe_key = ''e1'',
             pe_type = ''charge'', pe_status = Ev_processed,
             pe_attempt = Some 2, pe_error = None\<rparr>],
       refunds =
         [\<lparr>rf_id = 11, rf_intent = 1, rf_attempt = 2, rf_client = ''go'',
             rf_processor = ''demo'',
             rf_money = \<lparr>pm_amount = 2000, pm_currency = ''XOF''\<rparr>,
             rf_status = Rf_succeeded, rf_key = ''r1'',
             rf_fingerprint = ''h'', rf_reason = None,
             rf_provider_ref = Some ''r11'', rf_provider_status = None,
             rf_created = 0, rf_updated = 0\<rparr>,
          \<lparr>rf_id = 12, rf_intent = 1, rf_attempt = 2, rf_client = ''go'',
             rf_processor = ''demo'',
             rf_money = \<lparr>pm_amount = 3000, pm_currency = ''XOF''\<rparr>,
             rf_status = Rf_succeeded, rf_key = ''r2'',
             rf_fingerprint = ''h'', rf_reason = None,
             rf_provider_ref = Some ''r12'', rf_provider_status = None,
             rf_created = 0, rf_updated = 0\<rparr>],
       pay_outboxes =
         [\<lparr>px_id = 4, px_client = ''go'', px_type = ''payment.succeeded'',
             px_aggregate = 1,
             px_payload =
               Payment_payload ''e1'' 1 ''b1'' 5000 ''XOF'' ''succeeded'',
             px_status = Ob_pending, px_attempts = 0, px_error = None,
             px_next_attempt = 0, px_delivered = None, px_locked = None,
             px_created = 0\<rparr>],
       commands = [], payouts = [],
       journals =
         [\<lparr>fj_id = 5, fj_intent = Some 1, fj_payout = None,
             fj_type = ''capture'', fj_reference = ''e1'', fj_amount = 5000,
             fj_currency = ''XOF'', fj_created = 0\<rparr>,
          \<lparr>fj_id = 8, fj_intent = Some 1, fj_payout = None,
             fj_type = ''processor_fee'', fj_reference = ''e1'',
             fj_amount = 100, fj_currency = ''XOF'', fj_created = 0\<rparr>,
          \<lparr>fj_id = 13, fj_intent = Some 1, fj_payout = None,
             fj_type = ''refund'', fj_reference = ''11'', fj_amount = 2000,
             fj_currency = ''XOF'', fj_created = 0\<rparr>,
          \<lparr>fj_id = 16, fj_intent = Some 1, fj_payout = None,
             fj_type = ''refund'', fj_reference = ''12'', fj_amount = 3000,
             fj_currency = ''XOF'', fj_created = 0\<rparr>],
       fin_entries =
         [\<lparr>fe_id = 6, fe_journal = 5,
             fe_account = ''processor_receivable:demo'',
             fe_direction = Fin_debit, fe_amount = 5000,
             fe_currency = ''XOF''\<rparr>,
          \<lparr>fe_id = 7, fe_journal = 5, fe_account = ''module_payable:go'',
             fe_direction = Fin_credit, fe_amount = 5000,
             fe_currency = ''XOF''\<rparr>,
          \<lparr>fe_id = 9, fe_journal = 8,
             fe_account = ''processor_fee_expense'',
             fe_direction = Fin_debit, fe_amount = 100,
             fe_currency = ''XOF''\<rparr>,
          \<lparr>fe_id = 10, fe_journal = 8,
             fe_account = ''processor_receivable:demo'',
             fe_direction = Fin_credit, fe_amount = 100,
             fe_currency = ''XOF''\<rparr>,
          \<lparr>fe_id = 14, fe_journal = 13, fe_account = ''module_payable:go'',
             fe_direction = Fin_debit, fe_amount = 2000,
             fe_currency = ''XOF''\<rparr>,
          \<lparr>fe_id = 15, fe_journal = 13,
             fe_account = ''processor_receivable:demo'',
             fe_direction = Fin_credit, fe_amount = 2000,
             fe_currency = ''XOF''\<rparr>,
          \<lparr>fe_id = 17, fe_journal = 16, fe_account = ''module_payable:go'',
             fe_direction = Fin_debit, fe_amount = 3000,
             fe_currency = ''XOF''\<rparr>,
          \<lparr>fe_id = 18, fe_journal = 16,
             fe_account = ''processor_receivable:demo'',
             fe_direction = Fin_credit, fe_amount = 3000,
             fe_currency = ''XOF''\<rparr>],
       pay_next = 19, pay_clock = 0\<rparr>,
    wd_tasks = []\<rparr>"
  by (rule world_value; code_simp)

lemma demo_paid_out_value [code]:
  "demo_paid_out = \<lparr>wd_db =
    \<lparr>intents =
       [\<lparr>pi_id = 1, pi_client = ''go'', pi_reference = ''b1'',
           pi_payer = None, pi_payee = None,
           pi_money = \<lparr>pm_amount = 5000, pm_currency = ''XOF''\<rparr>,
           pi_status = Pi_succeeded, pi_key = ''k1'',
           pi_fingerprint = ''h'', pi_description = None,
           pi_metadata = [], pi_refunded = 0, pi_created = 0,
           pi_updated = 0\<rparr>],
       attempts =
         [\<lparr>pa_id = 2, pa_intent = 1, pa_number = 1, pa_processor = ''demo'',
             pa_channel = None, pa_network = None,
             pa_money = \<lparr>pm_amount = 5000, pm_currency = ''XOF''\<rparr>,
             pa_status = At_succeeded, pa_provider_ref = Some ''d2'',
             pa_provider_status = None, pa_action = None, pa_failure = None,
             pa_created = 0, pa_updated = 0\<rparr>],
       provider_events =
         [\<lparr>pe_id = 3, pe_processor = ''demo'', pe_key = ''e1'',
             pe_type = ''charge'', pe_status = Ev_processed,
             pe_attempt = Some 2, pe_error = None\<rparr>],
       refunds = [],
       pay_outboxes =
         [\<lparr>px_id = 4, px_client = ''go'', px_type = ''payment.succeeded'',
             px_aggregate = 1,
             px_payload =
               Payment_payload ''e1'' 1 ''b1'' 5000 ''XOF'' ''succeeded'',
             px_status = Ob_pending, px_attempts = 0, px_error = None,
             px_next_attempt = 0, px_delivered = None, px_locked = None,
             px_created = 0\<rparr>,
          \<lparr>px_id = 12, px_client = ''go'', px_type = ''payout.processing'',
             px_aggregate = 11,
             px_payload =
               Payout_payload 11 ''b2'' ''ben'' 300 ''XOF'' ''processing''
                [],
             px_status = Ob_pending, px_attempts = 0, px_error = None,
             px_next_attempt = 0, px_delivered = None, px_locked = None,
             px_created = 0\<rparr>,
          \<lparr>px_id = 16, px_client = ''go'', px_type = ''payout.succeeded'',
             px_aggregate = 11,
             px_payload =
               Payout_payload 11 ''b2'' ''ben'' 300 ''XOF'' ''succeeded''
                [],
             px_status = Ob_pending, px_attempts = 0, px_error = None,
             px_next_attempt = 0, px_delivered = None, px_locked = None,
             px_created = 0\<rparr>],
       commands = [],
       payouts =
         [\<lparr>pt_id = 11, pt_client = ''go'', pt_reference = ''b2'',
             pt_beneficiary = ''ben'',
             pt_money = \<lparr>pm_amount = 300, pm_currency = ''XOF''\<rparr>,
             pt_status = Pt_succeeded, pt_key = ''p1'',
             pt_fingerprint = ''h'', pt_processor = ''demo'',
             pt_provider_ref = Some ''p11'', pt_provider_status = None,
             pt_failure = None, pt_metadata = [], pt_destination = None,
             pt_created = 0, pt_updated = 0\<rparr>],
       journals =
         [\<lparr>fj_id = 5, fj_intent = Some 1, fj_payout = None,
             fj_type = ''capture'', fj_reference = ''e1'', fj_amount = 5000,
             fj_currency = ''XOF'', fj_created = 0\<rparr>,
          \<lparr>fj_id = 8, fj_intent = Some 1, fj_payout = None,
             fj_type = ''processor_fee'', fj_reference = ''e1'',
             fj_amount = 100, fj_currency = ''XOF'', fj_created = 0\<rparr>,
          \<lparr>fj_id = 13, fj_intent = None, fj_payout = Some 11,
             fj_type = ''payout'', fj_reference = ''payout:11:succeeded'',
             fj_amount = 300, fj_currency = ''XOF'', fj_created = 0\<rparr>],
       fin_entries =
         [\<lparr>fe_id = 6, fe_journal = 5,
             fe_account = ''processor_receivable:demo'',
             fe_direction = Fin_debit, fe_amount = 5000,
             fe_currency = ''XOF''\<rparr>,
          \<lparr>fe_id = 7, fe_journal = 5, fe_account = ''module_payable:go'',
             fe_direction = Fin_credit, fe_amount = 5000,
             fe_currency = ''XOF''\<rparr>,
          \<lparr>fe_id = 9, fe_journal = 8,
             fe_account = ''processor_fee_expense'',
             fe_direction = Fin_debit, fe_amount = 100,
             fe_currency = ''XOF''\<rparr>,
          \<lparr>fe_id = 10, fe_journal = 8,
             fe_account = ''processor_receivable:demo'',
             fe_direction = Fin_credit, fe_amount = 100,
             fe_currency = ''XOF''\<rparr>,
          \<lparr>fe_id = 14, fe_journal = 13, fe_account = ''module_payable:go'',
             fe_direction = Fin_debit, fe_amount = 300,
             fe_currency = ''XOF''\<rparr>,
          \<lparr>fe_id = 15, fe_journal = 13,
             fe_account = ''processor_balance:demo'',
             fe_direction = Fin_credit, fe_amount = 300,
             fe_currency = ''XOF''\<rparr>],
       pay_next = 17, pay_clock = 0\<rparr>,
    wd_tasks = []\<rparr>"
  by (rule world_value; code_simp)

end
