(* ===== verification/ReportProps.thy ===== *)
theory ReportProps
  imports PayReports PayDemo
begin

section \<open>The reports agree with the books\<close>

subsection \<open>Sums over groups\<close>

lemma sum_list_if: "sum_list (map f (filter P xs)) = sum_list (map (\<lambda>x. if P x then f x else 0) xs)" for f :: "'a \<Rightarrow> int"
  by (induction xs) auto

lemma grouped_sum:
  fixes f :: "journal \<Rightarrow> int"
  assumes "\<forall>j \<in> set js. key j \<noteq> None"
  shows "sum_list (map (\<lambda>(k, g). sum_list (map f g)) (grouped key js)) = sum_list (map f js)"
proof -
  from assms have "map the (filter (\<lambda>k. k \<noteq> None) (map key js)) = map (\<lambda>j. the (key j)) js"
    by (induction js) auto
  then have ks: "grouped key js = map (\<lambda>k. (k, filter (\<lambda>j. key j = Some k) js)) (remdups (map (\<lambda>j. the (key j)) js))"
    by (simp add: grouped_def)
  have "filter (\<lambda>j. key j = Some k) js = filter (\<lambda>j. the (key j) = k) js" for k
    using assms by (intro filter_cong) auto
  then show ?thesis
    unfolding ks using sum_by_key [of js "\<lambda>j. the (key j)" "remdups (map (\<lambda>j. the (key j)) js)" f] by (simp add: comp_def)
qed

text \<open>What a row counts for, and what a journal counts for, when the totals of a type are taken.\<close>

definition row_share :: "string list \<Rightarrow> source_row \<Rightarrow> int" where
  "row_share kinds r = (if so_type r \<in> set kinds then so_amount r else 0)"

definition journal_share :: "string list \<Rightarrow> journal \<Rightarrow> int" where
  "journal_share kinds j = (if fj_type j \<in> set kinds then fj_amount j else 0)"

definition row_number :: "string list \<Rightarrow> source_row \<Rightarrow> int" where
  "row_number kinds r = (if so_type r \<in> set kinds then int (so_count r) else 0)"

definition journal_number :: "string list \<Rightarrow> journal \<Rightarrow> int" where
  "journal_number kinds j = (if fj_type j \<in> set kinds then 1 else 0)"

lemma same_kind_sums:
  "\<forall>j \<in> set g. fj_type j = ty \<Longrightarrow>
    sum_list (map (journal_share kinds) g) = (if ty \<in> set kinds then sum_list (map fj_amount g) else 0)
    \<and> sum_list (map (journal_number kinds) g) = (if ty \<in> set kinds then int (length g) else 0)"
  by (induction g) (auto simp: journal_share_def journal_number_def)

lemma source_sums:
  assumes "\<forall>j \<in> set js. \<exists>u row. key j = Some (u, row) \<and> so_type row = fj_type j"
  shows "sum_list (map (row_share kinds) (map source_of (grouped key js))) = sum_list (map (journal_share kinds) js)"
    and "sum_list (map (row_number kinds) (map source_of (grouped key js))) = sum_list (map (journal_number kinds) js)"
proof -
  have same: "row_share kinds (source_of g) = (case g of (k, js) \<Rightarrow> sum_list (map (journal_share kinds) js))
      \<and> row_number kinds (source_of g) = (case g of (k, js) \<Rightarrow> sum_list (map (journal_number kinds) js))"
    if g: "g \<in> set (grouped key js)" for g
  proof -
    from g obtain u row where k: "g = ((u, row), filter (\<lambda>j. key j = Some (u, row)) js)" by (auto simp: grouped_def)
    have "\<forall>j \<in> set (filter (\<lambda>j. key j = Some (u, row)) js). fj_type j = so_type row" using assms by fastforce
    from same_kind_sums [OF this, of kinds] show ?thesis by (simp add: k source_of_def row_share_def row_number_def)
  qed
  have some: "\<forall>j \<in> set js. key j \<noteq> None" using assms by auto
  have "sum_list (map (row_share kinds) (map source_of (grouped key js)))
      = sum_list (map (\<lambda>(k, g). sum_list (map (journal_share kinds) g)) (grouped key js))"
    "sum_list (map (row_number kinds) (map source_of (grouped key js)))
      = sum_list (map (\<lambda>(k, g). sum_list (map (journal_number kinds) g)) (grouped key js))"
    unfolding map_map using same by (auto intro!: arg_cong [of _ _ sum_list] map_cong)
  then show "sum_list (map (row_share kinds) (map source_of (grouped key js))) = sum_list (map (journal_share kinds) js)"
      "sum_list (map (row_number kinds) (map source_of (grouped key js))) = sum_list (map (journal_number kinds) js)"
    by (simp_all only: grouped_sum [OF some])
qed

lemma added_rows:
  assumes "\<forall>r \<in> set rs. so_type r \<in> {''capture'', ''refund'', ''processor_fee'', ''settlement'', ''payout''}"
  shows "ft_refund (fold add_row rs t) = ft_refund t + sum_list (map (row_share [''refund'']) rs)"
    "ft_fee (fold add_row rs t) = ft_fee t + sum_list (map (row_share [''processor_fee'']) rs)"
    "ft_settlement (fold add_row rs t) = ft_settlement t + sum_list (map (row_share [''settlement'']) rs)"
    "ft_capture (fold add_row rs t) = ft_capture t + sum_list (map (row_share [''capture'']) rs)"
    "ft_payout (fold add_row rs t) = ft_payout t + sum_list (map (row_share [''payout'']) rs)"
    "int (ft_count (fold add_row rs t)) = int (ft_count t) + sum_list (map (row_number [''capture'', ''payout'']) rs)"
  using assms by (induction rs arbitrary: t) (auto simp: add_row_def row_share_def row_number_def Let_def)

lemma flow_sums:
  fixes h :: "source_row \<Rightarrow> int"
  shows "sum_list (map (\<lambda>k. sum_list (map h (filter (\<lambda>r. flow_key r = k) rows))) (sort (remdups (map flow_key rows)))) = sum_list (map h rows)"
  by (rule sum_by_key [symmetric]) auto

lemma entry_sums:
  fixes rows :: "source_row list"
  defines "es \<equiv> map entry_of (flow_groups rows)"
  assumes "\<forall>r \<in> set rows. so_type r \<in> {''capture'', ''refund'', ''processor_fee'', ''settlement'', ''payout''}"
  shows "sum_list (map ae_refund es) = sum_list (map (row_share [''refund'']) rows)"
    "sum_list (map ae_fees es) = sum_list (map (row_share [''processor_fee'']) rows)"
    "sum_list (map ae_settled es) = sum_list (map (row_share [''settlement'']) rows)"
    "sum_list (map (\<lambda>e. int (ae_count e)) es) = sum_list (map (row_number [''capture'', ''payout'']) rows)"
proof -
  have fields: "ae_refund (entry_of g) = ft_refund (snd g)" "ae_fees (entry_of g) = ft_fee (snd g)"
      "ae_settled (entry_of g) = ft_settlement (snd g)" "ae_count (entry_of g) = ft_count (snd g)" for g
    by (simp_all add: entry_of_def Let_def split: prod.splits)
  have types: "\<forall>r \<in> set (filter (\<lambda>r. flow_key r = k) rows). so_type r \<in> {''capture'', ''refund'', ''processor_fee'', ''settlement'', ''payout''}" for k
    using assms(2) by auto
  note added = added_rows [OF types, where t = no_totals]
  show "sum_list (map ae_refund es) = sum_list (map (row_share [''refund'']) rows)"
    "sum_list (map ae_fees es) = sum_list (map (row_share [''processor_fee'']) rows)"
    "sum_list (map ae_settled es) = sum_list (map (row_share [''settlement'']) rows)"
    "sum_list (map (\<lambda>e. int (ae_count e)) es) = sum_list (map (row_number [''capture'', ''payout'']) rows)"
    unfolding es_def flow_groups_def map_map comp_def fields snd_conv added
    by (simp_all only: flow_sums no_totals_def flow_totals.simps of_nat_0 add_0_left)
qed

subsection \<open>The two reports\<close>

lemma total_of_daily:
  "total_of (daily_totals s a b) ty =
     (let rows = filter (dated a b [''capture'', ''refund'', ''processor_fee'', ''settlement'', ''payout'']) (journals s)
      in (length (filter (\<lambda>j. fj_type j = ty) rows), sum_list (map fj_amount (filter (\<lambda>j. fj_type j = ty) rows))))"
proof -
  have look: "map_of (map (\<lambda>k. (k, f k)) ks) k = (if k \<in> set ks then Some (f k) else None)" for f :: "string \<Rightarrow> nat \<times> int" and ks k
    by (induction ks) auto
  let ?rows = "filter (dated a b [''capture'', ''refund'', ''processor_fee'', ''settlement'', ''payout'']) (journals s)"
  have "ty \<notin> fj_type ` set ?rows \<Longrightarrow> filter (\<lambda>j. fj_type j = ty) ?rows = []"
    by (rule filter_key_empty)
  then show ?thesis
    unfolding total_of_def daily_totals_def Let_def look by (cases "ty \<in> fj_type ` set ?rows") (simp_all add: image_iff)
qed

lemma kind_sums:
  "sum_list (map (journal_share [ty]) js) = sum_list (map fj_amount (filter (\<lambda>j. fj_type j = ty) js))"
  "ty \<noteq> ty' \<Longrightarrow> sum_list (map (journal_number [ty, ty']) js)
     = int (length (filter (\<lambda>j. fj_type j = ty) js)) + int (length (filter (\<lambda>j. fj_type j = ty') js))"
  by (induction js) (auto simp: journal_share_def journal_number_def)

definition owned :: "pay_db \<Rightarrow> journal \<Rightarrow> bool" where
  "owned s j \<longleftrightarrow> (if fj_type j = ''payout'' then (case fj_payout j of None \<Rightarrow> False | Some i \<Rightarrow> payout_get s i \<noteq> None)
     else (case fj_intent j of None \<Rightarrow> False | Some i \<Rightarrow> intent_get s i \<noteq> None))"

lemma day_rows:
  fixes h :: "journal \<Rightarrow> int"
  shows "sum_list (map h (filter (dated a b [''capture'', ''refund'', ''processor_fee'', ''settlement'']) js))
     + sum_list (map h (filter (dated a b [''payout'']) js))
     = sum_list (map h (filter (dated a b [''capture'', ''refund'', ''processor_fee'', ''settlement'', ''payout'']) js))"
  by (induction js) (auto simp: dated_def)

lemma accounting_row_sums:
  assumes "\<forall>j \<in> set (journals s). owned s j"
  shows "sum_list (map (row_share kinds) (accounting_rows s a b)) = sum_list (map (journal_share kinds)
       (filter (dated a b [''capture'', ''refund'', ''processor_fee'', ''settlement'', ''payout'']) (journals s)))"
    "sum_list (map (row_number kinds) (accounting_rows s a b)) = sum_list (map (journal_number kinds)
       (filter (dated a b [''capture'', ''refund'', ''processor_fee'', ''settlement'', ''payout'']) (journals s)))"
    "\<forall>r \<in> set (accounting_rows s a b). so_type r \<in> {''capture'', ''refund'', ''processor_fee'', ''settlement'', ''payout''}"
proof -
  let ?P = "filter (dated a b [''capture'', ''refund'', ''processor_fee'', ''settlement'']) (journals s)"
  let ?Q = "filter (dated a b [''payout'']) (journals s)"
  have p: "\<forall>j \<in> set ?P. \<exists>u row. payment_keys s j = Some (u, row) \<and> so_type row = fj_type j"
    using assms by (force simp: owned_def dated_def payment_keys_def split: option.splits if_splits)
  have q: "\<forall>j \<in> set ?Q. \<exists>u row. payout_keys s j = Some (u, row) \<and> so_type row = fj_type j"
    using assms by (force simp: owned_def dated_def payout_keys_def split: option.splits if_splits)
  show "sum_list (map (row_share kinds) (accounting_rows s a b)) = sum_list (map (journal_share kinds)
       (filter (dated a b [''capture'', ''refund'', ''processor_fee'', ''settlement'', ''payout'']) (journals s)))"
    "sum_list (map (row_number kinds) (accounting_rows s a b)) = sum_list (map (journal_number kinds)
       (filter (dated a b [''capture'', ''refund'', ''processor_fee'', ''settlement'', ''payout'']) (journals s)))"
    unfolding accounting_rows_def map_append sum_list_append source_sums [OF p] source_sums [OF q] by (rule day_rows)+
  show "\<forall>r \<in> set (accounting_rows s a b). so_type r \<in> {''capture'', ''refund'', ''processor_fee'', ''settlement'', ''payout''}"
    unfolding accounting_rows_def set_append set_map
    by (auto simp: grouped_def source_of_def payment_keys_def payout_keys_def dated_def split: option.splits)
qed

text \<open>
  C27: the accounting summary of a day, which groups by service, processor and flow, agrees with the daily
  summary, which groups by type only: over its entries the refunds, the fees, the settlements and the
  numbers of movements add up to those of the daily summary, when every journal's payment or payout exists.
\<close>

theorem accounting_adds_up_to_daily:
  assumes "\<forall>j \<in> set (journals s). owned s j"
  shows "sum_list (map ae_refund (accounting_summary s day)) = snd (ds_refunds (daily_summary s day))
    \<and> sum_list (map ae_fees (accounting_summary s day)) = ds_fees (daily_summary s day)
    \<and> sum_list (map ae_settled (accounting_summary s day)) = snd (ds_settlements (daily_summary s day))
    \<and> sum_list (map (\<lambda>e. int (ae_count e)) (accounting_summary s day))
      = int (fst (ds_payments (daily_summary s day))) + int (fst (ds_payouts (daily_summary s day)))"
  unfolding accounting_summary_def entry_sums [OF accounting_row_sums(3) [OF assms]] accounting_row_sums [OF assms] kind_sums(1)
  by (simp add: daily_summary_def total_of_daily kind_sums Let_def)

theorem accounting_adds_up_to_daily_witness:
  "sum_list (map ae_refund (accounting_summary (wd_db demo_refunded) 0)) = 5000
   \<and> ds_payments (daily_summary (wd_db demo_refunded) 0) = (1, 5000)"
proof -
  have owned: "\<forall>j \<in> set (journals (wd_db demo_refunded)). owned (wd_db demo_refunded) j" by code_simp
  have "snd (ds_refunds (daily_summary (wd_db demo_refunded) 0)) = 5000" by code_simp
  moreover have "ds_payments (daily_summary (wd_db demo_refunded) 0) = (1, 5000)" by code_simp
  ultimately show ?thesis using accounting_adds_up_to_daily [OF owned, of 0] by simp
qed

end
