(* ===== verification/PayProps.thy ===== *)
theory PayProps
  imports PayDemo
begin

section \<open>Properties of the payment module\<close>

text \<open>
  What the books, the refunds, the payouts and the statuses of payments promise in every reachable
  world, however requests, provider answers and crashes interleave.
\<close>

subsection \<open>The books\<close>

definition fin_signed :: "fin_entry \<Rightarrow> int" where
  "fin_signed e = (case fe_direction e of Fin_debit \<Rightarrow> fe_amount e | Fin_credit \<Rightarrow> - fe_amount e)"

definition book_balance :: "pay_db \<Rightarrow> string \<Rightarrow> int" where
  "book_balance s cur = sum_list (map fin_signed (filter (\<lambda>e. fe_currency e = cur) (fin_entries s)))"

lemma two_entries_balanced:
  "sum_list (map fin_signed (filter (\<lambda>e. fe_currency e = cur) (two_entries n k d c a b))) = 0"
  by (simp add: two_entries_def fin_signed_def)

lemma reachable_books: "pay_reachable cf w \<Longrightarrow> books_ok (wd_db w)"
  by (blast dest: pay_inv_reachable intro: pay_invD(1))

lemma journal_entries:
  assumes "books_ok s" "j \<in> set (journals s)"
  obtains n d c where "entries_of_journal s j = two_entries n (fj_id j) d c (fj_amount j) (fj_currency j)" "booking_ok (fj_type j) d c"
  using assms unfolding books_ok_def journal_ok_def by blast

text \<open>
  C24: in every reachable world each journal has one owner, a positive amount and exactly two entries, a
  debit and a credit of its amount and currency; no event is booked twice under one type; and the debits
  of each currency equal its credits.
\<close>

theorem payment_books_balance:
  assumes "pay_reachable cf w" "j \<in> set (journals (wd_db w))"
  shows "0 < fj_amount j \<and> (fj_intent j = None) \<noteq> (fj_payout j = None)
    \<and> (\<exists>n d c. entries_of_journal (wd_db w) j = two_entries n (fj_id j) d c (fj_amount j) (fj_currency j))
    \<and> filter (\<lambda>k. fj_type k = fj_type j \<and> fj_reference k = fj_reference j) (journals (wd_db w)) = [j]
    \<and> book_balance (wd_db w) cur = 0"
proof (intro conjI)
  let ?s = "wd_db w"
  note ok = reachable_books [OF assms(1)]
  from ok assms(2) have j: "journal_ok ?s j" by (auto simp: books_ok_def)
  then show "0 < fj_amount j" "(fj_intent j = None) \<noteq> (fj_payout j = None)"
    "\<exists>n d c. entries_of_journal ?s j = two_entries n (fj_id j) d c (fj_amount j) (fj_currency j)"
    by (auto simp: journal_ok_def)
  show "filter (\<lambda>k. fj_type k = fj_type j \<and> fj_reference k = fj_reference j) (journals ?s) = [j]"
    using ok assms(2) filter_key_single [of "\<lambda>j. (fj_type j, fj_reference j)" "journals ?s" j] by (simp add: books_ok_def)
  have "book_balance ?s cur = sum_list (map (\<lambda>i. sum_list (map fin_signed (filter (\<lambda>e. fe_journal e = i)
      (filter (\<lambda>e. fe_currency e = cur) (fin_entries ?s))))) (map fj_id (journals ?s)))"
    unfolding book_balance_def using ok by (intro sum_by_key) (auto simp: books_ok_def)
  also have "\<dots> = sum_list (map (\<lambda>k. sum_list (map fin_signed (filter (\<lambda>e. fe_currency e = cur) (entries_of_journal ?s k)))) (journals ?s))"
    by (simp add: entries_of_journal_def comp_def conj_commute)
  also have "\<dots> = sum_list (map (\<lambda>_. 0) (journals ?s))"
  proof (intro arg_cong [of _ _ sum_list] map_cong refl)
    fix k assume "k \<in> set (journals ?s)"
    from journal_entries [OF ok this]
    show "sum_list (map fin_signed (filter (\<lambda>e. fe_currency e = cur) (entries_of_journal ?s k))) = 0"
      by (metis two_entries_balanced)
  qed
  finally show "book_balance ?s cur = 0" by simp
qed

theorem payment_books_balance_witness:
  "fj_amount (journals (wd_db demo_refunded) ! 2) = 2000 \<and> book_balance (wd_db demo_refunded) ''XOF'' = 0"
proof -
  have "journals (wd_db demo_refunded) ! 2 \<in> set (journals (wd_db demo_refunded))" by (rule nth_mem) code_simp
  from payment_books_balance [OF demo_worlds_reachable(5) this, of "''XOF''"] have "book_balance (wd_db demo_refunded) ''XOF'' = 0" by blast
  moreover have "fj_amount (journals (wd_db demo_refunded) ! 2) = 2000" by code_simp
  ultimately show ?thesis by blast
qed

definition owed_balance :: "pay_db \<Rightarrow> uuid \<Rightarrow> int" where
  "owed_balance s i = sum_list (map fin_signed (filter (\<lambda>e. owed_by_processor (fe_account e))
     (concat (map (entries_of_journal s) (filter (\<lambda>j. fj_intent j = Some i) (journals s))))))"

lemma booked_owed:
  assumes "journal_ok s j" "fj_intent j = Some i"
  shows "sum_list (map fin_signed (filter (\<lambda>e. owed_by_processor (fe_account e)) (entries_of_journal s j))) =
    (if fj_type j = ''capture'' then fj_amount j else 0) - (if fj_type j = ''refund'' then fj_amount j else 0)
    - (if fj_type j = ''processor_fee'' then fj_amount j else 0) - (if fj_type j = ''settlement'' then fj_amount j else 0)"
proof -
  from assms obtain n d c where e: "entries_of_journal s j = two_entries n (fj_id j) d c (fj_amount j) (fj_currency j)"
      and kind: "booking_ok (fj_type j) d c" "fj_type j \<noteq> ''payout''"
    by (auto simp: journal_ok_def)
  from kind show ?thesis unfolding e by (auto simp: booking_ok_def two_entries_def fin_signed_def)
qed

text \<open>
  C26: the financial summary of a payment, which adds up journals by type, is what the double entries say:
  the outstanding amount is the balance of the accounts of what the processors owe, taken over the
  entries of the payment's journals.
\<close>

theorem financial_summary_matches_entries:
  assumes "pay_reachable cf w"
  shows "fs_outstanding (journal_summary (wd_db w) i) = owed_balance (wd_db w) i"
proof -
  let ?s = "wd_db w"
  have "\<forall>j \<in> set (journals ?s). journal_ok ?s j" using reachable_books [OF assms] by (simp add: books_ok_def)
  then have "sum_list (map fin_signed (filter (\<lambda>e. owed_by_processor (fe_account e))
       (concat (map (entries_of_journal ?s) (filter (\<lambda>j. fj_intent j = Some i) js))))) =
     sum_list (map fj_amount (filter (\<lambda>j. fj_intent j = Some i \<and> fj_type j = ''capture'') js))
     - sum_list (map fj_amount (filter (\<lambda>j. fj_intent j = Some i \<and> fj_type j = ''refund'') js))
     - sum_list (map fj_amount (filter (\<lambda>j. fj_intent j = Some i \<and> fj_type j = ''processor_fee'') js))
     - sum_list (map fj_amount (filter (\<lambda>j. fj_intent j = Some i \<and> fj_type j = ''settlement'') js))"
    if "set js \<subseteq> set (journals ?s)" for js
    using that
  proof (induction js)
    case Nil
    then show ?case by simp
  next
    case (Cons j js)
    with booked_owed [of ?s j i] show ?case by auto
  qed
  from this [OF subset_refl] show ?thesis
    by (simp add: owed_balance_def journal_summary_def journal_total_def Let_def)
qed

theorem financial_summary_matches_entries_witness:
  "fs_outstanding (journal_summary (wd_db demo_refunded) 1) = -100 \<and> owed_balance (wd_db demo_refunded) 1 = -100"
proof -
  have "fs_outstanding (journal_summary (wd_db demo_refunded) 1) = -100" by code_simp
  with financial_summary_matches_entries [OF demo_worlds_reachable(5), of 1] show ?thesis by simp
qed

subsection \<open>Refunds and payouts\<close>

text \<open>
  C28: in every reachable world the refunds of a payment that have not failed never exceed its amount, the
  books carry exactly the succeeded ones, and the refunded amount shown on the payment is never more
  than what was paid back.
\<close>

theorem refunds_within_payment:
  assumes "pay_reachable cf w" "i \<in> set (intents (wd_db w))"
  shows "total_active_for (wd_db w) (pi_id i) \<le> pm_amount (pi_money i)
    \<and> fs_refunded (journal_summary (wd_db w) (pi_id i)) = refunded_total (wd_db w) (pi_id i)
    \<and> 0 \<le> pi_refunded i \<and> pi_refunded i \<le> refunded_total (wd_db w) (pi_id i)
    \<and> refunded_total (wd_db w) (pi_id i) \<le> pm_amount (pi_money i)"
proof -
  let ?s = "wd_db w"
  from pay_inv_reachable [OF assms(1)] have ok: "refunds_ok ?s" by (rule pay_invD(2))
  have "refunded_total ?s k \<le> total_active_for ?s k" for k
  proof -
    have "\<forall>f \<in> set (refunds ?s). 0 \<le> pm_amount (rf_money f)" using ok by (auto simp: refunds_ok_def intro: less_imp_le)
    then have "sum_list (map (\<lambda>r. pm_amount (rf_money r)) (filter (\<lambda>r. rf_intent r = k \<and> rf_status r = Rf_succeeded) rs))
      \<le> sum_list (map (\<lambda>r. pm_amount (rf_money r)) (filter (\<lambda>r. rf_intent r = k
          \<and> rf_status r \<in> {Rf_pending, Rf_processing, Rf_succeeded}) rs))" if "set rs \<subseteq> set (refunds ?s)" for rs
      using that by (induction rs) auto
    from this [OF subset_refl] show ?thesis by (simp add: refunded_total_def total_active_for_def)
  qed
  from this [of "pi_id i"] ok assms(2) show ?thesis
    by (fastforce simp: refunds_ok_def journal_summary_def Let_def)
qed

theorem refunds_within_payment_witness:
  "refunded_total (wd_db demo_refunded) 1 = 5000 \<and> refunded_total (wd_db demo_refunded) 1 \<le> 5000"
proof -
  have "hd (intents (wd_db demo_refunded)) \<in> set (intents (wd_db demo_refunded))" by (rule hd_in_set) (simp add: demo_refunded_value)
  from refunds_within_payment [OF demo_worlds_reachable(5) this] show ?thesis
    by (simp add: demo_refunded_value) code_simp
qed

text \<open>
  C31: once paid, a payment stays paid: no step of any request, webhook, sweep, refund or crash takes its
  status out of succeeded, partially refunded and refunded, nor changes its amount.
\<close>

theorem paid_payment_stays_paid:
  assumes "pay_reachable cf w" "pay_step cf w w'" "intent_get (wd_db w) i = Some x" "paid_status (pi_status x)"
  shows "\<exists>y. intent_get (wd_db w') i = Some y \<and> paid_status (pi_status y) \<and> pi_money y = pi_money x"
proof -
  from intent_get_Some [OF assms(3)] assms(4) have "paid_in (wd_db w) i (pi_money x)" by (auto simp: paid_in_def)
  from step_inv [OF assms(2) pay_inv_paid [OF pay_inv_reachable [OF assms(1)] this]]
  have inv: "pay_inv (wd_tasks w') {(i, pi_money x)} (wd_db w')" .
  from pay_invD(6) [OF inv, of i "pi_money x"] obtain y where "y \<in> set (intents (wd_db w'))" "pi_id y = i"
      "paid_status (pi_status y)" "pi_money y = pi_money x"
    by (auto simp: paid_in_def)
  with lookup_row_distinct [OF pay_invD(7) [OF inv], of y] show ?thesis by (auto simp: intent_get_def)
qed

theorem paid_payment_stays_paid_witness:
  "\<exists>w y. pay_step demo_config demo_paid w \<and> length (refunds (wd_db w)) = 1 \<and> intent_get (wd_db w) 1 = Some y \<and> paid_status (pi_status y)"
proof -
  let ?run = "begin_request demo_pay_env (Req_refund (demo_refund 2000 ''r1'')) (wd_db demo_paid)"
  have "wp (begin_request demo_pay_env (Req_refund (demo_refund 2000 ''r1''))) (\<lambda>_ t. length (refunds t) = 1) (\<lambda>_ _. False) (wd_db demo_paid)"
    by code_simp
  from wp_returns [OF this] obtain ts t where t: "?run = (Inr ts, t)" "length (refunds t) = 1" by blast
  have w: "demo_paid = \<lparr>wd_db = wd_db demo_paid, wd_tasks = []\<rparr>" by (simp add: demo_paid_value)
  from step_request [of demo_config "Req_refund (demo_refund 2000 ''r1'')" "wd_db demo_paid" ts t "[]"] t(1) w
  have step: "pay_step demo_config demo_paid \<lparr>wd_db = t, wd_tasks = ts\<rparr>" by (simp add: demo_config_def)
  obtain x where x: "intent_get (wd_db demo_paid) 1 = Some x" "paid_status (pi_status x)"
    by (simp add: demo_paid_value intent_get_def paid_status_def)
  from paid_payment_stays_paid [OF demo_worlds_reachable(3) step x] step t(2) show ?thesis by (metis pay_world.select_convs(1))
qed

text \<open>
  C36: the books show of a payout that succeeded exactly one booking, of its amount; of any other payout
  nothing but, at most, that same booking.
\<close>

theorem succeeded_payout_booked_once:
  assumes "pay_reachable cf w" "p \<in> set (payouts (wd_db w))"
  shows "(pt_status p = Pt_succeeded \<longrightarrow> payout_summary (wd_db w) (pt_id p) = [(''payout'', pm_amount (pt_money p))])
    \<and> payout_summary (wd_db w) (pt_id p) \<in> {[], [(''payout'', pm_amount (pt_money p))]}"
proof -
  let ?s = "wd_db w" and ?own = "\<lambda>j. fj_payout j = Some (pt_id p)"
  note inv = pay_inv_reachable [OF assms(1)]
  have journal: "payout_journal p j" if "j \<in> set (journals ?s)" "?own j" for j
  proof -
    from that(1) pay_invD(1) [OF inv] have "journal_ok ?s j" by (simp add: books_ok_def)
    with that(2) have "fj_type j = ''payout''" by (auto simp: journal_ok_def)
    with that pay_invD(3) [OF inv] obtain q where q: "q \<in> set (payouts ?s)" "payout_journal q j" by (auto simp: payouts_ok_def)
    with that(2) have "pt_id q = pt_id p" by (simp add: payout_journal_def)
    with distinct_map_same [OF pay_invD(9) [OF inv] q(1) assms(2)] q(2) show ?thesis by simp
  qed
  have same: "filter ?own (journals ?s) = filter (\<lambda>j. (fj_type j, fj_reference j)
      = (''payout'', ''payout:'' @ uuid_str (pt_id p) @ '':succeeded'')) (journals ?s)"
  proof (rule filter_cong [OF refl])
    fix j assume j: "j \<in> set (journals ?s)"
    show "?own j \<longleftrightarrow> (fj_type j, fj_reference j) = (''payout'', ''payout:'' @ uuid_str (pt_id p) @ '':succeeded'')"
    proof
      assume "?own j"
      from journal [OF j this] show "(fj_type j, fj_reference j) = (''payout'', ''payout:'' @ uuid_str (pt_id p) @ '':succeeded'')"
        by (simp add: payout_journal_def)
    next
      assume eq: "(fj_type j, fj_reference j) = (''payout'', ''payout:'' @ uuid_str (pt_id p) @ '':succeeded'')"
      with j pay_invD(3) [OF inv] obtain q where "q \<in> set (payouts ?s)" "payout_journal q j" by (auto simp: payouts_ok_def)
      with eq show "?own j" by (auto simp: payout_journal_def dest: uuid_str_inj)
    qed
  qed
  have keys: "distinct (map (\<lambda>j. (fj_type j, fj_reference j)) (journals ?s))" using pay_invD(1) [OF inv] by (simp add: books_ok_def)
  have summary: "payout_summary ?s (pt_id p) = [(''payout'', pm_amount (pt_money p))]" if "j \<in> set (journals ?s)" "?own j" for j
  proof -
    from journal [OF that] have "payout_journal p j" .
    with filter_key_single [OF keys that(1)] same have "filter ?own (journals ?s) = [j]" by (simp add: payout_journal_def)
    with \<open>payout_journal p j\<close> show ?thesis by (simp add: payout_summary_def Let_def payout_journal_def)
  qed
  moreover have "payout_summary ?s (pt_id p) = []" if "\<not> (\<exists>j \<in> set (journals ?s). ?own j)"
    using that by (simp add: payout_summary_def Let_def filter_empty_conv)
  moreover from pay_invD(3) [OF inv] assms(2) have "\<exists>j \<in> set (journals ?s). ?own j" if "pt_status p = Pt_succeeded"
    using that unfolding payouts_ok_def payout_journal_def by blast
  ultimately show ?thesis by blast
qed

theorem succeeded_payout_booked_once_witness:
  "payout_summary (wd_db demo_paid_out) 11 = [(''payout'', 300)]"
proof -
  have "hd (payouts (wd_db demo_paid_out)) \<in> set (payouts (wd_db demo_paid_out))" by (rule hd_in_set) (simp add: demo_paid_out_value)
  from succeeded_payout_booked_once [OF demo_worlds_reachable(6) this] show ?thesis by (simp add: demo_paid_out_value)
qed

end
