(* ===== verification/PyValues.thy ===== *)
theory PyValues
  imports PayUse Decimals
begin

section \<open>Dynamic values, conversions and HTTP calls\<close>

text \<open>
  What the provider adapters under \<^verbatim>\<open>payments/infra/\<close> share: the values a JSON text decodes to, the
  truth tests, \<open>str\<close>, \<open>int\<close>, \<open>float\<close> and \<open>Decimal\<close> conversions the code applies to whatever a
  provider sends, and the HTTP client, which is a parameter. A float carries its exact value and the
  text Python prints for it; JSON texts have no infinities.
\<close>

subsection \<open>Values\<close>

datatype pyval = V_none | V_bool bool | V_int int | V_float rat string | V_str string
  | V_list "pyval list" | V_dict "(string \<times> pyval) list"

type_synonym dict = "(string \<times> pyval) list"

definition dict_get :: "dict \<Rightarrow> string \<Rightarrow> pyval" where
  "dict_get d k = (case map_of d k of None \<Rightarrow> V_none | Some v \<Rightarrow> v)"

fun py_true :: "pyval \<Rightarrow> bool" where
  "py_true V_none = False"
| "py_true (V_bool b) = b"
| "py_true (V_int n) = (n \<noteq> 0)"
| "py_true (V_float r txt) = (r \<noteq> 0)"
| "py_true (V_str s) = (s \<noteq> [])"
| "py_true (V_list vs) = (vs \<noteq> [])"
| "py_true (V_dict d) = (d \<noteq> [])"

definition py_or :: "pyval \<Rightarrow> pyval \<Rightarrow> pyval" where
  "py_or v w = (if py_true v then v else w)"

definition repr_char :: "char \<Rightarrow> char \<Rightarrow> string" where
  "repr_char q c = (let n = of_char c :: nat in
     if n = 92 \<or> c = q then [char_of (92 :: nat), c]
     else if n = 10 then [char_of (92 :: nat), CHR ''n'']
     else if n = 13 then [char_of (92 :: nat), CHR ''r'']
     else if n = 9 then [char_of (92 :: nat), CHR ''t'']
     else if n < 32 \<or> n = 127 then [char_of (92 :: nat), CHR ''x'', hex_digit (n div 16), hex_digit (n mod 16)]
     else [c])"

definition repr_str :: "string \<Rightarrow> string" where
  "repr_str s = (let single = char_of (39 :: nat); double = char_of (34 :: nat);
       q = (if single \<in> set s \<and> double \<notin> set s then double else single)
     in q # concat (map (repr_char q) s) @ [q])"

fun repr :: "pyval \<Rightarrow> string" where
  "repr V_none = ''None''"
| "repr (V_bool b) = (if b then ''True'' else ''False'')"
| "repr (V_int n) = int_str n"
| "repr (V_float r txt) = txt"
| "repr (V_str s) = repr_str s"
| "repr (V_list vs) = ''['' @ join '', '' (map repr vs) @ '']''"
| "repr (V_dict d) = ''{'' @ join '', '' (map (\<lambda>(k, r). repr_str k @ '': '' @ r) (map (\<lambda>(k, v). (k, repr v)) d)) @ ''}''"

fun py_str :: "pyval \<Rightarrow> string" where
  "py_str (V_str s) = s"
| "py_str v = repr v"

text \<open>\<open>str(v).upper() if v else None\<close>, and \<open>str(v or "").upper() or None\<close>.\<close>

definition upper_text :: "pyval \<Rightarrow> string option" where
  "upper_text v = (if py_true v then Some (upper (py_str v)) else None)"

definition some_text :: "pyval \<Rightarrow> string option" where
  "some_text v = (if py_true v then Some (py_str v) else None)"

subsection \<open>Reading numbers\<close>

datatype conversion_error = Value_error | Other_error

definition take_sign :: "string \<Rightarrow> bool \<times> string" where
  "take_sign s = (case s of [] \<Rightarrow> (False, [])
     | c # t \<Rightarrow> if c = CHR ''-'' then (True, t) else if c = CHR ''+'' then (False, t) else (False, s))"

definition digits_value :: "string \<Rightarrow> int" where
  "digits_value s = foldl (\<lambda>n c. 10 * n + (of_char c - 48)) 0 s"

text \<open>An underscore may stand between two digits.\<close>

fun drop_underscores :: "bool \<Rightarrow> string \<Rightarrow> string option" where
  "drop_underscores prev [] = Some []"
| "drop_underscores prev (c # s) =
     (if c = CHR ''_'' then (if prev \<and> s \<noteq> [] \<and> is_digit_char (hd s) then drop_underscores False s else None)
      else map_option ((#) c) (drop_underscores (is_digit_char c) s))"

definition int_of_text :: "string \<Rightarrow> conversion_error + int" where
  "int_of_text txt = (case drop_underscores False (strip txt) of None \<Rightarrow> Inl Value_error
     | Some s \<Rightarrow> (case take_sign s of (neg, ds) \<Rightarrow>
         if ds = [] \<or> \<not> (\<forall>c \<in> set ds. is_digit_char c) \<or> 4300 < length ds then Inl Value_error
         else Inr (if neg then - digits_value ds else digits_value ds)))"

definition trunc :: "rat \<Rightarrow> int" where
  "trunc r = (if 0 \<le> r then \<lfloor>r\<rfloor> else - \<lfloor>- r\<rfloor>)"

fun py_int :: "pyval \<Rightarrow> conversion_error + int" where
  "py_int (V_bool b) = Inr (if b then 1 else 0)"
| "py_int (V_int n) = Inr n"
| "py_int (V_float r txt) = Inr (trunc r)"
| "py_int (V_str s) = int_of_text s"
| "py_int _ = Inl Other_error"

text \<open>
  A decimal literal, an integer part, a fraction and an exponent, as a numerator and a positive
  denominator.
\<close>

definition unsigned_decimal :: "string \<Rightarrow> (int \<times> int) option" where
  "unsigned_decimal s =
     (let a = takeWhile is_digit_char s; r = dropWhile is_digit_char s;
          point = (r \<noteq> [] \<and> hd r = CHR ''.''); b = (if point then takeWhile is_digit_char (tl r) else []);
          e = (if point then dropWhile is_digit_char (tl r) else r);
          p = digits_value (a @ b); q = 10 ^ length b
      in if a = [] \<and> b = [] then None
         else if e = [] then Some (p, q)
         else if lower_char (hd e) \<noteq> CHR ''e'' then None
         else (case take_sign (tl e) of (neg, ds) \<Rightarrow>
           if ds = [] \<or> \<not> (\<forall>c \<in> set ds. is_digit_char c) then None
           else Some (if neg then (p, q * 10 ^ nat (digits_value ds)) else (p * 10 ^ nat (digits_value ds), q))))"

datatype number_text = Finite int int | Infinite | Not_a_number | Not_a_literal

definition signed_number :: "string \<Rightarrow> number_text" where
  "signed_number s = (case take_sign s of (neg, u) \<Rightarrow>
     (case unsigned_decimal u of Some (p, q) \<Rightarrow> Finite (if neg then - p else p) q
      | None \<Rightarrow> if lower u = ''inf'' \<or> lower u = ''infinity'' then Infinite
          else if lower u = ''nan'' then Not_a_number else Not_a_literal))"

text \<open>
  \<open>int(float(v))\<close> of \<open>p / q\<close>: the nearest double has 53 significant bits, ties to even; \<open>int\<close> cuts its
  fraction off. A number beyond the doubles, from \<open>2 ^ 1024\<close> on, is an infinity, of which \<open>int\<close> raises
  \<open>OverflowError\<close>.
\<close>

function bit_length :: "int \<Rightarrow> nat" where
  "bit_length n = (if n \<le> 0 then 0 else Suc (bit_length (n div 2)))"
  by auto
termination by (relation "measure nat") auto

declare bit_length.simps [simp del]

definition round_div :: "int \<Rightarrow> int \<Rightarrow> int" where
  "round_div p q = (let f = p div q; r = 2 * (p mod q)
     in if r < q then f else if q < r then f + 1 else if even f then f else f + 1)"

definition int_of_double :: "int \<Rightarrow> int \<Rightarrow> conversion_error + int" where
  "int_of_double p q =
     (let n = bit_length (\<bar>p\<bar> div q);
          m = (if n \<le> 53 then round_div (\<bar>p\<bar> * 2 ^ (53 - n)) q div 2 ^ (53 - n)
               else round_div \<bar>p\<bar> (q * 2 ^ (n - 53)) * 2 ^ (n - 53))
      in if 1024 < bit_length m then Inl Other_error else Inr (sgn p * m))"

fun py_int_float :: "pyval \<Rightarrow> conversion_error + int" where
  "py_int_float (V_bool b) = Inr (if b then 1 else 0)"
| "py_int_float (V_int n) = int_of_double n 1"
| "py_int_float (V_float r txt) = Inr (trunc r)"
| "py_int_float (V_str s) = (case drop_underscores False (strip s) of None \<Rightarrow> Inl Value_error
     | Some t \<Rightarrow> (case signed_number t of Finite p q \<Rightarrow> int_of_double p q | Infinite \<Rightarrow> Inl Other_error | _ \<Rightarrow> Inl Value_error))"
| "py_int_float _ = Inl Value_error"

text \<open>
  A whole number written in decimal, \<open>Decimal(str(v))\<close> and then \<open>int\<close>: a text that is no number raises
  \<open>InvalidOperation\<close>, a fraction and a quiet NaN the \<open>ValueError\<close> of the caller. \<open>Decimal\<close> ignores
  underscores.
\<close>

definition whole_decimal :: "string \<Rightarrow> conversion_error + int" where
  "whole_decimal txt = (case signed_number (filter (\<lambda>c. c \<noteq> CHR ''_'') (strip txt)) of
     Finite p q \<Rightarrow> if p mod q \<noteq> 0 then Inl Value_error else Inr (p div q)
   | Not_a_number \<Rightarrow> Inl Value_error
   | _ \<Rightarrow> Inl Other_error)"

subsection \<open>Printed integers read back\<close>

lemma digit_char_facts: "n < 10 \<Longrightarrow> is_digit_char (digit_char n) \<and> of_char (digit_char n) = 48 + int n"
  by (subgoal_tac "n \<in> {0, 1, 2, 3, 4, 5, 6, 7, 8, 9}") (auto simp: digit_char_def is_digit_char_def)

lemma digits_value_snoc: "digits_value (s @ [c]) = 10 * digits_value s + (of_char c - 48)"
  by (simp add: digits_value_def)

lemma digits_of_uuid_str: "(\<forall>c \<in> set (uuid_str n). is_digit_char c) \<and> digits_value (uuid_str n) = int n"
proof (induction n rule: uuid_str.induct)
  case (1 n)
  show ?case
  proof (cases "n < 10")
    case True
    with digit_char_facts [of n] show ?thesis by (simp add: uuid_str.simps [of n] digits_value_def)
  next
    case False
    have "10 * int (n div 10) + int (n mod 10) = int (10 * (n div 10) + n mod 10)"
      by (simp only: of_nat_add of_nat_mult of_nat_numeral)
    also have "\<dots> = int n" by (simp only: mult_div_mod_eq)
    finally have "10 * int (n div 10) + int (n mod 10) = int n" .
    with 1 digit_char_facts [of "n mod 10"] False show ?thesis by (simp add: uuid_str.simps [of n] digits_value_snoc del: of_nat_div of_nat_mod)
  qed
qed

lemma digits_only: "(\<forall>c \<in> set s. is_digit_char c) \<Longrightarrow> takeWhile is_digit_char s = s \<and> dropWhile is_digit_char s = []"
  by (simp add: takeWhile_eq_all_conv)

lemma unsigned_of_uuid_str: "unsigned_decimal (uuid_str n) = Some (int n, 1)"
proof -
  from digits_of_uuid_str [of n] digits_only [of "uuid_str n"]
  have "takeWhile is_digit_char (uuid_str n) = uuid_str n" "dropWhile is_digit_char (uuid_str n) = []" "digits_value (uuid_str n) = int n"
    by blast+
  then show ?thesis by (simp only: unsigned_decimal_def Let_def) simp
qed

lemma digit_is_plain: "is_digit_char c \<Longrightarrow> \<not> is_space_char c \<and> c \<noteq> CHR ''_'' \<and> c \<noteq> CHR ''-'' \<and> c \<noteq> CHR ''+''"
  by (auto simp: is_digit_char_def is_space_char_def Let_def)

lemma strip_plain: "s \<noteq> [] \<Longrightarrow> \<not> is_space_char (hd s) \<Longrightarrow> \<not> is_space_char (last s) \<Longrightarrow> strip s = s"
proof -
  assume s: "s \<noteq> []" "\<not> is_space_char (hd s)" "\<not> is_space_char (last s)"
  then have "dropWhile is_space_char s = s" by (cases s) auto
  moreover from s have "dropWhile is_space_char (rev s) = rev s" by (cases s rule: rev_cases) auto
  ultimately show "strip s = s" by (simp add: strip_def)
qed

lemma int_str_plain:
  "strip (int_str a) = int_str a \<and> filter (\<lambda>c. c \<noteq> CHR ''_'') (int_str a) = int_str a
     \<and> take_sign (int_str a) = (a < 0, uuid_str (nat \<bar>a\<bar>))"
proof -
  let ?u = "uuid_str (nat \<bar>a\<bar>)"
  have d: "\<forall>c \<in> set ?u. is_digit_char c" using digits_of_uuid_str by blast
  then have "is_digit_char (hd ?u)" "is_digit_char (last ?u)" by simp_all
  note plain = digit_is_plain [OF this(1)] digit_is_plain [OF this(2)]
  from d have "filter (\<lambda>c. c \<noteq> CHR ''_'') ?u = ?u" by (auto simp: filter_id_conv dest: digit_is_plain)
  with plain show ?thesis
    by (auto simp: int_str_def take_sign_def strip_plain is_space_char_def split: list.splits)
qed

lemma whole_decimal_int_str: "whole_decimal (int_str a) = Inr a"
  using int_str_plain [of a] by (auto simp: whole_decimal_def signed_number_def unsigned_of_uuid_str)

subsection \<open>Answers of a provider\<close>

fun bindP :: "'a psp \<Rightarrow> ('a \<Rightarrow> 'b psp) \<Rightarrow> 'b psp" where
  "bindP (Answer x) f = f x"
| "bindP Rejected f = Rejected"
| "bindP (Uncertain ref) f = Uncertain ref"
| "bindP Webhook_rejected f = Webhook_rejected"
| "bindP Crashed f = Crashed"

lemma bindP_Answer: "bindP m f = Answer y \<longleftrightarrow> (\<exists>x. m = Answer x \<and> f x = Answer y)"
  by (cases m) auto

text \<open>\<open>body.get(k) or {}\<close> whose members are read next: anything but an object raises.\<close>

fun as_dict :: "pyval \<Rightarrow> dict psp" where
  "as_dict (V_dict d) = Answer d"
| "as_dict v = Crashed"

definition sub_dict :: "dict \<Rightarrow> string \<Rightarrow> dict psp" where
  "sub_dict d k = as_dict (py_or (dict_get d k) (V_dict []))"

text \<open>\<open>body.get(k) if isinstance(body.get(k), dict) else {}\<close>.\<close>

definition dict_or :: "dict \<Rightarrow> string \<Rightarrow> dict \<Rightarrow> dict" where
  "dict_or d k other = (case dict_get d k of V_dict e \<Rightarrow> e | _ \<Rightarrow> other)"

subsection \<open>The HTTP client\<close>

text \<open>
  A reply with its status and decoded body (\<open>None\<close> when it is not JSON), no reply
  (\<open>TimeoutException\<close> or \<open>TransportError\<close>), or another exception of the client. What reading gives
  depends on when it is read.
\<close>

datatype http_reply = No_reply | Http_broken | Reply nat "pyval option"

record http_call =
  hc_path :: string
  hc_headers :: "(string \<times> string) list"
  hc_json :: "pyval option"

record http_client =
  hx_post :: "http_call \<Rightarrow> http_reply"
  hx_get :: "instant \<Rightarrow> http_call \<Rightarrow> http_reply"

definition json_body :: "pyval option \<Rightarrow> dict" where
  "json_body b = (case b of Some (V_dict d) \<Rightarrow> d | _ \<Rightarrow> [])"

definition replied :: "string \<Rightarrow> http_reply \<Rightarrow> (nat \<times> dict) psp" where
  "replied reference r = (case r of No_reply \<Rightarrow> Uncertain reference | Http_broken \<Rightarrow> Crashed
     | Reply st b \<Rightarrow> Answer (st, json_body b))"

definition http_status :: "nat \<Rightarrow> string" where
  "http_status st = ''http_'' @ uuid_str st"

definition uuid_hex :: "uuid \<Rightarrow> string" where
  "uuid_hex i = filter (\<lambda>c. c \<noteq> CHR ''-'') (uuid_str i)"

definition opt_str :: "string option \<Rightarrow> pyval" where
  "opt_str x = (case x of None \<Rightarrow> V_none | Some s \<Rightarrow> V_str s)"

definition redirect_to :: "string \<Rightarrow> next_action" where
  "redirect_to url = \<lparr>na_type = Redirect, na_url = Some url, na_instructions = None, na_expires = None\<rparr>"

definition rstrip_slash :: "string \<Rightarrow> string" where
  "rstrip_slash s = rev (dropWhile (\<lambda>c. c = CHR ''/'') (rev s))"

end
