(* ===== verification/Paystack.thy ===== *)
theory Paystack
  imports PyValues
begin

section \<open>The Paystack processor\<close>

text \<open>
  \<^verbatim>\<open>payments/infra/paystack_processor.py\<close>. The HTTP client, the JSON decoder and HMAC-SHA512 are
  parameters; the texts of failure messages, which only reach the provider logs, are left out.
\<close>

record paystack =
  ps_secret_key :: string
  ps_webhook_secret :: string

definition mk_paystack :: "string \<Rightarrow> string option \<Rightarrow> pexc + paystack" where
  "mk_paystack secret webhook_secret =
     (if secret = [] then Inl (P_Value ''PAYSTACK_SECRET_KEY is required'')
      else Inr \<lparr>ps_secret_key = secret, ps_webhook_secret = (if truthy webhook_secret then the webhook_secret else secret)\<rparr>)"

definition paystack_headers :: "paystack \<Rightarrow> (string \<times> string) list" where
  "paystack_headers c = [(''Authorization'', ''Bearer '' @ ps_secret_key c), (''Content-Type'', ''application/json'')]"

definition paystack_call :: "paystack \<Rightarrow> string \<Rightarrow> pyval option \<Rightarrow> http_call" where
  "paystack_call c route body = \<lparr>hc_path = route, hc_headers = paystack_headers c, hc_json = body\<rparr>"

subsection \<open>Amounts\<close>

definition is_xof :: "pyval \<Rightarrow> bool" where
  "is_xof currency \<longleftrightarrow> upper (py_str (py_or currency (V_str []))) = ''XOF''"

definition to_paystack_amount :: "int \<Rightarrow> string \<Rightarrow> int" where
  "to_paystack_amount a currency = (if upper currency = ''XOF'' then a * 100 else a)"

definition from_paystack_amount :: "pyval \<Rightarrow> pyval \<Rightarrow> conversion_error + int option" where
  "from_paystack_amount v currency =
     (if v = V_none then Inr None
      else (case py_int v of Inl e \<Rightarrow> Inl e
        | Inr a \<Rightarrow> if \<not> is_xof currency then Inr (Some a)
            else if a mod 100 \<noteq> 0 then Inl Value_error else Inr (Some (a div 100))))"

definition from_paystack_fee :: "pyval \<Rightarrow> pyval \<Rightarrow> conversion_error + int option" where
  "from_paystack_fee v currency =
     (if v = V_none then Inr None
      else (case py_int v of Inl e \<Rightarrow> Inl e
        | Inr fee \<Rightarrow> if \<not> is_xof currency then Inr (Some fee) else Inr (Some ((fee + 99) div 100))))"

definition paystack_word :: "string \<Rightarrow> attempt_status" where
  "paystack_word st =
     (if st = ''success'' then At_succeeded
      else if st \<in> {''failed'', ''abandoned'', ''reversed''} then At_failed
      else if st \<in> {''pending'', ''ongoing'', ''processing'', ''queued''} then At_processing
      else At_unknown)"

subsection \<open>The calls\<close>

definition paystack_reference :: "uuid \<Rightarrow> string" where
  "paystack_reference attempt = ''dpi_'' @ uuid_hex attempt"

text \<open>\<open>{a: ..., **metadata}\<close>: a member of the metadata replaces the value and keeps the place.\<close>

definition merged :: "dict \<Rightarrow> json_object \<Rightarrow> dict" where
  "merged d m = foldl (\<lambda>acc (k, v). if k \<in> fst ` set acc then map (\<lambda>(k', v'). (k', if k' = k then V_str v else v')) acc
     else acc @ [(k, V_str v)]) d m"

definition paystack_payload :: "init_request \<Rightarrow> pyval" where
  "paystack_payload r = V_dict
     ([(''email'', opt_str (ir_email r)),
       (''amount'', V_int (to_paystack_amount (pm_amount (ir_money r)) (pm_currency (ir_money r)))),
       (''currency'', V_str (pm_currency (ir_money r))),
       (''reference'', V_str (paystack_reference (ir_attempt r))),
       (''metadata'', V_dict (merged [(''payment_intent_id'', V_str (uuid_str (ir_intent r))),
          (''payment_attempt_id'', V_str (uuid_str (ir_attempt r))), (''business_reference'', V_str (ir_reference r)),
          (''requested_network'', opt_str (ir_network r))] (ir_metadata r)))]
      @ (if truthy (ir_callback r) then [(''callback_url'', opt_str (ir_callback r))] else [])
      @ (if truthy (ir_channel r) then [(''channels'', V_list [opt_str (ir_channel r)])] else []))"

definition refused_by :: "nat \<Rightarrow> dict \<Rightarrow> bool" where
  "refused_by st body \<longleftrightarrow> 400 \<le> st \<or> \<not> py_true (dict_get body ''status'')"

definition paystack_initialize :: "http_client \<Rightarrow> paystack \<Rightarrow> init_request \<Rightarrow> provider_result psp" where
  "paystack_initialize H c r =
     (if \<not> truthy (ir_email r) then Rejected
      else
        let reference = paystack_reference (ir_attempt r) in
        bindP (replied reference (hx_post H (paystack_call c ''/transaction/initialize'' (Some (paystack_payload r))))) (\<lambda>(st, body).
        if refused_by st body then Answer (plain_result reference At_failed (http_status st) ''PAYSTACK_INITIALIZATION_FAILED'')
        else bindP (sub_dict body ''data'') (\<lambda>data.
          let provider_reference = py_str (py_or (dict_get data ''reference'') (V_str reference));
              url = dict_get data ''authorization_url''
          in if \<not> py_true url then Answer (plain_result provider_reference At_unknown ''invalid_response'' ''PAYSTACK_RESPONSE_INVALID'')
             else Answer \<lparr>pv_reference = provider_reference, pv_status = At_requires_action, pv_provider_status = Some ''initialized'',
               pv_action = Some (redirect_to (py_str url)), pv_failure = None, pv_amount = None, pv_currency = None, pv_fee = None\<rparr>)))"

definition paystack_verified :: "string \<Rightarrow> dict \<Rightarrow> provider_result psp" where
  "paystack_verified reference data =
     (let provider_status = lower (py_str (py_or (dict_get data ''status'') (V_str ''unknown'')));
          provider_reference = py_str (py_or (dict_get data ''reference'') (V_str reference))
      in case from_paystack_amount (dict_get data ''amount'') (dict_get data ''currency'') of
           Inl Value_error \<Rightarrow> Answer (plain_result provider_reference At_unknown ''invalid_response'' ''PAYSTACK_RESPONSE_INVALID'')
         | Inl Other_error \<Rightarrow> Crashed
         | Inr a \<Rightarrow> (case from_paystack_fee (dict_get data ''fees'') (dict_get data ''currency'') of Inl _ \<Rightarrow> Crashed
             | Inr fee \<Rightarrow> Answer \<lparr>pv_reference = provider_reference, pv_status = paystack_word provider_status,
                 pv_provider_status = Some provider_status, pv_action = None, pv_failure = None, pv_amount = a,
                 pv_currency = upper_text (dict_get data ''currency''), pv_fee = fee\<rparr>))"

definition paystack_verify_payment :: "http_client \<Rightarrow> paystack \<Rightarrow> instant \<Rightarrow> string \<Rightarrow> provider_result psp" where
  "paystack_verify_payment H c now reference =
     bindP (replied reference (hx_get H now (paystack_call c (''/transaction/verify/'' @ reference) None))) (\<lambda>(st, body).
     if refused_by st body then Answer (plain_result reference At_unknown (http_status st) ''PAYSTACK_VERIFICATION_FAILED'')
     else bindP (sub_dict body ''data'') (paystack_verified reference))"

subsection \<open>Webhooks\<close>

definition signature_of :: "(string \<times> string) list \<Rightarrow> string" where
  "signature_of headers = (case find (\<lambda>(k, v). lower k = ''x-paystack-signature'') headers of None \<Rightarrow> [] | Some (k, v) \<Rightarrow> v)"

definition signed_webhook :: "(string \<Rightarrow> string \<Rightarrow> string) \<Rightarrow> paystack \<Rightarrow> string \<Rightarrow> (string \<times> string) list \<Rightarrow> bool" where
  "signed_webhook hmac_sha512 c body headers \<longleftrightarrow> signature_of headers \<noteq> [] \<and> signature_of headers = hmac_sha512 (ps_webhook_secret c) body"

definition notice_status :: "string \<Rightarrow> string \<Rightarrow> attempt_status option" where
  "notice_status event_type provider_status =
     (if event_type = ''charge.success'' then Some At_succeeded
      else if provider_status \<noteq> [] then Some (paystack_word provider_status) else None)"

definition paystack_notice :: "dict \<Rightarrow> provider_notice psp" where
  "paystack_notice payload =
     (let event_type = py_str (py_or (dict_get payload ''event'') (V_str ''unknown''));
          data = dict_or payload ''data'' [];
          reference = some_text (dict_get data ''reference'');
          provider_status = lower (py_str (py_or (dict_get data ''status'') (V_str [])))
      in case from_paystack_amount (dict_get data ''amount'') (dict_get data ''currency'') of
           Inl Value_error \<Rightarrow> Webhook_rejected
         | Inl Other_error \<Rightarrow> Crashed
         | Inr a \<Rightarrow> (case from_paystack_fee (dict_get data ''fees'') (dict_get data ''currency'') of Inl _ \<Rightarrow> Crashed
             | Inr fee \<Rightarrow> Answer \<lparr>pn_key = join '':'' [event_type, (if truthy reference then the reference else ''no-reference''),
                   (if provider_status = [] then ''no-status'' else provider_status)],
                 pn_type = event_type, pn_reference = reference, pn_status = notice_status event_type provider_status,
                 pn_amount = a, pn_currency = upper_text (dict_get data ''currency''), pn_fee = fee,
                 pn_payload_status = (if provider_status = [] then None else Some provider_status)\<rparr>))"

definition paystack_parse_webhook :: "(string \<Rightarrow> string \<Rightarrow> string) \<Rightarrow> (string \<Rightarrow> pyval option) \<Rightarrow> paystack \<Rightarrow> string \<Rightarrow>
    (string \<times> string) list \<Rightarrow> provider_notice psp" where
  "paystack_parse_webhook hmac_sha512 loads c body headers =
     (if \<not> signed_webhook hmac_sha512 c body headers then Webhook_rejected
      else (case loads body of Some (V_dict payload) \<Rightarrow> paystack_notice payload | _ \<Rightarrow> Webhook_rejected))"

subsection \<open>Refunds\<close>

definition paystack_refund_payload :: "refund_request \<Rightarrow> pyval" where
  "paystack_refund_payload r = V_dict
     ([(''transaction'', V_str (rr_reference r)),
       (''amount'', V_int (to_paystack_amount (pm_amount (rr_money r)) (pm_currency (rr_money r)))),
       (''currency'', V_str (pm_currency (rr_money r))),
       (''merchant_note'', V_str (''DiddiPay refund '' @ uuid_str (rr_refund r)))]
      @ (if truthy (rr_reason r) then [(''customer_note'', opt_str (rr_reason r))] else []))"

definition paystack_refund_word :: "string \<Rightarrow> refund_status" where
  "paystack_refund_word st =
     (if st \<in> {''processed'', ''success'', ''succeeded''} then Rf_succeeded
      else if st \<in> {''failed'', ''cancelled''} then Rf_failed else Rf_processing)"

definition paystack_refund :: "http_client \<Rightarrow> paystack \<Rightarrow> refund_request \<Rightarrow> refund_result psp" where
  "paystack_refund H c r =
     bindP (replied (uuid_str (rr_refund r)) (hx_post H (paystack_call c ''/refund'' (Some (paystack_refund_payload r))))) (\<lambda>(st, body).
     if refused_by st body then Answer \<lparr>rs_reference = None, rs_status = Rf_failed, rs_provider_status = Some (http_status st)\<rparr>
     else bindP (sub_dict body ''data'') (\<lambda>data.
       let provider_status = lower (py_str (py_or (dict_get data ''status'') (V_str ''processing'')))
       in Answer \<lparr>rs_reference = (case dict_get data ''id'' of V_none \<Rightarrow> None | v \<Rightarrow> Some (py_str v)),
            rs_status = paystack_refund_word provider_status, rs_provider_status = Some provider_status\<rparr>))"

text \<open>The processor has no payout methods: calling one raises \<open>AttributeError\<close>.\<close>

definition paystack_processor :: "http_client \<Rightarrow> (string \<Rightarrow> string \<Rightarrow> string) \<Rightarrow> (string \<Rightarrow> pyval option) \<Rightarrow> paystack \<Rightarrow> processor" where
  "paystack_processor H hmac_sha512 loads c = \<lparr>pc_name = ''paystack'',
     pc_capabilities = \<lparr>cap_currencies = [''XOF''], cap_directions = [Collection], cap_channels = [''mobile_money'', ''card''], cap_networks = []\<rparr>,
     initialize_payment = paystack_initialize H c,
     verify_payment = paystack_verify_payment H c,
     parse_webhook = paystack_parse_webhook hmac_sha512 loads c,
     refund_payment = paystack_refund H c,
     create_payout = (\<lambda>_. Crashed), verify_payout = (\<lambda>_ _. Crashed)\<rparr>"

subsection \<open>What an answer means\<close>

lemma amount_roundtrip:
  "is_xof (V_str cur) = (upper cur = ''XOF'') \<Longrightarrow> from_paystack_amount (V_int (to_paystack_amount a cur)) (V_str cur) = Inr (Some a)"
  by (simp add: from_paystack_amount_def to_paystack_amount_def)

lemma fee_rounded_up:
  "is_xof cur \<Longrightarrow> from_paystack_fee (V_int f) cur = Inr (Some k) \<Longrightarrow> f \<le> 100 * k \<and> 100 * k < f + 100"
  by (auto simp: from_paystack_fee_def)

end
