(* ===== verification/Jeko.thy ===== *)
theory Jeko
  imports Paystack
begin

section \<open>The Jeko processor\<close>

text \<open>
  \<^verbatim>\<open>payments/infra/jeko_processor.py\<close>: hosted payment pages and mobile-money transfers. Webhooks and
  refunds raise \<open>NotImplementedError\<close>.
\<close>

record jeko =
  jk_api_key :: string
  jk_api_key_id :: string
  jk_store :: string

definition mk_jeko :: "string \<Rightarrow> string \<Rightarrow> string \<Rightarrow> pexc + jeko" where
  "mk_jeko api_key api_key_id store =
     (if api_key = [] then Inl (P_Value ''JEKO_API_KEY is required'')
      else if api_key_id = [] then Inl (P_Value ''JEKO_API_KEY_ID is required'')
      else if store = [] then Inl (P_Value ''JEKO_STORE_ID is required'')
      else Inr \<lparr>jk_api_key = api_key, jk_api_key_id = api_key_id, jk_store = store\<rparr>)"

definition jeko_call :: "jeko \<Rightarrow> string \<Rightarrow> pyval option \<Rightarrow> http_call" where
  "jeko_call c route body = \<lparr>hc_path = route,
     hc_headers = [(''X-API-KEY'', jk_api_key c), (''X-API-KEY-ID'', jk_api_key_id c), (''Content-Type'', ''application/json'')],
     hc_json = body\<rparr>"

definition PAYMENT_METHODS :: "(string \<times> string) list" where
  "PAYMENT_METHODS = [(''orange'', ''orange''), (''wave'', ''wave''), (''mtn'', ''mtn''), (''moov'', ''moov''), (''djamo'', ''djamo'')]"

definition resolve_method :: "string option \<Rightarrow> string psp" where
  "resolve_method network = (case map_of PAYMENT_METHODS (case network of None \<Rightarrow> [] | Some n \<Rightarrow> n) of
     None \<Rightarrow> Rejected | Some m \<Rightarrow> Answer m)"

definition to_jeko_amount :: "int \<Rightarrow> string \<Rightarrow> int" where
  "to_jeko_amount a currency = (if upper currency = ''XOF'' then a * 100 else a)"

definition from_jeko_amount :: "pyval \<Rightarrow> pyval \<Rightarrow> conversion_error + int option" where
  "from_jeko_amount v currency =
     (if v = V_none then Inr None
      else (case py_int v of Inl e \<Rightarrow> Inl e
        | Inr a \<Rightarrow> if \<not> is_xof currency then Inr (Some a)
            else if a mod 100 \<noteq> 0 then Inl Value_error else Inr (Some (a div 100))))"

definition jeko_word :: "string \<Rightarrow> attempt_status" where
  "jeko_word st = (if st = ''success'' then At_succeeded else if st = ''error'' then At_failed else At_processing)"

definition jeko_payout_word :: "string \<Rightarrow> payout_status" where
  "jeko_payout_word st = (if st = ''success'' then Pt_succeeded else if st = ''error'' then Pt_failed else Pt_processing)"

subsection \<open>Collections\<close>

definition jeko_payload :: "jeko \<Rightarrow> string \<Rightarrow> init_request \<Rightarrow> pyval" where
  "jeko_payload c m r = V_dict
     [(''storeId'', V_str (jk_store c)),
      (''amountCents'', V_int (to_jeko_amount (pm_amount (ir_money r)) (pm_currency (ir_money r)))),
      (''currency'', V_str (pm_currency (ir_money r))),
      (''reference'', V_str (''dpi_'' @ uuid_hex (ir_attempt r))),
      (''paymentDetails'', V_dict [(''type'', V_str ''redirect''),
         (''data'', V_dict [(''paymentMethod'', V_str m), (''successUrl'', opt_str (ir_callback r)), (''errorUrl'', opt_str (ir_callback r))])])]"

definition jeko_initialize :: "http_client \<Rightarrow> jeko \<Rightarrow> init_request \<Rightarrow> provider_result psp" where
  "jeko_initialize H c r =
     (if \<not> truthy (ir_callback r) then Rejected
      else bindP (resolve_method (ir_network r)) (\<lambda>m.
        let reference = ''dpi_'' @ uuid_hex (ir_attempt r) in
        bindP (replied reference (hx_post H (jeko_call c ''/partner_api/payment_requests'' (Some (jeko_payload c m r))))) (\<lambda>(st, body).
        let url = dict_get body ''redirectUrl''; provider_reference = py_str (py_or (dict_get body ''id'') (V_str reference))
        in if 400 \<le> st \<or> \<not> py_true url
           then Answer (plain_result provider_reference At_failed (http_status st) ''JEKO_PAYMENT_REQUEST_REJECTED'')
           else Answer \<lparr>pv_reference = provider_reference, pv_status = At_requires_action,
             pv_provider_status = Some (py_str (py_or (dict_get body ''status'') (V_str ''pending''))),
             pv_action = Some (redirect_to (py_str url)), pv_failure = None, pv_amount = None, pv_currency = None, pv_fee = None\<rparr>)))"

definition jeko_verify_payment :: "http_client \<Rightarrow> jeko \<Rightarrow> instant \<Rightarrow> string \<Rightarrow> provider_result psp" where
  "jeko_verify_payment H c now reference =
     bindP (replied reference (hx_get H now (jeko_call c (''/partner_api/payment_requests/'' @ reference) None))) (\<lambda>(st, body).
     if 400 \<le> st then Answer (plain_result reference At_unknown (http_status st) ''JEKO_VERIFICATION_FAILED'')
     else
       let provider_status = lower (py_str (py_or (dict_get body ''status'') (V_str ''unknown'')));
           transaction = dict_or body ''transaction'' [];
           amount_block = dict_or transaction ''amount'' []; fees_block = dict_or transaction ''fees'' [];
           currency = dict_get amount_block ''currency'';
           provider_reference = py_str (py_or (dict_get body ''id'') (V_str reference));
           invalid = (\<lambda>e. if e = Value_error
             then Answer (plain_result provider_reference At_unknown ''invalid_response'' ''JEKO_RESPONSE_INVALID'') else Crashed)
       in case from_jeko_amount (dict_get amount_block ''amount'') currency of Inl e \<Rightarrow> invalid e
          | Inr a \<Rightarrow> (case from_jeko_amount (dict_get fees_block ''amount'') currency of Inl e \<Rightarrow> invalid e
              | Inr fee \<Rightarrow> Answer \<lparr>pv_reference = provider_reference, pv_status = jeko_word provider_status,
                  pv_provider_status = Some provider_status, pv_action = None, pv_failure = None, pv_amount = a,
                  pv_currency = upper_text currency, pv_fee = fee\<rparr>))"

subsection \<open>Payouts\<close>

text \<open>Members of the destination, \<open>destination or {}\<close>.\<close>

definition destination_get :: "payout_request \<Rightarrow> string \<Rightarrow> string option" where
  "destination_get r k = (case pq_destination r of None \<Rightarrow> None | Some d \<Rightarrow> map_of d k)"

definition jeko_payout_payload :: "jeko \<Rightarrow> string \<Rightarrow> string \<Rightarrow> payout_request \<Rightarrow> pyval" where
  "jeko_payout_payload c m phone r = V_dict
     [(''storeId'', V_str (jk_store c)),
      (''amountCents'', V_int (to_jeko_amount (pm_amount (pq_money r)) (pm_currency (pq_money r)))),
      (''currency'', V_str (pm_currency (pq_money r))),
      (''reference'', V_str (''dpo_'' @ uuid_hex (pq_payout r))),
      (''name'', V_str (if pq_beneficiary r = [] then ''DiddiPay beneficiary'' else pq_beneficiary r)),
      (''paymentMethod'', V_str m),
      (''identifier'', V_dict [(''reference'', V_str phone)])]"

definition jeko_payout :: "http_client \<Rightarrow> jeko \<Rightarrow> payout_request \<Rightarrow> payout_result psp" where
  "jeko_payout H c r =
     (if destination_get r ''type'' \<noteq> Some ''mobile_money'' then Rejected
      else if \<not> truthy (destination_get r ''phone'') then Rejected
      else bindP (resolve_method (destination_get r ''network'')) (\<lambda>m.
        let reference = ''dpo_'' @ uuid_hex (pq_payout r) in
        bindP (replied reference (hx_post H (jeko_call c ''/partner_api/transfers''
          (Some (jeko_payout_payload c m (the (destination_get r ''phone'')) r))))) (\<lambda>(st, body).
        let provider_reference = py_str (py_or (dict_get body ''id'') (V_str reference))
        in if 400 \<le> st
           then Answer \<lparr>ps_reference = Some provider_reference, ps_status = Pt_failed,
             ps_provider_status = Some (py_str (py_or (dict_get body ''id'') (V_str (http_status st)))), ps_failure = Some ''JEKO_PAYOUT_REJECTED''\<rparr>
           else let provider_status = lower (py_str (py_or (dict_get body ''status'') (V_str ''pending'')))
             in Answer \<lparr>ps_reference = Some provider_reference, ps_status = jeko_payout_word provider_status,
                  ps_provider_status = Some provider_status, ps_failure = None\<rparr>)))"

definition jeko_verify_payout :: "http_client \<Rightarrow> jeko \<Rightarrow> instant \<Rightarrow> string \<Rightarrow> payout_result psp" where
  "jeko_verify_payout H c now reference =
     bindP (replied reference (hx_get H now (jeko_call c (''/partner_api/transfers/'' @ reference) None))) (\<lambda>(st, body).
     if 400 \<le> st then Answer \<lparr>ps_reference = Some reference, ps_status = Pt_processing, ps_provider_status = Some (http_status st),
         ps_failure = Some ''JEKO_VERIFICATION_FAILED''\<rparr>
     else let provider_status = lower (py_str (py_or (dict_get body ''status'') (V_str ''unknown'')))
       in Answer \<lparr>ps_reference = Some (py_str (py_or (dict_get body ''id'') (V_str reference))), ps_status = jeko_payout_word provider_status,
            ps_provider_status = Some provider_status, ps_failure = None\<rparr>)"

definition jeko_processor :: "http_client \<Rightarrow> jeko \<Rightarrow> processor" where
  "jeko_processor H c = \<lparr>pc_name = ''jeko'',
     pc_capabilities = \<lparr>cap_currencies = [''XOF''], cap_directions = [Collection, Payout_direction], cap_channels = [''mobile_money''], cap_networks = []\<rparr>,
     initialize_payment = jeko_initialize H c,
     verify_payment = jeko_verify_payment H c,
     parse_webhook = (\<lambda>_ _. Crashed), refund_payment = (\<lambda>_. Crashed),
     create_payout = jeko_payout H c,
     verify_payout = jeko_verify_payout H c\<rparr>"

end
