(* ===== verification/Pawapay.thy ===== *)
theory Pawapay
  imports Jeko
begin

section \<open>The PawaPay processor\<close>

text \<open>
  \<^verbatim>\<open>payments/infra/pawapay_processor.py\<close>: payment pages, payouts and refunds. Webhooks raise
  \<open>NotImplementedError\<close>. The dial codes and the operators are the ones of the wallet adapter, written
  out a second time in the code.
\<close>

definition mk_pawapay :: "string \<Rightarrow> pexc + string" where
  "mk_pawapay token = (if token = [] then Inl (P_Value ''PAWAPAY_API_TOKEN is required'') else Inr token)"

definition pawapay_call :: "string \<Rightarrow> string \<Rightarrow> pyval option \<Rightarrow> http_call" where
  "pawapay_call token route body = \<lparr>hc_path = route,
     hc_headers = [(''Authorization'', ''Bearer '' @ token), (''Content-Type'', ''application/json'')], hc_json = body\<rparr>"

definition PROVIDER_FAMILIES :: "(string \<times> string) list" where
  "PROVIDER_FAMILIES = [(''mtn'', ''MTN_MOMO''), (''orange'', ''ORANGE''), (''moov'', ''MOOV'')]"

definition PAWAPAY_COUNTRIES :: "(string \<times> string) list" where
  "PAWAPAY_COUNTRIES = [(''225'', ''CIV''), (''229'', ''BEN''), (''226'', ''BFA''), (''221'', ''SEN'')]"

definition PAWAPAY_OPERATORS :: "string list" where
  "PAWAPAY_OPERATORS = [''MOOV_BEN'', ''MTN_MOMO_BEN'', ''MOOV_BFA'', ''MOOV_CIV'', ''MTN_MOMO_CIV'', ''ORANGE_CIV'', ''ORANGE_SEN'']"

definition phone_digits :: "string \<Rightarrow> string" where
  "phone_digits phone = filter (\<lambda>c. c \<noteq> CHR '' '') (dropWhile (\<lambda>c. c = CHR ''+'') phone)"

definition country_of :: "(string \<times> string) list \<Rightarrow> string \<Rightarrow> string option" where
  "country_of codes phone = map_option snd (find (\<lambda>(dial, country). starts_with dial (phone_digits phone)) codes)"

definition pawapay_operator :: "string option \<Rightarrow> string \<Rightarrow> string psp" where
  "pawapay_operator network phone =
     (case map_of PROVIDER_FAMILIES (case network of None \<Rightarrow> [] | Some n \<Rightarrow> n) of None \<Rightarrow> Rejected
      | Some family \<Rightarrow> (case country_of PAWAPAY_COUNTRIES phone of None \<Rightarrow> Rejected
          | Some country \<Rightarrow> if family @ ''_'' @ country \<notin> set PAWAPAY_OPERATORS then Rejected else Answer (family @ ''_'' @ country)))"

text \<open>\<open>operator.rsplit("_", 1)[-1]\<close>, what follows the last underscore.\<close>

definition after_underscore :: "string \<Rightarrow> string" where
  "after_underscore s = rev (takeWhile (\<lambda>c. c \<noteq> CHR ''_'') (rev s))"

definition pawapay_amount :: "pyval \<Rightarrow> conversion_error + int option" where
  "pawapay_amount v = (if v = V_none then Inr None else map_sum id Some (whole_decimal (py_str v)))"

definition pawapay_word :: "string \<Rightarrow> attempt_status" where
  "pawapay_word st = (if st = ''completed'' then At_succeeded else if st = ''failed'' then At_failed else At_processing)"

definition pawapay_payout_word :: "string \<Rightarrow> payout_status" where
  "pawapay_payout_word st = (if st = ''completed'' then Pt_succeeded else if st = ''failed'' then Pt_failed else Pt_processing)"

text \<open>The code of a failure found later, \<open>reason.get("failureCode")\<close>; a failure stores texts only.\<close>

definition failure_reason :: "dict \<Rightarrow> string option psp" where
  "failure_reason data = bindP (sub_dict data ''failureReason'') (\<lambda>reason.
     Answer (case dict_get reason ''failureCode'' of V_none \<Rightarrow> None | v \<Rightarrow> Some (py_str v)))"

subsection \<open>Collections\<close>

definition pawapay_payload :: "string \<Rightarrow> init_request \<Rightarrow> pyval" where
  "pawapay_payload operator r = V_dict
     [(''depositId'', V_str (uuid_str (ir_attempt r))),
      (''returnUrl'', opt_str (ir_callback r)),
      (''amountDetails'', V_dict [(''amount'', V_str (int_str (pm_amount (ir_money r)))), (''currency'', V_str (pm_currency (ir_money r)))]),
      (''phoneNumber'', V_str (phone_digits (the (ir_phone r)))),
      (''country'', V_str (after_underscore operator)),
      (''reason'', V_str (take 50 (if ir_reference r = [] then ''DiddiPay payment'' else ir_reference r)))]"

definition pawapay_initialize :: "http_client \<Rightarrow> string \<Rightarrow> init_request \<Rightarrow> provider_result psp" where
  "pawapay_initialize H token r =
     (if \<not> truthy (ir_phone r) then Rejected
      else if \<not> truthy (ir_callback r) then Rejected
      else bindP (pawapay_operator (ir_network r) (the (ir_phone r))) (\<lambda>operator.
        let deposit = uuid_str (ir_attempt r) in
        bindP (replied deposit (hx_post H (pawapay_call token ''/v2/paymentpage'' (Some (pawapay_payload operator r))))) (\<lambda>(st, body).
        let url = dict_get body ''redirectUrl''
        in if 400 \<le> st \<or> \<not> py_true url then Answer (plain_result deposit At_failed (http_status st) ''PAWAPAY_PAYMENT_PAGE_REJECTED'')
           else Answer \<lparr>pv_reference = deposit, pv_status = At_requires_action, pv_provider_status = Some ''page_created'',
             pv_action = Some (redirect_to (py_str url)), pv_failure = None, pv_amount = None, pv_currency = None, pv_fee = None\<rparr>)))"

definition pawapay_verify_payment :: "http_client \<Rightarrow> string \<Rightarrow> instant \<Rightarrow> string \<Rightarrow> provider_result psp" where
  "pawapay_verify_payment H token now reference =
     bindP (replied reference (hx_get H now (pawapay_call token (''/v2/deposits/'' @ reference) None))) (\<lambda>(st, body).
     if 400 \<le> st then Answer (plain_result reference At_unknown (http_status st) ''PAWAPAY_VERIFICATION_FAILED'')
     else if dict_get body ''status'' \<noteq> V_str ''FOUND''
     then Answer \<lparr>pv_reference = reference, pv_status = At_processing, pv_provider_status = Some ''page_not_yet_completed'',
       pv_action = None, pv_failure = None, pv_amount = None, pv_currency = None, pv_fee = None\<rparr>
     else bindP (sub_dict body ''data'') (\<lambda>data.
       let provider_status = lower (py_str (py_or (dict_get data ''status'') (V_str ''unknown'')));
           provider_reference = py_str (py_or (dict_get data ''depositId'') (V_str reference))
       in case pawapay_amount (dict_get data ''amount'') of
            Inl Value_error \<Rightarrow> Answer (plain_result provider_reference At_unknown ''invalid_response'' ''PAWAPAY_RESPONSE_INVALID'')
          | Inl Other_error \<Rightarrow> Crashed
          | Inr a \<Rightarrow>
            bindP (if pawapay_word provider_status = At_failed then failure_reason data else Answer None) (\<lambda>failure.
            Answer \<lparr>pv_reference = provider_reference, pv_status = pawapay_word provider_status,
              pv_provider_status = Some provider_status, pv_action = None, pv_failure = failure, pv_amount = a,
              pv_currency = upper_text (dict_get data ''currency''), pv_fee = None\<rparr>)))"

subsection \<open>Payouts and refunds\<close>

definition pawapay_payout_payload :: "string \<Rightarrow> string \<Rightarrow> payout_request \<Rightarrow> pyval" where
  "pawapay_payout_payload operator phone r = V_dict
     [(''payoutId'', V_str (uuid_str (pq_payout r))),
      (''recipient'', V_dict [(''type'', V_str ''MMO''),
         (''accountDetails'', V_dict [(''phoneNumber'', V_str (phone_digits phone)), (''provider'', V_str operator)])]),
      (''amount'', V_str (int_str (pm_amount (pq_money r)))),
      (''currency'', V_str (pm_currency (pq_money r))),
      (''clientReferenceId'', V_str (uuid_str (pq_payout r)))]"

text \<open>
  What a payout and a refund make of the reply: refused by the status line, refused in the body
  (\<open>REJECTED\<close>), accepted. Reading the reason of a refusal raises when it is not an object.
\<close>

datatype pawapay_verdict = Refused string | Accepted string

definition read_verdict :: "nat \<Rightarrow> dict \<Rightarrow> pawapay_verdict psp" where
  "read_verdict st body =
     (if 400 \<le> st then bindP (sub_dict body ''failureReason'') (\<lambda>_. Answer (Refused (http_status st)))
      else let provider_status = py_str (py_or (dict_get body ''status'') (V_str []))
        in if provider_status = ''REJECTED'' then bindP (sub_dict body ''failureReason'') (\<lambda>_. Answer (Refused ''rejected''))
           else Answer (Accepted (if provider_status = [] then ''accepted'' else lower provider_status)))"

definition pawapay_payout :: "http_client \<Rightarrow> string \<Rightarrow> payout_request \<Rightarrow> payout_result psp" where
  "pawapay_payout H token r =
     (if destination_get r ''type'' \<noteq> Some ''mobile_money'' then Rejected
      else if \<not> truthy (destination_get r ''phone'') then Rejected
      else let phone = the (destination_get r ''phone'') in
        bindP (pawapay_operator (destination_get r ''network'') phone) (\<lambda>operator.
        let reference = uuid_str (pq_payout r) in
        bindP (replied reference (hx_post H (pawapay_call token ''/v2/payouts'' (Some (pawapay_payout_payload operator phone r))))) (\<lambda>(st, body).
        bindP (read_verdict st body) (\<lambda>v. Answer (case v of
            Refused w \<Rightarrow> \<lparr>ps_reference = Some reference, ps_status = Pt_failed, ps_provider_status = Some w, ps_failure = Some ''PAWAPAY_PAYOUT_REJECTED''\<rparr>
          | Accepted w \<Rightarrow> \<lparr>ps_reference = Some reference, ps_status = Pt_processing, ps_provider_status = Some w, ps_failure = None\<rparr>)))))"

definition pawapay_verify_payout :: "http_client \<Rightarrow> string \<Rightarrow> instant \<Rightarrow> string \<Rightarrow> payout_result psp" where
  "pawapay_verify_payout H token now reference =
     bindP (replied reference (hx_get H now (pawapay_call token (''/v2/payouts/'' @ reference) None))) (\<lambda>(st, body).
     if 400 \<le> st \<or> dict_get body ''status'' \<noteq> V_str ''FOUND''
     then Answer \<lparr>ps_reference = Some reference, ps_status = Pt_processing, ps_provider_status = Some (http_status st),
         ps_failure = Some ''PAWAPAY_VERIFICATION_FAILED''\<rparr>
     else bindP (sub_dict body ''data'') (\<lambda>data.
       let provider_status = lower (py_str (py_or (dict_get data ''status'') (V_str ''unknown'')))
       in bindP (if pawapay_payout_word provider_status = Pt_failed then failure_reason data else Answer None) (\<lambda>failure.
          Answer \<lparr>ps_reference = Some (py_str (py_or (dict_get data ''payoutId'') (V_str reference))),
            ps_status = pawapay_payout_word provider_status, ps_provider_status = Some provider_status, ps_failure = failure\<rparr>)))"

definition pawapay_refund_payload :: "refund_request \<Rightarrow> pyval" where
  "pawapay_refund_payload r = V_dict
     [(''refundId'', V_str (uuid_str (rr_refund r))), (''depositId'', V_str (rr_reference r)),
      (''amount'', V_str (int_str (pm_amount (rr_money r)))), (''currency'', V_str (pm_currency (rr_money r)))]"

definition pawapay_refund :: "http_client \<Rightarrow> string \<Rightarrow> refund_request \<Rightarrow> refund_result psp" where
  "pawapay_refund H token r =
     (let reference = uuid_str (rr_refund r) in
      bindP (replied reference (hx_post H (pawapay_call token ''/v2/refunds'' (Some (pawapay_refund_payload r))))) (\<lambda>(st, body).
      bindP (read_verdict st body) (\<lambda>v. Answer (case v of
          Refused w \<Rightarrow> \<lparr>rs_reference = Some reference, rs_status = Rf_failed, rs_provider_status = Some w\<rparr>
        | Accepted w \<Rightarrow> \<lparr>rs_reference = Some reference, rs_status = Rf_processing, rs_provider_status = Some w\<rparr>))))"

definition pawapay_processor :: "http_client \<Rightarrow> string \<Rightarrow> processor" where
  "pawapay_processor H token = \<lparr>pc_name = ''pawapay'',
     pc_capabilities = \<lparr>cap_currencies = [''XOF''], cap_directions = [Collection, Payout_direction, Refund_direction],
       cap_channels = [''mobile_money''], cap_networks = [''mtn'', ''orange'', ''moov'']\<rparr>,
     initialize_payment = pawapay_initialize H token,
     verify_payment = pawapay_verify_payment H token,
     parse_webhook = (\<lambda>_ _. Crashed),
     refund_payment = pawapay_refund H token,
     create_payout = pawapay_payout H token,
     verify_payout = pawapay_verify_payout H token\<rparr>"

end
