(* ===== verification/Cinetpay.thy ===== *)
theory Cinetpay
  imports Pawapay
begin

section \<open>The CinetPay processor\<close>

text \<open>
  \<^verbatim>\<open>payments/infra/cinetpay_processor.py\<close>. Every call carries a token obtained by a login and kept by
  the processor; a call that finds the token expired logs in again and is repeated, once. What a
  call does to the token is returned with its outcome, so the calls of an instance chain. Refunds and
  webhooks raise \<open>NotImplementedError\<close>.
\<close>

definition NETWORK_PREFIX :: "(string \<times> string) list" where
  "NETWORK_PREFIX = [(''orange'', ''OM''), (''moov'', ''MOOV''), (''mtn'', ''MTN''), (''wave'', ''WAVE''), (''free'', ''FREE''),
     (''expresso'', ''EXPRESSO''), (''tmoney'', ''TMONEY''), (''airtel'', ''AIRTEL''), (''mpesa'', ''MPESA''),
     (''africell'', ''AFRICELL''), (''zamani'', ''ZAMANI'')]"

definition CINETPAY_COUNTRIES :: "(string \<times> string) list" where
  "CINETPAY_COUNTRIES = [(''225'', ''CI''), (''226'', ''BF''), (''223'', ''ML''), (''221'', ''SN''), (''228'', ''TG''), (''224'', ''GN''),
     (''237'', ''CM''), (''229'', ''BJ''), (''243'', ''CD''), (''227'', ''NE'')]"

definition SUPPORTED_METHODS :: "string list" where
  "SUPPORTED_METHODS = [''OM_CI'', ''MOOV_CI'', ''MTN_CI'', ''WAVE_CI'', ''OM_BF'', ''MOOV_BF'', ''WAVE_BF'', ''OM_ML'', ''MOOV_ML'',
     ''OM_SN'', ''FREE_SN'', ''EXPRESSO_SN'', ''WAVE_SN'', ''MOOV_TG'', ''TMONEY_TG'', ''OM_GN'', ''MTN_GN'', ''OM_CM'', ''MTN_CM'',
     ''MOOV_BJ'', ''MTN_BJ'', ''OM_CD'', ''AIRTEL_CD'', ''MPESA_CD'', ''AFRICELL_CD'', ''AIRTEL_NE'', ''MOOV_NE'', ''ZAMANI_NE'']"

definition FAILED_STATUSES :: "string list" where
  "FAILED_STATUSES = [''FAILED'', ''EXPIRED'', ''NOT_ALLOWED'', ''USER_NOT_FOUND'', ''USER_IS_BLOCKED'', ''OTP_ERROR'', ''OTP_EXPIRED'',
     ''OPERATION_ERROR'', ''INSUFFICIENT_BALANCE'']"

definition SUCCESS_STATUSES :: "string list" where
  "SUCCESS_STATUSES = [''SUCCESS'']"

record cinetpay =
  cn_api_key :: string
  cn_password :: string

definition mk_cinetpay :: "string \<Rightarrow> string \<Rightarrow> pexc + cinetpay" where
  "mk_cinetpay api_key password =
     (if api_key = [] then Inl (P_Value ''CINETPAY_API_KEY is required'')
      else if password = [] then Inl (P_Value ''CINETPAY_API_PASSWORD is required'')
      else Inr \<lparr>cn_api_key = api_key, cn_password = password\<rparr>)"

definition resolve_base_url :: "string \<Rightarrow> string option \<Rightarrow> string" where
  "resolve_base_url api_key base_url =
     (if truthy base_url then rstrip_slash (the base_url)
      else if starts_with ''sk_live_'' api_key then ''https://api.cinetpay.co'' else ''https://api.cinetpay.net'')"

subsection \<open>Tokens and calls\<close>

definition login_call :: "cinetpay \<Rightarrow> http_call" where
  "login_call c = \<lparr>hc_path = ''/v1/oauth/login'',
     hc_headers = [(''Accept'', ''application/json''), (''Content-Type'', ''application/json'')],
     hc_json = Some (V_dict [(''api_key'', V_str (cn_api_key c)), (''api_password'', V_str (cn_password c))])\<rparr>"

definition cinetpay_login :: "http_client \<Rightarrow> cinetpay \<Rightarrow> string psp" where
  "cinetpay_login H c =
     bindP (replied ''login'' (hx_post H (login_call c))) (\<lambda>(st, body).
     let data = dict_or body ''data'' [];
         token = py_or (dict_get body ''access_token'') (py_or (dict_get data ''access_token'') (dict_get data ''token''))
     in if py_true token then Answer (py_str token) else Rejected)"

type_synonym 'a tokenized = "string option \<Rightarrow> 'a psp \<times> string option"

definition token_value :: "http_client \<Rightarrow> cinetpay \<Rightarrow> bool \<Rightarrow> string tokenized" where
  "token_value H c force_refresh cached =
     (if force_refresh \<or> \<not> truthy cached
      then (case cinetpay_login H c of Answer t \<Rightarrow> (Answer t, Some t) | e \<Rightarrow> (e, cached))
      else (Answer (the cached), cached))"

definition is_expired_token :: "dict \<Rightarrow> bool" where
  "is_expired_token body \<longleftrightarrow> (case dict_get body ''code'' of V_int n \<Rightarrow> n = 1003 | V_float r t \<Rightarrow> r = 1003 | _ \<Rightarrow> False)
     \<or> py_str (py_or (dict_get body ''status'') (V_str [])) = ''EXPIRED_TOKEN''"

definition cinetpay_call :: "string \<Rightarrow> string \<Rightarrow> pyval option \<Rightarrow> http_call" where
  "cinetpay_call token route body = \<lparr>hc_path = route,
     hc_headers = [(''Authorization'', ''Bearer '' @ token), (''Accept'', ''application/json''), (''Content-Type'', ''application/json'')],
     hc_json = body\<rparr>"

text \<open>
  The request with its single repetition; \<open>send\<close> is the method, the path and the body. The repetition
  is the call of \<open>attempt == 1\<close>, whose answer is taken as it is.
\<close>

definition cinetpay_request :: "http_client \<Rightarrow> cinetpay \<Rightarrow> string \<Rightarrow> (string \<Rightarrow> http_reply) \<Rightarrow> (nat \<times> dict) tokenized" where
  "cinetpay_request H c reference send cached =
     (case token_value H c False cached of
        (Answer t, tok) \<Rightarrow>
          (case replied reference (send t) of
             Answer (st, body) \<Rightarrow>
               if is_expired_token body then
                 (case token_value H c True None of
                    (Answer t', tok') \<Rightarrow> (replied reference (send t'), tok')
                  | (e, tok') \<Rightarrow> (bindP e (\<lambda>_. Crashed), tok'))
               else (Answer (st, body), tok)
           | e \<Rightarrow> (e, tok))
      | (e, tok) \<Rightarrow> (bindP e (\<lambda>_. Crashed), tok))"

definition then_read :: "('a psp \<times> string option) \<Rightarrow> ('a \<Rightarrow> 'b psp) \<Rightarrow> 'b psp \<times> string option" where
  "then_read r f = (bindP (fst r) f, snd r)"

subsection \<open>Reading the answers\<close>

definition cinetpay_word :: "string \<Rightarrow> attempt_status" where
  "cinetpay_word st = (if upper st \<in> set SUCCESS_STATUSES then At_succeeded
     else if upper st \<in> set FAILED_STATUSES then At_failed else At_processing)"

definition cinetpay_payout_word :: "string \<Rightarrow> payout_status" where
  "cinetpay_payout_word st = (if upper st \<in> set SUCCESS_STATUSES then Pt_succeeded
     else if upper st \<in> set FAILED_STATUSES then Pt_failed else Pt_processing)"

definition amount_currency :: "dict \<Rightarrow> (int option \<times> string option) psp" where
  "amount_currency data =
     (let currency = upper_text (dict_get data ''currency'')
      in if dict_get data ''amount'' = V_none then Answer (None, currency)
         else (case py_int_float (dict_get data ''amount'') of Inr a \<Rightarrow> Answer (Some a, currency)
           | Inl Value_error \<Rightarrow> Answer (None, currency) | Inl Other_error \<Rightarrow> Crashed))"

definition resolve_payment_method :: "string option \<Rightarrow> string \<Rightarrow> string psp" where
  "resolve_payment_method network phone =
     (case map_of NETWORK_PREFIX (lower (case network of None \<Rightarrow> [] | Some n \<Rightarrow> n)) of None \<Rightarrow> Rejected
      | Some prefix \<Rightarrow> (case country_of CINETPAY_COUNTRIES phone of None \<Rightarrow> Rejected
          | Some country \<Rightarrow> if prefix @ ''_'' @ country \<notin> set SUPPORTED_METHODS then Rejected else Answer (prefix @ ''_'' @ country)))"

subsection \<open>Collections\<close>

definition metadata_or :: "json_object \<Rightarrow> string \<Rightarrow> string \<Rightarrow> string" where
  "metadata_or m k other = (if truthy (map_of m k) then the (map_of m k) else other)"

definition cinetpay_payload :: "init_request \<Rightarrow> pyval" where
  "cinetpay_payload r = V_dict
     ([(''currency'', V_str (pm_currency (ir_money r))),
       (''merchant_transaction_id'', V_str (uuid_str (ir_attempt r))),
       (''amount'', V_int (pm_amount (ir_money r))),
       (''lang'', V_str ''fr''),
       (''designation'', V_str (take 255 (if ir_reference r = [] then ''DiddiPay payment'' else ir_reference r))),
       (''client_email'', opt_str (ir_email r)),
       (''client_first_name'', V_str (metadata_or (ir_metadata r) ''customer_first_name'' ''DiddiPay'')),
       (''client_last_name'', V_str (metadata_or (ir_metadata r) ''customer_last_name'' ''Client'')),
       (''success_url'', opt_str (ir_callback r)), (''failed_url'', opt_str (ir_callback r)), (''notify_url'', opt_str (ir_callback r)),
       (''channel'', V_str ''ALL'')]
      @ (if truthy (ir_phone r) then [(''client_phone_number'', V_str (phone_digits (the (ir_phone r))))] else []))"

definition payment_url :: "dict \<Rightarrow> pyval" where
  "payment_url body = py_or (dict_get body ''payment_url'')
     (case dict_get body ''data'' of V_dict data \<Rightarrow> dict_get data ''payment_url'' | _ \<Rightarrow> V_none)"

definition cinetpay_initialize :: "http_client \<Rightarrow> cinetpay \<Rightarrow> init_request \<Rightarrow> provider_result tokenized" where
  "cinetpay_initialize H c r cached =
     (if \<not> truthy (ir_email r) then (Rejected, cached)
      else if \<not> truthy (ir_callback r) then (Rejected, cached)
      else
        let reference = uuid_str (ir_attempt r) in
        then_read (cinetpay_request H c reference (\<lambda>t. hx_post H (cinetpay_call t ''/v1/payment'' (Some (cinetpay_payload r)))) cached) (\<lambda>(st, body).
        let details = dict_or body ''details'' []; url = payment_url body
        in if 400 \<le> st \<or> \<not> py_true url
           then Answer (plain_result reference At_failed
             (py_str (py_or (dict_get details ''status'') (py_or (dict_get body ''status'') (V_str (http_status st))))) ''CINETPAY_INITIALIZATION_FAILED'')
           else Answer \<lparr>pv_reference = reference, pv_status = At_requires_action, pv_provider_status = Some ''payment_created'',
             pv_action = Some (redirect_to (py_str url)), pv_failure = None, pv_amount = None, pv_currency = None, pv_fee = None\<rparr>))"

definition cinetpay_verify_payment :: "http_client \<Rightarrow> cinetpay \<Rightarrow> instant \<Rightarrow> string \<Rightarrow> provider_result tokenized" where
  "cinetpay_verify_payment H c now reference cached =
     then_read (cinetpay_request H c reference (\<lambda>t. hx_get H now (cinetpay_call t (''/v1/payment/'' @ reference) None)) cached) (\<lambda>(st, body).
     if 400 \<le> st then Answer (plain_result reference At_unknown (http_status st) ''CINETPAY_VERIFICATION_FAILED'')
     else
       let details = dict_or body ''details'' []; data = dict_or body ''data'' body;
           provider_status = py_str (py_or (dict_get details ''status'') (py_or (dict_get body ''status'')
             (py_or (dict_get data ''status'') (V_str ''unknown''))))
       in bindP (amount_currency data) (\<lambda>(a, currency).
          Answer \<lparr>pv_reference = py_str (py_or (dict_get body ''transaction_id'') (py_or (dict_get data ''transaction_id'') (V_str reference))),
            pv_status = cinetpay_word provider_status, pv_provider_status = Some (lower provider_status), pv_action = None,
            pv_failure = (if cinetpay_word provider_status = At_failed then Some ''CINETPAY_PAYMENT_FAILED'' else None),
            pv_amount = a, pv_currency = currency, pv_fee = None\<rparr>))"

subsection \<open>Payouts\<close>

definition cinetpay_payout_payload :: "string \<Rightarrow> string \<Rightarrow> payout_request \<Rightarrow> pyval" where
  "cinetpay_payout_payload m phone r = V_dict
     ([(''currency'', V_str (pm_currency (pq_money r))),
       (''merchant_transaction_id'', V_str (uuid_str (pq_payout r))),
       (''phone_number'', V_str (''+'' @ phone_digits phone)),
       (''amount'', V_int (pm_amount (pq_money r))),
       (''payment_method'', V_str m),
       (''reason'', V_str (take 255 (if pq_reference r = [] then ''DiddiPay payout'' else pq_reference r)))]
      @ (if truthy (map_of (pq_metadata r) ''notify_url'') then [(''notify_url'', opt_str (map_of (pq_metadata r) ''notify_url''))] else []))"

definition lower_or :: "string \<Rightarrow> string \<Rightarrow> string \<Rightarrow> string" where
  "lower_or a b other = (let w = lower (if a \<noteq> [] then a else b) in if w = [] then other else w)"

definition cinetpay_payout :: "http_client \<Rightarrow> cinetpay \<Rightarrow> payout_request \<Rightarrow> payout_result tokenized" where
  "cinetpay_payout H c r cached =
     (if destination_get r ''type'' \<noteq> Some ''mobile_money'' then (Rejected, cached)
      else if \<not> truthy (destination_get r ''phone'') then (Rejected, cached)
      else let phone = the (destination_get r ''phone''); reference = uuid_str (pq_payout r) in
        (case resolve_payment_method (destination_get r ''network'') phone of
           Answer m \<Rightarrow>
             then_read (cinetpay_request H c reference (\<lambda>t. hx_post H (cinetpay_call t ''/v1/transfer'' (Some (cinetpay_payout_payload m phone r)))) cached) (\<lambda>(st, body).
             let details = dict_or body ''details'' [];
                 top = py_str (py_or (dict_get body ''status'') (V_str []));
                 detail = py_str (py_or (dict_get details ''status'') (V_str []));
                 provider_reference = py_str (py_or (dict_get body ''transaction_id'') (V_str reference))
             in if 400 \<le> st \<or> top \<in> set FAILED_STATUSES \<or> detail \<in> set FAILED_STATUSES
                then Answer \<lparr>ps_reference = Some provider_reference, ps_status = Pt_failed,
                  ps_provider_status = Some (lower_or detail top (http_status st)), ps_failure = Some ''CINETPAY_PAYOUT_REJECTED''\<rparr>
                else Answer \<lparr>ps_reference = Some provider_reference, ps_status = Pt_processing,
                  ps_provider_status = Some (lower_or detail top ''accepted''), ps_failure = None\<rparr>)
         | _ \<Rightarrow> (Rejected, cached)))"

definition cinetpay_verify_payout :: "http_client \<Rightarrow> cinetpay \<Rightarrow> instant \<Rightarrow> string \<Rightarrow> payout_result tokenized" where
  "cinetpay_verify_payout H c now reference cached =
     then_read (cinetpay_request H c reference (\<lambda>t. hx_get H now (cinetpay_call t (''/v1/transfer/'' @ reference) None)) cached) (\<lambda>(st, body).
     if 400 \<le> st then Answer \<lparr>ps_reference = Some reference, ps_status = Pt_processing, ps_provider_status = Some (http_status st),
         ps_failure = Some ''CINETPAY_VERIFICATION_FAILED''\<rparr>
     else let details = dict_or body ''details'' [];
         provider_status = py_str (py_or (dict_get details ''status'') (py_or (dict_get body ''status'') (V_str ''unknown'')))
       in Answer \<lparr>ps_reference = Some (py_str (py_or (dict_get body ''transaction_id'') (V_str reference))),
            ps_status = cinetpay_payout_word provider_status, ps_provider_status = Some (lower provider_status),
            ps_failure = (if cinetpay_payout_word provider_status = Pt_failed then Some ''CINETPAY_PAYOUT_FAILED'' else None)\<rparr>)"

text \<open>The processor whose instance holds the token \<open>cached\<close>.\<close>

definition cinetpay_processor :: "http_client \<Rightarrow> cinetpay \<Rightarrow> string option \<Rightarrow> processor" where
  "cinetpay_processor H c cached = \<lparr>pc_name = ''cinetpay'',
     pc_capabilities = \<lparr>cap_currencies = [''XOF''], cap_directions = [Collection, Payout_direction], cap_channels = [''mobile_money''], cap_networks = []\<rparr>,
     initialize_payment = (\<lambda>r. fst (cinetpay_initialize H c r cached)),
     verify_payment = (\<lambda>now ref. fst (cinetpay_verify_payment H c now ref cached)),
     parse_webhook = (\<lambda>_ _. Crashed), refund_payment = (\<lambda>_. Crashed),
     create_payout = (\<lambda>r. fst (cinetpay_payout H c r cached)),
     verify_payout = (\<lambda>now ref. fst (cinetpay_verify_payout H c now ref cached))\<rparr>"

end
