(* ===== verification/Processors.thy ===== *)
theory Processors
  imports Cinetpay PayReach
begin

section \<open>The registered processors\<close>

text \<open>
  \<open>get_processor_registry\<close> of \<^verbatim>\<open>payments/presentation/deps.py\<close>: which processors a process knows, with
  which priorities; and what the adapters have in common, the locale \<open>redirecting\<close>, which every
  registered processor is an instance of.
\<close>

record processor_settings =
  st_paystack_key :: string
  st_paystack_webhook :: string
  st_processor_mode :: string
  st_pawapay_token :: string
  st_cinetpay_key :: string
  st_cinetpay_password :: string
  st_jeko_key :: string
  st_jeko_key_id :: string
  st_jeko_store :: string

text \<open>The outside of the processors: one HTTP client each, the hash, the decoder, the token CinetPay holds.\<close>

record outside =
  ou_client :: "string \<Rightarrow> http_client"
  ou_hmac :: "string \<Rightarrow> string \<Rightarrow> string"
  ou_loads :: "string \<Rightarrow> pyval option"
  ou_token :: "string option"

definition register_if :: "bool \<Rightarrow> (pexc + processor) \<Rightarrow> int \<Rightarrow> registry \<Rightarrow> pexc + registry" where
  "register_if configured made priority R =
     (if configured then (case made of Inl e \<Rightarrow> Inl e | Inr p \<Rightarrow> register p priority R) else Inr R)"

definition and_then :: "'e + 'a \<Rightarrow> ('a \<Rightarrow> 'e + 'b) \<Rightarrow> 'e + 'b" where
  "and_then r f = (case r of Inl e \<Rightarrow> Inl e | Inr x \<Rightarrow> f x)"

definition processor_registry :: "outside \<Rightarrow> processor_settings \<Rightarrow> pexc + registry" where
  "processor_registry W st =
     and_then (register sandbox_processor 100 []) (\<lambda>R.
     and_then (if st_paystack_key st \<noteq> []
               then register_if True (map_sum id (paystack_processor (ou_client W ''paystack'') (ou_hmac W) (ou_loads W))
                      (mk_paystack (st_paystack_key st) (Some (st_paystack_webhook st)))) 100 R
               else if st_processor_mode st = ''paystack''
               then Inl (P_Value ''PAYMENT_PROCESSOR_MODE=paystack but PAYSTACK_SECRET_KEY is empty.'') else Inr R) (\<lambda>R.
     and_then (register_if (st_pawapay_token st \<noteq> [])
                 (map_sum id (pawapay_processor (ou_client W ''pawapay'')) (mk_pawapay (st_pawapay_token st))) 50 R) (\<lambda>R.
     and_then (register_if (st_cinetpay_key st \<noteq> [] \<and> st_cinetpay_password st \<noteq> [])
                 (map_sum id (\<lambda>c. cinetpay_processor (ou_client W ''cinetpay'') c (ou_token W))
                    (mk_cinetpay (st_cinetpay_key st) (st_cinetpay_password st))) 110 R) (\<lambda>R.
     register_if (st_jeko_key st \<noteq> [] \<and> st_jeko_key_id st \<noteq> [] \<and> st_jeko_store st \<noteq> [])
       (map_sum id (jeko_processor (ou_client W ''jeko'')) (mk_jeko (st_jeko_key st) (st_jeko_key_id st) (st_jeko_store st))) 120 R))))"

definition paystack_webhook_processor :: "outside \<Rightarrow> processor_settings \<Rightarrow> pexc + processor" where
  "paystack_webhook_processor W st =
     (let secret = (if st_paystack_webhook st \<noteq> [] then st_paystack_webhook st else st_paystack_key st)
      in if secret = [] then Inl (P_Value ''Webhook Paystack non configure.'')
         else map_sum id (paystack_processor (ou_client W ''paystack'') (ou_hmac W) (ou_loads W))
           (mk_paystack (if st_paystack_key st \<noteq> [] then st_paystack_key st else secret) (Some secret)))"

subsection \<open>The contract of the adapters\<close>

text \<open>
  Starting a collection never reports it settled, and its answer either sends the payer to a page or
  carries a failure code; a payout whose creation is answered is not disputed or pending.
\<close>

locale redirecting =
  fixes p :: processor
  assumes starts: "initialize_payment p r = Answer v \<Longrightarrow> pv_status v \<in> {At_requires_action, At_failed, At_unknown}"
    and sends: "initialize_payment p r = Answer v \<Longrightarrow> pv_status v = At_requires_action \<Longrightarrow>
      \<exists>a. pv_action v = Some a \<and> na_type a = Redirect \<and> pv_failure v = None"
    and pays: "create_payout p q = Answer w \<Longrightarrow> ps_status w \<in> {Pt_processing, Pt_succeeded, Pt_failed}"
begin

lemma initialized: "pv_status (initialize p c i a) \<in> {At_requires_action, At_failed, At_unknown}"
proof -
  let ?r = "\<lparr>ir_intent = pi_id i, ir_attempt = pa_id a, ir_reference = pi_reference i, ir_money = pi_money i,
          ir_key = cc_key c, ir_channel = cc_channel c, ir_network = cc_network c, ir_email = cc_email c, ir_phone = cc_phone c,
          ir_callback = cc_callback c, ir_metadata = cc_metadata c\<rparr>"
  show ?thesis
    by (cases "initialize_payment p ?r") (use starts [of ?r] in \<open>auto simp: initialize_def plain_result_def\<close>)
qed

lemma created_unpaid:
  assumes "create_finish p c i a s = (Inr v, t)" "pi_status i = Pi_processing"
  shows "pi_status (vw_intent v) \<in> {Pi_processing, Pi_requires_action, Pi_failed} \<and> journals t = journals s
    \<and> pay_outboxes t = pay_outboxes s"
proof -
  from assms(1) obtain j b u where j: "apply_provider_result (pay_clock s) (initialize p c i a) i a = Inr (j, b)"
      and v: "vw_intent v = j" and rest: "intent_save j s = (Inr (), u)" "attempt_save b u = (Inr (), t)"
    by (auto simp: create_finish_def)
  from j assms(2) initialized [of c i a] have "pi_status j \<in> {Pi_processing, Pi_requires_action, Pi_failed}"
    by (auto simp: apply_provider_result_def Let_def dest!: intent_transition_to_Inr split: sum.splits)
  with v rest show ?thesis by (auto simp: intent_save_Inr attempt_save_Inr)
qed

end

subsection \<open>The adapters satisfy it\<close>

lemma paystack_redirecting: "redirecting (paystack_processor H hm loads c)"
  by unfold_locales (auto simp: paystack_processor_def paystack_initialize_def plain_result_def redirect_to_def
      bindP_Answer Let_def split: if_splits prod.splits)

lemma jeko_redirecting: "redirecting (jeko_processor H c)"
  by unfold_locales (auto simp: jeko_processor_def jeko_initialize_def jeko_payout_def jeko_payout_word_def plain_result_def redirect_to_def
      bindP_Answer Let_def split: if_splits prod.splits)

lemma pawapay_payout_answered: "pawapay_payout H c q = Answer w \<Longrightarrow> ps_status w \<in> {Pt_processing, Pt_failed}"
  by (clarsimp simp: pawapay_payout_def bindP_Answer Let_def split: if_splits) (auto split: pawapay_verdict.split_asm)

lemma pawapay_redirecting: "redirecting (pawapay_processor H c)"
  by unfold_locales (auto simp: pawapay_processor_def pawapay_initialize_def plain_result_def redirect_to_def
      bindP_Answer Let_def dest: pawapay_payout_answered split: if_splits prod.splits)

lemma cinetpay_redirecting: "redirecting (cinetpay_processor H c tok)"
  by unfold_locales (auto simp: cinetpay_processor_def cinetpay_initialize_def cinetpay_payout_def then_read_def plain_result_def redirect_to_def
      bindP_Answer Let_def split: if_splits prod.splits psp.splits)

lemma sandbox_redirecting: "redirecting sandbox_processor"
  by unfold_locales (auto simp: sandbox_processor_def)

interpretation paystack: redirecting "paystack_processor H hm loads c" for H hm loads c by (rule paystack_redirecting)
interpretation jeko: redirecting "jeko_processor H c" for H c by (rule jeko_redirecting)
interpretation pawapay: redirecting "pawapay_processor H c" for H c by (rule pawapay_redirecting)
interpretation cinetpay: redirecting "cinetpay_processor H c tok" for H c tok by (rule cinetpay_redirecting)
interpretation sandbox: redirecting sandbox_processor by (rule sandbox_redirecting)

lemma and_then_Inr: "and_then r f = Inr y \<longleftrightarrow> (\<exists>x. r = Inr x \<and> f x = Inr y)"
  by (cases r) (auto simp: and_then_def)

lemma registered_all:
  assumes "register_if b made k R = Inr R'" "\<forall>x \<in> set R. P (snd x)" "\<And>p. made = Inr p \<Longrightarrow> P p"
  shows "\<forall>x \<in> set R'. P (snd x)"
  using assms by (auto simp: register_if_def register_def split: if_splits sum.splits)

lemma registry_redirecting:
  assumes "processor_registry W st = Inr R"
  shows "\<forall>x \<in> set R. redirecting (snd x)"
proof -
  let ?ok = "\<lambda>R :: registry. \<forall>x \<in> set R. redirecting (snd x)"
  from assms obtain R1 R2 R3 R4 where R1: "register sandbox_processor 100 [] = Inr R1"
      and R2: "(if st_paystack_key st \<noteq> []
               then register_if True (map_sum id (paystack_processor (ou_client W ''paystack'') (ou_hmac W) (ou_loads W))
                      (mk_paystack (st_paystack_key st) (Some (st_paystack_webhook st)))) 100 R1
               else if st_processor_mode st = ''paystack''
               then Inl (P_Value ''PAYMENT_PROCESSOR_MODE=paystack but PAYSTACK_SECRET_KEY is empty.'') else Inr R1) = Inr R2"
      and R3: "register_if (st_pawapay_token st \<noteq> [])
                 (map_sum id (pawapay_processor (ou_client W ''pawapay'')) (mk_pawapay (st_pawapay_token st))) 50 R2 = Inr R3"
      and R4: "register_if (st_cinetpay_key st \<noteq> [] \<and> st_cinetpay_password st \<noteq> [])
                 (map_sum id (\<lambda>c. cinetpay_processor (ou_client W ''cinetpay'') c (ou_token W))
                    (mk_cinetpay (st_cinetpay_key st) (st_cinetpay_password st))) 110 R3 = Inr R4"
      and R5: "register_if (st_jeko_key st \<noteq> [] \<and> st_jeko_key_id st \<noteq> [] \<and> st_jeko_store st \<noteq> [])
       (map_sum id (jeko_processor (ou_client W ''jeko'')) (mk_jeko (st_jeko_key st) (st_jeko_key_id st) (st_jeko_store st))) 120 R4 = Inr R"
    by (auto simp only: processor_registry_def and_then_Inr)
  have "?ok R1" using R1 by (auto simp: register_def sandbox_redirecting)
  then have "?ok R2"
  proof (cases "st_paystack_key st \<noteq> []")
    case True
    with R2 have "register_if True (map_sum id (paystack_processor (ou_client W ''paystack'') (ou_hmac W) (ou_loads W))
                      (mk_paystack (st_paystack_key st) (Some (st_paystack_webhook st)))) 100 R1 = Inr R2" by simp
    from this \<open>?ok R1\<close> show ?thesis by (rule registered_all) (auto simp: map_sum_Inr paystack_redirecting)
  next
    case False
    with R2 \<open>?ok R1\<close> show ?thesis by (simp split: if_splits)
  qed
  then have "?ok R3" by (rule registered_all [OF R3]) (auto simp: map_sum_Inr pawapay_redirecting)
  then have "?ok R4" by (rule registered_all [OF R4]) (auto simp: map_sum_Inr cinetpay_redirecting)
  then show "?ok R" by (rule registered_all [OF R5]) (auto simp: map_sum_Inr jeko_redirecting)
qed

end
