(* ===== verification/ProcessorProps.thy ===== *)
theory ProcessorProps
  imports Processors PayDemo
begin

section \<open>Properties of the processors and of how payments use them\<close>

subsection \<open>Selection\<close>

lemma find_map: "find P (map f xs) = map_option f (find (\<lambda>x. P (f x)) xs)"
  by (induction xs) auto

lemma find_sorted_least:
  "sorted (map f xs) \<Longrightarrow> find P xs = Some x \<Longrightarrow> y \<in> set xs \<Longrightarrow> P y \<Longrightarrow> f x \<le> (f y :: 'a :: linorder)"
  by (induction xs) (auto split: if_splits)

lemma select_named:
  assumes "select R cur dir channel network preferred = Inr p" "truthy preferred"
  shows "p \<in> snd ` set R \<and> pc_name p = the preferred \<and> supports (pc_capabilities p) cur dir channel network"
proof -
  from assms obtain q where "processor_get R (the preferred) = Inr q" "q = p" "supports (pc_capabilities q) cur dir channel network"
    by (auto simp: select_def map_sum_Inr split: sum.splits option.splits if_splits)
  with processor_get_Inr [of R "the preferred" q] show ?thesis by simp
qed

lemma select_first:
  assumes "select R cur dir channel network preferred = Inr p" "\<not> truthy preferred"
  obtains k where "(k, p) \<in> set R" "supports (pc_capabilities p) cur dir channel network"
    "\<And>l q. (l, q) \<in> set R \<Longrightarrow> supports (pc_capabilities q) cur dir channel network \<Longrightarrow> k < l \<or> k = l \<and> pc_name p \<le> pc_name q"
proof -
  let ?f = "\<lambda>(l :: int, q). (l, pc_name q)"
  from assms obtain k where found: "find (\<lambda>x. supports (pc_capabilities (snd x)) cur dir channel network) (sort_key ?f R) = Some (k, p)"
    by (auto simp: select_def ordered_def find_map split: option.splits)
  have "?f (k, p) \<le> ?f (l, q)" if "(l, q) \<in> set R" "supports (pc_capabilities q) cur dir channel network" for l q
    using that by (intro find_sorted_least [OF sorted_sort_key found]) auto
  then have "k < l \<or> k = l \<and> pc_name p \<le> pc_name q" if "(l, q) \<in> set R" "supports (pc_capabilities q) cur dir channel network" for l q
    using that by (fastforce simp: less_eq_prod_def)
  with find_Some_prop [OF found] that show ?thesis by auto
qed

text \<open>
  The processor chosen for a request is registered and can serve it; unless one was named, no
  registered processor that can serve it comes before it in the order of priority and name; and a
  named one is used or nothing.
\<close>

theorem selected_processor_is_first:
  assumes "select R cur dir channel network preferred = Inr p"
  shows "\<exists>k. (k, p) \<in> set R \<and> supports (pc_capabilities p) cur dir channel network
    \<and> (truthy preferred \<longrightarrow> pc_name p = the preferred)
    \<and> (\<not> truthy preferred \<longrightarrow> (\<forall>(l, q) \<in> set R. supports (pc_capabilities q) cur dir channel network \<longrightarrow>
         k < l \<or> k = l \<and> pc_name p \<le> pc_name q))"
proof (cases "truthy preferred")
  case True
  with select_named [OF assms True] show ?thesis by auto
next
  case False
  show ?thesis
  proof (rule select_first [OF assms False])
    fix k assume "(k, p) \<in> set R" "supports (pc_capabilities p) cur dir channel network"
      "\<And>l q. (l, q) \<in> set R \<Longrightarrow> supports (pc_capabilities q) cur dir channel network \<Longrightarrow> k < l \<or> k = l \<and> pc_name p \<le> pc_name q"
    with False show ?thesis by (intro exI [of _ k] conjI) (simp_all add: case_prod_beta)
  qed
qed

theorem selected_processor_is_first_witness:
  "\<forall>H. select [(100, sandbox_processor), (50, pawapay_processor H ''t'')] ''XOF'' Collection None None None = Inr (pawapay_processor H ''t'')
    \<and> supports (pc_capabilities (pawapay_processor H ''t'')) ''XOF'' Collection None None"
proof
  fix H
  let ?R = "[(100, sandbox_processor), (50, pawapay_processor H ''t'')]"
  have sel: "select ?R ''XOF'' Collection None None None = Inr (pawapay_processor H ''t'')"
    by (simp add: select_def ordered_def truthy_def supports_def pawapay_processor_def sandbox_processor_def upper_def upper_char_def less_eq_prod_def)
  from selected_processor_is_first [OF this] sel
  show "select ?R ''XOF'' Collection None None None = Inr (pawapay_processor H ''t'')
    \<and> supports (pc_capabilities (pawapay_processor H ''t'')) ''XOF'' Collection None None" by blast
qed

subsection \<open>Creation\<close>

lemma select_in:
  assumes "select R cur dir channel network preferred = Inr p"
  shows "p \<in> snd ` set R"
proof (cases "truthy preferred")
  case True
  with select_named [OF assms] show ?thesis by blast
next
  case False
  show ?thesis by (rule select_first [OF assms False]) force
qed

lemma create_begin_started:
  assumes "create_begin env c s = (Inr (Started p i a), t)"
  shows "p \<in> snd ` set (pv_registry env)" "pi_status i = Pi_processing" "journals t = journals s" "pay_outboxes t = pay_outboxes s"
proof -
  from assms obtain m u where "select (pv_registry env) (cc_currency c) Collection (cc_channel c) (cc_network c)
      (preferred_for (pv_registry env) (pv_default env) (cc_currency c) (cc_channel c) (cc_network c)) = Inr u"
      "create_insert env c u m s = (Inr (Started p i a), t)"
    by (auto simp: create_begin_def split: option.splits)
  moreover from this(2) have "u = p"
    by (auto simp: create_insert_def catchE_Inr Let_def)
  ultimately show "p \<in> snd ` set (pv_registry env)" by (auto dest: select_in)
  show "pi_status i = Pi_processing" "journals t = journals s" "pay_outboxes t = pay_outboxes s"
    using assms by (auto elim!: create_begin_Inr simp: created_def)
qed

text \<open>
  C37: with the processors the registry knows, creating a payment never pays it: whatever the provider
  answers, the new payment is processing, waits for the payer or has failed, nothing is booked and no
  event is announced.
\<close>

theorem created_payment_is_unpaid:
  assumes "processor_registry W st = Inr (pv_registry env)" "payment_create env c s = (Inr v, t)" "vw_created v"
  shows "pi_status (vw_intent v) \<in> {Pi_processing, Pi_requires_action, Pi_failed} \<and> journals t = journals s \<and> pay_outboxes t = pay_outboxes s"
proof -
  from assms(2) obtain b u where b: "create_begin env c s = (Inr b, u)"
      and rest: "(case b of Replayed v \<Rightarrow> retE v | Started p i a \<Rightarrow> atomically (create_finish p c i a)) u = (Inr v, t)"
    by (auto simp: payment_create_def)
  show ?thesis
  proof (cases b)
    case (Replayed w)
    with b have "\<not> vw_created w"
      by (auto simp: create_begin_def create_insert_def idempotent_view_def catchE_Inr Let_def split: option.splits)
    with Replayed rest assms(3) show ?thesis by simp
  next
    case (Started p i a)
    note begun = create_begin_started [OF b [unfolded Started]]
    from registry_redirecting [OF assms(1)] begun(1) have "redirecting p" by auto
    from redirecting.created_unpaid [OF this, of c i a u v t] rest begun(2-4) Started show ?thesis by simp
  qed
qed

definition no_settings :: processor_settings where
  "no_settings = \<lparr>st_paystack_key = [], st_paystack_webhook = [], st_processor_mode = ''sandbox'', st_pawapay_token = [],
     st_cinetpay_key = [], st_cinetpay_password = [], st_jeko_key = [], st_jeko_key_id = [], st_jeko_store = []\<rparr>"

definition demo_sandbox_env :: pay_env where
  "demo_sandbox_env = \<lparr>pv_registry = [(100, sandbox_processor)], pv_default = Some ''sandbox'', pv_sha256 = (\<lambda>_. ''h'')\<rparr>"

theorem created_payment_is_unpaid_witness:
  "\<exists>v t. payment_create demo_sandbox_env demo_create empty_payments = (Inr v, t) \<and> vw_created v \<and> journals t = journals empty_payments"
proof -
  have R: "processor_registry W no_settings = Inr (pv_registry demo_sandbox_env)" for W
    by (simp add: processor_registry_def and_then_def register_def register_if_def no_settings_def demo_sandbox_env_def)
  have "wp (payment_create demo_sandbox_env demo_create) (\<lambda>v _. vw_created v) (\<lambda>_ _. False) empty_payments" by code_simp
  from wp_returns [OF this] obtain v t where run: "payment_create demo_sandbox_env demo_create empty_payments = (Inr v, t)" "vw_created v"
    by (elim exE conjE)
  from created_payment_is_unpaid [OF R run] run show ?thesis by blast
qed

subsection \<open>Payment\<close>

lemma apply_status_pays:
  assumes "apply_status now latest status i a = Inr (j, b)" "\<not> paid_status (pi_status i)" "paid_status (pi_status j)"
  shows "status = Some At_succeeded"
  using assms by (auto simp: apply_status_def paid_status_def intent_transition_to_def map_sum_Inr moves_to_Inr split: option.splits if_splits sum.splits)

lemma intents_frames [keeps_intros]:
  "keeps (\<lambda>u. intents u = I) pay_fresh"
  "keeps (\<lambda>u. intents u = I) (event_add p k ty)"
  "keeps (\<lambda>u. intents u = I) (event_mark r st a e)"
  "keeps (\<lambda>u. intents u = I) (outbox_add c ty i pl)"
  "keeps (\<lambda>u. intents u = I) (journal_post i ty ref n cur d c)"
  by (rule keepsI, auto simp: event_add_def event_mark_def outbox_add_def journal_post_def write_journal_def Let_def split: option.splits)+

lemma intents_of_bookings [keeps_intros]:
  "keeps (\<lambda>u. intents u = I) (log_verification a st x)"
  "keeps (\<lambda>u. intents u = I) (record_payment_success j b k fee)"
  unfolding log_verification_def record_payment_success_def record_capture_def by (intro keeps_intros)+

lemma status_written:
  assumes "thenE (attempt_save b) (thenE (intent_save j) m) s = (Inr out, t)" "\<And>I. keeps (\<lambda>u. intents u = I) m"
    and x: "intent_get s k = Some x" "\<not> paid_status (pi_status x)" and y: "intent_get t k = Some y" "paid_status (pi_status y)"
  shows "k = pi_id j \<and> paid_status (pi_status j)"
proof -
  from assms(1) obtain r u where "attempt_save b s = (Inr (), r)" "intent_save j r = (Inr (), u)" and m: "m u = (Inr out, t)"
    by auto
  then have "intents u = update_row pi_id (pi_id j) (set_intent (pi_status j) (pi_refunded j) (pi_updated j)) (intents s)"
    by (auto simp: attempt_save_Inr intent_save_Inr)
  with keepsD [OF assms(2) refl m] have t: "intents t = update_row pi_id (pi_id j) (set_intent (pi_status j) (pi_refunded j) (pi_updated j)) (intents s)"
    by simp
  show ?thesis
  proof (cases "k = pi_id j")
    case True
    with x(1) y(1) t have "y = set_intent (pi_status j) (pi_refunded j) (pi_updated j) x"
      by (simp add: intent_get_def lookup_update_row)
    with True y(2) show ?thesis by simp
  next
    case False
    with x(1) y(1) t have "y = x" by (simp add: intent_get_def lookup_update_row)
    with x(2) y(2) show ?thesis by simp
  qed
qed

lemma reconciled_pays:
  assumes "reconcile_attempt env a sw s = (Inr out, t)"
    and x: "intent_get s k = Some x" "\<not> paid_status (pi_status x)" and y: "intent_get t k = Some y" "paid_status (pi_status y)"
  obtains p r where "processor_get (pv_registry env) (pa_processor a) = Inr p"
    "verify_payment p (pay_clock s) (case pa_provider_ref a of None \<Rightarrow> [] | Some x \<Rightarrow> x) = Answer r" "pv_status r = At_succeeded"
    "pa_provider_ref a = Some (pv_reference r)" "pv_amount r = Some (pm_amount (pa_money a))" "pv_currency r = Some (pm_currency (pa_money a))"
proof (rule reconcile_attempt_cases [OF assms(1)])
  fix st z sw' assume "thenE (log_verification a st z) (retE sw') s = (Inr out, t)"
  moreover have "keeps (\<lambda>u. intents u = intents s) (thenE (log_verification a st z) (retE sw'))" by (intro keeps_intros)
  ultimately have "intents t = intents s" by (auto dest: keepsD)
  with x y show ?thesis by (simp add: intent_get_def)
next
  fix p r i j b sw'
  assume p: "processor_get (pv_registry env) (pa_processor a) = Inr p"
      "verify_payment p (pay_clock s) (case pa_provider_ref a of None \<Rightarrow> [] | Some x \<Rightarrow> x) = Answer r"
    and i: "intent_get s (pa_intent a) = Some i"
    and ok: "\<not> (pv_status r = At_succeeded \<and> (Some (pv_reference r) \<noteq> pa_provider_ref a \<or> pv_amount r \<noteq> Some (pm_amount (pa_money a))
                 \<or> pv_currency r \<noteq> Some (pm_currency (pa_money a))))"
    and st: "apply_status (pay_clock s) (latest_attempt s (pi_id i)) (Some (pv_status r)) i a = Inr (j, b)"
    and run: "thenE (attempt_save (b\<lparr>pa_provider_status := pv_provider_status r\<rparr>)) (thenE (intent_save j)
        (thenE (whenE (pv_status r = At_succeeded \<and> pi_status i \<noteq> Pi_succeeded)
           (record_payment_success j b (''reconciliation:'' @ uuid_str (pa_id a)) (case pv_fee r of None \<Rightarrow> 0 | Some x \<Rightarrow> x)))
         (thenE (log_verification a Ev_processed None) (retE sw')))) s = (Inr out, t)"
  have "k = pi_id j \<and> paid_status (pi_status j)" by (rule status_written [OF run _ x y]) (intro keeps_intros)+
  moreover from i have "pi_id i = pa_intent a" "pi_id j = pi_id i" using st by (auto dest: intent_get_Some apply_status_Inr)
  ultimately have "\<not> paid_status (pi_status i)" "paid_status (pi_status j)" using i x by auto
  from apply_status_pays [OF st this] have paid: "pv_status r = At_succeeded" by simp
  with ok have "pa_provider_ref a = Some (pv_reference r)" by auto
  with p paid ok show ?thesis by (intro that [of p r]) auto
qed

lemma webhook_pays:
  assumes "webhook_apply p n e s = (Inr out, t)"
    and x: "intent_get s k = Some x" "\<not> paid_status (pi_status x)" and y: "intent_get t k = Some y" "paid_status (pi_status y)"
  obtains a where "attempt_by_provider_reference s (pc_name p) (the (pn_reference n)) = Some a" "truthy (pn_reference n)" "pn_status n = Some At_succeeded"
    "pn_amount n = Some (pm_amount (pa_money a))" "pn_currency n = Some (pm_currency (pa_money a))" "k = pa_intent a"
proof (rule webhook_apply_cases [OF assms(1)])
  fix st c z w assume "give_up e st c z w s = (Inr out, t)"
  moreover have "keeps (\<lambda>u. intents u = intents s) (give_up e st c z w)" unfolding give_up_def by (intro keeps_intros)
  ultimately have "intents t = intents s" by (auto dest: keepsD)
  with x y show ?thesis by (simp add: intent_get_def)
next
  fix a i j b
  assume a: "attempt_by_provider_reference s (pc_name p) (the (pn_reference n)) = Some a" "truthy (pn_reference n)"
    and i: "intent_get s (pa_intent a) = Some i"
    and ok: "\<not> (pn_status n = Some At_succeeded \<and> (pn_amount n \<noteq> Some (pm_amount (pa_money a)) \<or> pn_currency n \<noteq> Some (pm_currency (pa_money a))))"
    and st: "apply_status (pay_clock s) (latest_attempt s (pi_id i)) (pn_status n) i a = Inr (j, b)"
    and run: "thenE (attempt_save (b\<lparr>pa_provider_status := pn_payload_status n\<rparr>)) (thenE (intent_save j)
        (thenE (event_mark e Ev_processed (Some (pa_id a)) None)
        (thenE (whenE (pn_status n = Some At_succeeded \<and> pi_status i \<noteq> Pi_succeeded)
           (record_payment_success j b (pn_key n) (case pn_fee n of None \<Rightarrow> 0 | Some x \<Rightarrow> x)))
         (retE Wh_processed)))) s = (Inr out, t)"
  have k: "k = pi_id j \<and> paid_status (pi_status j)" by (rule status_written [OF run _ x y]) (intro keeps_intros)+
  moreover from i have "pi_id i = pa_intent a" "pi_id j = pi_id i" using st by (auto dest: intent_get_Some apply_status_Inr)
  ultimately have "\<not> paid_status (pi_status i)" "paid_status (pi_status j)" using i x by auto
  from apply_status_pays [OF st this] have "pn_status n = Some At_succeeded" .
  with a ok k \<open>pi_id i = pa_intent a\<close> \<open>pi_id j = pi_id i\<close> show ?thesis by (intro that [of a]) auto
qed

lemma paystack_amount_read:
  assumes "from_paystack_amount v cur = Inr (Some n)" "upper_text cur = Some ''XOF''"
  shows "py_int v = Inr (100 * n)"
proof -
  from assms(2) have "is_xof cur" by (auto simp: upper_text_def is_xof_def py_or_def split: if_splits)
  with assms(1) show ?thesis by (auto simp: from_paystack_amount_def split: if_splits sum.splits)
qed

text \<open>What Paystack must have said for the reconciliation to find a payment of \<open>n\<close> francs paid.\<close>

definition paystack_says_paid :: "http_reply \<Rightarrow> string \<Rightarrow> int \<Rightarrow> bool" where
  "paystack_says_paid reply reference n \<longleftrightarrow> (\<exists>st d data. reply = Reply st (Some (V_dict d)) \<and> st < 400 \<and> py_true (dict_get d ''status'')
     \<and> sub_dict d ''data'' = Answer data \<and> lower (py_str (dict_get data ''status'')) = ''success''
     \<and> py_str (py_or (dict_get data ''reference'') (V_str reference)) = reference
     \<and> py_int (dict_get data ''amount'') = Inr (100 * n) \<and> upper (py_str (dict_get data ''currency'')) = ''XOF'')"

lemma paystack_verified_paid:
  assumes "paystack_verified reference data = Answer r" "pv_status r = At_succeeded" "pv_amount r = Some n" "pv_currency r = Some ''XOF''"
  shows "lower (py_str (dict_get data ''status'')) = ''success'' \<and> py_int (dict_get data ''amount'') = Inr (100 * n)
    \<and> upper (py_str (dict_get data ''currency'')) = ''XOF''
    \<and> pv_reference r = py_str (py_or (dict_get data ''reference'') (V_str reference))"
proof -
  from assms have r: "paystack_word (lower (py_str (py_or (dict_get data ''status'') (V_str ''unknown'')))) = At_succeeded"
      "from_paystack_amount (dict_get data ''amount'') (dict_get data ''currency'') = Inr (Some n)"
      "upper_text (dict_get data ''currency'') = Some ''XOF''"
      "pv_reference r = py_str (py_or (dict_get data ''reference'') (V_str reference))"
    by (auto simp: paystack_verified_def plain_result_def Let_def split: sum.splits conversion_error.splits)
  from r(1) have "lower (py_str (dict_get data ''status'')) = ''success''"
    by (auto simp: paystack_word_def py_or_def lower_def lower_char_def split: if_splits)
  with r paystack_amount_read [OF r(2,3)] show ?thesis by (auto simp: upper_text_def split: if_splits)
qed

lemma paystack_evidence:
  assumes "paystack_verify_payment H c now reference = Answer r" "pv_status r = At_succeeded" "pv_reference r = reference"
    "pv_amount r = Some n" "pv_currency r = Some ''XOF''"
  shows "paystack_says_paid (hx_get H now (paystack_call c (''/transaction/verify/'' @ reference) None)) reference n"
proof -
  let ?reply = "hx_get H now (paystack_call c (''/transaction/verify/'' @ reference) None)"
  from assms(1,2) obtain st body data where reply: "replied reference ?reply = Answer (st, body)" and ok: "\<not> refused_by st body"
      and data: "sub_dict body ''data'' = Answer data" "paystack_verified reference data = Answer r"
    by (auto simp: paystack_verify_payment_def bindP_Answer plain_result_def split: if_splits)
  from reply ok have "?reply = Reply st (Some (V_dict body))"
    by (auto simp: replied_def json_body_def refused_by_def dict_get_def split: http_reply.splits option.splits pyval.splits)
  with ok data(1) paystack_verified_paid [OF data(2) assms(2,4,5)] assms(3) show ?thesis
    by (auto simp: paystack_says_paid_def refused_by_def)
qed

text \<open>
  The reconciliation finds a payment through Paystack paid only if Paystack answered the verification
  of its reference with success, the amount in hundredths of the franc exactly and the currency.
\<close>

theorem paystack_reconciliation_needs_success:
  assumes "processor_get (pv_registry env) (pa_processor a) = Inr (paystack_processor H hm ld c)"
    and "reconcile_attempt env a sw s = (Inr out, t)" "pm_currency (pa_money a) = ''XOF''"
    and "intent_get s k = Some x" "\<not> paid_status (pi_status x)" "intent_get t k = Some y" "paid_status (pi_status y)"
  shows "\<exists>reference. pa_provider_ref a = Some reference
    \<and> paystack_says_paid (hx_get H (pay_clock s) (paystack_call c (''/transaction/verify/'' @ reference) None)) reference (pm_amount (pa_money a))"
proof (rule reconciled_pays [OF assms(2,4-7)])
  fix p r
  assume "processor_get (pv_registry env) (pa_processor a) = Inr p"
    "verify_payment p (pay_clock s) (case pa_provider_ref a of None \<Rightarrow> [] | Some x \<Rightarrow> x) = Answer r" "pv_status r = At_succeeded"
    "pa_provider_ref a = Some (pv_reference r)" "pv_amount r = Some (pm_amount (pa_money a))" "pv_currency r = Some (pm_currency (pa_money a))"
  with assms(1,3) paystack_evidence [of H c "pay_clock s" "pv_reference r" r "pm_amount (pa_money a)"] show ?thesis
    by (simp add: paystack_processor_def)
qed

definition demo_client :: "dict \<Rightarrow> dict \<Rightarrow> http_client" where
  "demo_client posted found = \<lparr>hx_post = (\<lambda>_. Reply 200 (Some (V_dict posted))), hx_get = (\<lambda>_ _. Reply 200 (Some (V_dict found)))\<rparr>"

definition demo_paystack :: processor where
  "demo_paystack = paystack_processor
     (demo_client [(''status'', V_bool True), (''data'', V_dict [(''authorization_url'', V_str ''https://x'')])]
        [(''status'', V_bool True), (''data'', V_dict [(''status'', V_str ''success''), (''amount'', V_int 500000), (''currency'', V_str ''XOF'')])])
     (\<lambda>key body. ''s'') (\<lambda>body. Some (V_dict [(''event'', V_str ''charge.success''), (''data'', V_dict [(''reference'', V_str ''dpi_2''),
        (''amount'', V_int 500000), (''currency'', V_str ''XOF'')])]))
     \<lparr>ps_secret_key = ''k'', ps_webhook_secret = ''k''\<rparr>"

definition demo_paystack_env :: pay_env where
  "demo_paystack_env = \<lparr>pv_registry = [(100, demo_paystack)], pv_default = None, pv_sha256 = (\<lambda>_. ''h'')\<rparr>"

definition demo_checkout :: pay_db where
  "demo_checkout = snd (payment_create demo_paystack_env (demo_create\<lparr>cc_email := Some ''a@b''\<rparr>) empty_payments)"

lemma demo_checkout_intents: "map (\<lambda>i. (pi_id i, pi_status i)) (intents demo_checkout) = [(1, Pi_requires_action)]"
  by code_simp

lemma demo_checkout_attempts: "map (\<lambda>a. (pa_id a, pa_provider_ref a, pa_processor a, pa_money a)) (attempts demo_checkout)
   = [(2, Some ''dpi_2'', ''paystack'', \<lparr>pm_amount = 5000, pm_currency = ''XOF''\<rparr>)]"
  by code_simp

definition verified_paid :: "pay_db \<Rightarrow> bool" where
  "verified_paid s \<longleftrightarrow> map (\<lambda>i. (pi_id i, pi_status i)) (intents s) = [(1, Pi_succeeded)]"

lemma verified_paid_get: "verified_paid s \<Longrightarrow> \<exists>y. intent_get s 1 = Some y \<and> paid_status (pi_status y)"
  by (auto simp: verified_paid_def intent_get_def paid_status_def map_eq_Cons_conv)

lemma demo_unpaid: "\<exists>x. intent_get demo_checkout 1 = Some x \<and> \<not> paid_status (pi_status x)"
  using demo_checkout_intents by (auto simp: intent_get_def paid_status_def map_eq_Cons_conv)

lemma demo_attempt:
  obtains a where "attempts demo_checkout = [a]" "pa_provider_ref a = Some ''dpi_2''" "pa_processor a = ''paystack''"
    "pa_money a = \<lparr>pm_amount = 5000, pm_currency = ''XOF''\<rparr>"
  using demo_checkout_attempts by (auto simp: map_eq_Cons_conv)

theorem paystack_reconciliation_needs_success_witness:
  "\<exists>reply. paystack_says_paid reply ''dpi_2'' 5000"
proof -
  obtain a where a: "attempts demo_checkout = [a]" "pa_provider_ref a = Some ''dpi_2''" "pa_processor a = ''paystack''"
    "pa_money a = \<lparr>pm_amount = 5000, pm_currency = ''XOF''\<rparr>" by (rule demo_attempt)
  have "wp (reconcile_attempt demo_paystack_env (hd (attempts demo_checkout)) no_sweep) (\<lambda>_ t. verified_paid t) (\<lambda>_ _. False) demo_checkout"
    by code_simp
  from wp_returns [OF this] obtain out t where run: "reconcile_attempt demo_paystack_env a no_sweep demo_checkout = (Inr out, t)"
    and t: "verified_paid t" using a(1) by auto
  have "processor_get (pv_registry demo_paystack_env) (pa_processor a) = Inr demo_paystack"
    by (simp add: a(3) processor_get_def demo_paystack_env_def demo_paystack_def paystack_processor_def)
  from paystack_reconciliation_needs_success [OF this [unfolded demo_paystack_def] run] demo_unpaid verified_paid_get [OF t] a(2,4)
  show ?thesis by auto
qed

lemma webhook_receive_Inr: "webhook_receive p n s = (Inr row, u) \<Longrightarrow> intents u = intents s \<and> attempts u = attempts s"
  by (auto simp: webhook_receive_def event_add_def Let_def split: option.splits)

lemma paystack_parses: "parse_webhook (paystack_processor H hm ld c) = paystack_parse_webhook hm ld c"
  by (simp add: paystack_processor_def)

lemma notice_paid:
  assumes "paystack_notice payload = Answer n" "pn_status n = Some At_succeeded"
  shows "pn_type n = ''charge.success'' \<or> pn_payload_status n = Some ''success''"
  using assms by (auto simp: paystack_notice_def notice_status_def paystack_word_def Let_def split: sum.splits conversion_error.splits if_splits)

text \<open>
  C38: a Paystack notification is taken only when its signature is the HMAC of its body; and a payment is
  paid by one only if the body reports a successful charge of exactly the amount and the currency of
  the attempt it names.
\<close>

theorem paystack_webhook_needs_signature:
  assumes "webhook_process (paystack_processor H hm ld c) body headers s = (Inr out, t)"
  shows "signed_webhook hm c body headers \<and>
    (\<forall>k x y. intent_get s k = Some x \<and> \<not> paid_status (pi_status x) \<and> intent_get t k = Some y \<and> paid_status (pi_status y) \<longrightarrow>
      (\<exists>payload n a. ld body = Some (V_dict payload) \<and> paystack_notice payload = Answer n \<and> a \<in> set (attempts s) \<and> pa_intent a = k
         \<and> pa_provider_ref a = pn_reference n
         \<and> (pn_type n = ''charge.success'' \<or> pn_payload_status n = Some ''success'')
         \<and> pn_amount n = Some (pm_amount (pa_money a)) \<and> pn_currency n = Some (pm_currency (pa_money a))))"
proof -
  let ?p = "paystack_processor H hm ld c"
  from assms obtain n row u where n: "paystack_parse_webhook hm ld c body headers = Answer n"
      and row: "webhook_receive ?p n s = (Inr row, u)"
      and rest: "(case row of None \<Rightarrow> retE Wh_duplicate | Some r \<Rightarrow> atomically (webhook_apply ?p n r)) u = (Inr out, t)"
    by (auto simp: webhook_process_def paystack_parses split: psp.splits)
  from n obtain payload where body: "signed_webhook hm c body headers" "ld body = Some (V_dict payload)" "paystack_notice payload = Answer n"
    by (auto simp: paystack_parse_webhook_def split: if_splits option.splits pyval.splits)
  note same = webhook_receive_Inr [OF row]
  have "\<exists>a. a \<in> set (attempts s) \<and> pa_intent a = k \<and> pa_provider_ref a = pn_reference n
      \<and> (pn_type n = ''charge.success'' \<or> pn_payload_status n = Some ''success'')
      \<and> pn_amount n = Some (pm_amount (pa_money a)) \<and> pn_currency n = Some (pm_currency (pa_money a))"
    if k: "intent_get s k = Some x" "\<not> paid_status (pi_status x)" "intent_get t k = Some y" "paid_status (pi_status y)" for k x y
  proof (cases row)
    case None
    with rest same k show ?thesis by (simp add: intent_get_def)
  next
    case (Some r)
    with rest have "webhook_apply ?p n r u = (Inr out, t)" by simp
    from webhook_pays [OF this, of k x y] k same obtain a where "attempt_by_provider_reference u (pc_name ?p) (the (pn_reference n)) = Some a"
        "truthy (pn_reference n)" and a: "pn_status n = Some At_succeeded" "pn_amount n = Some (pm_amount (pa_money a))"
        "pn_currency n = Some (pm_currency (pa_money a))" "k = pa_intent a"
      by (auto simp: intent_get_def)
    with same have "a \<in> set (attempts s)" "pa_provider_ref a = pn_reference n"
      by (auto simp: attempt_by_provider_reference_def truthy_def dest!: find_Some_prop split: option.splits)
    with a notice_paid [OF body(3) a(1)] show ?thesis by auto
  qed
  with body show ?thesis by blast
qed

theorem paystack_webhook_needs_signature_witness:
  "\<exists>t (n :: provider_notice) a. verified_paid t \<and> a \<in> set (attempts demo_checkout) \<and> pa_intent a = 1 \<and> pa_provider_ref a = pn_reference n
     \<and> pn_amount n = Some (pm_amount (pa_money a))"
proof -
  have "wp (webhook_process demo_paystack ''b'' [(''X-Paystack-Signature'', ''s'')]) (\<lambda>_ t. verified_paid t) (\<lambda>_ _. False) demo_checkout"
    by code_simp
  from wp_returns [OF this] obtain out t where run: "webhook_process demo_paystack ''b'' [(''X-Paystack-Signature'', ''s'')] demo_checkout = (Inr out, t)"
    and t: "verified_paid t" by blast
  from demo_unpaid obtain x where x: "intent_get demo_checkout 1 = Some x" "\<not> paid_status (pi_status x)" by blast
  from verified_paid_get [OF t] obtain y where y: "intent_get t 1 = Some y" "paid_status (pi_status y)" by blast
  note taken = paystack_webhook_needs_signature [OF run [unfolded demo_paystack_def], THEN conjunct2, rule_format, of 1 x y]
  from x y have "intent_get demo_checkout 1 = Some x \<and> \<not> paid_status (pi_status x) \<and> intent_get t 1 = Some y \<and> paid_status (pi_status y)" by simp
  from taken [OF this] t show ?thesis by (elim exE conjE) (intro exI conjI, assumption+)
qed

subsection \<open>Amounts on the wire\<close>

lemma is_xof_str: "is_xof (V_str cur) \<longleftrightarrow> upper cur = ''XOF''"
  by (simp add: is_xof_def py_or_def)

text \<open>
  An amount read back from what was sent is the amount: Paystack and Jeko are sent hundredths of the
  franc, PawaPay a decimal text.
\<close>

theorem wire_amounts_read_back:
  "from_paystack_amount (V_int (to_paystack_amount a cur)) (V_str cur) = Inr (Some a)
    \<and> from_jeko_amount (V_int (to_jeko_amount a cur)) (V_str cur) = Inr (Some a)
    \<and> pawapay_amount (V_str (int_str a)) = Inr (Some a)"
  by (simp add: from_paystack_amount_def to_paystack_amount_def from_jeko_amount_def to_jeko_amount_def is_xof_str
      pawapay_amount_def whole_decimal_int_str)

end
