(* ===== verification/ProviderLimits.thy ===== *)
theory ProviderLimits
  imports ProcessorProps
begin

section \<open>Where the providers and the payments do not fit\<close>

text \<open>
  Three consequences of the code as it is: CinetPay payments that the reconciliation can never find
  paid, creations that collide while CinetPay's login gets no reply, and refunds of providers that have
  none, which stay pending and keep their amount reserved.
\<close>

subsection \<open>CinetPay\<close>

lemma cinetpay_verified_reference:
  assumes "fst (cinetpay_verify_payment H c now reference (Some tok)) = Answer r" "tok \<noteq> []"
    and reply: "hx_get H now (cinetpay_call tok (''/v1/payment/'' @ reference) None) = Reply st (Some (V_dict d))"
    and "st < 400" "\<not> is_expired_token d" "dict_get d ''transaction_id'' = V_str tid" "tid \<noteq> []"
  shows "pv_reference r = tid"
  using assms by (auto simp: cinetpay_verify_payment_def then_read_def cinetpay_request_def token_value_def truthy_def replied_def
      json_body_def bindP_Answer py_or_def Let_def split: if_splits)

text \<open>
  A CinetPay payment whose verification answers carry CinetPay's own transaction identifier, as they
  do, is never found paid: the identifier is returned as the provider reference, which the
  reconciliation compares with the merchant's one.
\<close>

theorem cinetpay_payment_never_reconciled:
  assumes "processor_get (pv_registry env) (pa_processor a) = Inr (cinetpay_processor H c (Some tok))" "tok \<noteq> []"
    and "pa_provider_ref a = Some reference"
    and "hx_get H (pay_clock s) (cinetpay_call tok (''/v1/payment/'' @ reference) None) = Reply st (Some (V_dict d))" "st < 400"
    and "\<not> is_expired_token d" "dict_get d ''transaction_id'' = V_str tid" "tid \<noteq> []" "tid \<noteq> reference"
    and "reconcile_attempt env a sw s = (Inr out, t)"
    and "intent_get s k = Some x" "\<not> paid_status (pi_status x)" "intent_get t k = Some y"
  shows "\<not> paid_status (pi_status y)"
proof
  assume "paid_status (pi_status y)"
  from assms(10-13) this show False
  proof (rule reconciled_pays)
    fix p r
    assume "processor_get (pv_registry env) (pa_processor a) = Inr p"
      "verify_payment p (pay_clock s) (case pa_provider_ref a of None \<Rightarrow> [] | Some x \<Rightarrow> x) = Answer r"
      "pa_provider_ref a = Some (pv_reference r)"
    with assms(1,3) have "fst (cinetpay_verify_payment H c (pay_clock s) reference (Some tok)) = Answer r" "pv_reference r = reference"
      by (simp_all add: cinetpay_processor_def)
    with cinetpay_verified_reference [OF this(1) assms(2,4-8)] assms(9) show False by simp
  qed
qed

lemma cinetpay_unreachable_login:
  assumes "hx_post H (login_call c) = No_reply" "truthy (cc_email cmd)" "truthy (cc_callback cmd)"
  shows "initialize (cinetpay_processor H c None) cmd i a = plain_result ''login'' At_unknown ''network_error'' ''PROCESSOR_UNCERTAIN''"
  using assms by (simp add: initialize_def cinetpay_processor_def cinetpay_initialize_def cinetpay_request_def token_value_def
      cinetpay_login_def replied_def then_read_def truthy_def Let_def)

lemma created_reference:
  assumes "create_finish p cmd i a s = (Inr v, t)" "initialize p cmd i a = r"
  obtains b where "attempt_get s (pa_id a) \<noteq> None" "attempt_unique (attempts s) b"
    "attempts t = update_row pa_id (pa_id a) (set_attempt b) (attempts s)"
    "pa_id b = pa_id a" "pa_processor b = pa_processor a" "pa_provider_ref b = Some (pv_reference r)"
proof -
  from assms obtain j b u where j: "apply_provider_result (pay_clock s) r i a = Inr (j, b)"
      and rest: "intent_save j s = (Inr (), u)" "attempt_save b u = (Inr (), t)"
    by (auto simp: create_finish_def)
  from j have b: "pa_id b = pa_id a" "pa_processor b = pa_processor a" "pa_provider_ref b = Some (pv_reference r)"
    by (auto simp: apply_provider_result_def attempt_transition_to_def map_sum_Inr Let_def split: sum.splits option.splits if_splits)
  with rest show ?thesis by (intro that [of b]) (auto simp: attempt_save_Inr intent_save_Inr attempt_get_def)
qed

text \<open>
  While the login of CinetPay gets no reply, only one payment can be recorded: the failed login is
  reported with the word login as the provider reference, which must be unique, so the creation of the next
  payment raises and leaves its rows as they were before the call.
\<close>

theorem cinetpay_login_timeout_collides:
  assumes "hx_post H (login_call c) = No_reply"
    and "truthy (cc_email cmd)" "truthy (cc_callback cmd)" "truthy (cc_email cmd')" "truthy (cc_callback cmd')"
    and "attempt_get s (pa_id a) = Some a" "pa_processor a = ''cinetpay''" "pa_processor a' = ''cinetpay''" "pa_id a \<noteq> pa_id a'"
    and "create_finish (cinetpay_processor H c None) cmd i a s = (Inr v, t)"
  shows "\<exists>e. create_finish (cinetpay_processor H c None) cmd' i' a' t = (Inl e, snd (create_finish (cinetpay_processor H c None) cmd' i' a' t))"
proof -
  let ?p = "cinetpay_processor H c None"
  have "fst (create_finish ?p cmd' i' a' t) \<noteq> Inr w" for w
  proof
    assume "fst (create_finish ?p cmd' i' a' t) = Inr w"
    then obtain u where again: "create_finish ?p cmd' i' a' t = (Inr w, u)" by (cases "create_finish ?p cmd' i' a' t") auto
    from created_reference [OF assms(10) cinetpay_unreachable_login [OF assms(1-3)]] obtain b where
        rows: "attempts t = update_row pa_id (pa_id a) (set_attempt b) (attempts s)" and b: "pa_provider_ref b = Some ''login''"
      by (metis plain_result_def provider_result.select_convs(1))
    from created_reference [OF again cinetpay_unreachable_login [OF assms(1,4,5)]] obtain b' where
        unique: "attempt_unique (attempts t) b'" and b': "pa_id b' = pa_id a'" "pa_processor b' = ''cinetpay''" "pa_provider_ref b' = Some ''login''"
      using assms(8) by (metis plain_result_def provider_result.select_convs(1))
    from attempt_get_Some [OF assms(6)] have "set_attempt b a \<in> set (attempts t)"
      unfolding rows by (auto intro!: update_row_this)
    with unique have "pa_id (set_attempt b a) \<noteq> pa_id b' \<Longrightarrow> pa_provider_ref b' = None \<or>
        \<not> (pa_processor (set_attempt b a) = pa_processor b' \<and> pa_provider_ref (set_attempt b a) = pa_provider_ref b')"
      unfolding attempt_unique_def by blast
    with b b' assms(7,9) show False by (simp add: set_attempt_def)
  qed
  then show ?thesis by (metis old.sum.exhaust prod.collapse)
qed

definition demo_cinetpay :: "http_reply \<Rightarrow> (http_call \<Rightarrow> http_reply) \<Rightarrow> string option \<Rightarrow> processor" where
  "demo_cinetpay found post tok = cinetpay_processor \<lparr>hx_post = post, hx_get = (\<lambda>_ _. found)\<rparr> \<lparr>cn_api_key = ''k'', cn_password = ''p''\<rparr> tok"

definition demo_order :: "string \<Rightarrow> create_command" where
  "demo_order key = demo_create\<lparr>cc_key := key, cc_email := Some ''a@b'', cc_callback := Some ''https://c''\<rparr>"

definition demo_found :: dict where
  "demo_found = [(''code'', V_int 100), (''status'', V_str ''SUCCESS''), (''transaction_id'', V_str ''cp-1''),
     (''amount'', V_int 5000), (''currency'', V_str ''XOF'')]"

definition demo_page :: processor where
  "demo_page = demo_cinetpay (Reply 200 (Some (V_dict demo_found))) (\<lambda>_. Reply 200 (Some (V_dict [(''payment_url'', V_str ''https://x'')]))) (Some ''t'')"

definition demo_page_env :: pay_env where
  "demo_page_env = \<lparr>pv_registry = [(110, demo_page)], pv_default = None, pv_sha256 = (\<lambda>_. ''h'')\<rparr>"

definition demo_hosted :: pay_db where
  "demo_hosted = snd (payment_create demo_page_env (demo_order ''k1'') empty_payments)"

theorem cinetpay_payment_never_reconciled_witness:
  "\<exists>t y. intent_get t 1 = Some y \<and> pi_status y = Pi_requires_action \<and> \<not> paid_status (pi_status y)
     \<and> reconcile_attempt demo_page_env (hd (attempts demo_hosted)) no_sweep demo_hosted
         = (Inr (no_sweep\<lparr>sw_mismatched := 1\<rparr>), t)"
proof -
  let ?a = "hd (attempts demo_hosted)" and ?env = demo_page_env
  have "wp (reconcile_attempt ?env ?a no_sweep) (\<lambda>out t. out = no_sweep\<lparr>sw_mismatched := 1\<rparr>
      \<and> map (\<lambda>i. (pi_id i, pi_status i)) (intents t) = [(1, Pi_requires_action)]) (\<lambda>_ _. False) demo_hosted" by code_simp
  then obtain t where run: "reconcile_attempt ?env ?a no_sweep demo_hosted = (Inr (no_sweep\<lparr>sw_mismatched := 1\<rparr>), t)"
    and t: "map (\<lambda>i. (pi_id i, pi_status i)) (intents t) = [(1, Pi_requires_action)]" by (rule wp_value)
  from t obtain y where y: "intent_get t 1 = Some y" "pi_status y = Pi_requires_action"
    by (auto simp: intent_get_def map_eq_Cons_conv)
  have "map (\<lambda>i. (pi_id i, pi_status i)) (intents demo_hosted) = [(1, Pi_requires_action)]" by code_simp
  then obtain x where x: "intent_get demo_hosted 1 = Some x" "\<not> paid_status (pi_status x)"
    by (auto simp: intent_get_def map_eq_Cons_conv paid_status_def)
  have a: "pa_processor ?a = ''cinetpay''" "pa_provider_ref ?a = Some ''2''" by code_simp+
  have p: "processor_get (pv_registry ?env) (pa_processor ?a) = Inr demo_page"
    by (simp add: a processor_get_def demo_page_env_def demo_page_def demo_cinetpay_def cinetpay_processor_def)
  have "\<not> is_expired_token demo_found" "dict_get demo_found ''transaction_id'' = V_str ''cp-1''" by code_simp+
  from cinetpay_payment_never_reconciled [OF p [unfolded demo_page_def demo_cinetpay_def] _ a(2) _ _ this _ _ run x y(1)] y run
  show ?thesis by auto
qed

definition demo_offline :: processor where
  "demo_offline = demo_cinetpay No_reply (\<lambda>_. No_reply) None"

definition demo_offline_env :: pay_env where
  "demo_offline_env = \<lparr>pv_registry = [(110, demo_offline)], pv_default = None, pv_sha256 = (\<lambda>_. ''h'')\<rparr>"

definition demo_two :: pay_db where
  "demo_two = snd (create_begin demo_offline_env (demo_order ''k2'') (snd (create_begin demo_offline_env (demo_order ''k1'') empty_payments)))"

lemma demo_two_rows: "map (\<lambda>a. (pa_id a, pa_processor a)) (attempts demo_two) = [(2, ''cinetpay''), (4, ''cinetpay'')]"
  by code_simp

theorem cinetpay_login_timeout_collides_witness:
  "\<exists>v t e u. create_finish demo_offline (demo_order ''k1'') (hd (intents demo_two)) (hd (attempts demo_two)) demo_two = (Inr v, t)
    \<and> create_finish demo_offline (demo_order ''k2'') (last (intents demo_two)) (last (attempts demo_two)) t = (Inl e, u)"
proof -
  have "wp (create_finish demo_offline (demo_order ''k1'') (hd (intents demo_two)) (hd (attempts demo_two))) (\<lambda>_ _. True) (\<lambda>_ _. False) demo_two"
    by code_simp
  from wp_returns [OF this] obtain v t where run: "create_finish demo_offline (demo_order ''k1'') (hd (intents demo_two)) (hd (attempts demo_two)) demo_two = (Inr v, t)"
    by (elim exE conjE)
  from demo_two_rows obtain a b where rows: "attempts demo_two = [a, b]" "pa_id a = 2" "pa_id b = 4" "pa_processor a = ''cinetpay''" "pa_processor b = ''cinetpay''"
    by (auto simp: map_eq_Cons_conv)
  then have a: "attempt_get demo_two (pa_id (hd (attempts demo_two))) = Some (hd (attempts demo_two))" "pa_processor (hd (attempts demo_two)) = ''cinetpay''"
      "pa_processor (last (attempts demo_two)) = ''cinetpay''" "pa_id (hd (attempts demo_two)) \<noteq> pa_id (last (attempts demo_two))"
    by (simp_all add: attempt_get_def)
  have order: "truthy (cc_email (demo_order k))" "truthy (cc_callback (demo_order k))" for k
    by (simp_all add: demo_order_def truthy_def)
  from cinetpay_login_timeout_collides [OF _ order order a run [unfolded demo_offline_def demo_cinetpay_def]] run
  show ?thesis unfolding demo_offline_def demo_cinetpay_def by fastforce
qed

subsection \<open>Refunds\<close>

text \<open>
  A refund of a payment collected by Jeko or CinetPay, which have no refunds, raises after its row is
  committed: the row stays pending and the amount stays reserved, although nothing was paid back.
\<close>

theorem unsupported_refund_stays_reserved:
  assumes "processor_get (pv_registry env) (pa_processor a) = Inr p"
    and "p = jeko_processor H j \<or> p = cinetpay_processor H k tok"
    and "refund_begin env c s = (Inr (Refund_started i a f), u)"
  shows "refund_create env c s = (Inl P_NotImplemented, u) \<and> f \<in> set (refunds u) \<and> rf_status f = Rf_pending
    \<and> total_active_for u (pi_id i) = total_active_for s (pi_id i) + pm_amount (rf_money f)"
proof -
  from assms(2) have "refund_payment p = (\<lambda>_. Crashed)" by (auto simp: jeko_processor_def cinetpay_processor_def)
  with assms(1,3) have "refund_create env c s = (Inl P_NotImplemented, u)"
    by (simp add: refund_create_def refund_finish_def atomically_def bindE_def readE_def of_sum_def retE_def raiseE_def psp_exception_def)
  with assms(3) show ?thesis by (auto elim!: refund_begin_Inr simp: total_active_for_def)
qed

definition demo_jeko :: processor where
  "demo_jeko = jeko_processor (demo_client [(''id'', V_str ''j1''), (''redirectUrl'', V_str ''https://x'')]
     [(''id'', V_str ''j1''), (''status'', V_str ''success''), (''transaction'', V_dict [(''amount'', V_dict [(''amount'', V_int 500000), (''currency'', V_str ''XOF'')])])])
     \<lparr>jk_api_key = ''k'', jk_api_key_id = ''i'', jk_store = ''s''\<rparr>"

definition demo_jeko_env :: pay_env where
  "demo_jeko_env = \<lparr>pv_registry = [(120, demo_jeko)], pv_default = None, pv_sha256 = (\<lambda>_. ''h'')\<rparr>"

definition demo_jeko_created :: pay_db where
  "demo_jeko_created = snd (payment_create demo_jeko_env ((demo_order ''k1'')\<lparr>cc_network := Some ''orange''\<rparr>) empty_payments)"

definition demo_jeko_paid :: pay_db where
  "demo_jeko_paid = snd (reconcile_attempt demo_jeko_env (hd (attempts demo_jeko_created)) no_sweep demo_jeko_created)"

theorem unsupported_refund_stays_reserved_witness:
  "\<exists>u. refund_create demo_jeko_env (demo_refund 2000 ''r1'') demo_jeko_paid = (Inl P_NotImplemented, u)
     \<and> total_active_for u 1 = total_active_for demo_jeko_paid 1 + 2000"
proof -
  have "wp (refund_begin demo_jeko_env (demo_refund 2000 ''r1'')) (\<lambda>b _. case b of Refund_replayed _ \<Rightarrow> False
      | Refund_started i a f \<Rightarrow> pi_id i = 1 \<and> pa_processor a = ''jeko'' \<and> pm_amount (rf_money f) = 2000) (\<lambda>_ _. False) demo_jeko_paid"
    by code_simp
  from wp_returns [OF this] obtain b u where "refund_begin demo_jeko_env (demo_refund 2000 ''r1'') demo_jeko_paid = (Inr b, u)"
      "case b of Refund_replayed _ \<Rightarrow> False | Refund_started i a f \<Rightarrow> pi_id i = 1 \<and> pa_processor a = ''jeko'' \<and> pm_amount (rf_money f) = 2000"
    by (elim exE conjE)
  then obtain i a f where run: "refund_begin demo_jeko_env (demo_refund 2000 ''r1'') demo_jeko_paid = (Inr (Refund_started i a f), u)"
      and f: "pi_id i = 1" "pa_processor a = ''jeko''" "pm_amount (rf_money f) = 2000"
    by (cases b) simp_all
  have "processor_get (pv_registry demo_jeko_env) (pa_processor a) = Inr demo_jeko"
    by (simp add: f(2) processor_get_def demo_jeko_env_def demo_jeko_def jeko_processor_def)
  from unsupported_refund_stays_reserved [OF this disjI1 [OF demo_jeko_def] run] f show ?thesis by simp
qed

end
