(* ===== verification/WalletWebhook.thy ===== *)
theory WalletWebhook
  imports WalletReach PyValues
begin

section \<open>The Paystack webhook of the wallet and the tables beside it\<close>

text \<open>
  The inbox of provider callbacks, the reconciliation log and the KYC references of
  \<^verbatim>\<open>wallet/infra/models.py\<close> with their repositories, and the handler \<^verbatim>\<open>paystack_webhook\<close> of
  \<^verbatim>\<open>wallet/presentation/routers.py\<close>. The HMAC and the JSON decoder are parameters, as in the other
  adapters. These tables draw their identifiers from a counter of their own, so a request changes the
  wallet part of the state by wallet operations only; events given to the bus are listed in \<open>op_published\<close>.
  Log lines written with \<open>emit\<close> are left out.
\<close>

subsection \<open>Tables\<close>

datatype inbox_status = Inbox_received | Inbox_processed

record inbox_event =
  ie_id :: uuid
  ie_provider :: string
  ie_key :: string
  ie_payload :: pyval
  ie_status :: inbox_status
  ie_processed :: "instant option"

record reconciliation_log =
  rl_id :: uuid
  rl_transaction :: uuid
  rl_provider :: string
  rl_reference :: "string option"
  rl_event :: string
  rl_outcome :: string
  rl_reason :: "string option"
  rl_created :: instant

record kyc_document =
  kd_id :: uuid
  kd_user :: uuid
  kd_file :: string
  kd_type :: string
  kd_status :: string
  kd_source :: "string option"
  kd_created :: instant

record wallet_desk =
  op_wallet :: wallet_db
  op_inbox :: "inbox_event list"
  op_logs :: "reconciliation_log list"
  op_kyc :: "kyc_document list"
  op_published :: "outbox_event list"
  op_next :: uuid

type_synonym 'a desk_op = "(wallet_desk, wexc, 'a) op"

definition empty_desk :: wallet_desk where
  "empty_desk = \<lparr>op_wallet = empty_wallet, op_inbox = [], op_logs = [], op_kyc = [], op_published = [], op_next = 1\<rparr>"

definition in_wallet :: "'a wop \<Rightarrow> 'a desk_op" where
  "in_wallet = on_part op_wallet (\<lambda>w s. s\<lparr>op_wallet := w\<rparr>) id"

definition desk_fresh :: "uuid desk_op" where
  "desk_fresh = bindE (readE op_next) (\<lambda>i. thenE (modE (\<lambda>s. s\<lparr>op_next := Suc i\<rparr>)) (retE i))"

definition desk_now :: "instant desk_op" where
  "desk_now = readE (\<lambda>s. clock (op_wallet s))"

subsection \<open>Repositories\<close>

definition inbox_seen :: "wallet_desk \<Rightarrow> string \<Rightarrow> inbox_event option" where
  "inbox_seen s key = lookup_row ie_key key (op_inbox s)"

definition inbox_record :: "string \<Rightarrow> string \<Rightarrow> pyval \<Rightarrow> uuid desk_op" where
  "inbox_record provider key payload =
     bindE (readE (\<lambda>s. inbox_seen s key)) (\<lambda>old.
     thenE (ensure (old = None \<and> provider \<noteq> [] \<and> key \<noteq> []) IntegrityError)
     (bindE desk_fresh (\<lambda>i.
      thenE (modE (\<lambda>s. s\<lparr>op_inbox := op_inbox s @ [\<lparr>ie_id = i, ie_provider = provider, ie_key = key, ie_payload = payload,
                ie_status = Inbox_received, ie_processed = None\<rparr>]\<rparr>))
        (retE i))))"

definition inbox_mark_processed :: "uuid \<Rightarrow> unit desk_op" where
  "inbox_mark_processed i = bindE desk_now (\<lambda>t. modE (\<lambda>s. s\<lparr>op_inbox :=
     update_row ie_id i (\<lambda>e. e\<lparr>ie_status := Inbox_processed, ie_processed := Some t\<rparr>) (op_inbox s)\<rparr>))"

definition log_append :: "uuid \<Rightarrow> string \<Rightarrow> string option \<Rightarrow> string \<Rightarrow> string \<Rightarrow> string option \<Rightarrow> unit desk_op" where
  "log_append i provider reference event outcome reason =
     thenE (ensure (provider \<noteq> [] \<and> event \<noteq> [] \<and> outcome \<noteq> []) IntegrityError)
     (bindE desk_fresh (\<lambda>n. bindE desk_now (\<lambda>t.
      modE (\<lambda>s. s\<lparr>op_logs := op_logs s @ [\<lparr>rl_id = n, rl_transaction = i, rl_provider = provider, rl_reference = reference,
         rl_event = event, rl_outcome = outcome, rl_reason = reason, rl_created = t\<rparr>]\<rparr>))))"

definition latest_for_transaction :: "wallet_desk \<Rightarrow> uuid \<Rightarrow> nat \<Rightarrow> reconciliation_log list" where
  "latest_for_transaction s i max_rows = take max_rows (sort_key (\<lambda>l. - rl_created l) (filter (\<lambda>l. rl_transaction l = i) (op_logs s)))"

text \<open>The nil identifier is the number 0.\<close>

definition kyc_add :: "uuid \<Rightarrow> string \<Rightarrow> string \<Rightarrow> string \<Rightarrow> string option \<Rightarrow> kyc_document desk_op" where
  "kyc_add user file_id document_type status source =
     bindE (readE (\<lambda>s. lookup_row kd_file file_id (op_kyc s))) (\<lambda>old.
     thenE (ensure (old = None \<and> user \<noteq> 0 \<and> file_id \<noteq> [] \<and> status \<in> {''pending'', ''verified'', ''rejected''}) IntegrityError)
     (bindE desk_fresh (\<lambda>i. bindE desk_now (\<lambda>t.
      let row = \<lparr>kd_id = i, kd_user = user, kd_file = file_id, kd_type = document_type, kd_status = status, kd_source = source,
                 kd_created = t\<rparr>
      in thenE (modE (\<lambda>s. s\<lparr>op_kyc := op_kyc s @ [row]\<rparr>)) (retE row)))))"

definition kyc_for_user :: "wallet_desk \<Rightarrow> uuid \<Rightarrow> kyc_document list" where
  "kyc_for_user s user = sort_key (\<lambda>d. - kd_created d) (filter (\<lambda>d. kd_user d = user) (op_kyc s))"

subsection \<open>The webhook\<close>

record webhook_reply =
  wr_status :: string
  wr_reason :: string
  wr_transaction :: "string option"

definition status_word :: "transaction_status \<Rightarrow> string" where
  "status_word st = (case st of Tx_PENDING \<Rightarrow> ''pending'' | Tx_COMPLETED \<Rightarrow> ''completed'' | Tx_FAILED \<Rightarrow> ''failed'' | Tx_REVERSED \<Rightarrow> ''reversed'')"

definition wr :: "string \<Rightarrow> string \<Rightarrow> string option \<Rightarrow> webhook_reply" where
  "wr st reason tx = \<lparr>wr_status = st, wr_reason = reason, wr_transaction = tx\<rparr>"

text \<open>\<open>PaystackGateway.from_provider_xof\<close> on a decoded value, its \<open>TypeError\<close> and \<open>ValueError\<close> caught.\<close>

definition provider_amount :: "pyval \<Rightarrow> int option" where
  "provider_amount v = (if v = V_none then None
     else case py_int v of Inl _ \<Rightarrow> None | Inr x \<Rightarrow> if x mod 100 \<noteq> 0 then None else Some (x div 100))"

definition webhook_event :: "dict \<Rightarrow> string" where
  "webhook_event payload = py_str (py_or (dict_get payload ''event'') (V_str ''webhook''))"

definition charge_succeeded :: "dict \<Rightarrow> dict \<Rightarrow> bool" where
  "charge_succeeded payload data \<longleftrightarrow> dict_get payload ''event'' = V_str ''charge.success'' \<or> dict_get data ''status'' = V_str ''success''"

definition charge_matches :: "dict \<Rightarrow> transaction \<Rightarrow> bool" where
  "charge_matches data t \<longleftrightarrow> provider_amount (dict_get data ''amount'') = tx_amount t
     \<and> Some (upper (py_str (py_or (dict_get data ''currency'') (V_str [])))) = tx_currency t"

definition webhook_log :: "transaction \<Rightarrow> string \<Rightarrow> string \<Rightarrow> string \<Rightarrow> unit desk_op" where
  "webhook_log t event outcome reason = log_append (tx_id t) ''paystack'' (tx_provider_reference t) event outcome (Some reason)"

definition apply_charge :: "wallet_env \<Rightarrow> transaction \<Rightarrow> dict \<Rightarrow> dict \<Rightarrow> webhook_reply desk_op" where
  "apply_charge env t payload data =
     (let event = webhook_event payload
      in if tx_status t \<noteq> Tx_PENDING then
           thenE (webhook_log t event (status_word (tx_status t)) ''already_finalized'')
             (retE (wr ''ignored'' ''already_finalized'' (Some (status_word (tx_status t)))))
         else if charge_succeeded payload data then
           (if \<not> charge_matches data t then
              thenE (webhook_log t event ''ignored'' ''amount_or_currency_mismatch'')
                (retE (wr ''ignored'' ''amount_or_currency_mismatch'' (Some (status_word (tx_status t)))))
            else
              bindE (in_wallet (confirmer_operation env (tx_id t) ''paystack'')) (\<lambda>_.
              thenE (webhook_log t event ''completed'' ''charge_success'')
                (retE (wr ''processed'' ''charge_success'' (Some ''completed'')))))
         else (case dict_get data ''status'' of
             V_list _ \<Rightarrow> raiseE RuntimeError
           | V_dict _ \<Rightarrow> raiseE RuntimeError
           | st \<Rightarrow>
             if st \<in> {V_str ''failed'', V_str ''abandoned'', V_str ''reversed''} then
               bindE (in_wallet (echouer_operation (tx_id t) ''paystack'')) (\<lambda>_.
               thenE (webhook_log t event ''failed'' (py_str st))
                 (retE (wr ''processed'' (py_str st) (Some ''failed''))))
             else
               thenE (webhook_log t event ''ignored'' ''unhandled_event'')
                 (retE (wr ''ignored'' ''unhandled_event'' None))))"

text \<open>A known reference: the inbox is asked first, and an event it does not know is recorded and applied.\<close>

definition webhook_key :: "dict \<Rightarrow> string \<Rightarrow> string" where
  "webhook_key payload reference = ''paystack:'' @ webhook_event payload @ '':'' @ reference"

definition referenced_event :: "wallet_env \<Rightarrow> dict \<Rightarrow> dict \<Rightarrow> string \<Rightarrow> webhook_reply desk_op" where
  "referenced_event env payload data reference =
     bindE (readE (\<lambda>s. get_by_provider_reference (op_wallet s) reference)) (\<lambda>found.
     case found of None \<Rightarrow> retE (wr ''unknown_reference'' ''no_local_transaction'' None)
     | Some t \<Rightarrow>
       bindE (readE (\<lambda>s. inbox_seen s (webhook_key payload reference))) (\<lambda>seen.
       if seen \<noteq> None then
         thenE (webhook_log t (webhook_event payload) ''ignored'' ''duplicate_event'')
           (retE (wr ''ignored'' ''duplicate_event'' (Some (status_word (tx_status t)))))
       else
         bindE (inbox_record ''paystack'' (webhook_key payload reference) (V_dict payload)) (\<lambda>i.
         bindE (apply_charge env t payload data) (\<lambda>answer.
         thenE (inbox_mark_processed i) (retE answer)))))"

definition webhook_body :: "wallet_env \<Rightarrow> dict \<Rightarrow> webhook_reply desk_op" where
  "webhook_body env payload =
     (case py_or (dict_get payload ''data'') (V_dict []) of
        V_dict data \<Rightarrow>
          if \<not> py_true (dict_get data ''reference'') then retE (wr ''ignored'' ''missing_reference'' None)
          else (case dict_get data ''reference'' of
              V_str reference \<Rightarrow> referenced_event env payload data reference
            | _ \<Rightarrow> raiseE RuntimeError)
      | _ \<Rightarrow> raiseE RuntimeError)"

text \<open>\<open>hmac.compare_digest\<close> of a text that is not ASCII raises.\<close>

definition paystack_webhook :: "(string \<Rightarrow> string \<Rightarrow> string) \<Rightarrow> (string \<Rightarrow> pyval option) \<Rightarrow> wallet_env \<Rightarrow> string \<Rightarrow> string \<Rightarrow>
    string option \<Rightarrow> webhook_reply desk_op" where
  "paystack_webhook hmac_sha512 loads env secret raw_body signature =
     (if secret = [] then retE (wr ''ignored'' ''missing_secret'' None)
      else case signature of
        None \<Rightarrow> retE (wr ''invalid_signature'' ''signature_mismatch'' None)
      | Some given \<Rightarrow>
        if given = [] then retE (wr ''invalid_signature'' ''signature_mismatch'' None)
        else thenE (ensure (is_ascii given) RuntimeError)
          (if given \<noteq> hmac_sha512 secret raw_body then retE (wr ''invalid_signature'' ''signature_mismatch'' None)
           else (case loads raw_body of
               Some (V_dict payload) \<Rightarrow> webhook_body env payload
             | _ \<Rightarrow> raiseE RuntimeError)))"

end
