(* ===== verification/WalletSweep.thy ===== *)
theory WalletSweep
  imports WalletWebhook
begin

section \<open>Maintenance of the wallet\<close>

text \<open>
  The wallet part of \<^verbatim>\<open>ops/maintenance.py\<close> (backfill, reconciliation sweep, outbox relay, housekeeping)
  and the operations routes of \<^verbatim>\<open>wallet/presentation/routers.py\<close>. Each reconciliation of the sweep commits
  on its own; an exception ends the job and undoes only what was not committed. What the bus was given
  stays given. The bus, a parameter, tells whether publishing an event succeeds. Log lines and metrics
  are left out.
\<close>

subsection \<open>Backfill\<close>

definition backfill_wallet :: "uuid \<Rightarrow> string option \<Rightarrow> string \<Rightarrow> account wop" where
  "backfill_wallet user phone account_type =
     bindE (if account_type = ''merchant'' then provisionner_compte_marchand user else provisionner_compte user) (\<lambda>a.
     case phone of None \<Rightarrow> retE a
     | Some p \<Rightarrow> thenE (whenE (p \<noteq> []) (phone_upsert user p)) (retE a))"

subsection \<open>Reconciliation\<close>

definition reconcile_deposit :: "wallet_env \<Rightarrow> uuid \<Rightarrow> reconcile_status wop" where
  "reconcile_deposit env i = atomically
     (bindE (reconcile_transaction env i) (\<lambda>(st, _).
      thenE (ensure (st \<noteq> Rc_not_found \<and> st \<noteq> Rc_missing_provider_reference) RuntimeError) (retE st)))"

definition pending_operations :: "wallet_db \<Rightarrow> transaction list" where
  "pending_operations s = filter (\<lambda>t. tx_type t \<in> {type_str DEPOSIT, type_str WITHDRAWAL} \<and> tx_status t = Tx_PENDING
     \<and> tx_provider_reference t \<noteq> None \<and> tx_origin t = Some ''wallet'') (transactions s)"

record bulk_result =
  bk_scanned :: nat
  bk_completed :: nat
  bk_failed :: nat
  bk_pending :: nat
  bk_mismatched :: nat

definition tally :: "reconcile_status \<Rightarrow> bulk_result \<Rightarrow> bulk_result" where
  "tally st r = (if st = Rc_completed then r\<lparr>bk_completed := Suc (bk_completed r)\<rparr>
     else if st = Rc_failed then r\<lparr>bk_failed := Suc (bk_failed r)\<rparr>
     else if st = Rc_amount_or_currency_mismatch then r\<lparr>bk_mismatched := Suc (bk_mismatched r)\<rparr>
     else r\<lparr>bk_pending := Suc (bk_pending r)\<rparr>)"

fun sweep_each :: "wallet_env \<Rightarrow> transaction list \<Rightarrow> bulk_result \<Rightarrow> bulk_result wop" where
  "sweep_each env [] r = retE r"
| "sweep_each env (t # ts) r = bindE (reconcile_deposit env (tx_id t)) (\<lambda>st. sweep_each env ts (tally st r))"

definition wallet_sweep :: "wallet_env \<Rightarrow> bulk_result wop" where
  "wallet_sweep env = bindE (readE pending_operations) (\<lambda>ts. sweep_each env ts
     \<lparr>bk_scanned = length ts, bk_completed = 0, bk_failed = 0, bk_pending = 0, bk_mismatched = 0\<rparr>)"

subsection \<open>The outbox relay\<close>

fun publish_each :: "(outbox_event \<Rightarrow> bool) \<Rightarrow> outbox_event list \<Rightarrow> nat \<Rightarrow> nat desk_op" where
  "publish_each bus [] n = retE n"
| "publish_each bus (e # es) n =
     thenE (ensure (bus e) RuntimeError)
     (thenE (modE (\<lambda>s. s\<lparr>op_published := op_published s @ [e]\<rparr>))
     (thenE (in_wallet (mark_published (ob_id e)))
       (publish_each bus es (Suc n))))"

definition relay_outbox :: "(outbox_event \<Rightarrow> bool) \<Rightarrow> (nat \<times> nat) desk_op" where
  "relay_outbox bus = (\<lambda>s. let rows = outbox_pending (op_wallet s) 100
     in case publish_each bus rows 0 s of
          (Inl e, t) \<Rightarrow> (Inl e, s\<lparr>op_published := op_published t\<rparr>)
        | (Inr n, t) \<Rightarrow> (Inr (length rows, n), t))"

definition housekeeping :: "wallet_env \<Rightarrow> (outbox_event \<Rightarrow> bool) \<Rightarrow> (bulk_result \<times> nat \<times> nat) desk_op" where
  "housekeeping env bus = bindE (in_wallet (wallet_sweep env)) (\<lambda>r. bindE (relay_outbox bus) (\<lambda>n. retE (r, n)))"

subsection \<open>Routes of the operators\<close>

definition reconcile_log_mapping :: "reconcile_status \<Rightarrow> string option \<times> string" where
  "reconcile_log_mapping st = (case st of
       Rc_already_finalized \<Rightarrow> (None, ''already_finalized'')
     | Rc_amount_or_currency_mismatch \<Rightarrow> (Some ''ignored'', ''amount_or_currency_mismatch'')
     | Rc_completed \<Rightarrow> (Some ''completed'', ''provider_completed'')
     | Rc_failed \<Rightarrow> (Some ''failed'', ''provider_failed'')
     | _ \<Rightarrow> (Some ''pending'', ''provider_pending''))"

definition reconcile_wallet_transaction :: "wallet_env \<Rightarrow> uuid \<Rightarrow> reconcile_status desk_op" where
  "reconcile_wallet_transaction env i =
     bindE (in_wallet (reconcile_transaction env i)) (\<lambda>(st, mode).
     if st = Rc_not_found \<or> st = Rc_missing_provider_reference then retE st
     else
       bindE (in_wallet (reload i)) (\<lambda>t.
       thenE (log_append i (case mode of None \<Rightarrow> ''paystack'' | Some m \<Rightarrow> if m = [] then ''paystack'' else m) (tx_provider_reference t)
           ''manual_reconcile'' (case fst (reconcile_log_mapping st) of None \<Rightarrow> status_word (tx_status t) | Some w \<Rightarrow> w)
           (Some (snd (reconcile_log_mapping st))))
         (retE st)))"

definition pending_deposits :: "wallet_db \<Rightarrow> transaction list" where
  "pending_deposits s = filter (\<lambda>t. tx_type t = ''deposit'' \<and> tx_status t = Tx_PENDING \<and> tx_provider_reference t \<noteq> None
     \<and> tx_origin t = Some ''wallet'') (transactions s)"

text \<open>Counts of the deposits with a provider reference: pending, completed, failed, without reference, all.\<close>

definition deposit_summary :: "wallet_db \<Rightarrow> nat \<times> nat \<times> nat \<times> nat \<times> nat" where
  "deposit_summary s =
     (let rows = filter (\<lambda>t. tx_type t = ''deposit'' \<and> tx_origin t = Some ''wallet'' \<and> tx_provider_reference t \<noteq> None) (transactions s);
          number = (\<lambda>p. length (filter p rows))
      in (number (\<lambda>t. tx_provider_reference t \<noteq> None \<and> tx_status t = Tx_PENDING),
          number (\<lambda>t. tx_provider_reference t \<noteq> None \<and> tx_status t = Tx_COMPLETED),
          number (\<lambda>t. tx_provider_reference t \<noteq> None \<and> (tx_status t = Tx_FAILED \<or> tx_status t = Tx_REVERSED)),
          number (\<lambda>t. tx_provider_reference t = None), length rows))"

end
