(* ===== verification/WalletWebhookProps.thy ===== *)
theory WalletWebhookProps
  imports WalletWebhook WalletDemo
begin

section \<open>What a Paystack webhook can do to the wallet\<close>

lemma in_wallet_Inr: "in_wallet m s = (Inr x, t) \<longleftrightarrow> (\<exists>w. m (op_wallet s) = (Inr x, w) \<and> t = s\<lparr>op_wallet := w\<rparr>)"
  by (simp add: in_wallet_def on_part_Inr)

lemma desk_fresh_Inr [simp]: "desk_fresh s = (Inr i, t) \<longleftrightarrow> i = op_next s \<and> t = s\<lparr>op_next := Suc (op_next s)\<rparr>"
  by (auto simp: desk_fresh_def)

lemma desk_now_Inr [simp]: "desk_now s = (Inr i, t) \<longleftrightarrow> i = clock (op_wallet s) \<and> t = s"
  by (simp add: desk_now_def)

lemma webhook_log_Inr:
  "webhook_log tx event outcome reason s = (Inr u, t) \<Longrightarrow> op_wallet t = op_wallet s \<and> op_inbox t = op_inbox s"
  by (auto simp: webhook_log_def log_append_def)

lemma inbox_record_Inr:
  "inbox_record provider key payload s = (Inr i, t) \<Longrightarrow> op_wallet t = op_wallet s \<and> inbox_seen s key = None
     \<and> ie_key ` set (op_inbox t) = insert key (ie_key ` set (op_inbox s))"
  by (auto simp: inbox_record_def)

lemma inbox_mark_Inr:
  "inbox_mark_processed i s = (Inr u, t) \<Longrightarrow> op_wallet t = op_wallet s \<and> ie_key ` set (op_inbox t) = ie_key ` set (op_inbox s)"
  by (auto simp: inbox_mark_processed_def)

text \<open>The ways the wallet part can change: a confirmation after an exact charge, or a failure.\<close>

definition settles :: "wallet_env \<Rightarrow> dict \<Rightarrow> dict \<Rightarrow> transaction \<Rightarrow> wallet_db \<Rightarrow> wallet_db \<Rightarrow> bool" where
  "settles env payload data t w w' \<longleftrightarrow> tx_status t = Tx_PENDING \<and>
     (if charge_succeeded payload data
      then charge_matches data t \<and> (\<exists>x. confirmer_operation env (tx_id t) ''paystack'' w = (Inr x, w'))
      else dict_get data ''status'' \<in> {V_str ''failed'', V_str ''abandoned'', V_str ''reversed''}
        \<and> (\<exists>x. echouer_operation (tx_id t) ''paystack'' w = (Inr x, w')))"

lemma logged_reply:
  "thenE (webhook_log t event outcome reason) (retE answer) s = (Inr r, u) \<Longrightarrow> op_inbox u = op_inbox s \<and> op_wallet u = op_wallet s"
  by (auto dest: webhook_log_Inr)

lemma settled_reply:
  "bindE (in_wallet m) (\<lambda>_. thenE (webhook_log t event outcome reason) (retE answer)) s = (Inr r, u) \<Longrightarrow>
     op_inbox u = op_inbox s \<and> (\<exists>x. m (op_wallet s) = (Inr x, op_wallet u))"
  by (auto simp: in_wallet_Inr dest!: webhook_log_Inr)

lemma apply_charge_Inr:
  assumes "apply_charge env t payload data s = (Inr r, u)"
  shows "op_inbox u = op_inbox s \<and> (op_wallet u = op_wallet s \<or> settles env payload data t (op_wallet s) (op_wallet u))"
proof -
  consider "tx_status t \<noteq> Tx_PENDING" | "tx_status t = Tx_PENDING" "charge_succeeded payload data"
    | "tx_status t = Tx_PENDING" "\<not> charge_succeeded payload data" by blast
  then show ?thesis
  proof cases
    case 1
    with assms show ?thesis by (auto simp: apply_charge_def Let_def dest: webhook_log_Inr)
  next
    case 2
    with assms show ?thesis
      by (cases "charge_matches data t") (auto simp: apply_charge_def Let_def settles_def in_wallet_Inr dest!: webhook_log_Inr)
  next
    case 3
    with assms show ?thesis
      by (auto simp: apply_charge_def Let_def settles_def in_wallet_Inr dest!: webhook_log_Inr split: pyval.splits if_splits)
  qed
qed

lemma referenced_event_Inr:
  assumes "referenced_event env payload data reference s = (Inr r, u)"
  shows "op_wallet u = op_wallet s
    \<or> (inbox_seen s (webhook_key payload reference) = None \<and> webhook_key payload reference \<in> ie_key ` set (op_inbox u)
      \<and> (\<exists>t. get_by_provider_reference (op_wallet s) reference = Some t \<and> settles env payload data t (op_wallet s) (op_wallet u)))"
proof (cases "get_by_provider_reference (op_wallet s) reference")
  case None
  with assms show ?thesis by (simp add: referenced_event_def)
next
  case (Some t)
  show ?thesis
  proof (cases "inbox_seen s (webhook_key payload reference)")
    case None
    with assms Some obtain i v w where "inbox_record ''paystack'' (webhook_key payload reference) (V_dict payload) s = (Inr i, v)"
      "apply_charge env t payload data v = (Inr r, w)" "inbox_mark_processed i w = (Inr (), u)"
      by (auto simp: referenced_event_def)
    from inbox_record_Inr [OF this(1)] apply_charge_Inr [OF this(2)] inbox_mark_Inr [OF this(3)] Some None
    show ?thesis by auto
  next
    case (Some e)
    with assms \<open>get_by_provider_reference (op_wallet s) reference = Some t\<close> show ?thesis
      by (auto simp: referenced_event_def dest: webhook_log_Inr)
  qed
qed

text \<open>A signed notification with its members.\<close>

definition signed_notice :: "(string \<Rightarrow> string \<Rightarrow> string) \<Rightarrow> (string \<Rightarrow> pyval option) \<Rightarrow> string \<Rightarrow> string \<Rightarrow> string option \<Rightarrow>
    dict \<Rightarrow> dict \<Rightarrow> string \<Rightarrow> bool" where
  "signed_notice hmac_sha512 loads secret raw_body signature payload data reference \<longleftrightarrow>
     secret \<noteq> [] \<and> signature = Some (hmac_sha512 secret raw_body) \<and> loads raw_body = Some (V_dict payload)
     \<and> py_or (dict_get payload ''data'') (V_dict []) = V_dict data \<and> dict_get data ''reference'' = V_str reference"

lemma paystack_webhook_Inr:
  assumes "paystack_webhook hmac_sha512 loads env secret raw_body signature s = (Inr r, u)"
  shows "op_wallet u = op_wallet s \<or> (\<exists>payload data reference. signed_notice hmac_sha512 loads secret raw_body signature payload data reference
     \<and> referenced_event env payload data reference s = (Inr r, u))"
  using assms
  by (auto simp: paystack_webhook_def webhook_body_def signed_notice_def split: if_splits option.splits pyval.splits)

text \<open>
  C9: a Paystack callback changes the wallet only when it carries the HMAC of its body, names the
  provider reference of a pending transaction and was not seen before, and then it either confirms that
  transaction, for a successful charge of exactly its amount and currency, or fails it.
\<close>

theorem wallet_webhook_needs_exact_charge:
  assumes "paystack_webhook hmac_sha512 loads env secret raw_body signature s = (Inr r, u)" "op_wallet u \<noteq> op_wallet s"
  shows "\<exists>payload data reference t. signed_notice hmac_sha512 loads secret raw_body signature payload data reference
     \<and> get_by_provider_reference (op_wallet s) reference = Some t \<and> tx_status t = Tx_PENDING
     \<and> inbox_seen s (webhook_key payload reference) = None
     \<and> (if charge_succeeded payload data
        then provider_amount (dict_get data ''amount'') = tx_amount t
          \<and> Some (upper (py_str (py_or (dict_get data ''currency'') (V_str [])))) = tx_currency t
          \<and> (\<exists>x. confirmer_operation env (tx_id t) ''paystack'' (op_wallet s) = (Inr x, op_wallet u))
        else \<exists>x. echouer_operation (tx_id t) ''paystack'' (op_wallet s) = (Inr x, op_wallet u))"
proof -
  from paystack_webhook_Inr [OF assms(1)] assms(2) obtain payload data reference
    where n: "signed_notice hmac_sha512 loads secret raw_body signature payload data reference"
      and e: "referenced_event env payload data reference s = (Inr r, u)" by blast
  from referenced_event_Inr [OF e] assms(2) obtain t where t: "get_by_provider_reference (op_wallet s) reference = Some t"
      "inbox_seen s (webhook_key payload reference) = None" "settles env payload data t (op_wallet s) (op_wallet u)" by blast
  from n t show ?thesis by (intro exI conjI) (auto simp: settles_def charge_matches_def)
qed

subsection \<open>A delivery\<close>

definition demo_desk :: wallet_desk where
  "demo_desk = empty_desk\<lparr>op_wallet := demo_pending\<rparr>"

definition demo_charge :: dict where
  "demo_charge = [(''event'', V_str ''charge.success''), (''data'', V_dict [(''reference'', V_str ''stub-18''),
     (''amount'', V_int 500000), (''currency'', V_str ''XOF''), (''status'', V_str ''success'')])]"

definition demo_delivery :: "webhook_reply desk_op" where
  "demo_delivery = paystack_webhook (\<lambda>k b. k @ b) (\<lambda>b. Some (V_dict demo_charge)) demo_env ''k'' ''b'' (Some ''kb'')"

lemma demo_delivered:
  "\<exists>r t. demo_delivery demo_desk = (Inr r, t) \<and> op_wallet t \<noteq> op_wallet demo_desk"
proof -
  have "case demo_delivery demo_desk of (Inl e, t) \<Rightarrow> False | (Inr r, t) \<Rightarrow> length (entries (op_wallet t)) = 2" by code_simp
  moreover have "length (entries (op_wallet demo_desk)) = 0" by code_simp
  ultimately show ?thesis by (auto split: prod.splits sum.splits)
qed

theorem wallet_webhook_needs_exact_charge_witness:
  "\<exists>r u payload data reference. demo_delivery demo_desk = (Inr r, u)
     \<and> signed_notice (\<lambda>k b. k @ b) (\<lambda>b. Some (V_dict demo_charge)) ''k'' ''b'' (Some ''kb'') payload data reference
     \<and> inbox_seen demo_desk (webhook_key payload reference) = None"
proof -
  from demo_delivered obtain r t where d: "demo_delivery demo_desk = (Inr r, t)" "op_wallet t \<noteq> op_wallet demo_desk" by blast
  from wallet_webhook_needs_exact_charge [OF d [unfolded demo_delivery_def]] d(1) show ?thesis by blast
qed

end
