(* ===== verification/WalletSweepProps.thy ===== *)
theory WalletSweepProps
  imports WalletSweep WalletWebhookProps
begin

section \<open>The wallet with its webhook and maintenance refines the wallet\<close>

text \<open>
  Whatever the webhook, the operators and the maintenance jobs do to the wallet is a sequence of wallet
  requests, each committed or undone as a whole. So the properties of the reachable wallets hold with
  them too.
\<close>

subsection \<open>Requests\<close>

datatype desk_request =
    Desk_wallet wallet_request
  | Desk_webhook string "string option"
  | Desk_reconcile uuid
  | Desk_sweep
  | Desk_relay
  | Desk_housekeeping
  | Desk_kyc uuid string string string "string option"
  | Desk_backfill uuid "string option" string

record desk_env =
  de_wallet :: wallet_env
  de_hmac :: "string \<Rightarrow> string \<Rightarrow> string"
  de_loads :: "string \<Rightarrow> pyval option"
  de_secret :: string
  de_bus :: "outbox_event \<Rightarrow> bool"

definition desk_done :: "'a desk_op \<Rightarrow> unit desk_op" where
  "desk_done m = bindE m (\<lambda>_. retE ())"

fun run_desk :: "desk_env \<Rightarrow> desk_request \<Rightarrow> unit desk_op" where
  "run_desk env (Desk_wallet r) = atomically (in_wallet (run_request (de_wallet env) r))"
| "run_desk env (Desk_webhook body signature) =
     atomically (desk_done (paystack_webhook (de_hmac env) (de_loads env) (de_wallet env) (de_secret env) body signature))"
| "run_desk env (Desk_reconcile i) = atomically (desk_done (reconcile_wallet_transaction (de_wallet env) i))"
| "run_desk env Desk_sweep = desk_done (in_wallet (wallet_sweep (de_wallet env)))"
| "run_desk env Desk_relay = desk_done (relay_outbox (de_bus env))"
| "run_desk env Desk_housekeeping = desk_done (housekeeping (de_wallet env) (de_bus env))"
| "run_desk env (Desk_kyc user file ty status source) = atomically (desk_done (kyc_add user file ty status source))"
| "run_desk env (Desk_backfill user phone ty) = atomically (desk_done (in_wallet (backfill_wallet user phone ty)))"

subsection \<open>Computations made of wallet requests\<close>

text \<open>On return, and in every case.\<close>

definition returns_served :: "wallet_env \<Rightarrow> 'a desk_op \<Rightarrow> bool" where
  "returns_served env m \<longleftrightarrow> (\<forall>s x t. m s = (Inr x, t) \<longrightarrow> (\<exists>rs. op_wallet t = serve env rs (op_wallet s)))"

definition always_served :: "wallet_env \<Rightarrow> 'a desk_op \<Rightarrow> bool" where
  "always_served env m \<longleftrightarrow> (\<forall>s. \<exists>rs. op_wallet (snd (m s)) = serve env rs (op_wallet s))"

lemma serve_append: "serve env (rs @ rs') s = serve env rs' (serve env rs s)"
  by (induction rs arbitrary: s) auto

lemma served_trans: "u = serve env rs s \<Longrightarrow> t = serve env rs' u \<Longrightarrow> \<exists>qs. t = serve env qs s"
  by (metis serve_append)

lemma served_refl: "\<exists>rs. s = serve env rs s"
  by (rule exI [of _ "[]"]) simp

lemma always_returns: "always_served env m \<Longrightarrow> returns_served env m"
  unfolding always_served_def returns_served_def by (metis snd_conv)

lemma always_atomically: "returns_served env m \<Longrightarrow> always_served env (atomically m)"
  unfolding returns_served_def always_served_def atomically_def
  by (auto split: prod.splits sum.splits intro: served_refl)

lemma returns_bindE:
  assumes "returns_served env m" "\<And>x. returns_served env (f x)"
  shows "returns_served env (bindE m f)"
  unfolding returns_served_def bindE_Inr
proof (intro allI impI, elim exE conjE)
  fix s y t x u
  assume "m s = (Inr x, u)" "f x u = (Inr y, t)"
  with assms obtain rs rs' where "op_wallet u = serve env rs (op_wallet s)" "op_wallet t = serve env rs' (op_wallet u)"
    unfolding returns_served_def by blast
  then show "\<exists>rs. op_wallet t = serve env rs (op_wallet s)" by (rule served_trans)
qed

lemma always_bindE:
  assumes "always_served env m" "\<And>x. always_served env (f x)"
  shows "always_served env (bindE m f)"
  unfolding always_served_def
proof
  fix s
  from assms(1) obtain rs where m: "op_wallet (snd (m s)) = serve env rs (op_wallet s)" unfolding always_served_def by blast
  show "\<exists>rs. op_wallet (snd (bindE m f s)) = serve env rs (op_wallet s)"
  proof (cases "m s")
    case (Pair r u)
    show ?thesis
    proof (cases r)
      case (Inl e)
      with Pair m show ?thesis by (auto simp: bindE_def)
    next
      case (Inr x)
      from assms(2) obtain rs' where "op_wallet (snd (f x u)) = serve env rs' (op_wallet u)" unfolding always_served_def by blast
      with served_trans m Pair Inr show ?thesis by (fastforce simp: bindE_def)
    qed
  qed
qed

lemma returns_frame: "(\<And>s x t. m s = (Inr x, t) \<Longrightarrow> op_wallet t = op_wallet s) \<Longrightarrow> returns_served env m"
  unfolding returns_served_def by (metis served_refl)

lemma always_frame: "(\<And>s. op_wallet (snd (m s)) = op_wallet s) \<Longrightarrow> always_served env m"
  unfolding always_served_def by (metis served_refl)

lemma returns_request:
  assumes "\<And>w x w'. m w = (Inr x, w') \<Longrightarrow> \<exists>r. run_request env r w = (Inr (), w')"
  shows "returns_served env (in_wallet m)"
  unfolding returns_served_def in_wallet_Inr
proof (intro allI impI, elim exE conjE)
  fix s x t w
  assume "m (op_wallet s) = (Inr x, w)" "t = s\<lparr>op_wallet := w\<rparr>"
  with assms obtain r where "run_request env r (op_wallet s) = (Inr (), w)" by blast
  with \<open>t = _\<close> have "op_wallet t = serve env [r] (op_wallet s)" by (simp add: atomically_def)
  then show "\<exists>rs. op_wallet t = serve env rs (op_wallet s)" by blast
qed

lemma done_with_returns: "m w = (Inr x, w') \<Longrightarrow> done_with m w = (Inr (), w')"
  by (auto simp: done_with_def)

lemma returns_done_with: "(\<And>x. done_with m = run_request env r) \<Longrightarrow> returns_served env (in_wallet m)"
  by (rule returns_request) (metis done_with_returns)

subsection \<open>The operations\<close>

lemma returns_confirmer: "returns_served env (in_wallet (confirmer_operation env i mode))"
  by (rule returns_done_with [of _ _ "Confirm i mode"]) simp

lemma returns_echouer: "returns_served env (in_wallet (echouer_operation i mode))"
  by (rule returns_done_with [of _ _ "Fail i mode"]) simp

lemma returns_reconcile: "returns_served env (in_wallet (reconcile_transaction env i))"
  by (rule returns_done_with [of _ _ "Reconcile i"]) simp

lemma returns_webhook_parts:
  "returns_served env (retE x)" "returns_served env (raiseE e)" "returns_served env (webhook_log t ev outcome reason)"
  "returns_served env (inbox_record provider key payload)" "returns_served env (inbox_mark_processed n)"
  "returns_served env (readE f)" "returns_served env (ensure b e)" "returns_served env (log_append i provider ref ev outcome r)"
  "returns_served env (in_wallet (reload i))"
  by (rule returns_frame; auto simp: in_wallet_Inr log_append_def dest: webhook_log_Inr inbox_record_Inr inbox_mark_Inr)+

lemma returns_thenE: "returns_served env m \<Longrightarrow> returns_served env n \<Longrightarrow> returns_served env (thenE m n)"
  unfolding thenE_def by (rule returns_bindE)

lemmas returns_intros = returns_bindE returns_thenE returns_webhook_parts returns_confirmer returns_echouer returns_reconcile

lemma returns_apply_charge: "returns_served env (apply_charge env t payload data)"
  unfolding apply_charge_def Let_def
  by (auto intro!: returns_intros split: pyval.splits)

lemma returns_referenced_event: "returns_served env (referenced_event env payload data reference)"
  unfolding referenced_event_def
  by (auto intro!: returns_intros returns_apply_charge split: option.splits)

lemma returns_paystack_webhook: "returns_served env (paystack_webhook hm loads env secret body signature)"
  unfolding paystack_webhook_def webhook_body_def
  by (auto intro!: returns_intros returns_referenced_event split: option.splits pyval.splits)

lemma returns_reconcile_wallet_transaction: "returns_served env (reconcile_wallet_transaction env i)"
  unfolding reconcile_wallet_transaction_def by (auto intro!: returns_intros split: prod.splits)

lemma in_wallet_atomically: "in_wallet (atomically m) = atomically (in_wallet m)"
  by (auto simp: in_wallet_def on_part_def atomically_def fun_eq_iff split: prod.splits sum.splits)

lemma in_wallet_bindE: "in_wallet (bindE m f) = bindE (in_wallet m) (\<lambda>x. in_wallet (f x))"
  by (auto simp: in_wallet_def on_part_def bindE_def fun_eq_iff split: prod.splits sum.splits)

lemma in_wallet_frame: "(\<And>w x w'. m w = (Inr x, w') \<Longrightarrow> w' = w) \<Longrightarrow> returns_served env (in_wallet m)"
  by (rule returns_frame) (auto simp: in_wallet_Inr)

lemma always_reconcile_deposit: "always_served env (in_wallet (reconcile_deposit env i))"
  unfolding reconcile_deposit_def in_wallet_atomically in_wallet_bindE
  by (intro always_atomically returns_bindE returns_reconcile in_wallet_frame) (auto split: prod.splits)

lemma always_sweep_each: "always_served env (in_wallet (sweep_each env ts r))"
proof (induction ts arbitrary: r)
  case Nil
  show ?case by (rule always_frame) (simp add: in_wallet_def on_part_def retE_def)
next
  case (Cons t ts)
  show ?case by (simp add: in_wallet_bindE) (intro always_bindE always_reconcile_deposit Cons)
qed

lemma always_sweep: "always_served env (in_wallet (wallet_sweep env))"
  unfolding wallet_sweep_def in_wallet_bindE
  by (intro always_bindE always_sweep_each, rule always_frame) (simp add: in_wallet_def on_part_def readE_def)

lemma returns_publish_each: "returns_served env (publish_each bus es n)"
proof (induction es arbitrary: n)
  case Nil
  show ?case by (simp add: returns_webhook_parts)
next
  case (Cons e es)
  have "returns_served env (modE (\<lambda>s. s\<lparr>op_published := op_published s @ [e]\<rparr>))" by (rule returns_frame) auto
  moreover have "returns_served env (in_wallet (mark_published (ob_id e)))"
    by (rule returns_request, rule exI [of _ "Mark_published (ob_id e)"]) (simp add: mark_published_def)
  ultimately show ?case by (simp add: returns_thenE returns_webhook_parts Cons)
qed

lemma always_relay: "always_served env (relay_outbox bus)"
  using returns_publish_each [of env bus] unfolding returns_served_def always_served_def relay_outbox_def Let_def
  by (auto split: prod.splits sum.splits intro: served_refl)

lemma always_desk_done: "always_served env m \<Longrightarrow> always_served env (desk_done m)"
  unfolding desk_done_def by (rule always_bindE) (auto intro: always_frame simp: retE_def)

lemma returns_desk_done: "returns_served env m \<Longrightarrow> returns_served env (desk_done m)"
  unfolding desk_done_def by (intro returns_intros)

lemma always_housekeeping: "always_served env (housekeeping env bus)"
  unfolding housekeeping_def
  by (intro always_bindE always_sweep always_relay) (auto intro: always_frame simp: retE_def)

lemma returns_kyc_add: "returns_served env (kyc_add user file ty status source)"
  by (rule returns_frame) (auto simp: kyc_add_def Let_def)

lemma returns_provisioning:
  "returns_served env (in_wallet (provisionner_compte u))" "returns_served env (in_wallet (provisionner_compte_marchand u))"
  "p \<noteq> [] \<Longrightarrow> returns_served env (in_wallet (phone_upsert u p))"
  by (rule returns_request, rule exI [of _ "User_registered (Some u) None"], simp add: on_user_registered_def)
    (rule returns_done_with [of _ _ "Open_merchant u"], simp,
     rule returns_request, rule exI [of _ "User_updated (Some u) (Some p)"], simp add: on_user_updated_def)

lemma in_wallet_retE: "in_wallet (retE x) = retE x"
  by (simp add: in_wallet_def on_part_def retE_def)

lemma returns_backfill: "returns_served env (in_wallet (backfill_wallet u phone ty))"
  unfolding backfill_wallet_def in_wallet_bindE
  by (intro returns_bindE)
    (auto simp: returns_provisioning thenE_def in_wallet_bindE in_wallet_retE whenE_def returns_webhook_parts
      split: option.splits intro!: returns_bindE)

lemma returns_run_request: "returns_served env (in_wallet (run_request env r))"
  by (rule returns_request) (metis old.unit.exhaust)

lemma always_run_desk: "always_served (de_wallet env) (run_desk env q)"
  by (cases q; simp only: run_desk.simps;
      intro always_atomically always_desk_done always_sweep always_relay always_housekeeping returns_desk_done
        returns_paystack_webhook returns_reconcile_wallet_transaction returns_kyc_add returns_backfill returns_run_request)

text \<open>
  C5: every request of the wallet with its webhook, its operators and its maintenance jobs, returning or
  raising, changes the wallet as some sequence of wallet requests does, each committed or undone as a whole.
\<close>

theorem desk_refines_wallet:
  "\<exists>rs. op_wallet (snd (run_desk env q s)) = serve (de_wallet env) rs (op_wallet s)"
  using always_run_desk [of env q] unfolding always_served_def by blast

text \<open>So every wallet the whole reaches is a reachable wallet, and its properties hold there.\<close>

inductive desk_reachable :: "desk_env \<Rightarrow> wallet_desk \<Rightarrow> bool" for env where
  desk_start: "desk_reachable env empty_desk"
| desk_request: "desk_reachable env s \<Longrightarrow> desk_reachable env (snd (run_desk env q s))"
| desk_tick: "desk_reachable env s \<Longrightarrow> clock (op_wallet s) \<le> t \<Longrightarrow> desk_reachable env (s\<lparr>op_wallet := (op_wallet s)\<lparr>clock := t\<rparr>\<rparr>)"

lemma desk_wallet_reachable: "desk_reachable env s \<Longrightarrow> wallet_reachable (de_wallet env) (op_wallet s)"
proof (induction rule: desk_reachable.induct)
  case desk_start
  show ?case by (simp add: empty_desk_def wallet_reachable.start)
next
  case (desk_request s q)
  have "\<exists>rs. op_wallet (snd (run_desk env q s)) = serve (de_wallet env) rs (op_wallet s)"
    using always_run_desk [of env q] unfolding always_served_def by blast
  with desk_request.IH show ?case by (metis reachable_serve)
next
  case (desk_tick s t)
  then show ?case by (simp add: wallet_reachable.tick)
qed

subsection \<open>Notifications delivered again\<close>

text \<open>No request, returning or raising, takes a key out of the inbox.\<close>

definition inbox_keys :: "wallet_desk \<Rightarrow> string set" where
  "inbox_keys s = ie_key ` set (op_inbox s)"

definition remembers :: "'a desk_op \<Rightarrow> bool" where
  "remembers m \<longleftrightarrow> (\<forall>s. inbox_keys s \<subseteq> inbox_keys (snd (m s)))"

named_theorems remembers_intros \<open>rules that show that a computation keeps the keys of the inbox\<close>

lemma remembers_basic [remembers_intros]:
  "remembers (retE x)" "remembers (raiseE e)" "remembers (readE f)" "remembers (ensure b e)" "remembers (some_or e y)" "remembers (of_sum z)"
  by (auto simp: remembers_def retE_def raiseE_def readE_def ensure_def some_or_def of_sum_def split: option.splits sum.splits)

lemma remembers_modE: "(\<And>s. inbox_keys s \<subseteq> inbox_keys (f s)) \<Longrightarrow> remembers (modE f)"
  by (simp add: remembers_def modE_def)

lemma remembers_bindE [remembers_intros]: "remembers m \<Longrightarrow> (\<And>x. remembers (f x)) \<Longrightarrow> remembers (bindE m f)"
  unfolding remembers_def bindE_def by (auto split: prod.splits sum.splits) (metis snd_conv subsetD)+

lemma remembers_thenE [remembers_intros]: "remembers m \<Longrightarrow> remembers n \<Longrightarrow> remembers (thenE m n)"
  unfolding thenE_def by (intro remembers_intros)

lemma remembers_cases [remembers_intros]:
  "(b \<Longrightarrow> remembers m) \<Longrightarrow> (\<not> b \<Longrightarrow> remembers n) \<Longrightarrow> remembers (if b then m else n)"
  "remembers m \<Longrightarrow> (\<And>y. remembers (f y)) \<Longrightarrow> remembers (case x of None \<Rightarrow> m | Some y \<Rightarrow> f y)"
  "(\<And>a c. remembers (g a c)) \<Longrightarrow> remembers (case q of (a, c) \<Rightarrow> g a c)"
  "(\<And>v. remembers (h v)) \<Longrightarrow> remembers (let v = w in h v)"
  by (auto split: option.splits prod.splits)

lemma remembers_in_wallet [remembers_intros]: "remembers (in_wallet m)"
  by (auto simp: remembers_def in_wallet_def on_part_def inbox_keys_def split: prod.splits sum.splits)

lemma remembers_atomically: "remembers m \<Longrightarrow> remembers (atomically m)"
  unfolding remembers_def atomically_def by (auto split: prod.splits sum.splits) (metis snd_conv subsetD)

lemma remembers_rows [remembers_intros]:
  "remembers desk_fresh" "remembers desk_now" "remembers (log_append i p ref ev out reason)" "remembers (inbox_record p key payload)"
  "remembers (inbox_mark_processed i)" "remembers (kyc_add user file ty status source)"
  unfolding desk_fresh_def desk_now_def log_append_def inbox_record_def inbox_mark_processed_def kyc_add_def
  by (intro remembers_intros remembers_modE; auto simp: inbox_keys_def)+

lemma remembers_apply_charge [remembers_intros]: "remembers (apply_charge env t payload data)"
  unfolding apply_charge_def webhook_log_def
  by (cases "dict_get data ''status''") (simp_all only: pyval.case Let_def, (intro remembers_intros)+)

lemma remembers_paystack_webhook: "remembers (paystack_webhook hmac_sha512 loads env secret raw_body signature)"
proof -
  have body: "remembers (webhook_body env payload)" for payload
    unfolding webhook_body_def referenced_event_def webhook_log_def
    by (intro remembers_intros | simp only: pyval.case split: pyval.split | intro conjI allI impI)+
  show ?thesis
    unfolding paystack_webhook_def
    by (intro remembers_intros body | simp only: split: pyval.split | intro conjI allI impI)+
qed

lemma remembers_relay_outbox [remembers_intros]: "remembers (relay_outbox bus)"
proof -
  have each: "remembers (publish_each bus rows n)" for rows n
  proof (induction rows arbitrary: n)
    case (Cons e es)
    show ?case
      by (simp only: publish_each.simps) (intro remembers_intros remembers_modE Cons.IH; simp add: inbox_keys_def)
  qed (simp add: remembers_intros)
  then show ?thesis
    unfolding remembers_def relay_outbox_def Let_def
    by (auto simp: inbox_keys_def split: prod.splits sum.splits) (metis (no_types, lifting) image_eqI image_iff snd_conv subsetD)
qed

lemma remembers_run_desk: "remembers (run_desk env q)"
  by (cases q; simp only: run_desk.simps desk_done_def reconcile_wallet_transaction_def housekeeping_def;
    (rule remembers_atomically)?; intro remembers_intros remembers_paystack_webhook)

text \<open>What may happen between two deliveries: any requests, and time passes.\<close>

inductive desk_later :: "desk_env \<Rightarrow> wallet_desk \<Rightarrow> wallet_desk \<Rightarrow> bool" for env s where
  later_now: "desk_later env s s"
| later_request: "desk_later env s t \<Longrightarrow> desk_later env s (snd (run_desk env q t))"
| later_tick: "desk_later env s t \<Longrightarrow> clock (op_wallet t) \<le> c \<Longrightarrow> desk_later env s (t\<lparr>op_wallet := (op_wallet t)\<lparr>clock := c\<rparr>\<rparr>)"

lemma later_remembers: "desk_later env s t \<Longrightarrow> inbox_keys s \<subseteq> inbox_keys t"
proof (induction rule: desk_later.induct)
  case (later_request t q)
  with remembers_run_desk [of env q] show ?case unfolding remembers_def by blast
qed (simp_all add: inbox_keys_def)

text \<open>The answers to a notification that was not recorded: it was not read, or names no transaction of the wallet.\<close>

definition unrecorded :: "webhook_reply \<Rightarrow> bool" where
  "unrecorded r \<longleftrightarrow> wr_reason r \<in> {''missing_secret'', ''signature_mismatch'', ''missing_reference'', ''no_local_transaction''}"

lemma answered_is_recorded:
  assumes "paystack_webhook hmac_sha512 loads env secret raw_body signature s = (Inr r, t)" "\<not> unrecorded r"
  shows "\<exists>payload data reference. signed_notice hmac_sha512 loads secret raw_body signature payload data reference
     \<and> webhook_key payload reference \<in> inbox_keys t"
proof -
  from assms obtain payload data reference where n: "signed_notice hmac_sha512 loads secret raw_body signature payload data reference"
      and e: "referenced_event env payload data reference s = (Inr r, t)"
    by (auto simp: paystack_webhook_def webhook_body_def signed_notice_def unrecorded_def wr_def split: if_splits option.splits pyval.splits)
  have "webhook_key payload reference \<in> inbox_keys t"
  proof (cases "inbox_seen s (webhook_key payload reference)")
    case None
    with e assms(2) obtain tx i v w where "inbox_record ''paystack'' (webhook_key payload reference) (V_dict payload) s = (Inr i, v)"
      "apply_charge env tx payload data v = (Inr r, w)" "inbox_mark_processed i w = (Inr (), t)"
      by (auto simp: referenced_event_def unrecorded_def wr_def split: option.splits)
    from inbox_record_Inr [OF this(1)] apply_charge_Inr [OF this(2)] inbox_mark_Inr [OF this(3)] show ?thesis
      by (auto simp: inbox_keys_def)
  next
    case (Some x)
    with e assms(2) have "op_inbox t = op_inbox s"
      by (auto simp: referenced_event_def unrecorded_def wr_def split: option.splits dest: webhook_log_Inr)
    with Some show ?thesis by (auto simp: inbox_keys_def inbox_seen_def dest!: lookup_row_SomeD intro: rev_image_eqI)
  qed
  with n show ?thesis by blast
qed

text \<open>
  C10: a notification that found its transaction is taken once: after its first answer, and after any
  requests and any time, the same notification leaves the wallet as it is, whether it returns or raises. A
  notification answered as unreadable or of an unknown reference is not recorded and not covered: delivered
  again when its transaction exists, it is taken then.
\<close>

theorem wallet_webhook_applied_once:
  assumes first: "paystack_webhook (de_hmac env) (de_loads env) (de_wallet env) (de_secret env) raw_body signature s = (Inr r, t)" "\<not> unrecorded r"
    and later: "desk_later env t u"
    and again: "paystack_webhook (de_hmac env) (de_loads env) (de_wallet env) (de_secret env) raw_body signature u = (x, v)"
  shows "op_wallet v = op_wallet u"
proof -
  from answered_is_recorded [OF first] obtain payload data reference
    where n: "signed_notice (de_hmac env) (de_loads env) (de_secret env) raw_body signature payload data reference"
      and k: "webhook_key payload reference \<in> inbox_keys t" by blast
  with later_remembers [OF later] have seen: "inbox_seen u (webhook_key payload reference) \<noteq> None"
    by (auto simp: inbox_seen_def inbox_keys_def lookup_row_None_iff)
  have quiet: "op_wallet (snd (referenced_event (de_wallet env) payload data reference u)) = op_wallet u"
    using seen by (auto simp: referenced_event_def webhook_log_def log_append_def desk_fresh_def desk_now_def op_defs split: option.splits)
  from n again have "op_wallet v = op_wallet u \<or> referenced_event (de_wallet env) payload data reference u = (x, v)"
    by (auto simp: paystack_webhook_def webhook_body_def signed_notice_def ensure_def thenE_def bindE_def raiseE_def retE_def
      split: if_splits option.splits pyval.splits)
  with quiet show ?thesis by auto
qed

definition demo_desk_env :: desk_env where
  "demo_desk_env = \<lparr>de_wallet = demo_env, de_hmac = (\<lambda>k b. k @ b), de_loads = (\<lambda>b. Some (V_dict demo_charge)), de_secret = ''k'', de_bus = (\<lambda>_. True)\<rparr>"

theorem wallet_webhook_applied_once_witness:
  "\<exists>r t x v. demo_delivery demo_desk = (Inr r, t) \<and> length (entries (op_wallet t)) = 2
     \<and> demo_delivery (snd (run_desk demo_desk_env Desk_relay t)) = (x, v) \<and> length (entries (op_wallet v)) = 2"
proof -
  have env: "demo_delivery = paystack_webhook (de_hmac demo_desk_env) (de_loads demo_desk_env) (de_wallet demo_desk_env) (de_secret demo_desk_env)
      ''b'' (Some ''kb'')"
    by (simp add: demo_delivery_def demo_desk_env_def)
  have "case fst (demo_delivery demo_desk) of Inl e \<Rightarrow> False | Inr r \<Rightarrow> wr_reason r = ''charge_success''" by code_simp
  then obtain r d where first: "demo_delivery demo_desk = (Inr r, d)" and taken: "\<not> unrecorded r"
    by (cases "demo_delivery demo_desk") (auto simp: unrecorded_def split: sum.splits)
  obtain x v where again: "demo_delivery (snd (run_desk demo_desk_env Desk_relay d)) = (x, v)" by fastforce
  have "length (entries (op_wallet (snd (demo_delivery demo_desk)))) = 2"
    "length (entries (op_wallet (snd (run_desk demo_desk_env Desk_relay (snd (demo_delivery demo_desk)))))) = 2"
    by code_simp+
  moreover have "op_wallet v = op_wallet (snd (run_desk demo_desk_env Desk_relay d))"
    by (rule wallet_webhook_applied_once [OF first [unfolded env] taken later_request [OF later_now] again [unfolded env]])
  ultimately show ?thesis using first again by auto
qed

end
