(* ===== verification/WalletRelay.thy ===== *)
theory WalletRelay
  imports WalletSweepProps
begin

section \<open>The relay empties the outbox, a failing gateway stops the sweep\<close>

subsection \<open>One run of the relay\<close>

definition is_pending :: "outbox_event \<Rightarrow> bool" where
  "is_pending e \<longleftrightarrow> ob_status e = Ob_PENDING"

definition awaiting :: "wallet_desk \<Rightarrow> outbox_event list" where
  "awaiting s = filter is_pending (outbox (op_wallet s))"

definition marked :: "uuid set \<Rightarrow> instant \<Rightarrow> outbox_event \<Rightarrow> outbox_event" where
  "marked K t e = (if ob_id e \<in> K then e\<lparr>ob_status := Ob_PUBLISHED, ob_published := Some t\<rparr> else e)"

lemma marked_simps [simp]:
  "ob_id (marked K t e) = ob_id e" "is_pending (marked K t e) \<longleftrightarrow> is_pending e \<and> ob_id e \<notin> K" "marked {} t = id"
  by (auto simp: marked_def is_pending_def)

lemma mark_published_run:
  "in_wallet (mark_published i) s =
     (Inr (), s\<lparr>op_wallet := (op_wallet s)\<lparr>outbox := map (marked {i} (clock (op_wallet s))) (outbox (op_wallet s))\<rparr>\<rparr>)"
  by (simp add: in_wallet_def on_part_def mark_published_def now_def op_defs update_row_def marked_def cong: if_cong)

lemma publish_each_run:
  "\<forall>e \<in> set es. bus e \<Longrightarrow> publish_each bus es n s = (Inr (n + length es),
     s\<lparr>op_published := op_published s @ es,
       op_wallet := (op_wallet s)\<lparr>outbox := map (marked (ob_id ` set es) (clock (op_wallet s))) (outbox (op_wallet s))\<rparr>\<rparr>)"
proof (induction es arbitrary: n s)
  case Nil
  show ?case by (simp add: retE_def)
next
  case (Cons e es)
  have twice: "marked (ob_id ` set es) t \<circ> marked {ob_id e} t = marked (ob_id ` set (e # es)) t" for t
    by (auto simp: marked_def fun_eq_iff)
  from Cons show ?case
    by (simp add: thenE_def ensure_def bindE_def retE_def modE_def mark_published_run twice [simplified])
qed

lemma filter_not_taken:
  assumes "distinct (map f rows)"
  shows "filter (\<lambda>e. P e \<and> f e \<notin> f ` set (take k (filter P rows))) rows = drop k (filter P rows)"
proof -
  let ?ys = "filter P rows"
  have ys: "distinct (map f (take k ?ys @ drop k ?ys))" using assms by (simp add: distinct_map_filter)
  have "filter (\<lambda>e. f e \<notin> f ` set (take k ?ys)) (take k ?ys @ drop k ?ys) = drop k ?ys"
    using ys by (auto simp only: filter_append map_append distinct_append set_map filter_empty_conv filter_id_conv append_self_conv2)
      (auto simp: filter_empty_conv filter_id_conv)
  then show ?thesis by (simp add: filter_filter conj_commute)
qed

lemma relay_step:
  assumes "\<forall>e \<in> set (outbox (op_wallet s)). bus e" "distinct (map ob_id (outbox (op_wallet s)))"
  defines "t \<equiv> snd (relay_outbox bus s)"
  shows "awaiting t = drop 100 (awaiting s)" "op_published t = op_published s @ take 100 (awaiting s)"
    "map ob_id (outbox (op_wallet t)) = map ob_id (outbox (op_wallet s))"
proof -
  have rows: "outbox_pending (op_wallet s) 100 = take 100 (awaiting s)"
    by (simp add: outbox_pending_def awaiting_def is_pending_def [abs_def])
  have "\<forall>e \<in> set (take 100 (awaiting s)). bus e" using assms(1) by (auto simp: awaiting_def dest!: in_set_takeD)
  then have t: "t = s\<lparr>op_published := op_published s @ take 100 (awaiting s),
      op_wallet := (op_wallet s)\<lparr>outbox := map (marked (ob_id ` set (take 100 (awaiting s))) (clock (op_wallet s))) (outbox (op_wallet s))\<rparr>\<rparr>"
    by (simp add: t_def relay_outbox_def rows publish_each_run Let_def)
  then show "op_published t = op_published s @ take 100 (awaiting s)"
    "map ob_id (outbox (op_wallet t)) = map ob_id (outbox (op_wallet s))" by (simp_all add: comp_def)
  have unmarked: "filter is_pending (map (marked K c) rows) = filter (\<lambda>e. is_pending e \<and> ob_id e \<notin> K) rows" for K c rows
    by (induction rows) (auto simp: marked_def is_pending_def)
  from filter_not_taken [OF assms(2), of is_pending 100]
  show "awaiting t = drop 100 (awaiting s)" by (simp add: t awaiting_def unmarked)
qed

fun relay_runs :: "(outbox_event \<Rightarrow> bool) \<Rightarrow> nat \<Rightarrow> wallet_desk \<Rightarrow> wallet_desk" where
  "relay_runs bus 0 s = s"
| "relay_runs bus (Suc n) s = relay_runs bus n (snd (relay_outbox bus s))"

text \<open>
  C13: when the bus takes what it is given, running the relay once per hundred waiting events, rounded up,
  publishes every waiting event exactly once and in order, and leaves none waiting.
\<close>

theorem relay_publishes_everything:
  assumes "\<forall>e. bus e" "distinct (map ob_id (outbox (op_wallet s)))" "length (awaiting s) \<le> 100 * n"
  shows "awaiting (relay_runs bus n s) = [] \<and> op_published (relay_runs bus n s) = op_published s @ awaiting s"
  using assms(2, 3)
proof (induction n arbitrary: s)
  case 0
  then show ?case by simp
next
  case (Suc n)
  have all: "\<forall>e \<in> set (outbox (op_wallet s)). bus e" using assms(1) by blast
  note step = relay_step [OF all Suc.prems(1)]
  have "distinct (map ob_id (outbox (op_wallet (snd (relay_outbox bus s)))))" using Suc.prems(1) step(3) by simp
  moreover have "length (awaiting (snd (relay_outbox bus s))) \<le> 100 * n" using Suc.prems(2) step(1) by simp
  ultimately have "awaiting (relay_runs bus (Suc n) s) = []
      \<and> op_published (relay_runs bus (Suc n) s) = (op_published s @ take 100 (awaiting s)) @ drop 100 (awaiting s)"
    using Suc.IH [of "snd (relay_outbox bus s)"] by (simp add: step(1, 2))
  then show ?case by (simp only: append_assoc append_take_drop_id)
qed

theorem relay_publishes_everything_witness:
  "awaiting (relay_runs (\<lambda>_. True) 1 (empty_desk\<lparr>op_wallet := demo_state\<rparr>)) = []
     \<and> length (op_published (relay_runs (\<lambda>_. True) 1 (empty_desk\<lparr>op_wallet := demo_state\<rparr>))) = 1"
proof -
  let ?s = "empty_desk\<lparr>op_wallet := demo_state\<rparr>"
  have "distinct (map ob_id (outbox (op_wallet ?s)))" "length (awaiting ?s) \<le> 100 * 1" by code_simp+
  from relay_publishes_everything [of "\<lambda>_. True", OF _ this]
  have "awaiting (relay_runs (\<lambda>_. True) 1 ?s) = [] \<and> op_published (relay_runs (\<lambda>_. True) 1 ?s) = op_published ?s @ awaiting ?s" by simp
  moreover have "length (op_published ?s @ awaiting ?s) = 1" by code_simp
  ultimately show ?thesis by simp
qed

subsection \<open>A gateway that raises\<close>

lemma bindE_raises: "fst (m s) = Inl e \<Longrightarrow> fst (bindE m f s) = Inl e"
  by (cases "m s") (simp add: bindE_def)

lemma atomically_raises: "fst (m s) = Inl e \<Longrightarrow> atomically m s = (Inl e, s)"
  by (cases "m s") (simp add: atomically_def)

lemma reconcile_raises:
  assumes t: "transaction_get w i = Some t" "tx_status t = Tx_PENDING" "tx_provider_reference t = Some reference"
      "tx_gateway_mode t = Some mode" "mode \<noteq> []" "tx_type t = type_str DEPOSIT"
    and g: "gateway_for_mode (we_gateways env) mode = Inr g" "\<forall>n. verifier_depot g n reference = Inl f"
  shows "fst (reconcile_transaction env i w) = Inl (gateway_exception f)"
  using assms
  by (simp add: reconcile_transaction_def bindE_def readE_def of_sum_def retE_def raiseE_def fresh_def modE_def thenE_def type_str_inj)

text \<open>
  When the gateway cannot verify the first pending deposit of the sweep (a provider that answers with
  an error, a malformed amount), the housekeeping job raises there: no other operation is reconciled and no
  event is relayed, in this run and in every later one as long as that deposit stays first.
\<close>

theorem housekeeping_stops_at_first_failure:
  assumes first: "pending_operations (op_wallet s) = t # rest"
    and t: "transaction_get (op_wallet s) (tx_id t) = Some t" "tx_provider_reference t = Some reference"
      "tx_gateway_mode t = Some mode" "mode \<noteq> []" "tx_type t = type_str DEPOSIT"
    and g: "gateway_for_mode (we_gateways env) mode = Inr g" "\<forall>n. verifier_depot g n reference = Inl f"
  shows "housekeeping env bus s = (Inl (gateway_exception f), s)"
proof -
  have "t \<in> set (pending_operations (op_wallet s))" by (simp add: first)
  then have "tx_status t = Tx_PENDING" by (simp add: pending_operations_def)
  from reconcile_raises [OF t(1) this t(2-5) g] have "reconcile_deposit env (tx_id t) (op_wallet s) = (Inl (gateway_exception f), op_wallet s)"
    unfolding reconcile_deposit_def by (intro atomically_raises bindE_raises)
  then have "wallet_sweep env (op_wallet s) = (Inl (gateway_exception f), op_wallet s)"
    by (simp add: wallet_sweep_def bindE_def readE_def first)
  then show ?thesis by (simp add: housekeeping_def bindE_def in_wallet_def on_part_def)
qed

text \<open>A wallet with a Paystack deposit that Paystack cannot verify, a deposit of another user behind it and a waiting event.\<close>

definition mute_paystack :: paystack_http where
  "mute_paystack = \<lparr>paystack_initialize = (\<lambda>r. Inr (True, \<lparr>pb_reference = pr_reference r, pb_authorization_url = None, pb_access_code = None,
       pb_status = None, pb_amount = None, pb_currency = None\<rparr>)), paystack_verify = (\<lambda>r. Inl Gateway_error)\<rparr>"

definition mute_env :: wallet_env where
  "mute_env = demo_env\<lparr>we_gateways := demo_settings\<lparr>paystack_secret_set := True, paystack_api := mute_paystack,
     payment_gateway_autoconfirm := True\<rparr>\<rparr>"

definition mute_wallet :: wallet_db where
  "mute_wallet = serve mute_env [User_registered (Some 101) (Some ''701''), Deposit 101 ''paystack'' 5000 ''701'' (Some ''e'') ''d1'',
     Deposit 101 ''wave'' 1000 ''701'' None ''d2''] empty_wallet"

theorem housekeeping_stops_at_first_failure_witness:
  "housekeeping mute_env (\<lambda>_. True) (empty_desk\<lparr>op_wallet := mute_wallet\<rparr>) = (Inl RuntimeError, empty_desk\<lparr>op_wallet := mute_wallet\<rparr>)
     \<and> length (awaiting (empty_desk\<lparr>op_wallet := mute_wallet\<rparr>)) = 1"
proof -
  let ?s = "empty_desk\<lparr>op_wallet := mute_wallet\<rparr>"
  have "length (pending_operations (op_wallet ?s)) = 1
      \<and> (let t = hd (pending_operations (op_wallet ?s)) in transaction_get (op_wallet ?s) (tx_id t) = Some t
         \<and> tx_provider_reference t = Some ''3'' \<and> tx_gateway_mode t = Some ''paystack'' \<and> tx_type t = type_str DEPOSIT)"
    by code_simp
  then obtain t where t: "pending_operations (op_wallet ?s) = [t]" "transaction_get (op_wallet ?s) (tx_id t) = Some t"
      "tx_provider_reference t = Some ''3''" "tx_gateway_mode t = Some ''paystack''" "tx_type t = type_str DEPOSIT"
    by (auto simp: length_Suc_conv Let_def)
  have g: "gateway_for_mode (we_gateways mute_env) ''paystack'' = Inr (paystack_gateway mute_paystack)"
    by (simp add: gateway_for_mode_def mute_env_def)
  have f: "\<forall>n. verifier_depot (paystack_gateway mute_paystack) n ''3'' = Inl Gateway_error"
    by (simp add: paystack_gateway_def paystack_verifier_depot_def mute_paystack_def)
  have "length (awaiting ?s) = 1" by code_simp
  with housekeeping_stops_at_first_failure [OF t(1-4) _ t(5) g f, of "\<lambda>_. True"] show ?thesis
    by (simp add: gateway_exception_def)
qed

end
