(* ===== verification/Security.thy ===== *)
theory Security
  imports WalletPins PyValues
begin

section \<open>Tokens and callers\<close>

text \<open>
  \<^verbatim>\<open>core/security.py\<close> and the dependencies that authenticate a caller: \<^verbatim>\<open>wallet/presentation/deps.py\<close>,
  \<^verbatim>\<open>payments/presentation/deps.py\<close> and the \<^verbatim>\<open>require_\<close> functions of the internal routers, with the
  settings of \<^verbatim>\<open>core/config.py\<close> they read. Verifying a JWT (PyJWT with the key set of DiddiFreeID) is a
  parameter: for the checks asked of it and a token it answers with the claims or with an exception.
  The text of an identifier is its numeral, as everywhere in the library.
\<close>

subsection \<open>Exceptions of the HTTP layer\<close>

datatype aexc = A_wallet wexc | A_unauthenticated | A_token_expired | A_forbidden string | A_not_found string | A_bad_request string
  | A_conflict string | A_unprocessable string | A_step_up_invalid | A_step_up_expired | A_validation | A_internal

fun http_code :: "aexc \<Rightarrow> nat" where
  "http_code (A_wallet e) = status_code e"
| "http_code A_unauthenticated = 401"
| "http_code A_token_expired = 401"
| "http_code (A_forbidden _) = 403"
| "http_code (A_not_found _) = 404"
| "http_code (A_bad_request _) = 400"
| "http_code (A_conflict _) = 409"
| "http_code (A_unprocessable _) = 422"
| "http_code A_step_up_invalid = 403"
| "http_code A_step_up_expired = 410"
| "http_code A_validation = 422"
| "http_code A_internal = 500"

subsection \<open>Text\<close>

definition split_on :: "char \<Rightarrow> string \<Rightarrow> string list" where
  "split_on c s = foldr (\<lambda>x parts. if x = c then [] # parts else (x # hd parts) # tl parts) s [[]]"

text \<open>\<open>s.partition(c)\<close> without the separator: what stands before the first \<open>c\<close>, whether there is one, what follows.\<close>

definition partition_at :: "char \<Rightarrow> string \<Rightarrow> string \<times> bool \<times> string" where
  "partition_at c s = (takeWhile (\<lambda>x. x \<noteq> c) s, c \<in> set s, tl (dropWhile (\<lambda>x. x \<noteq> c) s))"

fun words_from :: "string \<Rightarrow> string \<Rightarrow> string list" where
  "words_from w [] = (if w = [] then [] else [w])"
| "words_from w (c # s) = (if is_space_char c then (if w = [] then words_from [] s else w # words_from [] s) else words_from (w @ [c]) s)"

definition words :: "string \<Rightarrow> string list" where
  "words s = words_from [] s"

definition uuid_of_text :: "string \<Rightarrow> uuid option" where
  "uuid_of_text s = (let n = nat (digits_value s) in if uuid_str n = s then Some n else None)"

text \<open>The length bounds of the fields of request bodies.\<close>

definition sized :: "nat \<Rightarrow> nat \<Rightarrow> string \<Rightarrow> bool" where
  "sized lo hi s \<longleftrightarrow> lo \<le> length s \<and> length s \<le> hi"

definition opt_sized :: "nat \<Rightarrow> string option \<Rightarrow> bool" where
  "opt_sized hi x \<longleftrightarrow> (case x of None \<Rightarrow> True | Some s \<Rightarrow> length s \<le> hi)"

subsection \<open>Settings\<close>

record auth_settings =
  as_issuer :: string
  as_step_up_max_ttl :: int
  as_service_audience :: string
  as_service_client_ids :: string
  as_service_keys :: string
  as_key_fallback :: bool
  as_summary_audience :: string
  as_summary_scope :: string
  as_summary_legacy_scope :: string
  as_summary_client :: string
  as_backoffice_audience :: string
  as_backoffice_client_ids :: string
  as_backoffice_read_scope :: string
  as_backoffice_command_scope :: string
  as_support_audience :: string
  as_support_client_ids :: string
  as_support_context_scope :: string
  as_support_refund_scope :: string

definition listed_ids :: "string \<Rightarrow> string list" where
  "listed_ids s = filter (\<lambda>x. x \<noteq> []) (map strip (split_on (CHR '','') s))"

definition key_entry :: "string \<Rightarrow> (string \<times> string) option" where
  "key_entry item = (case partition_at (CHR '':'') (strip item) of (client, sep, key) \<Rightarrow>
     if sep \<and> client \<noteq> [] \<and> key \<noteq> [] then Some (client, key) else None)"

text \<open>A later entry of a client overwrites an earlier one.\<close>

definition service_key_map :: "auth_settings \<Rightarrow> (string \<times> string) list" where
  "service_key_map c = rev (map the (filter (\<lambda>e. e \<noteq> None) (map key_entry (split_on (CHR '','') (as_service_keys c)))))"

definition service_client_ids :: "auth_settings \<Rightarrow> string set" where
  "service_client_ids c = (let configured = set (listed_ids (as_service_client_ids c))
     in if configured \<noteq> {} then configured else fst ` set (service_key_map c))"

subsection \<open>Tokens\<close>

record jwt_check =
  jc_issuer :: "string option"
  jc_audience :: "string option"
  jc_require :: "string list"

datatype jwt_answer = Jwt_claims dict | Jwt_expired | Jwt_error | Jwt_value_error

type_synonym jwt_verifier = "jwt_check \<Rightarrow> string \<Rightarrow> jwt_answer"

record current_user =
  cu_id :: uuid
  cu_role :: string
  cu_status :: string

record service_principal =
  sp_client :: string
  sp_subject :: string
  sp_scopes :: "string set"

definition decode_access_token :: "jwt_verifier \<Rightarrow> string \<Rightarrow> aexc + current_user" where
  "decode_access_token jwt token =
     (case jwt \<lparr>jc_issuer = None, jc_audience = None, jc_require = [''sub'', ''exp'']\<rparr> token of
        Jwt_expired \<Rightarrow> Inl A_token_expired
      | Jwt_error \<Rightarrow> Inl A_unauthenticated
      | Jwt_value_error \<Rightarrow> Inl A_internal
      | Jwt_claims claims \<Rightarrow>
          if dict_get claims ''status'' \<noteq> V_str ''active'' then Inl (A_forbidden ''ACCOUNT_NOT_ACTIVE'')
          else (case uuid_of_text (py_str (dict_get claims ''sub'')) of
              None \<Rightarrow> Inl A_unauthenticated
            | Some u \<Rightarrow> Inr \<lparr>cu_id = u,
                cu_role = (case map_of claims ''role'' of None \<Rightarrow> ''user'' | Some r \<Rightarrow> py_str r), cu_status = ''active''\<rparr>))"

definition text_or_empty :: "pyval \<Rightarrow> string" where
  "text_or_empty v = py_str (py_or v (V_str []))"

definition decode_service_token :: "jwt_verifier \<Rightarrow> auth_settings \<Rightarrow> string \<Rightarrow> string \<Rightarrow> string option \<Rightarrow> string set \<Rightarrow> string set \<Rightarrow>
    aexc + service_principal" where
  "decode_service_token jwt c token audience client_header required allowed =
     (if token = [] \<or> \<not> truthy client_header then Inl A_unauthenticated
      else case jwt \<lparr>jc_issuer = Some (as_issuer c), jc_audience = Some audience,
          jc_require = [''sub'', ''iss'', ''aud'', ''iat'', ''exp'', ''client_id'', ''token_type'']\<rparr> token of
        Jwt_claims claims \<Rightarrow>
          (let client = text_or_empty (dict_get claims ''client_id''); subject = text_or_empty (dict_get claims ''sub'');
               scopes = (case dict_get claims ''scope'' of V_str s \<Rightarrow> set (words s) | _ \<Rightarrow> {})
           in if dict_get claims ''token_type'' \<noteq> V_str ''service'' \<or> dict_get claims ''role'' \<noteq> V_str ''service''
                 \<or> dict_get claims ''status'' \<noteq> V_str ''active'' \<or> \<not> starts_with ''service:'' subject \<or> Some client \<noteq> client_header
              then Inl A_unauthenticated
              else if allowed \<noteq> {} \<and> client \<notin> allowed then Inl (A_forbidden ''SERVICE_CLIENT_FORBIDDEN'')
              else if required \<noteq> {} \<and> scopes \<inter> required = {} then Inl (A_forbidden ''SERVICE_SCOPE_REQUIRED'')
              else Inr \<lparr>sp_client = client, sp_subject = subject, sp_scopes = scopes\<rparr>)
      | _ \<Rightarrow> Inl A_unauthenticated)"

text \<open>\<open>datetime.fromtimestamp(int(v), tz=utc)\<close>: years 1 to 9999.\<close>

definition timestamp :: "pyval \<Rightarrow> instant option" where
  "timestamp v = (case py_int v of Inl _ \<Rightarrow> None
     | Inr t \<Rightarrow> if - 62135596800 \<le> t \<and> t \<le> 253402300799 then Some t else None)"

definition decode_step_up_token :: "jwt_verifier \<Rightarrow> auth_settings \<Rightarrow> string \<Rightarrow> uuid \<Rightarrow> string \<Rightarrow> aexc + step_up_proof" where
  "decode_step_up_token jwt c token user purpose =
     (case jwt \<lparr>jc_issuer = Some (as_issuer c), jc_audience = None, jc_require = [''sub'', ''iss'', ''purpose'', ''jti'', ''iat'', ''exp'']\<rparr> token of
        Jwt_expired \<Rightarrow> Inl A_step_up_expired
      | Jwt_error \<Rightarrow> Inl A_step_up_invalid
      | Jwt_value_error \<Rightarrow> Inl A_internal
      | Jwt_claims claims \<Rightarrow>
          (case (uuid_of_text (py_str (dict_get claims ''sub'')), uuid_of_text (py_str (dict_get claims ''jti'')),
                 timestamp (dict_get claims ''iat''), timestamp (dict_get claims ''exp'')) of
             (Some u, Some jti, Some issued, Some expires) \<Rightarrow>
               if u \<noteq> user \<or> (case map_of claims ''purpose'' of None \<Rightarrow> [] | Some p \<Rightarrow> py_str p) \<noteq> purpose then Inl A_step_up_invalid
               else if as_step_up_max_ttl c < expires - issued then Inl A_step_up_invalid
               else Inr \<lparr>proof_jti = jti, proof_user = u, proof_purpose = purpose, proof_expires = expires\<rparr>
           | _ \<Rightarrow> Inl A_step_up_invalid))"

subsection \<open>Users of the wallet\<close>

text \<open>The credentials are the scheme and the token of the \<^verbatim>\<open>Authorization\<close> header, when it has the two.\<close>

definition get_current_user :: "jwt_verifier \<Rightarrow> (string \<times> string) option \<Rightarrow> aexc + current_user" where
  "get_current_user jwt credentials = (case credentials of None \<Rightarrow> Inl A_unauthenticated
     | Some (scheme, token) \<Rightarrow> if lower scheme \<noteq> ''bearer'' then Inl A_unauthenticated else decode_access_token jwt token)"

definition get_idempotency_key :: "string option \<Rightarrow> aexc + string" where
  "get_idempotency_key header = (case header of None \<Rightarrow> Inl (A_wallet IdempotencyKeyRequired)
     | Some k \<Rightarrow> if k = [] \<or> strip k = [] then Inl (A_wallet IdempotencyKeyRequired) else Inr (strip k))"

definition require_admin :: "current_user \<Rightarrow> aexc + unit" where
  "require_admin u = (if cu_role u \<noteq> ''admin'' then Inl (A_forbidden ''ADMIN_REQUIRED'') else Inr ())"

subsection \<open>Services\<close>

record payment_caller =
  pl_client :: string
  pl_method :: string
  pl_scopes :: "string set"

definition payment_client :: "jwt_verifier \<Rightarrow> auth_settings \<Rightarrow> string \<Rightarrow> string option \<Rightarrow> string option \<Rightarrow> string option \<Rightarrow>
    aexc + payment_caller" where
  "payment_client jwt c scope authorization client_header service_key =
     (if truthy authorization then
        (case partition_at (CHR '' '') (the authorization) of (scheme, _, token) \<Rightarrow>
           if lower scheme \<noteq> ''bearer'' \<or> token = [] then Inl A_unauthenticated
           else map_sum id (\<lambda>p. \<lparr>pl_client = sp_client p, pl_method = ''service_token'', pl_scopes = sp_scopes p\<rparr>)
             (decode_service_token jwt c token (as_service_audience c) client_header {scope} (service_client_ids c)))
      else
        (let client = (case client_header of None \<Rightarrow> [] | Some x \<Rightarrow> x); expected = map_of (service_key_map c) client
         in if as_key_fallback c \<and> client \<noteq> [] \<and> truthy service_key \<and> truthy expected then
              (if \<not> is_ascii (the service_key) \<or> \<not> is_ascii (the expected) then Inl A_internal
               else if service_key = expected then Inr \<lparr>pl_client = client, pl_method = ''legacy_key'', pl_scopes = {}\<rparr>
               else Inl A_unauthenticated)
            else Inl A_unauthenticated))"

definition bearer_token :: "string option \<Rightarrow> aexc + string" where
  "bearer_token authorization = (case authorization of None \<Rightarrow> Inl A_unauthenticated
     | Some h \<Rightarrow> if \<not> starts_with ''Bearer '' h then Inl A_unauthenticated else Inr (strip (drop 7 h)))"

definition and_next :: "'e + 'a \<Rightarrow> ('a \<Rightarrow> 'e + 'b) \<Rightarrow> 'e + 'b" where
  "and_next r f = (case r of Inl e \<Rightarrow> Inl e | Inr x \<Rightarrow> f x)"

definition require_pilotage_service :: "jwt_verifier \<Rightarrow> auth_settings \<Rightarrow> string option \<Rightarrow> string option \<Rightarrow> aexc + service_principal" where
  "require_pilotage_service jwt c authorization client_header =
     (if as_summary_client c = [] then Inl A_unauthenticated
      else and_next (bearer_token authorization) (\<lambda>token.
        if \<not> truthy client_header then Inl A_unauthenticated
        else and_next (decode_service_token jwt c token (as_summary_audience c) client_header
            ({as_summary_scope c} \<union> (if as_summary_legacy_scope c = [] then {} else {as_summary_legacy_scope c})) {as_summary_client c})
          (\<lambda>p. if sp_subject p \<noteq> ''service:pilotage'' then Inl A_unauthenticated else Inr p)))"

definition require_listed_service :: "jwt_verifier \<Rightarrow> auth_settings \<Rightarrow> string \<Rightarrow> string \<Rightarrow> string \<Rightarrow> string option \<Rightarrow> string option \<Rightarrow>
    aexc + service_principal" where
  "require_listed_service jwt c ids audience scope authorization client_header =
     (let allowed = set (listed_ids ids)
      in if allowed = {} then Inl A_unauthenticated
         else and_next (bearer_token authorization) (\<lambda>token. decode_service_token jwt c token audience client_header {scope} allowed))"

definition require_backoffice_reader :: "jwt_verifier \<Rightarrow> auth_settings \<Rightarrow> string option \<Rightarrow> string option \<Rightarrow> aexc + service_principal" where
  "require_backoffice_reader jwt c = require_listed_service jwt c (as_backoffice_client_ids c) (as_backoffice_audience c) (as_backoffice_read_scope c)"

definition require_backoffice_commander :: "jwt_verifier \<Rightarrow> auth_settings \<Rightarrow> string option \<Rightarrow> string option \<Rightarrow> aexc + service_principal" where
  "require_backoffice_commander jwt c = require_listed_service jwt c (as_backoffice_client_ids c) (as_backoffice_audience c) (as_backoffice_command_scope c)"

definition require_support_reader :: "jwt_verifier \<Rightarrow> auth_settings \<Rightarrow> string option \<Rightarrow> string option \<Rightarrow> aexc + service_principal" where
  "require_support_reader jwt c = require_listed_service jwt c (as_support_client_ids c) (as_support_audience c) (as_support_context_scope c)"

definition require_support_refunder :: "jwt_verifier \<Rightarrow> auth_settings \<Rightarrow> string option \<Rightarrow> string option \<Rightarrow> aexc + service_principal" where
  "require_support_refunder jwt c = require_listed_service jwt c (as_support_client_ids c) (as_support_audience c) (as_support_refund_scope c)"

end
