(* ===== verification/SecurityProps.thy ===== *)
theory SecurityProps
  imports Security
begin

section \<open>Who may call\<close>

lemma decode_service_token_Inr:
  assumes "decode_service_token jwt c token audience client_header required allowed = Inr p"
  shows "client_header = Some (sp_client p) \<and> sp_client p \<noteq> [] \<and> starts_with ''service:'' (sp_subject p)
     \<and> token \<noteq> [] \<and> (allowed = {} \<or> sp_client p \<in> allowed) \<and> (required = {} \<or> sp_scopes p \<inter> required \<noteq> {})
     \<and> (\<exists>claims. jwt \<lparr>jc_issuer = Some (as_issuer c), jc_audience = Some audience,
           jc_require = [''sub'', ''iss'', ''aud'', ''iat'', ''exp'', ''client_id'', ''token_type'']\<rparr> token = Jwt_claims claims
         \<and> text_or_empty (dict_get claims ''client_id'') = sp_client p \<and> dict_get claims ''token_type'' = V_str ''service''
         \<and> dict_get claims ''role'' = V_str ''service'' \<and> dict_get claims ''status'' = V_str ''active''
         \<and> starts_with ''service:'' (text_or_empty (dict_get claims ''sub''))
         \<and> sp_scopes p = (case dict_get claims ''scope'' of V_str s \<Rightarrow> set (words s) | _ \<Rightarrow> {}))"
  using assms
  by (auto simp: decode_service_token_def Let_def truthy_def split: if_splits jwt_answer.splits)

lemma payment_client_token:
  assumes "payment_client jwt c scope authorization client_header service_key = Inr p" "truthy authorization"
    "partition_at (CHR '' '') (the authorization) = (scheme, sep, token)"
  shows "lower scheme = ''bearer'' \<and> (\<exists>q. decode_service_token jwt c token (as_service_audience c) client_header {scope} (service_client_ids c) = Inr q
     \<and> p = \<lparr>pl_client = sp_client q, pl_method = ''service_token'', pl_scopes = sp_scopes q\<rparr>)"
proof -
  have "(if lower scheme \<noteq> ''bearer'' \<or> token = [] then Inl A_unauthenticated
     else map_sum id (\<lambda>p. \<lparr>pl_client = sp_client p, pl_method = ''service_token'', pl_scopes = sp_scopes p\<rparr>)
       (decode_service_token jwt c token (as_service_audience c) client_header {scope} (service_client_ids c))) = Inr p"
    using assms(1) unfolding payment_client_def if_P [OF assms(2)] assms(3) prod.case .
  then show ?thesis by (cases "lower scheme \<noteq> ''bearer'' \<or> token = []") (auto simp: map_sum_Inr)
qed

lemma payment_client_key:
  assumes run: "payment_client jwt c scope authorization client_header service_key = Inr p" and none: "\<not> truthy authorization"
  shows "client_header = Some (pl_client p) \<and> pl_client p \<noteq> [] \<and> as_key_fallback c \<and> truthy service_key
     \<and> pl_method p = ''legacy_key'' \<and> pl_scopes p = {} \<and> map_of (service_key_map c) (pl_client p) = service_key"
proof -
  define client where "client = (case client_header of None \<Rightarrow> [] | Some x \<Rightarrow> x)"
  define expected where "expected = map_of (service_key_map c) client"
  have body: "(if as_key_fallback c \<and> client \<noteq> [] \<and> truthy service_key \<and> truthy expected then
        (if \<not> is_ascii (the service_key) \<or> \<not> is_ascii (the expected) then Inl A_internal
         else if service_key = expected then Inr \<lparr>pl_client = client, pl_method = ''legacy_key'', pl_scopes = {}\<rparr>
         else Inl A_unauthenticated)
      else Inl A_unauthenticated) = Inr p"
    using run unfolding payment_client_def if_not_P [OF none] Let_def client_def [symmetric] expected_def [symmetric] .
  then have p: "p = \<lparr>pl_client = client, pl_method = ''legacy_key'', pl_scopes = {}\<rparr>" "client \<noteq> []" "as_key_fallback c"
      "truthy service_key" "service_key = expected"
    by (auto split: if_split_asm)
  then show ?thesis by (auto simp: client_def expected_def truthy_def split: option.splits)
qed

text \<open>
  C34: a caller the payment routes accept under a client name either sent, as a bearer token, a token that
  verifies for the issuer and the audience of the payment service, of type and role service, with the status
  active and a service as its subject, that names this client, the client being on the list when there is one,
  and whose scope claim contains the scope of the route; or it sent no token and the secret key configured for
  that client, while keys are enabled.
\<close>

theorem payment_caller_is_authentic:
  assumes "payment_client jwt c scope authorization client_header service_key = Inr p"
  shows "client_header = Some (pl_client p) \<and> pl_client p \<noteq> [] \<and>
    (if truthy authorization
     then pl_method p = ''service_token'' \<and> scope \<in> pl_scopes p \<and> (service_client_ids c = {} \<or> pl_client p \<in> service_client_ids c)
       \<and> (\<exists>scheme sep token claims words_of. partition_at (CHR '' '') (the authorization) = (scheme, sep, token)
         \<and> lower scheme = ''bearer'' \<and> token \<noteq> []
         \<and> jwt \<lparr>jc_issuer = Some (as_issuer c), jc_audience = Some (as_service_audience c),
             jc_require = [''sub'', ''iss'', ''aud'', ''iat'', ''exp'', ''client_id'', ''token_type'']\<rparr> token = Jwt_claims claims
         \<and> text_or_empty (dict_get claims ''client_id'') = pl_client p
         \<and> dict_get claims ''token_type'' = V_str ''service'' \<and> dict_get claims ''role'' = V_str ''service''
         \<and> dict_get claims ''status'' = V_str ''active'' \<and> starts_with ''service:'' (text_or_empty (dict_get claims ''sub''))
         \<and> dict_get claims ''scope'' = V_str words_of \<and> pl_scopes p = set (words words_of) \<and> scope \<in> set (words words_of))
     else pl_method p = ''legacy_key'' \<and> pl_scopes p = {} \<and> as_key_fallback c \<and> truthy service_key
       \<and> map_of (service_key_map c) (pl_client p) = service_key)"
proof (cases "truthy authorization")
  case True
  obtain scheme sep token where parts: "partition_at (CHR '' '') (the authorization) = (scheme, sep, token)"
    by (metis prod.exhaust)
  from payment_client_token [OF assms True parts] obtain q where scheme: "lower scheme = ''bearer''"
    and q: "decode_service_token jwt c token (as_service_audience c) client_header {scope} (service_client_ids c) = Inr q"
    and p: "p = \<lparr>pl_client = sp_client q, pl_method = ''service_token'', pl_scopes = sp_scopes q\<rparr>" by blast
  note ok = decode_service_token_Inr [OF q]
  then have held: "scope \<in> sp_scopes q" by simp
  from ok obtain claims where claims: "jwt \<lparr>jc_issuer = Some (as_issuer c), jc_audience = Some (as_service_audience c),
      jc_require = [''sub'', ''iss'', ''aud'', ''iat'', ''exp'', ''client_id'', ''token_type'']\<rparr> token = Jwt_claims claims"
    "text_or_empty (dict_get claims ''client_id'') = sp_client q" "dict_get claims ''token_type'' = V_str ''service''"
    "dict_get claims ''role'' = V_str ''service''" "dict_get claims ''status'' = V_str ''active''"
    "starts_with ''service:'' (text_or_empty (dict_get claims ''sub''))"
    "sp_scopes q = (case dict_get claims ''scope'' of V_str s \<Rightarrow> set (words s) | _ \<Rightarrow> {})" by (elim exE conjE) (rule that)
  from claims(7) held obtain w where w: "dict_get claims ''scope'' = V_str w" "sp_scopes q = set (words w)"
    by (cases "dict_get claims ''scope''") auto
  from claims w held ok True show ?thesis
    by (simp add: p parts scheme)
next
  case False
  with payment_client_key [OF assms False] show ?thesis by simp
qed

definition demo_auth :: auth_settings where
  "demo_auth = \<lparr>as_issuer = ''diddifree-id'', as_step_up_max_ttl = 300, as_service_audience = ''diddipay'', as_service_client_ids = [],
     as_service_keys = [], as_key_fallback = True, as_summary_audience = ''diddipay'', as_summary_scope = ''s'',
     as_summary_legacy_scope = [], as_summary_client = [], as_backoffice_audience = ''diddipay'', as_backoffice_client_ids = [],
     as_backoffice_read_scope = ''r'', as_backoffice_command_scope = ''c'', as_support_audience = ''diddipay'',
     as_support_client_ids = [], as_support_context_scope = ''x'', as_support_refund_scope = ''y''\<rparr>"

definition demo_keys :: auth_settings where
  "demo_keys = demo_auth\<lparr>as_service_keys := ''diddigo:key-1, diddifund:key-2''\<rparr>"

definition stranger_claims :: dict where
  "stranger_claims = [(''client_id'', V_str ''x''), (''sub'', V_str ''service:x''), (''token_type'', V_str ''service''),
     (''role'', V_str ''service''), (''status'', V_str ''active''), (''scope'', V_str ''w'')]"

theorem payment_caller_is_authentic_witness:
  "(\<exists>p. payment_client (\<lambda>_ _. Jwt_error) demo_keys ''w'' None (Some ''diddifund'') (Some ''key-2'') = Inr p
     \<and> pl_client p = ''diddifund'' \<and> map_of (service_key_map demo_keys) ''diddifund'' = Some ''key-2'')
   \<and> (\<exists>p. payment_client (\<lambda>_ _. Jwt_claims stranger_claims) demo_auth ''w'' (Some ''Bearer t'') (Some ''x'') None = Inr p
     \<and> pl_client p = ''x'' \<and> ''w'' \<in> pl_scopes p)"
proof
  have "payment_client (\<lambda>_ _. Jwt_error) demo_keys ''w'' None (Some ''diddifund'') (Some ''key-2'')
      = Inr \<lparr>pl_client = ''diddifund'', pl_method = ''legacy_key'', pl_scopes = {}\<rparr>" by code_simp
  from payment_caller_is_authentic [OF this] this
  show "\<exists>p. payment_client (\<lambda>_ _. Jwt_error) demo_keys ''w'' None (Some ''diddifund'') (Some ''key-2'') = Inr p
     \<and> pl_client p = ''diddifund'' \<and> map_of (service_key_map demo_keys) ''diddifund'' = Some ''key-2''" by (simp add: truthy_def)
  have run: "payment_client (\<lambda>_ _. Jwt_claims stranger_claims) demo_auth ''w'' (Some ''Bearer t'') (Some ''x'') None
      = Inr \<lparr>pl_client = ''x'', pl_method = ''service_token'', pl_scopes = set (words ''w'')\<rparr>" by code_simp
  have "truthy (Some ''Bearer t'')" by (simp add: truthy_def)
  with payment_caller_is_authentic [OF run] run
  show "\<exists>p. payment_client (\<lambda>_ _. Jwt_claims stranger_claims) demo_auth ''w'' (Some ''Bearer t'') (Some ''x'') None = Inr p
     \<and> pl_client p = ''x'' \<and> ''w'' \<in> pl_scopes p" by (simp only: if_True simp_thms) simp
qed

text \<open>
  While operations have configured neither keys nor a list of clients, the payment routes accept the
  service token of every client that carries the scope.
\<close>

theorem unconfigured_service_admits_every_client:
  assumes "as_service_keys c = []" "as_service_client_ids c = []"
    and "jwt \<lparr>jc_issuer = Some (as_issuer c), jc_audience = Some (as_service_audience c),
      jc_require = [''sub'', ''iss'', ''aud'', ''iat'', ''exp'', ''client_id'', ''token_type'']\<rparr> token = Jwt_claims claims"
    and "dict_get claims ''client_id'' = V_str client" "client \<noteq> []" "token \<noteq> []"
      "dict_get claims ''sub'' = V_str (''service:'' @ who)" "dict_get claims ''token_type'' = V_str ''service''"
      "dict_get claims ''role'' = V_str ''service''" "dict_get claims ''status'' = V_str ''active''"
      "dict_get claims ''scope'' = V_str scopes" "scope \<in> set (words scopes)"
  shows "payment_client jwt c scope (Some (''Bearer '' @ token)) (Some client) None
    = Inr \<lparr>pl_client = client, pl_method = ''service_token'', pl_scopes = set (words scopes)\<rparr>"
proof -
  have "service_client_ids c = {}"
    using assms(1, 2) by (simp add: service_client_ids_def service_key_map_def listed_ids_def split_on_def strip_def
        key_entry_def partition_at_def)
  moreover have "partition_at (CHR '' '') (''Bearer '' @ token) = (''Bearer'', True, token)"
    by (simp add: partition_at_def)
  moreover have "lower ''Bearer'' = ''bearer''" by code_simp
  ultimately show ?thesis
    using assms(3-)
    by (auto simp: payment_client_def truthy_def decode_service_token_def Let_def text_or_empty_def py_or_def starts_with_def)
qed

theorem unconfigured_service_admits_every_client_witness:
  "payment_client (\<lambda>_ _. Jwt_claims stranger_claims) demo_auth ''w'' (Some (''Bearer '' @ ''t'')) (Some ''x'') None
    = Inr \<lparr>pl_client = ''x'', pl_method = ''service_token'', pl_scopes = set (words ''w'')\<rparr>"
proof (rule unconfigured_service_admits_every_client [where claims = stranger_claims and who = "''x''"])
  show "''w'' \<in> set (words ''w'')" by code_simp
qed (simp_all add: demo_auth_def stranger_claims_def dict_get_def)

end
