(* ===== verification/SupportRefunds.thy ===== *)
theory SupportRefunds
  imports PayUse Security
begin

section \<open>Refunds asked for by support\<close>

text \<open>
  \<^verbatim>\<open>payments/presentation/support_router.py\<close> and \<^verbatim>\<open>payments/infra/support_refunds.py\<close>: a delegated refund is an
  action of its own, with its idempotency key, around the refund it starts. The request commits where the
  refund does: once with the refund reserved, once with its result, once with the action completed. The
  handler of \<open>ProcessorCallUncertain\<close> is left out: \<open>RefundUseCases.create\<close> catches that exception itself.
\<close>

subsection \<open>Actions\<close>

record support_action =
  sa_id :: uuid
  sa_client :: string
  sa_command :: string
  sa_key :: string
  sa_fingerprint :: string
  sa_case :: uuid
  sa_operator :: string
  sa_delegation :: string
  sa_intent :: uuid
  sa_refund :: "uuid option"
  sa_amount :: int
  sa_currency :: string
  sa_reason_code :: string
  sa_reason :: string
  sa_status :: string
  sa_result :: "(string \<times> string option) list"

record support_db =
  sd_pay :: pay_db
  sd_actions :: "support_action list"

datatype support_exc = S_http aexc | S_pay pexc

type_synonym 'a sop = "(support_db, support_exc, 'a) op"

text \<open>What the handlers around the refund make of its exceptions.\<close>

definition support_error :: "pexc \<Rightarrow> support_exc" where
  "support_error e = (case e of P_PaymentNotFound \<Rightarrow> S_http (A_conflict ''PAYMENT_NOT_FOUND'')
     | P_OperationConflict \<Rightarrow> S_http (A_conflict ''REFUND_REQUEST_NOT_ELIGIBLE'')
     | P_IdempotencyConflict \<Rightarrow> S_http (A_conflict ''IDEMPOTENCY_CONFLICT'')
     | _ \<Rightarrow> S_pay e)"

definition in_pay :: "(pexc \<Rightarrow> support_exc) \<Rightarrow> 'a pop \<Rightarrow> 'a sop" where
  "in_pay = on_part sd_pay (\<lambda>p s. s\<lparr>sd_pay := p\<rparr>)"

definition action_by_key :: "support_db \<Rightarrow> string \<Rightarrow> string \<Rightarrow> support_action option" where
  "action_by_key s client key = find (\<lambda>a. sa_client a = client \<and> sa_key a = key) (sd_actions s)"

definition action_get :: "support_db \<Rightarrow> string \<Rightarrow> uuid \<Rightarrow> support_action option" where
  "action_get s client i = find (\<lambda>a. sa_client a = client \<and> sa_id a = i) (sd_actions s)"

definition action_create :: "support_action \<Rightarrow> unit sop" where
  "action_create a =
     bindE (readE sd_actions) (\<lambda>rows.
     thenE (ensure (\<forall>b \<in> set rows. \<not> (sa_client b = sa_client a \<and> (sa_key b = sa_key a \<or> sa_command b = sa_command a))) (S_pay P_Integrity))
       (modE (\<lambda>s. s\<lparr>sd_actions := rows @ [a]\<rparr>)))"

definition action_complete :: "support_action \<Rightarrow> string \<Rightarrow> (string \<times> string option) list \<Rightarrow> uuid option \<Rightarrow> support_action sop" where
  "action_complete a st result refund =
     (let f = (\<lambda>r. r\<lparr>sa_status := st, sa_result := result, sa_refund := refund\<rparr>)
      in thenE (modE (\<lambda>s. s\<lparr>sd_actions := update_row sa_id (sa_id a) f (sd_actions s)\<rparr>)) (retE (f a)))"

subsection \<open>The request\<close>

record support_request =
  sq_intent :: uuid
  sq_case :: uuid
  sq_amount :: int
  sq_currency :: string
  sq_reason_code :: string
  sq_reason :: string
  sq_key :: string

definition support_request_ok :: "support_request \<Rightarrow> bool" where
  "support_request_ok q \<longleftrightarrow> 0 < sq_amount q \<and> length (sq_currency q) = 3 \<and> 2 \<le> length (sq_reason_code q) \<and> length (sq_reason_code q) \<le> 80
     \<and> 3 \<le> length (sq_reason q) \<and> length (sq_reason q) \<le> 500 \<and> 8 \<le> length (sq_key q) \<and> length (sq_key q) \<le> 128"

definition support_fingerprint :: "pay_env \<Rightarrow> support_request \<Rightarrow> string" where
  "support_fingerprint env q = request_fingerprint (pv_sha256 env)
     [(''payment_intent_id'', J_uuid (Some (sq_intent q))), (''support_case_id'', J_uuid (Some (sq_case q))), (''amount'', J_int (sq_amount q)),
      (''currency'', J_str (sq_currency q)), (''reason_code'', J_str (sq_reason_code q)), (''reason'', J_str (sq_reason q))]"

record support_headers =
  sh_operator :: "string option"
  sh_delegation :: "string option"
  sh_command :: "string option"
  sh_key :: "string option"

datatype support_begun = Support_replayed support_action | Support_begun support_action refund_begun

definition support_refund_command :: "support_request \<Rightarrow> pay_intent \<Rightarrow> refund_command" where
  "support_refund_command q i = \<lparr>rc_client = pi_client i, rc_intent = sq_intent q, rc_amount = sq_amount q,
     rc_key = ''support:'' @ sq_key q, rc_reason = Some (sq_reason q)\<rparr>"

definition support_row :: "uuid \<Rightarrow> string \<Rightarrow> support_headers \<Rightarrow> string \<Rightarrow> support_request \<Rightarrow> support_action" where
  "support_row n client h fp q = \<lparr>sa_id = n, sa_client = client, sa_command = the (sh_command h), sa_key = sq_key q, sa_fingerprint = fp,
     sa_case = sq_case q, sa_operator = the (sh_operator h), sa_delegation = the (sh_delegation h), sa_intent = sq_intent q, sa_refund = None,
     sa_amount = sq_amount q, sa_currency = upper (sq_currency q), sa_reason_code = sq_reason_code q, sa_reason = sq_reason q,
     sa_status = ''processing'', sa_result = []\<rparr>"

definition support_begin :: "pay_env \<Rightarrow> string \<Rightarrow> support_headers \<Rightarrow> support_request \<Rightarrow> support_begun sop" where
  "support_begin env client h q =
     thenE (ensure (support_request_ok q) (S_http A_validation))
     (thenE (ensure (truthy (sh_operator h) \<and> truthy (sh_delegation h) \<and> truthy (sh_command h) \<and> truthy (sh_key h))
        (S_http (A_bad_request ''SUPPORT_DELEGATION_REQUIRED'')))
     (thenE (ensure (sh_key h = Some (sq_key q)) (S_http (A_bad_request ''IDEMPOTENCY_KEY_MISMATCH'')))
     (bindE (readE (\<lambda>s. intent_get (sd_pay s) (sq_intent q))) (\<lambda>found.
      bindE (some_or (S_http (A_not_found ''PAYMENT_INTENT_NOT_FOUND'')) found) (\<lambda>i.
     thenE (ensure (pm_currency (pi_money i) = upper (sq_currency q)) (S_http (A_conflict ''REFUND_CURRENCY_MISMATCH'')))
     (bindE (readE (\<lambda>s. action_by_key s client (sq_key q))) (\<lambda>existing.
      case existing of
        Some a \<Rightarrow> thenE (ensure (sa_fingerprint a = support_fingerprint env q) (S_http (A_conflict ''IDEMPOTENCY_CONFLICT'')))
            (retE (Support_replayed a))
      | None \<Rightarrow>
          bindE (in_pay S_pay pay_fresh) (\<lambda>n.
          let a = support_row n client h (support_fingerprint env q) q
          in thenE (action_create a)
            (bindE (in_pay support_error (refund_begin env (support_refund_command q i))) (\<lambda>b.
             retE (Support_begun a b)))))))))))"

definition support_status :: "pay_refund \<Rightarrow> string" where
  "support_status f = (if rf_status f = Rf_processing \<and> rf_provider_status f = Some ''unknown'' then ''unknown''
     else if rf_status f = Rf_succeeded then ''succeeded'' else ''failed'')"

definition refund_word :: "refund_status \<Rightarrow> string" where
  "refund_word st = (case st of Rf_pending \<Rightarrow> ''pending'' | Rf_processing \<Rightarrow> ''processing'' | Rf_succeeded \<Rightarrow> ''succeeded'' | Rf_failed \<Rightarrow> ''failed'')"

definition refund_details :: "pay_refund \<Rightarrow> (string \<times> string option) list" where
  "refund_details f = [(''refund_id'', Some (uuid_str (rf_id f))), (''status'', Some (refund_word (rf_status f))),
     (''provider_status'', rf_provider_status f)]"

definition enqueue_refund_result :: "string \<Rightarrow> string \<Rightarrow> support_action \<Rightarrow> string \<Rightarrow> (string \<times> string option) list \<Rightarrow> uuid option \<Rightarrow> unit pop" where
  "enqueue_refund_result request_id client a st result refund =
     outbox_add client (''diddipay.refund.'' @ st @ ''.v1'') (sa_id a)
       (Support_payload (sa_id a) (sa_case a) (sa_intent a) refund st result request_id)"

definition support_conclude :: "string \<Rightarrow> string \<Rightarrow> support_action \<Rightarrow> pay_refund \<Rightarrow> support_action sop" where
  "support_conclude request_id client a f =
     thenE (in_pay S_pay (enqueue_refund_result request_id client a (support_status f) (refund_details f) (Some (rf_id f))))
       (action_complete a (support_status f) (refund_details f) (Some (rf_id f)))"

definition request_support_refund :: "pay_env \<Rightarrow> string \<Rightarrow> string \<Rightarrow> support_headers \<Rightarrow> support_request \<Rightarrow> support_action sop" where
  "request_support_refund env request_id client h q =
     bindE (atomically (support_begin env client h q)) (\<lambda>b. case b of
       Support_replayed a \<Rightarrow> retE a
     | Support_begun a (Refund_replayed f) \<Rightarrow> atomically (support_conclude request_id client a f)
     | Support_begun a (Refund_started i tried f) \<Rightarrow>
         bindE (atomically (in_pay support_error (refund_finish env i tried f))) (\<lambda>g.
         atomically (support_conclude request_id client a g)))"

definition get_support_refund_request :: "support_db \<Rightarrow> string \<Rightarrow> uuid \<Rightarrow> aexc + support_action" where
  "get_support_refund_request s client i = (case action_get s client i of None \<Rightarrow> Inl (A_not_found ''SUPPORT_ACTION_NOT_FOUND'') | Some a \<Rightarrow> Inr a)"

end
