(* ===== verification/SupportProps.thy ===== *)
theory SupportProps
  imports SupportRefunds PayDemo
begin

section \<open>What support is told of a refund\<close>

lemma keeps_outboxes:
  "keeps (\<lambda>s. pay_outboxes s = X) (refund_begin env c)" "keeps (\<lambda>s. pay_outboxes s = X) (refund_finish env i a f)"
  unfolding refund_begin_def refund_finish_def refund_add_def refund_save_def intent_save_def record_refund_def journal_post_def
    write_journal_def pay_fresh_def Let_def
  by (intro keeps_intros keeps_modE; (simp; fail)?; auto intro!: keeps_intros keeps_modE split: psp.splits)+

lemma in_pay_Inr: "in_pay err m s = (Inr x, t) \<longleftrightarrow> (\<exists>p. m (sd_pay s) = (Inr x, p) \<and> t = s\<lparr>sd_pay := p\<rparr>)"
  by (simp add: in_pay_def on_part_Inr)

lemma refund_begin_outboxes: "refund_begin env c s = (Inr b, t) \<Longrightarrow> pay_outboxes t = pay_outboxes s"
  using keeps_outboxes(1) [of "pay_outboxes s" env c] by (auto dest: keepsD)

lemma refund_finish_outboxes: "refund_finish env i a f s = (Inr g, t) \<Longrightarrow> pay_outboxes t = pay_outboxes s"
  using keeps_outboxes(2) [of "pay_outboxes s" env i a f] by (auto dest: keepsD)

lemma refund_transition_row: "refund_transition_to tm st (f\<lparr>rf_provider_ref := a, rf_provider_status := b\<rparr>) = Inr g \<Longrightarrow> set_refund g f = g"
  by (auto simp: refund_transition_to_def moves_to_def set_refund_def split: if_splits)

lemma refund_transition_unknown: "refund_transition_to tm st f = Inr h \<Longrightarrow> set_refund (h\<lparr>rf_provider_status := x\<rparr>) f = h\<lparr>rf_provider_status := x\<rparr>"
  by (auto simp: refund_transition_to_def moves_to_def set_refund_def split: if_splits)

text \<open>What a finished refund returns is the row it was, with its status and the words of the provider.\<close>

lemma refund_finish_row:
  assumes "refund_finish env i a f s = (Inr g, t)"
  shows "set_refund g f = g"
proof -
  from assms obtain p where p: "processor_get (pv_registry env) (pa_processor a) = Inr p"
    unfolding refund_finish_def by auto
  from assms obtain u where "(case refund_payment p \<lparr>rr_refund = rf_id f, rr_reference = the (pa_provider_ref a), rr_money = rf_money f, rr_reason = rf_reason f\<rparr> of
         Uncertain _ \<Rightarrow> of_sum (map_sum id (\<lambda>g. g\<lparr>rf_provider_status := Some ''unknown''\<rparr>) (refund_transition_to (pay_clock s) Rf_processing f))
       | Answer r \<Rightarrow> of_sum (refund_transition_to (pay_clock s) (rs_status r)
           (f\<lparr>rf_provider_ref := rs_reference r, rf_provider_status := rs_provider_status r\<rparr>))
       | x \<Rightarrow> raiseE (psp_exception x)) s = (Inr g, u)"
    unfolding refund_finish_def p bindE_of_sum bindE_readE sum.case bindE_Inr thenE_Inr by (auto simp: retE_def)
  then show ?thesis
    by (auto simp: of_sum_Inr map_sum_Inr raiseE_def split: psp.splits dest: refund_transition_row refund_transition_unknown)
qed

lemma set_refund_same: "set_refund g f = g \<Longrightarrow> rf_client g = rf_client f \<and> rf_key g = rf_key f \<and> rf_fingerprint g = rf_fingerprint f
  \<and> rf_intent g = rf_intent f \<and> rf_money g = rf_money f \<and> rf_reason g = rf_reason f \<and> rf_id g = rf_id f"
  by (erule subst) (simp add: set_refund_def)

lemma refund_save_member: "\<lbrakk>refund_save g s = (Inr v, t); f \<in> set (refunds s); set_refund g f = g\<rbrakk> \<Longrightarrow> g \<in> set (refunds t)"
  by (auto simp: refund_save_Inr set_update_row dest: set_refund_same intro!: image_eqI [of _ _ f])

lemma keeps_refunds: "keeps (\<lambda>s. refunds s = X) (intent_save i)" "keeps (\<lambda>s. refunds s = X) (record_refund i a g)"
  unfolding intent_save_def record_refund_def journal_post_def write_journal_def pay_fresh_def Let_def
  by (intro keeps_intros keeps_modE; (simp; fail)?; auto intro!: keeps_intros keeps_modE)+

lemma refund_finish_member:
  assumes run: "refund_finish env i a f s = (Inr g, t)" and f: "f \<in> set (refunds s)"
  shows "g \<in> set (refunds t)"
  using run
proof (cases rule: refund_finish_Inr)
  case 1
  from refund_save_member [OF 1(5) f refund_finish_row [OF run]] show ?thesis .
next
  case (2 tm j r q)
  from keepsD [OF keeps_refunds(1) _ 2(6), of "refunds s"] keepsD [OF keeps_refunds(2) _ 2(7), of "refunds r"] f
  have "f \<in> set (refunds q)" by simp
  from refund_save_member [OF 2(8) this refund_finish_row [OF run]] show ?thesis .
qed

text \<open>The refund of a command: an earlier one under its key, with its fingerprint, or a row of its own.\<close>

definition refund_of :: "pay_env \<Rightarrow> refund_command \<Rightarrow> pay_db \<Rightarrow> pay_refund \<Rightarrow> bool" where
  "refund_of env c s r \<longleftrightarrow> rf_client r = rc_client c \<and> rf_key r = rc_key c \<and> rf_fingerprint r = refund_fingerprint env c
     \<and> (case refund_by_idempotency s (rc_client c) (rc_key c) of Some g \<Rightarrow> r = g
        | None \<Rightarrow> rf_intent r = rc_intent c \<and> pm_amount (rf_money r) = rc_amount c \<and> rf_reason r = rc_reason c)"

lemma refund_of_row: "\<lbrakk>refund_of env c s f; refund_by_idempotency s (rc_client c) (rc_key c) = None; set_refund g f = g\<rbrakk> \<Longrightarrow> refund_of env c s g"
  by (drule set_refund_same) (simp add: refund_of_def)

lemma refund_begin_row:
  assumes "refund_begin env c s = (Inr b, t)"
  obtains f where "b = Refund_replayed f" "t = s" "refund_by_idempotency s (rc_client c) (rc_key c) = Some f" "refund_of env c s f" "f \<in> set (refunds t)"
  | i a f where "b = Refund_started i a f" "refund_by_idempotency s (rc_client c) (rc_key c) = None" "refund_of env c s f" "f \<in> set (refunds t)"
proof (cases "refund_by_idempotency s (rc_client c) (rc_key c)")
  case (Some f)
  then have "f \<in> set (refunds s)" "rf_client f = rc_client c" "rf_key f = rc_key c"
    by (auto simp: refund_by_idempotency_def dest!: find_Some_prop)
  with assms Some that(1) show ?thesis by (auto simp: refund_begin_def refund_of_def)
next
  case None
  with assms obtain i a m f where i: "intent_get s (rc_intent c) = Some i" and m: "mk_pay_money (rc_amount c) (pm_currency (pi_money i)) = Inr m"
    and b: "b = Refund_started i a f" and f: "rf_intent f = pi_id i" "rf_client f = rc_client c" "rf_key f = rc_key c" "rf_money f = m"
      "rf_fingerprint f = refund_fingerprint env c" "rf_reason f = rc_reason c" "f \<in> set (refunds t)"
    by (auto simp: refund_begin_def refund_add_def Let_def)
  from i have "pi_id i = rc_intent c" by (auto dest: intent_get_Some)
  moreover from m have "pm_amount m = rc_amount c" by (auto simp: mk_pay_money_def Let_def split: if_splits)
  ultimately show ?thesis using None f by (intro that(2) [OF b]) (simp_all add: refund_of_def)
qed

subsection \<open>The action and its event\<close>

definition completed_action :: "support_action \<Rightarrow> pay_refund \<Rightarrow> support_action" where
  "completed_action a f = a\<lparr>sa_status := support_status f, sa_result := refund_details f, sa_refund := Some (rf_id f)\<rparr>"

definition result_event :: "string \<Rightarrow> string \<Rightarrow> support_action \<Rightarrow> pay_refund \<Rightarrow> pay_outbox \<Rightarrow> bool" where
  "result_event rid client a f e \<longleftrightarrow> px_client e = client \<and> px_type e = ''diddipay.refund.'' @ support_status f @ ''.v1'' \<and> px_aggregate e = sa_id a
     \<and> px_payload e = Support_payload (sa_id a) (sa_case a) (sa_intent a) (Some (rf_id f)) (support_status f) (refund_details f) rid
     \<and> px_status e = Ob_pending"

lemma support_conclude_Inr:
  "support_conclude rid client a f s = (Inr b, t) \<Longrightarrow> b = completed_action a f \<and> refunds (sd_pay t) = refunds (sd_pay s)
     \<and> sd_actions t = update_row sa_id (sa_id a) (\<lambda>x. completed_action x f) (sd_actions s)
     \<and> (\<exists>e. pay_outboxes (sd_pay t) = pay_outboxes (sd_pay s) @ [e] \<and> result_event rid client a f e)"
  by (auto simp: support_conclude_def in_pay_Inr enqueue_refund_result_def outbox_add_def action_complete_def completed_action_def result_event_def Let_def)

lemma support_begin_Inr:
  assumes "support_begin env client h q s = (Inr b, t)" "action_by_key s client (sq_key q) = None"
  obtains i r u where "b = Support_begun (support_row (pay_next (sd_pay s)) client h (support_fingerprint env q) q) r"
    "intent_get (sd_pay s) (sq_intent q) = Some i" "pay_outboxes u = pay_outboxes (sd_pay s)" "refunds u = refunds (sd_pay s)"
    "sd_actions t = sd_actions s @ [support_row (pay_next (sd_pay s)) client h (support_fingerprint env q) q]"
    "refund_begin env (support_refund_command q i) u = (Inr r, sd_pay t)"
proof -
  from assms obtain i p r where "b = Support_begun (support_row (pay_next (sd_pay s)) client h (support_fingerprint env q) q) r"
    "intent_get (sd_pay s) (sq_intent q) = Some i"
    "refund_begin env (support_refund_command q i) (sd_pay s\<lparr>pay_next := Suc (pay_next (sd_pay s))\<rparr>) = (Inr r, p)" "sd_pay t = p"
    "sd_actions t = sd_actions s @ [support_row (pay_next (sd_pay s)) client h (support_fingerprint env q) q]"
    by (auto simp: support_begin_def in_pay_Inr action_create_def Let_def)
  then show thesis by (intro that) simp_all
qed

lemma refund_of_same: "refunds u = refunds s \<Longrightarrow> refund_of env c u = refund_of env c s"
  by (simp add: refund_of_def [abs_def] refund_by_idempotency_def)

text \<open>A new request ends with its row completed from a stored refund, which it finished unless it had been made before.\<close>

lemma support_run:
  assumes run: "request_support_refund env rid client h q s = (Inr a, t)" and new: "action_by_key s client (sq_key q) = None"
  obtains i f v where "intent_get (sd_pay s) (sq_intent q) = Some i" "refund_of env (support_refund_command q i) (sd_pay s) f"
    "support_conclude rid client (support_row (pay_next (sd_pay s)) client h (support_fingerprint env q) q) f v = (Inr a, t)"
    "f \<in> set (refunds (sd_pay v))" "pay_outboxes (sd_pay v) = pay_outboxes (sd_pay s)"
    "sd_actions v = sd_actions s @ [support_row (pay_next (sd_pay s)) client h (support_fingerprint env q) q]"
    "(\<forall>g \<in> set (refunds (sd_pay s)). rf_key g \<noteq> ''support:'' @ sq_key q) \<Longrightarrow> \<exists>i x g w. refund_finish env i x g w = (Inr f, sd_pay v)"
proof -
  let ?c = "support_row (pay_next (sd_pay s)) client h (support_fingerprint env q) q"
  from run obtain b u where b: "support_begin env client h q s = (Inr b, u)"
    and rest: "(case b of Support_replayed a \<Rightarrow> retE a
       | Support_begun a (Refund_replayed f) \<Rightarrow> atomically (support_conclude rid client a f)
       | Support_begun a (Refund_started i tried f) \<Rightarrow>
         bindE (atomically (in_pay support_error (refund_finish env i tried f))) (\<lambda>g. atomically (support_conclude rid client a g))) u = (Inr a, t)"
    unfolding request_support_refund_def bindE_Inr atomically_Inr by (elim exE conjE) (rule that)
  obtain i r w where c: "b = Support_begun ?c r" "intent_get (sd_pay s) (sq_intent q) = Some i" "pay_outboxes w = pay_outboxes (sd_pay s)"
    "refunds w = refunds (sd_pay s)" "sd_actions u = sd_actions s @ [?c]" "refund_begin env (support_refund_command q i) w = (Inr r, sd_pay u)"
    by (rule support_begin_Inr [OF b new])
  have quiet: "pay_outboxes (sd_pay u) = pay_outboxes (sd_pay s)" using refund_begin_outboxes [OF c(6)] c(3) by simp
  note same = refund_of_same [OF c(4), of env "support_refund_command q i"]
  show thesis
    using c(6)
  proof (cases rule: refund_begin_row)
    case (1 f)
    from 1(5,2) c(4) have f: "f \<in> set (refunds (sd_pay s))" by simp
    from 1(4) have "rf_key f = ''support:'' @ sq_key q" by (simp add: refund_of_def support_refund_command_def)
    from rest have k: "support_conclude rid client ?c f u = (Inr a, t)" by (simp add: c(1) 1(1))
    from that [OF c(2) 1(4) [unfolded same] k 1(5) quiet c(5)] f \<open>rf_key f = _\<close> show thesis by blast
  next
    case (2 j x f)
    with rest c(1) obtain g p where g: "refund_finish env j x f (sd_pay u) = (Inr g, p)"
      and k: "support_conclude rid client ?c g (u\<lparr>sd_pay := p\<rparr>) = (Inr a, t)"
      by (auto simp: in_pay_Inr)
    have "refund_of env (support_refund_command q i) (sd_pay s) g"
      using refund_of_row [OF 2(3,2) refund_finish_row [OF g]] same by simp
    from that [OF c(2) this k] refund_finish_member [OF g 2(4)] refund_finish_outboxes [OF g] quiet c(5) g show thesis by auto
  qed
qed

lemma completed_action_simps [simp]:
  "sa_client (completed_action a f) = sa_client a" "sa_key (completed_action a f) = sa_key a" "sa_id (completed_action a f) = sa_id a"
  by (simp_all add: completed_action_def)

lemma action_by_key_completed:
  assumes "action_by_key s client (sa_key a) = None" "sa_client a = client"
    "sd_actions t = update_row sa_id (sa_id a) (\<lambda>x. completed_action x f) (sd_actions s @ [a])"
  shows "action_by_key t client (sa_key a) = Some (completed_action a f)"
proof -
  let ?f = "\<lambda>x. if sa_id x = sa_id a then completed_action x f else x"
  from assms(3) have "sd_actions t = map ?f (sd_actions s) @ [completed_action a f]" by (simp add: update_row_def)
  moreover from assms(1) have "find (\<lambda>b. sa_client b = client \<and> sa_key b = sa_key a) (map ?f (sd_actions s)) = None"
    by (auto simp: action_by_key_def find_None_iff split: if_splits)
  ultimately show ?thesis using assms(2) by (simp add: action_by_key_def find_snoc)
qed

text \<open>
  C29: a new support request that returns has stored the refund of the payment it names: the row it made, of
  the amount and with the reason it asked, or the one made before under the same key and fingerprint. Its
  action is stored, found again under its key, completed with that refund, its status and its details; one
  event goes out for the client, with the action, the case, the payment and the result; and the action is
  called succeeded exactly when the refund succeeded.
\<close>

theorem support_refund_announced:
  assumes run: "request_support_refund env rid client h q s = (Inr a, t)" and new: "action_by_key s client (sq_key q) = None"
  shows "\<exists>i r e. intent_get (sd_pay s) (sq_intent q) = Some i \<and> r \<in> set (refunds (sd_pay t))
     \<and> refund_of env (support_refund_command q i) (sd_pay s) r
     \<and> a = (support_row (pay_next (sd_pay s)) client h (support_fingerprint env q) q)
         \<lparr>sa_status := support_status r, sa_result := refund_details r, sa_refund := Some (rf_id r)\<rparr>
     \<and> a \<in> set (sd_actions t) \<and> action_by_key t client (sq_key q) = Some a
     \<and> pay_outboxes (sd_pay t) = pay_outboxes (sd_pay s) @ [e]
     \<and> px_client e = client \<and> px_type e = ''diddipay.refund.'' @ support_status r @ ''.v1'' \<and> px_aggregate e = sa_id a \<and> px_status e = Ob_pending
     \<and> px_payload e = Support_payload (sa_id a) (sq_case q) (sq_intent q) (Some (rf_id r)) (support_status r) (refund_details r) rid
     \<and> (sa_status a = ''succeeded'' \<longleftrightarrow> rf_status r = Rf_succeeded)"
proof (rule support_run [OF run new])
  let ?c = "support_row (pay_next (sd_pay s)) client h (support_fingerprint env q) q"
  fix i f v
  assume i: "intent_get (sd_pay s) (sq_intent q) = Some i" and of: "refund_of env (support_refund_command q i) (sd_pay s) f"
    and k: "support_conclude rid client ?c f v = (Inr a, t)" and f: "f \<in> set (refunds (sd_pay v))"
    and quiet: "pay_outboxes (sd_pay v) = pay_outboxes (sd_pay s)" and rows: "sd_actions v = sd_actions s @ [?c]"
  have c: "sa_key ?c = sq_key q" "sa_client ?c = client" "sa_case ?c = sq_case q" "sa_intent ?c = sq_intent q" by (simp_all add: support_row_def)
  from support_conclude_Inr [OF k] obtain e where a: "a = completed_action ?c f" and t: "refunds (sd_pay t) = refunds (sd_pay v)"
    "sd_actions t = update_row sa_id (sa_id ?c) (\<lambda>x. completed_action x f) (sd_actions s @ [?c])"
    "pay_outboxes (sd_pay t) = pay_outboxes (sd_pay s) @ [e]" and e: "result_event rid client ?c f e"
    by (auto simp: rows quiet)
  have found: "action_by_key t client (sq_key q) = Some a"
    using action_by_key_completed [of s client ?c t f] new t(2) by (simp add: a c)
  then have "a \<in> set (sd_actions t)" by (auto simp: action_by_key_def dest: find_Some_prop)
  have "support_status f = ''succeeded'' \<longleftrightarrow> rf_status f = Rf_succeeded" by (simp add: support_status_def)
  with i of f t(1,3) e found \<open>a \<in> set (sd_actions t)\<close> show ?thesis
    by (intro exI [of _ i] exI [of _ f] exI [of _ e]) (simp add: a completed_action_def result_event_def c(3,4))
qed

text \<open>Providers that take refunds and process them later.\<close>

definition refunds_later :: "pay_env \<Rightarrow> bool" where
  "refunds_later env \<longleftrightarrow> (\<forall>p \<in> snd ` set (pv_registry env). \<forall>r. \<exists>x. refund_payment p r = Answer x
     \<and> rs_status x = Rf_processing \<and> rs_provider_status x \<noteq> Some ''unknown'')"

lemma refund_finish_later:
  assumes "refunds_later env" "refund_finish env i a f s = (Inr g, t)"
  shows "rf_status g = Rf_processing \<and> rf_provider_status g \<noteq> Some ''unknown''"
proof -
  from assms(2) obtain p where p: "processor_get (pv_registry env) (pa_processor a) = Inr p"
    unfolding refund_finish_def by auto
  then have "p \<in> snd ` set (pv_registry env)" using processor_get_Inr by blast
  with assms(1) obtain x where x: "refund_payment p \<lparr>rr_refund = rf_id f, rr_reference = the (pa_provider_ref a), rr_money = rf_money f, rr_reason = rf_reason f\<rparr> = Answer x"
    "rs_status x = Rf_processing" "rs_provider_status x \<noteq> Some ''unknown''" unfolding refunds_later_def by blast
  from assms(2) have "refund_transition_to (pay_clock s) Rf_processing (f\<lparr>rf_provider_ref := rs_reference x, rf_provider_status := rs_provider_status x\<rparr>) = Inr g"
    unfolding refund_finish_def p bindE_of_sum bindE_readE sum.case x psp.case bindE_Inr of_sum_Inr thenE_Inr
    by (auto simp only: thenE_Inr retE_Inr prod.inject sum.inject split: sum.splits)
  then show ?thesis using x(3) by (auto simp: refund_transition_to_def moves_to_def split: if_splits)
qed

text \<open>
  When the provider takes the refund and will process it later, support is told that the refund failed
  while it is under way.
\<close>

theorem processing_refund_announced_failed:
  assumes run: "request_support_refund env rid client h q s = (Inr a, t)" and new: "action_by_key s client (sq_key q) = None"
    and first: "\<forall>f \<in> set (refunds (sd_pay s)). rf_key f \<noteq> ''support:'' @ sq_key q" and later: "refunds_later env"
  shows "sa_status a = ''failed'' \<and> px_type (last (pay_outboxes (sd_pay t))) = ''diddipay.refund.failed.v1''
     \<and> (\<exists>f \<in> set (refunds (sd_pay t)). sa_refund a = Some (rf_id f) \<and> rf_status f = Rf_processing)"
proof (rule support_run [OF run new])
  let ?c = "support_row (pay_next (sd_pay s)) client h (support_fingerprint env q) q"
  fix j f v
  assume k: "support_conclude rid client ?c f v = (Inr a, t)" and f: "f \<in> set (refunds (sd_pay v))"
    and "\<forall>g \<in> set (refunds (sd_pay s)). rf_key g \<noteq> ''support:'' @ sq_key q \<Longrightarrow> \<exists>i x g w. refund_finish env i x g w = (Inr f, sd_pay v)"
  with first obtain i x g w where "refund_finish env i x g w = (Inr f, sd_pay v)" by blast
  note word = refund_finish_later [OF later this]
  then have "support_status f = ''failed''" by (simp add: support_status_def)
  with support_conclude_Inr [OF k] f word show ?thesis
    by (auto simp: completed_action_def result_event_def)
qed

subsection \<open>A request\<close>

definition slow_env :: pay_env where
  "slow_env = demo_pay_env\<lparr>pv_registry := [(100, demo_processor\<lparr>refund_payment := (\<lambda>r. Answer
     \<lparr>rs_reference = Some ''r'', rs_status = Rf_processing, rs_provider_status = Some ''pending''\<rparr>)\<rparr>)]\<rparr>"

definition demo_support :: support_request where
  "demo_support = \<lparr>sq_intent = 1, sq_case = 70, sq_amount = 2000, sq_currency = ''xof'', sq_reason_code = ''dup'', sq_reason = ''twice'',
     sq_key = ''support1''\<rparr>"

definition demo_headers :: support_headers where
  "demo_headers = \<lparr>sh_operator = Some ''op'', sh_delegation = Some ''dl'', sh_command = Some ''c1'', sh_key = Some ''support1''\<rparr>"

definition support_start :: support_db where
  "support_start = \<lparr>sd_pay = wd_db demo_paid, sd_actions = []\<rparr>"

lemma demo_support_run:
  "\<exists>a t. request_support_refund slow_env ''rq'' ''support'' demo_headers demo_support support_start = (Inr a, t)"
proof -
  have "case fst (request_support_refund slow_env ''rq'' ''support'' demo_headers demo_support support_start) of Inl e \<Rightarrow> False | Inr a \<Rightarrow> True"
    by code_simp
  then show ?thesis by (auto split: sum.splits) (metis prod.collapse)
qed

theorem support_refund_announced_witness:
  "\<exists>a t r e. request_support_refund slow_env ''rq'' ''support'' demo_headers demo_support support_start = (Inr a, t)
     \<and> refunds (sd_pay t) = [r] \<and> rf_intent r = 1 \<and> pm_amount (rf_money r) = 2000 \<and> action_by_key t ''support'' ''support1'' = Some a
     \<and> sa_refund a = Some (rf_id r) \<and> sa_status a = support_status r
     \<and> pay_outboxes (sd_pay t) = pay_outboxes (sd_pay support_start) @ [e] \<and> px_client e = ''support'' \<and> px_aggregate e = sa_id a"
proof -
  let ?run = "request_support_refund slow_env ''rq'' ''support'' demo_headers demo_support support_start"
  from demo_support_run obtain a t where run: "?run = (Inr a, t)" by blast
  have new: "action_by_key support_start ''support'' (sq_key demo_support) = None"
    "refund_by_idempotency (sd_pay support_start) c k = None" for c k
  proof -
    have "refunds (sd_pay support_start) = []" by code_simp
    then show "refund_by_idempotency (sd_pay support_start) c k = None" by (simp add: refund_by_idempotency_def)
  qed code_simp
  have "length (refunds (sd_pay (snd ?run))) = 1" by code_simp
  with run have one: "length (refunds (sd_pay t)) = 1" by simp
  obtain i r e where r: "r \<in> set (refunds (sd_pay t))" "refund_of slow_env (support_refund_command demo_support i) (sd_pay support_start) r"
    "a = (support_row (pay_next (sd_pay support_start)) ''support'' demo_headers (support_fingerprint slow_env demo_support) demo_support)
       \<lparr>sa_status := support_status r, sa_result := refund_details r, sa_refund := Some (rf_id r)\<rparr>"
    "action_by_key t ''support'' (sq_key demo_support) = Some a" "pay_outboxes (sd_pay t) = pay_outboxes (sd_pay support_start) @ [e]"
    "px_client e = ''support''" "px_aggregate e = sa_id a"
    using support_refund_announced [OF run new(1)] by (elim exE conjE) (rule that)
  from r(2) new(2) have "rf_intent r = 1" "pm_amount (rf_money r) = 2000" by (simp_all add: refund_of_def support_refund_command_def demo_support_def)
  moreover from r(1) one have "refunds (sd_pay t) = [r]" by (cases "refunds (sd_pay t)") auto
  moreover have "sq_key demo_support = ''support1''" by (simp add: demo_support_def)
  moreover have "sa_refund a = Some (rf_id r)" "sa_status a = support_status r" by (simp_all add: r(3))
  ultimately show ?thesis using run r(4-7) by (intro exI [of _ a] exI [of _ t] exI [of _ r] exI [of _ e]) simp
qed

theorem processing_refund_announced_failed_witness:
  "\<exists>a t. request_support_refund slow_env ''rq'' ''support'' demo_headers demo_support support_start = (Inr a, t)
     \<and> sa_status a = ''failed'' \<and> (\<exists>f \<in> set (refunds (sd_pay t)). rf_status f = Rf_processing)"
proof -
  from demo_support_run obtain a t where r: "request_support_refund slow_env ''rq'' ''support'' demo_headers demo_support support_start = (Inr a, t)" by blast
  have "action_by_key support_start ''support'' (sq_key demo_support) = None" "refunds (sd_pay support_start) = []" by code_simp+
  moreover have "refunds_later slow_env" by (simp add: refunds_later_def slow_env_def)
  ultimately show ?thesis using processing_refund_announced_failed [OF r] r by (metis all_not_in_conv set_empty2 empty_iff)
qed

end
