(* ===== verification/Base64.thy ===== *)
theory Base64
  imports PyStrings
begin

section \<open>URL-safe Base64\<close>

text \<open>
  \<^verbatim>\<open>_b64encode\<close> and \<^verbatim>\<open>_b64decode\<close> of \<^verbatim>\<open>wallet/domain/qr.py\<close>. A byte string is a list of characters. Encoding
  drops the padding, decoding adds it again; the decoder is \<^verbatim>\<open>binascii.a2b_base64\<close> without \<^verbatim>\<open>validate\<close>: it
  skips characters outside the alphabet, takes both the URL-safe and the standard letters for 62 and 63 and
  stops at a padding that completes a group.
\<close>

definition base64_letter :: "nat \<Rightarrow> char" where
  "base64_letter n = (if n < 26 then char_of (65 + n) else if n < 52 then char_of (71 + n) else if n < 62 then char_of (n - 4)
     else if n = 62 then CHR ''-'' else CHR ''_'')"

definition base64_value :: "char \<Rightarrow> nat option" where
  "base64_value c = (let n = of_char c :: nat in
     if 65 \<le> n \<and> n \<le> 90 then Some (n - 65) else if 97 \<le> n \<and> n \<le> 122 then Some (n - 71) else if 48 \<le> n \<and> n \<le> 57 then Some (n + 4)
     else if c = CHR ''-'' \<or> c = CHR ''+'' then Some 62 else if c = CHR ''_'' \<or> c = CHR ''/'' then Some 63 else None)"

fun sextets :: "nat list \<Rightarrow> nat list" where
  "sextets [] = []"
| "sextets [a] = [a div 4, a mod 4 * 16]"
| "sextets [a, b] = [a div 4, a mod 4 * 16 + b div 16, b mod 16 * 4]"
| "sextets (a # b # c # r) = [a div 4, a mod 4 * 16 + b div 16, b mod 16 * 4 + c div 64, c mod 64] @ sextets r"

definition b64encode :: "string \<Rightarrow> string" where
  "b64encode raw = map base64_letter (sextets (map of_char raw))"

text \<open>
  The decoder: the position in the group of four, the bits left over, the pads seen since the last letter.
\<close>

fun decode_from :: "nat \<Rightarrow> nat \<Rightarrow> nat \<Rightarrow> string \<Rightarrow> string option" where
  "decode_from pos left pads [] = (if pos = 0 then Some [] else None)"
| "decode_from pos left pads (c # s) =
     (if c = CHR ''='' then
        (if 2 \<le> pos then (if 4 \<le> pos + Suc pads then Some [] else decode_from pos left (Suc pads) s) else decode_from pos left pads s)
      else case base64_value c of
        None \<Rightarrow> decode_from pos left pads s
      | Some x \<Rightarrow>
          if pos = 0 then decode_from 1 x 0 s
          else if pos = 1 then map_option ((#) (char_of (left * 4 + x div 16))) (decode_from 2 (x mod 16) 0 s)
          else if pos = 2 then map_option ((#) (char_of (left * 16 + x div 4))) (decode_from 3 (x mod 4) 0 s)
          else map_option ((#) (char_of (left * 64 + x))) (decode_from 0 0 0 s))"

definition b64_padding :: "string \<Rightarrow> string" where
  "b64_padding txt = replicate ((4 - length txt mod 4) mod 4) (CHR ''='')"

text \<open>A text that is not ASCII raises, like a text of the wrong length.\<close>

definition b64decode :: "string \<Rightarrow> string option" where
  "b64decode txt = (if is_ascii txt then decode_from 0 0 0 (txt @ b64_padding txt) else None)"

subsection \<open>What is encoded is decoded\<close>

lemma of_base64_letter:
  "n < 64 \<Longrightarrow> (of_char (base64_letter n) :: nat) = (if n < 26 then 65 + n else if n < 52 then 71 + n else if n < 62 then n - 4
     else if n = 62 then 45 else 95)"
  by (simp add: base64_letter_def)

lemma base64_letter [simp]:
  assumes "n < 64"
  shows "base64_value (base64_letter n) = Some n" "base64_letter n \<noteq> CHR ''=''" "of_char (base64_letter n) < (128 :: nat)"
    "base64_letter n \<noteq> CHR ''.''" "CHR ''.'' \<noteq> base64_letter n"
proof -
  note k = of_base64_letter [OF assms]
  show "of_char (base64_letter n) < (128 :: nat)" using assms by (simp add: k) presburger
  show "base64_letter n \<noteq> CHR ''=''" "base64_letter n \<noteq> CHR ''.''" using k assms by (auto split: if_splits)
  then show "CHR ''.'' \<noteq> base64_letter n" by metis
  consider "n < 26" | "26 \<le> n" "n < 52" | "52 \<le> n" "n < 62" | "n = 62" | "n = 63" using assms by linarith
  then show "base64_value (base64_letter n) = Some n"
  proof cases
    case 3
    then have "n - 4 \<le> 57" "48 \<le> n - 4" by linarith+
    with 3 show ?thesis by (simp add: base64_value_def Let_def k)
  qed (simp_all add: base64_value_def Let_def k, simp_all add: base64_letter_def)
qed

lemma sextets_bound: "(\<forall>x \<in> set bs. x < 256) \<Longrightarrow> x \<in> set (sextets bs) \<Longrightarrow> x < 64"
  by (induction bs rule: sextets.induct) auto

lemma decode_letters:
  "n < 64 \<Longrightarrow> decode_from 0 left pads (base64_letter n # s) = decode_from 1 n 0 s"
  "n < 64 \<Longrightarrow> decode_from (Suc 0) left pads (base64_letter n # s) = map_option ((#) (char_of (left * 4 + n div 16))) (decode_from 2 (n mod 16) 0 s)"
  "n < 64 \<Longrightarrow> decode_from 2 left pads (base64_letter n # s) = map_option ((#) (char_of (left * 16 + n div 4))) (decode_from 3 (n mod 4) 0 s)"
  "n < 64 \<Longrightarrow> decode_from 3 left pads (base64_letter n # s) = map_option ((#) (char_of (left * 64 + n))) (decode_from 0 0 0 s)"
  by simp_all

lemma pads:
  "b64_padding [] = []" "b64_padding [x, y] = ''==''" "b64_padding [x, y, z] = ''=''" "b64_padding (x # y # z # w # s) = b64_padding s"
  "decode_from 2 l 0 ''=='' = Some []" "decode_from 3 l 0 ''='' = Some []"
  by (simp_all add: b64_padding_def numeral_2_eq_2)

lemma decode_sextets:
  "\<forall>x \<in> set bs. x < 256 \<Longrightarrow> decode_from 0 0 0 (map base64_letter (sextets bs) @ b64_padding (map base64_letter (sextets bs))) = Some (map char_of bs)"
proof (induction bs rule: sextets.induct)
  case 1
  show ?case by (simp add: b64_padding_def)
next
  case (2 a)
  then have "a < 256" by simp
  then show ?case by (simp add: decode_letters pads del: decode_from.simps(2))
next
  case (3 a b)
  then have "a < 256" "b < 256" by simp_all
  then show ?case by (simp add: decode_letters pads del: decode_from.simps(2))
next
  case (4 a b c r)
  then have "a < 256" "b < 256" "c < 256" by simp_all
  with 4 show ?case by (simp add: decode_letters pads del: decode_from.simps(2))
qed

lemma is_ascii_b64encode [simp]: "is_ascii (b64encode raw)"
  by (auto simp: is_ascii_def b64encode_def intro!: base64_letter(3) sextets_bound [of "map of_char raw"])

lemma b64decode_encode [simp]: "b64decode (b64encode raw) = Some raw"
  by (simp add: b64decode_def) (simp add: b64encode_def decode_sextets comp_def)

lemma dot_not_encoded: "CHR ''.'' \<notin> set (b64encode raw)"
  using sextets_bound [of "map of_char raw"] base64_letter(5) by (fastforce simp: b64encode_def)

end
