(* ===== verification/Qr.thy ===== *)
theory Qr
  imports Base64 Security WalletOps
begin

section \<open>Payment QR codes of merchants\<close>

text \<open>
  \<^verbatim>\<open>wallet/domain/qr.py\<close> and \<^verbatim>\<open>wallet/application/qr_service.py\<close>. The HMAC, the JSON decoder and the ISO 8601
  forms of times are parameters, with the secret, collected in \<open>qr_env\<close>; the JSON encoder is written out.
  A decoded code carries whatever values its members have, so the members of a payload are dynamic values.
\<close>

datatype iso_time = Aware instant | Naive instant

record qr_env =
  qe_secret :: string
  qe_hmac :: "string \<Rightarrow> string \<Rightarrow> string"
  qe_loads :: "string \<Rightarrow> pyval option"
  qe_iso :: "iso_time \<Rightarrow> string"
  qe_of_iso :: "string \<Rightarrow> iso_time option"

record qr_payload =
  qp_merchant :: uuid
  qp_currency :: pyval
  qp_amount :: pyval
  qp_origin :: pyval
  qp_expires :: "iso_time option"
  qp_nonce :: pyval

subsection \<open>Signing\<close>

text \<open>\<open>json.dumps\<close> with sorted keys and no blanks.\<close>

fun dumps_value :: "pyval \<Rightarrow> string" where
  "dumps_value V_none = ''null''"
| "dumps_value (V_bool b) = (if b then ''true'' else ''false'')"
| "dumps_value (V_int n) = int_str n"
| "dumps_value (V_float r txt) = txt"
| "dumps_value (V_str s) = quoted s"
| "dumps_value (V_list vs) = ''['' @ join '','' (map dumps_value vs) @ '']''"
| "dumps_value (V_dict d) = ''{'' @ join '','' (map (\<lambda>(k, v). quoted k @ '':'' @ v)
     (sort_key fst (map (\<lambda>(k, v). (k, dumps_value v)) d))) @ ''}''"

definition qr_to_dict :: "qr_env \<Rightarrow> qr_payload \<Rightarrow> dict" where
  "qr_to_dict Q p =
     [(''v'', V_int 1), (''merchant_account_id'', V_str (uuid_str (qp_merchant p))), (''currency'', qp_currency p), (''amount'', qp_amount p),
      (''origin_module'', qp_origin p), (''expires_at'', (case qp_expires p of None \<Rightarrow> V_none | Some t \<Rightarrow> V_str (qe_iso Q t))),
      (''nonce'', qp_nonce p)]"

definition qr_sign :: "qr_env \<Rightarrow> qr_payload \<Rightarrow> string" where
  "qr_sign Q p = (let body_b64 = b64encode (dumps_value (V_dict (qr_to_dict Q p)))
     in body_b64 @ ''.'' @ b64encode (qe_hmac Q (qe_secret Q) body_b64))"

subsection \<open>Verifying\<close>

datatype qr_error = Invalid_qr | Qr_expired | Qr_crash

text \<open>\<open>uuid.UUID\<close> of a text or of a missing value raises what the caller handles, of another value it does not.\<close>

definition qr_uuid :: "pyval \<Rightarrow> qr_error + uuid" where
  "qr_uuid v = (case v of V_str s \<Rightarrow> (case uuid_of_text s of None \<Rightarrow> Inl Invalid_qr | Some i \<Rightarrow> Inr i)
     | V_none \<Rightarrow> Inl Invalid_qr | _ \<Rightarrow> Inl Qr_crash)"

definition qr_from_dict :: "qr_env \<Rightarrow> dict \<Rightarrow> qr_error + qr_payload" where
  "qr_from_dict Q d =
     (case map_of d ''merchant_account_id'' of None \<Rightarrow> Inl Invalid_qr | Some m \<Rightarrow>
      and_next (qr_uuid m) (\<lambda>i.
      case map_of d ''currency'' of None \<Rightarrow> Inl Invalid_qr | Some cur \<Rightarrow>
      and_next (if py_true (dict_get d ''expires_at'') then
           (case dict_get d ''expires_at'' of V_str s \<Rightarrow> (case qe_of_iso Q s of None \<Rightarrow> Inl Invalid_qr | Some t \<Rightarrow> Inr (Some t))
            | _ \<Rightarrow> Inl Invalid_qr)
         else Inr None) (\<lambda>expires.
      Inr \<lparr>qp_merchant = i, qp_currency = cur, qp_amount = dict_get d ''amount'', qp_origin = dict_get d ''origin_module'',
           qp_expires = expires, qp_nonce = (case map_of d ''nonce'' of None \<Rightarrow> V_str [] | Some v \<Rightarrow> v)\<rparr>)))"

text \<open>\<open>== 1\<close>, which \<open>True\<close> and \<open>1.0\<close> are too.\<close>

definition is_version :: "pyval \<Rightarrow> bool" where
  "is_version v \<longleftrightarrow> v = V_int 1 \<or> v = V_bool True \<or> (case v of V_float r _ \<Rightarrow> r = 1 | _ \<Rightarrow> False)"

text \<open>A body that is not ASCII makes \<open>body_b64.encode\<close> raise outside of every handler.\<close>

definition qr_verify :: "qr_env \<Rightarrow> instant \<Rightarrow> string \<Rightarrow> qr_error + qr_payload" where
  "qr_verify Q t token =
     (case partition_at (CHR ''.'') token of (body_b64, dotted, signature_b64) \<Rightarrow>
        if \<not> dotted then Inl Invalid_qr
        else if \<not> is_ascii body_b64 then Inl Qr_crash
        else case b64decode signature_b64 of None \<Rightarrow> Inl Invalid_qr
        | Some provided \<Rightarrow>
          if qe_hmac Q (qe_secret Q) body_b64 \<noteq> provided then Inl Invalid_qr
          else case (case b64decode body_b64 of None \<Rightarrow> None | Some body \<Rightarrow> qe_loads Q body) of
            None \<Rightarrow> Inl Invalid_qr
          | Some (V_dict d) \<Rightarrow>
              if \<not> is_version (dict_get d ''v'') then Inl Invalid_qr
              else and_next (qr_from_dict Q d) (\<lambda>p.
                case qp_expires p of None \<Rightarrow> Inr p
                | Some (Naive _) \<Rightarrow> Inl Qr_crash
                | Some (Aware x) \<Rightarrow> if x < t then Inl Qr_expired else Inr p)
          | Some _ \<Rightarrow> Inl Qr_crash)"

subsection \<open>The service\<close>

definition qr_exception :: "qr_error \<Rightarrow> wexc" where
  "qr_exception e = (case e of Invalid_qr \<Rightarrow> InvalidQrCodeError | Qr_expired \<Rightarrow> QrCodeExpiredError | Qr_crash \<Rightarrow> RuntimeError)"

definition max_dynamic_qr_ttl :: int where
  "max_dynamic_qr_ttl = 24 * 3600"

definition merchant_actif :: "uuid \<Rightarrow> account wop" where
  "merchant_actif i =
     bindE (readE (\<lambda>s. account_get s i)) (\<lambda>found.
     bindE (some_or MerchantNotFound found) (\<lambda>m.
     thenE (ensure (acc_type m = MERCHANT) MerchantNotFound)
     (thenE (ensure (acc_status m = ACTIVE) AccountNotActive)
       (retE m))))"

record qr_request =
  qq_merchant :: uuid
  qq_amount :: "int option"
  qq_currency :: string
  qq_origin :: "string option"
  qq_expires_in :: "int option"

definition opt_str :: "string option \<Rightarrow> pyval" where
  "opt_str x = (case x of None \<Rightarrow> V_none | Some s \<Rightarrow> V_str s)"

definition qr_montant :: "qr_request \<Rightarrow> money option wop" where
  "qr_montant q = (case qq_amount q of None \<Rightarrow> retE None
     | Some a \<Rightarrow> bindE (to_money a (qq_currency q)) (\<lambda>m. thenE (ensure (is_positive m) InvalidAmountError) (retE (Some m))))"

definition generer :: "qr_env \<Rightarrow> uuid \<Rightarrow> qr_request \<Rightarrow> (string \<times> qr_payload) wop" where
  "generer Q requester q =
     bindE (merchant_actif (qq_merchant q)) (\<lambda>m.
     thenE (ensure (acc_user m = Some requester) NotMerchantAccountOwner)
     (bindE (qr_montant q) (\<lambda>montant.
      thenE (ensure (\<not> (qq_expires_in q \<noteq> None \<and> montant = None)) InvalidQrCodeError)
      (bindE now (\<lambda>t.
       bindE fresh (\<lambda>n.
       let p = \<lparr>qp_merchant = acc_id m,
              qp_currency = V_str (case montant of None \<Rightarrow> qq_currency q | Some x \<Rightarrow> m_currency x),
              qp_amount = (case montant of None \<Rightarrow> V_none | Some x \<Rightarrow> V_int (amount x)),
              qp_origin = opt_str (qq_origin q),
              qp_expires = map_option (\<lambda>ttl. Aware (t + min ttl max_dynamic_qr_ttl)) (qq_expires_in q),
              qp_nonce = V_str (uuid_str n)\<rparr>
       in retE (qr_sign Q p, p)))))))"

definition verifier :: "qr_env \<Rightarrow> string \<Rightarrow> (qr_payload \<times> account) wop" where
  "verifier Q token =
     bindE now (\<lambda>t.
     bindE (of_sum (map_sum qr_exception id (qr_verify Q t token))) (\<lambda>p.
     bindE (merchant_actif (qp_merchant p)) (\<lambda>m.
     retE (p, m))))"

end
