(* ===== verification/WalletApi.thy ===== *)
theory WalletApi
  imports WalletSweep Qr
begin

section \<open>The routes of the wallet\<close>

text \<open>
  \<^verbatim>\<open>wallet/presentation/routers.py\<close> with the bodies of \<^verbatim>\<open>schemas.py\<close>: what each route requires of its caller,
  how it checks its body, the use case it calls and what it answers. FastAPI resolves the dependencies in
  their order, then reports what the body does not meet, then runs the handler; a body is given here with its
  members already of their declared types. The checks of the response models and the log lines are left out.
\<close>

subsection \<open>Callers\<close>

type_synonym 'a api_op = "(wallet_desk, aexc, 'a) op"

record wallet_call =
  lc_credentials :: "(string \<times> string) option"
  lc_key :: "string option"

record api_env =
  ae_jwt :: jwt_verifier
  ae_auth :: auth_settings
  ae_wallet :: wallet_env
  ae_bus :: "outbox_event \<Rightarrow> bool"
  ae_qr :: qr_env

definition on_desk :: "'a desk_op \<Rightarrow> 'a api_op" where
  "on_desk = on_part id (\<lambda>d _. d) A_wallet"

definition on_wallet :: "'a wop \<Rightarrow> 'a api_op" where
  "on_wallet m = on_desk (in_wallet m)"

definition signed_in :: "api_env \<Rightarrow> wallet_call \<Rightarrow> bool \<Rightarrow> (current_user \<Rightarrow> 'a api_op) \<Rightarrow> 'a api_op" where
  "signed_in env c valid handler =
     bindE (of_sum (get_current_user (ae_jwt env) (lc_credentials c))) (\<lambda>u. thenE (ensure valid A_validation) (handler u))"

definition with_key :: "api_env \<Rightarrow> wallet_call \<Rightarrow> bool \<Rightarrow> (current_user \<Rightarrow> string \<Rightarrow> 'a api_op) \<Rightarrow> 'a api_op" where
  "with_key env c valid handler =
     bindE (of_sum (get_current_user (ae_jwt env) (lc_credentials c))) (\<lambda>u.
     bindE (of_sum (get_idempotency_key (lc_key c))) (\<lambda>key. thenE (ensure valid A_validation) (handler u key)))"

definition as_admin :: "api_env \<Rightarrow> wallet_call \<Rightarrow> bool \<Rightarrow> (current_user \<Rightarrow> 'a api_op) \<Rightarrow> 'a api_op" where
  "as_admin env c valid handler = signed_in env c valid (\<lambda>u. thenE (of_sum (require_admin u)) (handler u))"

subsection \<open>Bodies\<close>

definition pin_shape :: "string \<Rightarrow> bool" where
  "pin_shape = sized 4 12"

record deposit_body =
  db_provider :: string
  db_amount :: int
  db_phone :: string
  db_email :: "string option"

definition wallet_providers :: "string list" where
  "wallet_providers = [''paystack'', ''orange_money'', ''mtn_momo'', ''wave'', ''moov'', ''card_gateway'']"

definition deposit_body_ok :: "deposit_body \<Rightarrow> bool" where
  "deposit_body_ok b \<longleftrightarrow> db_provider b \<in> set wallet_providers \<and> 0 < db_amount b \<and> sized 4 20 (db_phone b) \<and> opt_sized 254 (db_email b)"

record transfer_body =
  tb_phone :: string
  tb_amount :: int
  tb_pin :: string
  tb_token :: "string option"

definition transfer_body_ok :: "transfer_body \<Rightarrow> bool" where
  "transfer_body_ok b \<longleftrightarrow> sized 4 20 (tb_phone b) \<and> 0 < tb_amount b \<and> pin_shape (tb_pin b)
     \<and> (case tb_token b of None \<Rightarrow> True | Some t \<Rightarrow> 20 \<le> length t)"

record merchant_body =
  mb_account :: uuid
  mb_amount :: int
  mb_pin :: string
  mb_origin :: "string option"
  mb_business :: "string option"

definition merchant_body_ok :: "merchant_body \<Rightarrow> bool" where
  "merchant_body_ok b \<longleftrightarrow> 0 < mb_amount b \<and> pin_shape (mb_pin b) \<and> opt_sized 30 (mb_origin b) \<and> opt_sized 100 (mb_business b)"

definition qr_request_ok :: "qr_request \<Rightarrow> bool" where
  "qr_request_ok q \<longleftrightarrow> (case qq_amount q of None \<Rightarrow> True | Some a \<Rightarrow> 0 < a) \<and> length (qq_currency q) = 3 \<and> opt_sized 30 (qq_origin q)
     \<and> (case qq_expires_in q of None \<Rightarrow> True | Some n \<Rightarrow> 0 < n \<and> n \<le> 86400)"

record history_filter =
  hf_origin :: "string option"
  hf_type :: "string option"
  hf_from :: "int option"
  hf_to :: "int option"
  hf_page :: nat
  hf_size :: nat

definition history_filter_ok :: "history_filter \<Rightarrow> bool" where
  "history_filter_ok f \<longleftrightarrow> 1 \<le> hf_page f \<and> 1 \<le> hf_size f \<and> hf_size f \<le> 100"

record kyc_body =
  kb_user :: uuid
  kb_file :: string
  kb_type :: string
  kb_status :: string
  kb_source :: "string option"

definition kyc_body_ok :: "kyc_body \<Rightarrow> bool" where
  "kyc_body_ok b \<longleftrightarrow> sized 1 100 (kb_file b) \<and> sized 1 40 (kb_type b) \<and> kb_status b \<in> {''pending'', ''verified'', ''rejected''}
     \<and> opt_sized 30 (kb_source b)"

subsection \<open>Reading\<close>

text \<open>Account, balance, currency and status.\<close>

definition get_balance :: "api_env \<Rightarrow> wallet_call \<Rightarrow> (uuid \<times> int \<times> string \<times> account_status) api_op" where
  "get_balance env c = signed_in env c True (\<lambda>u.
     bindE (on_wallet (consulter_solde (cu_id u))) (\<lambda>(a, b). retE (acc_id a, b_amount b, b_currency b, acc_status a)))"

definition lookup_recipient :: "api_env \<Rightarrow> wallet_call \<Rightarrow> string \<Rightarrow> string api_op" where
  "lookup_recipient env c phone = signed_in env c (sized 4 20 phone) (\<lambda>u.
     bindE (readE (\<lambda>s. lookup_recipient_display_name (op_wallet s) phone)) (\<lambda>found. some_or (A_forbidden ''RECIPIENT_NOT_FOUND'') found))"

definition route_pin_status :: "api_env \<Rightarrow> wallet_call \<Rightarrow> (uuid \<times> bool \<times> int \<times> instant option) api_op" where
  "route_pin_status env c = signed_in env c True (\<lambda>u.
     bindE (on_wallet (compte_de (cu_id u))) (\<lambda>a.
     bindE (readE (\<lambda>s. pin_get (op_wallet s) (acc_id a))) (\<lambda>pin.
     retE (acc_id a, pin \<noteq> None, (case pin of None \<Rightarrow> 0 | Some p \<Rightarrow> failed_attempts p), Option.bind pin locked_until))))"

text \<open>The amount the caller sees: that of the entry, or the announced one.\<close>

definition entry_montant :: "transaction \<Rightarrow> ledger_entry option \<Rightarrow> amount_error + int" where
  "entry_montant t e = (case e of
       Some x \<Rightarrow> map_sum id amount (from_db (of_int (le_amount x)) (le_currency x))
     | None \<Rightarrow> (case tx_amount t of None \<Rightarrow> Inr 0
         | Some a \<Rightarrow> map_sum id amount (from_db (of_int a) (the (or_else (tx_currency t) (Some XOF))))))"

record transaction_item =
  ti_id :: uuid
  ti_type :: string
  ti_amount :: int
  ti_currency :: string
  ti_status :: transaction_status
  ti_origin :: "string option"
  ti_business :: "string option"
  ti_direction :: "direction option"
  ti_created :: instant

definition item_of :: "transaction \<Rightarrow> ledger_entry option \<Rightarrow> aexc + transaction_item" where
  "item_of t e = map_sum (\<lambda>x. A_wallet (AmountError x)) (\<lambda>a. \<lparr>ti_id = tx_id t, ti_type = tx_type t, ti_amount = a,
     ti_currency = the (or_else (case e of None \<Rightarrow> tx_currency t | Some x \<Rightarrow> Some (le_currency x)) (Some XOF)), ti_status = tx_status t,
     ti_origin = tx_origin t, ti_business = tx_business t, ti_direction = map_option le_direction e, ti_created = tx_created t\<rparr>)
     (entry_montant t e)"

fun items_of :: "(transaction \<times> ledger_entry option) list \<Rightarrow> aexc + transaction_item list" where
  "items_of [] = Inr []"
| "items_of ((t, e) # rows) = and_next (item_of t e) (\<lambda>x. and_next (items_of rows) (\<lambda>xs. Inr (x # xs)))"

definition total_pages :: "nat \<Rightarrow> nat \<Rightarrow> nat" where
  "total_pages n page_size = (if n = 0 then 0 else (n + page_size - 1) div page_size)"

text \<open>The items of the page, the number of all items and of all pages.\<close>

definition list_transactions :: "api_env \<Rightarrow> wallet_call \<Rightarrow> history_filter \<Rightarrow> (transaction_item list \<times> nat \<times> nat) api_op" where
  "list_transactions env c f = signed_in env c (history_filter_ok f) (\<lambda>u.
     bindE (on_wallet (compte_de (cu_id u))) (\<lambda>a.
     bindE (readE (\<lambda>s. history (op_wallet s) (acc_id a) (hf_origin f) (hf_type f) (hf_from f) (hf_to f) (hf_page f) (hf_size f))) (\<lambda>(rows, n).
     bindE (of_sum (items_of rows)) (\<lambda>items. retE (items, n, total_pages n (hf_size f))))))"

text \<open>The item, its completion time, and the checkout link with its access code.\<close>

definition get_transaction :: "api_env \<Rightarrow> wallet_call \<Rightarrow> uuid \<Rightarrow> (transaction_item \<times> instant option \<times> string option \<times> string option) api_op" where
  "get_transaction env c i = signed_in env c True (\<lambda>u.
     bindE (on_wallet (consulter_transaction (cu_id u) i)) (\<lambda>(t, e).
     bindE (of_sum (item_of t e)) (\<lambda>item. retE (item, tx_completed t, tx_authorization_url t, tx_access_code t))))"

subsection \<open>PINs\<close>

definition route_set_pin :: "api_env \<Rightarrow> wallet_call \<Rightarrow> string \<Rightarrow> string \<Rightarrow> string \<Rightarrow> (uuid \<times> string list) api_op" where
  "route_set_pin env c pin confirm step_up_token =
     signed_in env c (pin_shape pin \<and> pin_shape confirm \<and> 20 \<le> length step_up_token) (\<lambda>u.
     bindE (of_sum (decode_step_up_token (ae_jwt env) (ae_auth env) step_up_token (cu_id u) ''wallet.pin.set'')) (\<lambda>proof.
     bindE (on_wallet (define_pin (we_pins (ae_wallet env)) (cu_id u) pin confirm proof)) (\<lambda>(a, codes). retE (acc_id a, codes))))"

definition route_change_pin :: "api_env \<Rightarrow> wallet_call \<Rightarrow> string \<Rightarrow> string \<Rightarrow> string \<Rightarrow> uuid api_op" where
  "route_change_pin env c current new_pin confirm =
     signed_in env c (pin_shape current \<and> pin_shape new_pin \<and> pin_shape confirm) (\<lambda>u.
     bindE (on_wallet (change_pin (we_pins (ae_wallet env)) (cu_id u) current new_pin confirm)) (\<lambda>a. retE (acc_id a)))"

definition route_reset_pin :: "api_env \<Rightarrow> wallet_call \<Rightarrow> string \<Rightarrow> string \<Rightarrow> string \<Rightarrow> uuid api_op" where
  "route_reset_pin env c recovery new_pin confirm =
     signed_in env c (sized 6 64 recovery \<and> pin_shape new_pin \<and> pin_shape confirm) (\<lambda>u.
     bindE (on_wallet (reset_pin_with_recovery (we_pins (ae_wallet env)) (cu_id u) recovery new_pin confirm)) (\<lambda>a. retE (acc_id a)))"

subsection \<open>Moving money\<close>

text \<open>Transaction, status, provider reference, checkout link and access code.\<close>

definition route_deposit :: "api_env \<Rightarrow> wallet_call \<Rightarrow> deposit_body \<Rightarrow>
    (uuid \<times> transaction_status \<times> string option \<times> string option \<times> string option) api_op" where
  "route_deposit env c b = with_key env c (deposit_body_ok b) (\<lambda>u key.
     bindE (on_wallet (deposer (ae_wallet env) (cu_id u) (db_provider b) (db_amount b) (db_phone b) (db_email b) key)) (\<lambda>(t, url, access).
     retE (tx_id t, tx_status t, tx_provider_reference t, url, access)))"

definition route_withdraw :: "api_env \<Rightarrow> wallet_call \<Rightarrow> deposit_body \<Rightarrow> string \<Rightarrow> (uuid \<times> transaction_status) api_op" where
  "route_withdraw env c b pin = with_key env c (deposit_body_ok b \<and> pin_shape pin) (\<lambda>u key.
     bindE (on_wallet (retirer (ae_wallet env) (cu_id u) (db_provider b) (db_amount b) (db_phone b) pin key)) (\<lambda>t.
     retE (tx_id t, tx_status t)))"

text \<open>Transaction, status, amount and currency.\<close>

type_synonym transfer_reply = "uuid \<times> transaction_status \<times> int \<times> string"

definition transfer_answer :: "transaction \<times> money \<times> bool \<Rightarrow> transfer_reply" where
  "transfer_answer = (\<lambda>(t, m, _). (tx_id t, tx_status t, amount m, m_currency m))"

definition route_transfer :: "api_env \<Rightarrow> wallet_call \<Rightarrow> transfer_body \<Rightarrow> transfer_reply api_op" where
  "route_transfer env c b = with_key env c (transfer_body_ok b) (\<lambda>u key.
     bindE (case tb_token b of None \<Rightarrow> retE None
       | Some token \<Rightarrow> bindE (of_sum (decode_step_up_token (ae_jwt env) (ae_auth env) token (cu_id u) ''wallet.transfer.high_value''))
           (\<lambda>p. retE (Some p))) (\<lambda>proof.
     bindE (on_wallet (transferer_p2p (ae_wallet env) (cu_id u) (tb_phone b) (tb_amount b) (tb_pin b) proof key)) (\<lambda>r.
     retE (transfer_answer r))))"

definition route_pay_merchant :: "api_env \<Rightarrow> wallet_call \<Rightarrow> merchant_body \<Rightarrow> transfer_reply api_op" where
  "route_pay_merchant env c b = with_key env c (merchant_body_ok b) (\<lambda>u key.
     bindE (on_wallet (payer_marchand (ae_wallet env) (cu_id u) (mb_account b) (mb_amount b) (mb_pin b) (mb_origin b) (mb_business b) key)) (\<lambda>r.
     retE (transfer_answer r)))"

definition route_generate_qr :: "api_env \<Rightarrow> wallet_call \<Rightarrow> qr_request \<Rightarrow> (string \<times> qr_payload) api_op" where
  "route_generate_qr env c q = signed_in env c (qr_request_ok q) (\<lambda>u. on_wallet (generer (ae_qr env) (cu_id u) q))"

definition route_verify_qr :: "api_env \<Rightarrow> wallet_call \<Rightarrow> string \<Rightarrow> qr_payload api_op" where
  "route_verify_qr env c token = signed_in env c (1 \<le> length token) (\<lambda>u.
     bindE (on_wallet (verifier (ae_qr env) token)) (\<lambda>(p, _). retE p))"

subsection \<open>Operators\<close>

definition route_backfill :: "api_env \<Rightarrow> wallet_call \<Rightarrow> uuid \<Rightarrow> string option \<Rightarrow> string \<Rightarrow> (uuid \<times> uuid) api_op" where
  "route_backfill env c user phone account_type =
     as_admin env c (opt_sized 20 phone \<and> account_type \<in> {''user'', ''merchant''}) (\<lambda>_.
     bindE (on_wallet (backfill_wallet user phone account_type)) (\<lambda>a. retE (acc_id a, user)))"

text \<open>The account, if there is one, and the phone number.\<close>

definition provisioning_status :: "api_env \<Rightarrow> wallet_call \<Rightarrow> uuid \<Rightarrow> (account option \<times> string option) api_op" where
  "provisioning_status env c user = as_admin env c True (\<lambda>_. readE (\<lambda>s.
     (account_by_user (op_wallet s) user XOF USER, map_option up_phone (lookup_row up_user user (phones (op_wallet s))))))"

definition route_kyc_link :: "api_env \<Rightarrow> wallet_call \<Rightarrow> kyc_body \<Rightarrow> kyc_document api_op" where
  "route_kyc_link env c b = as_admin env c (kyc_body_ok b) (\<lambda>_. on_desk (kyc_add (kb_user b) (kb_file b) (kb_type b) (kb_status b) (kb_source b)))"

definition route_kyc_list :: "api_env \<Rightarrow> wallet_call \<Rightarrow> uuid \<Rightarrow> kyc_document list api_op" where
  "route_kyc_list env c user = as_admin env c True (\<lambda>_. readE (\<lambda>s. kyc_for_user s user))"

definition route_outbox_list :: "api_env \<Rightarrow> wallet_call \<Rightarrow> outbox_event list api_op" where
  "route_outbox_list env c = as_admin env c True (\<lambda>_. readE (\<lambda>s. outbox_pending (op_wallet s) 100))"

text \<open>The relay commits by itself.\<close>

definition route_relay :: "api_env \<Rightarrow> wallet_call \<Rightarrow> (nat \<times> nat) api_op" where
  "route_relay env c = as_admin env c True (\<lambda>_. on_desk (relay_outbox (ae_bus env)))"

definition route_admin_reset_pin :: "api_env \<Rightarrow> wallet_call \<Rightarrow> uuid \<Rightarrow> string \<Rightarrow> string \<Rightarrow> string \<Rightarrow> (uuid \<times> string list) api_op" where
  "route_admin_reset_pin env c user new_pin confirm reason =
     as_admin env c (pin_shape new_pin \<and> pin_shape confirm \<and> sized 5 200 reason) (\<lambda>u.
     bindE (on_wallet (admin_reset_pin (we_pins (ae_wallet env)) (Some (cu_id u)) user new_pin confirm reason)) (\<lambda>(a, codes).
     retE (acc_id a, codes)))"

definition route_reconcile :: "api_env \<Rightarrow> wallet_call \<Rightarrow> uuid \<Rightarrow> reconcile_status api_op" where
  "route_reconcile env c i = as_admin env c True (\<lambda>_. on_desk (reconcile_wallet_transaction (ae_wallet env) i))"

definition route_pending :: "api_env \<Rightarrow> wallet_call \<Rightarrow> transaction list api_op" where
  "route_pending env c = as_admin env c True (\<lambda>_. readE (\<lambda>s. pending_deposits (op_wallet s)))"

definition route_summary :: "api_env \<Rightarrow> wallet_call \<Rightarrow> (nat \<times> nat \<times> nat \<times> nat \<times> nat) api_op" where
  "route_summary env c = as_admin env c True (\<lambda>_. readE (\<lambda>s. deposit_summary (op_wallet s)))"

definition route_inspect :: "api_env \<Rightarrow> wallet_call \<Rightarrow> uuid \<Rightarrow> transaction option api_op" where
  "route_inspect env c i = as_admin env c True (\<lambda>_. readE (\<lambda>s. transaction_get (op_wallet s) i))"

definition route_reconciliations :: "api_env \<Rightarrow> wallet_call \<Rightarrow> uuid \<Rightarrow> reconciliation_log list api_op" where
  "route_reconciliations env c i = as_admin env c True (\<lambda>_. readE (\<lambda>s. latest_for_transaction s i 20))"

end
