(* ===== verification/QrProps.thy ===== *)
theory QrProps
  imports Qr WalletDemo
begin

section \<open>What a payment token guarantees\<close>

lemma uuid_of_text_str [simp]: "uuid_of_text (uuid_str i) = Some i"
  by (simp add: uuid_of_text_def digits_of_uuid_str Let_def)

lemma merchant_actif_Inr:
  "merchant_actif i s = (Inr m, t) \<longleftrightarrow> t = s \<and> account_get s i = Some m \<and> acc_type m = MERCHANT \<and> acc_status m = ACTIVE"
  by (auto simp: merchant_actif_def)

lemma partition_dot: "c \<notin> set b \<Longrightarrow> partition_at c (b @ c # r) = (b, True, r)"
proof -
  assume "c \<notin> set b"
  then have "dropWhile (\<lambda>x. x \<noteq> c) b = []" "takeWhile (\<lambda>x. x \<noteq> c) b = b" by (auto simp: dropWhile_eq_Nil_conv takeWhile_eq_all_conv)
  with \<open>c \<notin> set b\<close> show ?thesis by (simp add: partition_at_def takeWhile_tail dropWhile_append)
qed

lemma partition_dotted:
  assumes "partition_at c token = (b, True, r)"
  shows "token = b @ c # r"
proof -
  have parts: "b = takeWhile (\<lambda>x. x \<noteq> c) token" "r = tl (dropWhile (\<lambda>x. x \<noteq> c) token)" "c \<in> set token"
    using assms by (auto simp: partition_at_def)
  from parts(3) have "\<exists>w. dropWhile (\<lambda>x. x \<noteq> c) token = c # w" by (induction token) auto
  then obtain w where "dropWhile (\<lambda>x. x \<noteq> c) token = c # w" ..
  with parts(1,2) takeWhile_dropWhile_id [of "\<lambda>x. x \<noteq> c" token] show ?thesis by simp
qed

lemma qr_verify_Inr:
  assumes "qr_verify Q time token = Inr p"
  obtains body signature raw d where "token = body @ ''.'' @ signature" "b64decode signature = Some (qe_hmac Q (qe_secret Q) body)"
    "b64decode body = Some raw" "qe_loads Q raw = Some (V_dict d)" "qr_from_dict Q d = Inr p"
    "\<And>x. qp_expires p = Some (Aware x) \<Longrightarrow> time \<le> x"
proof -
  obtain body dotted signature where parts: "partition_at (CHR ''.'') token = (body, dotted, signature)" by (metis prod_cases3)
  note run = assms [unfolded qr_verify_def parts prod.case]
  from run have dotted by (simp split: if_splits)
  with run have ascii: "is_ascii body" by (simp split: if_splits)
  note run = run [unfolded if_not_P [OF not_not [THEN iffD2, OF \<open>dotted\<close>]] if_not_P [OF not_not [THEN iffD2, OF ascii]]]
  from run obtain provided where s: "b64decode signature = Some provided" by (cases "b64decode signature") simp_all
  with run have hm: "provided = qe_hmac Q (qe_secret Q) body" by (simp split: if_splits)
  note run = run [unfolded s option.case hm if_not_P [OF not_not [THEN iffD2, OF refl]]]
  from run obtain raw where raw: "b64decode body = Some raw" by (cases "b64decode body") simp_all
  from run raw obtain d where d: "qe_loads Q raw = Some (V_dict d)" by (auto split: option.splits pyval.splits)
  with run raw have got: "and_next (qr_from_dict Q d) (\<lambda>p. case qp_expires p of None \<Rightarrow> Inr p | Some (Naive _) \<Rightarrow> Inl Qr_crash
      | Some (Aware x) \<Rightarrow> if x < time then Inl Qr_expired else Inr p) = Inr p" by (simp split: if_splits)
  then obtain p' where p': "qr_from_dict Q d = Inr p'" by (cases "qr_from_dict Q d") (simp_all add: and_next_def)
  with got have "p' = p \<and> (\<forall>x. qp_expires p = Some (Aware x) \<longrightarrow> time \<le> x)"
    by (auto simp: and_next_def split: option.splits iso_time.splits if_splits)
  with that [OF _ s [unfolded hm] raw d] p' partition_dotted [OF parts [unfolded \<open>dotted\<close> [THEN eqTrueI]]] show thesis by simp
qed

text \<open>
  C11: a payment code is accepted only when its second part decodes to the HMAC of the first under the signing
  secret; what is then answered is what the first part says, it has not expired, its account is an active
  merchant account, and nothing is changed.
\<close>

theorem accepted_qr_is_authentic:
  assumes "verifier Q token s = (Inr (p, m), t)"
  shows "t = s \<and> account_get s (qp_merchant p) = Some m \<and> acc_type m = MERCHANT \<and> acc_status m = ACTIVE
     \<and> (\<forall>x. qp_expires p = Some (Aware x) \<longrightarrow> clock s \<le> x)
     \<and> (\<exists>body signature raw d. token = body @ ''.'' @ signature \<and> b64decode signature = Some (qe_hmac Q (qe_secret Q) body)
          \<and> b64decode body = Some raw \<and> qe_loads Q raw = Some (V_dict d) \<and> qr_from_dict Q d = Inr p)"
proof -
  from assms have v: "qr_verify Q (clock s) token = Inr p" and m: "merchant_actif (qp_merchant p) s = (Inr m, t)"
    by (auto simp: verifier_def now_def split: sum.splits)
  show ?thesis
  proof (rule qr_verify_Inr [OF v], intro conjI)
    fix body signature raw d
    assume "token = body @ ''.'' @ signature" "b64decode signature = Some (qe_hmac Q (qe_secret Q) body)" "b64decode body = Some raw"
      "qe_loads Q raw = Some (V_dict d)" "qr_from_dict Q d = Inr p"
    then show "\<exists>body signature raw d. token = body @ ''.'' @ signature \<and> b64decode signature = Some (qe_hmac Q (qe_secret Q) body)
          \<and> b64decode body = Some raw \<and> qe_loads Q raw = Some (V_dict d) \<and> qr_from_dict Q d = Inr p"
      by (intro exI conjI)
  qed (use m in \<open>simp_all add: merchant_actif_Inr\<close>)
qed

lemma qr_from_own_dict:
  assumes "map_of d = map_of (qr_to_dict Q p)"
    and "\<forall>x. qp_expires p = Some x \<longrightarrow> qe_iso Q x \<noteq> [] \<and> qe_of_iso Q (qe_iso Q x) = Some x"
  shows "qr_from_dict Q d = Inr p" "is_version (dict_get d ''v'')"
proof -
  have get: "map_of d k = map_of (qr_to_dict Q p) k" for k by (simp add: assms(1))
  show "is_version (dict_get d ''v'')" by (simp add: dict_get_def get is_version_def, simp add: qr_to_dict_def)
  have members: "map_of d ''merchant_account_id'' = Some (V_str (uuid_str (qp_merchant p)))" "map_of d ''currency'' = Some (qp_currency p)"
    "dict_get d ''amount'' = qp_amount p" "dict_get d ''origin_module'' = qp_origin p" "map_of d ''nonce'' = Some (qp_nonce p)"
    "dict_get d ''expires_at'' = (case qp_expires p of None \<Rightarrow> V_none | Some t \<Rightarrow> V_str (qe_iso Q t))"
    by (simp_all add: dict_get_def get qr_to_dict_def)
  show "qr_from_dict Q d = Inr p"
    using assms(2) by (simp add: qr_from_dict_def members qr_uuid_def and_next_def split: option.splits)
qed

lemma qr_verify_sign:
  assumes "qe_loads Q (dumps_value (V_dict (qr_to_dict Q p))) = Some (V_dict d)" "map_of d = map_of (qr_to_dict Q p)"
    and "\<forall>x. qp_expires p = Some x \<longrightarrow> qe_iso Q x \<noteq> [] \<and> qe_of_iso Q (qe_iso Q x) = Some x"
    and "\<forall>x. qp_expires p \<noteq> Some (Naive x)" "\<forall>x. qp_expires p = Some (Aware x) \<longrightarrow> time \<le> x"
  shows "qr_verify Q time (qr_sign Q p) = Inr p"
proof -
  let ?b = "b64encode (dumps_value (V_dict (qr_to_dict Q p)))"
  have parts: "partition_at (CHR ''.'') (qr_sign Q p) = (?b, True, b64encode (qe_hmac Q (qe_secret Q) ?b))"
    unfolding qr_sign_def Let_def append.simps by (rule partition_dot [OF dot_not_encoded])
  note own = qr_from_own_dict [OF assms(2,3)]
  have early: "\<forall>x. x < time \<longrightarrow> qp_expires p \<noteq> Some (Aware x)" using assms(5) by force
  show ?thesis
    unfolding qr_verify_def parts prod.case
    using assms(4) early by (simp add: assms(1) own and_next_def del: dumps_value.simps split: option.splits iso_time.splits)
qed

lemma generer_Inr:
  assumes "generer Q u q s = (Inr (token, p), t)"
  shows "token = qr_sign Q p" "qp_merchant p = qq_merchant q" "\<forall>x. qp_expires p \<noteq> Some (Naive x)"
    "qp_amount p = (case qq_amount q of None \<Rightarrow> V_none | Some a \<Rightarrow> V_int a)"
proof -
  have montant: "map_option amount x = qq_amount q" if "qr_montant q w = (Inr x, w')" for x w w'
    using that by (auto simp: qr_montant_def to_money_def mk_money_def split: option.splits if_splits sum.splits)
  from assms obtain x w w' m n where x: "qr_montant q w = (Inr x, w')" and m: "account_get s (qq_merchant q) = Some m"
    and p: "p = \<lparr>qp_merchant = acc_id m,
              qp_currency = V_str (case x of None \<Rightarrow> qq_currency q | Some x \<Rightarrow> m_currency x),
              qp_amount = (case x of None \<Rightarrow> V_none | Some x \<Rightarrow> V_int (amount x)),
              qp_origin = opt_str (qq_origin q),
              qp_expires = map_option (\<lambda>ttl. Aware (clock w' + min ttl max_dynamic_qr_ttl)) (qq_expires_in q),
              qp_nonce = V_str (uuid_str n)\<rparr>" and sign: "token = qr_sign Q p"
    unfolding generer_def now_def Let_def run_simps merchant_actif_Inr by blast
  show "token = qr_sign Q p" by (rule sign)
  show "qp_merchant p = qq_merchant q" using account_get_id [OF m] by (simp add: p)
  show "\<forall>x. qp_expires p \<noteq> Some (Naive x)" by (simp add: p)
  show "qp_amount p = (case qq_amount q of None \<Rightarrow> V_none | Some a \<Rightarrow> V_int a)"
    unfolding montant [OF x, symmetric] by (cases x) (simp_all add: p)
qed

text \<open>
  C12: the code generated for a merchant is accepted, with the payload it was made from, by every later
  verification before it expires while the account is an active merchant, given a JSON decoder that reads
  this payload back.
\<close>

theorem generated_qr_is_accepted:
  assumes made: "generer Q u q s = (Inr (token, p), t)"
    and json: "qe_loads Q (dumps_value (V_dict (qr_to_dict Q p))) = Some (V_dict d)" "map_of d = map_of (qr_to_dict Q p)"
    and iso: "\<forall>x. qp_expires p = Some x \<longrightarrow> qe_iso Q x \<noteq> [] \<and> qe_of_iso Q (qe_iso Q x) = Some x"
    and later: "account_get v (qp_merchant p) = Some m" "acc_type m = MERCHANT" "acc_status m = ACTIVE"
    and live: "\<forall>x. qp_expires p = Some (Aware x) \<longrightarrow> clock v \<le> x"
  shows "verifier Q token v = (Inr (p, m), v) \<and> qp_merchant p = qq_merchant q
     \<and> qp_amount p = (case qq_amount q of None \<Rightarrow> V_none | Some a \<Rightarrow> V_int a)"
proof -
  note p = generer_Inr [OF made]
  have "qr_verify Q (clock v) token = Inr p"
    unfolding p(1) by (rule qr_verify_sign [OF json iso p(3) live])
  with p(2,4) later show ?thesis
    by (simp add: verifier_def now_def merchant_actif_Inr)
qed

text \<open>
  a scanned text whose first part is not ASCII makes the verification raise an exception that no handler
  turns into a refusal: the answer is an internal error.
\<close>

theorem non_ascii_qr_crashes:
  assumes "\<not> is_ascii body" "CHR ''.'' \<notin> set body"
  shows "verifier Q (body @ ''.'' @ signature) s = (Inl RuntimeError, s) \<and> status_code RuntimeError = 500"
proof -
  have "partition_at (CHR ''.'') (body @ ''.'' @ signature) = (body, True, signature)"
    unfolding append.simps by (rule partition_dot [OF assms(2)])
  then have "qr_verify Q (clock s) (body @ ''.'' @ signature) = Inl Qr_crash" using assms(1) by (simp add: qr_verify_def)
  then show ?thesis by (simp add: verifier_def now_def bindE_readE bindE_of_sum qr_exception_def)
qed

subsection \<open>A merchant\<close>

definition merchant_db :: wallet_db where
  "merchant_db = snd (provisionner_compte_marchand 7 empty_wallet)"

definition demo_qr :: qr_request where
  "demo_qr = \<lparr>qq_merchant = 1, qq_amount = Some 2500, qq_currency = XOF, qq_origin = None, qq_expires_in = Some 600\<rparr>"

definition demo_members :: dict where
  "demo_members = [(''amount'', V_int 2500), (''currency'', V_str XOF), (''expires_at'', V_str (uuid_str 600)),
     (''merchant_account_id'', V_str (uuid_str 1)), (''nonce'', V_str (uuid_str 2)), (''origin_module'', V_none), (''v'', V_int 1)]"

definition demo_codes :: qr_env where
  "demo_codes = \<lparr>qe_secret = ''s'', qe_hmac = (\<lambda>k m. rev m @ k),
     qe_loads = (\<lambda>_. Some (V_dict demo_members)),
     qe_iso = (\<lambda>x. case x of Aware t \<Rightarrow> uuid_str (nat t) | Naive t \<Rightarrow> []), qe_of_iso = (\<lambda>x. map_option (\<lambda>n. Aware (int n)) (uuid_of_text x))\<rparr>"

lemma merchant_db_value:
  "accounts merchant_db = [\<lparr>acc_id = 1, acc_user = Some 7, acc_type = MERCHANT, acc_currency = XOF, acc_status = ACTIVE, acc_reference = None,
     allows_negative_balance = False\<rparr>]" "clock merchant_db = 0" "next_uuid merchant_db = 2"
  by code_simp+

definition demo_payload :: qr_payload where
  "demo_payload = \<lparr>qp_merchant = 1, qp_currency = V_str XOF, qp_amount = V_int 2500, qp_origin = V_none, qp_expires = Some (Aware 600),
     qp_nonce = V_str (uuid_str 2)\<rparr>"

lemma demo_account: "account_get merchant_db 1 = Some (hd (accounts merchant_db))" "acc_type (hd (accounts merchant_db)) = MERCHANT"
  "acc_status (hd (accounts merchant_db)) = ACTIVE" "acc_user (hd (accounts merchant_db)) = Some 7" "acc_id (hd (accounts merchant_db)) = 1"
  by (simp_all add: account_get_def merchant_db_value)

lemma demo_generated:
  "generer demo_codes 7 demo_qr merchant_db = (Inr (qr_sign demo_codes demo_payload, demo_payload), merchant_db\<lparr>next_uuid := 3\<rparr>)"
proof -
  have "mk_money 2500 XOF = Inr (Money 2500 XOF)" by code_simp
  then have "qr_montant demo_qr merchant_db = (Inr (Some (Money 2500 XOF)), merchant_db)"
    by (simp add: qr_montant_def demo_qr_def to_money_def is_positive_def)
  then show ?thesis
    by (simp add: generer_def merchant_actif_Inr now_def demo_account merchant_db_value demo_qr_def demo_payload_def max_dynamic_qr_ttl_def
        opt_str_def Let_def del: One_nat_def)
qed

lemma demo_loads: "qe_loads demo_codes body = Some (V_dict demo_members)"
  by (simp add: demo_codes_def)

lemma demo_read_back: "map_of demo_members = map_of (qr_to_dict demo_codes demo_payload)"
proof (rule map_of_eqI)
  show "set (map fst demo_members) = set (map fst (qr_to_dict demo_codes demo_payload))"
    by (simp add: demo_members_def qr_to_dict_def insert_commute)
qed (simp add: demo_members_def qr_to_dict_def demo_payload_def demo_codes_def)

lemma demo_iso: "\<forall>x. qp_expires demo_payload = Some x \<longrightarrow> qe_iso demo_codes x \<noteq> [] \<and> qe_of_iso demo_codes (qe_iso demo_codes x) = Some x"
  by (simp add: demo_codes_def demo_payload_def)

theorem generated_qr_is_accepted_witness:
  "verifier demo_codes (qr_sign demo_codes demo_payload) merchant_db = (Inr (demo_payload, hd (accounts merchant_db)), merchant_db)"
proof -
  have "account_get merchant_db (qp_merchant demo_payload) = Some (hd (accounts merchant_db))"
    "\<forall>x. qp_expires demo_payload = Some (Aware x) \<longrightarrow> clock merchant_db \<le> x"
    by (simp_all add: demo_account demo_payload_def merchant_db_value(2) del: One_nat_def)
  from generated_qr_is_accepted [OF demo_generated demo_loads demo_read_back demo_iso this(1) demo_account(2,3) this(2)] show ?thesis by simp
qed

lemma demo_accepted:
  "verifier demo_codes (qr_sign demo_codes demo_payload) merchant_db = (Inr (demo_payload, hd (accounts merchant_db)), merchant_db)"
proof -
  have "qr_verify demo_codes (clock merchant_db) (qr_sign demo_codes demo_payload) = Inr demo_payload"
    by (rule qr_verify_sign [OF demo_loads demo_read_back demo_iso]) (simp_all add: demo_payload_def merchant_db_value)
  then show ?thesis by (simp add: verifier_def now_def merchant_actif_Inr demo_account demo_payload_def del: One_nat_def)
qed

theorem accepted_qr_is_authentic_witness:
  "\<exists>body signature. qr_sign demo_codes demo_payload = body @ ''.'' @ signature \<and> b64decode signature = Some (qe_hmac demo_codes ''s'' body)"
  using accepted_qr_is_authentic [OF demo_accepted] by (auto simp: demo_codes_def)

end
