(* ===== verification/WalletApiProps.thy ===== *)
theory WalletApiProps
  imports WalletApi WalletSweepProps QrProps
begin

section \<open>Who may do what through the routes of the wallet\<close>

lemma on_wallet_Inr: "on_wallet m s = (Inr x, t) \<longleftrightarrow> (\<exists>w. m (op_wallet s) = (Inr x, w) \<and> t = s\<lparr>op_wallet := w\<rparr>)"
  by (auto simp: on_wallet_def on_desk_def on_part_Inr in_wallet_Inr)

text \<open>The user that the credentials of a call prove.\<close>

definition authenticated :: "api_env \<Rightarrow> wallet_call \<Rightarrow> uuid \<Rightarrow> bool" where
  "authenticated env c u \<longleftrightarrow> (\<exists>scheme token claims. lc_credentials c = Some (scheme, token) \<and> lower scheme = ''bearer''
     \<and> ae_jwt env \<lparr>jc_issuer = None, jc_audience = None, jc_require = [''sub'', ''exp'']\<rparr> token = Jwt_claims claims
     \<and> dict_get claims ''status'' = V_str ''active'' \<and> uuid_of_text (py_str (dict_get claims ''sub'')) = Some u)"

lemma get_current_user_Inr:
  assumes "get_current_user (ae_jwt env) (lc_credentials c) = Inr u"
  shows "authenticated env c (cu_id u)"
proof -
  from assms obtain scheme token where cred: "lc_credentials c = Some (scheme, token)" "lower scheme = ''bearer''"
    and d: "decode_access_token (ae_jwt env) token = Inr u"
    by (auto simp: get_current_user_def split: option.splits if_splits)
  from d obtain claims where "ae_jwt env \<lparr>jc_issuer = None, jc_audience = None, jc_require = [''sub'', ''exp'']\<rparr> token = Jwt_claims claims"
    "dict_get claims ''status'' = V_str ''active''" "uuid_of_text (py_str (dict_get claims ''sub'')) = Some (cu_id u)"
    by (auto simp: decode_access_token_def split: jwt_answer.splits if_splits option.splits)
  with cred show ?thesis unfolding authenticated_def by blast
qed

lemma get_idempotency_key_Inr: "get_idempotency_key h = Inr key \<longleftrightarrow> key \<noteq> [] \<and> (\<exists>k. h = Some k \<and> key = strip k)"
proof (cases h)
  case (Some k)
  have "strip [] = []" by (simp add: strip_def)
  with Some show ?thesis by (auto simp: get_idempotency_key_def)
qed (simp add: get_idempotency_key_def)

subsection \<open>Money\<close>

datatype money_route = Api_deposit deposit_body | Api_withdraw deposit_body string | Api_transfer transfer_body | Api_pay merchant_body

definition api_done :: "'a api_op \<Rightarrow> unit api_op" where
  "api_done m = bindE m (\<lambda>_. retE ())"

fun run_money :: "api_env \<Rightarrow> wallet_call \<Rightarrow> money_route \<Rightarrow> unit api_op" where
  "run_money env c (Api_deposit b) = api_done (route_deposit env c b)"
| "run_money env c (Api_withdraw b pin) = api_done (route_withdraw env c b pin)"
| "run_money env c (Api_transfer b) = api_done (route_transfer env c b)"
| "run_money env c (Api_pay b) = api_done (route_pay_merchant env c b)"

text \<open>The wallet request of a user under a key; a proof is the user's own, for this purpose.\<close>

fun money_request :: "money_route \<Rightarrow> uuid \<Rightarrow> string \<Rightarrow> step_up_proof option \<Rightarrow> wallet_request" where
  "money_request (Api_deposit b) u key _ = Deposit u (db_provider b) (db_amount b) (db_phone b) (db_email b) key"
| "money_request (Api_withdraw b pin) u key _ = Withdraw u (db_provider b) (db_amount b) (db_phone b) pin key"
| "money_request (Api_transfer b) u key ev = P2p_transfer u (tb_phone b) (tb_amount b) (tb_pin b) ev key"
| "money_request (Api_pay b) u key _ = Pay_merchant u (mb_account b) (mb_amount b) (mb_pin b) (mb_origin b) (mb_business b) key"

definition own_proof :: "uuid \<Rightarrow> step_up_proof option \<Rightarrow> bool" where
  "own_proof u ev \<longleftrightarrow> (\<forall>p. ev = Some p \<longrightarrow> proof_user p = u \<and> proof_purpose p = ''wallet.transfer.high_value'')"

lemma decode_step_up_token_Inr:
  "decode_step_up_token jwt c token u purpose = Inr p \<Longrightarrow> proof_user p = u \<and> proof_purpose p = purpose"
  by (auto simp: decode_step_up_token_def split: jwt_answer.splits option.splits if_splits)

lemma with_key_Inr:
  "with_key env c valid handler s = (Inr x, t) \<longleftrightarrow> (\<exists>u key. get_current_user (ae_jwt env) (lc_credentials c) = Inr u
     \<and> get_idempotency_key (lc_key c) = Inr key \<and> valid \<and> handler u key s = (Inr x, t))"
  by (auto simp: with_key_def)

lemma transfer_proof:
  assumes "(case tk of None \<Rightarrow> retE None | Some token \<Rightarrow> bindE (of_sum (decode_step_up_token jwt au token u ''wallet.transfer.high_value''))
     (\<lambda>p. retE (Some p))) s = (Inr ev, w)"
  shows "own_proof u ev \<and> w = s"
  using assms decode_step_up_token_Inr by (cases tk) (auto simp: own_proof_def)

lemma run_money_Inr:
  assumes "run_money env c r s = (Inr (), t)"
  obtains u key ev w where "get_current_user (ae_jwt env) (lc_credentials c) = Inr u" "get_idempotency_key (lc_key c) = Inr key"
    "own_proof (cu_id u) ev" "run_request (ae_wallet env) (money_request r (cu_id u) key ev) (op_wallet s) = (Inr (), w)"
    "t = s\<lparr>op_wallet := w\<rparr>"
proof (cases r)
  case (Api_deposit b)
  from assms that [of _ _ None] show ?thesis
    by (auto simp: Api_deposit api_done_def route_deposit_def with_key_Inr on_wallet_Inr own_proof_def done_with_def)
next
  case (Api_withdraw b pin)
  from assms that [of _ _ None] show ?thesis
    by (auto simp: Api_withdraw api_done_def route_withdraw_def with_key_Inr on_wallet_Inr own_proof_def done_with_def)
next
  case (Api_pay b)
  from assms that [of _ _ None] show ?thesis
    by (auto simp: Api_pay api_done_def route_pay_merchant_def with_key_Inr on_wallet_Inr own_proof_def done_with_def)
next
  case (Api_transfer b)
  from assms obtain u key ev v x w where g: "get_current_user (ae_jwt env) (lc_credentials c) = Inr u" "get_idempotency_key (lc_key c) = Inr key"
    and p: "(case tb_token b of None \<Rightarrow> retE None
       | Some token \<Rightarrow> bindE (of_sum (decode_step_up_token (ae_jwt env) (ae_auth env) token (cu_id u) ''wallet.transfer.high_value''))
           (\<lambda>p. retE (Some p))) s = (Inr ev, v)"
    and run: "transferer_p2p (ae_wallet env) (cu_id u) (tb_phone b) (tb_amount b) (tb_pin b) ev key (op_wallet v) = (Inr x, w)"
    and t: "t = v\<lparr>op_wallet := w\<rparr>"
    unfolding Api_transfer run_money.simps api_done_def route_transfer_def bindE_Inr with_key_Inr on_wallet_Inr retE_Inr by blast
  from transfer_proof [OF p] run t g show ?thesis
    by (intro that [of u key ev w]) (cases x; simp add: Api_transfer done_with_def)+
qed

text \<open>
  C6: a route that moves money and returns did, to the wallet, exactly the request of the user whom its
  bearer token proves, active at the identity service, under the stripped \<^verbatim>\<open>Idempotency-Key\<close> of the call,
  with a step-up proof of that very user if any; nothing else of the state changed.
\<close>

theorem money_routes_act_for_caller:
  assumes "run_money env c r s = (Inr (), t)"
  shows "\<exists>u key ev w. authenticated env c u \<and> key \<noteq> [] \<and> (\<exists>k. lc_key c = Some k \<and> key = strip k) \<and> own_proof u ev
     \<and> run_request (ae_wallet env) (money_request r u key ev) (op_wallet s) = (Inr (), w) \<and> t = s\<lparr>op_wallet := w\<rparr>"
proof (rule run_money_Inr [OF assms])
  fix u key ev w
  assume "get_current_user (ae_jwt env) (lc_credentials c) = Inr u" "get_idempotency_key (lc_key c) = Inr key" "own_proof (cu_id u) ev"
    "run_request (ae_wallet env) (money_request r (cu_id u) key ev) (op_wallet s) = (Inr (), w)" "t = s\<lparr>op_wallet := w\<rparr>"
  then show ?thesis
    by (intro exI [of _ "cu_id u"] exI [of _ key] exI [of _ ev] exI [of _ w]) (simp add: get_current_user_Inr get_idempotency_key_Inr)
qed

subsection \<open>Operators\<close>

datatype admin_route = Api_backfill uuid "string option" string | Api_provisioning uuid | Api_kyc_link kyc_body | Api_kyc_list uuid
  | Api_outbox | Api_relay | Api_reset_pin uuid string string string | Api_reconcile uuid | Api_pending | Api_summary | Api_inspect uuid
  | Api_reconciliations uuid

fun run_admin :: "api_env \<Rightarrow> wallet_call \<Rightarrow> admin_route \<Rightarrow> unit api_op" where
  "run_admin env c (Api_backfill user phone ty) = api_done (route_backfill env c user phone ty)"
| "run_admin env c (Api_provisioning user) = api_done (provisioning_status env c user)"
| "run_admin env c (Api_kyc_link b) = api_done (route_kyc_link env c b)"
| "run_admin env c (Api_kyc_list user) = api_done (route_kyc_list env c user)"
| "run_admin env c Api_outbox = api_done (route_outbox_list env c)"
| "run_admin env c Api_relay = api_done (route_relay env c)"
| "run_admin env c (Api_reset_pin user pin confirm reason) = api_done (route_admin_reset_pin env c user pin confirm reason)"
| "run_admin env c (Api_reconcile i) = api_done (route_reconcile env c i)"
| "run_admin env c Api_pending = api_done (route_pending env c)"
| "run_admin env c Api_summary = api_done (route_summary env c)"
| "run_admin env c (Api_inspect i) = api_done (route_inspect env c i)"
| "run_admin env c (Api_reconciliations i) = api_done (route_reconciliations env c i)"

lemma as_admin_refused:
  assumes "\<forall>u. get_current_user (ae_jwt env) (lc_credentials c) = Inr u \<longrightarrow> cu_role u \<noteq> ''admin''"
  shows "\<exists>e. api_done (as_admin env c valid handler) s = (Inl e, s)"
  using assms
  by (cases "get_current_user (ae_jwt env) (lc_credentials c)")
    (auto simp: api_done_def as_admin_def signed_in_def bindE_def of_sum_def raiseE_def retE_def thenE_def ensure_def require_admin_def)

text \<open>
  C7: unless the bearer token of the call proves an active user with the role \<^verbatim>\<open>admin\<close>, every route of the
  operators raises and leaves the state as it was.
\<close>

theorem operator_routes_need_admin:
  assumes "\<forall>u. get_current_user (ae_jwt env) (lc_credentials c) = Inr u \<longrightarrow> cu_role u \<noteq> ''admin''"
  shows "\<exists>e. run_admin env c r s = (Inl e, s)"
  by (cases r) (simp_all only: run_admin.simps route_backfill_def provisioning_status_def route_kyc_link_def route_kyc_list_def
      route_outbox_list_def route_relay_def route_admin_reset_pin_def route_reconcile_def route_pending_def route_summary_def
      route_inspect_def route_reconciliations_def as_admin_refused [OF assms])

subsection \<open>Calls\<close>

text \<open>Two callers, the second an administrator; tokens are read by their first letter.\<close>

definition demo_jwt :: jwt_verifier where
  "demo_jwt = (\<lambda>_ token. case token of [] \<Rightarrow> Jwt_error | x # _ \<Rightarrow> Jwt_claims [(''sub'', V_str ''101''), (''status'', V_str ''active''),
     (''role'', V_str (if x = CHR ''a'' then ''admin'' else ''user''))])"

definition demo_auth_off :: auth_settings where
  "demo_auth_off = \<lparr>as_issuer = [], as_step_up_max_ttl = 300, as_service_audience = [], as_service_client_ids = [], as_service_keys = [],
     as_key_fallback = False, as_summary_audience = [], as_summary_scope = [], as_summary_legacy_scope = [], as_summary_client = [],
     as_backoffice_audience = [], as_backoffice_client_ids = [], as_backoffice_read_scope = [], as_backoffice_command_scope = [],
     as_support_audience = [], as_support_client_ids = [], as_support_context_scope = [], as_support_refund_scope = []\<rparr>"

definition demo_api :: api_env where
  "demo_api = \<lparr>ae_jwt = demo_jwt, ae_auth = demo_auth_off, ae_wallet = demo_env, ae_bus = (\<lambda>_. True), ae_qr = demo_codes\<rparr>"

definition user_call :: wallet_call where
  "user_call = \<lparr>lc_credentials = Some (''Bearer'', ''u''), lc_key = Some '' d9 ''\<rparr>"

definition demo_desk :: wallet_desk where
  "demo_desk = empty_desk\<lparr>op_wallet := demo_state\<rparr>"

definition demo_deposit :: deposit_body where
  "demo_deposit = \<lparr>db_provider = ''wave'', db_amount = 700, db_phone = ''70100'', db_email = None\<rparr>"

lemma demo_caller: "get_current_user demo_jwt (lc_credentials user_call) = Inr \<lparr>cu_id = 101, cu_role = ''user'', cu_status = ''active''\<rparr>"
  "get_idempotency_key (lc_key user_call) = Inr ''d9''"
  by code_simp+

lemma demo_deposit_returns: "\<exists>x w. deposer demo_env 101 ''wave'' 700 ''70100'' None ''d9'' demo_state = (Inr x, w)"
proof -
  have "case fst (deposer demo_env 101 ''wave'' 700 ''70100'' None ''d9'' demo_state) of Inl e \<Rightarrow> False | Inr a \<Rightarrow> True" by code_simp
  then show ?thesis by (cases "deposer demo_env 101 ''wave'' 700 ''70100'' None ''d9'' demo_state") (auto split: sum.splits)
qed

theorem money_routes_act_for_caller_witness:
  "\<exists>t. run_money demo_api user_call (Api_deposit demo_deposit) demo_desk = (Inr (), t)
     \<and> (\<exists>u key ev w. authenticated demo_api user_call u \<and> run_request demo_env (money_request (Api_deposit demo_deposit) u key ev) demo_state = (Inr (), w))"
proof -
  obtain x w where d: "deposer demo_env 101 ''wave'' 700 ''70100'' None ''d9'' demo_state = (Inr x, w)" using demo_deposit_returns by blast
  have ok: "deposit_body_ok demo_deposit" by code_simp
  have env: "ae_jwt demo_api = demo_jwt" "ae_wallet demo_api = demo_env" "op_wallet demo_desk = demo_state"
    by (simp_all add: demo_api_def demo_desk_def)
  have run: "run_money demo_api user_call (Api_deposit demo_deposit) demo_desk = (Inr (), demo_desk\<lparr>op_wallet := w\<rparr>)"
    using d by (cases x) (simp add: api_done_def route_deposit_def with_key_Inr env demo_caller ok on_wallet_Inr, simp add: demo_deposit_def)
  from money_routes_act_for_caller [OF run] run show ?thesis unfolding env by blast
qed

theorem operator_routes_need_admin_witness: "\<exists>e. run_admin demo_api user_call Api_relay demo_desk = (Inl e, demo_desk)"
  by (rule operator_routes_need_admin) (simp add: demo_api_def demo_caller)

end
