(* ===== verification/DeliveryProps.thy ===== *)
theory DeliveryProps
  imports PayDemo
begin

section \<open>Every payment event is settled\<close>

text \<open>
  The worker of \<^verbatim>\<open>payments/application/deliveries.py\<close> run again and again: what one run does to each row,
  and after how many runs no event waits any more.
\<close>

definition waiting :: "pay_outbox \<Rightarrow> bool" where
  "waiting r \<longleftrightarrow> px_status r = Ob_pending \<or> px_status r = Ob_delivering"

definition claimed :: "instant \<Rightarrow> pay_outbox \<Rightarrow> pay_outbox" where
  "claimed t r = r\<lparr>px_status := Ob_delivering, px_locked := Some t\<rparr>"

text \<open>What the sender, or a missing target, has against the event.\<close>

definition failure :: "sender \<Rightarrow> (string \<times> callback_target) list \<Rightarrow> instant \<Rightarrow> pay_outbox \<Rightarrow> string option" where
  "failure send targets t q = (case target_for targets (px_client q) of None \<Rightarrow> Some ''callback target not configured'' | Some x \<Rightarrow> send t x q)"

definition act :: "sender \<Rightarrow> (string \<times> callback_target) list \<Rightarrow> instant \<Rightarrow> pay_outbox \<Rightarrow> pay_outbox \<Rightarrow> pay_outbox" where
  "act send targets t q r = (case failure send targets t q of
       Some err \<Rightarrow> failed_row t MAX_ATTEMPTS err (Suc (px_attempts q)) r
     | None \<Rightarrow> r\<lparr>px_status := Ob_delivered, px_delivered := Some t, px_locked := None, px_error := None\<rparr>)"

definition settle :: "sender \<Rightarrow> (string \<times> callback_target) list \<Rightarrow> instant \<Rightarrow> pay_outbox \<Rightarrow> pay_outbox" where
  "settle send targets t r = (if waiting r then act send targets t (claimed t r) (claimed t r) else r)"

lemma act_id [simp]: "px_id (act send targets t q r) = px_id r" "px_id (claimed t r) = px_id r" "px_id (settle send targets t r) = px_id r"
  by (simp_all add: act_def settle_def claimed_def failed_row_def Let_def split: option.splits)

lemma act_eq: "act send targets t q = (case failure send targets t q of
       Some err \<Rightarrow> failed_row t MAX_ATTEMPTS err (Suc (px_attempts q))
     | None \<Rightarrow> (\<lambda>r. r\<lparr>px_status := Ob_delivered, px_delivered := Some t, px_locked := None, px_error := None\<rparr>))"
  by (auto simp: act_def fun_eq_iff split: option.splits)

lemma deliver_row_run:
  "\<exists>sm'. deliver_row send targets q sm s
     = (Inr sm', s\<lparr>pay_outboxes := update_row px_id (px_id q) (act send targets (pay_clock s) q) (pay_outboxes s)\<rparr>)"
  by (cases "target_for targets (px_client q)")
    (auto simp: deliver_row_def mark_failed_def mark_delivered_def act_eq failure_def split: option.splits)

fun act_all :: "sender \<Rightarrow> (string \<times> callback_target) list \<Rightarrow> instant \<Rightarrow> pay_outbox list \<Rightarrow> pay_outbox \<Rightarrow> pay_outbox" where
  "act_all send targets t [] r = r"
| "act_all send targets t (q # qs) r = act_all send targets t qs (if px_id r = px_id q then act send targets t q r else r)"

lemma deliver_rows_run:
  "\<exists>sm'. deliver_rows send targets qs sm s = (Inr sm', s\<lparr>pay_outboxes := map (act_all send targets (pay_clock s) qs) (pay_outboxes s)\<rparr>)"
proof (induction qs arbitrary: sm s)
  case Nil
  show ?case by simp
next
  case (Cons q qs)
  obtain sm1 where "deliver_row send targets q sm s
      = (Inr sm1, s\<lparr>pay_outboxes := update_row px_id (px_id q) (act send targets (pay_clock s) q) (pay_outboxes s)\<rparr>)" (is "_ = (_, ?u)")
    using deliver_row_run by blast
  then have one: "atomically (deliver_row send targets q sm) s = (Inr sm1, ?u)" by simp
  obtain sm2 where "deliver_rows send targets qs sm1 ?u = (Inr sm2, ?u\<lparr>pay_outboxes := map (act_all send targets (pay_clock ?u) qs) (pay_outboxes ?u)\<rparr>)"
    using Cons.IH by blast
  with one show ?case by (auto simp: update_row_def comp_def)
qed

lemma act_all_other: "px_id r \<notin> px_id ` set qs \<Longrightarrow> act_all send targets t qs r = r"
  by (induction qs) auto

lemma act_all_own:
  assumes "distinct (map px_id qs)" "q \<in> set qs" "px_id r = px_id q"
  shows "act_all send targets t qs r = act send targets t q r"
  using assms
proof (induction qs arbitrary: r)
  case (Cons p qs)
  show ?case
  proof (cases "q = p")
    case True
    with Cons.prems show ?thesis by (auto intro: act_all_other)
  next
    case False
    with Cons.prems have "q \<in> set qs" "px_id r \<noteq> px_id p" by (auto simp: image_iff)
    with Cons show ?thesis by simp
  qed
qed simp

definition deliver_at :: "sender \<Rightarrow> (string \<times> callback_target) list \<Rightarrow> nat \<Rightarrow> instant \<Rightarrow> pay_db \<Rightarrow> pay_db" where
  "deliver_at send targets n t s = snd (run_deliveries send targets n (s\<lparr>pay_clock := t\<rparr>))"

definition all_due :: "instant \<Rightarrow> pay_db \<Rightarrow> bool" where
  "all_due t s \<longleftrightarrow> (\<forall>r \<in> set (pay_outboxes s). waiting r \<longrightarrow> claimable t LEASE_SECONDS r)"

definition waiting_rows :: "pay_db \<Rightarrow> nat" where
  "waiting_rows s = length (filter waiting (pay_outboxes s))"

lemma claimable_waiting: "claimable t lease r \<Longrightarrow> waiting r"
  by (auto simp: claimable_def waiting_def)

lemma claimable_fewer: "length (filter (claimable t lease) rows) \<le> length (filter waiting rows)"
  by (induction rows) (auto dest: claimable_waiting)

lemma still_fewer: "(\<And>r. waiting (f r) \<Longrightarrow> waiting r) \<Longrightarrow> length (filter waiting (map f rows)) \<le> length (filter waiting rows)"
  by (induction rows) (auto simp: le_SucI)

text \<open>One run, when every waiting row is due and the run may take them all.\<close>

lemma deliver_at_rows:
  assumes ids: "distinct (map px_id (pay_outboxes s))" and enough: "waiting_rows s \<le> n" and due: "all_due t s"
  shows "pay_outboxes (deliver_at send targets n t s) = map (settle send targets t) (pay_outboxes s)"
proof -
  let ?rows = "sort_key px_created (filter (claimable t LEASE_SECONDS) (pay_outboxes s))"
  have "length ?rows \<le> n" using order_trans [OF claimable_fewer enough [unfolded waiting_rows_def]] by simp
  then have all: "take n ?rows = ?rows" by simp
  let ?u = "s\<lparr>pay_clock := t, pay_outboxes := map (\<lambda>r. if px_id r \<in> set (map px_id ?rows) then claimed t r else r) (pay_outboxes s)\<rparr>"
  have c: "atomically (claim n LEASE_SECONDS) (s\<lparr>pay_clock := t\<rparr>) = (Inr (map (claimed t) ?rows), ?u)"
    by (simp add: claim_def all claimed_def [abs_def])
  obtain sm where d: "deliver_rows send targets (map (claimed t) ?rows)
      \<lparr>dl_scanned = length (map (claimed t) ?rows), dl_delivered = 0, dl_retried = 0, dl_unavailable = 0\<rparr> ?u
    = (Inr sm, ?u\<lparr>pay_outboxes := map (act_all send targets t (map (claimed t) ?rows)) (pay_outboxes ?u)\<rparr>)"
    using deliver_rows_run [of send targets "map (claimed t) ?rows" _ ?u] by auto
  have run: "pay_outboxes (deliver_at send targets n t s) = map (act_all send targets t (map (claimed t) ?rows)) (pay_outboxes ?u)"
    unfolding deliver_at_def run_deliveries_def bindE_def c prod.case sum.case d snd_conv by simp
  have mine: "px_id r \<in> px_id ` set ?rows \<longleftrightarrow> waiting r" if r: "r \<in> set (pay_outboxes s)" for r
  proof
    assume "px_id r \<in> px_id ` set ?rows"
    then obtain q where q: "q \<in> set (pay_outboxes s)" "claimable t LEASE_SECONDS q" "px_id r = px_id q" by auto
    with ids r have "q = r" by (auto simp: distinct_map inj_on_def)
    with q show "waiting r" by (auto simp: waiting_def claimable_def)
  next
    assume "waiting r"
    with due r have "r \<in> set ?rows" by (simp add: all_due_def)
    then show "px_id r \<in> px_id ` set ?rows" by (rule imageI)
  qed
  have "distinct (map px_id (filter (claimable t LEASE_SECONDS) (pay_outboxes s)))" using ids by (simp add: distinct_map inj_on_def)
  then have "distinct (map px_id ?rows)" by (metis distinct_map distinct_sort set_sort)
  then have uniq: "distinct (map px_id (map (claimed t) ?rows))" by (simp add: comp_def)
  have "act_all send targets t (map (claimed t) ?rows) (if px_id r \<in> set (map px_id ?rows) then claimed t r else r) = settle send targets t r"
    if r: "r \<in> set (pay_outboxes s)" for r
  proof (cases "waiting r")
    case True
    with due r have "claimed t r \<in> set (map (claimed t) ?rows)" by (auto simp: all_due_def)
    from act_all_own [OF uniq this refl] show ?thesis using True mine [OF r] by (simp add: settle_def)
  next
    case False
    with mine [OF r] have "px_id r \<notin> px_id ` set (map (claimed t) ?rows)" by (auto simp: image_iff)
    with False mine [OF r] show ?thesis by (simp add: settle_def act_all_other)
  qed
  then show ?thesis unfolding run by (simp add: comp_def)
qed

text \<open>A row that still waits after a run has one more attempt and is due an hour later at most.\<close>

lemma settle_waiting:
  assumes "waiting (settle send targets t r)"
  shows "waiting r \<and> px_attempts (settle send targets t r) = Suc (px_attempts r) \<and> Suc (px_attempts r) < MAX_ATTEMPTS
    \<and> (\<forall>t'. t + 3600 \<le> t' \<longrightarrow> claimable t' LEASE_SECONDS (settle send targets t r))"
proof -
  have "retry_delay k \<le> 3600" for k by (simp add: retry_delay_def)
  then have "t + 3600 \<le> t' \<Longrightarrow> t + retry_delay k \<le> t'" for k t' by (meson add_left_mono order_trans)
  with assms show ?thesis
    by (auto simp: settle_def act_def waiting_def claimed_def failed_row_def Let_def claimable_def split: option.splits if_splits)
qed

lemma settle_fewer: "pay_outboxes t = map (settle send targets x) (pay_outboxes s) \<Longrightarrow> waiting_rows t \<le> waiting_rows s"
  unfolding waiting_rows_def by (simp only:) (rule still_fewer, drule settle_waiting, elim conjE)

fun passes :: "sender \<Rightarrow> (string \<times> callback_target) list \<Rightarrow> nat \<Rightarrow> instant list \<Rightarrow> pay_db \<Rightarrow> pay_db" where
  "passes send targets n [] s = s"
| "passes send targets n (t # ts) s = passes send targets n ts (deliver_at send targets n t s)"

fun hourly :: "instant list \<Rightarrow> bool" where
  "hourly (t # t' # ts) \<longleftrightarrow> t + 3600 \<le> t' \<and> hourly (t' # ts)"
| "hourly _ \<longleftrightarrow> True"

lemma passes_attempts:
  assumes "distinct (map px_id (pay_outboxes s))" "waiting_rows s \<le> n" "ts \<noteq> [] \<longrightarrow> all_due (hd ts) s" "hourly ts"
    "\<forall>r \<in> set (pay_outboxes s). waiting r \<longrightarrow> k \<le> px_attempts r" "r \<in> set (pay_outboxes (passes send targets n ts s))" "waiting r"
  shows "k + length ts \<le> px_attempts r \<and> (ts \<noteq> [] \<longrightarrow> px_attempts r < MAX_ATTEMPTS)"
  using assms
proof (induction ts arbitrary: s k)
  case (Cons t ts)
  let ?s = "deliver_at send targets n t s"
  have rows: "pay_outboxes ?s = map (settle send targets t) (pay_outboxes s)" by (rule deliver_at_rows) (use Cons.prems in auto)
  have ids: "distinct (map px_id (pay_outboxes ?s))" using Cons.prems(1) by (simp add: rows comp_def)
  have few: "waiting_rows ?s \<le> n" by (rule order_trans [OF settle_fewer [OF rows] Cons.prems(2)])
  have more: "\<forall>q \<in> set (pay_outboxes ?s). waiting q \<longrightarrow> Suc k \<le> px_attempts q"
  proof (intro ballI impI)
    fix q assume "q \<in> set (pay_outboxes ?s)" "waiting q"
    then obtain p where "p \<in> set (pay_outboxes s)" "q = settle send targets t p" "waiting (settle send targets t p)" by (auto simp: rows)
    with settle_waiting Cons.prems(5) show "Suc k \<le> px_attempts q" by fastforce
  qed
  show ?case
  proof (cases ts)
    case Nil
    with Cons.prems(6,7) obtain p where "r = settle send targets t p" "p \<in> set (pay_outboxes s)" by (auto simp: rows)
    with settle_waiting Cons.prems(5,7) show ?thesis by (fastforce simp: Nil)
  next
    case (Cons t' ts')
    with Cons.prems(4) have "t + 3600 \<le> t'" "hourly ts" by auto
    then have "all_due t' ?s" by (auto simp: all_due_def rows dest!: settle_waiting)
    with Cons.IH [OF ids few _ \<open>hourly ts\<close> more] Cons.prems(6,7) show ?thesis by (simp add: Cons)
  qed
qed simp

lemma passes_ids:
  assumes "distinct (map px_id (pay_outboxes s))" "waiting_rows s \<le> n" "all_due (hd ts) s" "hourly ts"
  shows "map px_id (pay_outboxes (passes send targets n ts s)) = map px_id (pay_outboxes s)
    \<and> (\<forall>r \<in> set (pay_outboxes s). \<not> waiting r \<longrightarrow> r \<in> set (pay_outboxes (passes send targets n ts s)))"
  using assms
proof (induction ts arbitrary: s)
  case (Cons t ts)
  let ?s = "deliver_at send targets n t s"
  have rows: "pay_outboxes ?s = map (settle send targets t) (pay_outboxes s)" by (rule deliver_at_rows) (use Cons.prems in auto)
  have ids: "map px_id (pay_outboxes ?s) = map px_id (pay_outboxes s)" by (simp add: rows comp_def)
  have few: "waiting_rows ?s \<le> n" by (rule order_trans [OF settle_fewer [OF rows] Cons.prems(2)])
  have still: "r \<in> set (pay_outboxes ?s)" if "r \<in> set (pay_outboxes s)" "\<not> waiting r" for r
    using that by (auto simp: rows settle_def intro!: image_eqI [of _ _ r])
  show ?case
  proof (cases ts)
    case Nil
    then show ?thesis using ids still by simp
  next
    case (Cons t' ts')
    with Cons.prems(4) have "t + 3600 \<le> t'" "hourly ts" by auto
    then have due: "all_due (hd ts) ?s" by (auto simp: all_due_def rows Cons dest!: settle_waiting)
    have "distinct (map px_id (pay_outboxes ?s))" using Cons.prems(1) ids by simp
    from Cons.IH [OF this few due \<open>hourly ts\<close>] ids still show ?thesis by simp
  qed
qed simp

text \<open>
  C30: when every waiting event is due at the first of ten runs of the delivery worker, the runs are an hour
  apart, each may take as many rows as wait at the start (the worker's own limit is 100), and nothing else
  touches the outbox, then every event is settled after the tenth, whatever the senders do: it is delivered or
  it is a dead letter. No row is lost or added, and the rows that waited no more at the start are untouched.
\<close>

theorem ten_runs_settle_every_event:
  assumes "distinct (map px_id (pay_outboxes s))" "waiting_rows s \<le> n" "all_due (hd ts) s" "hourly ts" "length ts = MAX_ATTEMPTS"
  shows "(\<forall>r \<in> set (pay_outboxes (passes send targets n ts s)). px_status r = Ob_delivered \<or> px_status r = Ob_dead_letter)
     \<and> map px_id (pay_outboxes (passes send targets n ts s)) = map px_id (pay_outboxes s)
     \<and> (\<forall>r \<in> set (pay_outboxes s). px_status r = Ob_delivered \<or> px_status r = Ob_dead_letter
          \<longrightarrow> r \<in> set (pay_outboxes (passes send targets n ts s)))"
proof (intro conjI ballI impI)
  have some: "ts \<noteq> []" using assms(5) by (auto simp: MAX_ATTEMPTS_def)
  show "px_status r = Ob_delivered \<or> px_status r = Ob_dead_letter" if r: "r \<in> set (pay_outboxes (passes send targets n ts s))" for r
  proof -
    have "\<not> waiting r"
    proof
      assume "waiting r"
      from passes_attempts [OF assms(1,2) _ assms(4) _ r this, of 0] assms(3,5) some show False by auto
    qed
    then show ?thesis by (cases "px_status r") (simp_all add: waiting_def)
  qed
  show "map px_id (pay_outboxes (passes send targets n ts s)) = map px_id (pay_outboxes s)"
    by (rule conjunct1 [OF passes_ids [OF assms(1-4)]])
  show "r \<in> set (pay_outboxes (passes send targets n ts s))"
    if "r \<in> set (pay_outboxes s)" "px_status r = Ob_delivered \<or> px_status r = Ob_dead_letter" for r
    using passes_ids [OF assms(1-4), of send targets] that by (auto simp: waiting_def)
qed

subsection \<open>The events of a payment\<close>

definition hours :: "instant list" where
  "hours = map (\<lambda>k. 3600 * int k) [1..<11]"

theorem ten_runs_settle_every_event_witness:
  "pay_outboxes (wd_db demo_paid) \<noteq> []
   \<and> list_all (\<lambda>r. px_status r = Ob_delivered \<or> px_status r = Ob_dead_letter)
         (pay_outboxes (passes (\<lambda>_ _ _. Some ''down'') [] 100 hours (wd_db demo_paid)))"
proof
  show "pay_outboxes (wd_db demo_paid) \<noteq> []" by code_simp
  have "distinct (map px_id (pay_outboxes (wd_db demo_paid)))" by code_simp
  moreover have "waiting_rows (wd_db demo_paid) \<le> 100" by code_simp
  moreover have "all_due (hd hours) (wd_db demo_paid)" by code_simp
  moreover have "hourly hours" by code_simp
  moreover have "length hours = MAX_ATTEMPTS" by code_simp
  ultimately have "\<forall>r \<in> set (pay_outboxes (passes (\<lambda>_ _ _. Some ''down'') [] 100 hours (wd_db demo_paid))).
      px_status r = Ob_delivered \<or> px_status r = Ob_dead_letter"
    using ten_runs_settle_every_event by blast
  then show "list_all (\<lambda>r. px_status r = Ob_delivered \<or> px_status r = Ob_dead_letter)
      (pay_outboxes (passes (\<lambda>_ _ _. Some ''down'') [] 100 hours (wd_db demo_paid)))"
    by (simp only: list_all_iff)
qed

section \<open>The rows of the payment module are well formed\<close>

text \<open>
  C25: in every reachable world every amount a payment, an attempt, a refund or a payout carries is positive,
  fits the column and has a currency of three letters, and attempts and refunds belong to stored payments.
\<close>

theorem payment_rows_well_formed:
  assumes "pay_reachable cf w"
  shows "(\<forall>i \<in> set (intents (wd_db w)). money_ok (pi_money i))
     \<and> (\<forall>a \<in> set (attempts (wd_db w)). money_ok (pa_money a) \<and> (\<exists>i \<in> set (intents (wd_db w)). pi_id i = pa_intent a \<and> pi_money i = pa_money a))
     \<and> (\<forall>f \<in> set (refunds (wd_db w)). money_ok (rf_money f) \<and> (\<exists>i \<in> set (intents (wd_db w)). pi_id i = rf_intent f))
     \<and> (\<forall>p \<in> set (payouts (wd_db w)). money_ok (pt_money p))"
proof -
  have l: "links_ok (wd_db w)" using pay_inv_reachable [OF assms] by (simp add: pay_inv_def)
  then have ok: "\<forall>i \<in> set (intents (wd_db w)). money_ok (pi_money i)" "\<forall>f \<in> set (refunds (wd_db w)). money_ok (rf_money f)"
    "\<forall>p \<in> set (payouts (wd_db w)). money_ok (pt_money p)" by (simp_all add: links_ok_def row_keys_defs ball_Un)
  have a: "\<exists>i \<in> set (intents (wd_db w)). pi_id i = pa_intent a \<and> pi_money i = pa_money a" if "a \<in> set (attempts (wd_db w))" for a
    using l that by (force simp: links_ok_def row_keys_defs)
  have f: "\<exists>i \<in> set (intents (wd_db w)). pi_id i = rf_intent f" if "f \<in> set (refunds (wd_db w))" for f
    using l that by (force simp: links_ok_def row_keys_defs)
  from ok a f show ?thesis by (metis (no_types, lifting))
qed

theorem payment_rows_well_formed_witness:
  "0 < length (refunds (wd_db demo_refunded)) \<and> money_ok (rf_money (refunds (wd_db demo_refunded) ! 0))"
proof
  show n: "0 < length (refunds (wd_db demo_refunded))" by code_simp
  then have "refunds (wd_db demo_refunded) ! 0 \<in> set (refunds (wd_db demo_refunded))" by (rule nth_mem)
  with payment_rows_well_formed [OF demo_worlds_reachable(5)] show "money_ok (rf_money (refunds (wd_db demo_refunded) ! 0))" by blast
qed

end
