(* ===== verification/Checkout.thy ===== *)
theory Checkout
  imports Security
begin

section \<open>Where a checkout may return to\<close>

text \<open>
  \<^verbatim>\<open>payments/presentation/checkout_return.py\<close>: the browser returns to a configured target, or to a legacy URL
  of the caller that has to pass the checks and the list of the client. \<^verbatim>\<open>urlsplit\<close> is written out for ASCII
  text; whether a bracketed host is an IP literal is a parameter, and a URL it refuses raises \<^verbatim>\<open>ValueError\<close>.
\<close>

subsection \<open>URLs\<close>

record url_parts =
  up_scheme :: string
  up_netloc :: string
  up_path :: string

definition is_scheme_char :: "char \<Rightarrow> bool" where
  "is_scheme_char c \<longleftrightarrow> is_alpha_char c \<or> is_digit_char c \<or> c \<in> set ''+-.''"

text \<open>Leading blanks and control characters go, and tabs and line ends everywhere.\<close>

definition clean_url :: "string \<Rightarrow> string" where
  "clean_url s = filter (\<lambda>c. (of_char c :: nat) \<notin> {9, 10, 13}) (dropWhile (\<lambda>c. (of_char c :: nat) \<le> 32) s)"

definition split_scheme :: "string \<Rightarrow> string \<times> string" where
  "split_scheme s = (case partition_at (CHR '':'') s of (a, found, rest) \<Rightarrow>
     if found \<and> a \<noteq> [] \<and> is_alpha_char (hd a) \<and> (\<forall>c \<in> set a. is_scheme_char c) then (lower a, rest) else ([], s))"

definition url_path :: "string \<Rightarrow> string" where
  "url_path s = takeWhile (\<lambda>c. c \<noteq> CHR ''?'') (takeWhile (\<lambda>c. c \<noteq> CHR ''#'') s)"

definition urlsplit :: "(string \<Rightarrow> bool) \<Rightarrow> string \<Rightarrow> url_parts option" where
  "urlsplit ip_literal s =
     (case split_scheme (clean_url s) of (scheme, rest) \<Rightarrow>
        if starts_with ''//'' rest then
          (let netloc = takeWhile (\<lambda>c. c \<notin> set ''/?#'') (drop 2 rest)
           in if (CHR ''['' \<in> set netloc) \<noteq> (CHR '']'' \<in> set netloc) \<or> CHR ''['' \<in> set netloc \<and> \<not> ip_literal netloc then None
              else Some \<lparr>up_scheme = scheme, up_netloc = netloc, up_path = url_path (drop (2 + length netloc) rest)\<rparr>)
        else Some \<lparr>up_scheme = scheme, up_netloc = [], up_path = url_path rest\<rparr>)"

definition host_info :: "string \<Rightarrow> string" where
  "host_info netloc = rev (takeWhile (\<lambda>c. c \<noteq> CHR ''@'') (rev netloc))"

definition hostname :: "url_parts \<Rightarrow> string" where
  "hostname p = (let h = host_info (up_netloc p) in
     if CHR ''['' \<in> set h then takeWhile (\<lambda>c. c \<noteq> CHR '']'') (tl (dropWhile (\<lambda>c. c \<noteq> CHR ''['') h))
     else takeWhile (\<lambda>c. c \<noteq> CHR '':'') h)"

subsection \<open>The list of a client\<close>

definition parts_match :: "url_parts \<Rightarrow> url_parts \<Rightarrow> bool" where
  "parts_match u p \<longleftrightarrow> up_scheme u = up_scheme p \<and> up_netloc u = up_netloc p
     \<and> (up_path u = up_path p \<or> up_path u = rstrip_slash (up_path p) \<or> starts_with (rstrip_slash (up_path p) @ ''/'') (up_path u))"

text \<open>The entries are tried in order; one that is not a URL raises when it is reached.\<close>

fun any_prefix :: "(string \<Rightarrow> bool) \<Rightarrow> url_parts \<Rightarrow> string list \<Rightarrow> aexc + bool" where
  "any_prefix ip u [] = Inr False"
| "any_prefix ip u (p # ps) = (case urlsplit ip p of None \<Rightarrow> Inl A_internal
     | Some q \<Rightarrow> if parts_match u q then Inr True else any_prefix ip u ps)"

definition forbidden_url :: aexc where
  "forbidden_url = A_unprocessable ''PAYMENT_CALLBACK_URL_FORBIDDEN''"

record checkout_settings =
  co_targets :: "(string \<times> string) list"
  co_fallback :: bool
  co_allowed :: "(string \<times> string list) list"

definition validate_legacy_callback :: "(string \<Rightarrow> bool) \<Rightarrow> checkout_settings \<Rightarrow> string \<Rightarrow> string \<Rightarrow> aexc + string" where
  "validate_legacy_callback ip c client url =
     (case urlsplit ip url of None \<Rightarrow> Inl A_internal
      | Some p \<Rightarrow>
          if up_scheme p \<noteq> ''https'' then Inl forbidden_url
          else if CHR ''@'' \<in> set (up_netloc p) then Inl forbidden_url
          else if hostname p = [] then Inl forbidden_url
          else if char_of (92 :: nat) \<in> set url \<or> (\<exists>x \<in> set url. (of_char x :: nat) < 32) \<or> contains ''..'' (up_path p) then Inl forbidden_url
          else (case map_of (co_allowed c) client of
              Some (q # qs) \<Rightarrow> and_next (any_prefix ip p (q # qs)) (\<lambda>found. if found then Inr url else Inl forbidden_url)
            | _ \<Rightarrow> Inr url))"

definition resolve_checkout_return_url :: "(string \<Rightarrow> bool) \<Rightarrow> checkout_settings \<Rightarrow> string \<Rightarrow> string option \<Rightarrow> string option \<Rightarrow>
    aexc + string option" where
  "resolve_checkout_return_url ip c client return_target legacy =
     (if truthy return_target \<and> truthy legacy then Inl (A_unprocessable ''PAYMENT_RETURN_TARGET_CONFLICT'')
      else if truthy return_target then
        (case map_of (co_targets c) (client @ '':'' @ the return_target) of
           None \<Rightarrow> Inl (A_unprocessable ''PAYMENT_RETURN_TARGET_FORBIDDEN'') | Some u \<Rightarrow> Inr (Some u))
      else if truthy legacy then
        (if \<not> co_fallback c then Inl (A_unprocessable ''PAYMENT_CALLBACK_URL_DISABLED'')
         else map_sum id Some (validate_legacy_callback ip c client (the legacy)))
      else Inr None)"

lemma any_prefix_True: "any_prefix ip u qs = Inr True \<Longrightarrow> \<exists>q \<in> set qs. \<exists>r. urlsplit ip q = Some r \<and> parts_match u r"
  by (induction qs) (auto split: option.splits if_splits)

definition safe_url :: "(string \<Rightarrow> bool) \<Rightarrow> string \<Rightarrow> url_parts \<Rightarrow> bool" where
  "safe_url ip url p \<longleftrightarrow> urlsplit ip url = Some p \<and> up_scheme p = ''https'' \<and> hostname p \<noteq> [] \<and> CHR ''@'' \<notin> set (up_netloc p)
     \<and> char_of (92 :: nat) \<notin> set url \<and> (\<forall>x \<in> set url. 32 \<le> (of_char x :: nat)) \<and> \<not> contains ''..'' (up_path p)"

lemma validate_legacy_callback_Inr:
  assumes "validate_legacy_callback ip c client url = Inr u"
  shows "u = url" "\<exists>p. safe_url ip url p
    \<and> (\<forall>qs. map_of (co_allowed c) client = Some qs \<and> qs \<noteq> [] \<longrightarrow> (\<exists>q \<in> set qs. \<exists>r. urlsplit ip q = Some r \<and> parts_match p r))"
proof -
  from assms obtain p where p: "urlsplit ip url = Some p" by (cases "urlsplit ip url") (simp_all add: validate_legacy_callback_def)
  note run = assms [unfolded validate_legacy_callback_def p option.case]
  from run have safe: "safe_url ip url p" unfolding safe_url_def by (auto simp: p not_less split: if_splits)
  with run have rest: "(case map_of (co_allowed c) client of
      Some (q # qs) \<Rightarrow> and_next (any_prefix ip p (q # qs)) (\<lambda>found. if found then Inr url else Inl forbidden_url) | _ \<Rightarrow> Inr url) = Inr u"
    unfolding safe_url_def by (simp split: if_splits)
  then show "u = url" by (auto simp: and_next_def split: option.splits list.splits sum.splits if_splits)
  have "\<exists>q \<in> set qs. \<exists>r. urlsplit ip q = Some r \<and> parts_match p r" if "map_of (co_allowed c) client = Some qs" "qs \<noteq> []" for qs
  proof (rule any_prefix_True)
    show "any_prefix ip p qs = Inr True"
      using rest that by (cases qs) (auto simp: and_next_def simp del: any_prefix.simps split: sum.splits if_splits)
  qed
  with safe show "\<exists>p. safe_url ip url p
    \<and> (\<forall>qs. map_of (co_allowed c) client = Some qs \<and> qs \<noteq> [] \<longrightarrow> (\<exists>q \<in> set qs. \<exists>r. urlsplit ip q = Some r \<and> parts_match p r))" by blast
qed

text \<open>
  The browser is sent back only to a target configured for the client, or, while legacy URLs are taken,
  to an HTTPS URL with a host, without user information and without a backslash, a control character or two
  dots in its path, which stands below an entry of the client's list when there is one.
\<close>

theorem checkout_returns_where_allowed:
  assumes "resolve_checkout_return_url ip c client return_target legacy = Inr (Some url)"
  shows "(truthy return_target \<and> map_of (co_targets c) (client @ '':'' @ the return_target) = Some url)
     \<or> (co_fallback c \<and> legacy = Some url \<and> (\<exists>p. safe_url ip url p
          \<and> (\<forall>qs. map_of (co_allowed c) client = Some qs \<and> qs \<noteq> [] \<longrightarrow> (\<exists>q \<in> set qs. \<exists>r. urlsplit ip q = Some r \<and> parts_match p r))))"
proof (cases "truthy return_target")
  case True
  with assms show ?thesis by (auto simp: resolve_checkout_return_url_def split: if_splits option.splits)
next
  case False
  note run = assms [unfolded resolve_checkout_return_url_def]
  from run False have legacy: "truthy legacy" "co_fallback c" by (simp_all split: if_splits)
  with run False have "validate_legacy_callback ip c client (the legacy) = Inr url"
    by (cases "validate_legacy_callback ip c client (the legacy)") simp_all
  note valid = validate_legacy_callback_Inr [OF this]
  have "legacy = Some url" using legacy(1) valid(1) by (cases legacy) (simp_all add: truthy_def)
  with legacy valid(2) show ?thesis unfolding valid(1) [symmetric] by simp
qed

definition demo_checkout :: checkout_settings where
  "demo_checkout = \<lparr>co_targets = [(''diddigo:app'', ''https://go.example/done'')], co_fallback = True,
     co_allowed = [(''diddigo'', [''https://go.example/pay''])]\<rparr>"

theorem checkout_returns_where_allowed_witness:
  "resolve_checkout_return_url (\<lambda>_. False) demo_checkout ''diddigo'' None (Some ''https://go.example/pay/7?x=1'') = Inr (Some ''https://go.example/pay/7?x=1'')
   \<and> (\<exists>p. safe_url (\<lambda>_. False) ''https://go.example/pay/7?x=1'' p)
   \<and> resolve_checkout_return_url (\<lambda>_. False) demo_checkout ''diddigo'' None (Some ''https://go.example/payroll'') = Inl forbidden_url"
proof -
  have run: "resolve_checkout_return_url (\<lambda>_. False) demo_checkout ''diddigo'' None (Some ''https://go.example/pay/7?x=1'') = Inr (Some ''https://go.example/pay/7?x=1'')"
    by code_simp
  have other: "resolve_checkout_return_url (\<lambda>_. False) demo_checkout ''diddigo'' None (Some ''https://go.example/payroll'') = Inl forbidden_url"
    by code_simp
  have "\<not> truthy None" by (simp add: truthy_def)
  with checkout_returns_where_allowed [OF run] have "\<exists>p. safe_url (\<lambda>_. False) ''https://go.example/pay/7?x=1'' p" by blast
  with run other show ?thesis by blast
qed

end
