(* ===== verification/PayApi.thy ===== *)
theory PayApi
  imports SupportRefunds Processors PayReports Checkout
begin

section \<open>The routes of the payment orchestrator\<close>

text \<open>
  \<^verbatim>\<open>payments/presentation/\<close>: \<^verbatim>\<open>routers.py\<close>, \<^verbatim>\<open>payout_router.py\<close>, \<^verbatim>\<open>webhook_router.py\<close>,
  \<^verbatim>\<open>idempotency.py\<close> and the bodies and answers of \<^verbatim>\<open>schemas.py\<close>. FastAPI authenticates the caller with the
  scope of the route, reports what the body does not meet, then runs the handler; a body is given with its
  members already of their declared types, and the registry of processors has been built. Metrics and log
  lines are left out.
\<close>

subsection \<open>Callers and errors\<close>

type_synonym 'a pay_route = "(pay_db, support_exc, 'a) op"

record pay_call =
  yc_authorization :: "string option"
  yc_client :: "string option"
  yc_service_key :: "string option"
  yc_key :: "string option"

record pay_api_env =
  ap_jwt :: jwt_verifier
  ap_auth :: auth_settings
  ap_intent_read :: string
  ap_intent_write :: string
  ap_refund_write :: string
  ap_payout_read :: string
  ap_payout_write :: string
  ap_checkout :: checkout_settings
  ap_ip_literal :: "string \<Rightarrow> bool"
  ap_pay :: pay_env
  ap_simulated :: bool

definition on_pay :: "(pexc \<Rightarrow> support_exc) \<Rightarrow> 'a pop \<Rightarrow> 'a pay_route" where
  "on_pay = on_part id (\<lambda>p _. p)"

definition http :: "aexc + 'a \<Rightarrow> 'a pay_route" where
  "http r = of_sum (map_sum S_http id r)"

definition caller :: "pay_api_env \<Rightarrow> string \<Rightarrow> pay_call \<Rightarrow> aexc + payment_caller" where
  "caller env scope c = payment_client (ap_jwt env) (ap_auth env) scope (yc_authorization c) (yc_client c) (yc_service_key c)"

definition as_client :: "pay_api_env \<Rightarrow> string \<Rightarrow> pay_call \<Rightarrow> bool \<Rightarrow> (string \<Rightarrow> 'a pay_route) \<Rightarrow> 'a pay_route" where
  "as_client env scope c valid handler =
     bindE (http (caller env scope c)) (\<lambda>k. thenE (ensure valid (S_http A_validation)) (handler (pl_client k)))"

definition MAX_IDEMPOTENCY_KEY_LENGTH :: nat where
  "MAX_IDEMPOTENCY_KEY_LENGTH = 128"

definition require_idempotency_key :: "string option \<Rightarrow> aexc + string" where
  "require_idempotency_key raw =
     (let k = strip (case raw of None \<Rightarrow> [] | Some x \<Rightarrow> x)
      in if k = [] then Inl (A_unprocessable ''IDEMPOTENCY_KEY_REQUIRED'')
         else if MAX_IDEMPOTENCY_KEY_LENGTH < length k then Inl (A_unprocessable ''IDEMPOTENCY_KEY_TOO_LONG'')
         else Inr k)"

definition translate_error :: "pexc \<Rightarrow> support_exc" where
  "translate_error e = (case e of P_PaymentNotFound \<Rightarrow> S_http (A_not_found ''PAYMENT_INTENT_NOT_FOUND'')
     | P_IdempotencyConflict \<Rightarrow> S_http (A_conflict ''IDEMPOTENCY_CONFLICT'')
     | P_OperationConflict \<Rightarrow> S_http (A_conflict ''PAYMENT_OPERATION_CONFLICT'')
     | P_RoutingError \<Rightarrow> S_http (A_unprocessable ''PAYMENT_METHOD_UNAVAILABLE'')
     | _ \<Rightarrow> S_pay e)"

definition translate_payout_error :: "pexc \<Rightarrow> support_exc" where
  "translate_payout_error e = (case e of P_PaymentNotFound \<Rightarrow> S_http (A_not_found ''PAYOUT_NOT_FOUND'')
     | P_IdempotencyConflict \<Rightarrow> S_http (A_conflict ''IDEMPOTENCY_CONFLICT'')
     | P_RoutingError \<Rightarrow> S_http (A_unprocessable ''PAYOUT_METHOD_UNAVAILABLE'')
     | _ \<Rightarrow> S_pay e)"

text \<open>The status of an answer with an exception: the errors of \<^verbatim>\<open>core/errors.py\<close> bring theirs, others are a 500.\<close>

fun answer_code :: "support_exc \<Rightarrow> nat" where
  "answer_code (S_http e) = http_code e"
| "answer_code (S_pay (P_NotFound _)) = 404"
| "answer_code (S_pay (P_Conflict _)) = 409"
| "answer_code (S_pay (P_Unprocessable _)) = 422"
| "answer_code (S_pay _) = 500"

subsection \<open>Bodies\<close>

record intent_body =
  ib_reference :: string
  ib_amount :: int
  ib_currency :: string
  ib_payer :: "uuid option"
  ib_payee :: "uuid option"
  ib_channel :: "string option"
  ib_network :: "string option"
  ib_email :: "string option"
  ib_phone :: "string option"
  ib_target :: "string option"
  ib_callback :: "string option"
  ib_description :: "string option"
  ib_metadata :: json_object

definition opt_member :: "string option \<Rightarrow> string set \<Rightarrow> bool" where
  "opt_member x A \<longleftrightarrow> (case x of None \<Rightarrow> True | Some v \<Rightarrow> v \<in> A)"

definition intent_body_ok :: "intent_body \<Rightarrow> bool" where
  "intent_body_ok b \<longleftrightarrow> sized 1 128 (ib_reference b) \<and> 0 < ib_amount b \<and> ib_currency b = ''XOF''
     \<and> opt_member (ib_channel b) {''mobile_money'', ''card''} \<and> opt_member (ib_network b) {''orange'', ''wave'', ''mtn''}
     \<and> opt_sized 254 (ib_email b) \<and> opt_sized 32 (ib_phone b) \<and> ib_target b \<noteq> Some [] \<and> opt_sized 64 (ib_target b)
     \<and> opt_sized 2048 (ib_callback b) \<and> opt_sized 255 (ib_description b)"

record refund_body =
  fb_amount :: int
  fb_reason :: "string option"

definition refund_body_ok :: "refund_body \<Rightarrow> bool" where
  "refund_body_ok b \<longleftrightarrow> 0 < fb_amount b \<and> opt_sized 255 (fb_reason b)"

text \<open>The destination is a phone and its network.\<close>

record payout_body =
  ob_reference :: string
  ob_beneficiary :: string
  ob_destination :: "(string \<times> string) option"
  ob_amount :: int
  ob_currency :: string
  ob_metadata :: json_object

definition destination_ok :: "string \<times> string \<Rightarrow> bool" where
  "destination_ok d \<longleftrightarrow> sized 1 32 (fst d) \<and> sized 1 32 (snd d)"

definition destination_object :: "string \<times> string \<Rightarrow> json_object" where
  "destination_object d = [(''type'', ''mobile_money''), (''phone'', fst d), (''network'', snd d)]"

definition payout_body_ok :: "payout_body \<Rightarrow> bool" where
  "payout_body_ok b \<longleftrightarrow> sized 1 128 (ob_reference b) \<and> sized 1 128 (ob_beneficiary b)
     \<and> (case ob_destination b of None \<Rightarrow> True | Some d \<Rightarrow> destination_ok d) \<and> 0 < ob_amount b \<and> ob_currency b = ''XOF''"

subsection \<open>Answers\<close>

record attempt_answer =
  tn_id :: uuid
  tn_status :: attempt_status
  tn_channel :: "string option"
  tn_network :: "string option"
  tn_action :: "next_action option"
  tn_failure :: "string option"
  tn_created :: instant
  tn_updated :: instant

record intent_answer =
  an_id :: uuid
  an_client :: string
  an_reference :: string
  an_money :: pay_money
  an_status :: intent_status
  an_payer :: "uuid option"
  an_payee :: "uuid option"
  an_description :: "string option"
  an_metadata :: json_object
  an_refunded :: int
  an_action :: "next_action option"
  an_attempts :: "attempt_answer list"
  an_created :: instant
  an_updated :: instant

definition attempt_response :: "pay_attempt \<Rightarrow> attempt_answer" where
  "attempt_response a = \<lparr>tn_id = pa_id a, tn_status = pa_status a, tn_channel = pa_channel a, tn_network = pa_network a,
     tn_action = pa_action a, tn_failure = pa_failure a, tn_created = pa_created a, tn_updated = pa_updated a\<rparr>"

definition intent_response :: "payment_view \<Rightarrow> intent_answer" where
  "intent_response v =
     (let i = vw_intent v; rows = map attempt_response (vw_attempts v)
      in \<lparr>an_id = pi_id i, an_client = pi_client i, an_reference = pi_reference i, an_money = pi_money i, an_status = pi_status i,
        an_payer = pi_payer i, an_payee = pi_payee i, an_description = pi_description i, an_metadata = pi_metadata i,
        an_refunded = pi_refunded i, an_action = (if rows = [] then None else tn_action (last rows)), an_attempts = rows,
        an_created = pi_created i, an_updated = pi_updated i\<rparr>)"

record refund_answer =
  rn_id :: uuid
  rn_intent :: uuid
  rn_money :: pay_money
  rn_status :: refund_status
  rn_provider_status :: "string option"
  rn_created :: instant
  rn_updated :: instant

definition refund_response :: "pay_refund \<Rightarrow> refund_answer" where
  "refund_response f = \<lparr>rn_id = rf_id f, rn_intent = rf_intent f, rn_money = rf_money f, rn_status = rf_status f,
     rn_provider_status = rf_provider_status f, rn_created = rf_created f, rn_updated = rf_updated f\<rparr>"

record payout_answer =
  on_id :: uuid
  on_client :: string
  on_reference :: string
  on_beneficiary :: string
  on_destination :: "json_object option"
  on_money :: pay_money
  on_status :: payout_status
  on_processor :: string
  on_provider_status :: "string option"
  on_failure :: "string option"
  on_metadata :: json_object
  on_created :: instant
  on_updated :: instant

definition payout_response :: "pay_payout \<Rightarrow> payout_answer" where
  "payout_response p = \<lparr>on_id = pt_id p, on_client = pt_client p, on_reference = pt_reference p, on_beneficiary = pt_beneficiary p,
     on_destination = pt_destination p, on_money = pt_money p, on_status = pt_status p, on_processor = pt_processor p,
     on_provider_status = pt_provider_status p, on_failure = pt_failure p, on_metadata = pt_metadata p, on_created = pt_created p,
     on_updated = pt_updated p\<rparr>"

subsection \<open>Payments\<close>

definition intent_command :: "string \<Rightarrow> string \<Rightarrow> string option \<Rightarrow> intent_body \<Rightarrow> create_command" where
  "intent_command client key callback b = \<lparr>cc_client = client, cc_reference = ib_reference b, cc_amount = ib_amount b,
     cc_currency = ib_currency b, cc_key = key, cc_payer = ib_payer b, cc_payee = ib_payee b, cc_channel = ib_channel b,
     cc_network = ib_network b, cc_email = ib_email b, cc_phone = ib_phone b, cc_callback = callback,
     cc_description = ib_description b, cc_metadata = ib_metadata b\<rparr>"

definition create_payment_intent :: "pay_api_env \<Rightarrow> pay_call \<Rightarrow> intent_body \<Rightarrow> intent_answer pay_route" where
  "create_payment_intent env c b = as_client env (ap_intent_write env) c (intent_body_ok b) (\<lambda>client.
     bindE (http (require_idempotency_key (yc_key c))) (\<lambda>key.
     bindE (http (resolve_checkout_return_url (ap_ip_literal env) (ap_checkout env) client (ib_target b) (ib_callback b))) (\<lambda>callback.
     bindE (on_pay translate_error (payment_create (ap_pay env) (intent_command client key callback b))) (\<lambda>v.
     retE (intent_response v)))))"

definition get_payment_intent :: "pay_api_env \<Rightarrow> pay_call \<Rightarrow> uuid \<Rightarrow> intent_answer pay_route" where
  "get_payment_intent env c i = as_client env (ap_intent_read env) c True (\<lambda>client.
     bindE (on_pay translate_error (payment_get client i)) (\<lambda>v. retE (intent_response v)))"

definition list_payment_intents :: "pay_api_env \<Rightarrow> pay_call \<Rightarrow> nat \<Rightarrow> intent_answer list pay_route" where
  "list_payment_intents env c n = as_client env (ap_intent_read env) c (1 \<le> n \<and> n \<le> 100) (\<lambda>client.
     readE (\<lambda>s. map intent_response (payment_list s client n)))"

definition cancel_payment_intent :: "pay_api_env \<Rightarrow> pay_call \<Rightarrow> uuid \<Rightarrow> intent_answer pay_route" where
  "cancel_payment_intent env c i = as_client env (ap_intent_write env) c True (\<lambda>client.
     bindE (on_pay translate_error (cancel client i)) (\<lambda>v. retE (intent_response v)))"

definition create_refund :: "pay_api_env \<Rightarrow> pay_call \<Rightarrow> uuid \<Rightarrow> refund_body \<Rightarrow> refund_answer pay_route" where
  "create_refund env c i b = as_client env (ap_refund_write env) c (refund_body_ok b) (\<lambda>client.
     bindE (http (require_idempotency_key (yc_key c))) (\<lambda>key.
     bindE (on_pay translate_error (refund_create (ap_pay env)
       \<lparr>rc_client = client, rc_intent = i, rc_amount = fb_amount b, rc_key = key, rc_reason = fb_reason b\<rparr>)) (\<lambda>f.
     retE (refund_response f))))"

text \<open>The currency of the payment and its totals.\<close>

definition get_financial_summary :: "pay_api_env \<Rightarrow> pay_call \<Rightarrow> uuid \<Rightarrow> (string \<times> financial_summary) pay_route" where
  "get_financial_summary env c i = as_client env (ap_intent_read env) c True (\<lambda>client.
     bindE (on_pay translate_error (payment_get client i)) (\<lambda>v.
     readE (\<lambda>s. (pm_currency (pi_money (vw_intent v)), journal_summary s i))))"

subsection \<open>Payouts\<close>

definition create_payout_route :: "pay_api_env \<Rightarrow> pay_call \<Rightarrow> payout_body \<Rightarrow> payout_answer pay_route" where
  "create_payout_route env c b = as_client env (ap_payout_write env) c (payout_body_ok b) (\<lambda>client.
     bindE (http (require_idempotency_key (yc_key c))) (\<lambda>key.
     bindE (on_pay translate_payout_error (payout_create (ap_pay env) (ap_simulated env)
       \<lparr>pd_client = client, pd_reference = ob_reference b, pd_beneficiary = ob_beneficiary b, pd_amount = ob_amount b,
        pd_currency = ob_currency b, pd_key = key, pd_destination = map_option destination_object (ob_destination b),
        pd_metadata = ob_metadata b\<rparr>)) (\<lambda>v.
     retE (payout_response (fst v)))))"

definition get_payout :: "pay_api_env \<Rightarrow> pay_call \<Rightarrow> uuid \<Rightarrow> payout_answer pay_route" where
  "get_payout env c i = as_client env (ap_payout_read env) c True (\<lambda>client.
     bindE (on_pay translate_payout_error (payout_view client i)) (\<lambda>p. retE (payout_response p)))"

text \<open>The currency and what the books have paid out.\<close>

definition get_payout_financial_summary :: "pay_api_env \<Rightarrow> pay_call \<Rightarrow> uuid \<Rightarrow> (string \<times> int) pay_route" where
  "get_payout_financial_summary env c i = as_client env (ap_payout_read env) c True (\<lambda>client.
     bindE (on_pay translate_payout_error (payout_view client i)) (\<lambda>p.
     readE (\<lambda>s. (pm_currency (pt_money p), case map_of (payout_summary s i) ''payout'' of None \<Rightarrow> 0 | Some a \<Rightarrow> a))))"

definition get_payout_by_business_reference :: "pay_api_env \<Rightarrow> pay_call \<Rightarrow> string \<Rightarrow> payout_answer pay_route" where
  "get_payout_by_business_reference env c ref = as_client env (ap_payout_read env) c (sized 1 128 ref) (\<lambda>client.
     bindE (on_pay translate_payout_error (payout_by_business_reference client ref)) (\<lambda>p. retE (payout_response p)))"

subsection \<open>Provider webhooks\<close>

definition webhook_error :: "pexc \<Rightarrow> support_exc" where
  "webhook_error e = (case e of P_ProcessorWebhookRejected \<Rightarrow> S_http A_unauthenticated | _ \<Rightarrow> S_pay e)"

text \<open>Without a secret there is no processor to check a signature with: the dependency answers 401.\<close>

definition webhook_processor :: "outside \<Rightarrow> processor_settings \<Rightarrow> support_exc + processor" where
  "webhook_processor W st = (case paystack_webhook_processor W st of Inr p \<Rightarrow> Inr p
     | Inl e \<Rightarrow> Inl (if e = P_Value ''Webhook Paystack non configure.'' then S_http A_unauthenticated else S_pay e))"

definition paystack_webhook_route :: "outside \<Rightarrow> processor_settings \<Rightarrow> string \<Rightarrow> (string \<times> string) list \<Rightarrow> webhook_outcome pay_route" where
  "paystack_webhook_route W st body headers =
     bindE (of_sum (webhook_processor W st)) (\<lambda>p. on_pay webhook_error (webhook_process p body headers))"

end
