(* ===== verification/PayInternal.thy ===== *)
theory PayInternal
  imports PayApi
begin

section \<open>The internal routes of the orchestrator and its jobs\<close>

text \<open>
  \<^verbatim>\<open>payments/presentation/\<close>: \<^verbatim>\<open>backoffice_router.py\<close>, \<^verbatim>\<open>summary_router.py\<close> with
  \<^verbatim>\<open>capability_declarations.py\<close>, and the payment context of \<^verbatim>\<open>support_router.py\<close>; the payment jobs of
  \<^verbatim>\<open>ops/maintenance.py\<close>. A back office command is one transaction, which \<^verbatim>\<open>get_session\<close> commits at the end of
  the request. A date is the number of its day. The constant texts of the answers of Pilotage are left out.
\<close>

subsection \<open>Callers\<close>

record internal_call =
  xc_authorization :: "string option"
  xc_client :: "string option"
  xc_actor :: "string option"
  xc_command :: "string option"
  xc_key :: "string option"

type_synonym service_check = "jwt_verifier \<Rightarrow> auth_settings \<Rightarrow> string option \<Rightarrow> string option \<Rightarrow> aexc + service_principal"

definition as_principal :: "service_check \<Rightarrow> pay_api_env \<Rightarrow> internal_call \<Rightarrow> bool \<Rightarrow> (string \<Rightarrow> 'a pay_route) \<Rightarrow> 'a pay_route" where
  "as_principal check env c valid handler =
     bindE (http (check (ap_jwt env) (ap_auth env) (xc_authorization c) (xc_client c))) (\<lambda>p.
     thenE (ensure valid (S_http A_validation)) (handler (sp_client p)))"

subsection \<open>What the wallet declares\<close>

record capability_declaration =
  cp_service :: string
  cp_type :: string
  cp_owner :: string
  cp_projection :: string
  cp_authorizes :: bool
  cp_allowed :: "string list"
  cp_operational :: "string list"
  cp_access :: "string list"
  cp_forbidden :: "string list"

definition wallet_capability_declarations :: "capability_declaration list" where
  "wallet_capability_declarations = [\<lparr>cp_service = ''diddipay'', cp_type = ''wallet'', cp_owner = ''diddipay'',
     cp_projection = ''diddifreeid/pro'', cp_authorizes = False, cp_allowed = [],
     cp_operational = [''available'', ''limited'', ''unavailable'', ''stale''],
     cp_access = [''enabled'', ''disabled'', ''suspended'', ''revoked''],
     cp_forbidden = [''balance_read'', ''payment_authorization'', ''transfer'', ''withdrawal'', ''pin_validation'', ''risk_decision'',
       ''limit_decision'']\<rparr>]"

subsection \<open>Back office\<close>

record command_body =
  bb_version :: string
  bb_reason :: string
  bb_key :: string

definition command_body_ok :: "command_body \<Rightarrow> bool" where
  "command_body_ok b \<longleftrightarrow> bb_version b = ''backoffice.v1'' \<and> sized 3 500 (bb_reason b) \<and> sized 8 128 (bb_key b)"

record settlement_body =
  sb_command :: command_body
  sb_amount :: int
  sb_reference :: string

definition settlement_body_ok :: "settlement_body \<Rightarrow> bool" where
  "settlement_body_ok b \<longleftrightarrow> command_body_ok (sb_command b) \<and> 0 < sb_amount b \<and> sized 3 180 (sb_reference b)"

text \<open>Actor, command and key.\<close>

definition validate_command_headers :: "command_body \<Rightarrow> internal_call \<Rightarrow> aexc + (string \<times> string \<times> string)" where
  "validate_command_headers b c =
     (if \<not> truthy (xc_actor c) \<or> \<not> truthy (xc_command c) \<or> \<not> truthy (xc_key c) then Inl (A_bad_request ''BACKOFFICE_HEADERS_REQUIRED'')
      else if Some (bb_key b) \<noteq> xc_key c then Inl (A_bad_request ''IDEMPOTENCY_KEY_MISMATCH'')
      else Inr (the (xc_actor c), the (xc_command c), the (xc_key c)))"

record command_answer =
  kn_status :: command_status
  kn_command :: string
  kn_audit :: uuid
  kn_result :: command_result

definition command_response :: "backoffice_command \<Rightarrow> command_answer" where
  "command_response b = \<lparr>kn_status = bc_status b, kn_command = bc_command b, kn_audit = bc_id b, kn_result = bc_result b\<rparr>"

text \<open>Scopes, resources, commands, headers and the declarations.\<close>

definition backoffice_capabilities :: "pay_api_env \<Rightarrow> internal_call \<Rightarrow>
    (string \<times> string \<times> string list \<times> string list \<times> string list \<times> capability_declaration list) pay_route" where
  "backoffice_capabilities env c = as_principal require_backoffice_reader env c True (\<lambda>_.
     retE (as_backoffice_read_scope (ap_auth env), as_backoffice_command_scope (ap_auth env),
       [''payments'', ''payment_attempts'', ''financial_summary'', ''commands''], [''retry_callback'', ''record_settlement''],
       [''X-Backoffice-Actor'', ''X-Backoffice-Command-Id'', ''Idempotency-Key''], wallet_capability_declarations))"

text \<open>The payments of the page, the page, its size and the number of payments.\<close>

definition list_backoffice_payments :: "pay_api_env \<Rightarrow> internal_call \<Rightarrow> nat \<Rightarrow> nat \<Rightarrow> intent_status option \<Rightarrow>
    (backoffice_payment list \<times> nat \<times> nat \<times> nat) pay_route" where
  "list_backoffice_payments env c page page_size status =
     as_principal require_backoffice_reader env c (1 \<le> page \<and> 1 \<le> page_size \<and> page_size \<le> 100) (\<lambda>_.
       bindE (readE (\<lambda>s. backoffice_list s page page_size status)) (\<lambda>(items, n). retE (items, page, page_size, n)))"

definition get_backoffice_payment :: "pay_api_env \<Rightarrow> internal_call \<Rightarrow> uuid \<Rightarrow> backoffice_payment pay_route" where
  "get_backoffice_payment env c i = as_principal require_backoffice_reader env c True (\<lambda>_.
     bindE (readE (\<lambda>s. backoffice_get s i)) (some_or (S_http (A_not_found ''PAYMENT_INTENT_NOT_FOUND''))))"

definition command_route :: "pay_api_env \<Rightarrow> internal_call \<Rightarrow> bool \<Rightarrow> command_body \<Rightarrow> string \<Rightarrow> uuid \<Rightarrow> command_payload \<Rightarrow> command_answer pay_route" where
  "command_route env c valid b action i payload = as_principal require_backoffice_commander env c valid (\<lambda>client.
     bindE (http (validate_command_headers b c)) (\<lambda>(actor, command, key).
     bindE (atomically (on_pay S_pay
       (execute_command (ap_pay env) client command actor key action ''payment_intent'' i (bb_reason b) payload))) (\<lambda>r.
     retE (command_response r))))"

definition retry_payment_callback :: "pay_api_env \<Rightarrow> internal_call \<Rightarrow> uuid \<Rightarrow> uuid \<Rightarrow> command_body \<Rightarrow> command_answer pay_route" where
  "retry_payment_callback env c i event_id b =
     command_route env c (command_body_ok b) b ''payment.callback.retry'' i (Retry_payload event_id)"

definition settlement_route :: "pay_api_env \<Rightarrow> internal_call \<Rightarrow> uuid \<Rightarrow> settlement_body \<Rightarrow> command_answer pay_route" where
  "settlement_route env c i b =
     command_route env c (settlement_body_ok b) (sb_command b) ''payment.settlement.record'' i (Settlement_payload (sb_amount b) (sb_reference b))"

definition get_backoffice_command :: "pay_api_env \<Rightarrow> internal_call \<Rightarrow> string \<Rightarrow> command_answer pay_route" where
  "get_backoffice_command env c command = as_principal require_backoffice_reader env c True (\<lambda>client.
     bindE (readE (\<lambda>s. command_get s client command)) (\<lambda>found.
     bindE (some_or (S_http (A_not_found ''COMMAND_NOT_FOUND'')) found) (\<lambda>r. retE (command_response r))))"

subsection \<open>Pilotage\<close>

definition pilotage_capabilities :: "pay_api_env \<Rightarrow> internal_call \<Rightarrow> (string \<times> string list \<times> capability_declaration list) pay_route" where
  "pilotage_capabilities env c = as_principal require_pilotage_service env c True (\<lambda>_.
     retE (as_summary_scope (ap_auth env), [''daily_summary'', ''accounting_summary'', ''health_summary''], wallet_capability_declarations))"

definition payment_summary :: "pay_api_env \<Rightarrow> internal_call \<Rightarrow> int \<Rightarrow> daily_figures pay_route" where
  "payment_summary env c dt = as_principal require_pilotage_service env c True (\<lambda>_. readE (\<lambda>s. daily_summary s dt))"

definition pilotage_daily_summary :: "pay_api_env \<Rightarrow> internal_call \<Rightarrow> int \<Rightarrow> (int \<times> bool \<times> (string \<times> int) list \<times> instant) pay_route" where
  "pilotage_daily_summary env c dt = as_principal require_pilotage_service env c True (\<lambda>_.
     readE (\<lambda>s. let r = daily_summary s dt in (ds_date r, is_final (pay_clock s) dt, pilotage_metrics r, ds_calculated r)))"

definition pilotage_accounting_summary :: "pay_api_env \<Rightarrow> internal_call \<Rightarrow> int \<Rightarrow> (int \<times> bool \<times> accounting_entry list \<times> instant) pay_route" where
  "pilotage_accounting_summary env c dt = as_principal require_pilotage_service env c True (\<lambda>_.
     readE (\<lambda>s. (dt, is_final (pay_clock s) dt, accounting_summary s dt, pay_clock s)))"

definition pilotage_health_summary :: "pay_api_env \<Rightarrow> internal_call \<Rightarrow> (health \<times> (nat \<times> nat) option \<times> instant) pay_route" where
  "pilotage_health_summary env c = as_principal require_pilotage_service env c True (\<lambda>_.
     readE (\<lambda>s. case health_summary (Some (status_counts s)) of (h, counts) \<Rightarrow> (h, counts, pay_clock s)))"

subsection \<open>Support\<close>

definition get_support_payment_context :: "pay_api_env \<Rightarrow> internal_call \<Rightarrow> uuid \<Rightarrow> support_context_view pay_route" where
  "get_support_payment_context env c i = as_principal require_support_reader env c True (\<lambda>_.
     bindE (readE (\<lambda>s. support_context s i)) (some_or (S_http (A_not_found ''PAYMENT_CONTEXT_NOT_FOUND''))))"

subsection \<open>Jobs\<close>

text \<open>Without targets of its own the worker takes the configured ones, and the sender of the transport.\<close>

record transport_settings =
  tr_transport :: string
  tr_stream :: string
  tr_targets :: "(string \<times> callback_target) list"

definition event_stream :: "transport_settings \<Rightarrow> bool" where
  "event_stream c \<longleftrightarrow> tr_transport c = ''redis_stream''"

definition event_targets :: "transport_settings \<Rightarrow> (string \<times> callback_target) list" where
  "event_targets c = (if event_stream c then [(''*'', \<lparr>ct_url = tr_stream c, ct_secret = []\<rparr>)] else tr_targets c)"

definition deliver_payment_events :: "transport_settings \<Rightarrow> sender \<Rightarrow> sender \<Rightarrow> nat \<Rightarrow> sender option \<Rightarrow>
    (string \<times> callback_target) list option \<Rightarrow> delivery_summary pop" where
  "deliver_payment_events c redis https n given_sender given_targets =
     (let targets = (case given_targets of Some ts \<Rightarrow> ts | None \<Rightarrow> event_targets c);
          send = (case given_sender of Some f \<Rightarrow> f | None \<Rightarrow> if given_targets = None \<and> event_stream c then redis else https)
      in run_deliveries send targets n)"

definition reconcile_pending_payment_intents :: "pay_env \<Rightarrow> int \<Rightarrow> nat \<Rightarrow> (nat \<times> sweep) pop" where
  "reconcile_pending_payment_intents env minimum_age max_rows = reconcile_payments env minimum_age max_rows"

definition reconcile_pending_payouts :: "pay_env \<Rightarrow> int \<Rightarrow> nat \<Rightarrow> (nat \<times> payout_sweep) pop" where
  "reconcile_pending_payouts env minimum_age max_rows = reconcile_payouts env minimum_age max_rows"

definition payment_event_delivery_status :: "pay_db \<Rightarrow> (delivery_status \<times> nat) list" where
  "payment_event_delivery_status s =
     map (\<lambda>st. (st, case map_of (status_counts s) st of None \<Rightarrow> 0 | Some n \<Rightarrow> n)) [Ob_pending, Ob_delivering, Ob_delivered, Ob_dead_letter]"

definition audit_payment_integrity :: "int \<Rightarrow> (integrity_gap list \<times> bool) pop" where
  "audit_payment_integrity n = bindE (readE (\<lambda>s. integrity_audit s n)) of_sum"

definition record_payment_settlement :: "uuid \<Rightarrow> int \<Rightarrow> string \<Rightarrow> financial_summary pop" where
  "record_payment_settlement i a settlement_ref =
     bindE (readE (\<lambda>s. intent_get s i)) (\<lambda>found.
     bindE (some_or (P_Value ''PAYMENT_INTENT_NOT_FOUND'') found) (\<lambda>x.
     bindE (readE (\<lambda>s. find (\<lambda>t. pa_status t = At_succeeded) (rev (attempts_for s i)))) (\<lambda>found_attempt.
     bindE (some_or (P_Value ''SUCCESSFUL_PAYMENT_ATTEMPT_NOT_FOUND'') found_attempt) (\<lambda>t.
     thenE (atomically (record_settlement x (pa_processor t) a settlement_ref)) (readE (\<lambda>s. journal_summary s i))))))"

end
