(* ===== verification/Ops.thy ===== *)
theory Ops
  imports PayInternal WalletSweep
begin

section \<open>The commands of operations and the payment worker\<close>

text \<open>
  \<^verbatim>\<open>ops/__main__.py\<close>: the commands over the wallet and the payment tables with their exit codes, and one cycle of
  the payment worker with the heartbeat of \<^verbatim>\<open>ops/worker_health.py\<close>. Every job commits on its own. What the commands
  print is left out, and so are the file of the heartbeat and the loop that sleeps between two cycles.
\<close>

record ops_state =
  oz_desk :: wallet_desk
  oz_pay :: pay_db

datatype ops_exc = Oz_permission | Oz_wallet wexc | Oz_pay pexc

type_synonym 'a ops_op = "(ops_state, ops_exc, 'a) op"

record ops_env =
  oe_wallet :: wallet_env
  oe_bus :: "outbox_event \<Rightarrow> bool"
  oe_pay :: pay_env
  oe_transport :: transport_settings
  oe_redis :: sender
  oe_https :: sender

definition on_oz_desk :: "'a desk_op \<Rightarrow> 'a ops_op" where
  "on_oz_desk = on_part oz_desk (\<lambda>d s. s\<lparr>oz_desk := d\<rparr>) Oz_wallet"

definition on_oz_pay :: "'a pop \<Rightarrow> 'a ops_op" where
  "on_oz_pay = on_part oz_pay (\<lambda>p s. s\<lparr>oz_pay := p\<rparr>) Oz_pay"

subsection \<open>The payment worker\<close>

text \<open>Reconciliations and deliveries with their defaults, then the counts of the outbox.\<close>

definition payment_cycle :: "ops_env \<Rightarrow> (delivery_status \<times> nat) list ops_op" where
  "payment_cycle env =
     bindE (on_oz_pay (reconcile_pending_payment_intents (oe_pay env) 300 100)) (\<lambda>_.
     bindE (on_oz_pay (reconcile_pending_payouts (oe_pay env) 300 100)) (\<lambda>_.
     bindE (on_oz_pay (deliver_payment_events (oe_transport env) (oe_redis env) (oe_https env) 100 None None)) (\<lambda>_.
     readE (\<lambda>s. payment_event_delivery_status (oz_pay s)))))"

record heartbeat =
  hb_time :: instant
  hb_healthy :: bool

text \<open>An exception ends the cycle, not the worker: the heartbeat tells it, and the next cycle starts afresh.\<close>

definition worker_cycle :: "ops_env \<Rightarrow> ops_state \<Rightarrow> heartbeat \<times> ops_state" where
  "worker_cycle env s = (case payment_cycle env s of (r, t) \<Rightarrow>
     (\<lparr>hb_time = pay_clock (oz_pay t), hb_healthy = (case r of Inl _ \<Rightarrow> False | Inr _ \<Rightarrow> True)\<rparr>, t))"

definition worker_is_healthy :: "instant \<Rightarrow> int \<Rightarrow> heartbeat option \<Rightarrow> bool" where
  "worker_is_healthy ts max_age h = (case h of None \<Rightarrow> False
     | Some x \<Rightarrow> hb_healthy x \<and> 0 \<le> ts - hb_time x \<and> ts - hb_time x \<le> max_age)"

subsection \<open>Commands\<close>

datatype ops_command = Cm_backfill uuid "string option" string | Cm_reconcile uuid | Cm_sweep | Cm_relay | Cm_payment_relay nat
  | Cm_payment_once | Cm_audit nat | Cm_settlement uuid int string | Cm_event_status | Cm_housekeeping

definition dead_letter_exit :: "(delivery_status \<times> nat) list \<Rightarrow> nat" where
  "dead_letter_exit counts = (if map_of counts Ob_dead_letter \<noteq> Some 0 then 2 else 0)"

definition exit_zero :: "'a ops_op \<Rightarrow> nat ops_op" where
  "exit_zero m = bindE m (\<lambda>_. retE 0)"

fun run_command :: "ops_env \<Rightarrow> ops_command \<Rightarrow> nat ops_op" where
  "run_command env (Cm_backfill user phone ty) = exit_zero (on_oz_desk (in_wallet (atomically (backfill_wallet user phone ty))))"
| "run_command env (Cm_reconcile i) = exit_zero (on_oz_desk (in_wallet (reconcile_deposit (oe_wallet env) i)))"
| "run_command env Cm_sweep = exit_zero (on_oz_desk (in_wallet (wallet_sweep (oe_wallet env))))"
| "run_command env Cm_relay = exit_zero (on_oz_desk (relay_outbox (oe_bus env)))"
| "run_command env (Cm_payment_relay n) =
     exit_zero (on_oz_pay (deliver_payment_events (oe_transport env) (oe_redis env) (oe_https env) n None None))"
| "run_command env Cm_payment_once = bindE (payment_cycle env) (\<lambda>counts. retE (dead_letter_exit counts))"
| "run_command env (Cm_audit n) = bindE (on_oz_pay (audit_payment_integrity (int n))) (\<lambda>(gaps, _). retE (if gaps \<noteq> [] then 2 else 0))"
| "run_command env (Cm_settlement i a ref) = exit_zero (on_oz_pay (record_payment_settlement i a ref))"
| "run_command env Cm_event_status = bindE (readE (\<lambda>s. payment_event_delivery_status (oz_pay s))) (\<lambda>counts. retE (dead_letter_exit counts))"
| "run_command env Cm_housekeeping = exit_zero (on_oz_desk (housekeeping (oe_wallet env) (oe_bus env)))"

text \<open>The limits of the parser: from 1 to 500 rows, and the two types of account.\<close>

fun command_parsed :: "ops_command \<Rightarrow> bool" where
  "command_parsed (Cm_backfill user phone ty) \<longleftrightarrow> ty \<in> {''user'', ''merchant''}"
| "command_parsed (Cm_payment_relay n) \<longleftrightarrow> 1 \<le> n \<and> n \<le> 500"
| "command_parsed (Cm_audit n) \<longleftrightarrow> 1 \<le> n \<and> n \<le> 500"
| "command_parsed _ \<longleftrightarrow> True"

text \<open>The exit code; \<open>2\<close> is also that of \<^verbatim>\<open>argparse\<close> for arguments it does not accept.\<close>

definition ops_main :: "ops_env \<Rightarrow> string \<Rightarrow> ops_command \<Rightarrow> nat ops_op" where
  "ops_main env admin_role command =
     (if \<not> command_parsed command then retE 2
      else thenE (ensure (admin_role = ''admin'') Oz_permission) (run_command env command))"

end
