(* ===== verification/PayApiProps.thy ===== *)
theory PayApiProps
  imports PayApi PayDemo SecurityProps
begin

section \<open>What the routes of the orchestrator show, and to whom\<close>

lemma on_pay_Inr: "on_pay err m s = (Inr x, t) \<longleftrightarrow> m s = (Inr x, t)"
  by (auto simp: on_pay_def on_part_Inr)

lemma as_client_Inr:
  "as_client env scope c valid handler s = (Inr x, t) \<longleftrightarrow>
     (\<exists>k. caller env scope c = Inr k \<and> valid \<and> handler (pl_client k) s = (Inr x, t))"
  by (cases "caller env scope c") (auto simp: as_client_def http_def)

lemma http_Inr: "http r s = (Inr x, t) \<longleftrightarrow> r = Inr x \<and> t = s"
  by (cases r) (auto simp: http_def)

subsection \<open>Owners\<close>

lemma intent_by_idempotency_client: "intent_by_idempotency s client key = Some i \<Longrightarrow> pi_client i = client"
  by (auto simp: intent_by_idempotency_def dest!: find_Some_prop)

lemma idempotent_view_intent: "idempotent_view i fp s = (Inr v, t) \<Longrightarrow> vw_intent v = i"
  by (auto simp: idempotent_view_def)

fun begun_client :: "create_begun \<Rightarrow> string" where
  "begun_client (Replayed v) = pi_client (vw_intent v)"
| "begun_client (Started p i a) = pi_client i"

lemma create_insert_client:
  assumes "create_insert env c p m s = (Inr b, t)"
  shows "begun_client b = cc_client c"
  using assms
  by (auto simp: create_insert_def catchE_Inr new_intent_def Let_def dest!: intent_by_idempotency_client idempotent_view_intent)

lemma create_begin_client:
  assumes "create_begin env c s = (Inr b, t)"
  shows "begun_client b = cc_client c"
proof (cases "intent_by_idempotency s (cc_client c) (cc_key c)")
  case (Some x)
  with assms show ?thesis by (auto simp: create_begin_def dest!: intent_by_idempotency_client idempotent_view_intent)
next
  case None
  with assms show ?thesis by (auto simp: create_begin_def dest: create_insert_client)
qed

lemma apply_provider_result_client: "apply_provider_result ts r i a = Inr (j, b) \<Longrightarrow> pi_client j = pi_client i"
  by (auto simp: apply_provider_result_def attempt_transition_to_def intent_transition_to_def moves_to_def Let_def
      split: if_splits sum.splits option.splits)

lemma payment_create_client:
  assumes "payment_create env c s = (Inr v, t)"
  shows "pi_client (vw_intent v) = cc_client c"
proof -
  from assms obtain b u where b: "create_begin env c s = (Inr b, u)"
    and rest: "(case b of Replayed v \<Rightarrow> retE v | Started p i a \<Rightarrow> atomically (create_finish p c i a)) u = (Inr v, t)"
    by (auto simp: payment_create_def)
  show ?thesis
  proof (cases b)
    case (Replayed w)
    with rest create_begin_client [OF b] show ?thesis by simp
  next
    case (Started p i a)
    with rest create_begin_client [OF b] show ?thesis by (auto simp: create_finish_def dest: apply_provider_result_client)
  qed
qed

lemma payment_get_client: "payment_get client i s = (Inr v, t) \<Longrightarrow> pi_client (vw_intent v) = client \<and> pi_id (vw_intent v) = i \<and> t = s"
  by (auto simp: payment_get_def dest: intent_get_Some)

lemma payment_list_client: "v \<in> set (payment_list s client n) \<Longrightarrow> pi_client (vw_intent v) = client"
  by (auto simp: payment_list_def intents_for_client_def dest!: in_set_takeD)

lemma intent_transition_to_client: "intent_transition_to ts st i = Inr j \<Longrightarrow> pi_client j = pi_client i"
  by (auto simp: intent_transition_to_def map_sum_Inr split: if_splits)

lemma cancel_client:
  assumes "cancel client n s = (Inr v, t)"
  shows "pi_client (vw_intent v) = client"
proof -
  from assms obtain w u where w: "payment_get client n s = (Inr w, u)" and rest: "(case vw_attempts w of [] \<Rightarrow> raiseE P_OperationConflict
     | as \<Rightarrow>
       (let a = last as in
        thenE (ensure (pa_status a = At_pending \<and> pa_provider_ref a = None) P_OperationConflict)
        (bindE (readE pay_clock) (\<lambda>now.
         bindE (of_sum (attempt_transition_to now At_cancelled a)) (\<lambda>a'.
         bindE (of_sum (intent_transition_to now Pi_cancelled (vw_intent w))) (\<lambda>x.
         thenE (attempt_save a') (thenE (intent_save x)
           (retE (w\<lparr>vw_intent := x, vw_attempts := butlast as @ [a']\<rparr>))))))))) u = (Inr v, t)"
    unfolding cancel_def atomically_Inr bindE_Inr by blast
  from rest have "pi_client (vw_intent v) = pi_client (vw_intent w)"
    by (cases "vw_attempts w") (auto simp: Let_def dest: intent_transition_to_client)
  with payment_get_client [OF w] show ?thesis by simp
qed

text \<open>A refund is shown to the client that asked for it before, or to the one whose payment it refunds.\<close>

definition refund_owner :: "pay_db \<Rightarrow> uuid \<Rightarrow> string \<Rightarrow> bool" where
  "refund_owner s intent client \<longleftrightarrow> (\<exists>f \<in> set (refunds s). rf_intent f = intent \<and> rf_client f = client)
     \<or> (\<exists>i \<in> set (intents s). pi_id i = intent \<and> pi_client i = client)"

lemma refund_begin_owner:
  assumes "refund_begin env c s = (Inr b, t)"
  shows "case b of Refund_replayed f \<Rightarrow> refund_owner s (rf_intent f) (rc_client c) | Refund_started i a f \<Rightarrow> refund_owner s (rf_intent f) (rc_client c)"
proof (cases "refund_by_idempotency s (rc_client c) (rc_key c)")
  case (Some f)
  then have "f \<in> set (refunds s) \<and> rf_client f = rc_client c" by (auto simp: refund_by_idempotency_def dest!: find_Some_prop)
  with assms Some show ?thesis by (auto simp: refund_begin_def refund_owner_def)
next
  case None
  with assms show ?thesis
    by (auto simp: refund_begin_def refund_owner_def Let_def dest!: intent_get_Some intro!: disjI2 bexI)
qed

lemma refund_create_owner:
  assumes "refund_create env c s = (Inr f, t)"
  shows "refund_owner s (rf_intent f) (rc_client c)"
proof -
  from assms obtain b u where b: "refund_begin env c s = (Inr b, u)"
    and rest: "(case b of Refund_replayed f \<Rightarrow> retE f | Refund_started i a f \<Rightarrow> atomically (refund_finish env i a f)) u = (Inr f, t)"
    by (auto simp: refund_create_def)
  show ?thesis
  proof (cases b)
    case (Refund_replayed g)
    with rest refund_begin_owner [OF b] show ?thesis by simp
  next
    case (Refund_started i a g)
    with rest obtain k where "refund_finish env i a g u = (Inr f, k)" by auto
    then have "rf_intent f = rf_intent g" by (elim refund_finish_Inr) (auto dest: refund_transition_to_Inr)
    with refund_begin_owner [OF b] show ?thesis by (simp add: Refund_started)
  qed
qed

lemma payout_by_idempotency_client: "payout_by_idempotency s client key = Some p \<Longrightarrow> pt_client p = client"
  by (auto simp: payout_by_idempotency_def dest!: find_Some_prop)

fun begun_payout_client :: "payout_begun \<Rightarrow> string" where
  "begun_payout_client (Payout_replayed x) = pt_client x"
| "begun_payout_client (Payout_started p x) = pt_client x"

lemma payout_begin_client:
  assumes "payout_begin env simulated c s = (Inr b, t)"
  shows "begun_payout_client b = pd_client c"
proof (cases "payout_by_idempotency s (pd_client c) (pd_key c)")
  case (Some x)
  with assms show ?thesis by (auto simp: payout_begin_def dest!: payout_by_idempotency_client idempotent_payout_Inr)
next
  case None
  with assms show ?thesis
    by (auto simp: payout_begin_def catchE_Inr new_payout_def Let_def dest!: payout_by_idempotency_client idempotent_payout_Inr)
qed

lemma payout_create_client:
  assumes "payout_create env simulated c s = (Inr y, t)"
  shows "pt_client (fst y) = pd_client c"
proof -
  from assms obtain b u where b: "payout_begin env simulated c s = (Inr b, u)"
    and rest: "(case b of Payout_replayed x \<Rightarrow> retE (x, False)
      | Payout_started p x \<Rightarrow> bindE (atomically (payout_finish p x)) (\<lambda>y. retE (y, True))) u = (Inr y, t)"
    by (auto simp: payout_create_def)
  show ?thesis
  proof (cases b)
    case (Payout_replayed x)
    with rest payout_begin_client [OF b] show ?thesis by auto
  next
    case (Payout_started p x)
    with rest payout_begin_client [OF b] show ?thesis
      by (auto simp: payout_finish_def Let_def apply_provider_status_def split: if_splits)
  qed
qed

lemma payout_reads_client:
  "payout_view client i s = (Inr p, t) \<Longrightarrow> pt_client p = client \<and> pt_id p = i \<and> t = s"
  "payout_by_business_reference client ref s = (Inr p, t) \<Longrightarrow> pt_client p = client \<and> t = s"
proof -
  show "payout_view client i s = (Inr p, t) \<Longrightarrow> pt_client p = client \<and> pt_id p = i \<and> t = s"
    by (auto simp: payout_view_def dest: payout_get_Some)
  assume "payout_by_business_reference client ref s = (Inr p, t)"
  then have "payout_by_reference s client ref = Some p" "t = s"
    by (auto simp: payout_by_business_reference_def)
  moreover from this(1) have "p \<in> set (sort_key (\<lambda>p. - pt_created p) (filter (\<lambda>p. pt_client p = client \<and> pt_reference p = ref) (payouts s)))"
    unfolding payout_by_reference_def by (auto split: list.splits simp del: set_sort)
  ultimately show "pt_client p = client \<and> t = s" by auto
qed

subsection \<open>Every answer\<close>

datatype client_route = Cr_create intent_body | Cr_get uuid | Cr_list nat | Cr_cancel uuid | Cr_refund uuid refund_body | Cr_summary uuid
  | Cr_payout payout_body | Cr_payout_get uuid | Cr_payout_summary uuid | Cr_payout_reference string

text \<open>What an answer shows of: payments, payouts, refunds, totals.\<close>

datatype shown = Shown_intents "intent_answer list" | Shown_payout payout_answer | Shown_refund refund_answer | Shown_intent_totals uuid
  | Shown_payout_totals uuid

definition showing :: "('a \<Rightarrow> shown) \<Rightarrow> 'a pay_route \<Rightarrow> shown pay_route" where
  "showing f m = bindE m (\<lambda>x. retE (f x))"

fun client_answer :: "pay_api_env \<Rightarrow> pay_call \<Rightarrow> client_route \<Rightarrow> shown pay_route" where
  "client_answer env c (Cr_create b) = showing (\<lambda>v. Shown_intents [v]) (create_payment_intent env c b)"
| "client_answer env c (Cr_get i) = showing (\<lambda>v. Shown_intents [v]) (get_payment_intent env c i)"
| "client_answer env c (Cr_list n) = showing Shown_intents (list_payment_intents env c n)"
| "client_answer env c (Cr_cancel i) = showing (\<lambda>v. Shown_intents [v]) (cancel_payment_intent env c i)"
| "client_answer env c (Cr_refund i b) = showing Shown_refund (create_refund env c i b)"
| "client_answer env c (Cr_summary i) = showing (\<lambda>_. Shown_intent_totals i) (get_financial_summary env c i)"
| "client_answer env c (Cr_payout b) = showing Shown_payout (create_payout_route env c b)"
| "client_answer env c (Cr_payout_get i) = showing Shown_payout (get_payout env c i)"
| "client_answer env c (Cr_payout_summary i) = showing (\<lambda>_. Shown_payout_totals i) (get_payout_financial_summary env c i)"
| "client_answer env c (Cr_payout_reference ref) = showing Shown_payout (get_payout_by_business_reference env c ref)"

fun route_scope :: "pay_api_env \<Rightarrow> client_route \<Rightarrow> string" where
  "route_scope env (Cr_create _) = ap_intent_write env"
| "route_scope env (Cr_cancel _) = ap_intent_write env"
| "route_scope env (Cr_refund _ _) = ap_refund_write env"
| "route_scope env (Cr_payout _) = ap_payout_write env"
| "route_scope env (Cr_payout_get _) = ap_payout_read env"
| "route_scope env (Cr_payout_summary _) = ap_payout_read env"
| "route_scope env (Cr_payout_reference _) = ap_payout_read env"
| "route_scope env _ = ap_intent_read env"

fun owned :: "pay_db \<Rightarrow> string \<Rightarrow> shown \<Rightarrow> bool" where
  "owned s client (Shown_intents vs) = list_all (\<lambda>v. an_client v = client) vs"
| "owned s client (Shown_payout p) = (on_client p = client)"
| "owned s client (Shown_refund f) = refund_owner s (rn_intent f) client"
| "owned s client (Shown_intent_totals i) = (\<exists>x \<in> set (intents s). pi_id x = i \<and> pi_client x = client)"
| "owned s client (Shown_payout_totals i) = (\<exists>x \<in> set (payouts s). pt_id x = i \<and> pt_client x = client)"

lemma showing_Inr: "showing f m s = (Inr y, t) \<longleftrightarrow> (\<exists>x. m s = (Inr x, t) \<and> y = f x)"
  by (auto simp: showing_def)

lemma response_owner [simp]: "an_client (intent_response v) = pi_client (vw_intent v)" "on_client (payout_response p) = pt_client p"
  "rn_intent (refund_response f) = rf_intent f"
  by (simp_all add: intent_response_def payout_response_def refund_response_def Let_def)

lemma payment_get_stored:
  "payment_get client i s = (Inr v, t) \<Longrightarrow> pi_client (vw_intent v) = client \<and> (\<exists>x \<in> set (intents s). pi_id x = i \<and> pi_client x = client)"
  by (auto simp: payment_get_def dest!: intent_get_Some)

lemma payout_view_stored:
  "payout_view client i s = (Inr p, t) \<Longrightarrow> pt_client p = client \<and> (\<exists>x \<in> set (payouts s). pt_id x = i \<and> pt_client x = client)"
  by (auto simp: payout_view_def dest!: payout_get_Some)

lemmas route_defs = create_payment_intent_def get_payment_intent_def list_payment_intents_def cancel_payment_intent_def create_refund_def
  get_financial_summary_def create_payout_route_def get_payout_def get_payout_financial_summary_def get_payout_by_business_reference_def

lemmas route_owners = payment_create_client cancel_client refund_create_owner payout_create_client payout_reads_client(2)
  payment_list_client payment_get_stored payout_view_stored

text \<open>
  C35: whatever a route of the payment API shows belongs to the client that authenticated for the scope of the
  route: the payments it creates, reads, lists or cancels and the payouts it creates or reads carry that
  client, a refund is the client's own or one of a payment of the client, and totals are those of its rows.
\<close>

theorem answers_stay_with_their_client:
  assumes "client_answer env c r s = (Inr y, t)"
  shows "\<exists>k. caller env (route_scope env r) c = Inr k \<and> owned s (pl_client k) y"
  using assms
  by (cases r) (auto simp: showing_Inr route_defs as_client_Inr http_Inr on_pay_Inr list_all_iff intent_command_def dest!: route_owners)

definition demo_pay_api :: pay_api_env where
  "demo_pay_api = \<lparr>ap_jwt = (\<lambda>_ _. Jwt_error), ap_auth = demo_keys\<lparr>as_service_keys := ''go:key-1, stay:key-2''\<rparr>, ap_intent_read = ''r'', ap_intent_write = ''w'',
     ap_refund_write = ''f'', ap_payout_read = ''pr'', ap_payout_write = ''pw'',
     ap_checkout = \<lparr>co_targets = [], co_fallback = False, co_allowed = []\<rparr>, ap_ip_literal = (\<lambda>_. False), ap_pay = demo_pay_env, ap_simulated = True\<rparr>"

definition call_of :: "string \<Rightarrow> string \<Rightarrow> pay_call" where
  "call_of client secret = \<lparr>yc_authorization = None, yc_client = Some client, yc_service_key = Some secret, yc_key = Some ''k9''\<rparr>"

theorem answers_stay_with_their_client_witness:
  "(\<exists>y t. client_answer demo_pay_api (call_of ''go'' ''key-1'') (Cr_get 1) (wd_db demo_paid) = (Inr y, t) \<and> owned (wd_db demo_paid) ''go'' y)
   \<and> fst (client_answer demo_pay_api (call_of ''stay'' ''key-2'') (Cr_get 1) (wd_db demo_paid)) = Inl (S_http (A_not_found ''PAYMENT_INTENT_NOT_FOUND''))"
proof
  have ok: "case fst (client_answer demo_pay_api (call_of ''go'' ''key-1'') (Cr_get 1) (wd_db demo_paid)) of Inl _ \<Rightarrow> False | Inr _ \<Rightarrow> True"
    by code_simp
  have me: "map_sum (\<lambda>_. ()) pl_client (caller demo_pay_api (route_scope demo_pay_api (Cr_get 1)) (call_of ''go'' ''key-1'')) = Inr ''go''"
    by code_simp
  from ok obtain y t where run: "client_answer demo_pay_api (call_of ''go'' ''key-1'') (Cr_get 1) (wd_db demo_paid) = (Inr y, t)"
    by (cases "client_answer demo_pay_api (call_of ''go'' ''key-1'') (Cr_get 1) (wd_db demo_paid)") (auto split: sum.splits)
  from answers_stay_with_their_client [OF run] me have "owned (wd_db demo_paid) ''go'' y" by (elim exE conjE) simp
  with run show "\<exists>y t. client_answer demo_pay_api (call_of ''go'' ''key-1'') (Cr_get 1) (wd_db demo_paid) = (Inr y, t) \<and> owned (wd_db demo_paid) ''go'' y"
    by blast
  show "fst (client_answer demo_pay_api (call_of ''stay'' ''key-2'') (Cr_get 1) (wd_db demo_paid)) = Inl (S_http (A_not_found ''PAYMENT_INTENT_NOT_FOUND''))"
    by code_simp
qed

end
