(* ===== verification/RouteProps.thy ===== *)
theory RouteProps
  imports PayInternal PayApiProps
begin

section \<open>The routes take the steps of the module\<close>

subsection \<open>What a request may have done when it ends, with an answer or with an exception\<close>

lemma same_world: "pay_steps cf w w"
  by (rule steps_refl)

lemma halves_are_steps:
  assumes run: "bindE (atomically b) k s = (res, t)"
    and begins: "\<And>x u. b s = (Inr x, u) \<Longrightarrow> begin_request (cf_env cf) q s = (Inr (ts x), u)"
    and rest: "\<And>x u r v. k x u = (r, v) \<Longrightarrow> (ts x = [] \<and> v = u) \<or> (\<exists>w. ts x = [w] \<and> (v = u \<or> run_task cf w u = (Inr (), v)))"
  shows "pay_steps cf \<lparr>wd_db = s, wd_tasks = us\<rparr> \<lparr>wd_db = t, wd_tasks = us\<rparr>"
proof (cases "b s")
  case (Pair r u)
  show ?thesis
  proof (cases r)
    case (Inl e)
    with run Pair have "t = s" by (simp add: bindE_def atomically_def)
    then show ?thesis by (simp add: steps_refl)
  next
    case (Inr x)
    from begins [OF Pair [unfolded Inr]] have q: "begin_request (cf_env cf) q s = (Inr (ts x), u)" .
    from run Pair Inr have "k x u = (res, t)" by (simp add: bindE_def atomically_def)
    from rest [OF this] consider "ts x = []" "t = u" | w where "ts x = [w]" "t = u" | w where "ts x = [w]" "run_task cf w u = (Inr (), t)"
      by blast
    then show ?thesis
    proof cases
      case 1
      with request_alone q show ?thesis by simp
    next
      case 2
      with one_step [OF step_request [OF q, of us]] one_step [OF step_lost [of cf u us w "[]"]] show ?thesis
        by (auto intro: pay_steps_trans)
    next
      case 3
      with request_then_task q show ?thesis by simp
    qed
  qed
qed

lemma returned: "retE y u = (r, v) \<longleftrightarrow> r = Inr y \<and> v = u"
  by (auto simp: retE_def)

lemma atomic_half: "atomically m u = (r, v) \<Longrightarrow> v = u \<or> (\<exists>x. m u = (Inr x, v))"
  by (auto simp: atomically_def split: prod.splits sum.splits)

lemma atomic_half_then: "bindE (atomically m) (\<lambda>y. retE (g y)) u = (r, v) \<Longrightarrow> v = u \<or> (\<exists>x. m u = (Inr x, v))"
  by (auto simp: bindE_def retE_def atomically_def split: prod.splits sum.splits)

lemma alone_is_steps:
  assumes "atomically m s = (res, t)" "\<And>x u. m s = (Inr x, u) \<Longrightarrow> begin_request (cf_env cf) q s = (Inr [], u)"
  shows "pay_steps cf \<lparr>wd_db = s, wd_tasks = us\<rparr> \<lparr>wd_db = t, wd_tasks = us\<rparr>"
  using atomic_half [OF assms(1)] assms(2) by (auto intro: steps_refl request_alone)

lemma payment_create_steps:
  assumes "payment_create (cf_env cf) c s = (res, t)"
  shows "pay_steps cf \<lparr>wd_db = s, wd_tasks = us\<rparr> \<lparr>wd_db = t, wd_tasks = us\<rparr>"
proof (rule halves_are_steps [OF assms [unfolded payment_create_def],
      where q = "Req_create c" and ts = "\<lambda>b. case b of Replayed _ \<Rightarrow> [] | Started p i a \<Rightarrow> [Task_create p c i a]"])
  fix x u r v
  assume "(case x of Replayed v \<Rightarrow> retE v | Started p i a \<Rightarrow> atomically (create_finish p c i a)) u = (r, v)"
  then show "((case x of Replayed _ \<Rightarrow> [] | Started p i a \<Rightarrow> [Task_create p c i a]) = [] \<and> v = u)
    \<or> (\<exists>w. (case x of Replayed _ \<Rightarrow> [] | Started p i a \<Rightarrow> [Task_create p c i a]) = [w] \<and> (v = u \<or> run_task cf w u = (Inr (), v)))"
    by (cases x) (auto simp: finished_Inr returned dest!: atomic_half)
qed (simp add: begin_create_def bindE_def retE_def)

lemma refund_create_steps:
  assumes "refund_create (cf_env cf) c s = (res, t)"
  shows "pay_steps cf \<lparr>wd_db = s, wd_tasks = us\<rparr> \<lparr>wd_db = t, wd_tasks = us\<rparr>"
proof (rule halves_are_steps [OF assms [unfolded refund_create_def],
      where q = "Req_refund c" and ts = "\<lambda>b. case b of Refund_replayed _ \<Rightarrow> [] | Refund_started i a f \<Rightarrow> [Task_refund i a f]"])
  fix x u r v
  assume "(case x of Refund_replayed f \<Rightarrow> retE f | Refund_started i a f \<Rightarrow> atomically (refund_finish (cf_env cf) i a f)) u = (r, v)"
  then show "((case x of Refund_replayed _ \<Rightarrow> [] | Refund_started i a f \<Rightarrow> [Task_refund i a f]) = [] \<and> v = u)
    \<or> (\<exists>w. (case x of Refund_replayed _ \<Rightarrow> [] | Refund_started i a f \<Rightarrow> [Task_refund i a f]) = [w] \<and> (v = u \<or> run_task cf w u = (Inr (), v)))"
    by (cases x) (auto simp: finished_Inr returned dest!: atomic_half)
qed (simp add: begin_refund_def bindE_def retE_def)

lemma payout_create_steps:
  assumes "payout_create (cf_env cf) simulated c s = (res, t)"
  shows "pay_steps cf \<lparr>wd_db = s, wd_tasks = us\<rparr> \<lparr>wd_db = t, wd_tasks = us\<rparr>"
proof (rule halves_are_steps [OF assms [unfolded payout_create_def],
      where q = "Req_payout simulated c" and ts = "\<lambda>b. case b of Payout_replayed _ \<Rightarrow> [] | Payout_started p x \<Rightarrow> [Task_payout p x]"])
  fix x u r v
  assume "(case x of Payout_replayed x \<Rightarrow> retE (x, False)
      | Payout_started p x \<Rightarrow> bindE (atomically (payout_finish p x)) (\<lambda>y. retE (y, True))) u = (r, v)"
  then show "((case x of Payout_replayed _ \<Rightarrow> [] | Payout_started p x \<Rightarrow> [Task_payout p x]) = [] \<and> v = u)
    \<or> (\<exists>w. (case x of Payout_replayed _ \<Rightarrow> [] | Payout_started p x \<Rightarrow> [Task_payout p x]) = [w] \<and> (v = u \<or> run_task cf w u = (Inr (), v)))"
    by (cases x) (auto simp: finished_Inr returned dest!: atomic_half_then)
qed (simp add: begin_payout_def bindE_def retE_def)

lemma cancel_steps:
  assumes "cancel client i s = (res, t)"
  shows "pay_steps cf \<lparr>wd_db = s, wd_tasks = us\<rparr> \<lparr>wd_db = t, wd_tasks = us\<rparr>"
proof (cases res)
  case (Inl e)
  with assms have "t = s" unfolding cancel_def by (blast dest: atomically_Inl)
  then show ?thesis by (simp add: steps_refl)
next
  case (Inr v)
  with assms show ?thesis by (intro request_alone [where q = "Req_cancel client i"]) (simp add: no_task_def bindE_def retE_def)
qed

lemma command_steps:
  assumes "atomically (on_pay err (execute_command (cf_env cf) client command actor key action ty i reason payload)) s = (res, t)"
  shows "pay_steps cf \<lparr>wd_db = s, wd_tasks = us\<rparr> \<lparr>wd_db = t, wd_tasks = us\<rparr>"
  using assms
  by (rule alone_is_steps [where q = "Req_command client command actor key action ty i reason payload"])
    (auto simp: on_pay_Inr no_task_def bindE_def retE_def)

lemma webhook_process_steps:
  assumes run: "webhook_process p body headers s = (res, t)" and named: "processor_get (pv_registry (cf_env cf)) who = Inr p"
  shows "pay_steps cf \<lparr>wd_db = s, wd_tasks = us\<rparr> \<lparr>wd_db = t, wd_tasks = us\<rparr> \<and> (t = s \<or> (\<exists>n. parse_webhook p body headers = Answer n))"
proof (cases "\<exists>n. parse_webhook p body headers = Answer n")
  case True
  then obtain n where n: "parse_webhook p body headers = Answer n" by blast
  with run have halves: "bindE (atomically (webhook_receive p n)) (\<lambda>row. case row of None \<Rightarrow> retE Wh_duplicate | Some r \<Rightarrow> atomically (webhook_apply p n r)) s = (res, t)"
    by (simp add: webhook_process_def)
  have "pay_steps cf \<lparr>wd_db = s, wd_tasks = us\<rparr> \<lparr>wd_db = t, wd_tasks = us\<rparr>"
  proof (rule halves_are_steps [OF halves, where q = "Req_webhook who body headers"
        and ts = "\<lambda>row. case row of None \<Rightarrow> [] | Some e \<Rightarrow> [Task_webhook p n e]"])
    fix row u r v
    assume "(case row of None \<Rightarrow> retE Wh_duplicate | Some e \<Rightarrow> atomically (webhook_apply p n e)) u = (r, v)"
    then show "((case row of None \<Rightarrow> [] | Some e \<Rightarrow> [Task_webhook p n e]) = [] \<and> v = u)
      \<or> (\<exists>w. (case row of None \<Rightarrow> [] | Some e \<Rightarrow> [Task_webhook p n e]) = [w] \<and> (v = u \<or> run_task cf w u = (Inr (), v)))"
      by (cases row) (auto simp: finished_Inr returned dest!: atomic_half)
  qed (simp add: begin_webhook_def named n bindE_def of_sum_def retE_def)
  with n show ?thesis by blast
next
  case False
  then have "t = s" using run by (cases "parse_webhook p body headers") (auto simp: webhook_process_def raiseE_def)
  then show ?thesis by (simp add: steps_refl)
qed

text \<open>With a Paystack key the processor that checks webhooks is the one the registry knows.\<close>

lemma find_register: "\<lbrakk>register q k R = Inr R'; find P R = Some x\<rbrakk> \<Longrightarrow> find P R' = Some x"
  by (auto simp: register_def find_snoc split: if_splits)

lemma find_register_if: "\<lbrakk>register_if b made k R = Inr R'; find P R = Some x\<rbrakk> \<Longrightarrow> find P R' = Some x"
  by (auto simp: register_if_def split: if_splits sum.splits dest: find_register)

lemma paystack_registered:
  assumes R: "processor_registry W st = Inr R" and key: "st_paystack_key st \<noteq> []" and p: "paystack_webhook_processor W st = Inr p"
  shows "processor_get R ''paystack'' = Inr p"
proof -
  have made: "map_sum id (paystack_processor (ou_client W ''paystack'') (ou_hmac W) (ou_loads W))
      (mk_paystack (st_paystack_key st) (Some (st_paystack_webhook st))) = Inr p"
    using p key by (auto simp: paystack_webhook_processor_def mk_paystack_def truthy_def Let_def split: if_splits)
  then have named: "pc_name p = ''paystack''" by (auto simp: map_sum_Inr paystack_processor_def)
  from R obtain R1 R2 R3 R4 where R1: "register sandbox_processor 100 [] = Inr R1"
      and R2: "register_if True (map_sum id (paystack_processor (ou_client W ''paystack'') (ou_hmac W) (ou_loads W))
                      (mk_paystack (st_paystack_key st) (Some (st_paystack_webhook st)))) 100 R1 = Inr R2"
      and R3: "register_if (st_pawapay_token st \<noteq> [])
                 (map_sum id (pawapay_processor (ou_client W ''pawapay'')) (mk_pawapay (st_pawapay_token st))) 50 R2 = Inr R3"
      and R4: "register_if (st_cinetpay_key st \<noteq> [] \<and> st_cinetpay_password st \<noteq> [])
                 (map_sum id (\<lambda>c. cinetpay_processor (ou_client W ''cinetpay'') c (ou_token W))
                    (mk_cinetpay (st_cinetpay_key st) (st_cinetpay_password st))) 110 R3 = Inr R4"
      and R5: "register_if (st_jeko_key st \<noteq> [] \<and> st_jeko_key_id st \<noteq> [] \<and> st_jeko_store st \<noteq> [])
       (map_sum id (jeko_processor (ou_client W ''jeko'')) (mk_jeko (st_jeko_key st) (st_jeko_key_id st) (st_jeko_store st))) 120 R4 = Inr R"
    unfolding processor_registry_def and_then_Inr if_P [OF key] by (elim exE conjE) (rule that)
  from R1 have "R1 = [(100, sandbox_processor)]" by (simp add: register_def)
  with R2 made named have "find (\<lambda>(_, q). pc_name q = ''paystack'') R2 = Some (100, p)"
    by (auto simp: register_if_def register_def sandbox_processor_def)
  from find_register_if [OF R5 find_register_if [OF R4 find_register_if [OF R3 this]]]
  show ?thesis by (simp add: processor_get_def)
qed

subsection \<open>The routes\<close>

lemma on_pay_state: "on_pay err m s = (r, t) \<Longrightarrow> \<exists>r'. m s = (r', t)"
  by (auto simp: on_pay_def on_part_def split: prod.splits sum.splits)

lemma then_return_state: "bindE m (\<lambda>x. retE (f x)) s = (r, t) \<Longrightarrow> \<exists>r'. m s = (r', t)"
  by (auto simp: bindE_def retE_def split: prod.splits sum.splits)

lemma http_state: "bindE (http x) f s = (r, t) \<Longrightarrow> t = s \<or> (\<exists>y. x = Inr y \<and> f y s = (r, t))"
  by (cases x) (auto simp: http_def bindE_def of_sum_def raiseE_def retE_def)

lemma as_client_state:
  "as_client env scope c valid handler s = (r, t) \<Longrightarrow> t = s \<or> (\<exists>k. caller env scope c = Inr k \<and> handler (pl_client k) s = (r, t))"
  unfolding as_client_def by (drule http_state) (auto simp: thenE_def bindE_def ensure_def raiseE_def retE_def split: if_splits)

lemma as_principal_state:
  "as_principal check env c valid handler s = (r, t) \<Longrightarrow>
     t = s \<or> (\<exists>p. check (ap_jwt env) (ap_auth env) (xc_authorization c) (xc_client c) = Inr p \<and> handler (sp_client p) s = (r, t))"
  unfolding as_principal_def by (drule http_state) (auto simp: thenE_def bindE_def ensure_def raiseE_def retE_def split: if_splits)

datatype writing_route = Wr_create pay_call intent_body | Wr_cancel pay_call uuid | Wr_refund pay_call uuid refund_body
  | Wr_payout pay_call payout_body | Wr_retry internal_call uuid uuid command_body | Wr_settle internal_call uuid settlement_body
  | Wr_paystack outside processor_settings string "(string \<times> string) list"

definition api_end :: "'a pay_route \<Rightarrow> unit pay_route" where
  "api_end m = bindE m (\<lambda>_. retE ())"

fun run_writing :: "pay_api_env \<Rightarrow> writing_route \<Rightarrow> unit pay_route" where
  "run_writing env (Wr_create c b) = api_end (create_payment_intent env c b)"
| "run_writing env (Wr_cancel c i) = api_end (cancel_payment_intent env c i)"
| "run_writing env (Wr_refund c i b) = api_end (create_refund env c i b)"
| "run_writing env (Wr_payout c b) = api_end (create_payout_route env c b)"
| "run_writing env (Wr_retry c i e b) = api_end (retry_payment_callback env c i e b)"
| "run_writing env (Wr_settle c i b) = api_end (settlement_route env c i b)"
| "run_writing env (Wr_paystack W st body headers) = api_end (paystack_webhook_route W st body headers)"

definition commander :: "pay_api_env \<Rightarrow> internal_call \<Rightarrow> aexc + service_principal" where
  "commander env c = require_backoffice_commander (ap_jwt env) (ap_auth env) (xc_authorization c) (xc_client c)"

text \<open>
  The client that a route has authenticated for its scope. For the webhook it is the provider, when the
  adapter takes the body, which its signature decides.
\<close>

fun writer :: "pay_api_env \<Rightarrow> writing_route \<Rightarrow> aexc + string" where
  "writer env (Wr_create c b) = map_sum id pl_client (caller env (ap_intent_write env) c)"
| "writer env (Wr_cancel c i) = map_sum id pl_client (caller env (ap_intent_write env) c)"
| "writer env (Wr_refund c i b) = map_sum id pl_client (caller env (ap_refund_write env) c)"
| "writer env (Wr_payout c b) = map_sum id pl_client (caller env (ap_payout_write env) c)"
| "writer env (Wr_retry c i e b) = map_sum id sp_client (commander env c)"
| "writer env (Wr_settle c i b) = map_sum id sp_client (commander env c)"
| "writer env (Wr_paystack W st body headers) = (case webhook_processor W st of Inl _ \<Rightarrow> Inl A_unauthenticated
     | Inr p \<Rightarrow> (case parse_webhook p body headers of Answer _ \<Rightarrow> Inr (pc_name p) | _ \<Rightarrow> Inl A_unauthenticated))"

text \<open>The webhook's settings are those the registry is made of, with a Paystack key.\<close>

fun wired :: "pay_api_env \<Rightarrow> writing_route \<Rightarrow> bool" where
  "wired env (Wr_paystack W st body headers) \<longleftrightarrow> processor_registry W st = Inr (pv_registry (ap_pay env)) \<and> st_paystack_key st \<noteq> []"
| "wired env _ \<longleftrightarrow> True"

lemma command_route_steps:
  assumes "command_route env c valid b action i payload s = (r, t)" "t \<noteq> s" "cf_env cf = ap_pay env"
  shows "(\<exists>p. commander env c = Inr p) \<and> pay_steps cf \<lparr>wd_db = s, wd_tasks = us\<rparr> \<lparr>wd_db = t, wd_tasks = us\<rparr>"
proof -
  from as_principal_state [OF assms(1) [unfolded command_route_def]] assms(2) obtain p where p: "commander env c = Inr p"
    and h: "bindE (http (validate_command_headers b c)) (\<lambda>(actor, command, key).
       bindE (atomically (on_pay S_pay (execute_command (ap_pay env) (sp_client p) command actor key action ''payment_intent'' i (bb_reason b) payload)))
         (\<lambda>x. retE (command_response x))) s = (r, t)"
    unfolding commander_def by blast
  from http_state [OF h] assms(2) obtain actor command key where
    "bindE (atomically (on_pay S_pay (execute_command (ap_pay env) (sp_client p) command actor key action ''payment_intent'' i (bb_reason b) payload)))
         (\<lambda>x. retE (command_response x)) s = (r, t)" by auto
  from then_return_state [OF this] obtain r' where
    "atomically (on_pay S_pay (execute_command (cf_env cf) (sp_client p) command actor key action ''payment_intent'' i (bb_reason b) payload)) s = (r', t)"
    by (auto simp: assms(3))
  from command_steps [OF this] p show ?thesis by blast
qed

lemma client_write_steps:
  assumes run: "as_client env scope c valid (\<lambda>client. handler client) s = (r, t)" and moved: "t \<noteq> s"
    and steps: "\<And>client r' t'. handler client s = (r', t') \<Longrightarrow> t' \<noteq> s \<Longrightarrow> pay_steps cf \<lparr>wd_db = s, wd_tasks = us\<rparr> \<lparr>wd_db = t', wd_tasks = us\<rparr>"
  shows "(\<exists>k. caller env scope c = Inr k) \<and> pay_steps cf \<lparr>wd_db = s, wd_tasks = us\<rparr> \<lparr>wd_db = t, wd_tasks = us\<rparr>"
  using as_client_state [OF run] moved steps by blast

lemma writing_route_steps:
  assumes run: "run_writing env q s = (r, t)" and moved: "t \<noteq> s" and cf: "cf_env cf = ap_pay env" and wired: "wired env q"
  shows "(\<exists>client. writer env q = Inr client) \<and> pay_steps cf \<lparr>wd_db = s, wd_tasks = us\<rparr> \<lparr>wd_db = t, wd_tasks = us\<rparr>"
proof (cases q)
  case (Wr_create c b)
  from run Wr_create obtain r' where "create_payment_intent env c b s = (r', t)" by (auto simp: api_end_def dest: then_return_state)
  then have "(\<exists>k. caller env (ap_intent_write env) c = Inr k) \<and> pay_steps cf \<lparr>wd_db = s, wd_tasks = us\<rparr> \<lparr>wd_db = t, wd_tasks = us\<rparr>"
    unfolding create_payment_intent_def
    by (rule client_write_steps [OF _ moved])
      (auto dest!: http_state then_return_state on_pay_state simp: cf [symmetric] intro: payment_create_steps)
  then show ?thesis by (auto simp: Wr_create)
next
  case (Wr_cancel c i)
  from run Wr_cancel obtain r' where "cancel_payment_intent env c i s = (r', t)" by (auto simp: api_end_def dest: then_return_state)
  then have "(\<exists>k. caller env (ap_intent_write env) c = Inr k) \<and> pay_steps cf \<lparr>wd_db = s, wd_tasks = us\<rparr> \<lparr>wd_db = t, wd_tasks = us\<rparr>"
    unfolding cancel_payment_intent_def
    by (rule client_write_steps [OF _ moved]) (auto dest!: then_return_state on_pay_state intro: cancel_steps)
  then show ?thesis by (auto simp: Wr_cancel)
next
  case (Wr_refund c i b)
  from run Wr_refund obtain r' where "create_refund env c i b s = (r', t)" by (auto simp: api_end_def dest: then_return_state)
  then have "(\<exists>k. caller env (ap_refund_write env) c = Inr k) \<and> pay_steps cf \<lparr>wd_db = s, wd_tasks = us\<rparr> \<lparr>wd_db = t, wd_tasks = us\<rparr>"
    unfolding create_refund_def
    by (rule client_write_steps [OF _ moved])
      (auto dest!: http_state then_return_state on_pay_state simp: cf [symmetric] intro: refund_create_steps)
  then show ?thesis by (auto simp: Wr_refund)
next
  case (Wr_payout c b)
  from run Wr_payout obtain r' where "create_payout_route env c b s = (r', t)" by (auto simp: api_end_def dest: then_return_state)
  then have "(\<exists>k. caller env (ap_payout_write env) c = Inr k) \<and> pay_steps cf \<lparr>wd_db = s, wd_tasks = us\<rparr> \<lparr>wd_db = t, wd_tasks = us\<rparr>"
    unfolding create_payout_route_def
    by (rule client_write_steps [OF _ moved])
      (auto dest!: http_state then_return_state on_pay_state simp: cf [symmetric] intro: payout_create_steps)
  then show ?thesis by (auto simp: Wr_payout)
next
  case (Wr_retry c i e b)
  from run Wr_retry obtain r' where "retry_payment_callback env c i e b s = (r', t)" by (auto simp: api_end_def dest: then_return_state)
  from command_route_steps [OF this [unfolded retry_payment_callback_def] moved cf, of us] show ?thesis by (auto simp: Wr_retry)
next
  case (Wr_settle c i b)
  from run Wr_settle obtain r' where "settlement_route env c i b s = (r', t)" by (auto simp: api_end_def dest: then_return_state)
  from command_route_steps [OF this [unfolded settlement_route_def] moved cf, of us] show ?thesis by (auto simp: Wr_settle)
next
  case (Wr_paystack W st body headers)
  from run Wr_paystack obtain r' where "paystack_webhook_route W st body headers s = (r', t)" by (auto simp: api_end_def dest: then_return_state)
  with moved obtain p where p: "webhook_processor W st = Inr p" and on: "on_pay webhook_error (webhook_process p body headers) s = (r', t)"
    by (cases "webhook_processor W st") (auto simp: paystack_webhook_route_def bindE_def of_sum_def raiseE_def retE_def)
  from on_pay_state [OF on] obtain res where process: "webhook_process p body headers s = (res, t)" by blast
  from p have "paystack_webhook_processor W st = Inr p" by (auto simp: webhook_processor_def split: sum.splits)
  with wired have "processor_get (pv_registry (cf_env cf)) ''paystack'' = Inr p" by (auto simp: Wr_paystack cf intro: paystack_registered)
  from webhook_process_steps [OF process this, of us] moved p show ?thesis by (auto simp: Wr_paystack)
qed

text \<open>
  C32: whatever one of the six writing routes of the clients and the back office (create, cancel, refund,
  payout, callback retry, settlement) or the Paystack webhook has done when it ends, with an answer or with an
  exception, is a sequence of steps of the payment module, so that all invariants of the module hold for what
  the API does. It has done nothing unless the caller proved a client with the scope of the route or, for the
  webhook, the adapter took the body; the webhook's settings are those of the registry, with a Paystack key.
  Refunds asked for by support are outside this claim.
\<close>

theorem payment_routes_take_module_steps:
  assumes "run_writing env q s = (r, t)" "cf_env cf = ap_pay env" "wired env q"
  shows "pay_steps cf \<lparr>wd_db = s, wd_tasks = us\<rparr> \<lparr>wd_db = t, wd_tasks = us\<rparr> \<and> (t = s \<or> (\<exists>client. writer env q = Inr client))"
  using writing_route_steps [OF assms(1) _ assms(2,3)] by (cases "t = s") (auto intro: same_world)

definition demo_intent_body :: intent_body where
  "demo_intent_body = \<lparr>ib_reference = ''b9'', ib_amount = 700, ib_currency = ''XOF'', ib_payer = None, ib_payee = None, ib_channel = None,
     ib_network = None, ib_email = None, ib_phone = None, ib_target = None, ib_callback = None, ib_description = None, ib_metadata = []\<rparr>"

text \<open>A process with a Paystack key, and a notice about a charge it does not know.\<close>

definition hook_outside :: outside where
  "hook_outside = \<lparr>ou_client = (\<lambda>_. \<lparr>hx_post = (\<lambda>_. Reply 200 None), hx_get = (\<lambda>_ _. Reply 200 None)\<rparr>), ou_hmac = (\<lambda>_ _. ''s''),
     ou_loads = (\<lambda>_. Some (V_dict [(''event'', V_str ''charge.success''), (''data'', V_dict [(''reference'', V_str ''dpi_9''),
        (''amount'', V_int 500000), (''currency'', V_str ''XOF'')])])), ou_token = None\<rparr>"

definition hook_settings :: processor_settings where
  "hook_settings = \<lparr>st_paystack_key = ''k'', st_paystack_webhook = [], st_processor_mode = ''paystack'', st_pawapay_token = [],
     st_cinetpay_key = [], st_cinetpay_password = [], st_jeko_key = [], st_jeko_key_id = [], st_jeko_store = []\<rparr>"

definition hook_api :: pay_api_env where
  "hook_api = demo_pay_api\<lparr>ap_pay := demo_pay_env\<lparr>pv_registry := [(100, sandbox_processor),
     (100, paystack_processor (ou_client hook_outside ''paystack'') (ou_hmac hook_outside) (ou_loads hook_outside)
        \<lparr>ps_secret_key = ''k'', ps_webhook_secret = ''k''\<rparr>)]\<rparr>\<rparr>"

definition hook_route :: writing_route where
  "hook_route = Wr_paystack hook_outside hook_settings ''b'' [(''X-Paystack-Signature'', ''s'')]"

lemma hook_wired: "wired hook_api hook_route"
  by (simp add: hook_route_def hook_api_def hook_settings_def processor_registry_def and_then_def register_def register_if_def mk_paystack_def
      truthy_def sandbox_processor_def paystack_processor_def)

theorem payment_routes_take_module_steps_witness:
  "\<exists>r t u v. run_writing demo_pay_api (Wr_create (call_of ''go'' ''key-1'') demo_intent_body) (wd_db demo_paid) = (r, t)
     \<and> length (intents t) = 2 \<and> pay_steps demo_config \<lparr>wd_db = wd_db demo_paid, wd_tasks = []\<rparr> \<lparr>wd_db = t, wd_tasks = []\<rparr>
     \<and> run_writing hook_api hook_route empty_payments = (u, v) \<and> length (provider_events v) = 1
     \<and> pay_steps (demo_config\<lparr>cf_env := ap_pay hook_api\<rparr>) \<lparr>wd_db = empty_payments, wd_tasks = []\<rparr> \<lparr>wd_db = v, wd_tasks = []\<rparr>"
proof -
  let ?run = "run_writing demo_pay_api (Wr_create (call_of ''go'' ''key-1'') demo_intent_body) (wd_db demo_paid)"
  let ?hook = "run_writing hook_api hook_route empty_payments"
  obtain r t where run: "?run = (r, t)" by (cases ?run)
  obtain u v where hook: "?hook = (u, v)" by (cases ?hook)
  have "length (intents (snd ?run)) = 2" by code_simp
  with run have two: "length (intents t) = 2" by simp
  have "length (provider_events (snd ?hook)) = 1" by code_simp
  with hook have one: "length (provider_events v) = 1" by simp
  have "cf_env demo_config = ap_pay demo_pay_api" by (simp add: demo_config_def demo_pay_api_def)
  moreover have "wired demo_pay_api (Wr_create (call_of ''go'' ''key-1'') demo_intent_body)" by simp
  ultimately have "pay_steps demo_config \<lparr>wd_db = wd_db demo_paid, wd_tasks = []\<rparr> \<lparr>wd_db = t, wd_tasks = []\<rparr>"
    using payment_routes_take_module_steps [OF run] by blast
  moreover have "cf_env (demo_config\<lparr>cf_env := ap_pay hook_api\<rparr>) = ap_pay hook_api" by simp
  then have "pay_steps (demo_config\<lparr>cf_env := ap_pay hook_api\<rparr>) \<lparr>wd_db = empty_payments, wd_tasks = []\<rparr> \<lparr>wd_db = v, wd_tasks = []\<rparr>"
    using payment_routes_take_module_steps [OF hook _ hook_wired] by blast
  ultimately show ?thesis using run two hook one by blast
qed

subsection \<open>A settlement reference that is used again\<close>

lemma write_journal_again: "journal_get s ty ref = Some j \<Longrightarrow> write_journal i p ty ref a cur d c s = (Inr j, s)"
  by (simp add: write_journal_def bindE_def readE_def retE_def)

lemma command_route_Inr:
  assumes "command_route env c valid b action i payload s = (Inr a, t)"
  shows "\<exists>(p :: service_principal) r. execute_command (ap_pay env) (sp_client p) (the (xc_command c)) (the (xc_actor c)) (the (xc_key c)) action ''payment_intent'' i
      (bb_reason b) payload s = (Inr r, t) \<and> a = command_response r \<and> truthy (xc_command c) \<and> truthy (xc_key c)"
proof -
  from assms obtain p :: service_principal and x where p: "validate_command_headers b c = Inr x"
    and run: "(case x of (actor, command, key) \<Rightarrow> bindE (atomically (on_pay S_pay (execute_command (ap_pay env) (sp_client p) command actor key
       action ''payment_intent'' i (bb_reason b) payload))) (\<lambda>r. retE (command_response r))) s = (Inr a, t)"
    unfolding command_route_def as_principal_def
    by (simp only: bindE_Inr thenE_Inr http_Inr ensure_Inr) (elim exE conjE, hypsubst, rule that, assumption+)
  from p have x: "x = (the (xc_actor c), the (xc_command c), the (xc_key c))" and h: "truthy (xc_command c)" "truthy (xc_key c)"
    by (auto simp: validate_command_headers_def split: if_splits)
  from run [unfolded x prod.case bindE_Inr atomically_Inr on_pay_Inr retE_Inr] h show ?thesis by blast
qed

lemma settle_again:
  assumes "journal_get s ''settlement'' ref = Some j" "record_settlement_command i a ref s = (Inr res, t)"
  shows "t = s \<and> (\<exists>currency p. res = Settlement_result i a currency p ref)"
  using assms
  by (auto simp: record_settlement_command_def catchE_Inr record_settlement_def journal_post_def write_journal_again)

lemma command_complete_Inr:
  assumes "command_complete b result s = (Inr r, t)"
  shows "bc_status r = Cmd_completed \<and> bc_result r = result \<and> journals t = journals s \<and> fin_entries t = fin_entries s"
proof -
  from assms have t: "t = s\<lparr>commands := update_row bc_id (bc_id b) (\<lambda>r. r\<lparr>bc_status := Cmd_completed, bc_result := result\<rparr>) (commands s)\<rparr>"
    and r: "r \<in> set (commands t)" "bc_id r = bc_id b"
    by (auto simp: command_complete_def dest!: lookup_row_SomeD)
  from r t show ?thesis by (auto simp: set_update_row split: if_splits)
qed

text \<open>
  C39: once a settlement reference is booked, for whatever payment and amount, a new back office command that
  settles another payment under it books nothing, and yet completes and answers with that payment and its amount.
\<close>

theorem reused_settlement_books_nothing:
  assumes run: "settlement_route env c i b s = (Inr a, t)"
    and used: "journal_get s ''settlement'' (sb_reference b) = Some j"
    and new: "\<forall>r \<in> set (commands s). Some (bc_command r) \<noteq> xc_command c \<and> Some (bc_key r) \<noteq> xc_key c"
  shows "journals t = journals s \<and> fin_entries t = fin_entries s \<and> kn_status a = Cmd_completed
     \<and> (\<exists>currency p. kn_result a = Settlement_result i (sb_amount b) currency p (sb_reference b))"
proof -
  let ?fp = "\<lambda>reason. command_fingerprint (ap_pay env) ''payment.settlement.record'' ''payment_intent'' i reason
    (Settlement_payload (sb_amount b) (sb_reference b))"
  from command_route_Inr [OF run [unfolded settlement_route_def]] obtain p :: service_principal and r where p: "execute_command (ap_pay env) (sp_client p)
      (the (xc_command c)) (the (xc_actor c)) (the (xc_key c)) ''payment.settlement.record'' ''payment_intent'' i
      (bb_reason (sb_command b)) (Settlement_payload (sb_amount b) (sb_reference b)) s = (Inr r, t)"
    and a: "a = command_response r" and h: "truthy (xc_command c)" "truthy (xc_key c)"
    by (elim exE conjE) (rule that)
  from h new have "command_replay s (sp_client p) (the (xc_command c)) (the (xc_key c)) = None"
    by (auto simp: command_replay_def find_None_iff truthy_def split: option.splits)
  with p obtain q u v res where q: "command_create (sp_client p) (the (xc_command c)) (the (xc_actor c)) (the (xc_key c))
      ''payment.settlement.record'' ''payment_intent'' i (bb_reason (sb_command b)) (?fp (bb_reason (sb_command b))) s = (Inr q, u)"
    and res: "record_settlement_command i (sb_amount b) (sb_reference b) u = (Inr res, v)" and fin: "command_complete q res v = (Inr r, t)"
    unfolding execute_command_def by auto
  from q have u: "journals u = journals s" "fin_entries u = fin_entries s" by (auto simp: command_create_def Let_def)
  with used have "journal_get u ''settlement'' (sb_reference b) = Some j" by (simp add: journal_get_def)
  from settle_again [OF this res] command_complete_Inr [OF fin] u show ?thesis by (auto simp: a command_response_def)
qed

text \<open>The paid payment of the demonstration with a settlement of 1000 booked, and a second payment without any.\<close>

definition office_call :: internal_call where
  "office_call = \<lparr>xc_authorization = Some ''Bearer t'', xc_client = Some ''office'', xc_actor = Some ''op'', xc_command = Some ''cmd-2'',
     xc_key = Some ''key-0002''\<rparr>"

definition office_api :: pay_api_env where
  "office_api = demo_pay_api\<lparr>ap_jwt := (\<lambda>_ _. Jwt_claims [(''client_id'', V_str ''office''), (''sub'', V_str ''service:office''),
       (''token_type'', V_str ''service''), (''role'', V_str ''service''), (''status'', V_str ''active''), (''scope'', V_str ''c'')]),
     ap_auth := demo_auth\<lparr>as_backoffice_client_ids := ''office''\<rparr>\<rparr>"

definition demo_settled :: pay_db where
  "demo_settled = wd_db (play demo_config [Go (Req_command ''office'' ''cmd-1'' ''op'' ''key-0001'' ''payment.settlement.record'' ''payment_intent'' 1
     ''paid in'' (Settlement_payload 1000 ''BANK-1''))] demo_paid)"

definition demo_settlement :: settlement_body where
  "demo_settlement = \<lparr>sb_command = \<lparr>bb_version = ''backoffice.v1'', bb_reason = ''paid in'', bb_key = ''key-0002''\<rparr>, sb_amount = 3000,
     sb_reference = ''BANK-1''\<rparr>"

theorem reused_settlement_books_nothing_witness:
  "\<exists>a t. settlement_route office_api office_call 1 demo_settlement demo_settled = (Inr a, t) \<and> journals t = journals demo_settled
     \<and> kn_status a = Cmd_completed \<and> fs_settled (journal_summary demo_settled 1) = 1000"
proof -
  let ?run = "settlement_route office_api office_call 1 demo_settlement demo_settled"
  have "case fst ?run of Inl _ \<Rightarrow> False | Inr _ \<Rightarrow> True" by code_simp
  then obtain a t where run: "?run = (Inr a, t)" by (cases ?run) (auto split: sum.splits)
  have "journal_get demo_settled ''settlement'' (sb_reference demo_settlement) \<noteq> None" by code_simp
  then obtain j where j: "journal_get demo_settled ''settlement'' (sb_reference demo_settlement) = Some j" by blast
  have new: "\<forall>r \<in> set (commands demo_settled). Some (bc_command r) \<noteq> xc_command office_call \<and> Some (bc_key r) \<noteq> xc_key office_call" by code_simp
  have "fs_settled (journal_summary demo_settled 1) = 1000" by code_simp
  with reused_settlement_books_nothing [OF run j new] run show ?thesis by blast
qed

end
