(* ===== verification/OpsProps.thy ===== *)
theory OpsProps
  imports Ops RouteProps WalletDemo
begin

section \<open>What the payment worker does\<close>

subsection \<open>The worker takes the steps of the module\<close>

text \<open>Two operations that do the same and may answer something else, as the counters of a sweep.\<close>

definition alike :: "('s, 'e, 'a) op \<Rightarrow> ('s, 'e, 'a) op \<Rightarrow> bool" where
  "alike m m' \<longleftrightarrow> (\<forall>s x t. m s = (Inr x, t) \<longrightarrow> (\<exists>y. m' s = (Inr y, t)))"

lemma alike_rules:
  "alike (retE x) (retE y)" "alike (raiseE e) m" "(\<And>x. alike (f x) (g x)) \<Longrightarrow> alike (bindE m f) (bindE m g)"
  "alike k k' \<Longrightarrow> alike (thenE m k) (thenE m k')"
  by (auto simp: alike_def)

lemma alikeD: "alike m m' \<Longrightarrow> m s = (Inr x, t) \<Longrightarrow> \<exists>y. m' s = (Inr y, t)"
  by (simp add: alike_def)

lemma sweep_counter_irrelevant: "alike (reconcile_attempt env a sw) (reconcile_attempt env a no_sweep)"
  unfolding reconcile_attempt_def
  by (intro alike_rules | auto intro!: alike_rules split: sum.split psp.split option.split prod.split)+

lemma payout_counter_irrelevant: "alike (reconcile_payout env a sw) (reconcile_payout env a no_payout_sweep)"
  unfolding reconcile_payout_def
  by (intro alike_rules | auto intro!: alike_rules split: sum.split psp.split option.split prod.split)+

lemma delivery_counter_irrelevant: "alike (deliver_row send targets r sm) (deliver_row send targets r no_deliveries)"
  unfolding deliver_row_def
  by (intro alike_rules | auto intro!: alike_rules split: option.split)+

text \<open>A list of halves run one after the other, until one raises; those that are left are lost.\<close>

lemma tasks_lost: "pay_steps cf \<lparr>wd_db = s, wd_tasks = us @ ts\<rparr> \<lparr>wd_db = s, wd_tasks = us\<rparr>"
proof (induction ts)
  case (Cons u ts)
  have "pay_step cf \<lparr>wd_db = s, wd_tasks = us @ u # ts\<rparr> \<lparr>wd_db = s, wd_tasks = us @ ts\<rparr>" by (rule step_lost)
  with Cons.IH show ?case by (blast intro: one_step pay_steps_trans)
qed (simp add: steps_refl)

lemma task_then:
  assumes "run_task cf u s = (Inr (), v)" "pay_steps cf \<lparr>wd_db = v, wd_tasks = us @ ts\<rparr> \<lparr>wd_db = t, wd_tasks = us\<rparr>"
  shows "pay_steps cf \<lparr>wd_db = s, wd_tasks = us @ u # ts\<rparr> \<lparr>wd_db = t, wd_tasks = us\<rparr>"
  using one_step [OF step_task [OF assms(1), of us ts]] assms(2) by (rule pay_steps_trans)

lemma bind_atomic_cases:
  assumes "bindE (atomically m) f s = (r, t)"
  obtains "t = s" | x v where "m s = (Inr x, v)" "f x v = (r, t)"
  using assms by (auto simp: bindE_def atomically_def split: prod.splits sum.splits)

lemma reconcile_all_steps:
  assumes "reconcile_all (cf_env cf) as sw s = (r, t)"
  shows "pay_steps cf \<lparr>wd_db = s, wd_tasks = us @ map Task_verify as\<rparr> \<lparr>wd_db = t, wd_tasks = us\<rparr>"
  using assms
proof (induction as arbitrary: sw s)
  case (Cons a as)
  from Cons.prems [unfolded reconcile_all.simps] show ?case
  proof (cases rule: bind_atomic_cases)
    case 1
    with tasks_lost [of cf s us "map Task_verify (a # as)"] show ?thesis by simp
  next
    case (2 x v)
    from alikeD [OF sweep_counter_irrelevant 2(1)] have "run_task cf (Task_verify a) s = (Inr (), v)" by (auto simp: finished_Inr)
    from task_then [OF this Cons.IH [OF 2(2)]] show ?thesis by simp
  qed
qed (simp add: returned steps_refl)

lemma reconcile_all_payouts_steps:
  assumes "reconcile_all_payouts (cf_env cf) xs sw s = (r, t)"
  shows "pay_steps cf \<lparr>wd_db = s, wd_tasks = us @ map Task_verify_payout xs\<rparr> \<lparr>wd_db = t, wd_tasks = us\<rparr>"
  using assms
proof (induction xs arbitrary: sw s)
  case (Cons a xs)
  from Cons.prems [unfolded reconcile_all_payouts.simps] show ?case
  proof (cases rule: bind_atomic_cases)
    case 1
    with tasks_lost [of cf s us "map Task_verify_payout (a # xs)"] show ?thesis by simp
  next
    case (2 x v)
    from alikeD [OF payout_counter_irrelevant 2(1)] have "run_task cf (Task_verify_payout a) s = (Inr (), v)" by (auto simp: finished_Inr)
    from task_then [OF this Cons.IH [OF 2(2)]] show ?thesis by simp
  qed
qed (simp add: returned steps_refl)

lemma deliver_rows_steps:
  assumes "deliver_rows (cf_send cf) (cf_targets cf) rs sm s = (r, t)"
  shows "pay_steps cf \<lparr>wd_db = s, wd_tasks = us @ map Task_deliver rs\<rparr> \<lparr>wd_db = t, wd_tasks = us\<rparr>"
  using assms
proof (induction rs arbitrary: sm s)
  case (Cons a rs)
  from Cons.prems [unfolded deliver_rows.simps] show ?case
  proof (cases rule: bind_atomic_cases)
    case 1
    with tasks_lost [of cf s us "map Task_deliver (a # rs)"] show ?thesis by simp
  next
    case (2 x v)
    from alikeD [OF delivery_counter_irrelevant 2(1)] have "run_task cf (Task_deliver a) s = (Inr (), v)" by (auto simp: finished_Inr)
    from task_then [OF this Cons.IH [OF 2(2)]] show ?thesis by simp
  qed
qed (simp add: returned steps_refl)

lemma reconcile_payments_steps:
  assumes "reconcile_payments (cf_env cf) age n s = (r, t)"
  shows "pay_steps cf \<lparr>wd_db = s, wd_tasks = us\<rparr> \<lparr>wd_db = t, wd_tasks = us\<rparr>"
proof -
  let ?as = "attempts_to_reconcile s (pay_clock s - age) n"
  from assms obtain sw r' where "reconcile_all (cf_env cf) ?as sw s = (r', t)"
    by (auto simp: reconcile_payments_def bindE_def readE_def retE_def split: prod.splits sum.splits)
  from reconcile_all_steps [OF this] have "pay_steps cf \<lparr>wd_db = s, wd_tasks = us @ map Task_verify ?as\<rparr> \<lparr>wd_db = t, wd_tasks = us\<rparr>" .
  moreover have "begin_request (cf_env cf) (Req_sweep age n) s = (Inr (map Task_verify ?as), s)" by (simp add: begin_sweep_def readE_def)
  ultimately show ?thesis using step_request by (blast intro: one_step pay_steps_trans)
qed

lemma reconcile_payouts_steps:
  assumes "reconcile_payouts (cf_env cf) age n s = (r, t)"
  shows "pay_steps cf \<lparr>wd_db = s, wd_tasks = us\<rparr> \<lparr>wd_db = t, wd_tasks = us\<rparr>"
proof -
  let ?xs = "payouts_to_reconcile s (pay_clock s - age) n"
  from assms obtain sw r' where "reconcile_all_payouts (cf_env cf) ?xs sw s = (r', t)"
    by (auto simp: reconcile_payouts_def bindE_def readE_def retE_def split: prod.splits sum.splits)
  from reconcile_all_payouts_steps [OF this]
  have "pay_steps cf \<lparr>wd_db = s, wd_tasks = us @ map Task_verify_payout ?xs\<rparr> \<lparr>wd_db = t, wd_tasks = us\<rparr>" .
  moreover have "begin_request (cf_env cf) (Req_payout_sweep age n) s = (Inr (map Task_verify_payout ?xs), s)"
    by (simp add: begin_payout_sweep_def readE_def)
  ultimately show ?thesis using step_request by (blast intro: one_step pay_steps_trans)
qed

lemma run_deliveries_steps:
  assumes "run_deliveries (cf_send cf) (cf_targets cf) n s = (r, t)"
  shows "pay_steps cf \<lparr>wd_db = s, wd_tasks = us\<rparr> \<lparr>wd_db = t, wd_tasks = us\<rparr>"
  using assms [unfolded run_deliveries_def]
proof (cases rule: bind_atomic_cases)
  case 1
  then show ?thesis by (simp add: steps_refl)
next
  case (2 rows v)
  from 2(1) have "begin_request (cf_env cf) (Req_deliver n) s = (Inr (map Task_deliver rows), v)"
    by (simp add: begin_deliver_def bindE_def retE_def)
  from one_step [OF step_request [OF this]] deliver_rows_steps [OF 2(2)] show ?thesis by (rule pay_steps_trans)
qed

subsection \<open>A cycle\<close>

text \<open>The sender and the targets that the configured transport stands for.\<close>

definition transport_sender :: "ops_env \<Rightarrow> sender" where
  "transport_sender env = (if event_stream (oe_transport env) then oe_redis env else oe_https env)"

definition worker_config :: "ops_env \<Rightarrow> pay_config" where
  "worker_config env = \<lparr>cf_env = oe_pay env, cf_send = transport_sender env, cf_targets = event_targets (oe_transport env)\<rparr>"

text \<open>What runs, to its end or to an exception, as steps of the payment module.\<close>

definition stepping :: "pay_config \<Rightarrow> 'a ops_op \<Rightarrow> bool" where
  "stepping cf m \<longleftrightarrow> (\<forall>s r t us. m s = (r, t) \<longrightarrow>
     pay_steps cf \<lparr>wd_db = oz_pay s, wd_tasks = us\<rparr> \<lparr>wd_db = oz_pay t, wd_tasks = us\<rparr> \<and> oz_desk t = oz_desk s)"

lemma stepping_read: "stepping cf (readE f)"
  by (auto simp: stepping_def readE_def intro: steps_refl)

lemma stepping_bind: "stepping cf m \<Longrightarrow> (\<And>x. stepping cf (f x)) \<Longrightarrow> stepping cf (bindE m f)"
  unfolding stepping_def bindE_def by (fastforce split: prod.splits sum.splits intro: pay_steps_trans)

lemma stepping_pay:
  assumes "\<And>s r t us. m s = (r, t) \<Longrightarrow> pay_steps cf \<lparr>wd_db = s, wd_tasks = us\<rparr> \<lparr>wd_db = t, wd_tasks = us\<rparr>"
  shows "stepping cf (on_oz_pay m)"
  using assms by (auto simp: stepping_def on_oz_pay_def on_part_def split: prod.splits sum.splits)

lemma payment_cycle_steps: "stepping (worker_config env) (payment_cycle env)"
proof -
  let ?cf = "worker_config env"
  have env: "cf_env ?cf = oe_pay env" "cf_send ?cf = transport_sender env" "cf_targets ?cf = event_targets (oe_transport env)"
    by (simp_all add: worker_config_def)
  have deliver: "deliver_payment_events (oe_transport env) (oe_redis env) (oe_https env) n None None = run_deliveries (cf_send ?cf) (cf_targets ?cf) n" for n
    by (simp add: deliver_payment_events_def env transport_sender_def)
  show ?thesis
    unfolding payment_cycle_def reconcile_pending_payment_intents_def reconcile_pending_payouts_def deliver env(1) [symmetric]
    by (intro stepping_bind stepping_pay stepping_read)
      (rule reconcile_payments_steps reconcile_payouts_steps run_deliveries_steps; assumption)+
qed

text \<open>
  C33: a cycle of the payment worker, healthy or not, takes the payment tables through steps of the module and
  leaves the wallet alone: started in a reachable world it ends in one, with all invariants of the module.
\<close>

theorem payment_worker_takes_module_steps:
  assumes "pay_reachable (worker_config env) \<lparr>wd_db = oz_pay s, wd_tasks = us\<rparr>" "worker_cycle env s = (h, t)"
  shows "pay_reachable (worker_config env) \<lparr>wd_db = oz_pay t, wd_tasks = us\<rparr> \<and> oz_desk t = oz_desk s"
proof -
  from assms(2) obtain r where "payment_cycle env s = (r, t)" by (auto simp: worker_cycle_def split: prod.splits)
  with payment_cycle_steps [of env] assms(1) show ?thesis unfolding stepping_def by (blast intro: reachable_steps)
qed

definition demo_ops :: ops_env where
  "demo_ops = \<lparr>oe_wallet = demo_env, oe_bus = (\<lambda>_. True), oe_pay = demo_pay_env,
     oe_transport = \<lparr>tr_transport = ''http'', tr_stream = [], tr_targets = [(''go'', \<lparr>ct_url = ''u'', ct_secret = ''k''\<rparr>)]\<rparr>,
     oe_redis = (\<lambda>_ _ _. Some ''down''), oe_https = (\<lambda>_ _ _. None)\<rparr>"

definition ops_paid :: ops_state where
  "ops_paid = \<lparr>oz_desk = empty_desk, oz_pay = wd_db demo_paid\<rparr>"

theorem payment_worker_takes_module_steps_witness:
  "\<exists>h t. worker_cycle demo_ops ops_paid = (h, t) \<and> map px_status (pay_outboxes (oz_pay t)) = [Ob_delivered]
     \<and> pay_reachable (worker_config demo_ops) \<lparr>wd_db = oz_pay t, wd_tasks = []\<rparr>"
proof -
  have "worker_config demo_ops = demo_config"
    by (simp add: worker_config_def demo_ops_def demo_config_def transport_sender_def event_targets_def event_stream_def)
  moreover have "demo_paid = \<lparr>wd_db = oz_pay ops_paid, wd_tasks = []\<rparr>" by (simp add: ops_paid_def demo_paid_value)
  ultimately have start: "pay_reachable (worker_config demo_ops) \<lparr>wd_db = oz_pay ops_paid, wd_tasks = []\<rparr>"
    using demo_worlds_reachable(3) by simp
  obtain h t where run: "worker_cycle demo_ops ops_paid = (h, t)" by (cases "worker_cycle demo_ops ops_paid")
  have "map px_status (pay_outboxes (oz_pay (snd (worker_cycle demo_ops ops_paid)))) = [Ob_delivered]" by code_simp
  with payment_worker_takes_module_steps [OF start run] run show ?thesis by auto
qed

text \<open>
  C40: when the verification of the first payment that is due raises anything but an uncertain call, the cycle
  stops there: no other payment and no payout is reconciled, no event is delivered, nothing changes, and so in
  every later cycle as long as that verification raises, however many events wait.
\<close>

theorem failing_verification_blocks_worker:
  assumes due: "attempts_to_reconcile (oz_pay s) (pay_clock (oz_pay s) - 300) 100 = a # rest"
    and p: "processor_get (pv_registry (oe_pay env)) (pa_processor a) = Inr p"
    and raises: "verify_payment p (pay_clock (oz_pay s)) (case pa_provider_ref a of None \<Rightarrow> [] | Some x \<Rightarrow> x) \<in> {Rejected, Webhook_rejected, Crashed}"
  shows "((\<lambda>s. snd (worker_cycle env s)) ^^ n) s = s \<and> \<not> hb_healthy (fst (worker_cycle env s))"
proof -
  let ?v = "verify_payment p (pay_clock (oz_pay s)) (case pa_provider_ref a of None \<Rightarrow> [] | Some x \<Rightarrow> x)"
  have "reconcile_attempt (oe_pay env) a sw (oz_pay s) = (Inl (psp_exception ?v), oz_pay s)" for sw
    using raises by (auto simp: reconcile_attempt_def p bindE_def readE_def raiseE_def)
  then have "reconcile_payments (oe_pay env) 300 100 (oz_pay s) = (Inl (psp_exception ?v), oz_pay s)"
    by (simp add: reconcile_payments_def bindE_def readE_def due atomically_def)
  then have "payment_cycle env s = (Inl (Oz_pay (psp_exception ?v)), s)"
    by (simp add: payment_cycle_def bindE_def on_oz_pay_def on_part_def reconcile_pending_payment_intents_def)
  then have cycle: "snd (worker_cycle env s) = s" "\<not> hb_healthy (fst (worker_cycle env s))" by (simp_all add: worker_cycle_def)
  have "((\<lambda>s. snd (worker_cycle env s)) ^^ n) s = s" by (induction n) (simp_all add: cycle(1))
  with cycle(2) show ?thesis by blast
qed

definition broken_ops :: ops_env where
  "broken_ops = demo_ops\<lparr>oe_pay := demo_pay_env\<lparr>pv_registry := [(100, demo_processor\<lparr>verify_payment := (\<lambda>_ _. Crashed)\<rparr>)]\<rparr>\<rparr>"

definition ops_waiting :: ops_state where
  "ops_waiting = \<lparr>oz_desk = empty_desk, oz_pay = (wd_db demo_waiting)\<lparr>pay_clock := 1000, pay_outboxes := pay_outboxes (wd_db demo_paid)\<rparr>\<rparr>"

theorem failing_verification_blocks_worker_witness:
  "map px_status (pay_outboxes (oz_pay (((\<lambda>s. snd (worker_cycle broken_ops s)) ^^ 5) ops_waiting))) = [Ob_pending]
     \<and> \<not> hb_healthy (fst (worker_cycle broken_ops ops_waiting))"
proof -
  let ?a = "hd (attempts (wd_db demo_waiting))" and ?p = "demo_processor\<lparr>verify_payment := (\<lambda>_ _. Crashed)\<rparr>"
  have due: "attempts_to_reconcile (oz_pay ops_waiting) (pay_clock (oz_pay ops_waiting) - 300) 100 = [?a]" by code_simp
  have p: "processor_get (pv_registry (oe_pay broken_ops)) (pa_processor ?a) = Inr ?p"
    by (simp add: broken_ops_def demo_pay_env_def demo_waiting_value processor_get_def demo_processor_def)
  have "map px_status (pay_outboxes (oz_pay ops_waiting)) = [Ob_pending]" by code_simp
  with failing_verification_blocks_worker [OF due p, of 5] show ?thesis by simp
qed

end
