(* ===== verification/Senders.thy ===== *)
theory Senders
  imports PayoutUse
begin

section \<open>The senders of payment events\<close>

text \<open>
  \<^verbatim>\<open>payments/infra/callback_delivery.py\<close>: the envelope of an event, the signed callback over HTTP and the entry of
  a Redis stream. The HTTP client, the client of Redis, the HMAC and the ISO form of times are parameters; the
  trimming of the stream is left to Redis.
\<close>

subsection \<open>Envelopes\<close>

text \<open>The payloads the module stores with its events.\<close>

fun payload_fields :: "pay_payload \<Rightarrow> (string \<times> json) list" where
  "payload_fields (Payment_payload key i ref a cur st) = [(''event_id'', J_str key), (''payment_intent_id'', J_str (uuid_str i)),
     (''business_reference'', J_str ref), (''amount'', J_int a), (''currency'', J_str cur), (''status'', J_str st)]"
| "payload_fields (Payout_payload i ref beneficiary a cur st metadata) = [(''payout_id'', J_str (uuid_str i)),
     (''business_reference'', J_str ref), (''beneficiary_reference'', J_str beneficiary), (''amount'', J_int a), (''currency'', J_str cur),
     (''status'', J_str st), (''metadata'', J_object metadata)]"
| "payload_fields (Support_payload action support_case i refund st result request_id) = [(''event_version'', J_str ''1''),
     (''action_id'', J_str (uuid_str action)), (''support_case_id'', J_str (uuid_str support_case)), (''payment_intent_id'', J_str (uuid_str i)),
     (''refund_id'', J_uuid refund), (''status'', J_str st), (''result'', J_obj (map (\<lambda>(k, v). (k, J_opt v)) result)),
     (''request_id'', J_str request_id)]"

definition event_envelope :: "(instant \<Rightarrow> string) \<Rightarrow> pay_outbox \<Rightarrow> string" where
  "event_envelope isof r = dumps (J_obj [(''id'', J_str (uuid_str (px_id r))), (''type'', J_str (px_type r)),
     (''occurred_at'', J_str (isof (px_created r))), (''data'', J_obj (payload_fields (px_payload r)))])"

fun payload_request_id :: "pay_payload \<Rightarrow> string" where
  "payload_request_id (Support_payload _ _ _ _ _ _ request_id) = request_id"
| "payload_request_id _ = []"

subsection \<open>Callbacks over HTTP\<close>

record callback_request =
  kq_url :: string
  kq_body :: string
  kq_headers :: "(string \<times> string) list"

definition callback_request_of :: "(string \<Rightarrow> string \<Rightarrow> string) \<Rightarrow> (instant \<Rightarrow> string) \<Rightarrow> callback_target \<Rightarrow> pay_outbox \<Rightarrow> callback_request" where
  "callback_request_of hmac isof target r =
     (let body = event_envelope isof r; request_id = payload_request_id (px_payload r)
      in \<lparr>kq_url = ct_url target, kq_body = body,
          kq_headers = [(''Content-Type'', ''application/json''), (''X-DiddiPay-Event-ID'', uuid_str (px_id r)),
            (''X-DiddiPay-Signature'', hmac (ct_secret target) body)] @ (if request_id = [] then [] else [(''X-Request-ID'', request_id)])\<rparr>)"

text \<open>The client answers a status code or raises; \<^verbatim>\<open>raise_for_status\<close> accepts the codes from 200 to 299 only.\<close>

datatype callback_reply = Answered nat | Raised string

definition http_signed_sender :: "(string \<Rightarrow> string \<Rightarrow> string) \<Rightarrow> (instant \<Rightarrow> string) \<Rightarrow> (nat \<Rightarrow> string) \<Rightarrow>
    (instant \<Rightarrow> callback_request \<Rightarrow> callback_reply) \<Rightarrow> sender" where
  "http_signed_sender hmac isof status_text http_post ts target r =
     (case http_post ts (callback_request_of hmac isof target r) of
        Raised msg \<Rightarrow> Some msg
      | Answered n \<Rightarrow> if 200 \<le> n \<and> n < 300 then None else Some (status_text n))"

subsection \<open>Entries of a stream\<close>

text \<open>The URL of the target is the name of the stream; the signature is left out.\<close>

definition redis_stream_sender :: "(instant \<Rightarrow> string) \<Rightarrow> (instant \<Rightarrow> string \<Rightarrow> (string \<times> string) list \<Rightarrow> string option) \<Rightarrow> sender" where
  "redis_stream_sender isof xadd ts target r = xadd ts (ct_url target) [(''event'', event_envelope isof r)]"

end
