(* ===== verification/FundApi.thy ===== *)
theory FundApi
  imports FundPayments PayUse WalletApi
begin

section \<open>The routes of the crowdfunding module\<close>

text \<open>
  \<^verbatim>\<open>fund/presentation/routers.py\<close> with the bodies of \<^verbatim>\<open>schemas.py\<close>, the signature of \<^verbatim>\<open>callback_security.py\<close> and
  the adapter of \<^verbatim>\<open>payment_orchestrator.py\<close>, which starts and reads collections with the use cases of the payment
  module in the same process: the database of the module carries the wallet and the payment tables. A request
  is one transaction but for the collection, which the payment module commits itself. The HMAC is a parameter.
\<close>

subsection \<open>Collections in the same process\<close>

type_synonym 'a fund_live = "((wallet_db, pay_db) fund_db, fexc, 'a) op"

definition next_action_word :: "next_action_type \<Rightarrow> string" where
  "next_action_word ty = (case ty of Redirect \<Rightarrow> ''redirect'' | Mobile_money_prompt \<Rightarrow> ''mobile_money_prompt''
     | Display_instructions \<Rightarrow> ''display_instructions'' | Await_confirmation \<Rightarrow> ''await_confirmation'' | No_action \<Rightarrow> ''none'')"

definition collection_answer :: "payment_view \<Rightarrow> collection_result" where
  "collection_answer v = \<lparr>cr_intent = pi_id (vw_intent v), cr_status = intent_status_str (pi_status (vw_intent v)),
     cr_action = map_option (\<lambda>a. \<lparr>pact_type = next_action_word (na_type a), pact_url = na_url a, pact_instructions = na_instructions a\<rparr>)
       (pa_action (last (vw_attempts v)))\<rparr>"

definition collection_command :: "collection_request \<Rightarrow> create_command" where
  "collection_command q = \<lparr>cc_client = ''diddifund'', cc_reference = cq_reference q, cc_amount = cq_amount q, cc_currency = cq_currency q,
     cc_key = cq_key q, cc_payer = Some (cq_payer q), cc_payee = None, cc_channel = cq_channel q, cc_network = cq_network q,
     cc_email = cq_email q, cc_phone = cq_phone q, cc_callback = cq_callback q, cc_description = None,
     cc_metadata = [(''campaign_id'', uuid_str (cq_campaign q)), (''operation'', ''investment'')]\<rparr>"

text \<open>The module does not tell the exceptions of the other one apart; a payment without attempts is an \<^verbatim>\<open>IndexError\<close>.\<close>

definition collection_part :: "payment_view pop \<Rightarrow> (pay_db, string, collection_result) op" where
  "collection_part m = bindE (on_part id (\<lambda>p _. p) (\<lambda>_. ''payment error'') m) (\<lambda>v.
     thenE (ensure (vw_attempts v \<noteq> []) ''list index out of range'') (retE (collection_answer v)))"

definition in_process_orchestrator :: "pay_env \<Rightarrow> pay_db payment_port" where
  "in_process_orchestrator env = \<lparr>create_collection = (\<lambda>q. collection_part (payment_create env (collection_command q))),
     get_collection = (\<lambda>i. collection_part (payment_get ''diddifund'' i))\<rparr>"

subsection \<open>Callers\<close>

datatype fund_route_exc = Rx_http aexc | Rx_fund fexc

type_synonym 'a fund_route = "((wallet_db, pay_db) fund_db, fund_route_exc, 'a) op"

record fund_api_env =
  fk_jwt :: jwt_verifier
  fk_pins :: pin_lib
  fk_scoring :: scoring_port
  fk_pay :: pay_env
  fk_secret :: string
  fk_hmac :: "string \<Rightarrow> string \<Rightarrow> string"

definition on_fund :: "(fexc \<Rightarrow> fund_route_exc) \<Rightarrow> 'a fund_live \<Rightarrow> 'a fund_route" where
  "on_fund = on_part id (\<lambda>f _. f)"

definition fund_http :: "aexc + 'a \<Rightarrow> 'a fund_route" where
  "fund_http r = of_sum (map_sum Rx_http id r)"

definition fund_user :: "fund_api_env \<Rightarrow> wallet_call \<Rightarrow> bool \<Rightarrow> (uuid \<Rightarrow> 'a fund_route) \<Rightarrow> 'a fund_route" where
  "fund_user env c valid handler =
     bindE (fund_http (get_current_user (fk_jwt env) (lc_credentials c))) (\<lambda>u.
     thenE (ensure valid (Rx_http A_validation)) (handler (cu_id u)))"

definition fund_user_key :: "fund_api_env \<Rightarrow> wallet_call \<Rightarrow> bool \<Rightarrow> (uuid \<Rightarrow> string \<Rightarrow> 'a fund_route) \<Rightarrow> 'a fund_route" where
  "fund_user_key env c valid handler =
     bindE (fund_http (get_current_user (fk_jwt env) (lc_credentials c))) (\<lambda>u.
     bindE (fund_http (get_idempotency_key (lc_key c))) (\<lambda>key.
     thenE (ensure valid (Rx_http A_validation)) (handler (cu_id u) key)))"

definition fund_wallet :: "fund_api_env \<Rightarrow> wallet_db wallet_port" where
  "fund_wallet env = wallet_service (fk_pins env)"

definition fund_payments :: "fund_api_env \<Rightarrow> pay_db payment_port" where
  "fund_payments env = in_process_orchestrator (fk_pay env)"

subsection \<open>Campaigns\<close>

fun campaign_status_str :: "campaign_status \<Rightarrow> string" where
  "campaign_status_str Campaign_draft = ''draft''"
| "campaign_status_str Campaign_active = ''active''"
| "campaign_status_str Campaign_closed = ''closed''"
| "campaign_status_str Campaign_cancelled = ''cancelled''"

fun loan_status_str :: "loan_status \<Rightarrow> string" where
  "loan_status_str Loan_pending = ''pending''"
| "loan_status_str Loan_disbursed = ''disbursed''"
| "loan_status_str Loan_repaying = ''repaying''"
| "loan_status_str Loan_closed = ''closed''"
| "loan_status_str Loan_defaulted = ''defaulted''"

text \<open>A status filter: absent or empty for all rows, the name of a status, or a text that no row carries.\<close>

definition filtered_page :: "('s \<Rightarrow> string) \<Rightarrow> 's list \<Rightarrow> string option \<Rightarrow> ('s option \<Rightarrow> 'r list \<times> nat) \<Rightarrow> 'r list \<times> nat" where
  "filtered_page word all_of status query =
     (if \<not> truthy status then query None
      else (case find (\<lambda>x. word x = the status) all_of of None \<Rightarrow> ([], 0) | Some x \<Rightarrow> query (Some x)))"

definition route_create_campaign :: "fund_api_env \<Rightarrow> wallet_call \<Rightarrow> string \<Rightarrow> int \<Rightarrow> string \<Rightarrow> (uuid \<times> campaign_status) fund_route" where
  "route_create_campaign env c title goal cur = fund_user env c (sized 1 200 title \<and> 0 < goal \<and> length cur = 3) (\<lambda>u.
     bindE (atomically (on_fund Rx_fund (creer_campagne (fund_wallet env) u title goal cur))) (\<lambda>x. retE (cmp_id x, cmp_status x)))"

text \<open>Identifier, title, goal, amount raised, currency and status.\<close>

type_synonym campaign_item = "uuid \<times> string \<times> int \<times> int \<times> string \<times> campaign_status"

definition campaign_item_of :: "campaign \<Rightarrow> campaign_item" where
  "campaign_item_of x = (cmp_id x, cmp_title x, cmp_goal x, cmp_raised x, cmp_currency x, cmp_status x)"

definition list_campaigns :: "fund_api_env \<Rightarrow> wallet_call \<Rightarrow> string option \<Rightarrow> nat \<Rightarrow> nat \<Rightarrow> (campaign_item list \<times> nat \<times> nat) fund_route" where
  "list_campaigns env c status page page_size = fund_user env c (1 \<le> page \<and> 1 \<le> page_size \<and> page_size \<le> 100) (\<lambda>_.
     bindE (readE (\<lambda>s. filtered_page campaign_status_str [Campaign_draft, Campaign_active, Campaign_closed, Campaign_cancelled] status
       (\<lambda>st. list_by_status s st page page_size))) (\<lambda>(rows, n). retE (map campaign_item_of rows, n, total_pages n page_size)))"

text \<open>The item, its owner, its creation, and the amounts and times of the latest investments; no code closes a campaign.\<close>

definition get_campaign :: "fund_api_env \<Rightarrow> wallet_call \<Rightarrow> uuid \<Rightarrow> (campaign_item \<times> uuid \<times> instant \<times> (int \<times> instant) list) fund_route" where
  "get_campaign env c i = fund_user env c True (\<lambda>_.
     bindE (on_fund Rx_fund (detail_campagne i)) (\<lambda>(x, rows).
     retE (campaign_item_of x, cmp_owner x, cmp_created x, map (\<lambda>v. (inv_amount v, inv_created v)) rows)))"

text \<open>Investment, campaign, amount and wallet transaction.\<close>

definition route_invest :: "fund_api_env \<Rightarrow> wallet_call \<Rightarrow> uuid \<Rightarrow> int \<Rightarrow> string \<Rightarrow> (uuid \<times> uuid \<times> int \<times> uuid) fund_route" where
  "route_invest env c i amnt pin = fund_user_key env c (0 < amnt \<and> sized 4 12 pin) (\<lambda>u key.
     bindE (atomically (on_fund Rx_fund (investir (fund_wallet env) i u amnt pin key))) (\<lambda>(v, tx). retE (inv_id v, i, inv_amount v, tx)))"

subsection \<open>Investments paid outside the wallet\<close>

record external_body =
  eb_amount :: int
  eb_channel :: "string option"
  eb_network :: "string option"
  eb_email :: "string option"
  eb_phone :: "string option"
  eb_callback :: "string option"

definition external_body_ok :: "external_body \<Rightarrow> bool" where
  "external_body_ok b \<longleftrightarrow> 0 < eb_amount b \<and> (case eb_channel b of None \<Rightarrow> True | Some x \<Rightarrow> x \<in> {''mobile_money'', ''card''})
     \<and> (case eb_network b of None \<Rightarrow> True | Some x \<Rightarrow> x \<in> {''orange'', ''wave'', ''mtn''})
     \<and> opt_sized 254 (eb_email b) \<and> opt_sized 32 (eb_phone b) \<and> opt_sized 2048 (eb_callback b)"

definition conflict_error :: "fexc \<Rightarrow> fund_route_exc" where
  "conflict_error e = (if e = Fund_value ''IDEMPOTENCY_CONFLICT'' then Rx_http (A_conflict ''IDEMPOTENCY_CONFLICT'') else Rx_fund e)"

definition missing_order_error :: "fexc \<Rightarrow> fund_route_exc" where
  "missing_order_error e = (case e of Fund_lookup _ \<Rightarrow> Rx_http (A_not_found ''PAYMENT_ORDER_NOT_FOUND'') | _ \<Rightarrow> Rx_fund e)"

definition event_error :: "fexc \<Rightarrow> fund_route_exc" where
  "event_error e = (case e of Fund_value k \<Rightarrow> Rx_http (A_conflict k) | _ \<Rightarrow> Rx_fund e)"

text \<open>The order with the next action of its collection.\<close>

definition order_response :: "payment_order \<times> collection_result option \<Rightarrow> payment_order \<times> payment_action option" where
  "order_response v = (fst v, Option.bind (snd v) cr_action)"

definition start_external_investment :: "fund_api_env \<Rightarrow> wallet_call \<Rightarrow> uuid \<Rightarrow> external_body \<Rightarrow>
    (payment_order \<times> payment_action option) fund_route" where
  "start_external_investment env c i b = fund_user_key env c (external_body_ok b) (\<lambda>u key.
     bindE (on_fund conflict_error (start_investment (Some (fund_payments env)) i u (eb_amount b) key (eb_channel b) (eb_network b)
       (eb_email b) (eb_phone b) (eb_callback b))) (\<lambda>v. retE (order_response v)))"

definition get_payment_order :: "fund_api_env \<Rightarrow> wallet_call \<Rightarrow> uuid \<Rightarrow> (payment_order \<times> payment_action option) fund_route" where
  "get_payment_order env c i = fund_user env c True (\<lambda>u.
     bindE (on_fund missing_order_error (get_order (Some (fund_payments env)) i u)) (\<lambda>v. retE (order_response v)))"

text \<open>\<open>hmac.compare_digest\<close> raises on text outside ASCII.\<close>

definition verify_diddipay_signature :: "(string \<Rightarrow> string \<Rightarrow> string) \<Rightarrow> string \<Rightarrow> string \<Rightarrow> string \<Rightarrow> aexc + bool" where
  "verify_diddipay_signature hmac body signature secret =
     (if signature = [] \<or> secret = [] then Inr False
      else if \<not> is_ascii signature then Inl A_internal else Inr (signature = hmac secret body))"

record event_call =
  ec_body :: string
  ec_signature :: "string option"
  ec_event :: "string option"

definition diddipay_event :: "fund_api_env \<Rightarrow> event_call \<Rightarrow> uuid \<Rightarrow> string \<Rightarrow> event_data \<Rightarrow> applied fund_route" where
  "diddipay_event env c i ty d =
     bindE (fund_http (verify_diddipay_signature (fk_hmac env) (ec_body c) (case ec_signature c of None \<Rightarrow> [] | Some x \<Rightarrow> x) (fk_secret env))) (\<lambda>ok.
     thenE (ensure ok (Rx_http A_unauthenticated))
     (thenE (ensure (ec_event c = Some (uuid_str i)) (Rx_http A_unauthenticated))
       (atomically (on_fund event_error (apply_event i ty d)))))"

subsection \<open>Loans\<close>

definition loan_query_ok :: "int \<Rightarrow> int \<Rightarrow> bool" where
  "loan_query_ok amnt duration \<longleftrightarrow> 0 < amnt \<and> 0 < duration \<and> duration \<le> 60"

definition simulate_loan :: "fund_api_env \<Rightarrow> wallet_call \<Rightarrow> int \<Rightarrow> int \<Rightarrow> loan_terms fund_route" where
  "simulate_loan env c amnt duration = fund_user env c (loan_query_ok amnt duration) (\<lambda>u.
     on_fund Rx_fund (simuler (fk_scoring env) u amnt duration))"

definition create_loan :: "fund_api_env \<Rightarrow> wallet_call \<Rightarrow> uuid \<Rightarrow> int \<Rightarrow> int \<Rightarrow> (uuid \<times> loan_status) fund_route" where
  "create_loan env c i amnt duration = fund_user env c (loan_query_ok amnt duration) (\<lambda>u.
     bindE (atomically (on_fund Rx_fund (demander (fk_scoring env) i u amnt duration))) (\<lambda>l. retE (ln_id l, ln_status l)))"

definition list_loans :: "fund_api_env \<Rightarrow> wallet_call \<Rightarrow> string option \<Rightarrow> nat \<Rightarrow> nat \<Rightarrow> (loan list \<times> nat \<times> nat) fund_route" where
  "list_loans env c status page page_size = fund_user env c (1 \<le> page \<and> 1 \<le> page_size \<and> page_size \<le> 100) (\<lambda>u.
     bindE (readE (\<lambda>s. filtered_page loan_status_str [Loan_pending, Loan_disbursed, Loan_repaying, Loan_closed, Loan_defaulted] status
       (\<lambda>st. list_by_borrower s u st page page_size))) (\<lambda>(rows, n). retE (rows, n, total_pages n page_size)))"

text \<open>The loan, and the date, what remains due and the status of the next installment.\<close>

definition get_loan :: "fund_api_env \<Rightarrow> wallet_call \<Rightarrow> uuid \<Rightarrow> (loan \<times> (date \<times> int \<times> installment_status) option) fund_route" where
  "get_loan env c i = fund_user env c True (\<lambda>u.
     bindE (on_fund Rx_fund (detail_pret i u)) (\<lambda>(l, e).
     retE (l, map_option (\<lambda>r. (rp_due_date r, rp_due r - rp_paid r, rp_status r)) e)))"

definition get_schedule :: "fund_api_env \<Rightarrow> wallet_call \<Rightarrow> uuid \<Rightarrow> repayment_row list fund_route" where
  "get_schedule env c i = fund_user env c True (\<lambda>u. on_fund Rx_fund (echeancier_pret i u))"

text \<open>The use case returns the loan and the installment it paid, the first unpaid one: they are read here, around it.\<close>

definition repay_loan :: "fund_api_env \<Rightarrow> wallet_call \<Rightarrow> uuid \<Rightarrow> int \<Rightarrow> string \<Rightarrow> (loan_status option \<times> repayment_row option) fund_route" where
  "repay_loan env c i amnt pin = fund_user_key env c (0 < amnt \<and> sized 4 12 pin) (\<lambda>u key.
     bindE (readE (\<lambda>s. prochaine_echeance s i)) (\<lambda>e.
     thenE (atomically (on_fund Rx_fund (rembourser (fund_wallet env) i u amnt pin key)))
       (readE (\<lambda>s. (map_option ln_status (loan_get s i),
          find (\<lambda>r. rp_loan r = i \<and> Some (rp_no r) = map_option rp_no e) (schedules s))))))"

end
