(* ===== verification/FundApiProps.thy ===== *)
theory FundApiProps
  imports FundApi FundDemo PayDemo WalletApiProps
begin

section \<open>Orders of the crowdfunding module and their payments\<close>

subsection \<open>The payment that a collection starts\<close>

lemma create_insert_row:
  assumes "create_insert env c p m s = (Inr b, t)" "intent_by_idempotency s (cc_client c) (cc_key c) = None"
  shows "\<exists>i a. b = Started p i a \<and> i \<in> set (intents t) \<and> pi_client i = cc_client c \<and> pi_reference i = cc_reference c \<and> pi_money i = m"
  using assms
  by (auto simp: create_insert_def catchE_Inr new_intent_def intent_add_Inr attempt_add_Inr Let_def intent_by_idempotency_def dest: atomically_Inl)

lemma create_begin_row:
  assumes "create_begin env c s = (Inr b, t)" "intent_by_idempotency s (cc_client c) (cc_key c) = None"
  shows "\<exists>p i a. b = Started p i a \<and> i \<in> set (intents t) \<and> pi_client i = cc_client c \<and> pi_reference i = cc_reference c
    \<and> pi_money i = \<lparr>pm_amount = cc_amount c, pm_currency = upper (strip (cc_currency c))\<rparr>"
proof -
  from assms obtain p m where m: "mk_pay_money (cc_amount c) (cc_currency c) = Inr m" and run: "create_insert env c p m s = (Inr b, t)"
    by (auto simp: create_begin_def)
  from m have "m = \<lparr>pm_amount = cc_amount c, pm_currency = upper (strip (cc_currency c))\<rparr>"
    by (auto simp: mk_pay_money_def Let_def split: if_splits)
  with create_insert_row [OF run assms(2)] show ?thesis by blast
qed

lemma create_finish_row:
  assumes "create_finish p c i a s = (Inr v, t)" "i \<in> set (intents s)"
  shows "pi_id (vw_intent v) = pi_id i \<and> (\<exists>x \<in> set (intents t). pi_id x = pi_id i \<and> pi_client x = pi_client i
    \<and> pi_reference x = pi_reference i \<and> pi_money x = pi_money i)"
proof -
  from assms(1) obtain ts r j b u where r: "apply_provider_result ts r i a = Inr (j, b)" and v: "vw_intent v = j"
    and saved: "intent_save j s = (Inr (), u)" "attempt_save b u = (Inr (), t)"
    by (auto simp: create_finish_def)
  from apply_provider_result_Inr [OF r] have j: "pi_id j = pi_id i" by simp
  let ?f = "set_intent (pi_status j) (pi_refunded j) (pi_updated j)"
  from saved have "intents t = update_row pi_id (pi_id j) ?f (intents s)"
    by (auto simp: intent_save_Inr attempt_save_Inr)
  with assms(2) j have "?f i \<in> set (intents t)" by (force simp: set_update_row)
  then show ?thesis by (intro conjI bexI [of _ "?f i"]) (simp_all add: v j set_intent_def)
qed

lemma payment_create_row:
  assumes "payment_create env c s = (Inr v, t)" "intent_by_idempotency s (cc_client c) (cc_key c) = None"
  shows "\<exists>x \<in> set (intents t). pi_id x = pi_id (vw_intent v) \<and> pi_client x = cc_client c \<and> pi_reference x = cc_reference c
    \<and> pi_money x = \<lparr>pm_amount = cc_amount c, pm_currency = upper (strip (cc_currency c))\<rparr>"
proof -
  from assms(1) obtain b u where b: "create_begin env c s = (Inr b, u)"
    and rest: "(case b of Replayed v \<Rightarrow> retE v | Started p i a \<Rightarrow> atomically (create_finish p c i a)) u = (Inr v, t)"
    by (auto simp: payment_create_def)
  from create_begin_row [OF b assms(2)] obtain p i a where i: "b = Started p i a" "i \<in> set (intents u)" "pi_client i = cc_client c"
    "pi_reference i = cc_reference c" "pi_money i = \<lparr>pm_amount = cc_amount c, pm_currency = upper (strip (cc_currency c))\<rparr>" by blast
  from rest i(1) have "create_finish p c i a u = (Inr v, t)" by simp
  from create_finish_row [OF this i(2)] i show ?thesis by (metis)
qed

lemma create_collection_Inr:
  assumes "create_collection (in_process_orchestrator env) q s = (Inr r, t)"
  shows "\<exists>v. payment_create env (collection_command q) s = (Inr v, t) \<and> cr_intent r = pi_id (vw_intent v)"
  using assms by (auto simp: in_process_orchestrator_def collection_part_def on_part_Inr collection_answer_def)

subsection \<open>Starting an investment\<close>

text \<open>What the payment module announces of a payment, and what the module compares it with.\<close>

definition event_of_payment :: "pay_intent \<Rightarrow> event_data" where
  "event_of_payment x = \<lparr>ed_intent = Some (pi_id x), ed_reference = Some (pi_reference x), ed_amount = pm_amount (pi_money x),
     ed_currency = Some (pm_currency (pi_money x)), ed_status = Some (intent_status_str (pi_status x))\<rparr>"

definition event_fits :: "payment_order \<Rightarrow> event_data \<Rightarrow> bool" where
  "event_fits r d \<longleftrightarrow> ed_reference d = Some (po_reference r) \<and> ed_amount d = po_amount r \<and> ed_currency d = Some (po_currency r)"

lemma order_create_Inr:
  assumes "order_create op_kind reference payer campaign intent key amnt cur st s = (Inr r, t)"
  shows "po_reference r = reference \<and> po_payer r = payer \<and> po_campaign r = Some campaign \<and> po_intent r = intent \<and> po_key r = key
    \<and> po_amount r = amnt \<and> po_currency r = cur \<and> payment_orders t = payment_orders s @ [r]
    \<and> order_by_payment_intent t intent = Some r \<and> payments_part t = payments_part s"
  using assms
  by (auto simp: order_create_def fund_fresh_def Let_def order_by_payment_intent_def lookup_row_append)

lemma event_refused:
  assumes "order_by_payment_intent s i = Some r" "ed_intent d = Some i" "\<not> event_fits r d" "event_id \<notin> set (event_inbox s)"
  shows "\<exists>k. atomically (apply_event event_id ty d) s = (Inl (Fund_value k), s)"
  using assms
  by (auto simp: apply_event_def add_once_def atomically_def bindE_def readE_def retE_def thenE_def ensure_def some_or_def modE_def
      raiseE_def event_fits_def order_by_payment_intent_def)

lemma in_payments_Inr: "in_payments m s = (Inr x, t) \<longleftrightarrow> (\<exists>p. m (payments_part s) = (Inr x, p) \<and> t = s\<lparr>payments_part := p\<rparr>)"
  by (simp add: in_payments_def on_part_Inr)

lemma order_by_idempotency_payments [simp]: "order_by_idempotency (s\<lparr>payments_part := p\<rparr>) key = order_by_idempotency s key"
  by (simp add: order_by_idempotency_def)

lemma start_investment_Inr:
  assumes run: "start_investment (Some (in_process_orchestrator env)) i u amnt key channel network email phone callback s = (Inr (r, pay), t)"
    and new: "order_by_idempotency s key = None"
  shows "\<exists>c q pr p st. campaign_get s i = Some c
    \<and> create_collection (in_process_orchestrator env) q (payments_part s) = (Inr pr, p) \<and> cq_key q = key \<and> cq_amount q = amnt
    \<and> cq_currency q = cmp_currency c
    \<and> order_create ''investment'' (cq_reference q) u i (cr_intent pr) key amnt (cmp_currency c) st (s\<lparr>payments_part := p\<rparr>) = (Inr r, t)"
proof -
  from run new obtain c q pr p st where q: "campaign_get s i = Some c"
    "create_collection (in_process_orchestrator env) q (payments_part s) = (Inr pr, p)"
    "cq_key q = key" "cq_amount q = amnt" "cq_currency q = cmp_currency c"
    and order: "catchE (atomically (order_create ''investment'' (cq_reference q) u i (cr_intent pr) key amnt (cmp_currency c) st)) Fund_integrity
      (bindE (readE (\<lambda>s. order_by_idempotency s key)) (\<lambda>again. bindE (some_or Fund_integrity again) (\<lambda>o'.
        thenE (ensure (same_order o' i u amnt) (Fund_value ''IDEMPOTENCY_CONFLICT'')) (retE o')))) (s\<lparr>payments_part := p\<rparr>) = (Inr r, t)"
    unfolding start_investment_def
    by (simp only: bindE_Inr thenE_Inr readE_Inr ensure_Inr some_or_Inr option.case Let_def in_payments_Inr retE_Inr prod.inject option.inject)
      (elim exE conjE, hypsubst,
       simp only: option.case bindE_Inr thenE_Inr readE_Inr ensure_Inr some_or_Inr retE_Inr prod.inject in_payments_Inr option.inject Let_def,
       elim exE conjE, hypsubst, rule that, assumption, assumption, simp_all)
  from order new have "order_create ''investment'' (cq_reference q) u i (cr_intent pr) key amnt (cmp_currency c) st (s\<lparr>payments_part := p\<rparr>) = (Inr r, t)"
    by (auto simp: catchE_Inr dest!: atomically_Inl)
  with q show ?thesis by blast
qed

lemma on_fund_Inr: "on_fund err m s = (Inr x, t) \<longleftrightarrow> m s = (Inr x, t)"
  by (auto simp: on_fund_def on_part_Inr)

lemma fund_http_Inr: "fund_http r s = (Inr x, t) \<longleftrightarrow> r = Inr x \<and> t = s"
  by (cases r) (auto simp: fund_http_def)

lemma fund_user_key_Inr:
  "fund_user_key env c valid handler s = (Inr x, t) \<longleftrightarrow> (\<exists>u key. get_current_user (fk_jwt env) (lc_credentials c) = Inr u
     \<and> get_idempotency_key (lc_key c) = Inr key \<and> valid \<and> handler (cu_id u) key s = (Inr x, t))"
  by (auto simp: fund_user_key_def fund_http_Inr)

text \<open>
  C23: an investment started outside the wallet under a new key stores one order: of its caller, for the
  campaign, under the key, with the amount asked and the currency of the campaign. Its payment is stored for
  DiddiFund with the reference and the amount of the order, and an event of that payment finds the order.
  What the payment module announces of it is what the order expects exactly when the campaign writes its
  currency in capitals: the event of a campaign in another spelling, which the creation of campaigns accepts,
  is refused.
\<close>

theorem external_order_matches_payment:
  assumes run: "start_external_investment env c i b s = (Inr (order, act), t)"
    and no_order: "\<forall>r \<in> set (payment_orders s). Some (po_key r) \<noteq> map_option strip (lc_key c)"
    and no_payment: "\<forall>x \<in> set (intents (payments_part s)). Some (pi_key x) \<noteq> map_option strip (lc_key c)"
  shows "\<exists>u key cmp x. get_current_user (fk_jwt env) (lc_credentials c) = Inr u \<and> get_idempotency_key (lc_key c) = Inr key
     \<and> campaign_get s i = Some cmp \<and> payment_orders t = payment_orders s @ [order] \<and> po_payer order = cu_id u
     \<and> po_campaign order = Some i \<and> po_key order = key \<and> po_amount order = eb_amount b \<and> po_currency order = cmp_currency cmp
     \<and> x \<in> set (intents (payments_part t)) \<and> pi_id x = po_intent order \<and> pi_client x = ''diddifund''
     \<and> pi_reference x = po_reference order \<and> pm_amount (pi_money x) = po_amount order
     \<and> order_by_payment_intent t (pi_id x) = Some order
     \<and> (event_fits order (event_of_payment x) \<longleftrightarrow> upper (strip (cmp_currency cmp)) = cmp_currency cmp)"
proof -
  from run obtain u key pay where u: "get_current_user (fk_jwt env) (lc_credentials c) = Inr u" and key: "get_idempotency_key (lc_key c) = Inr key"
    and start: "start_investment (Some (in_process_orchestrator (fk_pay env))) i (cu_id u) (eb_amount b) key (eb_channel b) (eb_network b)
       (eb_email b) (eb_phone b) (eb_callback b) s = (Inr (order, pay), t)"
    by (auto simp: start_external_investment_def fund_user_key_Inr on_fund_Inr order_response_def fund_payments_def)
  from key have k: "map_option strip (lc_key c) = Some key" by (auto simp: get_idempotency_key_Inr)
  from no_order k have "order_by_idempotency s key = None" by (auto simp: order_by_idempotency_def lookup_row_None_iff)
  from start_investment_Inr [OF start this] obtain cmp q pr p st where cmp: "campaign_get s i = Some cmp"
    and q: "create_collection (in_process_orchestrator (fk_pay env)) q (payments_part s) = (Inr pr, p)" "cq_key q = key" "cq_amount q = eb_amount b"
      "cq_currency q = cmp_currency cmp"
    and order: "order_create ''investment'' (cq_reference q) (cu_id u) i (cr_intent pr) key (eb_amount b) (cmp_currency cmp) st (s\<lparr>payments_part := p\<rparr>)
      = (Inr order, t)" by blast
  from order_create_Inr [OF order] have rows: "po_reference order = cq_reference q" "po_payer order = cu_id u" "po_campaign order = Some i"
    "po_intent order = cr_intent pr" "po_key order = key" "po_amount order = eb_amount b" "po_currency order = cmp_currency cmp"
    "payment_orders t = payment_orders s @ [order]" "order_by_payment_intent t (cr_intent pr) = Some order" "payments_part t = p" by simp_all
  from create_collection_Inr [OF q(1)] obtain v where v: "payment_create (fk_pay env) (collection_command q) (payments_part s) = (Inr v, p)"
    "cr_intent pr = pi_id (vw_intent v)" by blast
  from no_payment k q(2) have "intent_by_idempotency (payments_part s) (cc_client (collection_command q)) (cc_key (collection_command q)) = None"
    by (auto simp: intent_by_idempotency_def find_None_iff collection_command_def)
  from payment_create_row [OF v(1) this] obtain x where x: "x \<in> set (intents p)" "pi_id x = pi_id (vw_intent v)" "pi_client x = ''diddifund''"
    "pi_reference x = cq_reference q" "pi_money x = \<lparr>pm_amount = cq_amount q, pm_currency = upper (strip (cq_currency q))\<rparr>"
    by (auto simp: collection_command_def)
  have "event_fits order (event_of_payment x) \<longleftrightarrow> upper (strip (cmp_currency cmp)) = cmp_currency cmp"
    by (simp add: event_fits_def event_of_payment_def rows x q(3, 4))
  with u key cmp rows x v(2) q(3) show ?thesis by (intro exI [of _ u] exI [of _ key] exI [of _ cmp] exI [of _ x]) simp
qed

text \<open>Campaign 1 of the demonstration with the payment tables beside it, in capitals and in small letters.\<close>

definition beside_payments :: "string \<Rightarrow> (wallet_db, pay_db) fund_db" where
  "beside_payments cur = \<lparr>wallet_part = wallet_part demo_open, payments_part = empty_payments, campaigns = map (\<lambda>x. x\<lparr>cmp_currency := cur\<rparr>) (campaigns demo_open),
     investments = [], loans = [], schedules = [], loan_history = [], payment_orders = [], event_inbox = [], fund_next = 2, fund_clock = 0\<rparr>"

definition demo_fund_api :: fund_api_env where
  "demo_fund_api = \<lparr>fk_jwt = demo_jwt, fk_pins = demo_lib, fk_scoring = demo_scoring, fk_pay = demo_pay_env, fk_secret = ''s'', fk_hmac = (\<lambda>_ _. ''m'')\<rparr>"

definition demo_external :: external_body where
  "demo_external = \<lparr>eb_amount = 2000, eb_channel = None, eb_network = None, eb_email = None, eb_phone = None, eb_callback = None\<rparr>"

definition started_order :: "string \<Rightarrow> payment_order option" where
  "started_order cur = (case fst (start_external_investment demo_fund_api user_call 1 demo_external (beside_payments cur)) of
     Inl _ \<Rightarrow> None | Inr v \<Rightarrow> Some (fst v))"

theorem external_order_matches_payment_witness:
  "\<exists>r act t x. start_external_investment demo_fund_api user_call 1 demo_external (beside_payments ''XOF'') = (Inr (r, act), t)
     \<and> payment_orders t = [r] \<and> x \<in> set (intents (payments_part t)) \<and> pi_id x = po_intent r \<and> event_fits r (event_of_payment x)"
proof -
  let ?run = "start_external_investment demo_fund_api user_call 1 demo_external (beside_payments ''XOF'')"
  have some: "map_option po_currency (started_order ''XOF'') = Some ''XOF''" by code_simp
  then obtain r where r: "started_order ''XOF'' = Some r" "po_currency r = ''XOF''" by auto
  then obtain act t where run: "?run = (Inr (r, act), t)"
    by (cases ?run) (auto simp: started_order_def split: sum.splits)
  have none: "payment_orders (beside_payments ''XOF'') = []"
    "\<forall>r \<in> set (payment_orders (beside_payments ''XOF'')). Some (po_key r) \<noteq> map_option strip (lc_key user_call)"
    "\<forall>x \<in> set (intents (payments_part (beside_payments ''XOF''))). Some (pi_key x) \<noteq> map_option strip (lc_key user_call)"
    by (simp_all add: beside_payments_def empty_payments_def)
  have cap: "upper (strip ''XOF'') = ''XOF''" by code_simp
  from external_order_matches_payment [OF run none(2, 3)] obtain cmp :: campaign and x :: pay_intent where x: "payment_orders t = payment_orders (beside_payments ''XOF'') @ [r]"
    "po_currency r = cmp_currency cmp" "x \<in> set (intents (payments_part t))" "pi_id x = po_intent r"
    "event_fits r (event_of_payment x) \<longleftrightarrow> upper (strip (cmp_currency cmp)) = cmp_currency cmp"
    by (elim exE conjE) (rule that)
  have "event_fits r (event_of_payment x)" by (simp only: x(5) x(2) [symmetric] r(2) cap)
  with run x none(1) show ?thesis by (intro exI [of _ r] exI [of _ act] exI [of _ t] exI [of _ x]) simp
qed

lemma small_letters_never_fit: "map_option (\<lambda>r. (po_currency r, upper (strip (po_currency r)) = po_currency r)) (started_order ''xof'') = Some (''xof'', False)"
  by code_simp

end
