(* ===== verification/SenderProps.thy ===== *)
theory SenderProps
  imports Senders FundApiProps FundProps
begin

section \<open>Events from the payment module to the crowdfunding module\<close>

text \<open>
  The sender of callbacks against the route that receives them: the request the one builds is the request the
  other verifies, so an event of the outbox is marked delivered exactly when the crowdfunding module has applied
  it. The decoder of the request body is a parameter.
\<close>

subsection \<open>The receiving side\<close>

text \<open>The route behind its address: the body is decoded, headers are looked up, and the exception gives the code.\<close>

fun fund_answer_code :: "fund_route_exc \<Rightarrow> nat" where
  "fund_answer_code (Rx_http e) = http_code e"
| "fund_answer_code (Rx_fund e) = fund_status_code e"

definition fund_serves :: "fund_api_env \<Rightarrow> (string \<Rightarrow> (uuid \<times> string \<times> event_data) option) \<Rightarrow> callback_request \<Rightarrow>
    (wallet_db, pay_db) fund_db \<Rightarrow> callback_reply \<times> (wallet_db, pay_db) fund_db" where
  "fund_serves env parse q s =
     (case parse (kq_body q) of
        None \<Rightarrow> (Answered 422, s)
      | Some (i, ty, d) \<Rightarrow>
          (case diddipay_event env \<lparr>ec_body = kq_body q, ec_signature = map_of (kq_headers q) ''X-DiddiPay-Signature'',
               ec_event = map_of (kq_headers q) ''X-DiddiPay-Event-ID''\<rparr> i ty d s of
             (Inl e, t) \<Rightarrow> (Answered (fund_answer_code e), t)
           | (Inr _, t) \<Rightarrow> (Answered 200, t)))"

lemma error_codes: "400 \<le> status_code w" "400 \<le> http_code e" "400 \<le> fund_status_code f" "400 \<le> fund_answer_code x"
proof -
  show w: "400 \<le> status_code w" for w by (cases w) simp_all
  show e: "400 \<le> http_code e" for e by (cases e) (simp_all add: w)
  show f: "400 \<le> fund_status_code f" for f by (cases f) (simp_all add: w)
  show "400 \<le> fund_answer_code x" by (cases x) (simp_all add: e f)
qed

lemma signed_event_reaches_handler:
  assumes "ct_secret target = fk_secret env" "fk_secret env \<noteq> []" "\<forall>k b. fk_hmac env k b \<noteq> [] \<and> is_ascii (fk_hmac env k b)"
  shows "diddipay_event env \<lparr>ec_body = event_envelope isof r,
      ec_signature = map_of (kq_headers (callback_request_of (fk_hmac env) isof target r)) ''X-DiddiPay-Signature'',
      ec_event = map_of (kq_headers (callback_request_of (fk_hmac env) isof target r)) ''X-DiddiPay-Event-ID''\<rparr> (px_id r) ty d s
    = atomically (on_fund event_error (apply_event (px_id r) ty d)) s"
  using assms by (simp add: diddipay_event_def callback_request_of_def Let_def verify_diddipay_signature_def fund_http_def of_sum_def
    bindE_def retE_def thenE_def ensure_def)

lemma fund_serves_signed:
  assumes "ct_secret target = fk_secret env" "fk_secret env \<noteq> []" "\<forall>k b. fk_hmac env k b \<noteq> [] \<and> is_ascii (fk_hmac env k b)"
    and "parse (event_envelope isof r) = Some (px_id r, ty, d)"
  shows "fund_serves env parse (callback_request_of (fk_hmac env) isof target r) s =
    (case apply_event (px_id r) ty d s of (Inl e, _) \<Rightarrow> (Answered (fund_answer_code (event_error e)), s) | (Inr _, t) \<Rightarrow> (Answered 200, t))"
proof -
  have body: "kq_body (callback_request_of (fk_hmac env) isof target r) = event_envelope isof r" by (simp add: callback_request_of_def Let_def)
  show ?thesis unfolding fund_serves_def body assms(4) option.case prod.case signed_event_reaches_handler [OF assms(1-3)]
    by (auto simp: atomically_def on_fund_def on_part_def split: prod.splits sum.splits)
qed

definition knows :: "uuid \<Rightarrow> ('w, 'p) fund_db \<Rightarrow> bool" where
  "knows e s \<longleftrightarrow> e \<in> set (event_inbox s)"

lemma after_add_once:
  assumes run: "bindE (add_once e) f s = (Inr r, t)" and keep: "\<And>new. keeps (knows e) (f new)"
  shows "knows e t"
proof -
  from run obtain new u where "add_once e s = (Inr new, u)" "f new u = (Inr r, t)" by (auto simp: bindE_Inr)
  with keepsD [OF keep [of new], of u] show ?thesis by (auto simp: add_once_Inr knows_def split: if_splits)
qed

lemma keeps_knows:
  "keeps (knows e) (update_order i f)" "keeps (knows e) (update_campaign i g)" "keeps (knows e) (investment_create c u a tx x)"
  unfolding update_order_def update_campaign_def investment_create_def fund_fresh_def
  by (intro keeps_intros keeps_modE; simp add: knows_def)+

lemma applied_event_known:
  assumes "apply_event e ty d s = (Inr r, t)"
  shows "knows e t"
  by (rule after_add_once [OF assms [unfolded apply_event_def set_order_status_def]]) (intro keeps_intros keeps_knows)

lemma served_again:
  assumes "ct_secret target = fk_secret env" "fk_secret env \<noteq> []" "\<forall>k b. fk_hmac env k b \<noteq> [] \<and> is_ascii (fk_hmac env k b)"
    and "parse (event_envelope isof r) = Some (px_id r, ty, d)" "apply_event (px_id r) ty d s = (Inr x, t)"
  shows "fund_serves env parse (callback_request_of (fk_hmac env) isof target r) t = (Answered 200, t)"
  using applied_event_known [OF assms(5)]
  by (simp add: fund_serves_signed [OF assms(1-3), of parse isof r, OF assms(4)] duplicate_event knows_def)

subsection \<open>Delivered is applied\<close>

definition fund_reply :: "fund_api_env \<Rightarrow> (string \<Rightarrow> (uuid \<times> string \<times> event_data) option) \<Rightarrow> (wallet_db, pay_db) fund_db \<Rightarrow>
    instant \<Rightarrow> callback_request \<Rightarrow> callback_reply" where
  "fund_reply env parse s ts q = fst (fund_serves env parse q s)"

definition sent_to :: "fund_api_env \<Rightarrow> (string \<Rightarrow> (uuid \<times> string \<times> event_data) option) \<Rightarrow> (instant \<Rightarrow> string) \<Rightarrow> callback_target \<Rightarrow>
    pay_outbox \<Rightarrow> (wallet_db, pay_db) fund_db \<Rightarrow> callback_reply \<times> (wallet_db, pay_db) fund_db" where
  "sent_to env parse isof target r = fund_serves env parse (callback_request_of (fk_hmac env) isof target r)"

lemma deliver_row_to:
  assumes "target_for targets (px_client r) = Some target" "lookup_row px_id (px_id r) (pay_outboxes p) = Some r0"
  shows "\<exists>sm' p' r'. deliver_row send targets r sm p = (Inr sm', p') \<and> lookup_row px_id (px_id r) (pay_outboxes p') = Some r'
    \<and> (px_status r' = Ob_delivered \<longleftrightarrow> send (pay_clock p) target r = None)"
  using assms
  by (cases "send (pay_clock p) target r")
    (simp_all add: deliver_row_def mark_delivered_def mark_failed_def op_defs lookup_update_row failed_row_def Let_def)

text \<open>
  The worker marks an event delivered exactly when the crowdfunding module applied it. With the secret of
  the module as the secret of its target, and a decoder that reads the envelope back, the delivery of a row ends,
  and the row is delivered if and only if the event was applied then and there (or before); if it was not, the
  module has changed nothing, and an event that is sent again after it was applied is accepted and changes nothing.
\<close>

theorem delivered_means_applied:
  assumes keyed: "ct_secret target = fk_secret env" "fk_secret env \<noteq> []" "\<forall>k b. fk_hmac env k b \<noteq> [] \<and> is_ascii (fk_hmac env k b)"
    and parse: "parse (event_envelope isof r) = Some (px_id r, px_type r, d)"
    and row: "target_for targets (px_client r) = Some target" "lookup_row px_id (px_id r) (pay_outboxes p) = Some r0"
  shows "\<exists>sm' p' r'. deliver_row (http_signed_sender (fk_hmac env) isof status_text (fund_reply env parse s)) targets r sm p = (Inr sm', p')
    \<and> lookup_row px_id (px_id r) (pay_outboxes p') = Some r'
    \<and> (px_status r' = Ob_delivered \<longleftrightarrow> (\<exists>x. apply_event (px_id r) (px_type r) d s = (Inr x, snd (sent_to env parse isof target r s))))
    \<and> (px_status r' \<noteq> Ob_delivered \<longrightarrow> snd (sent_to env parse isof target r s) = s)
    \<and> (px_status r' = Ob_delivered \<longrightarrow> sent_to env parse isof target r (snd (sent_to env parse isof target r s)) = (Answered 200, snd (sent_to env parse isof target r s)))"
proof -
  let ?send = "http_signed_sender (fk_hmac env) isof status_text (fund_reply env parse s)"
  obtain sm' p' r' where run: "deliver_row ?send targets r sm p = (Inr sm', p')" "lookup_row px_id (px_id r) (pay_outboxes p') = Some r'"
    "px_status r' = Ob_delivered \<longleftrightarrow> ?send (pay_clock p) target r = None"
    using deliver_row_to [OF row] by blast
  note serve = fund_serves_signed [OF keyed, of parse isof r, OF parse]
  show ?thesis
  proof (cases "fst (apply_event (px_id r) (px_type r) d s)")
    case (Inl e)
    then have bad: "sent_to env parse isof target r s = (Answered (fund_answer_code (event_error e)), s)"
      by (cases "apply_event (px_id r) (px_type r) d s") (simp add: sent_to_def serve)
    from error_codes(4) [of "event_error e"] have "?send (pay_clock p) target r \<noteq> None"
      by (simp add: http_signed_sender_def fund_reply_def bad [unfolded sent_to_def])
    with run Inl bad show ?thesis by (cases "apply_event (px_id r) (px_type r) d s") auto
  next
    case (Inr x)
    then obtain t where t: "apply_event (px_id r) (px_type r) d s = (Inr x, t)" by (cases "apply_event (px_id r) (px_type r) d s") simp
    then have good: "sent_to env parse isof target r s = (Answered 200, t)" by (simp add: sent_to_def serve)
    have "?send (pay_clock p) target r = None" by (simp add: http_signed_sender_def fund_reply_def good [unfolded sent_to_def])
    with run t good served_again [OF keyed, of parse isof r, OF parse t] show ?thesis by (auto simp: sent_to_def)
  qed
qed

text \<open>The investment of 2000 started outside the wallet, and the event of its payment.\<close>

definition demo_started :: "(wallet_db, pay_db) fund_db" where
  "demo_started = snd (start_external_investment demo_fund_api user_call 1 demo_external (beside_payments ''XOF''))"

definition demo_row :: pay_outbox where
  "demo_row = (let r = the (started_order ''XOF'') in \<lparr>px_id = 900, px_client = ''diddifund'', px_type = ''payment.succeeded'', px_aggregate = po_intent r,
     px_payload = Payment_payload ''e1'' (po_intent r) (po_reference r) (po_amount r) (po_currency r) ''succeeded'', px_status = Ob_delivering,
     px_attempts = 0, px_error = None, px_next_attempt = 0, px_delivered = None, px_locked = Some 0, px_created = 0\<rparr>)"

definition demo_data :: event_data where
  "demo_data = (let r = the (started_order ''XOF'') in \<lparr>ed_intent = Some (po_intent r), ed_reference = Some (po_reference r),
     ed_amount = po_amount r, ed_currency = Some (po_currency r), ed_status = Some ''succeeded''\<rparr>)"

theorem delivered_means_applied_witness:
  "\<exists>sm' p' r' t. deliver_row (http_signed_sender (fk_hmac demo_fund_api) (\<lambda>_. []) (\<lambda>_. [])
       (fund_reply demo_fund_api (\<lambda>_. Some (900, ''payment.succeeded'', demo_data)) demo_started))
       [(''diddifund'', \<lparr>ct_url = ''u'', ct_secret = ''s''\<rparr>)] demo_row no_delivery (empty_payments\<lparr>pay_outboxes := [demo_row]\<rparr>) = (Inr sm', p')
    \<and> lookup_row px_id 900 (pay_outboxes p') = Some r' \<and> px_status r' = Ob_delivered
    \<and> snd (sent_to demo_fund_api (\<lambda>_. Some (900, ''payment.succeeded'', demo_data)) (\<lambda>_. []) \<lparr>ct_url = ''u'', ct_secret = ''s''\<rparr> demo_row demo_started) = t
    \<and> map inv_amount (investments t) = [2000]
    \<and> sent_to demo_fund_api (\<lambda>_. Some (900, ''payment.succeeded'', demo_data)) (\<lambda>_. []) \<lparr>ct_url = ''u'', ct_secret = ''s''\<rparr> demo_row t = (Answered 200, t)"
proof -
  let ?parse = "\<lambda>_ :: string. Some (900 :: uuid, ''payment.succeeded'', demo_data)" and ?target = "\<lparr>ct_url = ''u'', ct_secret = ''s''\<rparr>"
  let ?p = "empty_payments\<lparr>pay_outboxes := [demo_row]\<rparr>" and ?isof = "\<lambda>_ :: instant. [] :: string"
  have id: "px_id demo_row = 900" "px_type demo_row = ''payment.succeeded''" "px_client demo_row = ''diddifund''"
    by (simp_all add: demo_row_def Let_def)
  have applied: "wp (apply_event 900 ''payment.succeeded'' demo_data) (\<lambda>_ t. map inv_amount (investments t) = [2000]) (\<lambda>_ _. False) demo_started"
    by code_simp
  from wp_returns [OF this] obtain x t where t: "apply_event 900 ''payment.succeeded'' demo_data demo_started = (Inr x, t)"
    "map inv_amount (investments t) = [2000]" by (elim exE conjE) (rule that)
  have keyed: "ct_secret ?target = fk_secret demo_fund_api" "fk_secret demo_fund_api \<noteq> []"
    "\<forall>k b. fk_hmac demo_fund_api k b \<noteq> [] \<and> is_ascii (fk_hmac demo_fund_api k b)"
    by (simp_all add: demo_fund_api_def is_ascii_def)
  have parse: "?parse (event_envelope ?isof demo_row) = Some (px_id demo_row, px_type demo_row, demo_data)" by (simp add: id)
  have row: "target_for [(''diddifund'', ?target)] (px_client demo_row) = Some ?target" "lookup_row px_id (px_id demo_row) (pay_outboxes ?p) = Some demo_row"
    by (simp_all add: target_for_def id)
  have sent: "snd (sent_to demo_fund_api ?parse ?isof ?target demo_row demo_started) = t"
    using fund_serves_signed [OF keyed, of ?parse ?isof demo_row, OF parse, of demo_started] t(1) by (simp add: sent_to_def id)
  from delivered_means_applied [OF keyed, of ?parse ?isof demo_row, OF parse row, of "\<lambda>_. []" demo_started no_delivery]
  obtain sm' p' r' where run: "deliver_row (http_signed_sender (fk_hmac demo_fund_api) ?isof (\<lambda>_. []) (fund_reply demo_fund_api ?parse demo_started))
      [(''diddifund'', ?target)] demo_row no_delivery ?p = (Inr sm', p')"
    "lookup_row px_id (px_id demo_row) (pay_outboxes p') = Some r'"
    "px_status r' = Ob_delivered \<longleftrightarrow> (\<exists>x. apply_event (px_id demo_row) (px_type demo_row) demo_data demo_started
       = (Inr x, snd (sent_to demo_fund_api ?parse ?isof ?target demo_row demo_started)))"
    "px_status r' = Ob_delivered \<longrightarrow> sent_to demo_fund_api ?parse ?isof ?target demo_row (snd (sent_to demo_fund_api ?parse ?isof ?target demo_row demo_started))
       = (Answered 200, snd (sent_to demo_fund_api ?parse ?isof ?target demo_row demo_started))"
    by (elim exE conjE) (rule that)
  from run(3) t(1) have yes: "px_status r' = Ob_delivered" unfolding sent id by simp
  show ?thesis using run(1) run(2) [unfolded id] yes sent t(2) run(4) [rule_format, OF yes, unfolded sent]
    by (intro exI [of _ sm'] exI [of _ p'] exI [of _ r'] exI [of _ t]) simp
qed

end
