(* ===== verification/Spec2Isabelle.thy ===== *)
theory Spec2Isabelle
  imports WalletSafety FundProps WalletContract ReportProps PayProps ProviderLimits WalletRelay SecurityProps SupportProps WalletApiProps DeliveryProps OpsProps SenderProps
begin

text \<open>
  A verification library of the DiddiPay back end (\<^verbatim>\<open>src/payfund_app\<close>): a FastAPI service over PostgreSQL with
  three modules and an operations package. \<^verbatim>\<open>modules/wallet\<close> keeps user wallets on a double-entry ledger,
  \<^verbatim>\<open>modules/fund\<close> runs campaigns and loans on top of the wallet, \<^verbatim>\<open>modules/payments\<close> takes payments, refunds
  and payouts through external processors for the other services of the platform, \<^verbatim>\<open>ops\<close> is the periodic work
  and its commands. \<^verbatim>\<open>core\<close> holds configuration, authentication, exceptions and the session of a request.

  \<^bold>\<open>How the code is read.\<close> A table is a list of rows, a row a record with the columns of the model; a session
  is the record of the tables of a module with the next identifier and the time. A function of the code that
  may raise is a computation \<open>('s, 'e, 'a) op\<close> of \<open>Prelude\<close>: from the state to the exception or the result,
  with the state the session then holds. \<open>atomically\<close> is \<^verbatim>\<open>core/database.py: get_session\<close>, commit on return
  and roll back on an exception; a use case that commits in the middle is written as two computations.
  Exceptions are constructors of \<open>wexc\<close>, \<open>fexc\<close>, \<open>pexc\<close> and \<open>aexc\<close>, with the HTTP status the code gives them.
  Unique constraints, foreign keys and check constraints are guards that raise \<open>IntegrityError\<close>; 64-bit
  columns raise out of range; \<^verbatim>\<open>Decimal\<close> values are rationals rounded by the context of \<open>Decimals\<close>; amounts are
  unbounded integers as in Python.

  \<^bold>\<open>Theories.\<close>
  \<^item> Shared: \<open>Prelude\<close> (computations, rules for invariants and for successful runs, tables, identifiers),
    \<open>PyStrings\<close>, \<open>PyValues\<close> (values of decoded JSON and Python's conversions of them), \<open>Json\<close> (canonical JSON and
    request fingerprints), \<open>Base64\<close>, \<open>Decimals\<close>.
  \<^item> Wallet domain and tables: \<open>Money\<close> (\<^verbatim>\<open>domain/money.py\<close>), \<open>WalletModel\<close> (\<^verbatim>\<open>domain/entities.py\<close>,
    \<^verbatim>\<open>domain/errors.py\<close>, \<^verbatim>\<open>infra/models.py\<close>), \<open>WalletRepos\<close> (\<^verbatim>\<open>infra/repositories.py\<close>,
    \<^verbatim>\<open>infra/exchange_rates.py\<close>), \<open>Ledger\<close> (\<^verbatim>\<open>application/ledger.py\<close>).
  \<^item> Wallet use cases: \<open>WalletPins\<close> and \<open>WalletOps\<close> (\<^verbatim>\<open>application/use_cases.py\<close>, \<^verbatim>\<open>infra/wallet_service.py\<close>,
    \<^verbatim>\<open>infra/subscribers.py\<close>), \<open>Gateways\<close> (\<^verbatim>\<open>infra/gateways.py\<close>, \<^verbatim>\<open>infra/pawapay_gateway.py\<close>), \<open>Exchange\<close>
    (\<^verbatim>\<open>application/exchange.py\<close>), \<open>Qr\<close> (\<^verbatim>\<open>domain/qr.py\<close>, \<^verbatim>\<open>application/qr_service.py\<close>).
  \<^item> Wallet boundary: \<open>WalletWebhook\<close> (the Paystack webhook with its inbox and logs), \<open>WalletSweep\<close>
    (reconciliation sweep, outbox relay, housekeeping), \<open>WalletApi\<close> (\<^verbatim>\<open>presentation/routers.py\<close>,
    \<^verbatim>\<open>presentation/schemas.py\<close>), \<open>Security\<close> (\<^verbatim>\<open>core/security.py\<close> and the dependencies that authenticate callers).
  \<^item> Crowdfunding: \<open>Loan\<close> (\<^verbatim>\<open>domain/loan.py\<close>), \<open>Fund\<close> (tables, repositories, \<^verbatim>\<open>application/use_cases.py\<close>),
    \<open>FundPayments\<close> (\<^verbatim>\<open>application/payment_use_cases.py\<close>).
  \<^item> Payments: \<open>PayDomain\<close>, \<open>PayDb\<close>, \<open>PayRouter\<close>, \<open>PayUse\<close>, \<open>PayoutUse\<close>, \<open>PayReports\<close>, \<open>SupportRefunds\<close>
    (entities, tables, processor port and selection, use cases, payouts, deliveries, commands, read models,
    delegated refunds), \<open>Paystack\<close>, \<open>Jeko\<close>, \<open>Pawapay\<close>, \<open>Cinetpay\<close>, \<open>Processors\<close> (the adapters and their registration).
  \<^item> Payment boundary: \<open>Checkout\<close> (\<^verbatim>\<open>presentation/checkout_return.py\<close>), \<open>PayApi\<close> (the routes for clients and the Paystack
    webhook), \<open>Senders\<close> (\<^verbatim>\<open>infra/callback_delivery.py\<close>), \<open>PayInternal\<close> (the routes of the back office, of Pilotage and of support, the payment jobs of
    \<^verbatim>\<open>ops/maintenance.py\<close>). Crowdfunding boundary: \<open>FundApi\<close> (\<^verbatim>\<open>presentation/routers.py\<close> and the adapter of
    \<^verbatim>\<open>infra/payment_orchestrator.py\<close>, which runs the payment module on the tables beside those of the module).
  \<^item> Operations: \<open>Ops\<close> (\<^verbatim>\<open>ops/__main__.py\<close>, \<^verbatim>\<open>ops/worker_health.py\<close>): the commands and the payment worker, over the
    tables of the wallet and of payments.

  \<^bold>\<open>Interfaces.\<close> \<open>wallet_contract\<close> (\<open>WalletContract\<close>) states what \<^verbatim>\<open>shared_kernel/contracts/wallet_provider.py\<close>
  promises to the fund module; the fund lemmas are proved inside it and the modelled wallet interprets it.
  \<open>redirecting\<close> (\<open>Processors\<close>) states that a processor never pays at creation; the five processors interpret it.
  \<open>status_machine\<close> (\<open>PayDomain\<close>) states that settled statuses stay settled; intents, attempts and refunds
  interpret it.

  \<^bold>\<open>What is shown.\<close>
  \<^item> \<open>LedgerInv\<close>, \<open>WalletInv\<close>, \<open>WalletSteps\<close>, \<open>WalletReach\<close>: \<open>wallet_inv\<close> holds in every reachable wallet.
    \<open>WalletProps\<close> and \<open>WalletSafety\<close>: the books balance, accounts are not overdrawn, money moves once and as asked,
    PINs and step-up proofs are demanded, deposits and withdrawals settle once.
  \<^item> \<open>WalletSweepProps\<close>: whatever the webhook, operators and jobs do is a sequence of wallet requests, so all of
    the above holds with them, and a charge is applied once however often it is notified. \<open>WalletWebhookProps\<close>, \<open>WalletRelay\<close>, \<open>QrProps\<close>, \<open>WalletApiProps\<close>: signed and exact
    notifications only, events published exactly once, payment codes authentic and readable, every route acting
    for the user its token proves.
  \<^item> \<open>FundInv\<close>, \<open>FundReach\<close>, \<open>FundProps\<close>: campaigns, investments and loans stay consistent for any wallet that
    keeps the contract; \<open>Loan\<close>: terms and schedules.
  \<^item> \<open>PaySteps\<close>: a world is the database with the second halves of requests still to run; a step begins a
    request, runs an outstanding half, or loses one (a crash between two commits). \<open>PayInv\<close>, \<open>PayReach\<close>:
    \<open>pay_inv\<close> in every reachable world. \<open>PayProps\<close>, \<open>ReportProps\<close>, \<open>DeliveryProps\<close>, \<open>SupportProps\<close>: balanced books,
    refunds within payments, paid payments stay paid, reports that add up, events settled within ten runs when
    they are due and the runs take all of them, support told what became of the refund it asked for.
  \<^item> \<open>ProcessorProps\<close>, \<open>ProviderLimits\<close>, \<open>SecurityProps\<close>: what the adapters accept as paid, and where they fall
    short; who is admitted as a caller.
  \<^item> \<open>RouteProps\<close>, \<open>OpsProps\<close>: whatever a writing route, the Paystack webhook or a cycle of the worker has done when
    it ends is a sequence of steps of \<open>PaySteps\<close>, so \<open>pay_inv\<close> holds after it; refunds asked for by support are outside. \<open>PayApiProps\<close>: what a route shows belongs to its client.
    \<open>FundApiProps\<close>: the order of an investment and the payment behind it agree. \<open>SenderProps\<close>: the worker marks a
    callback delivered exactly when the crowdfunding module has applied it.
  \<^item> \<open>WalletDemo\<close>, \<open>FundDemo\<close>, \<open>PayDemo\<close>: concrete runs, to which the properties are applied.

  \<^bold>\<open>Parameters and bounds.\<close> PyJWT, argon2 and SHA-256, HMAC, the JSON decoder, the HTTP client, the event
  bus, Redis and the providers are arguments; hypotheses on them are named in the theorems.
  A processor is a function of the request and the time. Recursion is over the lists a query returned, so no
  fuel is used; the ten runs of \<open>DeliveryProps\<close> are \<open>MAX_ATTEMPTS\<close>, the hour between them the longest delay.
  Identifiers come from a counter and are written as numerals. Requests are atomic between their commits: row
  locks are not modelled beyond that, and the isolation level is taken to be enough for it.

  \<^bold>\<open>Not modelled.\<close> Column widths of texts, metadata columns, metrics and log lines; the checks Pydantic makes of
  responses; \<^verbatim>\<open>transfer_otp_challenges\<close>, which nothing uses; the transport of the event bus, which is a
  parameter; what the commands print, the file of the heartbeat and the sleep of the worker;
  observability, \<^verbatim>\<open>main.py\<close>, the checks of the settings at start and the migrations (configuration only).
\<close>

end
